(* ===== verification/Prelude.thy ===== *)
theory Prelude
  imports Main "HOL-Library.AList" "HOL-Library.Char_ord" "HOL-Library.List_Lexorder"
    "HOL-Library.Sublist"
begin

text \<open>
  Shared vocabulary of the development.  Python dictionaries are association lists: lookup
  is \<^const>\<open>map_of\<close>, assignment is \<^const>\<open>AList.update\<close> (an existing key
  keeps its position, a new key goes to the end, as in CPython) and \<open>pop\<close> with a default is
  \<^const>\<open>AList.delete\<close>.  Python strings are byte strings of type \<^typ>\<open>string\<close>
  (UTF-8); byte order agrees with code-point order, so \<open>sorted\<close> is the lexicographic
  \<^const>\<open>sort\<close>.  Errors are the left summand of a sum type.
\<close>

section \<open>Collections of rewrite rules\<close>

named_theorems dict_simps \<open>lookups in updated, deleted and filtered dictionaries\<close>
named_theorems sorted_simps \<open>membership and order of \<open>sorted(set(...))\<close>\<close>

section \<open>Dictionaries\<close>

type_synonym ('k, 'v) dict = "('k \<times> 'v) list"

abbreviation dict_keys :: "('k, 'v) dict \<Rightarrow> 'k list" where
  "dict_keys d \<equiv> map fst d"

abbreviation dict_get :: "('k, 'v) dict \<Rightarrow> 'k \<Rightarrow> 'v option" where
  "dict_get \<equiv> map_of"

abbreviation dict_set :: "'k \<Rightarrow> 'v \<Rightarrow> ('k, 'v) dict \<Rightarrow> ('k, 'v) dict" where
  "dict_set \<equiv> AList.update"

abbreviation dict_pop :: "'k \<Rightarrow> ('k, 'v) dict \<Rightarrow> ('k, 'v) dict" where
  "dict_pop \<equiv> AList.delete"

text \<open>A dictionary is well formed when no key occurs twice.\<close>

abbreviation dict_ok :: "('k, 'v) dict \<Rightarrow> bool" where
  "dict_ok d \<equiv> distinct (dict_keys d)"

lemma dict_get_set [dict_simps]:
  "dict_get (dict_set k v d) k' = (if k' = k then Some v else dict_get d k')"
  by (simp add: update_conv')

lemma dict_get_pop [dict_simps]:
  "dict_get (dict_pop k d) k' = (if k' = k then None else dict_get d k')"
  by (simp add: delete_conv')

lemma dict_get_None_iff: "dict_get d k = None \<longleftrightarrow> k \<notin> set (dict_keys d)"
  by (simp add: map_of_eq_None_iff)

lemma dict_key_iff: "k \<in> set (dict_keys d) \<longleftrightarrow> (\<exists>v. dict_get d k = Some v)"
  by (metis dict_get_None_iff not_None_eq)

lemma dict_get_filter [dict_simps]:
  assumes "dict_ok d"
  shows "dict_get (filter (\<lambda>(k, v). P k v) d) k =
    (case dict_get d k of None \<Rightarrow> None | Some v \<Rightarrow> if P k v then Some v else None)"
  using assms
proof (induction d)
  case Nil
  then show ?case by simp
next
  case (Cons a d)
  obtain k' v' where a: "a = (k', v')" by (cases a)
  from Cons.prems a have "k' \<notin> set (dict_keys d)" and "dict_ok d" by auto
  then have "dict_get d k' = None" by (simp only: dict_get_None_iff not_False_eq_True)
  with Cons.IH [OF \<open>dict_ok d\<close>] a show ?case by (auto split: option.splits)
qed

lemma dict_ok_filter: "dict_ok d \<Longrightarrow> dict_ok (filter P d)"
  by (simp add: distinct_map_filter)

lemma dict_ok_set: "dict_ok d \<Longrightarrow> dict_ok (dict_set k v d)"
  by (rule distinct_update)

lemma dict_ok_pop: "dict_ok d \<Longrightarrow> dict_ok (dict_pop k d)"
  by (rule distinct_delete)

lemma dict_get_map [dict_simps]:
  "dict_get (map (\<lambda>(k, v). (k, f k v)) d) k = map_option (f k) (dict_get d k)"
  by (induction d) auto

lemma dict_set_new: "k \<notin> set (dict_keys d) \<Longrightarrow> dict_set k v d = d @ [(k, v)]"
  by (induction d) auto

lemma dict_get_pairs: "dict_get (map (\<lambda>k. (k, f k)) ks) k = (if k \<in> set ks then Some (f k) else None)"
  by (induction ks) auto

section \<open>Outcomes of an evaluation\<close>

lemma outcome_iff:
  "(case r of Inl _ \<Rightarrow> False | Inr y \<Rightarrow> P y) \<longleftrightarrow> (\<exists>y. r = Inr y \<and> P y)"
  "(case v of None \<Rightarrow> False | Some x \<Rightarrow> Q x) \<longleftrightarrow> (\<exists>x. v = Some x \<and> Q x)"
  by (auto split: sum.split option.split)

section \<open>Sorted key lists\<close>

lemma sort_key_Nil_iff: "sort_key f xs = [] \<longleftrightarrow> xs = []"
  by (metis length_0_conv length_sort)

text \<open>Python's \<open>sorted(set(xs))\<close>.\<close>

definition sorted_set :: "'a::linorder list \<Rightarrow> 'a list" where
  "sorted_set xs = sort (remdups xs)"

lemma set_sorted_set [simp, sorted_simps]: "set (sorted_set xs) = set xs"
  by (simp add: sorted_set_def)

lemma distinct_sorted_set [simp, sorted_simps]: "distinct (sorted_set xs)"
  by (simp add: sorted_set_def)

lemma sorted_sorted_set [simp, sorted_simps]: "sorted (sorted_set xs)"
  by (simp add: sorted_set_def)

lemma sorted_set_cong: "set xs = set ys \<Longrightarrow> sorted_set xs = sorted_set ys"
  by (rule sorted_distinct_set_unique) simp_all

text \<open>Python's \<open>sorted(set(a) | set(b))\<close> for two dictionaries.\<close>

definition sorted_paths :: "('k::linorder, 'v) dict \<Rightarrow> ('k, 'w) dict \<Rightarrow> 'k list" where
  "sorted_paths a b = sorted_set (dict_keys a @ dict_keys b)"

lemma set_sorted_paths [sorted_simps]:
  "p \<in> set (sorted_paths a b) \<longleftrightarrow> dict_get a p \<noteq> None \<or> dict_get b p \<noteq> None"
  unfolding sorted_paths_def set_sorted_set set_append Un_iff dict_get_None_iff by blast

lemma sorted_paths_props [simp, sorted_simps]:
  "distinct (sorted_paths a b)" "sorted (sorted_paths a b)"
  by (simp_all add: sorted_paths_def)

lemma sorted_paths_comm: "sorted_paths a b = sorted_paths b a"
  unfolding sorted_paths_def by (rule sorted_set_cong) auto

section \<open>Partial maps over lists\<close>

lemma set_map_filter_iff: "y \<in> set (List.map_filter f xs) \<longleftrightarrow> (\<exists>x \<in> set xs. f x = Some y)"
  by (induction xs) (auto simp: map_filter_simps split: option.splits)

lemma map_map_filter: "map f (List.map_filter g xs) = List.map_filter (map_option f \<circ> g) xs"
  by (induction xs) (auto simp: map_filter_simps split: option.splits)

lemma option_ext: "(\<And>x. a = Some x \<longleftrightarrow> b = Some x) \<Longrightarrow> a = b"
  by (metis not_None_eq)

section \<open>Strings\<close>

type_synonym path = string

text \<open>The UTF-8 bytes of U+2014, which some messages of the program contain.\<close>

definition em_dash :: string where
  "em_dash = [CHR 0xE2, CHR 0x80, CHR 0x94]"

text \<open>The ASCII characters that Python's \<open>str.strip()\<close> removes.\<close>

definition py_space :: "char \<Rightarrow> bool" where
  "py_space c \<longleftrightarrow> c \<in> {CHR '' '', CHR 0x09, CHR 0x0A, CHR 0x0B, CHR 0x0C, CHR 0x0D,
     CHR 0x1C, CHR 0x1D, CHR 0x1E, CHR 0x1F}"

definition strip_with :: "(char \<Rightarrow> bool) \<Rightarrow> string \<Rightarrow> string" where
  "strip_with P s = rev (dropWhile P (rev (dropWhile P s)))"

definition py_strip :: "string \<Rightarrow> string" where
  "py_strip = strip_with py_space"

definition strip_slash :: "string \<Rightarrow> string" where
  "strip_slash = strip_with (\<lambda>c. c = CHR ''/'')"

text \<open>\<open>str.split(sep)\<close> for a one-character separator, and \<open>sep.join(parts)\<close>.\<close>

fun split_on :: "char \<Rightarrow> string \<Rightarrow> string list" where
  "split_on c [] = [[]]"
| "split_on c (x # xs) =
     (if x = c then [] # split_on c xs
      else (case split_on c xs of [] \<Rightarrow> [[x]] | y # ys \<Rightarrow> (x # y) # ys))"

fun join_with :: "string \<Rightarrow> string list \<Rightarrow> string" where
  "join_with sep [] = []"
| "join_with sep [x] = x"
| "join_with sep (x # y # r) = x @ sep @ join_with sep (y # r)"

lemma split_on_nonempty [simp]: "split_on c s \<noteq> []"
  by (induction s) (auto split: list.splits)

lemma split_on_parts: "p \<in> set (split_on c s) \<Longrightarrow> c \<notin> set p"
proof (induction s arbitrary: p)
  case Nil
  then show ?case by simp
next
  case (Cons x xs)
  then show ?case by (cases "split_on c xs") (fastforce split: if_splits)+
qed

lemma join_split [simp]: "join_with [c] (split_on c s) = s"
proof (induction s)
  case Nil
  then show ?case by simp
next
  case (Cons x xs)
  then show ?case
    by (cases "split_on c xs"; cases "tl (split_on c xs)") auto
qed

lemma split_on_no_sep: "c \<notin> set p \<Longrightarrow> split_on c p = [p]"
  by (induction p) auto

lemma split_on_append: "c \<notin> set p \<Longrightarrow> split_on c (p @ c # s) = p # split_on c s"
  by (induction p) auto

lemma split_join:
  assumes "ps \<noteq> []" and "\<forall>p \<in> set ps. c \<notin> set p"
  shows "split_on c (join_with [c] ps) = ps"
  using assms by (induction "[c]" ps rule: join_with.induct)
    (auto simp: split_on_no_sep split_on_append)

lemma strip_with_id: "s = [] \<or> (\<not> P (hd s) \<and> \<not> P (last s)) \<Longrightarrow> strip_with P s = s"
proof (cases "s = []")
  case False
  assume "s = [] \<or> (\<not> P (hd s) \<and> \<not> P (last s))"
  with False have "dropWhile P s = s" and "dropWhile P (rev s) = rev s"
    by (simp_all add: dropWhile_eq_self_iff hd_rev)
  then show ?thesis by (simp add: strip_with_def)
qed (simp add: strip_with_def)

lemma strip_with_last:
  assumes "strip_with P s \<noteq> []"
  shows "\<not> P (last (strip_with P s))"
  using assms hd_dropWhile [of P "rev (dropWhile P s)"]
  by (auto simp: strip_with_def last_rev)

lemma strip_with_hd:
  assumes "strip_with P s \<noteq> []"
  shows "\<not> P (hd (strip_with P s))"
proof -
  let ?t = "dropWhile P s"
  have ne: "?t \<noteq> []" using assms by (metis strip_with_def dropWhile.simps(1) rev.simps(1))
  obtain pre where "rev ?t = pre @ dropWhile P (rev ?t)"
    by (metis takeWhile_dropWhile_id)
  then have "?t = strip_with P s @ rev pre"
    unfolding strip_with_def by (metis rev_append rev_rev_ident)
  then have "hd ?t = hd (strip_with P s)" using assms by (metis hd_append2)
  with hd_dropWhile [OF ne] show ?thesis by simp
qed

lemma split_on_chars: "p \<in> set (split_on c s) \<Longrightarrow> set p \<subseteq> set s"
proof (induction s arbitrary: p)
  case (Cons x xs)
  then show ?case by (cases "split_on c xs") (fastforce split: if_splits)+
qed simp

lemma strip_with_set: "set (strip_with P s) \<subseteq> set s"
  unfolding strip_with_def by (metis set_dropWhileD set_rev subsetI)

text \<open>\<open>str.lower\<close> on ASCII text.\<close>

definition ascii_lower :: "string \<Rightarrow> string" where
  "ascii_lower = map (\<lambda>c. if CHR ''A'' \<le> c \<and> c \<le> CHR ''Z'' then char_of (of_char c + 32 :: nat) else c)"

end
