(* ===== verification/Manifest.thy ===== *)
theory Manifest
  imports Prelude
begin

text \<open>
  The manifest of a project tree (\<open>src/remrun/manifest.py\<close>): the file entry, the exclude
  patterns with the glob language of \<open>fnmatch\<close>, and \<open>build_manifest\<close>, the walk that
  turns a directory tree into a manifest or fails.  A directory tree is what \<open>os.walk\<close> and
  \<open>stat\<close> report of it, failures included, so that the fail-closed behaviour of the walk is
  part of the model.
\<close>

section \<open>File entries\<close>

record file_entry =
  fe_path :: path
  fe_kind :: string
  fe_size :: int
  fe_mtime_ns :: int
  fe_sha256 :: "string option"
  fe_mode :: "int option"

type_synonym manifest = "(path, file_entry) dict"

definition comparable_tuple :: "file_entry \<Rightarrow> string \<times> int \<times> int \<times> string option" where
  "comparable_tuple e = (fe_kind e, fe_size e, fe_mtime_ns e, fe_sha256 e)"

record identity_v2 =
  id_kind :: string
  id_size :: int
  id_mtime_ns :: int
  id_sha256 :: "string option"
  id_mode :: "int option"

definition canonical_identity :: "file_entry \<Rightarrow> identity_v2" where
  "canonical_identity e =
     \<lparr>id_kind = fe_kind e, id_size = fe_size e, id_mtime_ns = fe_mtime_ns e,
      id_sha256 = fe_sha256 e, id_mode = fe_mode e\<rparr>"

section \<open>Glob patterns\<close>

text \<open>
  The pattern language of the standard library's \<open>fnmatch.fnmatchcase\<close>.  A bracket set is
  the list of its ranges (a single character is a range of one); an unclosed bracket is a
  literal.  As in \<open>fnmatch\<close>, \<open>*\<close> also matches a slash.
\<close>

datatype glob_token = Lit char | AnyChar | Star | CharSet bool "(char \<times> char) list"

fun range_items :: "string \<Rightarrow> (char \<times> char) list" where
  "range_items [] = []"
| "range_items [x] = [(x, x)]"
| "range_items [x, m] = [(x, x), (m, m)]"
| "range_items (x # m # y # r) =
     (if m = CHR ''-'' then (x, y) # range_items r else (x, x) # range_items (m # y # r))"

text \<open>The negation flag, the body and the rest of a bracket set, after its opening bracket.\<close>

definition bracket_close :: "bool \<Rightarrow> string \<Rightarrow> string \<Rightarrow> (bool \<times> string \<times> string) option" where
  "bracket_close neg lead r =
     (case dropWhile (\<lambda>c. c \<noteq> CHR '']'') r of
        [] \<Rightarrow> None
      | _ # rest \<Rightarrow> Some (neg, lead @ takeWhile (\<lambda>c. c \<noteq> CHR '']'') r, rest))"

definition bracket :: "string \<Rightarrow> (bool \<times> string \<times> string) option" where
  "bracket r =
     (let neg = (r \<noteq> [] \<and> hd r = CHR ''!'');
          r1 = (if neg then tl r else r);
          lead = (if r1 \<noteq> [] \<and> hd r1 = CHR '']'' then [CHR '']''] else [])
      in bracket_close neg lead (drop (length lead) r1))"

lemma bracket_close_shorter:
  assumes "bracket_close neg lead r = Some (neg', body, rest)"
  shows "length rest < length r"
proof -
  obtain x where "dropWhile (\<lambda>c. c \<noteq> CHR '']'') r = x # rest"
    using assms by (auto simp: bracket_close_def split: list.splits)
  then have "length (x # rest) \<le> length r"
    by (metis length_dropWhile_le)
  then show ?thesis by simp
qed

lemma bracket_shorter:
  assumes "bracket r = Some (neg, body, rest)"
  shows "length rest < length r"
proof -
  obtain n l k where "bracket_close n l (drop k (if n then tl r else r)) = Some (neg, body, rest)"
    using assms unfolding bracket_def Let_def by blast
  from bracket_close_shorter [OF this] show ?thesis by (cases n) auto
qed

function glob_tokens :: "string \<Rightarrow> glob_token list" where
  "glob_tokens [] = []"
| "glob_tokens (c # r) =
     (if c = CHR ''*'' then Star # glob_tokens r
      else if c = CHR ''?'' then AnyChar # glob_tokens r
      else if c = CHR ''['' then
        (case bracket r of
           None \<Rightarrow> Lit c # glob_tokens r
         | Some (neg, body, rest) \<Rightarrow> CharSet neg (range_items body) # glob_tokens rest)
      else Lit c # glob_tokens r)"
  by pat_completeness auto
termination
  by (relation "measure length") (auto dest: bracket_shorter)

fun token_matches :: "glob_token \<Rightarrow> char \<Rightarrow> bool" where
  "token_matches (Lit x) c \<longleftrightarrow> x = c"
| "token_matches AnyChar c \<longleftrightarrow> True"
| "token_matches Star c \<longleftrightarrow> True"
| "token_matches (CharSet neg rs) c \<longleftrightarrow> neg \<noteq> (\<exists>r \<in> set rs. fst r \<le> c \<and> c \<le> snd r)"

fun tokens_match :: "glob_token list \<Rightarrow> string \<Rightarrow> bool" where
  "tokens_match [] s \<longleftrightarrow> s = []"
| "tokens_match (Star # ts) [] \<longleftrightarrow> tokens_match ts []"
| "tokens_match (Star # ts) (c # s) \<longleftrightarrow> tokens_match ts (c # s) \<or> tokens_match (Star # ts) s"
| "tokens_match (t # ts) [] \<longleftrightarrow> False"
| "tokens_match (t # ts) (c # s) \<longleftrightarrow> token_matches t c \<and> tokens_match ts s"

text \<open>\<open>normcase\<close> is the platform's \<open>os.path.normcase\<close>: the identity on POSIX.\<close>

definition fnmatch :: "(string \<Rightarrow> string) \<Rightarrow> string \<Rightarrow> string \<Rightarrow> bool" where
  "fnmatch normcase name pat = tokens_match (glob_tokens (normcase pat)) (normcase name)"

section \<open>Exclude patterns\<close>

definition pattern_excludes :: "(string \<Rightarrow> string) \<Rightarrow> path \<Rightarrow> string \<Rightarrow> bool" where
  "pattern_excludes normcase rel pattern =
     (let pat = py_strip pattern
      in if pat = [] then False
         else if suffix ''/**'' pat \<and>
                 (let pre = strip_slash (take (length pat - 3) pat)
                  in rel = pre \<or> prefix (pre @ ''/'') rel)
         then True
         else fnmatch normcase rel pat \<or> fnmatch normcase (''/'' @ rel) pat)"

definition should_exclude :: "(string \<Rightarrow> string) \<Rightarrow> path \<Rightarrow> string list \<Rightarrow> bool" where
  "should_exclude normcase rel_posix patterns =
     list_ex (pattern_excludes normcase (strip_slash rel_posix)) patterns"

section \<open>Directory trees as the walk observes them\<close>

text \<open>
  \<open>hash_outcome\<close> is what \<open>sha256_file\<close> does when asked; \<open>file_obs\<close> is what
  \<open>is_symlink\<close> and \<open>stat\<close> report of a directory entry that is not a directory;
  \<open>link_obs\<close> is what \<open>_is_directory_link\<close> reports of a subdirectory.  A directory that
  cannot be enumerated is \<open>ScanError\<close>: \<open>os.walk\<close> calls its \<open>onerror\<close> there.
\<close>

datatype hash_outcome = HashOk string | HashVanished | HashIOError

record stat_result =
  st_mode :: int
  st_size :: int
  st_mtime_ns :: int
  st_hash :: hash_outcome

datatype file_obs = FileVanished | FileSymlink | FileIOError | FileStat stat_result

datatype link_obs = NotLink | DirectoryLink | LinkIOError

datatype dir_tree =
    ScanError
  | Listing "(string \<times> link_obs \<times> dir_tree) list" "(string \<times> file_obs) list"

datatype manifest_error =
    CannotScan path
  | CannotInspect path
  | CannotRead path
  | ChangedWhileHashing path
  | CannotHash path

record walk_config =
  wc_normcase :: "string \<Rightarrow> string"
  wc_exclude :: "string list"
  wc_hash_below :: "int option"
  wc_always_hash :: bool
  wc_include :: "path list"

definition forced_paths :: "walk_config \<Rightarrow> path list" where
  "forced_paths c = map strip_slash (filter (\<lambda>p. p \<noteq> []) (wc_include c))"

definition forced_or_descendant :: "walk_config \<Rightarrow> path \<Rightarrow> bool" where
  "forced_or_descendant c rel \<longleftrightarrow>
     rel \<in> set (forced_paths c) \<or> list_ex (\<lambda>p. prefix (rel @ ''/'') p) (forced_paths c)"

definition excluded :: "walk_config \<Rightarrow> path \<Rightarrow> bool" where
  "excluded c rel \<longleftrightarrow>
     should_exclude (wc_normcase c) rel (wc_exclude c) \<and> \<not> forced_or_descendant c rel"

definition rel_join :: "path \<Rightarrow> string \<Rightarrow> path" where
  "rel_join rel_dir name = (if rel_dir = [] then name else rel_dir @ ''/'' @ name)"

definition S_ISREG :: "int \<Rightarrow> bool" where
  "S_ISREG m \<longleftrightarrow> m div 4096 mod 16 = 8"

text \<open>The pruning pass over \<open>dirnames\<close>: the first link check that fails aborts the walk.\<close>

fun prune_dirs ::
  "walk_config \<Rightarrow> path \<Rightarrow> (string \<times> link_obs \<times> dir_tree) list \<Rightarrow> manifest_error + string list" where
  "prune_dirs c rel_dir [] = Inr []"
| "prune_dirs c rel_dir ((name, link, sub) # ds) =
     (let rel = rel_join rel_dir name
      in if excluded c rel then prune_dirs c rel_dir ds
         else (case link of
             LinkIOError \<Rightarrow> Inl (CannotInspect rel)
           | DirectoryLink \<Rightarrow> prune_dirs c rel_dir ds
           | NotLink \<Rightarrow>
               (case prune_dirs c rel_dir ds of
                  Inl e \<Rightarrow> Inl e
                | Inr kept \<Rightarrow> Inr (name # kept))))"

definition wants_hash :: "walk_config \<Rightarrow> int \<Rightarrow> bool" where
  "wants_hash c sz \<longleftrightarrow>
     wc_always_hash c \<or> (case wc_hash_below c of None \<Rightarrow> False | Some n \<Rightarrow> sz \<le> n)"

definition stat_entry :: "path \<Rightarrow> stat_result \<Rightarrow> string option \<Rightarrow> file_entry" where
  "stat_entry rel st digest =
     \<lparr>fe_path = rel, fe_kind = ''file'', fe_size = st_size st, fe_mtime_ns = st_mtime_ns st,
      fe_sha256 = digest, fe_mode = Some (st_mode st mod 512)\<rparr>"

text \<open>One file of a directory: skipped, entered, or the error that aborts the walk.\<close>

definition scan_file :: "walk_config \<Rightarrow> path \<Rightarrow> file_obs \<Rightarrow> manifest_error + file_entry option" where
  "scan_file c rel obs =
     (if excluded c rel then Inr None
      else (case obs of
          FileSymlink \<Rightarrow> Inr None
        | FileVanished \<Rightarrow> Inr None
        | FileIOError \<Rightarrow> Inl (CannotRead rel)
        | FileStat st \<Rightarrow>
            if \<not> S_ISREG (st_mode st) then Inr None
            else if wants_hash c (st_size st) then
              (case st_hash st of
                 HashOk digest \<Rightarrow> Inr (Some (stat_entry rel st (Some digest)))
               | HashVanished \<Rightarrow> Inl (ChangedWhileHashing rel)
               | HashIOError \<Rightarrow> Inl (CannotHash rel))
            else Inr (Some (stat_entry rel st None))))"

fun scan_files ::
  "walk_config \<Rightarrow> path \<Rightarrow> (string \<times> file_obs) list \<Rightarrow> manifest \<Rightarrow> manifest_error + manifest" where
  "scan_files c rel_dir [] m = Inr m"
| "scan_files c rel_dir ((name, obs) # fs) m =
     (let rel = rel_join rel_dir name
      in (case scan_file c rel obs of
            Inl e \<Rightarrow> Inl e
          | Inr None \<Rightarrow> scan_files c rel_dir fs m
          | Inr (Some e) \<Rightarrow> scan_files c rel_dir fs (dict_set rel e m)))"

text \<open>
  \<open>os.walk\<close> top down: prune the subdirectories, enter the files, then descend into the kept
  subdirectories in order.
\<close>

fun walk_dir :: "walk_config \<Rightarrow> path \<Rightarrow> dir_tree \<Rightarrow> manifest \<Rightarrow> manifest_error + manifest"
  and walk_subdirs ::
    "walk_config \<Rightarrow> path \<Rightarrow> string list \<Rightarrow> (string \<times> link_obs \<times> dir_tree) list \<Rightarrow> manifest
     \<Rightarrow> manifest_error + manifest" where
  "walk_dir c rel_dir ScanError m = Inl (CannotScan rel_dir)"
| "walk_dir c rel_dir (Listing ds fs) m =
     (case prune_dirs c rel_dir ds of
        Inl e \<Rightarrow> Inl e
      | Inr kept \<Rightarrow>
          (case scan_files c rel_dir fs m of
             Inl e \<Rightarrow> Inl e
           | Inr m' \<Rightarrow> walk_subdirs c rel_dir kept ds m'))"
| "walk_subdirs c rel_dir kept [] m = Inr m"
| "walk_subdirs c rel_dir kept ((name, link, sub) # ds) m =
     (if name \<in> set kept then
        (case walk_dir c (rel_join rel_dir name) sub m of
           Inl e \<Rightarrow> Inl e
         | Inr m' \<Rightarrow> walk_subdirs c rel_dir kept ds m')
      else walk_subdirs c rel_dir kept ds m)"

text \<open>\<open>None\<close> is a root that does not exist.\<close>

definition build_manifest :: "walk_config \<Rightarrow> dir_tree option \<Rightarrow> manifest_error + manifest" where
  "build_manifest c root =
     (case root of None \<Rightarrow> Inr [] | Some t \<Rightarrow> walk_dir c [] t [])"

end
