(* ===== verification/TransferPlan.thy ===== *)
theory TransferPlan
  imports Manifest
begin

text \<open>
  The transfer planner (\<open>src/remrun/transfer_plan.py\<close>): every path of the two manifests is
  classified against the two baselines, and the classification carries the action the
  reconcile engine takes.  The theorems say that the plan decides every path exactly once,
  that it is symmetric in the two sides, that it never overwrites or deletes a side that
  changed since its own baseline, and that it proposes no deletion without a baseline.
\<close>

section \<open>Actions and plans\<close>

datatype action = NONE | PUSH | PULL | DELETE_REMOTE | DELETE_LOCAL | ABORT_CONFLICT

definition DESTRUCTIVE_ACTIONS :: "action set" where
  "DESTRUCTIVE_ACTIONS = {DELETE_REMOTE, DELETE_LOCAL}"

record classified_path =
  cp_path :: path
  cp_state :: string
  cp_action :: action
  cp_reason :: string

abbreviation ClassifiedPath :: "path \<Rightarrow> string \<Rightarrow> action \<Rightarrow> string \<Rightarrow> classified_path" where
  "ClassifiedPath p s a r \<equiv> \<lparr>cp_path = p, cp_state = s, cp_action = a, cp_reason = r\<rparr>"

record reconciliation_plan =
  paths :: "classified_path list"

fun count_actions :: "classified_path list \<Rightarrow> (action, int) dict \<Rightarrow> (action, int) dict" where
  "count_actions [] out = out"
| "count_actions (item # items) out =
     count_actions items
       (dict_set (cp_action item)
          ((case dict_get out (cp_action item) of None \<Rightarrow> 0 | Some n \<Rightarrow> n) + 1) out)"

definition counts :: "reconciliation_plan \<Rightarrow> (action, int) dict" where
  "counts plan = count_actions (paths plan) []"

definition has_conflicts :: "reconciliation_plan \<Rightarrow> bool" where
  "has_conflicts plan = list_ex (\<lambda>i. cp_action i = ABORT_CONFLICT) (paths plan)"

definition conflicts :: "reconciliation_plan \<Rightarrow> classified_path list" where
  "conflicts plan = filter (\<lambda>p. cp_action p = ABORT_CONFLICT) (paths plan)"

definition for_action :: "reconciliation_plan \<Rightarrow> action \<Rightarrow> classified_path list" where
  "for_action plan a = filter (\<lambda>p. cp_action p = a) (paths plan)"

section \<open>Comparing entries\<close>

fun entries_same :: "file_entry option \<Rightarrow> file_entry option \<Rightarrow> bool" where
  "entries_same None None \<longleftrightarrow> True"
| "entries_same None (Some b) \<longleftrightarrow> False"
| "entries_same (Some a) None \<longleftrightarrow> False"
| "entries_same (Some a) (Some b) \<longleftrightarrow>
     (if fe_kind a \<noteq> fe_kind b \<or> fe_size a \<noteq> fe_size b then False
      else if fe_sha256 a \<noteq> None \<and> fe_sha256 b \<noteq> None then fe_sha256 a = fe_sha256 b
      else fe_mtime_ns a = fe_mtime_ns b)"

fun entries_content_same :: "file_entry option \<Rightarrow> file_entry option \<Rightarrow> bool" where
  "entries_content_same (Some a) (Some b) \<longleftrightarrow>
     \<not> (fe_kind a \<noteq> fe_kind b \<or> fe_size a \<noteq> fe_size b)
     \<and> fe_sha256 a \<noteq> None \<and> fe_sha256 b \<noteq> None \<and> fe_sha256 a = fe_sha256 b"
| "entries_content_same _ _ \<longleftrightarrow> False"

definition changed_since :: "file_entry option \<Rightarrow> file_entry option \<Rightarrow> bool" where
  "changed_since prev cur =
     (if prev = None \<and> cur = None then False
      else if (prev = None) \<noteq> (cur = None) then True
      else \<not> entries_same prev cur)"

section \<open>Classification\<close>

definition heuristic_diff :: "path \<Rightarrow> file_entry \<Rightarrow> file_entry \<Rightarrow> classified_path" where
  "heuristic_diff p le re =
     (if fe_sha256 le \<noteq> None \<and> fe_sha256 re \<noteq> None then
        (if fe_sha256 le = fe_sha256 re
         then ClassifiedPath p ''same'' NONE ''identical content (no baseline yet)''
         else ClassifiedPath p ''both-present-differ'' ABORT_CONFLICT
                (''differs with no sync history '' @ em_dash @ '' resolve manually''))
      else ClassifiedPath p ''both-present-unverified'' ABORT_CONFLICT
             (''present on both sides, unhashed, no history '' @ em_dash @ '' resolve manually''))"

text \<open>
  The body of the loop of \<open>compare_manifests\<close> for one path: its entries on both sides, its
  baseline entries and whether both baselines were supplied.
\<close>

definition classify_both ::
  "path \<Rightarrow> bool \<Rightarrow> file_entry \<Rightarrow> file_entry \<Rightarrow> file_entry option \<Rightarrow> file_entry option \<Rightarrow> classified_path" where
  "classify_both p have_prev le re pl pr =
     (if have_prev then
        (let local_changed = changed_since pl (Some le);
             remote_changed = changed_since pr (Some re)
         in if local_changed \<and> remote_changed then
              (if entries_content_same (Some le) (Some re)
               then ClassifiedPath p ''same'' NONE ''both changed to identical content''
               else ClassifiedPath p ''both-changed'' ABORT_CONFLICT ''both sides changed since last run'')
            else if local_changed then
              ClassifiedPath p ''local-newer'' PUSH ''local changed since last run''
            else if remote_changed then
              ClassifiedPath p ''remote-newer'' PULL ''remote changed since last run''
            else ClassifiedPath p ''same'' NONE ''neither side changed since last run'')
      else heuristic_diff p le re)"

definition classify_local_present ::
  "path \<Rightarrow> bool \<Rightarrow> file_entry \<Rightarrow> file_entry option \<Rightarrow> file_entry option \<Rightarrow> classified_path" where
  "classify_local_present p have_prev le pl pr =
     (if have_prev \<and> pr \<noteq> None then
        (if changed_since pl (Some le)
         then ClassifiedPath p ''unknown-deletion'' ABORT_CONFLICT ''remote deleted a file modified locally''
         else ClassifiedPath p ''remote-deleted-known'' DELETE_LOCAL
                ''remote deleted file; local unchanged (backup first)'')
      else ClassifiedPath p ''local-only'' PUSH ''file exists only locally'')"

definition classify_remote_present ::
  "path \<Rightarrow> bool \<Rightarrow> file_entry \<Rightarrow> file_entry option \<Rightarrow> file_entry option \<Rightarrow> classified_path" where
  "classify_remote_present p have_prev re pl pr =
     (if have_prev \<and> pl \<noteq> None then
        (if changed_since pr (Some re)
         then ClassifiedPath p ''unknown-deletion'' ABORT_CONFLICT ''local deleted a file modified remotely''
         else ClassifiedPath p ''local-deleted-known'' DELETE_REMOTE
                ''local deleted file; remote unchanged'')
      else ClassifiedPath p ''remote-only'' PULL ''file exists only remotely and is included'')"

fun classify ::
  "path \<Rightarrow> bool \<Rightarrow> file_entry option \<Rightarrow> file_entry option \<Rightarrow> file_entry option \<Rightarrow> file_entry option
   \<Rightarrow> classified_path option" where
  "classify p have_prev (Some le) (Some re) pl pr = Some (classify_both p have_prev le re pl pr)"
| "classify p have_prev (Some le) None pl pr = Some (classify_local_present p have_prev le pl pr)"
| "classify p have_prev None (Some re) pl pr = Some (classify_remote_present p have_prev re pl pr)"
| "classify p have_prev None None pl pr = None"

definition prev_get :: "manifest option \<Rightarrow> path \<Rightarrow> file_entry option" where
  "prev_get prev p = (case prev of None \<Rightarrow> None | Some m \<Rightarrow> dict_get m p)"

definition compare_manifests ::
  "manifest \<Rightarrow> manifest \<Rightarrow> manifest option \<Rightarrow> manifest option \<Rightarrow> reconciliation_plan" where
  "compare_manifests local remote prev_local prev_remote =
     (let have_prev = (prev_local \<noteq> None \<and> prev_remote \<noteq> None)
      in \<lparr>paths = List.map_filter
            (\<lambda>p. classify p have_prev (dict_get local p) (dict_get remote p)
                   (prev_get prev_local p) (prev_get prev_remote p))
            (sorted_paths local remote)\<rparr>)"

section \<open>Changes made by a command\<close>

fun diff_scan :: "manifest \<Rightarrow> manifest \<Rightarrow> path list \<Rightarrow> path list \<times> path list" where
  "diff_scan pre post [] = ([], [])"
| "diff_scan pre post (p # ps) =
     (let before = dict_get pre p; after = dict_get post p; (changed, deleted) = diff_scan pre post ps
      in if after \<noteq> None \<and> (before = None \<or> \<not> entries_same before after) then (p # changed, deleted)
         else if before \<noteq> None \<and> after = None then (changed, p # deleted)
         else (changed, deleted))"

definition diff_remote_changes :: "manifest \<Rightarrow> manifest \<Rightarrow> path list \<times> path list" where
  "diff_remote_changes pre_remote post_remote =
     diff_scan pre_remote post_remote (sorted_paths pre_remote post_remote)"

section \<open>What a plan contains\<close>

lemma changed_since_simps [simp]:
  "\<not> changed_since None None"
  "changed_since None (Some e)"
  "changed_since (Some e) None"
  "changed_since (Some a) (Some b) \<longleftrightarrow> \<not> entries_same (Some a) (Some b)"
  by (simp_all add: changed_since_def del: entries_same.simps)

lemma entries_same_None [simp]:
  "entries_same None e \<longleftrightarrow> e = None" "entries_same e None \<longleftrightarrow> e = None"
  by (cases e; simp)+

declare entries_same.simps(4) [simp del] entries_content_same.simps(1) [simp del]

lemmas classify_defs = classify_both_def classify_local_present_def classify_remote_present_def
  heuristic_diff_def Let_def

lemma cp_path_classify: "classify p h le re pl pr = Some i \<Longrightarrow> cp_path i = p"
  by (cases "(p, h, le, re, pl, pr)" rule: classify.cases)
     (auto simp: classify_defs split: if_splits)

lemma classify_None_iff: "classify p h le re pl pr = None \<longleftrightarrow> le = None \<and> re = None"
  by (cases "(p, h, le, re, pl, pr)" rule: classify.cases) auto

text \<open>The decision for one path, read off the four manifests.\<close>

definition decision ::
  "manifest \<Rightarrow> manifest \<Rightarrow> manifest option \<Rightarrow> manifest option \<Rightarrow> path \<Rightarrow> classified_path option" where
  "decision local remote prev_local prev_remote p =
     classify p (prev_local \<noteq> None \<and> prev_remote \<noteq> None) (dict_get local p) (dict_get remote p)
       (prev_get prev_local p) (prev_get prev_remote p)"

lemma compare_manifests_paths:
  "paths (compare_manifests l r pl pr) = List.map_filter (decision l r pl pr) (sorted_paths l r)"
  by (simp add: compare_manifests_def decision_def [abs_def] Let_def)

lemma plan_item_iff:
  "i \<in> set (paths (compare_manifests l r pl pr)) \<longleftrightarrow> decision l r pl pr (cp_path i) = Some i"
proof -
  have "decision l r pl pr p = Some i \<Longrightarrow> cp_path i = p \<and> p \<in> set (sorted_paths l r)" for p
    unfolding decision_def set_sorted_paths
    by (metis classify_None_iff cp_path_classify option.distinct(1))
  then show ?thesis
    unfolding compare_manifests_paths set_map_filter_iff by blast
qed

text \<open>The action planned for one path, without the explanatory strings.\<close>

definition planned_action ::
  "manifest \<Rightarrow> manifest \<Rightarrow> manifest option \<Rightarrow> manifest option \<Rightarrow> path \<Rightarrow> action option" where
  "planned_action l r pl pr p = map_option cp_action (decision l r pl pr p)"

lemma plan_item_action:
  "i \<in> set (paths (compare_manifests l r pl pr)) \<Longrightarrow> planned_action l r pl pr (cp_path i) = Some (cp_action i)"
  by (simp add: plan_item_iff planned_action_def)

lemma planned_action_both:
  assumes "dict_get l p = Some le" and "dict_get r p = Some re"
  shows "planned_action l r pl pr p = Some (
     if pl \<noteq> None \<and> pr \<noteq> None then
       (if changed_since (prev_get pl p) (Some le) then
          (if changed_since (prev_get pr p) (Some re) then
             (if entries_content_same (Some le) (Some re) then NONE else ABORT_CONFLICT)
           else PUSH)
        else if changed_since (prev_get pr p) (Some re) then PULL else NONE)
     else if fe_sha256 le \<noteq> None \<and> fe_sha256 re \<noteq> None \<and> fe_sha256 le = fe_sha256 re then NONE
     else ABORT_CONFLICT)"
  by (simp add: planned_action_def decision_def assms classify_defs)

lemma planned_action_local:
  assumes "dict_get l p = Some le" and "dict_get r p = None"
  shows "planned_action l r pl pr p = Some (
     if (pl \<noteq> None \<and> pr \<noteq> None) \<and> prev_get pr p \<noteq> None then
       (if changed_since (prev_get pl p) (Some le) then ABORT_CONFLICT else DELETE_LOCAL)
     else PUSH)"
  by (simp add: planned_action_def decision_def assms classify_defs)

lemma planned_action_remote:
  assumes "dict_get l p = None" and "dict_get r p = Some re"
  shows "planned_action l r pl pr p = Some (
     if (pl \<noteq> None \<and> pr \<noteq> None) \<and> prev_get pl p \<noteq> None then
       (if changed_since (prev_get pr p) (Some re) then ABORT_CONFLICT else DELETE_REMOTE)
     else PULL)"
  by (simp add: planned_action_def decision_def assms classify_defs)

lemma planned_action_absent:
  assumes "dict_get l p = None" and "dict_get r p = None"
  shows "planned_action l r pl pr p = None"
  by (simp add: planned_action_def decision_def assms)

lemmas planned_action_cases =
  planned_action_both planned_action_local planned_action_remote planned_action_absent

lemma map_filter_total_paths:
  assumes "\<And>p. p \<in> set ps \<Longrightarrow> \<exists>i. f p = Some i \<and> cp_path i = p"
  shows "map cp_path (List.map_filter f ps) = ps"
  using assms
proof (induction ps)
  case Nil
  then show ?case by (simp add: map_filter_simps)
next
  case (Cons p ps)
  then obtain i where "f p = Some i" and "cp_path i = p" by auto
  with Cons show ?case by (simp add: map_filter_simps)
qed

lemma plan_paths: "map cp_path (paths (compare_manifests l r pl pr)) = sorted_paths l r"
  unfolding compare_manifests_paths
proof (rule map_filter_total_paths)
  fix p
  assume "p \<in> set (sorted_paths l r)"
  then have "decision l r pl pr p \<noteq> None"
    by (auto simp: decision_def classify_None_iff sorted_simps)
  then show "\<exists>i. decision l r pl pr p = Some i \<and> cp_path i = p"
    by (auto simp: decision_def dest: cp_path_classify)
qed

text \<open>
  the plan of \<open>compare_manifests\<close> has exactly one item per path that either side holds,
  in sorted order.
\<close>

theorem compare_manifests_decides_every_path_once:
  "map cp_path (paths (compare_manifests local remote prev_local prev_remote))
     = sorted_paths local remote"
  by (rule plan_paths)

section \<open>Safety of the plan\<close>

text \<open>
  C17: no lost update.  With a baseline, a side that changed since its own baseline is never
  overwritten or deleted: a locally changed path is not pulled over and not deleted locally,
  a remotely changed path is not pushed over and not deleted remotely.
\<close>

theorem compare_manifests_no_lost_update:
  assumes "i \<in> set (paths (compare_manifests local remote (Some prev_local) (Some prev_remote)))"
  shows "(dict_get local (cp_path i) \<noteq> None
          \<and> changed_since (dict_get prev_local (cp_path i)) (dict_get local (cp_path i))
            \<longrightarrow> cp_action i \<notin> {PULL, DELETE_LOCAL})
       \<and> (dict_get remote (cp_path i) \<noteq> None
          \<and> changed_since (dict_get prev_remote (cp_path i)) (dict_get remote (cp_path i))
            \<longrightarrow> cp_action i \<notin> {PUSH, DELETE_REMOTE})"
  using plan_item_action [OF assms]
  by (cases "dict_get local (cp_path i)"; cases "dict_get remote (cp_path i)")
     (auto simp: planned_action_cases prev_get_def split: if_splits)

text \<open>A file entry for concrete runs of the planner.\<close>

definition sample_entry :: "path \<Rightarrow> int \<Rightarrow> string \<Rightarrow> file_entry" where
  "sample_entry p n h = \<lparr>fe_path = p, fe_kind = ''file'', fe_size = n, fe_mtime_ns = 1,
     fe_sha256 = Some h, fe_mode = Some 420\<rparr>"

theorem compare_manifests_no_lost_update_witness:
  "ClassifiedPath ''a'' ''local-newer'' PUSH ''local changed since last run'' \<in>
     set (paths (compare_manifests [(''a'', sample_entry ''a'' 2 ''h2'')] [(''a'', sample_entry ''a'' 1 ''h1'')]
       (Some [(''a'', sample_entry ''a'' 1 ''h1'')]) (Some [(''a'', sample_entry ''a'' 1 ''h1'')])))
   \<and> PUSH \<notin> {PULL, DELETE_LOCAL}"
proof -
  let ?l = "[(''a'', sample_entry ''a'' 2 ''h2'')]" and ?r = "[(''a'', sample_entry ''a'' 1 ''h1'')]"
  let ?i = "ClassifiedPath ''a'' ''local-newer'' PUSH ''local changed since last run''"
  have i: "?i \<in> set (paths (compare_manifests ?l ?r (Some ?r) (Some ?r)))" by code_simp
  have "dict_get ?l (cp_path ?i) \<noteq> None" and "changed_since (dict_get ?r (cp_path ?i)) (dict_get ?l (cp_path ?i))"
    by (simp_all add: sample_entry_def entries_same.simps)
  with compare_manifests_no_lost_update [OF i] i show ?thesis by simp
qed

text \<open>
  exactly when the plan deletes the local file.  Both baselines exist, the remote held the
  path at its baseline and lost it, and the local copy is the same entry as at its baseline.
\<close>

theorem compare_manifests_delete_local_iff:
  "(\<exists>i \<in> set (paths (compare_manifests local remote prev_local prev_remote)).
       cp_path i = p \<and> cp_action i = DELETE_LOCAL)
   \<longleftrightarrow> (\<exists>pl pr le e0.
         prev_local = Some pl \<and> prev_remote = Some pr
       \<and> dict_get local p = Some le \<and> dict_get remote p = None
       \<and> dict_get pr p \<noteq> None \<and> dict_get pl p = Some e0 \<and> entries_same (Some e0) (Some le))"
proof -
  have "(\<exists>i \<in> set (paths (compare_manifests local remote prev_local prev_remote)).
       cp_path i = p \<and> cp_action i = DELETE_LOCAL)
     \<longleftrightarrow> planned_action local remote prev_local prev_remote p = Some DELETE_LOCAL"
    unfolding Bex_def plan_item_iff planned_action_def map_option_eq_Some
    by (metis cp_path_classify decision_def)
  also have "\<dots> \<longleftrightarrow> (\<exists>pl pr le e0.
         prev_local = Some pl \<and> prev_remote = Some pr
       \<and> dict_get local p = Some le \<and> dict_get remote p = None
       \<and> dict_get pr p \<noteq> None \<and> dict_get pl p = Some e0 \<and> entries_same (Some e0) (Some le))"
  proof (cases "dict_get local p"; cases "dict_get remote p")
    fix le
    assume here: "dict_get local p = Some le" and gone: "dict_get remote p = None"
    show ?thesis
    proof (cases "prev_local = None \<or> prev_remote = None")
      case False
      then obtain pl pr where prev: "prev_local = Some pl" "prev_remote = Some pr" by auto
      show ?thesis
        by (cases "dict_get pl p"; cases "dict_get pr p")
           (simp_all add: planned_action_local [OF here gone] prev prev_get_def here gone)
    qed (auto simp: planned_action_local [OF here gone])
  qed (simp_all add: planned_action_cases)
  finally show ?thesis .
qed

text \<open>
  without both baselines the plan contains no destructive action.
\<close>

theorem compare_manifests_no_baseline_not_destructive:
  assumes "prev_local = None \<or> prev_remote = None"
    and "i \<in> set (paths (compare_manifests local remote prev_local prev_remote))"
  shows "cp_action i \<notin> DESTRUCTIVE_ACTIONS"
  using assms(1) plan_item_action [OF assms(2)]
  by (cases "dict_get local (cp_path i)"; cases "dict_get remote (cp_path i)")
     (auto simp: planned_action_cases DESTRUCTIVE_ACTIONS_def split: if_splits)

theorem compare_manifests_no_baseline_not_destructive_witness:
  "ClassifiedPath ''a'' ''remote-only'' PULL ''file exists only remotely and is included'' \<in>
     set (paths (compare_manifests [] [(''a'', sample_entry ''a'' 1 ''h1'')]
       (Some [(''a'', sample_entry ''a'' 1 ''h1'')]) None))
   \<and> PULL \<notin> DESTRUCTIVE_ACTIONS"
proof -
  let ?r = "[(''a'', sample_entry ''a'' 1 ''h1'')]"
  let ?i = "ClassifiedPath ''a'' ''remote-only'' PULL ''file exists only remotely and is included''"
  have i: "?i \<in> set (paths (compare_manifests [] ?r (Some ?r) None))" by code_simp
  show ?thesis
    using compare_manifests_no_baseline_not_destructive [OF _ i] i by simp
qed

section \<open>Symmetry of the plan\<close>

fun mirror_action :: "action \<Rightarrow> action" where
  "mirror_action PUSH = PULL"
| "mirror_action PULL = PUSH"
| "mirror_action DELETE_REMOTE = DELETE_LOCAL"
| "mirror_action DELETE_LOCAL = DELETE_REMOTE"
| "mirror_action NONE = NONE"
| "mirror_action ABORT_CONFLICT = ABORT_CONFLICT"

definition verdict :: "classified_path \<Rightarrow> path \<times> action" where
  "verdict i = (cp_path i, cp_action i)"

definition mirror_verdict :: "path \<times> action \<Rightarrow> path \<times> action" where
  "mirror_verdict v = (fst v, mirror_action (snd v))"

lemma entries_content_same_sym: "entries_content_same a b = entries_content_same b a"
  by (cases "(a, b)" rule: entries_content_same.cases) (auto simp: entries_content_same.simps(1))

lemma verdict_decision:
  "map_option verdict (decision l r pl pr p) = map_option (Pair p) (planned_action l r pl pr p)"
  unfolding planned_action_def decision_def option.map_comp
  by (rule option.map_cong0) (auto simp: verdict_def cp_path_classify option.set_map)

lemma planned_action_mirror:
  "planned_action r l pr pl p = map_option mirror_action (planned_action l r pl pr p)"
proof (cases "dict_get l p"; cases "dict_get r p")
  fix le re
  assume l: "dict_get l p = Some le" and r: "dict_get r p = Some re"
  have sym: "entries_content_same (Some re) (Some le) = entries_content_same (Some le) (Some re)"
    by (rule entries_content_same_sym)
  show ?thesis
    unfolding planned_action_both [OF l r] planned_action_both [OF r l] sym
    by simp
qed (simp_all add: planned_action_cases)

lemma decision_mirror:
  "map_option verdict (decision r l pr pl p)
     = map_option (mirror_verdict \<circ> verdict) (decision l r pl pr p)"
  unfolding option.map_comp [symmetric] verdict_decision
  by (subst planned_action_mirror) (simp add: option.map_comp comp_def mirror_verdict_def)

text \<open>
  the planner does not depend on which side it calls local.  Exchanging the two sides and
  their baselines exchanges pushes with pulls and the two deletions, path by path.
\<close>

theorem compare_manifests_mirror:
  "map verdict (paths (compare_manifests remote local prev_remote prev_local))
     = map (mirror_verdict \<circ> verdict) (paths (compare_manifests local remote prev_local prev_remote))"
proof -
  have "map_option verdict \<circ> decision remote local prev_remote prev_local
      = map_option (mirror_verdict \<circ> verdict) \<circ> decision local remote prev_local prev_remote"
    by (rule ext) (simp add: decision_mirror)
  then show ?thesis
    by (simp add: compare_manifests_paths map_map_filter sorted_paths_comm [of remote local])
qed

section \<open>Command-attributed changes\<close>

lemma diff_scan_filter:
  "diff_scan pre post ps =
     (filter (\<lambda>p. dict_get post p \<noteq> None
        \<and> (dict_get pre p = None \<or> \<not> entries_same (dict_get pre p) (dict_get post p))) ps,
      filter (\<lambda>p. dict_get pre p \<noteq> None \<and> dict_get post p = None) ps)"
  by (induction ps) (auto simp: Let_def)

lemma diff_remote_changes_mem:
  assumes "diff_remote_changes pre post = (changed, deleted)"
  shows "p \<in> set changed \<longleftrightarrow> dict_get post p \<noteq> None
           \<and> (dict_get pre p = None \<or> \<not> entries_same (dict_get pre p) (dict_get post p))"
    and "p \<in> set deleted \<longleftrightarrow> dict_get pre p \<noteq> None \<and> dict_get post p = None"
    and "distinct changed" and "distinct deleted" and "set changed \<inter> set deleted = {}"
  using assms by (auto simp: diff_remote_changes_def diff_scan_filter sorted_simps)

text \<open>
  the two lists of \<open>diff_remote_changes\<close> attribute every path: a path is in neither list
  exactly when the two manifests agree on it, the lists are disjoint, sorted and without
  repetition.
\<close>

theorem diff_remote_changes_attributes_every_path:
  "(case diff_remote_changes pre post of (changed, deleted) \<Rightarrow>
      sorted changed \<and> distinct changed \<and> sorted deleted \<and> distinct deleted
    \<and> set changed \<inter> set deleted = {}
    \<and> (p \<notin> set changed \<and> p \<notin> set deleted \<longleftrightarrow> entries_same (dict_get pre p) (dict_get post p)))"
  by (cases "dict_get pre p"; cases "dict_get post p")
     (auto simp: diff_remote_changes_def diff_scan_filter sorted_simps sorted_wrt_filter)

end
