(* ===== verification/World.thy ===== *)
theory World
  imports TransferPlan
begin

text \<open>
  The world the reconcile and sync engines act on: the local project tree, the remote project
  tree, the backup and conflict stores, and a script of external events.  Before every I/O
  operation the next event of the script happens: an external writer (Syncthing, an editor, a
  running command) rewrites either tree, and the operation itself may fail.  Operations are
  state transformers with Python exceptions as errors.  The transport is a record of
  operations; \<open>LocalSimTransport\<close> of \<open>src/remrun/transport.py\<close> is the instance that the
  theorems run on, and the locale \<open>file_transport\<close> states what the engines rely on.
\<close>

section \<open>Disks and events\<close>

text \<open>A regular file: its bytes are represented by their length and their SHA-256 digest.\<close>

record disk_file =
  df_size :: int
  df_sha256 :: string
  df_mtime_ns :: int
  df_mode :: int

type_synonym disk = "(path, disk_file) dict"

record event =
  ev_local :: "disk \<Rightarrow> disk"
  ev_remote :: "disk \<Rightarrow> disk"
  ev_fault :: bool

record world =
  w_local :: disk
  w_remote :: disk
  w_local_root :: bool
  w_remote_root :: bool
  w_backup :: disk
  w_conflict :: disk
  w_script :: "event list"

datatype py_exn =
    TransportError string | NotImplementedError | OSError string | ValueError string
  | ManifestError string | KeyError path

type_synonym 'a io = "world \<Rightarrow> (py_exn + 'a) \<times> world"

definition io_return :: "'a \<Rightarrow> 'a io" where
  "io_return x w = (Inr x, w)"

definition io_raise :: "py_exn \<Rightarrow> 'a io" where
  "io_raise e w = (Inl e, w)"

definition io_bind :: "'a io \<Rightarrow> ('a \<Rightarrow> 'b io) \<Rightarrow> 'b io" where
  "io_bind m f w = (case m w of (Inl e, w') \<Rightarrow> (Inl e, w') | (Inr x, w') \<Rightarrow> f x w')"

text \<open>\<open>try: m except (exceptions that satisfy P): h\<close>\<close>

definition io_catch :: "(py_exn \<Rightarrow> bool) \<Rightarrow> 'a io \<Rightarrow> 'a io \<Rightarrow> 'a io" where
  "io_catch P m h w =
     (case m w of (Inl e, w') \<Rightarrow> if P e then h w' else (Inl e, w') | (Inr x, w') \<Rightarrow> (Inr x, w'))"

text \<open>The same with the outcome as a value: \<open>None\<close> when an exception was caught.\<close>

definition io_try :: "(py_exn \<Rightarrow> bool) \<Rightarrow> 'a io \<Rightarrow> 'a option io" where
  "io_try P m w =
     (case m w of
        (Inl e, w') \<Rightarrow> if P e then (Inr None, w') else (Inl e, w')
      | (Inr x, w') \<Rightarrow> (Inr (Some x), w'))"

text \<open>The next external event happens; the result says whether the operation fails.\<close>

definition settle :: "world \<Rightarrow> bool \<times> world" where
  "settle w =
     (case w_script w of
        [] \<Rightarrow> (False, w)
      | ev # evs \<Rightarrow>
          (ev_fault ev,
           w\<lparr>w_local := ev_local ev (w_local w), w_remote := ev_remote ev (w_remote w),
             w_script := evs\<rparr>))"

text \<open>An operation that reads the settled world, and one that rewrites it.\<close>

definition io_read :: "py_exn \<Rightarrow> (world \<Rightarrow> 'a) \<Rightarrow> 'a io" where
  "io_read e f w = (case settle w of (fault, w') \<Rightarrow> if fault then (Inl e, w') else (Inr (f w'), w'))"

definition io_write :: "py_exn \<Rightarrow> (world \<Rightarrow> world option) \<Rightarrow> unit io" where
  "io_write e f w =
     (case settle w of (fault, w') \<Rightarrow>
        if fault then (Inl e, w')
        else (case f w' of None \<Rightarrow> (Inl e, w') | Some w'' \<Rightarrow> (Inr (), w'')))"

section \<open>Manifests of a disk\<close>

text \<open>
  The directories on the way to a path, the path itself last: \<open>build_manifest\<close> keeps a file
  when none of them is excluded.
\<close>

definition path_chain :: "path \<Rightarrow> path list" where
  "path_chain p =
     (let cs = split_on (CHR ''/'') p
      in map (\<lambda>n. join_with ''/'' (take n cs)) [1..<Suc (length cs)])"

definition path_visible :: "walk_config \<Rightarrow> path \<Rightarrow> bool" where
  "path_visible c p = list_all (\<lambda>q. \<not> excluded c q) (path_chain p)"

definition disk_entry :: "walk_config \<Rightarrow> path \<Rightarrow> disk_file \<Rightarrow> file_entry" where
  "disk_entry c p f =
     \<lparr>fe_path = p, fe_kind = ''file'', fe_size = df_size f, fe_mtime_ns = df_mtime_ns f,
      fe_sha256 = (if wants_hash c (df_size f) then Some (df_sha256 f) else None),
      fe_mode = Some (df_mode f mod 512)\<rparr>"

definition disk_manifest :: "walk_config \<Rightarrow> disk \<Rightarrow> manifest" where
  "disk_manifest c d = map (\<lambda>(p, f). (p, disk_entry c p f)) (filter (\<lambda>(p, f). path_visible c p) d)"

section \<open>Local operations\<close>

text \<open>The last component of a path: \<open>Path.name\<close>.\<close>

definition path_name :: "path \<Rightarrow> string" where
  "path_name p = last (split_on (CHR ''/'') p)"

definition build_local_manifest :: "walk_config \<Rightarrow> manifest io" where
  "build_local_manifest c =
     io_read (TransportError ''cannot read the local tree'')
       (\<lambda>w. if w_local_root w then disk_manifest c (w_local w) else [])"

definition local_root_exists :: "bool io" where
  "local_root_exists w = (Inr (w_local_root w), w)"

definition fresh_local_entry :: "path \<Rightarrow> int option \<Rightarrow> file_entry option io" where
  "fresh_local_entry p hash_if_size =
     io_read (TransportError (''cannot inspect local file '' @ p))
       (\<lambda>w. case dict_get (w_local w) p of
              None \<Rightarrow> None
            | Some f \<Rightarrow>
                Some \<lparr>fe_path = path_name p, fe_kind = ''file'', fe_size = df_size f,
                  fe_mtime_ns = df_mtime_ns f,
                  fe_sha256 = (if hash_if_size = Some (df_size f) then Some (df_sha256 f) else None),
                  fe_mode = None\<rparr>)"

definition sha256_local :: "path \<Rightarrow> string io" where
  "sha256_local p w =
     (case io_read (OSError p) (\<lambda>w. dict_get (w_local w) p) w of
        (Inl e, w') \<Rightarrow> (Inl e, w')
      | (Inr None, w') \<Rightarrow> (Inl (OSError p), w')
      | (Inr (Some f), w') \<Rightarrow> (Inr (df_sha256 f), w'))"

definition backup_local :: "int \<Rightarrow> path \<Rightarrow> unit io" where
  "backup_local max_bytes rel =
     io_write (OSError rel)
       (\<lambda>w. case dict_get (w_local w) rel of
              None \<Rightarrow> Some w
            | Some f \<Rightarrow>
                if max_bytes \<noteq> 0 \<and> df_size f > max_bytes then Some w
                else Some (w\<lparr>w_backup := dict_set rel f (w_backup w)\<rparr>))"

definition unlink_local :: "path \<Rightarrow> unit io" where
  "unlink_local p =
     io_write (OSError p) (\<lambda>w. Some (w\<lparr>w_local := dict_pop p (w_local w)\<rparr>))"

section \<open>The transport\<close>

datatype pull_dest = ToProject | ToConflictStore

record transport =
  tr_manifest :: "walk_config \<Rightarrow> manifest io"
  tr_hash_file :: "path \<Rightarrow> string io"
  tr_pull_file :: "pull_dest \<Rightarrow> path \<Rightarrow> unit io"
  tr_push_file :: "path \<Rightarrow> unit io"
  tr_delete_remote :: "path \<Rightarrow> unit io"
  tr_remote_path_exists :: "bool io"
  tr_ensure_remote_dir :: "unit io"

definition sim_manifest :: "walk_config \<Rightarrow> manifest io" where
  "sim_manifest c =
     io_read (ManifestError ''manifest'')
       (\<lambda>w. if w_remote_root w then disk_manifest c (w_remote w) else [])"

definition sim_hash_file :: "path \<Rightarrow> string io" where
  "sim_hash_file p w =
     (case io_read (OSError p) (\<lambda>w. dict_get (w_remote w) p) w of
        (Inl e, w') \<Rightarrow> (Inl e, w')
      | (Inr None, w') \<Rightarrow> (Inl (OSError p), w')
      | (Inr (Some f), w') \<Rightarrow> (Inr (df_sha256 f), w'))"

text \<open>
  \<open>copyfile\<close> and \<open>copystat\<close> into a temporary file, then \<open>os.replace\<close>: a failed pull
  leaves the destination as it was.
\<close>

definition sim_pull_file :: "pull_dest \<Rightarrow> path \<Rightarrow> unit io" where
  "sim_pull_file dest p =
     io_write (OSError p)
       (\<lambda>w. case dict_get (w_remote w) p of
              None \<Rightarrow> None
            | Some f \<Rightarrow>
                Some (case dest of
                    ToProject \<Rightarrow> w\<lparr>w_local := dict_set p f (w_local w), w_local_root := True\<rparr>
                  | ToConflictStore \<Rightarrow> w\<lparr>w_conflict := dict_set p f (w_conflict w)\<rparr>))"

definition sim_push_file :: "path \<Rightarrow> unit io" where
  "sim_push_file p =
     io_write (OSError p)
       (\<lambda>w. case dict_get (w_local w) p of
              None \<Rightarrow> None
            | Some f \<Rightarrow> Some (w\<lparr>w_remote := dict_set p f (w_remote w), w_remote_root := True\<rparr>))"

definition sim_delete_remote :: "path \<Rightarrow> unit io" where
  "sim_delete_remote p =
     io_write (OSError p) (\<lambda>w. Some (w\<lparr>w_remote := dict_pop p (w_remote w)\<rparr>))"

definition sim_remote_path_exists :: "bool io" where
  "sim_remote_path_exists = io_read (OSError ''exists'') w_remote_root"

definition sim_ensure_remote_dir :: "unit io" where
  "sim_ensure_remote_dir =
     io_write (OSError ''mkdir'') (\<lambda>w. Some (w\<lparr>w_remote_root := True\<rparr>))"

definition local_sim :: transport where
  "local_sim =
     \<lparr>tr_manifest = sim_manifest, tr_hash_file = sim_hash_file, tr_pull_file = sim_pull_file,
      tr_push_file = sim_push_file, tr_delete_remote = sim_delete_remote,
      tr_remote_path_exists = sim_remote_path_exists,
      tr_ensure_remote_dir = sim_ensure_remote_dir\<rparr>"

section \<open>Sample worlds\<close>

text \<open>Small worlds and configurations on which the theorems are exercised.\<close>

definition sample_file :: "int \<Rightarrow> string \<Rightarrow> disk_file" where
  "sample_file n h = \<lparr>df_size = n, df_sha256 = h, df_mtime_ns = n, df_mode = 420\<rparr>"

definition sample_world :: "disk \<Rightarrow> disk \<Rightarrow> world" where
  "sample_world l r = \<lparr>w_local = l, w_remote = r, w_local_root = True, w_remote_root = True,
     w_backup = [], w_conflict = [], w_script = []\<rparr>"

definition sample_config :: walk_config where
  "sample_config = \<lparr>wc_normcase = (\<lambda>s. s), wc_exclude = [], wc_hash_below = Some 100,
     wc_always_hash = False, wc_include = []\<rparr>"

end
