(* ===== verification/Effects.thy ===== *)
theory Effects
  imports World
begin

text \<open>
  Reasoning about operations on the world.  \<open>world_step\<close> is the step relation of the world:
  an external event, or one of the effects that an engine is allowed to have.  An operation
  is \<open>confined\<close> to a set of effects when every run of it, failing runs included, is a
  sequence of such steps.  \<open>io_triple\<close> states pre- and postconditions with a condition for
  the exceptional exit.  The locale \<open>file_transport\<close> is the contract of a transport, and
  \<open>LocalSimTransport\<close> fulfils it.
\<close>

section \<open>Steps of the world\<close>

datatype effect =
    PullInto path | PushOut path | RemoveLocal path | RemoveRemote path
  | SaveBackup path | SaveConflict path | MakeRemoteRoot

inductive world_step :: "effect set \<Rightarrow> world \<Rightarrow> world \<Rightarrow> bool" for E :: "effect set" where
  external: "world_step E w (snd (settle w))"
| pull: "PullInto p \<in> E \<Longrightarrow> dict_get (w_remote w) p = Some f \<Longrightarrow>
    world_step E w (w\<lparr>w_local := dict_set p f (w_local w), w_local_root := True\<rparr>)"
| push: "PushOut p \<in> E \<Longrightarrow> dict_get (w_local w) p = Some f \<Longrightarrow>
    world_step E w (w\<lparr>w_remote := dict_set p f (w_remote w), w_remote_root := True\<rparr>)"
| remove_local: "RemoveLocal p \<in> E \<Longrightarrow> world_step E w (w\<lparr>w_local := dict_pop p (w_local w)\<rparr>)"
| remove_remote: "RemoveRemote p \<in> E \<Longrightarrow> world_step E w (w\<lparr>w_remote := dict_pop p (w_remote w)\<rparr>)"
| save_backup: "SaveBackup p \<in> E \<Longrightarrow> dict_get (w_local w) p = Some f \<Longrightarrow>
    world_step E w (w\<lparr>w_backup := dict_set p f (w_backup w)\<rparr>)"
| save_conflict: "SaveConflict p \<in> E \<Longrightarrow> dict_get (w_remote w) p = Some f \<Longrightarrow>
    world_step E w (w\<lparr>w_conflict := dict_set p f (w_conflict w)\<rparr>)"
| make_root: "MakeRemoteRoot \<in> E \<Longrightarrow> world_step E w (w\<lparr>w_remote_root := True\<rparr>)"

inductive_cases world_stepE: "world_step E w w'"

abbreviation world_steps :: "effect set \<Rightarrow> world \<Rightarrow> world \<Rightarrow> bool" where
  "world_steps E \<equiv> (world_step E)\<^sup>*\<^sup>*"

lemma world_step_mono: "world_step E w w' \<Longrightarrow> E \<subseteq> F \<Longrightarrow> world_step F w w'"
  by (induction rule: world_step.induct) (blast intro: world_step.intros)+

lemma world_steps_mono: "world_steps E w w' \<Longrightarrow> E \<subseteq> F \<Longrightarrow> world_steps F w w'"
  by (erule rtranclp_mono [THEN predicate2D, rotated]) (blast intro: world_step_mono)

lemma settle_fields:
  "w_local (snd (settle w)) = fold ev_local (take 1 (w_script w)) (w_local w)"
  "w_remote (snd (settle w)) = fold ev_remote (take 1 (w_script w)) (w_remote w)"
  "w_script (snd (settle w)) = drop 1 (w_script w)"
  "w_backup (snd (settle w)) = w_backup w"
  "w_conflict (snd (settle w)) = w_conflict w"
  "w_local_root (snd (settle w)) = w_local_root w"
  "w_remote_root (snd (settle w)) = w_remote_root w"
  by (cases "w_script w"; simp add: settle_def)+

text \<open>What external events alone make of a component of the world.\<close>

definition local_drift :: "world \<Rightarrow> world \<Rightarrow> bool" where
  "local_drift w w' \<longleftrightarrow>
     (\<exists>n. w_script w' = drop n (w_script w)
        \<and> w_local w' = fold ev_local (take n (w_script w)) (w_local w))"

definition world_drift :: "world \<Rightarrow> world \<Rightarrow> bool" where
  "world_drift w w' \<longleftrightarrow>
     (\<exists>n. w' = w\<lparr>w_local := fold ev_local (take n (w_script w)) (w_local w),
                 w_remote := fold ev_remote (take n (w_script w)) (w_remote w),
                 w_script := drop n (w_script w)\<rparr>)"

lemma fold_take_drop: "fold f (take m (drop n xs)) (fold f (take n xs) a) = fold f (take (n + m) xs) a"
  by (simp add: take_add)

lemma world_steps_local_drift:
  assumes "world_steps E w w'" and "\<And>p. PullInto p \<notin> E \<and> RemoveLocal p \<notin> E"
  shows "local_drift w w'"
  using assms(1)
proof (induction rule: rtranclp_induct)
  case base
  show ?case unfolding local_drift_def by (rule exI [of _ 0]) simp
next
  case (step y z)
  from step.IH obtain n where n: "w_script y = drop n (w_script w)"
    "w_local y = fold ev_local (take n (w_script w)) (w_local w)" by (auto simp: local_drift_def)
  from step.hyps(2) show ?case
  proof (cases rule: world_step.cases)
    case external
    then show ?thesis unfolding local_drift_def
      by (intro exI [of _ "n + 1"]) (simp add: settle_fields n fold_take_drop add.commute del: take_add One_nat_def)
  qed (use n assms(2) in \<open>auto simp: local_drift_def\<close>)
qed

lemma world_steps_drift:
  assumes "world_steps {} w w'"
  shows "world_drift w w'"
  using assms
proof (induction rule: rtranclp_induct)
  case base
  show ?case unfolding world_drift_def by (rule exI [of _ 0]) simp
next
  case (step y z)
  from step.IH obtain n where n: "y = w\<lparr>w_local := fold ev_local (take n (w_script w)) (w_local w),
                 w_remote := fold ev_remote (take n (w_script w)) (w_remote w),
                 w_script := drop n (w_script w)\<rparr>" by (auto simp: world_drift_def)
  from step.hyps(2) show ?case
  proof (cases rule: world_step.cases)
    case external
    then show ?thesis unfolding world_drift_def
      by (intro exI [of _ "n + 1"] world.equality)
         (simp_all add: settle_fields n fold_take_drop add.commute del: One_nat_def)
  qed simp_all
qed

lemma world_steps_stores:
  assumes "world_steps E w w'" and "\<And>p. SaveBackup p \<notin> E \<and> SaveConflict p \<notin> E"
  shows "w_backup w' = w_backup w \<and> w_conflict w' = w_conflict w"
  using assms(1)
  by (induction rule: rtranclp_induct) (auto simp: assms(2) settle_fields elim!: world_stepE)

section \<open>Confined operations\<close>

definition confined :: "effect set \<Rightarrow> 'a io \<Rightarrow> bool" where
  "confined E m \<longleftrightarrow> (\<forall>w. world_steps E w (snd (m w)))"

text \<open>What every value returned by an operation satisfies.\<close>

definition yields :: "'a io \<Rightarrow> ('a \<Rightarrow> bool) \<Rightarrow> bool" where
  "yields m Q \<longleftrightarrow> (\<forall>w x w'. m w = (Inr x, w') \<longrightarrow> Q x)"

named_theorems confinement \<open>confinement of the primitive operations and of their combinations\<close>

lemma confined_mono: "confined E m \<Longrightarrow> E \<subseteq> F \<Longrightarrow> confined F m"
  unfolding confined_def by (blast intro: world_steps_mono)

lemma confined_run: "confined E m \<Longrightarrow> m w = (res, w') \<Longrightarrow> world_steps E w w'"
  unfolding confined_def by (metis snd_conv)

lemma confined_return [confinement, simp]: "confined E (io_return x)"
  by (simp add: confined_def io_return_def)

lemma confined_raise [confinement, simp]: "confined E (io_raise e)"
  by (simp add: confined_def io_raise_def)

lemma confined_bind_yields:
  assumes m: "confined E m" and y: "yields m Q" and f: "\<And>x. Q x \<Longrightarrow> confined E (f x)"
  shows "confined E (io_bind m f)"
  unfolding confined_def
proof
  fix w
  obtain res w1 where run: "m w = (res, w1)" by (cases "m w")
  from m have s: "world_steps E w w1" by (metis confined_def run snd_conv)
  show "world_steps E w (snd (io_bind m f w))"
  proof (cases res)
    case (Inr x)
    with y run have "confined E (f x)" by (auto simp: yields_def intro: f)
    then have "world_steps E w1 (snd (f x w1))" by (simp add: confined_def)
    with s show ?thesis by (simp add: io_bind_def run Inr)
  qed (simp add: io_bind_def run s)
qed

lemma confined_bind [confinement]:
  "confined E m \<Longrightarrow> (\<And>x. confined E (f x)) \<Longrightarrow> confined E (io_bind m f)"
  by (rule confined_bind_yields [where Q = "\<lambda>_. True"]) (simp_all add: yields_def)

lemma confined_catch [confinement]:
  assumes m: "confined E m" and h: "confined E h"
  shows "confined E (io_catch P m h)"
  unfolding confined_def
proof
  fix w
  obtain res w1 where run: "m w = (res, w1)" by (cases "m w")
  from m have s: "world_steps E w w1" by (metis confined_def run snd_conv)
  moreover have "world_steps E w1 (snd (h w1))" using h by (simp add: confined_def)
  ultimately show "world_steps E w (snd (io_catch P m h w))"
    by (cases res) (auto simp: io_catch_def run)
qed

lemma confined_try [confinement]:
  assumes "confined E m"
  shows "confined E (io_try P m)"
  using assms unfolding confined_def io_try_def
  by (auto simp: case_prod_unfold split: sum.splits)

lemma confined_if [confinement]: "(b \<Longrightarrow> confined E m) \<Longrightarrow> (\<not> b \<Longrightarrow> confined E n) \<Longrightarrow> confined E (if b then m else n)"
  by simp

lemma confined_read [confinement]: "confined E (io_read e f)"
  unfolding confined_def io_read_def
  by (auto simp: case_prod_unfold intro!: r_into_rtranclp world_step.external)

lemma confined_write:
  assumes "\<And>w w'. f w = Some w' \<Longrightarrow> world_steps E w w'"
  shows "confined E (io_write e f)"
  unfolding confined_def
proof
  fix w
  have s: "world_steps E w (snd (settle w))" by (blast intro: world_step.external)
  with assms [of "snd (settle w)"] show "world_steps E w (snd (io_write e f w))"
    by (auto simp: io_write_def case_prod_unfold split: option.splits intro: rtranclp_trans)
qed

lemma confined_option [confinement]:
  "(x = None \<Longrightarrow> confined E m) \<Longrightarrow> (\<And>y. x = Some y \<Longrightarrow> confined E (f y))
   \<Longrightarrow> confined E (case x of None \<Rightarrow> m | Some y \<Rightarrow> f y)"
  by (cases x) simp_all

lemma confined_local_ops [confinement]:
  "confined E (build_local_manifest c)"
  "confined E local_root_exists"
  "confined E (fresh_local_entry p h)"
  unfolding build_local_manifest_def fresh_local_entry_def by (rule confined_read)+
     (simp_all add: confined_def local_root_exists_def confined_read [unfolded confined_def])

lemma confined_io_read_case: "confined E (\<lambda>w. case io_read e f w of
    (Inl e, w') \<Rightarrow> (Inl e, w') | (Inr x, w') \<Rightarrow> (g x, w'))"
  using confined_read [of E e f] unfolding confined_def
  by (auto simp: case_prod_unfold split: sum.splits)

lemma confined_hash_ops [confinement]:
  "confined E (sha256_local p)" "confined E (sim_hash_file p)"
  using confined_read [of E "OSError p" "\<lambda>w. dict_get (w_local w) p"]
    confined_read [of E "OSError p" "\<lambda>w. dict_get (w_remote w) p"]
  unfolding confined_def sha256_local_def sim_hash_file_def
  by (auto simp: case_prod_unfold split: sum.splits option.splits)

lemma confined_backup_local [confinement]: "SaveBackup p \<in> E \<Longrightarrow> confined E (backup_local n p)"
  unfolding backup_local_def
  by (rule confined_write) (auto split: option.splits if_splits intro: world_step.save_backup)

lemma confined_unlink_local [confinement]: "RemoveLocal p \<in> E \<Longrightarrow> confined E (unlink_local p)"
  unfolding unlink_local_def by (rule confined_write) (auto intro: world_step.remove_local)

lemma yields_return: "Q x \<Longrightarrow> yields (io_return x) Q"
  by (simp add: yields_def io_return_def)

lemma yields_raise: "yields (io_raise e) Q"
  by (simp add: yields_def io_raise_def)

lemma yields_bind:
  assumes "yields m P" and "\<And>x. P x \<Longrightarrow> yields (f x) Q"
  shows "yields (io_bind m f) Q"
  using assms unfolding yields_def io_bind_def
  by (fastforce split: prod.splits sum.splits)

lemma yields_skip: "(\<And>x. yields (f x) Q) \<Longrightarrow> yields (io_bind m f) Q"
  by (rule yields_bind [where P = "\<lambda>_. True"]) (simp_all add: yields_def)

lemma yields_catch: "yields m Q \<Longrightarrow> yields h Q \<Longrightarrow> yields (io_catch P m h) Q"
  unfolding yields_def io_catch_def by (fastforce split: prod.splits sum.splits if_splits)

lemma yields_try: "yields m Q \<Longrightarrow> yields (io_try P m) (\<lambda>res. \<forall>x. res = Some x \<longrightarrow> Q x)"
  unfolding yields_def io_try_def by (fastforce split: prod.splits sum.splits if_splits)

lemma yields_option:
  "(x = None \<Longrightarrow> yields m Q) \<Longrightarrow> (\<And>y. x = Some y \<Longrightarrow> yields (f y) Q)
   \<Longrightarrow> yields (case x of None \<Rightarrow> m | Some y \<Rightarrow> f y) Q"
  by (cases x) simp_all

lemma yields_if: "(b \<Longrightarrow> yields m Q) \<Longrightarrow> (\<not> b \<Longrightarrow> yields n Q) \<Longrightarrow> yields (if b then m else n) Q"
  by simp

lemma yields_mono: "yields m P \<Longrightarrow> (\<And>x. P x \<Longrightarrow> Q x) \<Longrightarrow> yields m Q"
  unfolding yields_def by blast

lemma yields_run: "yields m Q \<Longrightarrow> m w = (Inr x, w') \<Longrightarrow> Q x"
  unfolding yields_def by blast

lemmas yields_intros = yields_return yields_raise yields_skip yields_if yields_catch yields_option

section \<open>Triples\<close>

definition io_triple :: "(world \<Rightarrow> bool) \<Rightarrow> 'a io \<Rightarrow> ('a \<Rightarrow> world \<Rightarrow> bool) \<Rightarrow> (world \<Rightarrow> bool) \<Rightarrow> bool" where
  "io_triple P m Q X \<longleftrightarrow>
     (\<forall>w. P w \<longrightarrow> (case m w of (Inl e, w') \<Rightarrow> X w' | (Inr x, w') \<Rightarrow> Q x w'))"

lemma triple_return: "(\<And>w. P w \<Longrightarrow> Q x w) \<Longrightarrow> io_triple P (io_return x) Q X"
  by (simp add: io_triple_def io_return_def)

lemma triple_raise: "(\<And>w. P w \<Longrightarrow> X w) \<Longrightarrow> io_triple P (io_raise e) Q X"
  by (simp add: io_triple_def io_raise_def)

lemma triple_bind:
  assumes "io_triple P m Q X" and "\<And>x. io_triple (Q x) (f x) R X"
  shows "io_triple P (io_bind m f) R X"
  using assms unfolding io_triple_def io_bind_def
  by (fastforce split: prod.splits sum.splits)

lemma triple_bind_yields:
  assumes "io_triple P m (\<lambda>_. Q) X" and "yields m Y" and "\<And>x. Y x \<Longrightarrow> io_triple Q (f x) R X"
  shows "io_triple P (io_bind m f) R X"
  using assms unfolding io_triple_def io_bind_def yields_def
  by (fastforce split: prod.splits sum.splits)

lemma triple_if:
  "(b \<Longrightarrow> io_triple P m Q X) \<Longrightarrow> (\<not> b \<Longrightarrow> io_triple P n Q X) \<Longrightarrow> io_triple P (if b then m else n) Q X"
  by simp

lemma triple_post:
  "io_triple P m Q X \<Longrightarrow> (\<And>x w. Q x w \<Longrightarrow> Q' x w) \<Longrightarrow> (\<And>w. X w \<Longrightarrow> X' w) \<Longrightarrow> io_triple P m Q' X'"
  unfolding io_triple_def by (fastforce split: prod.splits sum.splits)

lemma triple_try:
  assumes "io_triple P m Q X"
  shows "io_triple P (io_try C m) (\<lambda>res w. case res of None \<Rightarrow> X w | Some x \<Rightarrow> Q x w) X"
  using assms unfolding io_triple_def io_try_def
  by (fastforce split: prod.splits sum.splits if_splits)

lemma triple_pre: "io_triple P' m Q X \<Longrightarrow> (\<And>w. P w \<Longrightarrow> P' w) \<Longrightarrow> io_triple P m Q X"
  by (simp add: io_triple_def)

text \<open>A property kept by every permitted step is kept by a confined operation.\<close>

lemma triple_confined:
  assumes c: "confined E m" and step: "\<And>w w'. world_step E w w' \<Longrightarrow> P w \<Longrightarrow> P w'"
  shows "io_triple P m (\<lambda>_. P) P"
proof -
  have "world_steps E w w' \<Longrightarrow> P w \<Longrightarrow> P w'" for w w'
    by (induction rule: rtranclp_induct) (blast intro: step)+
  then have "P w \<Longrightarrow> P (snd (m w))" for w
    using c unfolding confined_def by blast
  then show ?thesis
    unfolding io_triple_def case_prod_unfold by (simp split: sum.split)
qed

lemma triple_read:
  "(\<And>w. P w \<Longrightarrow> P (snd (settle w))) \<Longrightarrow> io_triple P (io_read e f) (\<lambda>x w. P w \<and> x = f w) P"
  unfolding io_triple_def io_read_def by (auto simp: case_prod_unfold)

lemma triple_write:
  assumes "\<And>w. P w \<Longrightarrow> P (snd (settle w))" and "\<And>w w'. P w \<Longrightarrow> f w = Some w' \<Longrightarrow> Q () w'"
  shows "io_triple P (io_write e f) Q P"
  using assms unfolding io_triple_def io_write_def
  by (auto simp: case_prod_unfold split: option.splits)

lemma triple_run: "io_triple P m Q X \<Longrightarrow> P w \<Longrightarrow> m w = (Inr x, w') \<Longrightarrow> Q x w'"
  unfolding io_triple_def by fastforce

lemma triple_any: "io_triple P m (\<lambda>_. Q) Q \<Longrightarrow> P w \<Longrightarrow> Q (snd (m w))"
  unfolding io_triple_def by (fastforce split: prod.splits sum.splits)

lemma io_bind_Inr_iff:
  "io_bind m f w = (Inr y, w') \<longleftrightarrow> (\<exists>x w1. m w = (Inr x, w1) \<and> f x w1 = (Inr y, w'))"
  by (auto simp: io_bind_def split: prod.splits sum.splits)

lemma io_return_Inr_iff: "io_return x w = (Inr y, w') \<longleftrightarrow> y = x \<and> w' = w"
  by (auto simp: io_return_def)

lemma io_raise_Inr_iff [simp]: "io_raise e w = (Inr y, w') \<longleftrightarrow> False"
  by (simp add: io_raise_def)

lemma io_catch_Inr_iff:
  "io_catch P m h w = (Inr y, w') \<longleftrightarrow>
     m w = (Inr y, w') \<or> (\<exists>e w1. m w = (Inl e, w1) \<and> P e \<and> h w1 = (Inr y, w'))"
  by (auto simp: io_catch_def split: prod.splits sum.splits)

lemmas io_run_simps = io_bind_Inr_iff io_return_Inr_iff io_raise_Inr_iff io_catch_Inr_iff

section \<open>The contract of a transport\<close>

text \<open>
  What the engines rely on: reading operations change nothing, a transfer or a deletion
  changes its own path only (or fails), and a successful pull stores what the remote holds.
\<close>

locale file_transport =
  fixes T :: transport
  assumes manifest_confined: "confined {} (tr_manifest T c)"
    and hash_file_confined: "confined {} (tr_hash_file T p)"
    and path_exists_confined: "confined {} (tr_remote_path_exists T)"
    and pull_confined: "confined {PullInto p} (tr_pull_file T ToProject p)"
    and save_confined: "confined {SaveConflict p} (tr_pull_file T ToConflictStore p)"
    and push_confined: "confined {PushOut p} (tr_push_file T p)"
    and delete_confined: "confined {RemoveRemote p} (tr_delete_remote T p)"
    and ensure_confined: "confined {MakeRemoteRoot} (tr_ensure_remote_dir T)"
    and pull_result: "tr_pull_file T ToProject p w = (Inr (), w') \<Longrightarrow>
      dict_get (w_remote w') p \<noteq> None \<and> dict_get (w_local w') p = dict_get (w_remote w') p"
    and save_result: "tr_pull_file T ToConflictStore p w = (Inr (), w') \<Longrightarrow>
      dict_get (w_remote w') p \<noteq> None \<and> dict_get (w_conflict w') p = dict_get (w_remote w') p"
begin

lemma read_ops_confined:
  "confined E (tr_manifest T c)" "confined E (tr_hash_file T p)" "confined E (tr_remote_path_exists T)"
  by (rule confined_mono, rule manifest_confined hash_file_confined path_exists_confined, simp)+

lemma write_ops_confined:
  "PullInto p \<in> E \<Longrightarrow> confined E (tr_pull_file T ToProject p)"
  "SaveConflict p \<in> E \<Longrightarrow> confined E (tr_pull_file T ToConflictStore p)"
  "PushOut p \<in> E \<Longrightarrow> confined E (tr_push_file T p)"
  "RemoveRemote p \<in> E \<Longrightarrow> confined E (tr_delete_remote T p)"
  "MakeRemoteRoot \<in> E \<Longrightarrow> confined E (tr_ensure_remote_dir T)"
  by (rule confined_mono, rule pull_confined save_confined push_confined delete_confined
      ensure_confined, simp)+

lemmas transport_confined = read_ops_confined write_ops_confined

end

lemma local_sim_simps [simp]:
  "tr_manifest local_sim = sim_manifest" "tr_hash_file local_sim = sim_hash_file"
  "tr_pull_file local_sim = sim_pull_file" "tr_push_file local_sim = sim_push_file"
  "tr_delete_remote local_sim = sim_delete_remote"
  "tr_remote_path_exists local_sim = sim_remote_path_exists"
  "tr_ensure_remote_dir local_sim = sim_ensure_remote_dir"
  by (simp_all add: local_sim_def)

lemma io_write_Inr_iff:
  "io_write e f w = (Inr u, w') \<longleftrightarrow> \<not> fst (settle w) \<and> f (snd (settle w)) = Some w'"
  by (auto simp: io_write_def case_prod_unfold split: option.splits)

lemma io_read_Inr_iff:
  "io_read e f w = (Inr x, w') \<longleftrightarrow> \<not> fst (settle w) \<and> w' = snd (settle w) \<and> x = f w'"
  by (auto simp: io_read_def case_prod_unfold)

interpretation sim: file_transport local_sim
proof unfold_locales
  show "confined {PullInto p} (tr_pull_file local_sim ToProject p)" for p
    unfolding local_sim_simps sim_pull_file_def
    by (rule confined_write) (auto split: option.splits intro: world_step.pull)
  show "confined {SaveConflict p} (tr_pull_file local_sim ToConflictStore p)" for p
    unfolding local_sim_simps sim_pull_file_def
    by (rule confined_write) (auto split: option.splits intro: world_step.save_conflict)
  show "confined {PushOut p} (tr_push_file local_sim p)" for p
    unfolding local_sim_simps sim_push_file_def
    by (rule confined_write) (auto split: option.splits intro: world_step.push)
  show "confined {RemoveRemote p} (tr_delete_remote local_sim p)" for p
    unfolding local_sim_simps sim_delete_remote_def
    by (rule confined_write) (auto intro: world_step.remove_remote)
  show "confined {MakeRemoteRoot} (tr_ensure_remote_dir local_sim)"
    unfolding local_sim_simps sim_ensure_remote_dir_def
    by (rule confined_write) (auto intro: world_step.make_root)
qed (auto simp: sim_manifest_def sim_remote_path_exists_def sim_pull_file_def io_write_Inr_iff
       dict_simps confined_read confined_hash_ops split: option.splits)

end
