(* ===== verification/Reconcile.thy ===== *)
theory Reconcile
  imports Effects
begin

text \<open>
  The reconcile engine (\<open>src/remrun/reconcile.py\<close>): \<open>preflight_reconcile\<close> brings the two
  project trees together before a command runs, \<open>postrun_pullback\<close> returns what the command
  changed.  Both are modelled statement by statement over the world of theory \<open>World\<close>,
  with every exception and every early return.
\<close>

section \<open>Results\<close>

definition CANDIDATE_LOCAL_CONFLICT_STATES :: "string list" where
  "CANDIDATE_LOCAL_CONFLICT_STATES =
     [''both-present-differ'', ''both-present-unverified'', ''both-changed'', ''unknown-deletion'',
      ''casefold-collision'', ''fallback-local-mutation'', ''remote-vanished'',
      ''bootstrap-input-diverged'']"

record reconcile_result =
  rr_pulled :: "path list"
  rr_pushed :: "path list"
  rr_deleted_local :: "path list"
  rr_deleted_remote :: "path list"
  rr_conflicts :: "classified_path list"
  rr_skipped_identical :: "path list"
  rr_converged_conflicts :: "path list"
  rr_local_manifest :: manifest
  rr_remote_manifest :: manifest

definition empty_reconcile_result :: reconcile_result where
  "empty_reconcile_result =
     \<lparr>rr_pulled = [], rr_pushed = [], rr_deleted_local = [], rr_deleted_remote = [],
      rr_conflicts = [], rr_skipped_identical = [], rr_converged_conflicts = [],
      rr_local_manifest = [], rr_remote_manifest = []\<rparr>"

definition rr_has_conflicts :: "reconcile_result \<Rightarrow> bool" where
  "rr_has_conflicts r \<longleftrightarrow> rr_conflicts r \<noteq> []"

definition conflicts_are_candidate_local :: "reconcile_result \<Rightarrow> bool" where
  "conflicts_are_candidate_local r \<longleftrightarrow>
     rr_conflicts r \<noteq> []
     \<and> list_all (\<lambda>c. cp_state c \<in> set CANDIDATE_LOCAL_CONFLICT_STATES) (rr_conflicts r)"

record next_baseline =
  nb_local_manifest :: manifest
  nb_remote_manifest :: manifest

record pullback_result =
  pb_pulled :: "path list"
  pb_deleted_local :: "path list"
  pb_conflicts :: "path list"
  pb_skipped_identical :: "path list"
  pb_post_remote_manifest :: manifest
  pb_local_manifest_after :: manifest
  pb_next_baseline :: "next_baseline option"

definition empty_pullback_result :: pullback_result where
  "empty_pullback_result =
     \<lparr>pb_pulled = [], pb_deleted_local = [], pb_conflicts = [], pb_skipped_identical = [],
      pb_post_remote_manifest = [], pb_local_manifest_after = [], pb_next_baseline = None\<rparr>"

section \<open>Case-fold collisions\<close>

text \<open>
  \<open>casefold_collisions\<close> of \<open>src/remrun/config.py\<close>.  \<open>fold_key\<close> is the standard
  library's NFC normalisation followed by \<open>str.casefold\<close>.
\<close>

fun fold_groups :: "(path \<Rightarrow> string) \<Rightarrow> path list \<Rightarrow> (string, path list) dict \<Rightarrow> (string, path list) dict" where
  "fold_groups fold_key [] groups = groups"
| "fold_groups fold_key (p # ps) groups =
     fold_groups fold_key ps
       (dict_set (fold_key p)
          ((case dict_get groups (fold_key p) of None \<Rightarrow> [] | Some g \<Rightarrow> g) @ [p]) groups)"

definition casefold_collisions :: "(path \<Rightarrow> string) \<Rightarrow> path list \<Rightarrow> (string, path list) dict" where
  "casefold_collisions fold_key ps =
     map (\<lambda>(k, v). (k, sorted_set v))
       (filter (\<lambda>(k, v). length (remdups v) > 1) (fold_groups fold_key ps []))"

fun dict_update :: "('k, 'v) dict \<Rightarrow> ('k, 'v) dict \<Rightarrow> ('k, 'v) dict" where
  "dict_update d [] = d"
| "dict_update d ((k, v) # kvs) = dict_update (dict_set k v d) kvs"

section \<open>Local re-checks\<close>

text \<open>\<open>except (TransportError, NotImplementedError, OSError, ValueError)\<close>\<close>

definition caught_io :: "py_exn \<Rightarrow> bool" where
  "caught_io e \<longleftrightarrow> (case e of ManifestError _ \<Rightarrow> False | KeyError _ \<Rightarrow> False | _ \<Rightarrow> True)"

text \<open>\<open>except (TransportError, NotImplementedError, OSError)\<close>\<close>

definition caught_probe :: "py_exn \<Rightarrow> bool" where
  "caught_probe e \<longleftrightarrow> (case e of TransportError _ \<Rightarrow> True | NotImplementedError \<Rightarrow> True | OSError _ \<Rightarrow> True | _ \<Rightarrow> False)"

definition already_converged :: "path \<Rightarrow> file_entry option \<Rightarrow> bool io" where
  "already_converged p remote_entry =
     (case remote_entry of
        None \<Rightarrow> io_return False
      | Some re \<Rightarrow>
          if fe_kind re \<noteq> ''file'' \<or> fe_sha256 re = None then io_return False
          else io_bind (fresh_local_entry p (Some (fe_size re))) (\<lambda>local_now.
            (case local_now of
               None \<Rightarrow> io_return False
             | Some le \<Rightarrow>
                 if fe_sha256 le = None then io_return False
                 else io_return (fe_sha256 le = fe_sha256 re))))"

text \<open>\<open>entry.sha256 or fallback\<close>: a missing or empty digest asks the fallback.\<close>

definition digest_or :: "string option \<Rightarrow> string io \<Rightarrow> string io" where
  "digest_or h m = (case h of Some d \<Rightarrow> if d \<noteq> [] then io_return d else m | None \<Rightarrow> m)"

text \<open>Whether a disputed item survives a real content comparison.\<close>

definition conflict_survives ::
  "transport \<Rightarrow> manifest \<Rightarrow> manifest \<Rightarrow> classified_path \<Rightarrow> bool io" where
  "conflict_survives T local_manifest remote_manifest item =
     (if cp_state item \<notin> {''both-changed'', ''both-present-unverified''} then io_return True
      else (case (dict_get local_manifest (cp_path item), dict_get remote_manifest (cp_path item)) of
          (Some le, Some re) \<Rightarrow>
            if fe_kind le \<noteq> ''file'' \<or> fe_kind re \<noteq> ''file'' then io_return True
            else if fe_size le \<noteq> fe_size re then io_return True
            else io_catch caught_io
              (io_bind (digest_or (fe_sha256 le) (sha256_local (cp_path item))) (\<lambda>local_hash.
               io_bind (digest_or (fe_sha256 re) (tr_hash_file T (cp_path item))) (\<lambda>remote_hash.
                 if local_hash = [] \<or> remote_hash = [] \<or> length (py_strip remote_hash) \<noteq> 64
                 then io_return True
                 else io_return
                   (ascii_lower (py_strip local_hash) \<noteq> ascii_lower (py_strip remote_hash)))))
              (io_return True)
        | _ \<Rightarrow> io_return True))"

fun drop_identical_conflicts ::
  "transport \<Rightarrow> manifest \<Rightarrow> manifest \<Rightarrow> classified_path list \<Rightarrow> classified_path list io" where
  "drop_identical_conflicts T lm rm [] = io_return []"
| "drop_identical_conflicts T lm rm (item # items) =
     io_bind (conflict_survives T lm rm item) (\<lambda>survives.
     io_bind (drop_identical_conflicts T lm rm items) (\<lambda>rest.
       io_return (if survives then item # rest else rest)))"

definition remote_root_present :: "transport \<Rightarrow> bool io" where
  "remote_root_present T = io_catch caught_probe (tr_remote_path_exists T) (io_return False)"

section \<open>Preflight: planning\<close>

record preflight_args =
  pa_config :: walk_config
  pa_hash_below :: int
  pa_prev_local :: "manifest option"
  pa_prev_remote :: "manifest option"
  pa_backup_below :: int
  pa_is_fallback :: bool
  pa_local_ci :: bool
  pa_remote_ci :: bool
  pa_fold_key :: "path \<Rightarrow> string"

text \<open>The walk configuration of both manifests: \<open>hash_below_bytes or None\<close>.\<close>

definition pa_walk :: "preflight_args \<Rightarrow> walk_config" where
  "pa_walk a = (pa_config a)\<lparr>wc_hash_below := (if pa_hash_below a = 0 then None else Some (pa_hash_below a)),
     wc_always_hash := False\<rparr>"

definition pa_have_prev :: "preflight_args \<Rightarrow> bool" where
  "pa_have_prev a \<longleftrightarrow> pa_prev_local a \<noteq> None \<and> pa_prev_remote a \<noteq> None"

definition nonempty_prev :: "manifest option \<Rightarrow> bool" where
  "nonempty_prev m \<longleftrightarrow> m \<noteq> None \<and> m \<noteq> Some []"

definition with_conflicts :: "classified_path list \<Rightarrow> manifest \<Rightarrow> manifest \<Rightarrow> reconcile_result" where
  "with_conflicts cs lm rm =
     empty_reconcile_result\<lparr>rr_conflicts := cs, rr_local_manifest := lm, rr_remote_manifest := rm\<rparr>"

definition vanished_remote :: classified_path where
  "vanished_remote = ClassifiedPath ''<remote root>'' ''remote-vanished'' ABORT_CONFLICT
     (''remote root missing/unreachable but the prior baseline had files '' @ em_dash
      @ '' refusing to mirror wholesale deletions'')"

definition vanished_local :: classified_path where
  "vanished_local = ClassifiedPath ''<local root>'' ''local-vanished'' ABORT_CONFLICT
     (''local project root missing but the prior baseline had files (wrong cwd?) '' @ em_dash
      @ '' refusing to mirror wholesale deletions'')"

text \<open>The vanished-root guard: the conflict to report, if any.\<close>

definition vanished_root ::
  "transport \<Rightarrow> preflight_args \<Rightarrow> manifest \<Rightarrow> manifest \<Rightarrow> classified_path option io" where
  "vanished_root T a lm rm =
     (if \<not> pa_have_prev a then io_return None
      else io_bind
        (if nonempty_prev (pa_prev_remote a) \<and> rm = [] then
           io_bind (remote_root_present T) (\<lambda>present. io_return (\<not> present))
         else io_return False) (\<lambda>remote_gone.
        if remote_gone then io_return (Some vanished_remote)
        else if nonempty_prev (pa_prev_local a) \<and> lm = [] then
          io_bind local_root_exists (\<lambda>ex. io_return (if ex then None else Some vanished_local))
        else io_return None))"

text \<open>Controller-authoritative bootstrap inputs: the plan item, or the conflict it becomes.\<close>

definition authority_item ::
  "path list \<Rightarrow> manifest \<Rightarrow> manifest \<Rightarrow> classified_path \<Rightarrow> classified_path + classified_path" where
  "authority_item authoritative lm rm item =
     (if cp_path item \<notin> set authoritative then Inr item
      else if dict_get lm (cp_path item) \<noteq> None \<and> dict_get rm (cp_path item) = None then
        Inr (ClassifiedPath (cp_path item) ''bootstrap-input-remote-missing'' PUSH
               ''declared bootstrap input is controller-authoritative'')
      else if cp_action item \<in> {PULL, DELETE_LOCAL, DELETE_REMOTE} then
        Inl (ClassifiedPath (cp_path item) ''bootstrap-input-diverged'' ABORT_CONFLICT
               ''target divergence cannot mutate a controller-authoritative bootstrap input'')
      else Inr item)"

fun authority_pass ::
  "path list \<Rightarrow> manifest \<Rightarrow> manifest \<Rightarrow> classified_path list
   \<Rightarrow> classified_path list \<times> classified_path list" where
  "authority_pass auth lm rm [] = ([], [])"
| "authority_pass auth lm rm (item # items) =
     (case authority_pass auth lm rm items of (normalized, bad) \<Rightarrow>
        (case authority_item auth lm rm item of
           Inr i \<Rightarrow> (i # normalized, bad)
         | Inl c \<Rightarrow> (normalized, c # bad)))"

fun action_word :: "action \<Rightarrow> string" where
  "action_word NONE = ''none''"
| "action_word PUSH = ''push''"
| "action_word PULL = ''pull''"
| "action_word DELETE_REMOTE = ''delete-remote''"
| "action_word DELETE_LOCAL = ''delete-local''"
| "action_word ABORT_CONFLICT = ''abort-conflict''"

definition fallback_conflicts :: "bool \<Rightarrow> classified_path list \<Rightarrow> classified_path list" where
  "fallback_conflicts is_fallback items =
     map (\<lambda>item. ClassifiedPath (cp_path item) ''fallback-local-mutation'' ABORT_CONFLICT
            (''fallback plan would '' @ action_word (cp_action item) @ '' the local tree''))
       (filter (\<lambda>item. is_fallback \<and> (cp_action item = PULL \<or> cp_action item = DELETE_LOCAL)) items)"

definition paths_with :: "action \<Rightarrow> classified_path list \<Rightarrow> path list" where
  "paths_with a items = map cp_path (filter (\<lambda>i. cp_action i = a) items)"

definition collision_conflicts ::
  "preflight_args \<Rightarrow> manifest \<Rightarrow> manifest \<Rightarrow> classified_path list \<Rightarrow> classified_path list" where
  "collision_conflicts a lm rm items =
     (let c1 = (if pa_local_ci a
                then casefold_collisions (pa_fold_key a) (dict_keys lm @ paths_with PULL items) else []);
          c2 = (if pa_remote_ci a
                then casefold_collisions (pa_fold_key a) (dict_keys rm @ paths_with PUSH items) else [])
      in map (\<lambda>(k, ps). ClassifiedPath (join_with '' | '' ps) ''casefold-collision'' ABORT_CONFLICT
                (''would collapse on a case-insensitive target: '' @ join_with '', '' ps))
           (dict_update (dict_update [] c1) c2))"

text \<open>
  The planning phase after the vanished-root guard: either the result to return at once
  (\<open>Inl\<close>), or the items to apply with the conflicts that were disproved (\<open>Inr\<close>).
\<close>

definition refine_plan ::
  "preflight_args \<Rightarrow> manifest \<Rightarrow> manifest \<Rightarrow> path list \<Rightarrow> classified_path list
   \<Rightarrow> reconcile_result + classified_path list \<times> path list" where
  "refine_plan a lm rm converged items =
     (let auth = wc_include (pa_config a);
          (normalized, bad) = (if auth = [] then (items, []) else authority_pass auth lm rm items);
          result = empty_reconcile_result\<lparr>rr_converged_conflicts := converged,
                     rr_local_manifest := lm, rr_remote_manifest := rm\<rparr>
      in if bad \<noteq> [] then Inl (result\<lparr>rr_conflicts := bad\<rparr>)
         else if fallback_conflicts (pa_is_fallback a) normalized \<noteq> [] then
           Inl (result\<lparr>rr_conflicts := fallback_conflicts (pa_is_fallback a) normalized\<rparr>)
         else if collision_conflicts a lm rm normalized \<noteq> [] then
           Inl (result\<lparr>rr_conflicts := collision_conflicts a lm rm normalized\<rparr>)
         else Inr (normalized, converged))"

definition plan_preflight ::
  "transport \<Rightarrow> preflight_args \<Rightarrow> manifest \<Rightarrow> manifest
   \<Rightarrow> (reconcile_result + classified_path list \<times> path list) io" where
  "plan_preflight T a lm rm =
     io_bind (vanished_root T a lm rm) (\<lambda>vanished.
       (case vanished of
          Some c \<Rightarrow> io_return (Inl (with_conflicts [c] lm rm))
        | None \<Rightarrow>
            (let plan = compare_manifests lm rm (pa_prev_local a) (pa_prev_remote a)
             in if has_conflicts plan then
                  io_bind (drop_identical_conflicts T lm rm (conflicts plan)) (\<lambda>resolved.
                    if resolved \<noteq> [] then io_return (Inl (with_conflicts resolved lm rm))
                    else io_return (refine_plan a lm rm (map cp_path (conflicts plan))
                           (filter (\<lambda>i. cp_action i \<noteq> ABORT_CONFLICT) (paths plan))))
                else io_return (refine_plan a lm rm [] (paths plan)))))"

section \<open>Preflight: applying the plan\<close>

definition apply_pull ::
  "transport \<Rightarrow> preflight_args \<Rightarrow> manifest \<Rightarrow> path \<Rightarrow> reconcile_result \<Rightarrow> reconcile_result io" where
  "apply_pull T a rm p r =
     io_bind (already_converged p (dict_get rm p)) (\<lambda>same.
       if same then io_return (r\<lparr>rr_skipped_identical := rr_skipped_identical r @ [p]\<rparr>)
       else io_bind (backup_local (pa_backup_below a) p) (\<lambda>_.
            io_bind (tr_pull_file T ToProject p) (\<lambda>_.
              io_return (r\<lparr>rr_pulled := rr_pulled r @ [p]\<rparr>))))"

definition apply_push ::
  "transport \<Rightarrow> manifest \<Rightarrow> path \<Rightarrow> reconcile_result \<Rightarrow> reconcile_result io" where
  "apply_push T rm p r =
     io_bind (already_converged p (dict_get rm p)) (\<lambda>same.
       if same then io_return (r\<lparr>rr_skipped_identical := rr_skipped_identical r @ [p]\<rparr>)
       else io_bind (tr_push_file T p) (\<lambda>_.
              io_return (r\<lparr>rr_pushed := rr_pushed r @ [p]\<rparr>)))"

definition apply_item ::
  "transport \<Rightarrow> preflight_args \<Rightarrow> manifest \<Rightarrow> classified_path \<Rightarrow> reconcile_result \<Rightarrow> reconcile_result io" where
  "apply_item T a rm item r =
     (case cp_action item of
        PULL \<Rightarrow> apply_pull T a rm (cp_path item) r
      | PUSH \<Rightarrow> apply_push T rm (cp_path item) r
      | DELETE_REMOTE \<Rightarrow>
          io_bind (tr_delete_remote T (cp_path item)) (\<lambda>_.
            io_return (r\<lparr>rr_deleted_remote := rr_deleted_remote r @ [cp_path item]\<rparr>))
      | DELETE_LOCAL \<Rightarrow>
          io_bind (backup_local (pa_backup_below a) (cp_path item)) (\<lambda>_.
          io_bind (unlink_local (cp_path item)) (\<lambda>_.
            io_return (r\<lparr>rr_deleted_local := rr_deleted_local r @ [cp_path item]\<rparr>)))
      | NONE \<Rightarrow> io_return r
      | ABORT_CONFLICT \<Rightarrow> io_return r)"

fun apply_items ::
  "transport \<Rightarrow> preflight_args \<Rightarrow> manifest \<Rightarrow> classified_path list \<Rightarrow> reconcile_result \<Rightarrow> reconcile_result io" where
  "apply_items T a rm [] r = io_return r"
| "apply_items T a rm (item # items) r =
     io_bind (apply_item T a rm item r) (\<lambda>r'. apply_items T a rm items r')"

section \<open>Preflight: verifying the final pair\<close>

text \<open>The untouched historical generation of a path, retained without rehashing it.\<close>

definition retained_generation ::
  "preflight_args \<Rightarrow> manifest \<Rightarrow> manifest \<Rightarrow> path list \<Rightarrow> path \<Rightarrow> file_entry \<Rightarrow> file_entry \<Rightarrow> bool" where
  "retained_generation a lm rm touched rel left right \<longleftrightarrow>
     rel \<notin> set touched \<and> pa_have_prev a
     \<and> prev_get (pa_prev_local a) rel \<noteq> None \<and> prev_get (pa_prev_remote a) rel \<noteq> None
     \<and> entries_same (prev_get (pa_prev_local a) rel) (dict_get lm rel)
     \<and> entries_same (prev_get (pa_prev_remote a) rel) (dict_get rm rel)
     \<and> entries_same (dict_get lm rel) (Some left)
     \<and> entries_same (dict_get rm rel) (Some right)"

definition changed_conflict :: "path \<Rightarrow> classified_path" where
  "changed_conflict rel = ClassifiedPath rel ''preflight-changed'' ABORT_CONFLICT
     ''the final preflight file pair is divergent or could not be verified; retry reconciliation''"

definition root_conflict :: classified_path where
  "root_conflict = ClassifiedPath ''<project root>'' ''preflight-changed'' ABORT_CONFLICT
     ''a project root disappeared during preflight reconciliation''"

definition hashed_equal :: "file_entry \<Rightarrow> file_entry \<Rightarrow> bool" where
  "hashed_equal left right \<longleftrightarrow>
     fe_kind left = fe_kind right \<and> fe_size left = fe_size right \<and> fe_sha256 left = fe_sha256 right"

text \<open>
  The last resort of the verification: re-read the local file and hash both sides now.  The
  result is the verified pair of entries, or nothing when the pair stays unproved.
\<close>

definition reverify ::
  "transport \<Rightarrow> path \<Rightarrow> file_entry \<Rightarrow> (file_entry \<times> file_entry) option io" where
  "reverify T rel right =
     io_catch caught_io
       (io_bind (fresh_local_entry rel (Some (fe_size right))) (\<lambda>fresh.
        io_bind (digest_or (fe_sha256 right) (tr_hash_file T rel)) (\<lambda>remote_hash.
          (case fresh of
             None \<Rightarrow> io_return None
           | Some f \<Rightarrow>
               if fe_kind f = fe_kind right \<and> fe_size f = fe_size right
                  \<and> fe_sha256 f \<noteq> None \<and> fe_sha256 f = Some remote_hash
               then io_return (Some (f, right\<lparr>fe_sha256 := Some remote_hash\<rparr>))
               else io_return None))))
       (io_return None)"

definition verify_path ::
  "transport \<Rightarrow> preflight_args \<Rightarrow> manifest \<Rightarrow> manifest \<Rightarrow> path list \<Rightarrow> path
   \<Rightarrow> reconcile_result \<Rightarrow> reconcile_result io" where
  "verify_path T a lm rm touched rel r =
     (let conflict = io_return (r\<lparr>rr_conflicts := rr_conflicts r @ [changed_conflict rel]\<rparr>)
      in (case (dict_get (rr_local_manifest r) rel, dict_get (rr_remote_manifest r) rel) of
            (Some left, Some right) \<Rightarrow>
              (let both_hashed = (fe_sha256 left \<noteq> None \<and> fe_sha256 right \<noteq> None)
               in if both_hashed \<and> hashed_equal left right then io_return r
                  else if \<not> both_hashed \<and> retained_generation a lm rm touched rel left right
                  then io_return r
                  else io_bind (reverify T rel right) (\<lambda>pair.
                    (case pair of
                       None \<Rightarrow> conflict
                     | Some (f, right') \<Rightarrow>
                         io_return (r\<lparr>rr_local_manifest := dict_set rel f (rr_local_manifest r),
                                      rr_remote_manifest := dict_set rel right' (rr_remote_manifest r)\<rparr>))))
          | _ \<Rightarrow> conflict))"

fun verify_paths ::
  "transport \<Rightarrow> preflight_args \<Rightarrow> manifest \<Rightarrow> manifest \<Rightarrow> path list \<Rightarrow> path list
   \<Rightarrow> reconcile_result \<Rightarrow> reconcile_result io" where
  "verify_paths T a lm rm touched [] r = io_return r"
| "verify_paths T a lm rm touched (rel # rels) r =
     io_bind (verify_path T a lm rm touched rel r) (\<lambda>r'. verify_paths T a lm rm touched rels r')"

definition root_lost ::
  "transport \<Rightarrow> manifest \<Rightarrow> manifest \<Rightarrow> bool io" where
  "root_lost T rm remote_after =
     io_bind local_root_exists (\<lambda>is_dir.
       if \<not> is_dir then io_return True
       else if rm \<noteq> [] \<and> remote_after = [] then
         io_bind (remote_root_present T) (\<lambda>present. io_return (\<not> present))
       else io_return False)"

definition verify_preflight ::
  "transport \<Rightarrow> preflight_args \<Rightarrow> manifest \<Rightarrow> manifest \<Rightarrow> reconcile_result \<Rightarrow> reconcile_result io" where
  "verify_preflight T a lm rm r =
     io_bind (build_local_manifest (pa_walk a)) (\<lambda>lm'.
     io_bind (tr_manifest T (pa_walk a)) (\<lambda>rm'.
     io_bind (root_lost T rm rm') (\<lambda>lost.
       (let touched = rr_pushed r @ rr_pulled r @ rr_skipped_identical r @ rr_converged_conflicts r;
            r' = r\<lparr>rr_local_manifest := lm', rr_remote_manifest := rm',
                   rr_conflicts := rr_conflicts r @ (if lost then [root_conflict] else [])\<rparr>
        in verify_paths T a lm rm touched (sorted_paths lm' rm') r'))))"

definition preflight_reconcile :: "transport \<Rightarrow> preflight_args \<Rightarrow> reconcile_result io" where
  "preflight_reconcile T a =
     io_bind (build_local_manifest (pa_walk a)) (\<lambda>lm.
     io_bind (tr_manifest T (pa_walk a)) (\<lambda>rm.
     io_bind (plan_preflight T a lm rm) (\<lambda>planned.
       (case planned of
          Inl result \<Rightarrow> io_return result
        | Inr (items, converged) \<Rightarrow>
            io_bind (tr_ensure_remote_dir T) (\<lambda>_.
            io_bind (apply_items T a rm (filter (\<lambda>i. cp_action i \<noteq> NONE) items)
                       (empty_reconcile_result\<lparr>rr_converged_conflicts := converged\<rparr>)) (\<lambda>r.
              verify_preflight T a lm rm r))))))"

section \<open>Pullback after the command\<close>

record pullback_args =
  pb_config :: walk_config
  pb_hash_below :: int
  pb_pre_remote :: manifest
  pb_pre_local :: manifest
  pb_backup_below :: int
  pb_write_scope :: "string list"
  pb_local_ci :: bool
  pb_fold_key :: "path \<Rightarrow> string"

definition pb_walk :: "pullback_args \<Rightarrow> walk_config" where
  "pb_walk a = (pb_config a)\<lparr>wc_hash_below := (if pb_hash_below a = 0 then None else Some (pb_hash_below a)),
     wc_always_hash := False\<rparr>"

definition matches_any_scope_path :: "(string \<Rightarrow> string) \<Rightarrow> path \<Rightarrow> string list \<Rightarrow> bool" where
  "matches_any_scope_path normcase rel patterns = list_ex (\<lambda>p. should_exclude normcase rel [p]) patterns"

definition is_hex_digest :: "string \<Rightarrow> bool" where
  "is_hex_digest d \<longleftrightarrow> length d = 64 \<and> list_all (\<lambda>c. c \<in> set ''0123456789abcdef'') (ascii_lower d)"

record pullback_state =
  ps_result :: pullback_result
  ps_next_local :: manifest
  ps_next_remote :: manifest

definition add_conflict :: "path \<Rightarrow> pullback_state \<Rightarrow> pullback_state" where
  "add_conflict rel s = s\<lparr>ps_result := (ps_result s)\<lparr>pb_conflicts := pb_conflicts (ps_result s) @ [rel]\<rparr>\<rparr>"

text \<open>Saving the escaped outputs of a scoped run aside.\<close>

fun save_escaped :: "transport \<Rightarrow> manifest \<Rightarrow> path list \<Rightarrow> unit io" where
  "save_escaped T post [] = io_return ()"
| "save_escaped T post (rel # rels) =
     io_bind (if dict_get post rel \<noteq> None then tr_pull_file T ToConflictStore rel else io_return ())
       (\<lambda>_. save_escaped T post rels)"

text \<open>The strong digest of a changed remote file: \<open>None\<close> when it cannot be obtained.\<close>

definition strong_remote_entry :: "transport \<Rightarrow> path \<Rightarrow> file_entry \<Rightarrow> file_entry option io" where
  "strong_remote_entry T rel e =
     (if fe_sha256 e \<noteq> None then io_return (Some e)
      else io_catch caught_io
        (io_bind (tr_hash_file T rel) (\<lambda>digest.
           if is_hex_digest digest then io_return (Some (e\<lparr>fe_sha256 := Some (ascii_lower digest)\<rparr>))
           else io_raise (TransportError (''hash '' @ rel @ '' returned an invalid SHA-256''))))
        (io_return None))"

definition advance :: "path \<Rightarrow> file_entry \<Rightarrow> manifest \<Rightarrow> pullback_state \<Rightarrow> pullback_state" where
  "advance rel local_entry post s =
     s\<lparr>ps_next_local := dict_set rel (local_entry\<lparr>fe_path := rel\<rparr>) (ps_next_local s),
       ps_next_remote := (case dict_get post rel of None \<Rightarrow> ps_next_remote s
                          | Some e \<Rightarrow> dict_set rel e (ps_next_remote s))\<rparr>"

definition pull_changed ::
  "transport \<Rightarrow> pullback_args \<Rightarrow> manifest \<Rightarrow> path \<Rightarrow> file_entry \<Rightarrow> pullback_state \<Rightarrow> pullback_state io" where
  "pull_changed T a post rel re s =
     io_bind (fresh_local_entry rel (Some (fe_size re))) (\<lambda>local_now.
       if local_now \<noteq> None \<and> entries_same local_now (Some re) then
         io_return (advance rel (the local_now) post
           (s\<lparr>ps_result := (ps_result s)\<lparr>pb_skipped_identical := pb_skipped_identical (ps_result s) @ [rel]\<rparr>\<rparr>))
       else if changed_since (dict_get (pb_pre_local a) rel) local_now then
         io_bind (tr_pull_file T ToConflictStore rel) (\<lambda>_. io_return (add_conflict rel s))
       else
         io_bind (backup_local (pb_backup_below a) rel) (\<lambda>_.
         io_bind (tr_pull_file T ToProject rel) (\<lambda>_.
         io_bind (fresh_local_entry rel (Some (fe_size re))) (\<lambda>verify.
           if verify = None \<or> \<not> entries_same verify (Some re) then
             io_raise (TransportError (''pull verification failed for '' @ rel))
           else io_return (advance rel (the verify) post
             (s\<lparr>ps_result := (ps_result s)\<lparr>pb_pulled := pb_pulled (ps_result s) @ [rel]\<rparr>\<rparr>))))))"

definition pullback_changed ::
  "transport \<Rightarrow> pullback_args \<Rightarrow> manifest \<Rightarrow> path list \<Rightarrow> path \<Rightarrow> pullback_state \<Rightarrow> pullback_state io" where
  "pullback_changed T a post collide rel s =
     (if rel \<in> set collide then io_return (add_conflict rel s)
      else (case dict_get post rel of
          None \<Rightarrow> io_return (add_conflict rel s)
        | Some e \<Rightarrow>
            io_bind (strong_remote_entry T rel e) (\<lambda>strong.
              (case strong of
                 None \<Rightarrow> io_bind (tr_pull_file T ToConflictStore rel) (\<lambda>_. io_return (add_conflict rel s))
               | Some re \<Rightarrow> pull_changed T a post rel re s))))"

definition pullback_deleted ::
  "pullback_args \<Rightarrow> path \<Rightarrow> pullback_state \<Rightarrow> pullback_state io" where
  "pullback_deleted a rel s =
     (let pre = dict_get (pb_pre_local a) rel;
          forget = (\<lambda>s. s\<lparr>ps_next_local := dict_pop rel (ps_next_local s),
                         ps_next_remote := dict_pop rel (ps_next_remote s)\<rparr>)
      in io_bind (fresh_local_entry rel (map_option fe_size pre)) (\<lambda>local_now.
           if local_now = None then io_return (forget s)
           else if changed_since pre local_now then io_return (add_conflict rel s)
           else
             io_bind (backup_local (pb_backup_below a) rel) (\<lambda>_.
             io_bind (unlink_local rel) (\<lambda>_.
             io_bind (fresh_local_entry rel None) (\<lambda>after.
               if after \<noteq> None then io_raise (TransportError (''delete verification failed for '' @ rel))
               else io_return (forget
                 (s\<lparr>ps_result := (ps_result s)\<lparr>pb_deleted_local := pb_deleted_local (ps_result s) @ [rel]\<rparr>\<rparr>)))))))"

fun io_foldl :: "('x \<Rightarrow> 's \<Rightarrow> 's io) \<Rightarrow> 'x list \<Rightarrow> 's \<Rightarrow> 's io" where
  "io_foldl f [] s = io_return s"
| "io_foldl f (x # xs) s = io_bind (f x s) (\<lambda>s'. io_foldl f xs s')"

definition pullback_collisions :: "pullback_args \<Rightarrow> manifest \<Rightarrow> path list \<Rightarrow> path list" where
  "pullback_collisions a cur_local changed =
     (if pb_local_ci a then
        filter (\<lambda>p. p \<in> set changed)
          (concat (map snd (casefold_collisions (pb_fold_key a) (dict_keys cur_local @ changed))))
      else [])"

definition finish_pullback ::
  "pullback_args \<Rightarrow> manifest \<Rightarrow> pullback_state \<Rightarrow> pullback_result io" where
  "finish_pullback a post s =
     io_bind (build_local_manifest (pb_walk a)) (\<lambda>after.
       io_return ((ps_result s)\<lparr>pb_post_remote_manifest := post, pb_local_manifest_after := after,
         pb_next_baseline :=
           (if pb_conflicts (ps_result s) = [] then
              Some \<lparr>nb_local_manifest = ps_next_local s, nb_remote_manifest = ps_next_remote s\<rparr>
            else None)\<rparr>))"

definition postrun_pullback :: "transport \<Rightarrow> pullback_args \<Rightarrow> pullback_result io" where
  "postrun_pullback T a =
     io_bind (tr_manifest T (pb_walk a)) (\<lambda>post.
     io_bind (build_local_manifest (pb_walk a)) (\<lambda>cur_local.
       (case diff_remote_changes (pb_pre_remote a) post of (changed, deleted) \<Rightarrow>
          (let escaped = (if pb_write_scope a = [] then []
                          else filter (\<lambda>rel. \<not> matches_any_scope_path (wc_normcase (pb_config a)) rel (pb_write_scope a))
                                 (changed @ deleted));
               s0 = \<lparr>ps_result = empty_pullback_result, ps_next_local = pb_pre_local a,
                     ps_next_remote = pb_pre_remote a\<rparr>
           in if escaped \<noteq> [] then
                io_bind (save_escaped T post escaped) (\<lambda>_.
                  io_return (empty_pullback_result\<lparr>pb_conflicts := escaped,
                    pb_post_remote_manifest := post, pb_local_manifest_after := cur_local\<rparr>))
              else
                io_bind (io_foldl (pullback_changed T a post (pullback_collisions a cur_local changed)) changed s0)
                  (\<lambda>s1. io_bind (io_foldl (pullback_deleted a) deleted s1)
                  (\<lambda>s2. finish_pullback a post s2))))))"

end
