(* ===== verification/ReconcileSafety.thy ===== *)
theory ReconcileSafety
  imports Reconcile
begin

text \<open>
  Safety of the reconcile engine.  Inside the locale \<open>file_transport\<close>: planning and
  verifying only read, each applied item acts on its own path, a fallback attempt never
  writes locally.  The properties instantiate these lemmas on \<open>LocalSimTransport\<close>: conflicts
  abort before any mutation, and no local file is lost on any path, failing runs included.
\<close>

section \<open>Effects of the phases\<close>

definition item_effects :: "classified_path \<Rightarrow> effect set" where
  "item_effects i =
     (case cp_action i of
        PULL \<Rightarrow> {SaveBackup (cp_path i), PullInto (cp_path i)}
      | PUSH \<Rightarrow> {PushOut (cp_path i)}
      | DELETE_REMOTE \<Rightarrow> {RemoveRemote (cp_path i)}
      | DELETE_LOCAL \<Rightarrow> {SaveBackup (cp_path i), RemoveLocal (cp_path i)}
      | NONE \<Rightarrow> {}
      | ABORT_CONFLICT \<Rightarrow> {})"

lemma confined_digest_or [confinement]: "confined E m \<Longrightarrow> confined E (digest_or h m)"
  by (simp add: digest_or_def split: option.split)

lemma confined_already_converged [confinement]: "confined E (already_converged p re)"
  unfolding already_converged_def by (intro confinement)

context file_transport
begin

lemma conflict_survives_confined: "confined E (conflict_survives T lm rm item)"
  unfolding conflict_survives_def
  by (simp split: option.split prod.split)
     (intro confinement transport_confined allI impI conjI)

lemma drop_identical_confined: "confined E (drop_identical_conflicts T lm rm items)"
  by (induction items) (simp_all add: confined_bind conflict_survives_confined)

lemma root_present_confined: "confined E (remote_root_present T)"
  unfolding remote_root_present_def by (intro confinement transport_confined)

lemma vanished_root_confined: "confined E (vanished_root T a lm rm)"
  unfolding vanished_root_def by (intro confinement root_present_confined)

lemma plan_preflight_confined: "confined E (plan_preflight T a lm rm)"
  unfolding plan_preflight_def Let_def
  by (intro confinement vanished_root_confined drop_identical_confined)

lemma apply_item_confined:
  assumes "item_effects item \<subseteq> E"
  shows "confined E (apply_item T a rm item r)"
  using assms unfolding apply_item_def item_effects_def apply_pull_def apply_push_def
  by (cases "cp_action item"; simp) (auto intro!: confinement transport_confined)

lemma apply_items_confined:
  assumes "\<And>i. i \<in> set items \<Longrightarrow> item_effects i \<subseteq> E"
  shows "confined E (apply_items T a rm items r)"
  using assms by (induction items arbitrary: r) (simp_all add: confined_bind apply_item_confined)

lemma reverify_confined: "confined E (reverify T rel right)"
  unfolding reverify_def by (intro confinement transport_confined)

lemma verify_path_confined: "confined E (verify_path T a lm rm touched rel r)"
  unfolding verify_path_def Let_def
  by (simp split: option.split prod.split)
     (intro confinement reverify_confined allI impI conjI; simp split: option.split prod.split)

lemma verify_paths_confined: "confined E (verify_paths T a lm rm touched rels r)"
  by (induction rels arbitrary: r) (simp_all add: confined_bind verify_path_confined)

lemma root_lost_confined: "confined E (root_lost T rm rm')"
  unfolding root_lost_def by (intro confinement root_present_confined)

lemma verify_preflight_confined: "confined E (verify_preflight T a lm rm r)"
  unfolding verify_preflight_def Let_def
  by (intro confinement transport_confined root_lost_confined verify_paths_confined)

end

section \<open>What planning yields\<close>

lemma authority_item_path: "authority_item auth lm rm i = Inr j \<Longrightarrow> cp_path j = cp_path i"
  by (auto simp: authority_item_def split: if_splits)

lemma authority_pass_paths:
  "authority_pass auth lm rm items = (norm, []) \<Longrightarrow> map cp_path norm = map cp_path items"
proof (induction items arbitrary: norm)
  case (Cons i items)
  then show ?case
    by (auto split: prod.splits sum.splits dest: authority_item_path)
qed simp

lemma fallback_conflicts_Nil_iff:
  "fallback_conflicts fb items = [] \<longleftrightarrow>
     (fb \<longrightarrow> (\<forall>i \<in> set items. cp_action i \<noteq> PULL \<and> cp_action i \<noteq> DELETE_LOCAL))"
  by (auto simp: fallback_conflicts_def filter_empty_conv)

definition plan_ok :: "preflight_args \<Rightarrow> classified_path list \<Rightarrow> bool" where
  "plan_ok a items \<longleftrightarrow> distinct (map cp_path items)
     \<and> (pa_is_fallback a \<longrightarrow> (\<forall>i \<in> set items. cp_action i \<noteq> PULL \<and> cp_action i \<noteq> DELETE_LOCAL))"

lemma refine_plan_ok:
  assumes "refine_plan a lm rm conv items = Inr (norm, conv')" and "distinct (map cp_path items)"
  shows "plan_ok a norm"
proof -
  obtain n bad where nb: "(if wc_include (pa_config a) = [] then (items, [])
      else authority_pass (wc_include (pa_config a)) lm rm items) = (n, bad)" by fastforce
  from assms(1) have "bad = []" and "norm = n" and "fallback_conflicts (pa_is_fallback a) n = []"
    unfolding refine_plan_def Let_def nb by (simp_all split: if_splits)
  moreover from this have "map cp_path n = map cp_path items"
    using nb by (auto split: if_splits dest: authority_pass_paths)
  ultimately show ?thesis
    using assms(2) by (simp add: plan_ok_def fallback_conflicts_Nil_iff)
qed

lemma plan_paths_distinct: "distinct (map cp_path (paths (compare_manifests l r pl pr)))"
  by (subst plan_paths) simp

lemma plan_preflight_yields:
  "yields (plan_preflight T a lm rm)
     (\<lambda>x. case x of Inl r \<Rightarrow> True | Inr (items, conv) \<Rightarrow> plan_ok a items)"
proof -
  note d = plan_paths_distinct [of lm rm "pa_prev_local a" "pa_prev_remote a"]
  have f: "distinct (map cp_path (filter P (paths (compare_manifests lm rm (pa_prev_local a) (pa_prev_remote a)))))" for P
    by (rule distinct_map_filter [OF d])
  show ?thesis
    unfolding yields_def plan_preflight_def Let_def
    by (auto simp: io_run_simps split: option.splits if_splits sum.splits
          dest!: sym [of "Inr _"] refine_plan_ok intro: d f)
qed

section \<open>Conflicts come before mutation\<close>

lemma apply_item_conflicts:
  "rr_conflicts r = cs \<Longrightarrow> yields (apply_item T a rm item r) (\<lambda>r'. rr_conflicts r' = cs)"
  unfolding apply_item_def apply_pull_def apply_push_def
  by (cases "cp_action item"; simp) (intro yields_intros; simp)+

lemma apply_items_conflicts:
  "rr_conflicts r = cs \<Longrightarrow> yields (apply_items T a rm items r) (\<lambda>r'. rr_conflicts r' = cs)"
proof (induction items arbitrary: r)
  case (Cons i items)
  show ?case
    by simp (rule yields_bind [OF apply_item_conflicts [OF Cons.prems] Cons.IH])
qed (simp add: yields_return)

definition late_conflicts :: "reconcile_result \<Rightarrow> bool" where
  "late_conflicts r \<longleftrightarrow> (\<forall>c \<in> set (rr_conflicts r). cp_state c = ''preflight-changed'')"

lemma verify_path_late:
  assumes "late_conflicts r"
  shows "yields (verify_path T a lm rm touched rel r) late_conflicts"
proof -
  have l: "late_conflicts (r\<lparr>rr_conflicts := rr_conflicts r @ [changed_conflict rel]\<rparr>)"
    "late_conflicts (r\<lparr>rr_local_manifest := x, rr_remote_manifest := y\<rparr>)" for x y
    using assms by (auto simp: late_conflicts_def changed_conflict_def)
  show ?thesis
    unfolding verify_path_def Let_def
    by (auto split: option.split prod.split intro!: yields_intros l assms)
qed

lemma verify_paths_late:
  "late_conflicts r \<Longrightarrow> yields (verify_paths T a lm rm touched rels r) late_conflicts"
proof (induction rels arbitrary: r)
  case (Cons rel rels)
  show ?case
    by simp (rule yields_bind [OF verify_path_late [OF Cons.prems] Cons.IH])
qed (simp add: yields_return)

lemma verify_preflight_late:
  "rr_conflicts r = [] \<Longrightarrow> yields (verify_preflight T a lm rm r) late_conflicts"
  unfolding verify_preflight_def Let_def
  by (intro yields_skip verify_paths_late) (simp add: late_conflicts_def root_conflict_def)

definition preflight_apply ::
  "transport \<Rightarrow> preflight_args \<Rightarrow> manifest \<Rightarrow> manifest \<Rightarrow> classified_path list \<Rightarrow> path list
   \<Rightarrow> reconcile_result io" where
  "preflight_apply T a lm rm items converged =
     io_bind (tr_ensure_remote_dir T) (\<lambda>_.
     io_bind (apply_items T a rm (filter (\<lambda>i. cp_action i \<noteq> NONE) items)
                (empty_reconcile_result\<lparr>rr_converged_conflicts := converged\<rparr>)) (\<lambda>r.
       verify_preflight T a lm rm r))"

text \<open>The effects of a fallback attempt: nothing on the local tree, no backup needed.\<close>

definition outward :: "effect set" where
  "outward = range PushOut \<union> range RemoveRemote \<union> {MakeRemoteRoot}"

lemma preflight_reconcile_alt:
  "preflight_reconcile T a =
     io_bind (build_local_manifest (pa_walk a)) (\<lambda>lm.
     io_bind (tr_manifest T (pa_walk a)) (\<lambda>rm.
     io_bind (plan_preflight T a lm rm) (\<lambda>planned.
       (case planned of Inl result \<Rightarrow> io_return result
        | Inr (items, converged) \<Rightarrow> preflight_apply T a lm rm items converged))))"
  by (simp only: preflight_reconcile_def preflight_apply_def)

lemma preflight_apply_late: "yields (preflight_apply T a lm rm items conv) late_conflicts"
  unfolding preflight_apply_def
  by (rule yields_skip, rule yields_bind [OF apply_items_conflicts [OF refl]])
     (simp add: verify_preflight_late empty_reconcile_result_def)

context file_transport
begin

lemma preflight_apply_confined:
  assumes "MakeRemoteRoot \<in> E" and "\<And>i. i \<in> set items \<Longrightarrow> item_effects i \<subseteq> E"
  shows "confined E (preflight_apply T a lm rm items conv)"
  unfolding preflight_apply_def
  using assms by (intro confinement transport_confined verify_preflight_confined apply_items_confined) auto

lemma preflight_early_or_late:
  assumes "preflight_reconcile T a w = (Inr r, w')"
  shows "world_steps {} w w' \<or> late_conflicts r"
proof -
  from assms obtain lm w1 rm w2 x w3 where
    1: "build_local_manifest (pa_walk a) w = (Inr lm, w1)" and
    2: "tr_manifest T (pa_walk a) w1 = (Inr rm, w2)" and
    3: "plan_preflight T a lm rm w2 = (Inr x, w3)" and
    4: "(case x of Inl result \<Rightarrow> io_return result
        | Inr (items, converged) \<Rightarrow> preflight_apply T a lm rm items converged) w3 = (Inr r, w')"
    unfolding preflight_reconcile_alt io_bind_Inr_iff by blast
  have "world_steps {} w w1" using confined_local_ops(1) 1 by (metis confined_def snd_conv)
  also have "world_steps {} w1 w2" using manifest_confined 2 by (metis confined_def snd_conv)
  also (rtranclp_trans) have "world_steps {} w2 w3"
    using plan_preflight_confined 3 by (metis confined_def snd_conv)
  finally (rtranclp_trans) have early: "world_steps {} w w3" .
  show ?thesis
  proof (cases x)
    case (Inl res)
    with 4 early show ?thesis by (simp add: io_return_Inr_iff)
  next
    case (Inr y)
    with 4 show ?thesis
      by (auto split: prod.splits dest: yields_run [OF preflight_apply_late])
  qed
qed

lemma preflight_fallback_confined:
  assumes "pa_is_fallback a"
  shows "confined outward (preflight_reconcile T a)"
proof -
  have "confined outward (preflight_apply T a lm rm items conv)" if "plan_ok a items" for lm rm items conv
    using that assms
    by (intro preflight_apply_confined)
       (auto simp: outward_def plan_ok_def item_effects_def split: action.splits)
  then show ?thesis
    unfolding preflight_reconcile_alt
    by (intro confinement transport_confined confined_bind_yields [OF _ plan_preflight_yields]
          plan_preflight_confined) (auto split: sum.splits prod.splits)
qed

end

definition sample_preflight :: "manifest option \<Rightarrow> manifest option \<Rightarrow> bool \<Rightarrow> preflight_args" where
  "sample_preflight pl pr fb =
     \<lparr>pa_config = sample_config, pa_hash_below = 100, pa_prev_local = pl, pa_prev_remote = pr,
      pa_backup_below = 0, pa_is_fallback = fb, pa_local_ci = False, pa_remote_ci = False,
      pa_fold_key = (\<lambda>s. s)\<rparr>"

lemma run_caseE:
  assumes "case m w of (Inl e, w') \<Rightarrow> False | (Inr r, w') \<Rightarrow> Q r"
  obtains r w' where "m w = (Inr r, w')" and "Q r"
  using assms by (auto split: prod.splits sum.splits)

text \<open>
  a conflict aborts the preflight before any mutation.  When a preflight returns a
  conflict that planning found (any state but \<open>preflight-changed\<close>, which the final
  verification reports), then nothing happened to either tree, the backup store and the
  conflict store except what external events did.
\<close>

theorem preflight_conflict_before_mutation:
  assumes "preflight_reconcile local_sim a w = (Inr r, w')"
    and "c \<in> set (rr_conflicts r)" and "cp_state c \<noteq> ''preflight-changed''"
  shows "world_drift w w'"
  using sim.preflight_early_or_late [OF assms(1)] assms(2, 3)
  by (auto simp: late_conflicts_def dest: world_steps_drift)

theorem preflight_conflict_before_mutation_witness:
  "case preflight_reconcile local_sim (sample_preflight None None False)
      (sample_world [(''a'', sample_file 1 ''h1'')] [(''a'', sample_file 2 ''h2''), (''b'', sample_file 1 ''h1'')])
   of (Inl e, w') \<Rightarrow> False
    | (Inr r, w') \<Rightarrow> map cp_state (rr_conflicts r) = [''both-present-differ'']
        \<and> world_drift (sample_world [(''a'', sample_file 1 ''h1'')]
             [(''a'', sample_file 2 ''h2''), (''b'', sample_file 1 ''h1'')]) w'"
proof -
  let ?w = "sample_world [(''a'', sample_file 1 ''h1'')] [(''a'', sample_file 2 ''h2''), (''b'', sample_file 1 ''h1'')]"
  let ?a = "sample_preflight None None False"
  have "case preflight_reconcile local_sim ?a ?w of (Inl e, w') \<Rightarrow> False
    | (Inr r, w') \<Rightarrow> map cp_state (rr_conflicts r) = [''both-present-differ'']" by code_simp
  then obtain r w' where run: "preflight_reconcile local_sim ?a ?w = (Inr r, w')"
    and c: "map cp_state (rr_conflicts r) = [''both-present-differ'']" by (rule run_caseE)
  from c obtain i where i: "rr_conflicts r = [i]" "cp_state i = ''both-present-differ''" by auto
  from preflight_conflict_before_mutation [OF run, of i] i c show ?thesis by (simp add: run)
qed

text \<open>
  a fallback attempt never writes the local tree.  However it ends, the local tree is
  what external events made of it, and neither the backup nor the conflict store changed.
\<close>

theorem preflight_fallback_keeps_local:
  assumes "pa_is_fallback a"
  shows "local_drift w (snd (preflight_reconcile local_sim a w))
       \<and> w_backup (snd (preflight_reconcile local_sim a w)) = w_backup w
       \<and> w_conflict (snd (preflight_reconcile local_sim a w)) = w_conflict w"
proof -
  have steps: "world_steps outward w (snd (preflight_reconcile local_sim a w))"
    using sim.preflight_fallback_confined [OF assms] by (simp add: confined_def)
  show ?thesis
    using world_steps_local_drift [OF steps] world_steps_stores [OF steps]
    by (auto simp: outward_def)
qed

theorem preflight_fallback_keeps_local_witness:
  "pa_is_fallback (sample_preflight None None True)
   \<and> local_drift (sample_world [] [(''b'', sample_file 1 ''h1'')])
       (snd (preflight_reconcile local_sim (sample_preflight None None True)
          (sample_world [] [(''b'', sample_file 1 ''h1'')])))"
proof -
  have fb: "pa_is_fallback (sample_preflight None None True)" by (simp add: sample_preflight_def)
  from preflight_fallback_keeps_local [OF fb] fb show ?thesis by blast
qed

section \<open>No local file is lost\<close>

text \<open>External events may do anything but touch the path itself.\<close>

definition undisturbed :: "path \<Rightarrow> world \<Rightarrow> bool" where
  "undisturbed p w \<longleftrightarrow> (\<forall>ev \<in> set (w_script w). \<forall>d. dict_get (ev_local ev d) p = dict_get d p)"

text \<open>The backup cap of a run: a file above it is not copied aside.\<close>

definition over_cap :: "int \<Rightarrow> disk_file \<Rightarrow> bool" where
  "over_cap cap f \<longleftrightarrow> cap \<noteq> 0 \<and> df_size f > cap"

definition backed_up :: "int \<Rightarrow> path \<Rightarrow> disk_file \<Rightarrow> world \<Rightarrow> bool" where
  "backed_up cap p f w \<longleftrightarrow> over_cap cap f \<or> dict_get (w_backup w) p = Some f"

definition recoverable :: "int \<Rightarrow> path \<Rightarrow> disk_file \<Rightarrow> world \<Rightarrow> bool" where
  "recoverable cap p f w \<longleftrightarrow> dict_get (w_local w) p = Some f \<or> backed_up cap p f w"

definition held :: "path \<Rightarrow> disk_file \<Rightarrow> world \<Rightarrow> bool" where
  "held p f w \<longleftrightarrow> undisturbed p w \<and> dict_get (w_local w) p = Some f"

definition safe :: "int \<Rightarrow> path \<Rightarrow> disk_file \<Rightarrow> world \<Rightarrow> bool" where
  "safe cap p f w \<longleftrightarrow> undisturbed p w \<and> recoverable cap p f w"

definition copied :: "int \<Rightarrow> path \<Rightarrow> disk_file \<Rightarrow> world \<Rightarrow> bool" where
  "copied cap p f w \<longleftrightarrow> undisturbed p w \<and> backed_up cap p f w"

lemma undisturbed_settle:
  "undisturbed p w \<Longrightarrow> undisturbed p (snd (settle w))
   \<and> dict_get (w_local (snd (settle w))) p = dict_get (w_local w) p"
  by (cases "w_script w") (simp_all add: undisturbed_def settle_def)

lemma held_settle: "held p f w \<Longrightarrow> held p f (snd (settle w))"
  using undisturbed_settle [of p w] by (simp add: held_def)

lemma held_safe: "held p f w \<Longrightarrow> safe cap p f w"
  by (simp add: held_def safe_def recoverable_def)

lemma copied_safe: "copied cap p f w \<Longrightarrow> safe cap p f w"
  by (simp add: copied_def safe_def recoverable_def)

lemma undisturbed_step: "world_step E w w' \<Longrightarrow> undisturbed p w \<Longrightarrow> undisturbed p w'"
  by (induction rule: world_step.induct) (simp_all add: undisturbed_settle, simp_all add: undisturbed_def)

lemma local_step:
  assumes "world_step E w w'" and "PullInto p \<notin> E" and "RemoveLocal p \<notin> E" and "undisturbed p w"
  shows "dict_get (w_local w') p = dict_get (w_local w) p"
  using assms by (induction rule: world_step.induct) (auto simp: undisturbed_settle dict_simps)

lemma backup_step:
  assumes "world_step E w w'" and "SaveBackup p \<notin> E"
  shows "dict_get (w_backup w') p = dict_get (w_backup w) p"
  using assms by (induction rule: world_step.induct) (auto simp: settle_fields dict_simps)

lemma held_step:
  "world_step E w w' \<Longrightarrow> PullInto p \<notin> E \<Longrightarrow> RemoveLocal p \<notin> E \<Longrightarrow> held p f w \<Longrightarrow> held p f w'"
  by (simp add: held_def local_step undisturbed_step)

lemma copied_step: "world_step E w w' \<Longrightarrow> SaveBackup p \<notin> E \<Longrightarrow> copied cap p f w \<Longrightarrow> copied cap p f w'"
  by (auto simp: copied_def backed_up_def backup_step undisturbed_step)

lemma safe_step:
  assumes "world_step E w w'" and "PullInto p \<notin> E" and "RemoveLocal p \<notin> E" and "SaveBackup p \<notin> E"
    and "safe cap p f w"
  shows "safe cap p f w'"
  using assms by (simp add: safe_def recoverable_def backed_up_def local_step backup_step undisturbed_step)

lemma triple_held: "confined {} m \<Longrightarrow> io_triple (held p f) m (\<lambda>_. held p f) (safe cap p f)"
  by (rule triple_post [OF triple_confined]) (auto intro: held_step held_safe)

lemma triple_safe: "confined {} m \<Longrightarrow> io_triple (safe cap p f) m (\<lambda>_. safe cap p f) (safe cap p f)"
  by (rule triple_confined) (auto intro: safe_step)

lemma backup_local_triple:
  "io_triple (held p f) (backup_local cap p) (\<lambda>_. copied cap p f) (safe cap p f)"
proof -
  have "io_triple (held p f) (backup_local cap p) (\<lambda>_. copied cap p f) (held p f)"
    unfolding backup_local_def
    by (rule triple_write)
       (auto simp: held_settle, auto simp: held_def copied_def backed_up_def over_cap_def undisturbed_def
          dict_simps split: if_splits)
  then show ?thesis by (rule triple_post) (auto intro: held_safe)
qed

lemma triple_copied:
  assumes "confined E m" and "SaveBackup p \<notin> E"
  shows "io_triple (copied cap p f) m (\<lambda>_. safe cap p f) (safe cap p f)"
  by (rule triple_post [OF triple_confined [OF assms(1)]])
     (auto intro: copied_step [OF _ assms(2)] copied_safe)

context file_transport
begin

lemma backup_then_triple:
  assumes "confined E m" and "SaveBackup p \<notin> E"
  shows "io_triple (held p f) (io_bind (backup_local cap p) (\<lambda>_. io_bind m (\<lambda>_. io_return r)))
           (\<lambda>_. safe cap p f) (safe cap p f)"
  by (rule triple_bind [OF backup_local_triple], rule triple_bind [OF triple_copied [OF assms]],
      rule triple_return) simp

lemma apply_item_at_path:
  assumes "cp_path item = p"
  shows "io_triple (held p f) (apply_item T a rm item r)
    (\<lambda>_. safe (pa_backup_below a) p f) (safe (pa_backup_below a) p f)"
proof (cases "cp_action item = PULL \<or> cp_action item = DELETE_LOCAL")
  case True
  have skip: "io_triple (held p f) (io_return r') (\<lambda>_. safe cap p f) X" for r' :: reconcile_result and cap X
    by (rule triple_return) (rule held_safe)
  from True show ?thesis
    unfolding apply_item_def apply_pull_def assms
    by (auto intro!: triple_bind [OF triple_held [OF confined_already_converged]] skip triple_if
          backup_then_triple [OF pull_confined]
          backup_then_triple [OF confined_unlink_local [where E = "{RemoveLocal p}"]])
next
  case False
  then have "PullInto p \<notin> item_effects item" and "RemoveLocal p \<notin> item_effects item"
    by (auto simp: item_effects_def split: action.splits)
  then show ?thesis
    by (intro triple_post [OF triple_confined [OF apply_item_confined [OF order_refl]]])
       (auto intro: held_step held_safe)
qed

lemma apply_item_elsewhere:
  assumes "cp_path item \<noteq> p"
  shows "io_triple (held p f) (apply_item T a rm item r) (\<lambda>_. held p f) (safe cap p f)"
    and "io_triple (safe cap p f) (apply_item T a rm item r) (\<lambda>_. safe cap p f) (safe cap p f)"
proof -
  from assms have e: "PullInto p \<notin> item_effects item" "RemoveLocal p \<notin> item_effects item"
    "SaveBackup p \<notin> item_effects item"
    by (auto simp: item_effects_def split: action.splits)
  show "io_triple (held p f) (apply_item T a rm item r) (\<lambda>_. held p f) (safe cap p f)"
    by (intro triple_post [OF triple_confined [OF apply_item_confined [OF order_refl]]])
       (auto intro: held_step [OF _ e(1,2)] held_safe)
  show "io_triple (safe cap p f) (apply_item T a rm item r) (\<lambda>_. safe cap p f) (safe cap p f)"
    by (rule triple_confined [OF apply_item_confined [OF order_refl]]) (rule safe_step [OF _ e])
qed

lemma apply_items_elsewhere:
  assumes "p \<notin> set (map cp_path items)"
  shows "io_triple (safe cap p f) (apply_items T a rm items r) (\<lambda>_. safe cap p f) (safe cap p f)"
  using assms
proof (induction items arbitrary: r)
  case (Cons i items)
  then show ?case by (auto intro!: triple_bind [OF apply_item_elsewhere(2)])
qed (simp add: triple_return)

lemma apply_items_triple:
  assumes "distinct (map cp_path items)"
  shows "io_triple (held p f) (apply_items T a rm items r)
    (\<lambda>_. safe (pa_backup_below a) p f) (safe (pa_backup_below a) p f)"
  using assms
proof (induction items arbitrary: r)
  case Nil
  then show ?case by (simp add: triple_return held_safe)
next
  case (Cons i items)
  show ?case
  proof (cases "cp_path i = p")
    case True
    with Cons.prems show ?thesis
      by (auto intro!: triple_bind [OF apply_item_at_path] apply_items_elsewhere)
  next
    case False
    with Cons show ?thesis
      by (auto intro!: triple_bind [OF apply_item_elsewhere(1)])
  qed
qed

lemma preflight_apply_triple:
  assumes "plan_ok a items"
  shows "io_triple (held p f) (preflight_apply T a lm rm items conv)
    (\<lambda>_. safe (pa_backup_below a) p f) (safe (pa_backup_below a) p f)"
proof -
  have e: "io_triple (held p f) (tr_ensure_remote_dir T) (\<lambda>_. held p f) (safe (pa_backup_below a) p f)"
    by (intro triple_post [OF triple_confined [OF ensure_confined]]) (auto intro: held_step held_safe)
  show ?thesis
    unfolding preflight_apply_def
    using assms
    by (intro triple_bind [OF e] triple_bind [OF apply_items_triple]
          triple_safe [OF verify_preflight_confined])
       (simp add: plan_ok_def distinct_map_filter)
qed

lemma preflight_triple:
  "io_triple (held p f) (preflight_reconcile T a)
    (\<lambda>_. safe (pa_backup_below a) p f) (safe (pa_backup_below a) p f)"
  unfolding preflight_reconcile_alt
  by (intro triple_bind [OF triple_held] confinement transport_confined
        triple_bind_yields [OF triple_held plan_preflight_yields] plan_preflight_confined)
     (auto split: sum.splits prod.splits intro: preflight_apply_triple triple_return held_safe)

end

text \<open>
  C1: a preflight never loses a local file.  Take any file of the local tree that no external
  event touches; other events and any number of failing operations are allowed.  However the
  preflight ends, by a result or by an exception at any point, the file is still in place or
  its bytes are in the backup store, unless it is above the backup size cap.
\<close>

theorem preflight_no_local_loss:
  assumes "dict_get (w_local w) p = Some f" and "undisturbed p w"
  shows "recoverable (pa_backup_below a) p f (snd (preflight_reconcile local_sim a w))"
  using triple_any [OF sim.preflight_triple, of p f w a] assms by (simp add: held_def safe_def)

theorem preflight_no_local_loss_witness:
  "let l = [(''a'', sample_file 1 ''h1'')]; base = Some (disk_manifest sample_config l);
       w = snd (preflight_reconcile local_sim (sample_preflight base base False)
                  (sample_world l [(''a'', sample_file 2 ''h2'')]))
   in dict_get (w_local w) ''a'' = Some (sample_file 2 ''h2'') \<and> recoverable 0 ''a'' (sample_file 1 ''h1'') w"
proof -
  let ?l = "[(''a'', sample_file 1 ''h1'')]"
  let ?base = "Some (disk_manifest sample_config ?l)"
  let ?w = "sample_world ?l [(''a'', sample_file 2 ''h2'')]"
  let ?a = "sample_preflight ?base ?base False"
  have "dict_get (w_local ?w) ''a'' = Some (sample_file 1 ''h1'')" and "undisturbed ''a'' ?w"
    by (simp_all add: sample_world_def undisturbed_def)
  then have "recoverable (pa_backup_below ?a) ''a'' (sample_file 1 ''h1'') (snd (preflight_reconcile local_sim ?a ?w))"
    by (rule preflight_no_local_loss)
  moreover have "pa_backup_below ?a = 0" by (simp add: sample_preflight_def)
  moreover have "dict_get (w_local (snd (preflight_reconcile local_sim ?a ?w))) ''a'' = Some (sample_file 2 ''h2'')"
    by code_simp
  ultimately show ?thesis by (simp add: Let_def)
qed

end
