(* ===== verification/PullbackSafety.thy ===== *)
theory PullbackSafety
  imports ReconcileSafety
begin

text \<open>
  Safety and functional correctness of \<open>postrun_pullback\<close>: it never writes the remote tree,
  never loses a local file, never touches a local file edited during the run, and the
  baseline it hands to the next run advances exactly on the paths it reconciled.
\<close>

section \<open>Effects of a pullback\<close>

definition changed_effects :: "path \<Rightarrow> effect set" where
  "changed_effects p = {SaveBackup p, PullInto p, SaveConflict p}"

definition deleted_effects :: "path \<Rightarrow> effect set" where
  "deleted_effects p = {SaveBackup p, RemoveLocal p}"

definition inward :: "effect set" where
  "inward = range SaveBackup \<union> range PullInto \<union> range SaveConflict \<union> range RemoveLocal"

lemma confined_foldl:
  assumes "\<And>x s. x \<in> set xs \<Longrightarrow> confined E (f x s)"
  shows "confined E (io_foldl f xs s)"
  using assms by (induction xs arbitrary: s) (simp_all add: confined_bind)

lemma pullback_deleted_confined: "confined (deleted_effects rel) (pullback_deleted a rel s)"
  unfolding pullback_deleted_def Let_def
  by (intro confinement) (simp_all add: deleted_effects_def)

lemma finish_pullback_confined: "confined E (finish_pullback a post s)"
  unfolding finish_pullback_def by (intro confinement)

context file_transport
begin

lemma strong_remote_entry_confined: "confined E (strong_remote_entry T rel e)"
  unfolding strong_remote_entry_def by (intro confinement transport_confined)

lemma pull_changed_confined: "confined (changed_effects rel) (pull_changed T a post rel re s)"
  unfolding pull_changed_def
  by (intro confinement transport_confined) (simp_all add: changed_effects_def)

lemma pullback_changed_confined:
  "confined (changed_effects rel) (pullback_changed T a post collide rel s)"
  unfolding pullback_changed_def
  by (intro confinement transport_confined strong_remote_entry_confined pull_changed_confined)
     (simp_all add: changed_effects_def)

lemma save_escaped_confined: "range SaveConflict \<subseteq> E \<Longrightarrow> confined E (save_escaped T post rels)"
  by (induction rels) (auto intro!: confinement transport_confined)

lemma postrun_pullback_confined: "confined inward (postrun_pullback T a)"
proof -
  have "confined inward (pullback_changed T a post collide rel s)" for post collide rel s
    by (rule confined_mono [OF pullback_changed_confined]) (auto simp: inward_def changed_effects_def)
  moreover have "confined inward (pullback_deleted a rel s)" for rel s
    by (rule confined_mono [OF pullback_deleted_confined]) (auto simp: inward_def deleted_effects_def)
  moreover have "confined inward (save_escaped T post rels)" for post rels
    by (rule save_escaped_confined) (auto simp: inward_def)
  ultimately show ?thesis
    unfolding postrun_pullback_def Let_def
    by (intro confinement transport_confined)
       (auto split: prod.split intro!: confinement confined_foldl finish_pullback_confined)
qed

end

text \<open>The remote tree of a world that evolved without remote effects.\<close>

definition remote_drift :: "world \<Rightarrow> world \<Rightarrow> bool" where
  "remote_drift w w' \<longleftrightarrow>
     (\<exists>n. w_script w' = drop n (w_script w)
        \<and> w_remote w' = fold ev_remote (take n (w_script w)) (w_remote w)
        \<and> w_remote_root w' = w_remote_root w)"

lemma world_steps_remote_drift:
  assumes "world_steps E w w'" and "\<And>p. PushOut p \<notin> E \<and> RemoveRemote p \<notin> E" and "MakeRemoteRoot \<notin> E"
  shows "remote_drift w w'"
  using assms(1)
proof (induction rule: rtranclp_induct)
  case base
  show ?case unfolding remote_drift_def by (rule exI [of _ 0]) simp
next
  case (step y z)
  from step.IH obtain n where n: "w_script y = drop n (w_script w)"
    "w_remote y = fold ev_remote (take n (w_script w)) (w_remote w)" "w_remote_root y = w_remote_root w"
    by (auto simp: remote_drift_def)
  from step.hyps(2) show ?case
  proof (cases rule: world_step.cases)
    case external
    then show ?thesis unfolding remote_drift_def
      by (intro exI [of _ "n + 1"]) (simp add: settle_fields n fold_take_drop add.commute del: take_add One_nat_def)
  qed (use n assms(2,3) in \<open>auto simp: remote_drift_def\<close>)
qed

text \<open>
  a pullback never writes the remote tree.  However it ends, the remote tree and its root
  are what external events made of them.
\<close>

theorem postrun_never_writes_remote:
  "remote_drift w (snd (postrun_pullback local_sim a w))"
  using sim.postrun_pullback_confined
  by (auto simp: confined_def inward_def intro!: world_steps_remote_drift)

section \<open>No local file is lost\<close>

context file_transport
begin

lemma foldl_elsewhere:
  assumes "\<And>x s. x \<in> set xs \<Longrightarrow> io_triple P (f x s) (\<lambda>_. P) X"
  shows "io_triple P (io_foldl f xs s) (\<lambda>_. P) X"
  using assms
proof (induction xs arbitrary: s)
  case (Cons x xs)
  then show ?case by (auto intro!: triple_bind [of P "f x s" "\<lambda>_. P"])
qed (simp add: triple_return)

lemma foldl_at_path:
  assumes "distinct xs"
    and at: "\<And>s. p \<in> set xs \<Longrightarrow> io_triple (held p g) (f p s) (\<lambda>_. safe cap p g) (safe cap p g)"
    and other: "\<And>x s. x \<in> set xs \<Longrightarrow> x \<noteq> p \<Longrightarrow>
      io_triple (held p g) (f x s) (\<lambda>_. held p g) (safe cap p g)
      \<and> io_triple (safe cap p g) (f x s) (\<lambda>_. safe cap p g) (safe cap p g)"
  shows "io_triple (held p g) (io_foldl f xs s) (\<lambda>_. safe cap p g) (safe cap p g)"
  using assms
proof (induction xs arbitrary: s)
  case Nil
  then show ?case by (simp add: triple_return held_safe)
next
  case (Cons x xs)
  show ?case
  proof (cases "x = p")
    case True
    with Cons.prems have "io_triple (held p g) (f x s) (\<lambda>_. safe cap p g) (safe cap p g)" by simp
    moreover have "io_triple (safe cap p g) (io_foldl f xs s') (\<lambda>_. safe cap p g) (safe cap p g)" for s'
      using Cons.prems True by (intro foldl_elsewhere) (metis distinct.simps(2) list.set_intros(2))
    ultimately show ?thesis by (simp add: triple_bind)
  next
    case False
    with Cons.prems have "io_triple (held p g) (f x s) (\<lambda>_. held p g) (safe cap p g)" by simp
    moreover have "io_triple (held p g) (io_foldl f xs s') (\<lambda>_. safe cap p g) (safe cap p g)" for s'
      using Cons.prems by (intro Cons.IH) auto
    ultimately show ?thesis by (simp add: triple_bind)
  qed
qed

lemma elsewhere_triples:
  assumes "confined (changed_effects x) m \<or> confined (deleted_effects x) m" and "x \<noteq> p"
  shows "io_triple (held p g) m (\<lambda>_. held p g) (safe cap p g)
       \<and> io_triple (safe cap p g) m (\<lambda>_. safe cap p g) (safe cap p g)"
proof -
  obtain E where c: "confined E m"
    and e: "PullInto p \<notin> E" "RemoveLocal p \<notin> E" "SaveBackup p \<notin> E"
    using assms by (auto simp: changed_effects_def deleted_effects_def)
  have "io_triple (held p g) m (\<lambda>_. held p g) (safe cap p g)"
    by (rule triple_post [OF triple_confined [OF c]]) (auto intro: held_step [OF _ e(1,2)] held_safe)
  moreover have "io_triple (safe cap p g) m (\<lambda>_. safe cap p g) (safe cap p g)"
    by (rule triple_confined [OF c]) (rule safe_step [OF _ e])
  ultimately show ?thesis by blast
qed

lemma triple_save:
  "io_triple (held p g) (tr_pull_file T ToConflictStore q) (\<lambda>_. held p g) (safe cap p g)"
  by (rule triple_post [OF triple_confined [OF save_confined]]) (auto intro: held_step held_safe)

lemma triple_done: "io_triple (held p g) (io_return x) (\<lambda>_. safe cap p g) X"
  by (rule triple_return) (rule held_safe)

lemma triple_after_backup:
  assumes "confined E m" and "SaveBackup p \<notin> E"
    and "\<And>x. confined {} (h x)"
  shows "io_triple (held p g) (io_bind (backup_local cap p) (\<lambda>_. io_bind m h))
           (\<lambda>_. safe cap p g) (safe cap p g)"
  by (rule triple_bind [OF backup_local_triple], rule triple_bind [OF triple_copied [OF assms(1,2)]],
      rule triple_safe [OF assms(3)])

lemma pull_changed_at:
  "io_triple (held p g) (pull_changed T a post p re s)
     (\<lambda>_. safe (pb_backup_below a) p g) (safe (pb_backup_below a) p g)"
  unfolding pull_changed_def
  by (intro triple_bind [OF triple_held [OF confined_local_ops(3)]] triple_if triple_done
        triple_bind [OF triple_save] triple_after_backup [OF pull_confined])
     (simp, intro confinement)

lemma pullback_changed_at:
  "io_triple (held p g) (pullback_changed T a post collide p s)
     (\<lambda>_. safe (pb_backup_below a) p g) (safe (pb_backup_below a) p g)"
proof -
  have "io_triple (held p g) (io_bind (strong_remote_entry T p e) (\<lambda>strong.
          (case strong of
             None \<Rightarrow> io_bind (tr_pull_file T ToConflictStore p) (\<lambda>_. io_return (add_conflict p s))
           | Some re \<Rightarrow> pull_changed T a post p re s)))
       (\<lambda>_. safe (pb_backup_below a) p g) (safe (pb_backup_below a) p g)" for e
    by (rule triple_bind [OF triple_held [OF strong_remote_entry_confined]])
       (auto split: option.split intro: pull_changed_at triple_bind [OF triple_save] triple_done)
  then show ?thesis
    unfolding pullback_changed_def by (auto split: option.split intro: triple_done)
qed

lemma pullback_deleted_at:
  "io_triple (held p g) (pullback_deleted a p s)
     (\<lambda>_. safe (pb_backup_below a) p g) (safe (pb_backup_below a) p g)"
  unfolding pullback_deleted_def Let_def
  by (intro triple_bind [OF triple_held [OF confined_local_ops(3)]] triple_if triple_done
        triple_after_backup [OF confined_unlink_local [where E = "{RemoveLocal p}"]])
     (simp_all, intro confinement)

end

definition pullback_folds ::
  "transport \<Rightarrow> pullback_args \<Rightarrow> manifest \<Rightarrow> path list \<Rightarrow> path list \<Rightarrow> path list \<Rightarrow> pullback_result io" where
  "pullback_folds T a post collide changed deleted =
     io_bind (io_foldl (pullback_changed T a post collide) changed
                \<lparr>ps_result = empty_pullback_result, ps_next_local = pb_pre_local a,
                 ps_next_remote = pb_pre_remote a\<rparr>)
       (\<lambda>s1. io_bind (io_foldl (pullback_deleted a) deleted s1) (\<lambda>s2. finish_pullback a post s2))"

definition escaped_paths :: "pullback_args \<Rightarrow> path list \<Rightarrow> path list \<Rightarrow> path list" where
  "escaped_paths a changed deleted =
     (if pb_write_scope a = [] then []
      else filter (\<lambda>rel. \<not> matches_any_scope_path (wc_normcase (pb_config a)) rel (pb_write_scope a))
             (changed @ deleted))"

lemma postrun_pullback_alt:
  "postrun_pullback T a =
     io_bind (tr_manifest T (pb_walk a)) (\<lambda>post.
     io_bind (build_local_manifest (pb_walk a)) (\<lambda>cur_local.
       (case diff_remote_changes (pb_pre_remote a) post of (changed, deleted) \<Rightarrow>
          if escaped_paths a changed deleted \<noteq> [] then
            io_bind (save_escaped T post (escaped_paths a changed deleted)) (\<lambda>_.
              io_return (empty_pullback_result\<lparr>pb_conflicts := escaped_paths a changed deleted,
                pb_post_remote_manifest := post, pb_local_manifest_after := cur_local\<rparr>))
          else pullback_folds T a post (pullback_collisions a cur_local changed) changed deleted)))"
  by (simp only: postrun_pullback_def pullback_folds_def escaped_paths_def Let_def)

context file_transport
begin

lemmas changed_elsewhere = elsewhere_triples [OF disjI1 [OF pullback_changed_confined]]

lemmas deleted_elsewhere = elsewhere_triples [OF disjI2 [OF pullback_deleted_confined]]

lemma changed_fold_triple:
  assumes "distinct changed"
  shows "io_triple (held p g) (io_foldl (pullback_changed T a post collide) changed s)
           (\<lambda>_. safe (pb_backup_below a) p g) (safe (pb_backup_below a) p g)"
  by (rule foldl_at_path [OF assms pullback_changed_at changed_elsewhere])

lemma changed_fold_elsewhere:
  assumes "p \<notin> set changed"
  shows "io_triple (held p g) (io_foldl (pullback_changed T a post collide) changed s)
           (\<lambda>_. held p g) (safe cap p g)"
  using assms by (intro foldl_elsewhere)
    (metis changed_elsewhere)

lemma deleted_fold_triple:
  assumes "distinct deleted"
  shows "io_triple (held p g) (io_foldl (pullback_deleted a) deleted s)
           (\<lambda>_. safe (pb_backup_below a) p g) (safe (pb_backup_below a) p g)"
  by (rule foldl_at_path [OF assms pullback_deleted_at deleted_elsewhere])

lemma deleted_fold_elsewhere:
  assumes "p \<notin> set deleted"
  shows "io_triple (safe cap p g) (io_foldl (pullback_deleted a) deleted s)
           (\<lambda>_. safe cap p g) (safe cap p g)"
  using assms by (intro foldl_elsewhere)
    (metis deleted_elsewhere)

lemma pullback_folds_triple:
  assumes "distinct changed" and "distinct deleted" and "set changed \<inter> set deleted = {}"
  shows "io_triple (held p g) (pullback_folds T a post collide changed deleted)
           (\<lambda>_. safe (pb_backup_below a) p g) (safe (pb_backup_below a) p g)"
proof (cases "p \<in> set changed")
  case True
  with assms have "p \<notin> set deleted" by auto
  then show ?thesis
    unfolding pullback_folds_def
    by (intro triple_bind [OF changed_fold_triple [OF assms(1)]] triple_bind [OF deleted_fold_elsewhere]
          triple_safe finish_pullback_confined)
next
  case False
  then show ?thesis
    unfolding pullback_folds_def
    by (intro triple_bind [OF changed_fold_elsewhere] triple_bind [OF deleted_fold_triple [OF assms(2)]]
          triple_safe finish_pullback_confined)
qed

lemma save_escaped_triple:
  "io_triple (held p g) (save_escaped T post rels) (\<lambda>_. held p g) (safe cap p g)"
  by (rule triple_post [OF triple_confined [OF save_escaped_confined [OF order_refl]]])
     (auto intro: held_step held_safe)

lemma postrun_triple:
  "io_triple (held p g) (postrun_pullback T a)
     (\<lambda>_. safe (pb_backup_below a) p g) (safe (pb_backup_below a) p g)"
  unfolding postrun_pullback_alt
  by (intro triple_bind [OF triple_held] confinement transport_confined)
     (auto split: prod.split intro!: triple_if triple_bind [OF save_escaped_triple] triple_done
        pullback_folds_triple dest: diff_remote_changes_mem(3-5))

end

text \<open>
  a pullback never loses a local file.  A local file that no external event touches is
  still in place, or its bytes are in the backup store (unless above the size cap), whatever
  the command did on the remote, whatever operation fails, and however the pullback ends.
\<close>

theorem postrun_no_local_loss:
  assumes "dict_get (w_local w) p = Some f" and "undisturbed p w"
  shows "recoverable (pb_backup_below a) p f (snd (postrun_pullback local_sim a w))"
  using triple_any [OF sim.postrun_triple, of p f w a] assms by (simp add: held_def safe_def)

definition sample_pullback :: "disk \<Rightarrow> disk \<Rightarrow> string list \<Rightarrow> pullback_args" where
  "sample_pullback pre_remote pre_local scope =
     \<lparr>pb_config = sample_config, pb_hash_below = 100,
      pb_pre_remote = disk_manifest sample_config pre_remote,
      pb_pre_local = disk_manifest sample_config pre_local, pb_backup_below = 0,
      pb_write_scope = scope, pb_local_ci = False, pb_fold_key = (\<lambda>s. s)\<rparr>"

theorem postrun_no_local_loss_witness:
  "let l = [(''a'', sample_file 1 ''h1'')];
       w = snd (postrun_pullback local_sim (sample_pullback l l []) (sample_world l [(''a'', sample_file 2 ''h2'')]))
   in dict_get (w_local w) ''a'' = Some (sample_file 2 ''h2'') \<and> recoverable 0 ''a'' (sample_file 1 ''h1'') w"
proof -
  let ?l = "[(''a'', sample_file 1 ''h1'')]"
  let ?w = "sample_world ?l [(''a'', sample_file 2 ''h2'')]"
  let ?a = "sample_pullback ?l ?l []"
  have "dict_get (w_local ?w) ''a'' = Some (sample_file 1 ''h1'')" and "undisturbed ''a'' ?w"
    by (simp_all add: sample_world_def undisturbed_def)
  then have "recoverable (pb_backup_below ?a) ''a'' (sample_file 1 ''h1'') (snd (postrun_pullback local_sim ?a ?w))"
    by (rule postrun_no_local_loss)
  moreover have "pb_backup_below ?a = 0" by (simp add: sample_pullback_def)
  moreover have "dict_get (w_local (snd (postrun_pullback local_sim ?a ?w))) ''a'' = Some (sample_file 2 ''h2'')"
    by code_simp
  ultimately show ?thesis by (simp add: Let_def)
qed

section \<open>Local edits win\<close>

text \<open>
  A local file that differs from its entry in the pre-run manifest: by kind or size, or by
  modification time and digest.
\<close>

definition locally_edited :: "file_entry option \<Rightarrow> disk_file \<Rightarrow> bool" where
  "locally_edited pre f \<longleftrightarrow>
     (case pre of None \<Rightarrow> True
      | Some e \<Rightarrow> fe_kind e \<noteq> ''file'' \<or> fe_size e \<noteq> df_size f
          \<or> (fe_mtime_ns e \<noteq> df_mtime_ns f \<and> fe_sha256 e \<noteq> Some (df_sha256 f)))"

lemma fresh_local_entry_triple:
  "io_triple (held p g) (fresh_local_entry p h)
     (\<lambda>x w. held p g w \<and> (locally_edited pre g \<longrightarrow> x \<noteq> None \<and> changed_since pre x)) (held p g)"
  unfolding fresh_local_entry_def
  by (rule triple_post [OF triple_read])
     (auto simp: held_settle, auto simp: held_def locally_edited_def entries_same.simps(4)
        split: option.splits if_splits)

lemma triple_keep: "confined E m \<Longrightarrow> PullInto p \<notin> E \<Longrightarrow> RemoveLocal p \<notin> E \<Longrightarrow>
  io_triple (held p g) m (\<lambda>_. held p g) (held p g)"
  by (rule triple_confined) (auto intro: held_step)

lemma triple_assume: "(C \<Longrightarrow> io_triple P m Q X) \<Longrightarrow> io_triple (\<lambda>w. P w \<and> C) m Q X"
  by (simp add: io_triple_def)

context file_transport
begin

lemma pull_changed_keeps_edit:
  assumes "locally_edited (dict_get (pb_pre_local a) p) g"
  shows "io_triple (held p g) (pull_changed T a post p re s) (\<lambda>_. held p g) (held p g)"
proof -
  have skip: "io_triple (held p g) (io_return x) (\<lambda>_. held p g) (held p g)" for x :: pullback_state
    by (rule triple_return)
  have save: "io_triple (held p g) (io_bind (tr_pull_file T ToConflictStore p) (\<lambda>_. io_return x))
      (\<lambda>_. held p g) (held p g)" for x :: pullback_state
    by (rule triple_bind [OF triple_keep [OF save_confined]]) (auto intro: triple_return)
  show ?thesis
    unfolding pull_changed_def
    by (rule triple_bind [OF fresh_local_entry_triple [where pre = "dict_get (pb_pre_local a) p"]])
       (intro triple_assume triple_if skip save, simp add: assms)
qed

lemma pullback_changed_keeps_edit:
  assumes "locally_edited (dict_get (pb_pre_local a) p) g"
  shows "io_triple (held p g) (pullback_changed T a post collide x s) (\<lambda>_. held p g) (held p g)"
proof (cases "x = p")
  case True
  have "io_triple (held p g) (io_bind (strong_remote_entry T p e) (\<lambda>strong.
          (case strong of
             None \<Rightarrow> io_bind (tr_pull_file T ToConflictStore p) (\<lambda>_. io_return (add_conflict p s))
           | Some re \<Rightarrow> pull_changed T a post p re s)))
       (\<lambda>_. held p g) (held p g)" for e
    by (rule triple_bind [OF triple_keep [OF strong_remote_entry_confined [of "{}"]]])
       (auto split: option.split intro!: pull_changed_keeps_edit [OF assms] triple_return
          triple_bind [OF triple_keep [OF save_confined]])
  with True show ?thesis
    unfolding pullback_changed_def by (auto split: option.split intro: triple_return)
qed (rule triple_keep [OF pullback_changed_confined]; simp add: changed_effects_def)

lemma pullback_deleted_keeps_edit:
  assumes "locally_edited (dict_get (pb_pre_local a) p) g"
  shows "io_triple (held p g) (pullback_deleted a x s) (\<lambda>_. held p g) (held p g)"
proof (cases "x = p")
  case True
  have skip: "io_triple (held p g) (io_return x) (\<lambda>_. held p g) (held p g)" for x :: pullback_state
    by (rule triple_return)
  show ?thesis
    unfolding pullback_deleted_def Let_def True
    by (rule triple_bind [OF fresh_local_entry_triple [where pre = "dict_get (pb_pre_local a) p"]])
       (intro triple_assume triple_if skip, simp add: assms)
qed (rule triple_keep [OF pullback_deleted_confined]; simp add: deleted_effects_def)

lemma postrun_keeps_edit:
  assumes "locally_edited (dict_get (pb_pre_local a) p) g"
  shows "io_triple (held p g) (postrun_pullback T a) (\<lambda>_. held p g) (held p g)"
proof -
  have "io_triple (held p g) (pullback_folds T a post collide changed deleted) (\<lambda>_. held p g) (held p g)"
    for post collide changed deleted
    unfolding pullback_folds_def
    by (intro triple_bind [OF foldl_elsewhere] pullback_changed_keeps_edit pullback_deleted_keeps_edit
          assms triple_keep [OF finish_pullback_confined [of "{}"]]) simp_all
  then show ?thesis
    unfolding postrun_pullback_alt
    by (intro triple_bind [OF triple_keep [of "{}"]] confinement transport_confined)
       (auto split: prod.split intro!: triple_if triple_return
          triple_bind [OF triple_keep [OF save_escaped_confined [OF order_refl]]])
qed

end

text \<open>
  C14: a file that was edited locally during the run survives the pullback unchanged, on every
  outcome, whether the command rewrote it or deleted it on the remote.
\<close>

theorem postrun_keeps_local_edits:
  assumes "dict_get (w_local w) p = Some f" and "undisturbed p w"
    and "locally_edited (dict_get (pb_pre_local a) p) f"
  shows "dict_get (w_local (snd (postrun_pullback local_sim a w))) p = Some f"
  using triple_any [OF sim.postrun_keeps_edit [OF assms(3)], of w] assms by (simp add: held_def)

theorem postrun_keeps_local_edits_witness:
  "let pre = [(''a'', sample_file 1 ''h1'')]; now = [(''a'', sample_file 3 ''h3'')];
       (res, w) = postrun_pullback local_sim (sample_pullback pre pre []) (sample_world now [(''a'', sample_file 2 ''h2'')])
   in dict_get (w_local w) ''a'' = Some (sample_file 3 ''h3'')
      \<and> dict_get (w_conflict w) ''a'' = Some (sample_file 2 ''h2'')"
proof -
  let ?pre = "[(''a'', sample_file 1 ''h1'')]" and ?now = "[(''a'', sample_file 3 ''h3'')]"
  let ?w = "sample_world ?now [(''a'', sample_file 2 ''h2'')]" and ?a = "sample_pullback ?pre ?pre []"
  have "dict_get (w_local ?w) ''a'' = Some (sample_file 3 ''h3'')" and "undisturbed ''a'' ?w"
    by (simp_all add: sample_world_def undisturbed_def)
  moreover have "locally_edited (dict_get (pb_pre_local ?a) ''a'') (sample_file 3 ''h3'')" by code_simp
  ultimately have "dict_get (w_local (snd (postrun_pullback local_sim ?a ?w))) ''a'' = Some (sample_file 3 ''h3'')"
    by (rule postrun_keeps_local_edits)
  moreover have "dict_get (w_conflict (snd (postrun_pullback local_sim ?a ?w))) ''a'' = Some (sample_file 2 ''h2'')"
    by code_simp
  ultimately show ?thesis by (simp add: Let_def case_prod_unfold)
qed

section \<open>Write scopes\<close>

lemma save_escaped_run:
  assumes "save_escaped local_sim post rels w = (Inr (), w')"
  shows "world_steps (range SaveConflict) w w'"
  using sim.save_escaped_confined [OF order_refl, of post rels] assms by (metis confined_def snd_conv)

text \<open>
  the write scope of a run is binding.  When a returned pullback had attributed a change
  or a deletion outside the declared scope, it reports the path as a conflict, hands out no
  baseline, and leaves the local tree alone.
\<close>

theorem postrun_scope_violation_blocks:
  assumes run: "postrun_pullback local_sim a w = (Inr r, w')"
    and diff: "diff_remote_changes (pb_pre_remote a) (pb_post_remote_manifest r) = (changed, deleted)"
    and scope: "pb_write_scope a \<noteq> []"
    and esc: "rel \<in> set changed \<union> set deleted"
      "\<not> matches_any_scope_path (wc_normcase (pb_config a)) rel (pb_write_scope a)"
  shows "local_drift w w' \<and> rel \<in> set (pb_conflicts r) \<and> pb_next_baseline r = None
       \<and> pb_pulled r = [] \<and> pb_deleted_local r = []"
proof -
  from run obtain post w1 cur w2 where
    1: "tr_manifest local_sim (pb_walk a) w = (Inr post, w1)" and
    2: "build_local_manifest (pb_walk a) w1 = (Inr cur, w2)" and
    3: "(case diff_remote_changes (pb_pre_remote a) post of (changed, deleted) \<Rightarrow>
          if escaped_paths a changed deleted \<noteq> [] then
            io_bind (save_escaped local_sim post (escaped_paths a changed deleted)) (\<lambda>_.
              io_return (empty_pullback_result\<lparr>pb_conflicts := escaped_paths a changed deleted,
                pb_post_remote_manifest := post, pb_local_manifest_after := cur\<rparr>))
          else pullback_folds local_sim a post (pullback_collisions a cur changed) changed deleted) w2 = (Inr r, w')"
    unfolding postrun_pullback_alt io_bind_Inr_iff by blast
  obtain ch de where d: "diff_remote_changes (pb_pre_remote a) post = (ch, de)" by fastforce
  have post: "pb_post_remote_manifest r = post"
    using 3 by (auto simp: d io_run_simps pullback_folds_def finish_pullback_def empty_pullback_result_def
        split: if_splits)
  then have e: "rel \<in> set (escaped_paths a ch de)" and cd: "ch = changed" "de = deleted"
    using diff d esc scope by (auto simp: escaped_paths_def)
  then have ne: "escaped_paths a ch de \<noteq> []" by auto
  from 3 ne have s: "save_escaped local_sim post (escaped_paths a ch de) w2 = (Inr (), w')"
    and r: "r = empty_pullback_result\<lparr>pb_conflicts := escaped_paths a ch de,
                pb_post_remote_manifest := post, pb_local_manifest_after := cur\<rparr>"
    by (simp_all add: d io_run_simps)
  have "world_steps (range SaveConflict) w w1"
    using sim.read_ops_confined(1) 1 by (metis confined_def snd_conv)
  also have "world_steps (range SaveConflict) w1 w2"
    using confined_local_ops(1) 2 by (metis confined_def snd_conv)
  also (rtranclp_trans) have "world_steps (range SaveConflict) w2 w'" by (rule save_escaped_run [OF s])
  finally (rtranclp_trans) have "local_drift w w'" by (rule world_steps_local_drift) auto
  with e r show ?thesis by (simp add: empty_pullback_result_def)
qed

theorem postrun_scope_violation_blocks_witness:
  "let pre = [(''a'', sample_file 1 ''h1'')]; w = sample_world pre [(''a'', sample_file 2 ''h2'')]
   in case postrun_pullback local_sim (sample_pullback pre pre [''out/**'']) w of
        (Inl e, w') \<Rightarrow> False
      | (Inr r, w') \<Rightarrow> ''a'' \<in> set (pb_conflicts r) \<and> local_drift w w'"
proof -
  let ?pre = "[(''a'', sample_file 1 ''h1'')]"
  let ?w = "sample_world ?pre [(''a'', sample_file 2 ''h2'')]" and ?a = "sample_pullback ?pre ?pre [''out/**'']"
  have "case postrun_pullback local_sim ?a ?w of (Inl e, w') \<Rightarrow> False
      | (Inr r, w') \<Rightarrow> diff_remote_changes (pb_pre_remote ?a) (pb_post_remote_manifest r) = ([''a''], [])"
    by code_simp
  then obtain r w' where run: "postrun_pullback local_sim ?a ?w = (Inr r, w')"
    and d: "diff_remote_changes (pb_pre_remote ?a) (pb_post_remote_manifest r) = ([''a''], [])"
    by (rule run_caseE)
  have "pb_write_scope ?a \<noteq> []" by (simp add: sample_pullback_def)
  moreover have "\<not> matches_any_scope_path (wc_normcase (pb_config ?a)) ''a'' (pb_write_scope ?a)" by code_simp
  ultimately show ?thesis
    using postrun_scope_violation_blocks [OF run d, of "''a''"] by (simp add: run Let_def)
qed

end
