(* ===== verification/ReconcileResults.thy ===== *)
theory ReconcileResults
  imports PullbackSafety
begin

text \<open>
  What the results of the reconcile engine mean.  A preflight without conflicts hands the
  command a pair of manifests that agree on every path; the baseline that a pullback returns
  advances on exactly the paths the command changed, each with a verified pair of entries.
  The lemmas hold for every transport, whatever it returns.
\<close>

section \<open>A preflight without conflicts\<close>

text \<open>
  A pair of entries that a preflight accepts: equal content by digest, or the retained
  historical generation of a path that the preflight did not touch.
\<close>

definition pair_accepted ::
  "preflight_args \<Rightarrow> manifest \<Rightarrow> manifest \<Rightarrow> path list \<Rightarrow> path \<Rightarrow> file_entry option \<Rightarrow> file_entry option \<Rightarrow> bool" where
  "pair_accepted a lm rm touched p le re \<longleftrightarrow>
     (case (le, re) of
        (Some l, Some r) \<Rightarrow>
          (fe_sha256 l \<noteq> None \<and> hashed_equal l r) \<or> retained_generation a lm rm touched p l r
      | _ \<Rightarrow> False)"

definition verified_on ::
  "preflight_args \<Rightarrow> manifest \<Rightarrow> manifest \<Rightarrow> path list \<Rightarrow> path set \<Rightarrow> reconcile_result \<Rightarrow> bool" where
  "verified_on a lm rm touched S r \<longleftrightarrow>
     rr_conflicts r \<noteq> []
     \<or> (\<forall>p \<in> S. pair_accepted a lm rm touched p (dict_get (rr_local_manifest r) p) (dict_get (rr_remote_manifest r) p))"

text \<open>The paths named by the manifests of a result, and the lists of what it did.\<close>

definition manifest_dom :: "reconcile_result \<Rightarrow> path set" where
  "manifest_dom r = {p. dict_get (rr_local_manifest r) p \<noteq> None \<or> dict_get (rr_remote_manifest r) p \<noteq> None}"

definition touched_paths :: "reconcile_result \<Rightarrow> path list" where
  "touched_paths r = rr_pushed r @ rr_pulled r @ rr_skipped_identical r @ rr_converged_conflicts r"

lemma reverify_yields:
  "yields (reverify T rel right) (\<lambda>pair. \<forall>f right'. pair = Some (f, right') \<longrightarrow>
     fe_sha256 f \<noteq> None \<and> hashed_equal f right')"
  unfolding reverify_def by (intro yields_intros) (auto simp: hashed_equal_def)

lemma verify_path_yields:
  assumes "verified_on a lm rm touched S r" and "rel \<notin> S"
  shows "yields (verify_path T a lm rm touched rel r)
    (\<lambda>r'. verified_on a lm rm touched (insert rel S) r'
       \<and> manifest_dom r' = manifest_dom r \<and> touched_paths r' = touched_paths r)"
proof (cases "(dict_get (rr_local_manifest r) rel, dict_get (rr_remote_manifest r) rel)")
  case (Pair le re)
  have bad: "yields (io_return (r\<lparr>rr_conflicts := rr_conflicts r @ [changed_conflict rel]\<rparr>)) (\<lambda>r'.
      verified_on a lm rm touched (insert rel S) r'
      \<and> manifest_dom r' = manifest_dom r \<and> touched_paths r' = touched_paths r)"
    by (rule yields_return) (simp add: verified_on_def manifest_dom_def touched_paths_def)
  show ?thesis
  proof (cases "le = None \<or> re = None")
    case True
    with Pair bad show ?thesis by (auto simp: verify_path_def Let_def split: option.split)
  next
    case False
    then obtain left right where lr: "dict_get (rr_local_manifest r) rel = Some left"
      "dict_get (rr_remote_manifest r) rel = Some right" using Pair by auto
    have keep: "yields (io_return r) (\<lambda>r'. verified_on a lm rm touched (insert rel S) r'
        \<and> manifest_dom r' = manifest_dom r \<and> touched_paths r' = touched_paths r)"
      if "(fe_sha256 left \<noteq> None \<and> hashed_equal left right) \<or> retained_generation a lm rm touched rel left right"
      using that assms(1) by (intro yields_return) (auto simp: verified_on_def pair_accepted_def lr)
    have fixed: "yields (io_return (r\<lparr>rr_local_manifest := dict_set rel f (rr_local_manifest r),
          rr_remote_manifest := dict_set rel right' (rr_remote_manifest r)\<rparr>))
        (\<lambda>r'. verified_on a lm rm touched (insert rel S) r'
           \<and> manifest_dom r' = manifest_dom r \<and> touched_paths r' = touched_paths r)"
      if "fe_sha256 f \<noteq> None \<and> hashed_equal f right'" for f right'
      using that assms
      by (intro yields_return)
         (auto simp: verified_on_def pair_accepted_def dict_simps manifest_dom_def touched_paths_def lr)
    show ?thesis
      unfolding verify_path_def Let_def lr prod.case option.case
      by (intro yields_if keep yields_bind [OF reverify_yields])
         (auto split: option.split intro: bad fixed)
  qed
qed

lemma verify_paths_yields:
  assumes "verified_on a lm rm touched S r" and "distinct rels" and "set rels \<inter> S = {}"
  shows "yields (verify_paths T a lm rm touched rels r)
    (\<lambda>r'. verified_on a lm rm touched (set rels \<union> S) r'
       \<and> manifest_dom r' = manifest_dom r \<and> touched_paths r' = touched_paths r)"
  using assms
proof (induction rels arbitrary: S r)
  case (Cons rel rels)
  have "yields (verify_paths T a lm rm touched rels r')
      (\<lambda>r''. verified_on a lm rm touched (set (rel # rels) \<union> S) r''
         \<and> manifest_dom r'' = manifest_dom r \<and> touched_paths r'' = touched_paths r)"
    if "verified_on a lm rm touched (insert rel S) r' \<and> manifest_dom r' = manifest_dom r
        \<and> touched_paths r' = touched_paths r" for r'
    using Cons.IH [of "insert rel S" r'] that Cons.prems by auto
  with yields_bind [OF verify_path_yields [OF Cons.prems(1)]] Cons.prems show ?case by auto
qed (simp add: yields_return)

lemma verify_preflight_yields:
  "yields (verify_preflight T a lm rm r)
     (\<lambda>r'. rr_conflicts r' = [] \<longrightarrow> (\<forall>p \<in> manifest_dom r'.
        pair_accepted a lm rm (touched_paths r') p (dict_get (rr_local_manifest r') p) (dict_get (rr_remote_manifest r') p)))"
proof -
  have main: "yields (verify_paths T a lm rm (touched_paths r) (sorted_paths (rr_local_manifest r1) (rr_remote_manifest r1)) r1)
     (\<lambda>r'. rr_conflicts r' = [] \<longrightarrow> (\<forall>p \<in> manifest_dom r'.
        pair_accepted a lm rm (touched_paths r') p (dict_get (rr_local_manifest r') p) (dict_get (rr_remote_manifest r') p)))"
    if "touched_paths r1 = touched_paths r" for r1
  proof -
    have "set (sorted_paths (rr_local_manifest r1) (rr_remote_manifest r1)) = manifest_dom r1"
      by (auto simp: manifest_dom_def sorted_simps)
    moreover have "verified_on a lm rm (touched_paths r) {} r1" by (simp add: verified_on_def)
    ultimately show ?thesis
      using verify_paths_yields [of a lm rm "touched_paths r" "{}" r1
        "sorted_paths (rr_local_manifest r1) (rr_remote_manifest r1)" T] that
      unfolding yields_def by (fastforce simp: verified_on_def)
  qed
  show ?thesis
    unfolding verify_preflight_def Let_def
  proof (intro yields_skip)
    fix lm' rm' lost
    let ?r = "r\<lparr>rr_local_manifest := lm', rr_remote_manifest := rm',
      rr_conflicts := rr_conflicts r @ (if lost then [root_conflict] else [])\<rparr>"
    have "touched_paths ?r = touched_paths r" by (simp add: touched_paths_def)
    from main [OF this] show "yields (verify_paths T a lm rm
        (rr_pushed r @ rr_pulled r @ rr_skipped_identical r @ rr_converged_conflicts r) (sorted_paths lm' rm') ?r)
      (\<lambda>r'. rr_conflicts r' = [] \<longrightarrow> (\<forall>p \<in> manifest_dom r'.
        pair_accepted a lm rm (touched_paths r') p (dict_get (rr_local_manifest r') p) (dict_get (rr_remote_manifest r') p)))"
      unfolding touched_paths_def [of r, symmetric] by simp
  qed
qed

lemma refine_plan_Inl: "refine_plan a lm rm conv items = Inl r \<Longrightarrow> rr_conflicts r \<noteq> []"
  unfolding refine_plan_def Let_def by (auto split: prod.splits if_splits)

lemma plan_preflight_Inl: "yields (plan_preflight T a lm rm) (\<lambda>x. \<forall>r. x = Inl r \<longrightarrow> rr_conflicts r \<noteq> [])"
  unfolding plan_preflight_def Let_def
  by (intro yields_intros) (auto simp: with_conflicts_def dest: refine_plan_Inl)

lemma preflight_apply_yields:
  "yields (preflight_apply T a lm rm items conv)
     (\<lambda>r'. rr_conflicts r' = [] \<longrightarrow> (\<forall>p \<in> manifest_dom r'.
        pair_accepted a lm rm (touched_paths r') p (dict_get (rr_local_manifest r') p) (dict_get (rr_remote_manifest r') p)))"
  unfolding preflight_apply_def by (intro yields_skip verify_preflight_yields)

lemma preflight_reconcile_yields:
  "yields (preflight_reconcile T a) (\<lambda>r. rr_conflicts r = [] \<longrightarrow> (\<exists>lm rm. \<forall>p \<in> manifest_dom r.
     pair_accepted a lm rm (touched_paths r) p (dict_get (rr_local_manifest r) p) (dict_get (rr_remote_manifest r) p)))"
  unfolding preflight_reconcile_alt
proof (rule yields_skip, rule yields_skip, rule yields_bind [OF plan_preflight_Inl])
  fix lm rm and planned :: "reconcile_result + classified_path list \<times> path list"
  assume "\<forall>r. planned = Inl r \<longrightarrow> rr_conflicts r \<noteq> []"
  then show "yields (case planned of Inl result \<Rightarrow> io_return result
      | Inr (items, converged) \<Rightarrow> preflight_apply T a lm rm items converged)
    (\<lambda>r. rr_conflicts r = [] \<longrightarrow> (\<exists>lm rm. \<forall>p \<in> manifest_dom r.
     pair_accepted a lm rm (touched_paths r) p (dict_get (rr_local_manifest r) p) (dict_get (rr_remote_manifest r) p)))"
    by (cases planned)
       (auto split: prod.split intro!: yields_return yields_mono [OF preflight_apply_yields])
qed



section \<open>The next baseline\<close>

text \<open>A verified pair of baseline entries for a path that the command changed.\<close>

definition baseline_pair :: "path \<Rightarrow> file_entry option \<Rightarrow> file_entry option \<Rightarrow> file_entry option \<Rightarrow> bool" where
  "baseline_pair p le re post \<longleftrightarrow>
     (\<exists>l r h. le = Some l \<and> re = Some r \<and> post = Some r \<and> fe_path l = p
        \<and> fe_kind l = fe_kind r \<and> fe_size l = fe_size r \<and> fe_sha256 l = Some h
        \<and> (fe_sha256 r = None \<or> fe_sha256 r = Some h))"

definition advanced ::
  "pullback_args \<Rightarrow> manifest \<Rightarrow> path set \<Rightarrow> path set \<Rightarrow> pullback_state \<Rightarrow> bool" where
  "advanced a post C D s \<longleftrightarrow>
     pb_conflicts (ps_result s) \<noteq> []
     \<or> (\<forall>p. (p \<in> C \<longrightarrow> baseline_pair p (dict_get (ps_next_local s) p) (dict_get (ps_next_remote s) p) (dict_get post p))
         \<and> (p \<in> D \<longrightarrow> dict_get (ps_next_local s) p = None \<and> dict_get (ps_next_remote s) p = None)
         \<and> (p \<notin> C \<union> D \<longrightarrow> dict_get (ps_next_local s) p = dict_get (pb_pre_local a) p
              \<and> dict_get (ps_next_remote s) p = dict_get (pb_pre_remote a) p))"

lemma advanced_conflict: "advanced a post C D (add_conflict rel s)"
  by (simp add: advanced_def add_conflict_def)

lemma fresh_local_entry_yields:
  "yields (fresh_local_entry p (Some n)) (\<lambda>x. \<forall>e. x = Some e \<longrightarrow>
     fe_size e = n \<longrightarrow> fe_sha256 e \<noteq> None)"
  unfolding fresh_local_entry_def yields_def by (auto simp: io_read_Inr_iff split: option.splits)

lemma strong_remote_entry_yields:
  "yields (strong_remote_entry T rel e) (\<lambda>x. \<forall>re. x = Some re \<longrightarrow>
     fe_sha256 re \<noteq> None \<and> fe_kind re = fe_kind e \<and> fe_size re = fe_size e
     \<and> (fe_sha256 e = None \<or> fe_sha256 e = fe_sha256 re))"
  unfolding strong_remote_entry_def by (intro yields_intros) auto

lemma advance_advanced:
  assumes "advanced a post C D s" and "rel \<notin> D"
    and "pb_conflicts (ps_result s') = pb_conflicts (ps_result s)"
    and "ps_next_local s' = ps_next_local s" and "ps_next_remote s' = ps_next_remote s"
    and "entries_same (Some l) (Some re)" and "fe_size l = fe_size re \<longrightarrow> fe_sha256 l \<noteq> None"
    and "dict_get post rel = Some e"
    and "fe_sha256 re \<noteq> None" and "fe_kind re = fe_kind e" and "fe_size re = fe_size e"
    and "fe_sha256 e = None \<or> fe_sha256 e = fe_sha256 re"
  shows "advanced a post (insert rel C) D (advance rel l post s')"
proof -
  have "fe_kind l = fe_kind re \<and> fe_size l = fe_size re \<and> fe_sha256 l = fe_sha256 re"
    using assms(6,7,9) by (auto simp: entries_same.simps(4) split: if_splits)
  then show ?thesis
    using assms by (auto simp: advanced_def advance_def baseline_pair_def dict_simps)
qed

lemma pull_changed_advanced:
  assumes "advanced a post C D s" and "rel \<notin> D" and "dict_get post rel = Some e"
    and "fe_sha256 re \<noteq> None" and "fe_kind re = fe_kind e" and "fe_size re = fe_size e"
    and "fe_sha256 e = None \<or> fe_sha256 e = fe_sha256 re"
  shows "yields (pull_changed T a post rel re s) (advanced a post (insert rel C) D)"
proof -
  note adv = advance_advanced [OF assms(1,2) _ _ _ _ _ assms(3-7)]
  show ?thesis
    unfolding pull_changed_def
    by (intro yields_bind [OF fresh_local_entry_yields] yields_if yields_return yields_raise yields_skip
          advanced_conflict)
       (auto intro!: adv)
qed

lemma pullback_changed_advanced:
  assumes "advanced a post C D s" and "rel \<notin> D"
  shows "yields (pullback_changed T a post collide rel s) (advanced a post (insert rel C) D)"
proof -
  have "yields (io_bind (strong_remote_entry T rel e) (\<lambda>strong.
          (case strong of
             None \<Rightarrow> io_bind (tr_pull_file T ToConflictStore rel) (\<lambda>_. io_return (add_conflict rel s))
           | Some re \<Rightarrow> pull_changed T a post rel re s))) (advanced a post (insert rel C) D)"
    if "dict_get post rel = Some e" for e
    by (intro yields_bind [OF strong_remote_entry_yields] yields_option yields_skip yields_return
          advanced_conflict)
       (use that assms in \<open>auto intro: pull_changed_advanced\<close>)
  then show ?thesis
    unfolding pullback_changed_def
    by (intro yields_if yields_option yields_return advanced_conflict) auto
qed

lemma pullback_deleted_advanced:
  assumes "advanced a post C D s" and "rel \<notin> C"
  shows "yields (pullback_deleted a rel s) (advanced a post C (insert rel D))"
proof -
  have forget: "advanced a post C (insert rel D)
      (s'\<lparr>ps_next_local := dict_pop rel (ps_next_local s'), ps_next_remote := dict_pop rel (ps_next_remote s')\<rparr>)"
    if "pb_conflicts (ps_result s') = pb_conflicts (ps_result s)"
      and "ps_next_local s' = ps_next_local s" and "ps_next_remote s' = ps_next_remote s" for s'
    using assms that by (auto simp: advanced_def dict_simps)
  show ?thesis
    unfolding pullback_deleted_def Let_def
    by (intro yields_intros advanced_conflict forget) simp_all
qed

lemma yields_foldl:
  assumes "\<And>x s S. x \<in> set xs \<Longrightarrow> I S s \<Longrightarrow> yields (f x s) (I (insert x S))" and "I S s"
  shows "yields (io_foldl f xs s) (I (set xs \<union> S))"
  using assms
proof (induction xs arbitrary: s S)
  case (Cons x xs)
  from Cons.prems have "yields (f x s) (I (insert x S))" by simp
  moreover have "yields (io_foldl f xs s') (I (set xs \<union> insert x S))" if "I (insert x S) s'" for s'
    using Cons.prems(1) that by (intro Cons.IH) auto
  ultimately show ?case by (auto intro: yields_bind)
qed (simp add: yields_return)

lemma finish_pullback_yields:
  "yields (finish_pullback a post s) (\<lambda>r. pb_post_remote_manifest r = post
     \<and> pb_conflicts r = pb_conflicts (ps_result s)
     \<and> pb_next_baseline r = (if pb_conflicts (ps_result s) = [] then
         Some \<lparr>nb_local_manifest = ps_next_local s, nb_remote_manifest = ps_next_remote s\<rparr> else None))"
  unfolding finish_pullback_def by (intro yields_skip yields_return) simp

text \<open>What the result of a pullback says about its baseline.\<close>

definition baseline_sound :: "pullback_args \<Rightarrow> pullback_result \<Rightarrow> bool" where
  "baseline_sound a r \<longleftrightarrow>
     (case diff_remote_changes (pb_pre_remote a) (pb_post_remote_manifest r) of (changed, deleted) \<Rightarrow>
        (pb_next_baseline r = None \<longleftrightarrow> pb_conflicts r \<noteq> [])
        \<and> (\<forall>nb. pb_next_baseline r = Some nb \<longrightarrow>
            (\<forall>p. (p \<in> set changed \<longrightarrow> baseline_pair p (dict_get (nb_local_manifest nb) p)
                     (dict_get (nb_remote_manifest nb) p) (dict_get (pb_post_remote_manifest r) p))
               \<and> (p \<in> set deleted \<longrightarrow> dict_get (nb_local_manifest nb) p = None
                     \<and> dict_get (nb_remote_manifest nb) p = None)
               \<and> (p \<notin> set changed \<union> set deleted \<longrightarrow>
                     dict_get (nb_local_manifest nb) p = dict_get (pb_pre_local a) p
                   \<and> dict_get (nb_remote_manifest nb) p = dict_get (pb_pre_remote a) p))))"

lemma pullback_folds_yields:
  assumes "diff_remote_changes (pb_pre_remote a) post = (changed, deleted)"
  shows "yields (pullback_folds T a post collide changed deleted) (baseline_sound a)"
proof -
  note dj = diff_remote_changes_mem(5) [OF assms]
  have start: "advanced a post {} {} \<lparr>ps_result = empty_pullback_result, ps_next_local = pb_pre_local a,
                 ps_next_remote = pb_pre_remote a\<rparr>"
    by (simp add: advanced_def)
  have c: "yields (io_foldl (pullback_changed T a post collide) changed
      \<lparr>ps_result = empty_pullback_result, ps_next_local = pb_pre_local a, ps_next_remote = pb_pre_remote a\<rparr>)
      (advanced a post (set changed) {})"
    using yields_foldl [where I = "\<lambda>S. advanced a post S {}", OF pullback_changed_advanced start] by simp
  have d: "yields (io_foldl (pullback_deleted a) deleted s) (advanced a post (set changed) (set deleted))"
    if "advanced a post (set changed) {} s" for s
  proof -
    have "yields (pullback_deleted a x s') (advanced a post (set changed) (insert x S))"
      if "x \<in> set deleted" and "advanced a post (set changed) S s'" for x s' S
      using that dj by (intro pullback_deleted_advanced) auto
    from yields_foldl [where I = "advanced a post (set changed)", OF this that] show ?thesis by simp
  qed
  have f: "yields (finish_pullback a post s) (baseline_sound a)"
    if "advanced a post (set changed) (set deleted) s" for s
    using finish_pullback_yields [of a post s] that
    unfolding yields_def baseline_sound_def advanced_def by (auto simp: assms)
  show ?thesis
    unfolding pullback_folds_def by (rule yields_bind [OF c yields_bind [OF d f]])
qed

lemma postrun_yields: "yields (postrun_pullback T a) (baseline_sound a)"
proof -
  have "baseline_sound a (empty_pullback_result\<lparr>pb_conflicts := e # es,
      pb_post_remote_manifest := post, pb_local_manifest_after := cur\<rparr>)" for e es post cur
    by (auto simp: baseline_sound_def empty_pullback_result_def split: prod.split)
  then show ?thesis
    unfolding postrun_pullback_alt
    by (intro yields_skip)
       (auto split: prod.split intro!: yields_if yields_skip yields_return pullback_folds_yields
          simp: neq_Nil_conv)
qed



section \<open>Case-fold collisions\<close>

lemma fold_groups_get:
  "dict_get (fold_groups key ps g) k =
     (let new = filter (\<lambda>p. key p = k) ps
      in if new = [] then dict_get g k
         else Some ((case dict_get g k of None \<Rightarrow> [] | Some old \<Rightarrow> old) @ new))"
  by (induction ps arbitrary: g) (auto simp: Let_def dict_simps split: option.splits)

lemma fold_groups_ok: "dict_ok g \<Longrightarrow> dict_ok (fold_groups key ps g)"
  by (induction ps arbitrary: g) (simp_all add: dict_ok_set)

lemma casefold_collisions_get:
  "dict_get (casefold_collisions key ps) k =
     (let new = filter (\<lambda>p. key p = k) ps
      in if length (remdups new) > 1 then Some (sorted_set new) else None)"
proof -
  have ok: "dict_ok (fold_groups key ps [])" by (rule fold_groups_ok) simp
  have "dict_get (casefold_collisions key ps) k = map_option sorted_set
      (case dict_get (fold_groups key ps []) k of None \<Rightarrow> None
       | Some v \<Rightarrow> if length (remdups v) > 1 then Some v else None)"
    unfolding casefold_collisions_def
    by (subst dict_get_map [of "\<lambda>_. sorted_set"]) (simp only: dict_get_filter [OF ok])
  then show ?thesis by (auto simp: fold_groups_get Let_def split: option.splits)
qed

lemma remdups_length_gt_1_iff: "length (remdups xs) > 1 \<longleftrightarrow> (\<exists>x \<in> set xs. \<exists>y \<in> set xs. x \<noteq> y)"
proof -
  have "length (remdups xs) > 1 \<longleftrightarrow> \<not> card (set xs) \<le> 1" by (simp add: length_remdups_card_conv not_le)
  also have "\<dots> \<longleftrightarrow> (\<exists>x \<in> set xs. \<exists>y \<in> set xs. x \<noteq> y)"
    by (metis (no_types) List.finite_set One_nat_def card_le_Suc0_iff_eq)
  finally show ?thesis .
qed

text \<open>
  the collision guard is exact.  \<open>casefold_collisions\<close> is empty exactly when the fold is
  injective on the given paths, and each of its groups is the sorted list of the distinct
  paths with that key.
\<close>

theorem casefold_collisions_exact:
  "(casefold_collisions fold_key ps = [] \<longleftrightarrow> inj_on fold_key (set ps))
   \<and> (\<forall>k g. dict_get (casefold_collisions fold_key ps) k = Some g \<longleftrightarrow>
        g = sorted_set (filter (\<lambda>p. fold_key p = k) ps) \<and> length g > 1)"
proof -
  have "casefold_collisions fold_key ps = [] \<longleftrightarrow> (\<forall>k. dict_get (casefold_collisions fold_key ps) k = None)"
    by (metis list.exhaust map_of.simps(1) map_of_eq_None_iff list.set_intros(1) list.simps(9) map_of_Cons_code(2) option.distinct(1) surj_pair)
  also have "\<dots> \<longleftrightarrow> inj_on fold_key (set ps)"
    unfolding casefold_collisions_get Let_def remdups_length_gt_1_iff inj_on_def by auto
  finally show ?thesis
    by (auto simp: casefold_collisions_get Let_def sorted_set_def split: if_splits)
qed

end
