(* ===== verification/Sync.thy ===== *)
theory Sync
  imports ReconcileResults
begin

text \<open>
  The folder sync engine (\<open>src/remrun/sync.py\<close>): the mapping of a tree argument to a pair
  of roots, the first-sync and one-way classification, the direction filter, and
  \<open>run_sync_result\<close> with its exit codes.  The baseline store is state that the operation
  reads and returns; the reporter's output and the retention pass are not part of the model.
\<close>

section \<open>Exit codes, mappings and results\<close>

definition EXIT_OK :: int where "EXIT_OK = 0"
definition EXIT_INTERNAL :: int where "EXIT_INTERNAL = 1"
definition EXIT_CONFLICT :: int where "EXIT_CONFLICT = 2"
definition EXIT_TRANSFER :: int where "EXIT_TRANSFER = 3"
definition EXIT_INFRA :: int where "EXIT_INFRA = 4"

definition DIRECTIONS :: "string list" where
  "DIRECTIONS = [''both'', ''pull'', ''push'']"

definition AUTHORITIES :: "string list" where
  "AUTHORITIES = [''remote'', ''local'', ''conflict'']"

definition HASH_ALL :: int where
  "HASH_ALL = 2 ^ 62"

datatype sync_error = SyncError string

record sync_mapping =
  sm_local_root :: string
  sm_remote_base :: string
  sm_remote_sub :: string
  sm_tree :: string
  sm_authority :: string

record sync_result =
  sr_authority :: string
  sr_pulled :: "path list"
  sr_pushed :: "path list"
  sr_verified_pushed :: "path list"
  sr_deleted_local :: "path list"
  sr_deleted_remote :: "path list"
  sr_conflicts :: "path list"
  sr_skipped :: "path list"
  sr_backup_dir :: bool
  sr_used_baseline :: bool
  sr_remote_files :: nat
  sr_remote_paths :: "path list"
  sr_exit_code :: int

definition empty_sync_result :: sync_result where
  "empty_sync_result =
     \<lparr>sr_authority = ''remote'', sr_pulled = [], sr_pushed = [], sr_verified_pushed = [],
      sr_deleted_local = [], sr_deleted_remote = [], sr_conflicts = [], sr_skipped = [],
      sr_backup_dir = False, sr_used_baseline = False, sr_remote_files = 0,
      sr_remote_paths = [], sr_exit_code = EXIT_OK\<rparr>"

section \<open>Path mapping\<close>

type_synonym sync_tree = "(string, string) dict"

definition base_for :: "sync_tree \<Rightarrow> string \<Rightarrow> string option" where
  "base_for tree os_key =
     (case dict_get tree os_key of
        Some b \<Rightarrow> if b \<noteq> [] then Some b else dict_get tree ''default''
      | None \<Rightarrow> dict_get tree ''default'')"

definition authority_of :: "sync_tree \<Rightarrow> string" where
  "authority_of tree =
     (let a = ascii_lower (case dict_get tree ''authority'' of None \<Rightarrow> ''remote'' | Some a \<Rightarrow> a)
      in if a \<in> set AUTHORITIES then a else ''remote'')"

definition unify_separators :: "string \<Rightarrow> string" where
  "unify_separators = map (\<lambda>c. if c = CHR 0x5C then CHR ''/'' else c)"

text \<open>The parts of a relative \<open>PurePosixPath\<close>: empty and \<open>.\<close> components collapse.\<close>

definition posix_parts :: "string \<Rightarrow> string list" where
  "posix_parts s = filter (\<lambda>p. p \<noteq> [] \<and> p \<noteq> ''.'') (split_on (CHR ''/'') s)"

definition as_posix :: "string list \<Rightarrow> string" where
  "as_posix parts = (if parts = [] then ''.'' else join_with ''/'' parts)"

definition unsafe_part :: "string \<Rightarrow> bool" where
  "unsafe_part part \<longleftrightarrow> part = ''..'' \<or> part = ''.'' \<or> CHR '':'' \<in> set part"

definition safe_subpath :: "string \<Rightarrow> sync_error + string" where
  "safe_subpath sub0 =
     (let sub = strip_slash (unify_separators sub0)
      in if sub = [] then Inr []
         else (case filter unsafe_part (posix_parts sub) of
             part # _ \<Rightarrow> Inl (SyncError (''unsafe subpath component '' @ part @ '' in '' @ sub))
           | [] \<Rightarrow> Inr (as_posix (posix_parts sub))))"

text \<open>What the file system contributes to a path argument.\<close>

record path_env =
  pe_expand_path :: "string \<Rightarrow> string"
  pe_resolve :: "string \<Rightarrow> string"
  pe_expanduser :: "string \<Rightarrow> string"
  pe_is_absolute :: "string \<Rightarrow> bool"
  pe_exists :: "string \<Rightarrow> bool"

definition relative_to :: "string \<Rightarrow> string \<Rightarrow> string option" where
  "relative_to p base =
     (if prefix (posix_parts base) (posix_parts p)
      then Some (as_posix (drop (length (posix_parts base)) (posix_parts p))) else None)"

fun find_tree ::
  "path_env \<Rightarrow> string \<Rightarrow> string \<Rightarrow> string \<Rightarrow> (string, sync_tree) dict \<Rightarrow> sync_mapping option" where
  "find_tree env local_os remote_os resolved [] = None"
| "find_tree env local_os remote_os resolved ((name, tree) # trees) =
     (case (base_for tree local_os, base_for tree remote_os) of
        (Some (lb # lbs), Some (rb # rbs)) \<Rightarrow>
          (case relative_to resolved (pe_resolve env (pe_expand_path env (lb # lbs))) of
             None \<Rightarrow> find_tree env local_os remote_os resolved trees
           | Some sub \<Rightarrow>
               Some \<lparr>sm_local_root = resolved, sm_remote_base = rb # rbs,
                 sm_remote_sub = (if sub = ''.'' then [] else sub), sm_tree = name,
                 sm_authority = authority_of tree\<rparr>)
      | _ \<Rightarrow> find_tree env local_os remote_os resolved trees)"

definition named_tree ::
  "path_env \<Rightarrow> string \<Rightarrow> string \<Rightarrow> string \<Rightarrow> string \<Rightarrow> sync_tree \<Rightarrow> sync_error + sync_mapping" where
  "named_tree env local_os remote_os head rest tree =
     (case safe_subpath rest of
        Inl e \<Rightarrow> Inl e
      | Inr sub \<Rightarrow>
          (case (base_for tree local_os, base_for tree remote_os) of
             (Some (lb # lbs), Some (rb # rbs)) \<Rightarrow>
               (let base = pe_expand_path env (lb # lbs);
                    root = (if sub \<noteq> [] then base @ ''/'' @ sub else base)
                in Inr \<lparr>sm_local_root = pe_resolve env root, sm_remote_base = rb # rbs,
                     sm_remote_sub = sub, sm_tree = head, sm_authority = authority_of tree\<rparr>)
           | _ \<Rightarrow> Inl (SyncError (''sync tree '' @ head @ '' has no path for the OS pair''))))"

definition resolve_sync_paths ::
  "path_env \<Rightarrow> (string, sync_tree) dict \<Rightarrow> string \<Rightarrow> string \<Rightarrow> string \<Rightarrow> string option
   \<Rightarrow> sync_error + sync_mapping" where
  "resolve_sync_paths env sync_roots local_os remote_os arg remote_override =
     (case remote_override of
        Some (c # cs) \<Rightarrow>
          Inr \<lparr>sm_local_root = pe_resolve env (pe_expanduser env arg), sm_remote_base = c # cs,
            sm_remote_sub = [], sm_tree = ''(explicit)'', sm_authority = ''remote''\<rparr>
      | _ \<Rightarrow>
          (let arg_norm = strip_slash (unify_separators arg);
               head = hd (split_on (CHR ''/'') arg_norm);
               unknown = Inl (SyncError (''don't know how to map '' @ arg))
           in (case dict_get sync_roots head of
                 Some tree \<Rightarrow> named_tree env local_os remote_os head (drop (length head) arg_norm) tree
               | None \<Rightarrow>
                   (let candidate = pe_expanduser env arg
                    in if pe_is_absolute env candidate \<or> pe_exists env candidate then
                         (case find_tree env local_os remote_os (pe_resolve env candidate) sync_roots of
                            Some m \<Rightarrow> Inr m | None \<Rightarrow> unknown)
                       else unknown))))"

definition rstrip_slash :: "string \<Rightarrow> string" where
  "rstrip_slash s = rev (dropWhile (\<lambda>c. c = CHR ''/'') (rev s))"

text \<open>One tree of the reverse mapping: the subpath and the length of the matching base.\<close>

definition tree_match :: "(string \<Rightarrow> string) \<Rightarrow> string \<Rightarrow> string \<Rightarrow> (string \<times> nat) option" where
  "tree_match casefold spec_sep base =
     (let base_sep = rstrip_slash (unify_separators base)
      in if casefold spec_sep = casefold base_sep then Some ([], length (casefold base_sep))
         else if prefix (casefold base_sep @ ''/'') (casefold spec_sep)
         then Some (drop (length base_sep + 1) spec_sep, length (casefold base_sep))
         else None)"

fun best_tree ::
  "(string \<Rightarrow> string) \<Rightarrow> string \<Rightarrow> string \<Rightarrow> (string, sync_tree) dict
   \<Rightarrow> (string \<times> string) option \<Rightarrow> int \<Rightarrow> (string \<times> string) option" where
  "best_tree casefold os_key spec_sep [] best best_len = best"
| "best_tree casefold os_key spec_sep ((name, tree) # trees) best best_len =
     (case base_for tree os_key of
        Some (b # bs) \<Rightarrow>
          (case tree_match casefold spec_sep (b # bs) of
             Some (sub, n) \<Rightarrow>
               if int n > best_len then best_tree casefold os_key spec_sep trees (Some (name, sub)) (int n)
               else best_tree casefold os_key spec_sep trees best best_len
           | None \<Rightarrow> best_tree casefold os_key spec_sep trees best best_len)
      | _ \<Rightarrow> best_tree casefold os_key spec_sep trees best best_len)"

text \<open>\<open>casefold\<close> is \<open>str.casefold\<close> on a case-insensitive device and the identity elsewhere.\<close>

definition remote_spec_to_tree ::
  "(string \<Rightarrow> string) \<Rightarrow> (string, sync_tree) dict \<Rightarrow> string \<Rightarrow> string \<Rightarrow> (string \<times> string) option" where
  "remote_spec_to_tree casefold sync_roots os_key remote_spec =
     best_tree casefold os_key (rstrip_slash (unify_separators remote_spec)) sync_roots None (-1)"

section \<open>Classification\<close>

definition same_content :: "file_entry \<Rightarrow> file_entry \<Rightarrow> bool" where
  "same_content le re \<longleftrightarrow>
     (if fe_size le \<noteq> fe_size re then False
      else if fe_sha256 le \<noteq> None \<and> fe_sha256 re \<noteq> None then fe_sha256 le = fe_sha256 re
      else False)"

fun classify_sync_path ::
  "string \<Rightarrow> path \<Rightarrow> file_entry option \<Rightarrow> file_entry option \<Rightarrow> classified_path option" where
  "classify_sync_path authority p (Some le) (Some re) = Some (
     if same_content le re then ClassifiedPath p ''same'' NONE ''identical content''
     else if authority = ''local'' then ClassifiedPath p ''differs'' PUSH ''differs; local authoritative''
     else if authority = ''conflict'' then
       ClassifiedPath p ''differs'' ABORT_CONFLICT ''differs; no authority (clocks not comparable)''
     else ClassifiedPath p ''differs'' PULL ''differs; remote authoritative'')"
| "classify_sync_path authority p None (Some re) = Some (ClassifiedPath p ''remote-only'' PULL ''only on remote'')"
| "classify_sync_path authority p (Some le) None = Some (ClassifiedPath p ''local-only'' PUSH ''only on local'')"
| "classify_sync_path authority p None None = None"

definition classify_sync :: "manifest \<Rightarrow> manifest \<Rightarrow> string \<Rightarrow> classified_path list" where
  "classify_sync local remote authority =
     List.map_filter (\<lambda>p. classify_sync_path authority p (dict_get local p) (dict_get remote p))
       (sorted_paths local remote)"

definition skipped_action :: "string \<Rightarrow> action \<Rightarrow> bool" where
  "skipped_action direction act \<longleftrightarrow>
     (direction = ''pull'' \<and> act \<in> {PUSH, DELETE_REMOTE})
     \<or> (direction = ''push'' \<and> act \<in> {PULL, DELETE_LOCAL})"

definition filter_actions ::
  "classified_path list \<Rightarrow> string \<Rightarrow> classified_path list \<times> classified_path list" where
  "filter_actions ps direction =
     (filter (\<lambda>p. cp_action p \<noteq> NONE \<and> \<not> skipped_action direction (cp_action p)) ps,
      filter (\<lambda>p. skipped_action direction (cp_action p)) ps)"

section \<open>The post-sync manifests\<close>

definition converged_item ::
  "manifest \<Rightarrow> manifest \<Rightarrow> classified_path \<Rightarrow> manifest \<times> manifest \<Rightarrow> manifest \<times> manifest" where
  "converged_item local_m remote_m p after =
     (case after of (local_after, remote_after) \<Rightarrow>
        (case cp_action p of
           PULL \<Rightarrow>
             (case dict_get remote_m (cp_path p) of
                Some e \<Rightarrow> (dict_set (cp_path p) e local_after, remote_after) | None \<Rightarrow> after)
         | PUSH \<Rightarrow>
             (case dict_get local_m (cp_path p) of
                Some e \<Rightarrow> (local_after, dict_set (cp_path p) e remote_after) | None \<Rightarrow> after)
         | DELETE_LOCAL \<Rightarrow> (dict_pop (cp_path p) local_after, remote_after)
         | DELETE_REMOTE \<Rightarrow> (local_after, dict_pop (cp_path p) remote_after)
         | _ \<Rightarrow> after))"

definition converged :: "manifest \<Rightarrow> manifest \<Rightarrow> classified_path list \<Rightarrow> manifest \<times> manifest" where
  "converged local_m remote_m applied = fold (converged_item local_m remote_m) applied (local_m, remote_m)"

text \<open>The lookups \<open>remote_m[path]\<close> and \<open>local_m[path]\<close> that raise \<open>KeyError\<close> when they fail.\<close>

definition converged_defined :: "manifest \<Rightarrow> manifest \<Rightarrow> classified_path list \<Rightarrow> bool" where
  "converged_defined local_m remote_m applied =
     list_all (\<lambda>p. (cp_action p = PULL \<longrightarrow> dict_get remote_m (cp_path p) \<noteq> None)
                 \<and> (cp_action p = PUSH \<longrightarrow> dict_get local_m (cp_path p) \<noteq> None)) applied"

section \<open>Running a sync\<close>

record sync_args =
  sa_config :: walk_config
  sa_direction :: string
  sa_device_known :: bool
  sa_mapping :: "sync_error + sync_mapping"
  sa_reachable :: bool
  sa_dry_run :: bool
  sa_local_ci :: bool
  sa_remote_ci :: bool
  sa_fold_key :: "path \<Rightarrow> string"
  sa_backup_below :: int

type_synonym baseline_store = "(manifest \<times> manifest) option"

definition sa_walk :: "sync_args \<Rightarrow> walk_config" where
  "sa_walk a = (sa_config a)\<lparr>wc_hash_below := Some HASH_ALL, wc_always_hash := False, wc_include := []\<rparr>"

text \<open>\<open>build_manifest\<close> of the local root: a failing walk raises \<open>ManifestError\<close>.\<close>

definition build_manifest_local :: "walk_config \<Rightarrow> manifest io" where
  "build_manifest_local c =
     io_read (ManifestError ''local'') (\<lambda>w. if w_local_root w then disk_manifest c (w_local w) else [])"

definition is_transport_error :: "py_exn \<Rightarrow> bool" where
  "is_transport_error e \<longleftrightarrow> (case e of TransportError _ \<Rightarrow> True | _ \<Rightarrow> False)"

text \<open>\<open>except (TransportError, NotImplementedError): pass\<close>: an unknown root counts as present.\<close>

definition sync_root_missing :: "transport \<Rightarrow> bool io" where
  "sync_root_missing T =
     io_catch (\<lambda>e. is_transport_error e \<or> e = NotImplementedError)
       (io_bind (tr_remote_path_exists T) (\<lambda>ex. io_return (\<not> ex))) (io_return False)"

definition snapshot_local :: "bool \<Rightarrow> int \<Rightarrow> path \<Rightarrow> unit io" where
  "snapshot_local has_dir max_bytes rel = (if \<not> has_dir then io_return () else backup_local max_bytes rel)"

definition sync_collisions :: "sync_args \<Rightarrow> manifest \<Rightarrow> manifest \<Rightarrow> classified_path list \<Rightarrow> (string, path list) dict" where
  "sync_collisions a lm rm to_apply =
     dict_update (dict_update []
       (if sa_local_ci a then casefold_collisions (sa_fold_key a) (dict_keys lm @ paths_with PULL to_apply) else []))
       (if sa_remote_ci a then casefold_collisions (sa_fold_key a) (dict_keys rm @ paths_with PUSH to_apply) else [])"

text \<open>The first pass over the items: everything but the transfers, which are collected.\<close>

definition sync_item ::
  "transport \<Rightarrow> sync_args \<Rightarrow> bool \<Rightarrow> manifest \<Rightarrow> classified_path \<Rightarrow> sync_result \<Rightarrow> sync_result io" where
  "sync_item T a has_dir rm item r =
     (case cp_action item of
        PULL \<Rightarrow> io_bind (snapshot_local has_dir (sa_backup_below a) (cp_path item)) (\<lambda>_. io_return r)
      | PUSH \<Rightarrow> io_return r
      | DELETE_LOCAL \<Rightarrow>
          io_bind (snapshot_local has_dir (sa_backup_below a) (cp_path item)) (\<lambda>_.
          io_bind (unlink_local (cp_path item)) (\<lambda>_.
            io_return (r\<lparr>sr_deleted_local := sr_deleted_local r @ [cp_path item]\<rparr>)))
      | DELETE_REMOTE \<Rightarrow>
          io_bind (tr_delete_remote T (cp_path item)) (\<lambda>_.
            io_return (r\<lparr>sr_deleted_remote := sr_deleted_remote r @ [cp_path item]\<rparr>))
      | ABORT_CONFLICT \<Rightarrow>
          io_bind (if has_dir \<and> dict_get rm (cp_path item) \<noteq> None
                   then tr_pull_file T ToConflictStore (cp_path item) else io_return ()) (\<lambda>_.
            io_return (r\<lparr>sr_conflicts := sr_conflicts r @ [cp_path item]\<rparr>))
      | NONE \<Rightarrow> io_return r)"

text \<open>
  A pass that a transport error ends: the result reached so far, and whether it was cut short.
\<close>

fun sync_items ::
  "transport \<Rightarrow> sync_args \<Rightarrow> bool \<Rightarrow> manifest \<Rightarrow> classified_path list \<Rightarrow> sync_result \<Rightarrow> (bool \<times> sync_result) io" where
  "sync_items T a has_dir rm [] r = io_return (False, r)"
| "sync_items T a has_dir rm (item # items) r =
     io_bind (io_try is_transport_error (sync_item T a has_dir rm item r)) (\<lambda>res.
       (case res of
          None \<Rightarrow> io_return (True, r)
        | Some r' \<Rightarrow> sync_items T a has_dir rm items r'))"

fun each_path :: "(path \<Rightarrow> unit io) \<Rightarrow> path list \<Rightarrow> unit io" where
  "each_path f [] = io_return ()"
| "each_path f (p # ps) = io_bind (f p) (\<lambda>_. each_path f ps)"

definition push_mismatches :: "manifest \<Rightarrow> manifest \<Rightarrow> path list \<Rightarrow> path list" where
  "push_mismatches lm verified pushes =
     filter (\<lambda>p. case (dict_get lm p, dict_get verified p) of
               (Some le, Some re) \<Rightarrow> \<not> same_content le re | _ \<Rightarrow> True) pushes"

text \<open>
  Transfers: \<open>None\<close> is an aborted apply (exit \<open>EXIT_TRANSFER\<close>), otherwise the result and
  the remote manifest to record.
\<close>

definition verify_push ::
  "transport \<Rightarrow> sync_args \<Rightarrow> manifest \<Rightarrow> path list \<Rightarrow> manifest io" where
  "verify_push T a lm pushes =
     io_bind (tr_manifest T (sa_walk a)) (\<lambda>verified.
       if push_mismatches lm verified pushes \<noteq> [] then
         io_raise (TransportError (''pushed files not remotely visible with expected size/hash: ''
           @ join_with '', '' (push_mismatches lm verified pushes)))
       else io_return verified)"

definition caught_verify :: "py_exn \<Rightarrow> bool" where
  "caught_verify e \<longleftrightarrow> (case e of TransportError _ \<Rightarrow> True | NotImplementedError \<Rightarrow> True | ValueError _ \<Rightarrow> True | _ \<Rightarrow> False)"

definition sync_pushes ::
  "transport \<Rightarrow> sync_args \<Rightarrow> manifest \<Rightarrow> manifest \<Rightarrow> path list \<Rightarrow> sync_result \<Rightarrow> (bool \<times> sync_result \<times> manifest) io" where
  "sync_pushes T a lm rm pushes r =
     (if pushes = [] then io_return (False, r, rm)
      else io_bind (io_try is_transport_error
             (io_bind (tr_ensure_remote_dir T) (\<lambda>_. each_path (tr_push_file T) pushes))) (\<lambda>sent.
        if sent = None then io_return (True, r, rm)
        else io_bind (io_try caught_verify (verify_push T a lm pushes)) (\<lambda>res.
          (case res of
             None \<Rightarrow> io_return (True, r, rm)
           | Some verified \<Rightarrow>
               io_return (False,
                 r\<lparr>sr_pushed := sr_pushed r @ pushes, sr_verified_pushed := sr_verified_pushed r @ pushes,
                   sr_remote_files := length verified, sr_remote_paths := dict_keys verified\<rparr>, verified)))))"

definition sync_pulls ::
  "transport \<Rightarrow> path list \<Rightarrow> sync_result \<Rightarrow> (bool \<times> sync_result) io" where
  "sync_pulls T pulls r =
     (if pulls = [] then io_return (False, r)
      else io_bind (io_try is_transport_error (each_path (tr_pull_file T ToProject) pulls)) (\<lambda>res.
        if res = None then io_return (True, r)
        else io_return (False, r\<lparr>sr_pulled := sr_pulled r @ pulls\<rparr>)))"

definition needs_dir :: "classified_path list \<Rightarrow> bool" where
  "needs_dir to_apply = list_ex (\<lambda>p. cp_action p \<in> {PULL, DELETE_LOCAL, ABORT_CONFLICT}) to_apply"

definition finish_sync ::
  "sync_args \<Rightarrow> baseline_store \<Rightarrow> manifest \<Rightarrow> manifest \<Rightarrow> classified_path list \<Rightarrow> sync_result
   \<Rightarrow> (sync_result \<times> baseline_store) io" where
  "finish_sync a base lm rm to_apply r =
     (let r' = r\<lparr>sr_exit_code := (if sr_conflicts r \<noteq> [] then EXIT_CONFLICT else EXIT_OK)\<rparr>
      in if sa_direction a = ''both'' \<and> sr_conflicts r = [] then
           (if converged_defined lm rm to_apply then io_return (r', Some (converged lm rm to_apply))
            else io_raise (KeyError ''path''))
         else io_return (r', base))"

definition apply_sync ::
  "transport \<Rightarrow> sync_args \<Rightarrow> baseline_store \<Rightarrow> manifest \<Rightarrow> manifest \<Rightarrow> classified_path list \<Rightarrow> sync_result
   \<Rightarrow> (sync_result \<times> baseline_store) io" where
  "apply_sync T a base lm rm to_apply r =
     (let has_dir = needs_dir to_apply;
          abort = (\<lambda>r. io_return (r\<lparr>sr_exit_code := EXIT_TRANSFER\<rparr>, base))
      in io_bind (sync_items T a has_dir rm to_apply (r\<lparr>sr_backup_dir := has_dir\<rparr>)) (\<lambda>(cut1, r1).
           if cut1 then abort r1
           else io_bind (sync_pulls T (paths_with PULL to_apply) r1) (\<lambda>(cut2, r2).
             if cut2 then abort r2
             else io_bind (sync_pushes T a lm rm (paths_with PUSH to_apply) r2) (\<lambda>(cut3, r3, rm').
               if cut3 then abort r3
               else finish_sync a base lm rm' to_apply r3))))"

text \<open>The plan of a sync, or the exit code of the vanished-local guard.\<close>

definition plan_sync ::
  "sync_args \<Rightarrow> string \<Rightarrow> baseline_store \<Rightarrow> manifest \<Rightarrow> manifest \<Rightarrow> (int + bool \<times> classified_path list) io" where
  "plan_sync a authority base lm rm =
     (case (if sa_direction a = ''both'' then base else None) of
        Some (prev_l, prev_r) \<Rightarrow>
          io_bind local_root_exists (\<lambda>ex.
            if prev_l \<noteq> [] \<and> lm = [] \<and> \<not> ex then io_return (Inl EXIT_INFRA)
            else io_return (Inr (True, paths (compare_manifests lm rm (Some prev_l) (Some prev_r)))))
      | None \<Rightarrow> io_return (Inr (False, classify_sync lm rm authority)))"

definition sync_authority :: "string \<Rightarrow> string \<Rightarrow> string" where
  "sync_authority direction authority =
     (if direction = ''pull'' then ''remote'' else if direction = ''push'' then ''local'' else authority)"

definition sync_trees ::
  "transport \<Rightarrow> sync_args \<Rightarrow> baseline_store \<Rightarrow> sync_result \<Rightarrow> (sync_result \<times> baseline_store) io" where
  "sync_trees T a base r =
     (let exit = (\<lambda>r code. io_return (r\<lparr>sr_exit_code := code\<rparr>, base))
      in io_bind (build_manifest_local (sa_walk a)) (\<lambda>lm.
         io_bind (io_try is_transport_error (tr_manifest T (sa_walk a))) (\<lambda>got.
           (case got of
              None \<Rightarrow> exit r EXIT_TRANSFER
            | Some rm \<Rightarrow>
                (let r1 = r\<lparr>sr_remote_files := length rm, sr_remote_paths := dict_keys rm\<rparr>
                 in io_bind (plan_sync a (sr_authority r) base lm rm) (\<lambda>planned.
                      (case planned of
                         Inl code \<Rightarrow> exit r1 code
                       | Inr (used, classified) \<Rightarrow>
                           (let (to_apply, skipped) = filter_actions classified (sa_direction a);
                                r2 = r1\<lparr>sr_used_baseline := used, sr_skipped := map cp_path skipped\<rparr>
                            in if sync_collisions a lm rm to_apply \<noteq> [] then exit r2 EXIT_CONFLICT
                               else if sa_dry_run a then exit r2 EXIT_OK
                               else apply_sync T a base lm rm to_apply r2))))))))"

definition run_sync_result ::
  "transport \<Rightarrow> sync_args \<Rightarrow> baseline_store \<Rightarrow> (sync_result \<times> baseline_store) io" where
  "run_sync_result T a base =
     (let exit = (\<lambda>r code. io_return (r\<lparr>sr_exit_code := code\<rparr>, base))
      in if sa_direction a \<notin> set DIRECTIONS \<or> \<not> sa_device_known a then exit empty_sync_result EXIT_INTERNAL
         else (case sa_mapping a of
             Inl e \<Rightarrow> exit empty_sync_result EXIT_INTERNAL
           | Inr m \<Rightarrow>
               (let r = empty_sync_result\<lparr>sr_authority := sync_authority (sa_direction a) (sm_authority m)\<rparr>
                in if \<not> sa_reachable a then exit r EXIT_INFRA
                   else io_bind (if sa_direction a \<noteq> ''push'' then sync_root_missing T else io_return False)
                     (\<lambda>missing. if missing then exit r EXIT_INFRA else sync_trees T a base r))))"

definition run_sync :: "transport \<Rightarrow> sync_args \<Rightarrow> baseline_store \<Rightarrow> (int \<times> baseline_store) io" where
  "run_sync T a base =
     io_bind (run_sync_result T a base) (\<lambda>(r, base'). io_return (sr_exit_code r, base'))"

end
