(* ===== verification/SyncSafety.thy ===== *)
theory SyncSafety
  imports Sync
begin

text \<open>
  Safety of the folder sync: a dry run changes nothing, a one-way sync writes one side only,
  and no local file is lost.  The general lemmas are in the locale \<open>file_transport\<close>.
\<close>

section \<open>Effects of a sync\<close>

definition sync_effects :: "classified_path \<Rightarrow> effect set" where
  "sync_effects i =
     (case cp_action i of
        PULL \<Rightarrow> {SaveBackup (cp_path i), PullInto (cp_path i)}
      | PUSH \<Rightarrow> {PushOut (cp_path i), MakeRemoteRoot}
      | DELETE_REMOTE \<Rightarrow> {RemoveRemote (cp_path i)}
      | DELETE_LOCAL \<Rightarrow> {SaveBackup (cp_path i), RemoveLocal (cp_path i)}
      | ABORT_CONFLICT \<Rightarrow> {SaveConflict (cp_path i)}
      | NONE \<Rightarrow> {})"

text \<open>The first pass leaves the transfers out.\<close>

definition first_pass_effects :: "classified_path \<Rightarrow> effect set" where
  "first_pass_effects i = sync_effects i - range PullInto - range PushOut - {MakeRemoteRoot}"

lemma confined_snapshot [confinement]: "SaveBackup p \<in> E \<Longrightarrow> confined E (snapshot_local b n p)"
  by (simp add: snapshot_local_def confined_backup_local)

lemma confined_build_manifest_local [confinement]: "confined E (build_manifest_local c)"
  unfolding build_manifest_local_def by (rule confined_read)

lemma confined_each_path:
  "(\<And>p. p \<in> set ps \<Longrightarrow> confined E (f p)) \<Longrightarrow> confined E (each_path f ps)"
  by (induction ps) (simp_all add: confined_bind)

lemma confined_prod [confinement]: "(\<And>x y. z = (x, y) \<Longrightarrow> confined E (f x y)) \<Longrightarrow> confined E (case z of (x, y) \<Rightarrow> f x y)"
  by (cases z) simp

lemma paths_with_iff: "p \<in> set (paths_with act items) \<longleftrightarrow> (\<exists>i \<in> set items. cp_action i = act \<and> cp_path i = p)"
  by (auto simp: paths_with_def)

lemma plan_sync_confined: "confined E (plan_sync a auth base lm rm)"
  unfolding plan_sync_def by (intro confinement)

lemma finish_sync_confined: "confined E (finish_sync a base lm rm to_apply r)"
  unfolding finish_sync_def Let_def by (intro confinement)

context file_transport
begin

lemma sync_item_confined:
  assumes "first_pass_effects i \<subseteq> E"
  shows "confined E (sync_item T a has_dir rm i r)"
  using assms unfolding sync_item_def first_pass_effects_def sync_effects_def
  by (cases "cp_action i"; simp) (auto intro!: confinement transport_confined)

lemma sync_items_confined:
  assumes "\<And>i. i \<in> set items \<Longrightarrow> first_pass_effects i \<subseteq> E"
  shows "confined E (sync_items T a has_dir rm items r)"
  using assms
proof (induction items arbitrary: r)
  case (Cons i items)
  have "confined E (case res of None \<Rightarrow> io_return (True, r) | Some r' \<Rightarrow> sync_items T a has_dir rm items r')" for res
    using Cons by (cases res) simp_all
  moreover have "confined E (sync_item T a has_dir rm i r)"
    by (rule sync_item_confined) (simp add: Cons.prems)
  ultimately show ?case by (simp add: confined_bind confined_try)
qed simp

lemma sync_pulls_confined:
  assumes "\<And>p. p \<in> set pulls \<Longrightarrow> PullInto p \<in> E"
  shows "confined E (sync_pulls T pulls r)"
  unfolding sync_pulls_def using assms by (intro confinement confined_each_path transport_confined)

lemma sync_pushes_confined:
  assumes "\<And>p. p \<in> set pushes \<Longrightarrow> PushOut p \<in> E" and "pushes \<noteq> [] \<Longrightarrow> MakeRemoteRoot \<in> E"
  shows "confined E (sync_pushes T a lm rm pushes r)"
  unfolding sync_pushes_def verify_push_def
  using assms by (intro confinement confined_each_path transport_confined)

lemma apply_sync_confined:
  assumes "\<And>i. i \<in> set to_apply \<Longrightarrow> sync_effects i \<subseteq> E"
  shows "confined E (apply_sync T a base lm rm to_apply r)"
proof -
  have pull: "PullInto p \<in> E" if "p \<in> set (paths_with PULL to_apply)" for p
    using that assms by (force simp: paths_with_iff sync_effects_def)
  have push: "PushOut p \<in> E \<and> MakeRemoteRoot \<in> E" if "p \<in> set (paths_with PUSH to_apply)" for p
    using that assms by (force simp: paths_with_iff sync_effects_def)
  have make: "MakeRemoteRoot \<in> E" if "paths_with PUSH to_apply \<noteq> []"
    using push [OF hd_in_set [OF that]] by simp
  have first: "first_pass_effects i \<subseteq> E" if "i \<in> set to_apply" for i
    using assms [OF that] by (auto simp: first_pass_effects_def)
  show ?thesis
    unfolding apply_sync_def Let_def
    by (intro confinement sync_items_confined sync_pulls_confined sync_pushes_confined
          finish_sync_confined first)
       (auto dest: pull push make)
qed

lemma sync_trees_confined:
  assumes "\<And>i. \<lbrakk>cp_action i \<noteq> NONE; \<not> skipped_action (sa_direction a) (cp_action i); \<not> sa_dry_run a\<rbrakk>
    \<Longrightarrow> sync_effects i \<subseteq> E"
  shows "confined E (sync_trees T a base r)"
  unfolding sync_trees_def Let_def
  by (intro confinement transport_confined plan_sync_confined)
     (auto split: sum.split prod.split intro!: confinement apply_sync_confined
        dest!: assms [THEN subsetD, rotated 3] simp: filter_actions_def)

lemma run_sync_confined:
  assumes "\<And>i. \<lbrakk>cp_action i \<noteq> NONE; \<not> skipped_action (sa_direction a) (cp_action i); \<not> sa_dry_run a\<rbrakk>
    \<Longrightarrow> sync_effects i \<subseteq> E"
  shows "confined E (run_sync_result T a base)"
  unfolding run_sync_result_def Let_def sync_root_missing_def
  by (intro confinement)
     (auto split: sum.split intro!: confinement transport_confined sync_trees_confined dest: assms)

end

definition sample_sync :: "string \<Rightarrow> bool \<Rightarrow> sync_args" where
  "sample_sync direction dry =
     \<lparr>sa_config = sample_config, sa_direction = direction, sa_device_known = True,
      sa_mapping = Inr \<lparr>sm_local_root = ''/l'', sm_remote_base = ''/r'', sm_remote_sub = [],
        sm_tree = ''t'', sm_authority = ''remote''\<rparr>,
      sa_reachable = True, sa_dry_run = dry, sa_local_ci = False, sa_remote_ci = False,
      sa_fold_key = (\<lambda>s. s), sa_backup_below = 0\<rparr>"

text \<open>
  a dry run changes nothing.  However it ends, both trees, the backup store and the
  conflict store are what external events made of them.
\<close>

theorem run_sync_dry_run_pure:
  assumes "sa_dry_run a"
  shows "world_drift w (snd (run_sync_result local_sim a base w))"
  using sim.run_sync_confined [of a "{}" base] assms by (simp add: confined_def world_steps_drift)

theorem run_sync_dry_run_pure_witness:
  "let w = sample_world [(''a'', sample_file 1 ''h1'')] [(''a'', sample_file 2 ''h2'')]
   in sa_dry_run (sample_sync ''both'' True)
      \<and> world_drift w (snd (run_sync_result local_sim (sample_sync ''both'' True) None w))"
proof -
  have "sa_dry_run (sample_sync ''both'' True)" by (simp add: sample_sync_def)
  with run_sync_dry_run_pure [OF this] show ?thesis by (simp add: Let_def)
qed

text \<open>
  a one-way sync writes one side only.  A sync with direction \<open>pull\<close> never writes the
  remote tree, and a sync with direction \<open>push\<close> never writes the local tree.
\<close>

theorem run_sync_one_way:
  "(sa_direction a = ''pull'' \<longrightarrow> remote_drift w (snd (run_sync_result local_sim a base w)))
 \<and> (sa_direction a = ''push'' \<longrightarrow> local_drift w (snd (run_sync_result local_sim a base w)))"
proof (intro conjI impI)
  assume d: "sa_direction a = ''pull''"
  have "confined inward (run_sync_result local_sim a base)"
    by (rule sim.run_sync_confined)
       (auto simp: d filter_actions_def skipped_action_def sync_effects_def inward_def split: action.splits)
  then show "remote_drift w (snd (run_sync_result local_sim a base w))"
    by (auto simp: confined_def inward_def intro!: world_steps_remote_drift)
next
  assume d: "sa_direction a = ''push''"
  have "confined (outward \<union> range SaveConflict) (run_sync_result local_sim a base)"
    by (rule sim.run_sync_confined)
       (auto simp: d filter_actions_def skipped_action_def sync_effects_def outward_def split: action.splits)
  then show "local_drift w (snd (run_sync_result local_sim a base w))"
    by (auto simp: confined_def outward_def intro!: world_steps_local_drift)
qed

theorem run_sync_one_way_witness:
  "let w = sample_world [(''a'', sample_file 1 ''h1'')] [(''a'', sample_file 2 ''h2'')]
   in sa_direction (sample_sync ''pull'' False) = ''pull''
      \<and> remote_drift w (snd (run_sync_result local_sim (sample_sync ''pull'' False) None w))"
proof -
  have "sa_direction (sample_sync ''pull'' False) = ''pull''" by (simp add: sample_sync_def)
  with run_sync_one_way [of "sample_sync ''pull'' False"] show ?thesis by (simp add: Let_def)
qed

section \<open>No local file is lost\<close>

lemma classify_sync_path_path: "classify_sync_path auth p le re = Some i \<Longrightarrow> cp_path i = p"
  by (cases "(auth, p, le, re)" rule: classify_sync_path.cases) (auto split: if_splits)

lemma classify_sync_path_None: "classify_sync_path auth p le re = None \<longleftrightarrow> le = None \<and> re = None"
  by (cases "(auth, p, le, re)" rule: classify_sync_path.cases) auto

lemma classify_sync_paths: "map cp_path (classify_sync l r auth) = sorted_paths l r"
  unfolding classify_sync_def
proof (rule map_filter_total_paths)
  fix p
  assume "p \<in> set (sorted_paths l r)"
  then have "classify_sync_path auth p (dict_get l p) (dict_get r p) \<noteq> None"
    by (auto simp: classify_sync_path_None sorted_simps)
  then show "\<exists>i. classify_sync_path auth p (dict_get l p) (dict_get r p) = Some i \<and> cp_path i = p"
    by (auto dest: classify_sync_path_path)
qed

lemma plan_sync_yields:
  "yields (plan_sync a auth base lm rm) (\<lambda>x. \<forall>used cls. x = Inr (used, cls) \<longrightarrow>
     cls = classify_sync lm rm auth
     \<or> (\<exists>pl pr. base = Some (pl, pr) \<and> cls = paths (compare_manifests lm rm (Some pl) (Some pr))))"
  unfolding plan_sync_def
  by (cases base) (auto split: option.split prod.split intro!: yields_intros)

lemma plan_sync_distinct:
  "yields (plan_sync a auth base lm rm) (\<lambda>x. \<forall>used cls. x = Inr (used, cls) \<longrightarrow> distinct (map cp_path cls))"
  by (rule yields_mono [OF plan_sync_yields])
     (auto simp: plan_paths classify_sync_paths)

lemma triple_prod: "(\<And>x y. z = (x, y) \<Longrightarrow> io_triple P (f x y) Q X) \<Longrightarrow> io_triple P (case z of (x, y) \<Rightarrow> f x y) Q X"
  by (cases z) simp

lemma snapshot_triple:
  "has_dir \<Longrightarrow> io_triple (held p f) (snapshot_local has_dir cap p) (\<lambda>_. copied cap p f) (safe cap p f)"
  by (simp add: snapshot_local_def backup_local_triple)

text \<open>What holds of a file between the first pass and the transfers.\<close>

definition staged :: "bool \<Rightarrow> int \<Rightarrow> path \<Rightarrow> disk_file \<Rightarrow> world \<Rightarrow> bool" where
  "staged pulled cap p f w \<longleftrightarrow> (if pulled then copied cap p f w else safe cap p f w)"

lemma staged_simps: "staged True cap p f = copied cap p f" "staged False cap p f = safe cap p f"
  by (simp_all add: staged_def [abs_def])

lemma staged_safe: "staged b cap p f w \<Longrightarrow> safe cap p f w"
  by (simp add: staged_def copied_safe split: if_splits)

lemma first_pass_elsewhere:
  assumes "cp_path i \<noteq> p"
  shows "PullInto p \<notin> first_pass_effects i" "RemoveLocal p \<notin> first_pass_effects i"
    "SaveBackup p \<notin> first_pass_effects i"
  using assms by (auto simp: first_pass_effects_def sync_effects_def split: action.splits)

lemma staged_step:
  assumes "world_step E w w'" and "PullInto p \<notin> E" "RemoveLocal p \<notin> E" "SaveBackup p \<notin> E"
    and "staged b cap p f w"
  shows "staged b cap p f w'"
  using assms by (auto simp: staged_def intro: safe_step copied_step split: if_splits)

context file_transport
begin

lemma sync_item_elsewhere:
  assumes "cp_path i \<noteq> p"
  shows "io_triple (held p f) (sync_item T a has_dir rm i r) (\<lambda>_. held p f) (safe cap p f)"
    and "io_triple (staged b cap p f) (sync_item T a has_dir rm i r) (\<lambda>_. staged b cap p f) (safe cap p f)"
proof -
  note e = first_pass_elsewhere [OF assms]
  show "io_triple (held p f) (sync_item T a has_dir rm i r) (\<lambda>_. held p f) (safe cap p f)"
    by (rule triple_post [OF triple_confined [OF sync_item_confined [OF order_refl]]])
       (auto intro: held_step [OF _ e(1,2)] held_safe)
  show "io_triple (staged b cap p f) (sync_item T a has_dir rm i r) (\<lambda>_. staged b cap p f) (safe cap p f)"
    by (rule triple_post [OF triple_confined [OF sync_item_confined [OF order_refl]]])
       (auto intro: staged_step [OF _ e] staged_safe)
qed

lemma sync_item_at_path:
  assumes "cp_path i = p" and "cp_action i \<in> {PULL, DELETE_LOCAL} \<longrightarrow> has_dir"
  shows "io_triple (held p f) (sync_item T a has_dir rm i r)
    (\<lambda>_. staged (cp_action i = PULL) (sa_backup_below a) p f) (safe (sa_backup_below a) p f)"
proof (cases "cp_action i = PULL \<or> cp_action i = DELETE_LOCAL")
  case True
  with assms have h: "has_dir" by auto
  have u: "io_triple (copied (sa_backup_below a) p f) (unlink_local p)
      (\<lambda>_. safe (sa_backup_below a) p f) (safe (sa_backup_below a) p f)"
    by (rule triple_copied [OF confined_unlink_local [where E = "{RemoveLocal p}"]]) simp_all
  show ?thesis
  proof (cases "cp_action i = PULL")
    case True
    then show ?thesis
      unfolding sync_item_def assms(1)
      by simp (rule triple_bind [OF snapshot_triple [OF h]], rule triple_return, simp add: staged_def)
  next
    case False
    with True have "cp_action i = DELETE_LOCAL" by simp
    then show ?thesis
      unfolding sync_item_def assms(1)
      by simp (rule triple_bind [OF snapshot_triple [OF h]], rule triple_bind [OF u], rule triple_return,
          simp add: staged_def)
  qed
next
  case False
  then have e: "PullInto p \<notin> first_pass_effects i" "RemoveLocal p \<notin> first_pass_effects i"
    by (auto simp: first_pass_effects_def sync_effects_def split: action.splits)
  from False show ?thesis
    by (intro triple_post [OF triple_confined [OF sync_item_confined [OF order_refl]]])
       (auto intro: held_step [OF _ e] held_safe simp: staged_def)
qed

lemma sync_items_elsewhere:
  assumes "p \<notin> set (map cp_path items)"
  shows "io_triple (staged b cap p f) (sync_items T a has_dir rm items r)
    (\<lambda>z w. if fst z then safe cap p f w else staged b cap p f w) (safe cap p f)"
  using assms
proof (induction items arbitrary: r)
  case Nil
  then show ?case by (simp add: triple_return)
next
  case (Cons i items)
  show ?case
    unfolding sync_items.simps
  proof (rule triple_bind [OF triple_try [OF sync_item_elsewhere(2)]])
    show "cp_path i \<noteq> p" using Cons.prems by auto
    show "io_triple (\<lambda>w. case res of None \<Rightarrow> safe cap p f w | Some _ \<Rightarrow> staged b cap p f w)
        (case res of None \<Rightarrow> io_return (True, r) | Some r' \<Rightarrow> sync_items T a has_dir rm items r')
        (\<lambda>z w. if fst z then safe cap p f w else staged b cap p f w) (safe cap p f)" for res
      using Cons by (cases res) (simp_all add: triple_return)
  qed
qed

lemma sync_items_triple:
  assumes "distinct (map cp_path items)"
    and "\<And>i. i \<in> set items \<Longrightarrow> cp_action i \<in> {PULL, DELETE_LOCAL} \<Longrightarrow> has_dir"
  shows "io_triple (held p f) (sync_items T a has_dir rm items r)
    (\<lambda>z w. if fst z then safe (sa_backup_below a) p f w
       else staged (p \<in> set (paths_with PULL items)) (sa_backup_below a) p f w) (safe (sa_backup_below a) p f)"
  using assms
proof (induction items arbitrary: r)
  case Nil
  then show ?case by (simp add: triple_return staged_def held_safe paths_with_def)
next
  case (Cons i items)
  let ?S = "safe (sa_backup_below a) p f" and ?K = "\<lambda>b. staged b (sa_backup_below a) p f"
  show ?case
  proof (cases "cp_path i = p")
    case True
    with Cons.prems have ni: "p \<notin> set (map cp_path items)" by auto
    with True have "cp_action i = PULL \<longleftrightarrow> p \<in> set (paths_with PULL (i # items))"
      unfolding paths_with_iff by (auto simp: image_iff)
    with ni have rest: "io_triple (\<lambda>w. case res of None \<Rightarrow> ?S w | Some _ \<Rightarrow> ?K (cp_action i = PULL) w)
        (case res of None \<Rightarrow> io_return (True, r) | Some r' \<Rightarrow> sync_items T a has_dir rm items r')
        (\<lambda>z w. if fst z then ?S w else ?K (p \<in> set (paths_with PULL (i # items))) w) ?S" for res
      using sync_items_elsewhere by (cases res) (simp_all add: triple_return)
    show ?thesis
      unfolding sync_items.simps
      by (rule triple_bind [OF triple_try [OF sync_item_at_path [OF True]] rest]) (use Cons.prems in auto)
  next
    case False
    then have eq: "p \<in> set (paths_with PULL (i # items)) \<longleftrightarrow> p \<in> set (paths_with PULL items)"
      by (auto simp: paths_with_iff)
    have tail: "io_triple (held p f) (sync_items T a has_dir rm items r')
        (\<lambda>z w. if fst z then ?S w else ?K (p \<in> set (paths_with PULL items)) w) ?S" for r'
      using Cons.prems by (intro Cons.IH) auto
    have rest: "io_triple (\<lambda>w. case res of None \<Rightarrow> ?S w | Some _ \<Rightarrow> held p f w)
        (case res of None \<Rightarrow> io_return (True, r) | Some r' \<Rightarrow> sync_items T a has_dir rm items r')
        (\<lambda>z w. if fst z then ?S w else ?K (p \<in> set (paths_with PULL (i # items))) w) ?S" for res
      unfolding eq using tail by (cases res) (simp_all add: triple_return del: if_split)
    show ?thesis
      unfolding sync_items.simps
      by (rule triple_bind [OF triple_try [OF sync_item_elsewhere(1) [OF False]] rest])
  qed
qed

lemma sync_pulls_triple:
  "io_triple (staged (p \<in> set pulls) cap p f) (sync_pulls T pulls r) (\<lambda>_. safe cap p f) (safe cap p f)"
proof -
  have c: "confined (PullInto ` set pulls) (sync_pulls T pulls r)" by (rule sync_pulls_confined) simp
  show ?thesis
  proof (cases "p \<in> set pulls")
    case True
    then show ?thesis using triple_copied [OF c] by (simp add: staged_simps image_iff)
  next
    case False
    have "io_triple (safe cap p f) (sync_pulls T pulls r) (\<lambda>_. safe cap p f) (safe cap p f)"
      by (rule triple_confined [OF c]) (rule safe_step, use False in auto)
    with False show ?thesis by (simp add: staged_simps)
  qed
qed

lemma sync_pushes_triple:
  "io_triple (safe cap p f) (sync_pushes T a lm rm pushes r) (\<lambda>_. safe cap p f) (safe cap p f)"
  by (rule triple_confined [OF sync_pushes_confined [of pushes outward]])
     (auto simp: outward_def intro: safe_step)

lemma apply_sync_triple:
  assumes "distinct (map cp_path to_apply)"
  shows "io_triple (held p f) (apply_sync T a base lm rm to_apply r)
    (\<lambda>_. safe (sa_backup_below a) p f) (safe (sa_backup_below a) p f)"
proof -
  let ?S = "safe (sa_backup_below a) p f"
  have d: "needs_dir to_apply" if "i \<in> set to_apply" and "cp_action i \<in> {PULL, DELETE_LOCAL}" for i
    using that by (auto simp: needs_dir_def list_ex_iff)
  have 3: "io_triple ?S (io_bind (sync_pushes T a lm rm (paths_with PUSH to_apply) r2) (\<lambda>(cut3, r3, rm').
               if cut3 then io_return (r3\<lparr>sr_exit_code := EXIT_TRANSFER\<rparr>, base)
               else finish_sync a base lm rm' to_apply r3)) (\<lambda>_. ?S) ?S" for r2
    by (rule triple_bind [OF sync_pushes_triple]) (auto split: prod.split intro!: triple_if triple_return triple_safe finish_sync_confined)
  have 2: "io_triple (staged (p \<in> set (paths_with PULL to_apply)) (sa_backup_below a) p f)
      (io_bind (sync_pulls T (paths_with PULL to_apply) r1) (\<lambda>(cut2, r2).
             if cut2 then io_return (r2\<lparr>sr_exit_code := EXIT_TRANSFER\<rparr>, base)
             else io_bind (sync_pushes T a lm rm (paths_with PUSH to_apply) r2) (\<lambda>(cut3, r3, rm').
               if cut3 then io_return (r3\<lparr>sr_exit_code := EXIT_TRANSFER\<rparr>, base)
               else finish_sync a base lm rm' to_apply r3))) (\<lambda>_. ?S) ?S" for r1
    by (rule triple_bind [OF sync_pulls_triple]) (auto split: prod.split intro!: triple_return 3)
  show ?thesis
    unfolding apply_sync_def Let_def
    by (rule triple_bind [OF sync_items_triple [OF assms d]])
       (auto split: prod.split intro!: triple_return 2)
qed

lemma filter_actions_distinct: "distinct (map cp_path cls) \<Longrightarrow> distinct (map cp_path (fst (filter_actions cls d)))"
  by (simp add: filter_actions_def distinct_map_filter)

lemma sync_trees_triple:
  "io_triple (held p f) (sync_trees T a base r)
    (\<lambda>_. safe (sa_backup_below a) p f) (safe (sa_backup_below a) p f)"
proof -
  have plan: "io_triple (held p f) (io_bind (plan_sync a auth base lm rm) (\<lambda>planned.
        (case planned of
           Inl code \<Rightarrow> io_return (r1\<lparr>sr_exit_code := code\<rparr>, base)
         | Inr (used, classified) \<Rightarrow>
             (let (to_apply, skipped) = filter_actions classified (sa_direction a);
                  r2 = r1\<lparr>sr_used_baseline := used, sr_skipped := map cp_path skipped\<rparr>
              in if sync_collisions a lm rm to_apply \<noteq> [] then io_return (r2\<lparr>sr_exit_code := EXIT_CONFLICT\<rparr>, base)
                 else if sa_dry_run a then io_return (r2\<lparr>sr_exit_code := EXIT_OK\<rparr>, base)
                 else apply_sync T a base lm rm to_apply r2))))
      (\<lambda>_. safe (sa_backup_below a) p f) (safe (sa_backup_below a) p f)" for auth lm rm r1
  proof (rule triple_bind_yields [OF triple_held [OF plan_sync_confined] plan_sync_distinct])
    fix planned :: "int + bool \<times> classified_path list"
    assume d: "\<forall>used cls. planned = Inr (used, cls) \<longrightarrow> distinct (map cp_path cls)"
    show "io_triple (held p f) (case planned of
           Inl code \<Rightarrow> io_return (r1\<lparr>sr_exit_code := code\<rparr>, base)
         | Inr (used, classified) \<Rightarrow>
             (let (to_apply, skipped) = filter_actions classified (sa_direction a);
                  r2 = r1\<lparr>sr_used_baseline := used, sr_skipped := map cp_path skipped\<rparr>
              in if sync_collisions a lm rm to_apply \<noteq> [] then io_return (r2\<lparr>sr_exit_code := EXIT_CONFLICT\<rparr>, base)
                 else if sa_dry_run a then io_return (r2\<lparr>sr_exit_code := EXIT_OK\<rparr>, base)
                 else apply_sync T a base lm rm to_apply r2))
      (\<lambda>_. safe (sa_backup_below a) p f) (safe (sa_backup_below a) p f)"
    proof (cases planned)
      case (Inr z)
      then obtain used cls where z: "planned = Inr (used, cls)" by (cases z) auto
      obtain ta sk where fa: "filter_actions cls (sa_direction a) = (ta, sk)" by fastforce
      with d z have "distinct (map cp_path ta)" using filter_actions_distinct [of cls "sa_direction a"] by simp
      then show ?thesis
        unfolding z sum.case prod.case fa Let_def by (intro triple_if triple_done apply_sync_triple)
    qed (simp add: triple_done)
  qed
  show ?thesis
    unfolding sync_trees_def Let_def
    by (intro triple_bind [OF triple_held] confinement transport_confined)
       (auto split: option.split intro!: triple_done plan [unfolded Let_def])
qed

lemma run_sync_triple:
  "io_triple (held p f) (run_sync_result T a base)
    (\<lambda>_. safe (sa_backup_below a) p f) (safe (sa_backup_below a) p f)"
proof -
  have "io_triple (held p f) (io_bind (if sa_direction a \<noteq> ''push'' then sync_root_missing T else io_return False)
       (\<lambda>missing. if missing then io_return (r\<lparr>sr_exit_code := EXIT_INFRA\<rparr>, base) else sync_trees T a base r))
      (\<lambda>_. safe (sa_backup_below a) p f) (safe (sa_backup_below a) p f)" for r
    unfolding sync_root_missing_def
    by (intro triple_bind [OF triple_held] confinement transport_confined)
       (auto intro!: triple_if triple_done sync_trees_triple)
  then show ?thesis
    unfolding run_sync_result_def Let_def by (auto split: sum.split intro!: triple_if triple_done)
qed

end



end
