(* ===== verification/SyncConverge.thy ===== *)
theory SyncConverge
  imports SyncSafety
begin

text \<open>
  Convergence of the folder sync.  A baseline is good when its two manifests name the same
  paths with the same content; a sync in a world without external writers keeps the stored
  baseline good on every return, and a good baseline plans no further work.  With an external
  writer this fails: a remote edit that lands between planning and the verification of a push
  is recorded in the baseline as if it had been synced.
\<close>

section \<open>Good baselines\<close>

definition hashed :: "manifest \<Rightarrow> bool" where
  "hashed m \<longleftrightarrow> (\<forall>p e. dict_get m p = Some e \<longrightarrow> fe_sha256 e \<noteq> None)"

definition in_sync :: "manifest \<Rightarrow> manifest \<Rightarrow> bool" where
  "in_sync l r \<longleftrightarrow> (\<forall>p. rel_option same_content (dict_get l p) (dict_get r p))"

definition good_baseline :: "baseline_store \<Rightarrow> bool" where
  "good_baseline base \<longleftrightarrow> (case base of None \<Rightarrow> True | Some (l, r) \<Rightarrow> hashed l \<and> hashed r \<and> in_sync l r)"

lemma same_content_refl: "fe_sha256 e \<noteq> None \<Longrightarrow> same_content e e"
  by (simp add: same_content_def)

lemma same_content_chain:
  assumes "same_content a b" and "entries_same (Some a) (Some a')" and "entries_same (Some b) (Some b')"
    and "fe_sha256 a' \<noteq> None" and "fe_sha256 b' \<noteq> None"
  shows "same_content a' b'"
  using assms by (auto simp: same_content_def entries_same.simps(4) split: if_splits)

lemma content_same_same: "entries_content_same (Some a) (Some b) \<Longrightarrow> same_content a b"
  by (simp add: entries_content_same.simps(1) same_content_def)

text \<open>The post-sync entries of one path, from the action planned for it.\<close>

definition after_action ::
  "action option \<Rightarrow> file_entry option \<Rightarrow> file_entry option \<Rightarrow> file_entry option \<times> file_entry option" where
  "after_action act le re =
     (case act of
        Some PULL \<Rightarrow> (case re of None \<Rightarrow> (le, re) | Some e \<Rightarrow> (Some e, re))
      | Some PUSH \<Rightarrow> (case le of None \<Rightarrow> (le, re) | Some e \<Rightarrow> (le, Some e))
      | Some DELETE_LOCAL \<Rightarrow> (None, re)
      | Some DELETE_REMOTE \<Rightarrow> (le, None)
      | _ \<Rightarrow> (le, re))"

definition item_action :: "classified_path list \<Rightarrow> path \<Rightarrow> action option" where
  "item_action items p = map_option cp_action (find (\<lambda>i. cp_path i = p) items)"

definition pair_at :: "manifest \<times> manifest \<Rightarrow> path \<Rightarrow> file_entry option \<times> file_entry option" where
  "pair_at after p = (dict_get (fst after) p, dict_get (snd after) p)"

lemma converged_item_other:
  "cp_path i \<noteq> p \<Longrightarrow> pair_at (converged_item lm rm i after) p = pair_at after p"
  by (cases after; cases "cp_action i")
     (auto simp: converged_item_def pair_at_def dict_simps split: option.splits)

lemma fold_converged_other:
  "p \<notin> set (map cp_path items) \<Longrightarrow> pair_at (fold (converged_item lm rm) items after) p = pair_at after p"
  by (induction items arbitrary: after) (auto simp: converged_item_other)

lemma converged_item_same:
  assumes "cp_path i = p" and "pair_at after p = (dict_get lm p, dict_get rm p)"
  shows "pair_at (converged_item lm rm i after) p
    = after_action (Some (cp_action i)) (dict_get lm p) (dict_get rm p)"
  using assms
  by (cases after; cases "cp_action i")
     (auto simp: converged_item_def pair_at_def dict_simps after_action_def split: option.splits)

lemma fold_converged_get:
  assumes "distinct (map cp_path items)" and "pair_at after p = (dict_get lm p, dict_get rm p)"
  shows "pair_at (fold (converged_item lm rm) items after) p
    = after_action (item_action items p) (dict_get lm p) (dict_get rm p)"
  using assms
proof (induction items arbitrary: after)
  case Nil
  then show ?case by (simp add: item_action_def after_action_def)
next
  case (Cons i items)
  show ?case
  proof (cases "cp_path i = p")
    case True
    with Cons.prems have "p \<notin> set (map cp_path items)" by auto
    with converged_item_same [OF True Cons.prems(2)] True show ?thesis
      by (simp add: fold_converged_other item_action_def)
  next
    case False
    with Cons.prems Cons.IH [of "converged_item lm rm i after"] show ?thesis
      by (simp add: converged_item_other item_action_def)
  qed
qed

lemma converged_get:
  assumes "distinct (map cp_path items)"
  shows "pair_at (converged lm rm items) p
    = after_action (item_action items p) (dict_get lm p) (dict_get rm p)"
  unfolding converged_def by (rule fold_converged_get [OF assms]) (simp add: pair_at_def)

lemma item_action_iff:
  assumes "distinct (map cp_path items)"
  shows "item_action items p = Some act \<longleftrightarrow> (\<exists>i \<in> set items. cp_path i = p \<and> cp_action i = act)"
  using assms by (induction items) (auto simp: item_action_def image_iff)

lemma item_action_filter:
  assumes "distinct (map cp_path cls)"
  shows "item_action (fst (filter_actions cls ''both'')) p
    = (if item_action cls p = Some NONE then None else item_action cls p)"
proof -
  let ?f = "fst (filter_actions cls ''both'')"
  have d: "distinct (map cp_path ?f)" by (simp add: filter_actions_def assms distinct_map_filter)
  have sub: "i \<in> set ?f \<longleftrightarrow> i \<in> set cls \<and> cp_action i \<noteq> NONE" for i
    by (auto simp: filter_actions_def skipped_action_def)
  have "item_action ?f p = Some act \<longleftrightarrow> item_action cls p = Some act \<and> act \<noteq> NONE" for act
    unfolding item_action_iff [OF d] item_action_iff [OF assms] by (auto simp: sub)
  then show ?thesis by (intro option_ext) (auto split: if_split)
qed

lemma item_action_decided:
  assumes "distinct (map cp_path items)" and mem: "\<And>i. i \<in> set items \<longleftrightarrow> g (cp_path i) = Some i"
    and path: "\<And>q i. g q = Some i \<Longrightarrow> cp_path i = q"
  shows "item_action items p = map_option cp_action (g p)"
proof (rule option_ext)
  show "item_action items p = Some act \<longleftrightarrow> map_option cp_action (g p) = Some act" for act
    unfolding item_action_iff [OF assms(1)] Bex_def mem map_option_eq_Some
    by (metis path)
qed

lemma after_action_NONE: "after_action (Some NONE) le re = after_action None le re"
  by (simp add: after_action_def)

text \<open>The action leaves the two entries of a path equal.\<close>

definition settles :: "action option \<Rightarrow> file_entry option \<Rightarrow> file_entry option \<Rightarrow> bool" where
  "settles act le re \<longleftrightarrow>
     (case after_action act le re of (l, r) \<Rightarrow> rel_option same_content l r)
     \<and> (act = Some PUSH \<longrightarrow> le \<noteq> None)"

lemma converged_good:
  assumes d: "distinct (map cp_path cls)" and h: "hashed lm" "hashed rm'"
    and s: "\<And>p. settles (item_action cls p) (dict_get lm p) (dict_get rm p)"
    and same: "\<And>p. item_action cls p \<notin> {Some PUSH, Some DELETE_REMOTE} \<Longrightarrow> dict_get rm' p = dict_get rm p"
  shows "good_baseline (Some (converged lm rm' (fst (filter_actions cls ''both''))))"
proof -
  let ?after = "converged lm rm' (fst (filter_actions cls ''both''))"
  have df: "distinct (map cp_path (fst (filter_actions cls ''both'')))"
    by (simp add: filter_actions_def d distinct_map_filter)
  have at: "pair_at ?after p = after_action (item_action cls p) (dict_get lm p) (dict_get rm' p)" for p
    unfolding converged_get [OF df] item_action_filter [OF d] by (simp add: after_action_NONE)
  have "rel_option same_content (fst (pair_at ?after p)) (snd (pair_at ?after p))" for p
    using s [of p] same [of p] unfolding at
    by (cases "item_action cls p \<in> {Some PUSH, Some DELETE_REMOTE}")
       (auto simp: settles_def after_action_def case_prod_unfold split: option.splits)
  then have "in_sync (fst ?after) (snd ?after)" by (simp add: in_sync_def pair_at_def)
  moreover have hh: "fe_sha256 e \<noteq> None" if "fst (pair_at ?after p) = Some e \<or> snd (pair_at ?after p) = Some e" for p e
    using that h unfolding at hashed_def
    by (auto simp: after_action_def split: option.splits action.splits)
  have "hashed (fst ?after)" "hashed (snd ?after)"
    unfolding hashed_def using hh by (auto simp: pair_at_def simp del: not_None_eq)
  ultimately show ?thesis by (simp add: good_baseline_def case_prod_unfold)
qed

lemma classify_sync_settles:
  assumes "hashed lm" and "hashed rm" and "\<forall>i \<in> set (classify_sync lm rm auth). cp_action i \<noteq> ABORT_CONFLICT"
  shows "settles (item_action (classify_sync lm rm auth) p) (dict_get lm p) (dict_get rm p)"
proof -
  have d: "distinct (map cp_path (classify_sync lm rm auth))" by (simp add: classify_sync_paths)
  have here: "p \<in> set (sorted_paths lm rm)" if "classify_sync_path auth p (dict_get lm p) (dict_get rm p) = Some i" for p i
    using that unfolding set_sorted_paths by (metis classify_sync_path_None option.distinct(1))
  have mem: "i \<in> set (classify_sync lm rm auth)
      \<longleftrightarrow> classify_sync_path auth (cp_path i) (dict_get lm (cp_path i)) (dict_get rm (cp_path i)) = Some i" for i
    unfolding classify_sync_def set_map_filter_iff using here [of "cp_path i" i]
    by (auto dest: classify_sync_path_path)
  have act: "item_action (classify_sync lm rm auth) p
      = map_option cp_action (classify_sync_path auth p (dict_get lm p) (dict_get rm p))"
    by (rule item_action_decided [OF d mem]) (rule classify_sync_path_path)
  have "?thesis" if "dict_get lm p = Some le" "dict_get rm p = Some re" for le re
  proof -
    have hs: "same_content le le" "same_content re re"
      using that assms(1,2) by (auto simp: hashed_def same_content_refl)
    have "same_content le re \<or> auth \<noteq> ''conflict''"
    proof (rule ccontr)
      let ?x = "ClassifiedPath p ''differs'' ABORT_CONFLICT ''differs; no authority (clocks not comparable)''"
      assume "\<not> (same_content le re \<or> auth \<noteq> ''conflict'')"
      then have "?x \<in> set (classify_sync lm rm auth)" unfolding mem by (simp add: that)
      with assms(3) show False by fastforce
    qed
    then show ?thesis
      unfolding act that by (auto simp: settles_def after_action_def hs split: if_splits)
  qed
  then show ?thesis
    using assms(1,2) unfolding act
    by (cases "dict_get lm p"; cases "dict_get rm p")
       (auto simp: settles_def after_action_def hashed_def same_content_refl)
qed

lemma compare_settles:
  assumes "hashed lm" and "hashed rm" and "good_baseline (Some (pl, pr))"
    and nc: "\<forall>i \<in> set (paths (compare_manifests lm rm (Some pl) (Some pr))). cp_action i \<noteq> ABORT_CONFLICT"
  shows "settles (item_action (paths (compare_manifests lm rm (Some pl) (Some pr))) p) (dict_get lm p) (dict_get rm p)"
proof -
  let ?cls = "paths (compare_manifests lm rm (Some pl) (Some pr))"
  have d: "distinct (map cp_path ?cls)" by (simp add: plan_paths)
  have act: "item_action ?cls p = planned_action lm rm (Some pl) (Some pr) p"
    unfolding planned_action_def
    by (rule item_action_decided [OF d plan_item_iff]) (simp add: decision_def cp_path_classify)
  have abort: "planned_action lm rm (Some pl) (Some pr) p \<noteq> Some ABORT_CONFLICT"
    using nc item_action_iff [OF d, of p ABORT_CONFLICT] unfolding act by auto
  have base: "rel_option same_content (dict_get pl p) (dict_get pr p)"
    using assms(3) by (simp add: good_baseline_def in_sync_def)
  have self: "same_content e e" if "dict_get lm p = Some e \<or> dict_get rm p = Some e" for e
    using that assms(1,2) by (auto simp: hashed_def same_content_refl)
  show ?thesis
  proof (cases "dict_get lm p"; cases "dict_get rm p")
    fix le re
    assume l: "dict_get lm p = Some le" and r: "dict_get rm p = Some re"
    have h: "fe_sha256 le \<noteq> None" "fe_sha256 re \<noteq> None" using assms(1,2) l r by (auto simp: hashed_def)
    show ?thesis
    proof (cases "changed_since (dict_get pl p) (Some le) \<or> changed_since (dict_get pr p) (Some re)")
      case True
      then show ?thesis
        using abort self l r unfolding act planned_action_both [OF l r]
        by (auto simp: settles_def after_action_def prev_get_def content_same_same split: if_splits)
    next
      case False
      then obtain a b where ab: "dict_get pl p = Some a" "dict_get pr p = Some b"
        "entries_same (Some a) (Some le)" "entries_same (Some b) (Some re)"
        by (cases "dict_get pl p"; cases "dict_get pr p") auto
      with base have "same_content le re" using same_content_chain [OF _ ab(3,4) h] by simp
      then show ?thesis
        unfolding act planned_action_both [OF l r] by (simp add: settles_def after_action_def prev_get_def False ab l r)
    qed
  qed (use abort self in \<open>auto simp: act planned_action_cases settles_def after_action_def split: if_splits\<close>)
qed

lemma good_baseline_no_work:
  assumes "good_baseline (Some (l, r))" and "i \<in> set (paths (compare_manifests l r (Some l) (Some r)))"
  shows "cp_action i = NONE"
proof -
  let ?p = "cp_path i"
  have rel: "rel_option same_content (dict_get l ?p) (dict_get r ?p)"
    using assms(1) by (simp add: good_baseline_def in_sync_def)
  have same: "entries_same (Some e) (Some e)" for e by (simp add: entries_same.simps(4))
  from rel plan_item_action [OF assms(2)] show ?thesis
    by (cases "dict_get l ?p"; cases "dict_get r ?p") (auto simp: planned_action_cases prev_get_def same)
qed

section \<open>A sync keeps the baseline good\<close>

text \<open>A world without external writers whose files can all be hashed; operations may fail.\<close>

definition small :: "disk \<Rightarrow> bool" where
  "small d \<longleftrightarrow> (\<forall>p f. dict_get d p = Some f \<longrightarrow> df_size f \<le> HASH_ALL)"

definition tidy :: "world \<Rightarrow> bool" where
  "tidy w \<longleftrightarrow> (\<forall>ev \<in> set (w_script w). ev_local ev = id \<and> ev_remote ev = id)
     \<and> small (w_local w) \<and> small (w_remote w)"

lemma tidy_settle: "tidy w \<Longrightarrow> tidy (snd (settle w)) \<and> w_remote (snd (settle w)) = w_remote w
    \<and> w_local (snd (settle w)) = w_local w"
  by (cases "w_script w") (simp_all add: tidy_def settle_def)

lemma tidy_step: "world_step E w w' \<Longrightarrow> tidy w \<Longrightarrow> tidy w'"
  by (induction rule: world_step.induct)
     (simp_all add: tidy_settle, auto simp: tidy_def small_def dict_simps split: if_splits)

lemma tidy_steps: "world_steps E w w' \<Longrightarrow> tidy w \<Longrightarrow> tidy w'"
  by (induction rule: rtranclp_induct) (auto intro: tidy_step)

lemma remote_root_step: "world_step E w w' \<Longrightarrow> w_remote_root w \<Longrightarrow> w_remote_root w'"
  by (induction rule: world_step.induct) (simp_all add: settle_fields)

lemma tidy_remote_step:
  assumes "world_step E w w'" and "PushOut p \<notin> E" and "RemoveRemote p \<notin> E" and "tidy w"
  shows "dict_get (w_remote w') p = dict_get (w_remote w) p"
  using assms by (induction rule: world_step.induct) (auto simp: tidy_settle dict_simps)

lemma tidy_remote_steps:
  assumes "world_steps E w w'" and "PushOut p \<notin> E" and "RemoveRemote p \<notin> E" and "tidy w"
  shows "dict_get (w_remote w') p = dict_get (w_remote w) p"
  using assms(1)
  by (induction rule: rtranclp_induct)
     (auto simp: tidy_remote_step [OF _ assms(2,3)] tidy_steps [OF _ assms(4)])

lemma disk_manifest_get:
  "dict_get (disk_manifest c d) p = (if path_visible c p then map_option (disk_entry c p) (dict_get d p) else None)"
  by (induction d) (auto simp: disk_manifest_def)

lemma hashed_disk_manifest: "small d \<Longrightarrow> hashed (disk_manifest (sa_walk a) d)"
  by (auto simp: hashed_def disk_manifest_get small_def disk_entry_def wants_hash_def sa_walk_def
      split: if_splits)

definition remote_view :: "sync_args \<Rightarrow> world \<Rightarrow> manifest" where
  "remote_view a w = (if w_remote_root w then disk_manifest (sa_walk a) (w_remote w) else [])"

lemma io_try_Some_iff: "io_try P m w = (Inr (Some x), w') \<longleftrightarrow> m w = (Inr x, w')"
  by (auto simp: io_try_def split: prod.splits sum.splits)

lemma sync_pushes_manifest:
  assumes "sync_pushes local_sim a lm rm pushes r w = (Inr (False, r', rm'), w')"
  shows "(rm' = rm \<and> w' = w \<or> rm' = remote_view a w') \<and> sr_conflicts r' = sr_conflicts r"
  using assms unfolding sync_pushes_def
  by (auto simp: io_run_simps io_try_Some_iff verify_push_def sim_manifest_def io_read_Inr_iff remote_view_def
      split: if_splits option.splits)

lemma sync_pulls_conflicts:
  "yields (sync_pulls T pulls r) (\<lambda>z. sr_conflicts (snd z) = sr_conflicts r)"
  unfolding sync_pulls_def by (intro yields_intros) simp_all

lemma sync_item_conflicts:
  "yields (sync_item T a has_dir rm i r) (\<lambda>r'. sr_conflicts r' = sr_conflicts r @ paths_with ABORT_CONFLICT [i])"
  unfolding sync_item_def
  by (cases "cp_action i"; simp) (intro conjI impI yields_intros; simp add: paths_with_def)+

lemma sync_items_conflicts:
  "yields (sync_items T a has_dir rm items r)
     (\<lambda>z. \<not> fst z \<longrightarrow> sr_conflicts (snd z) = sr_conflicts r @ paths_with ABORT_CONFLICT items)"
proof (induction items arbitrary: r)
  case Nil
  then show ?case by (simp add: yields_return paths_with_def)
next
  case (Cons i items)
  have "yields (case res of None \<Rightarrow> io_return (True, r) | Some r' \<Rightarrow> sync_items T a has_dir rm items r')
      (\<lambda>z. \<not> fst z \<longrightarrow> sr_conflicts (snd z) = sr_conflicts r @ paths_with ABORT_CONFLICT (i # items))"
    if "\<forall>r'. res = Some r' \<longrightarrow> sr_conflicts r' = sr_conflicts r @ paths_with ABORT_CONFLICT [i]" for res
  proof (cases res)
    case (Some r')
    then show ?thesis using that yields_mono [OF Cons.IH [of r']] by (simp add: paths_with_def)
  qed (simp add: yields_return)
  then show ?case by (simp add: yields_bind [OF yields_try [OF sync_item_conflicts]])
qed

lemma apply_sync_run:
  assumes "apply_sync T a base lm rm to_apply r w = (Inr (r', base'), w')" and "base' \<noteq> base"
  obtains r1 w1 r2 w2 r3 rm' where
    "sync_items T a (needs_dir to_apply) rm to_apply (r\<lparr>sr_backup_dir := needs_dir to_apply\<rparr>) w = (Inr (False, r1), w1)"
    "sync_pulls T (paths_with PULL to_apply) r1 w1 = (Inr (False, r2), w2)"
    "sync_pushes T a lm rm (paths_with PUSH to_apply) r2 w2 = (Inr (False, r3, rm'), w')"
    "base' = Some (converged lm rm' to_apply)" "sa_direction a = ''both''" "sr_conflicts r3 = []"
  using assms unfolding apply_sync_def Let_def
  by (auto simp: io_run_simps finish_sync_def Let_def split: prod.splits if_splits)

lemma apply_sync_good:
  assumes run: "apply_sync local_sim a base lm rm to_apply r w = (Inr (r', base'), w')"
    and good: "good_baseline base" and tidy: "tidy w" and root: "w_remote_root w"
    and rm: "rm = remote_view a w" and lm: "hashed lm" and start: "sr_conflicts r = []"
    and d: "distinct (map cp_path cls)" and ta: "to_apply = fst (filter_actions cls (sa_direction a))"
    and s: "\<And>p. \<forall>i \<in> set cls. cp_action i \<noteq> ABORT_CONFLICT \<Longrightarrow>
      settles (item_action cls p) (dict_get lm p) (dict_get rm p)"
  shows "good_baseline base'"
proof (cases "base' = base")
  case False
  obtain r1 w1 r2 w2 r3 rm' where
    1: "sync_items local_sim a (needs_dir to_apply) rm to_apply (r\<lparr>sr_backup_dir := needs_dir to_apply\<rparr>) w = (Inr (False, r1), w1)"
    and 2: "sync_pulls local_sim (paths_with PULL to_apply) r1 w1 = (Inr (False, r2), w2)"
    and 3: "sync_pushes local_sim a lm rm (paths_with PUSH to_apply) r2 w2 = (Inr (False, r3, rm'), w')"
    and b': "base' = Some (converged lm rm' to_apply)" and both: "sa_direction a = ''both''"
    and c3: "sr_conflicts r3 = []"
    by (rule apply_sync_run [OF run False])
  have "paths_with ABORT_CONFLICT to_apply = []"
    using yields_run [OF sync_items_conflicts 1] yields_run [OF sync_pulls_conflicts 2]
      sync_pushes_manifest [OF 3] c3 start by simp
  then have nc: "\<forall>i \<in> set cls. cp_action i \<noteq> ABORT_CONFLICT"
    by (auto simp: ta paths_with_def filter_actions_def skipped_action_def filter_empty_conv both)
  define E where "E = \<Union> (sync_effects ` set to_apply)"
  have steps: "world_steps E w w'"
    by (rule confined_run [OF sim.apply_sync_confined run]) (auto simp: E_def)
  have tidy': "tidy w'" and root': "w_remote_root w'"
    using tidy_steps [OF steps tidy] steps root
    by (auto elim!: rtranclp_induct intro: remote_root_step)
  have rm_rm': "rm' = rm \<or> rm' = remote_view a w'" using sync_pushes_manifest [OF 3] by blast
  then have h': "hashed rm'"
    using tidy tidy' root root' by (auto simp: rm remote_view_def tidy_def hashed_disk_manifest)
  have agree: "dict_get rm' p = dict_get rm p" if "item_action cls p \<notin> {Some PUSH, Some DELETE_REMOTE}" for p
  proof -
    have "i \<in> set to_apply \<Longrightarrow> cp_path i = p \<Longrightarrow> cp_action i \<notin> {PUSH, DELETE_REMOTE}" for i
      using that item_action_iff [OF d, of p] by (auto simp: ta filter_actions_def)
    then have "PushOut p \<notin> E" "RemoveRemote p \<notin> E"
      by (auto simp: E_def sync_effects_def split: action.splits)
    from tidy_remote_steps [OF steps this tidy] rm_rm' show ?thesis
      by (auto simp: rm remote_view_def root root' disk_manifest_get)
  qed
  show ?thesis
    unfolding b' ta both by (rule converged_good [OF d lm h' s [OF nc] agree])
qed (simp add: good)

lemma classified_settles:
  assumes "cls = classify_sync lm rm auth
     \<or> (\<exists>pl pr. base = Some (pl, pr) \<and> cls = paths (compare_manifests lm rm (Some pl) (Some pr)))"
    and "good_baseline base" and "hashed lm" and "hashed rm"
    and "\<forall>i \<in> set cls. cp_action i \<noteq> ABORT_CONFLICT"
  shows "settles (item_action cls p) (dict_get lm p) (dict_get rm p)"
  using assms classify_sync_settles compare_settles by blast

lemma sync_trees_good:
  assumes run: "sync_trees local_sim a base r w = (Inr (r', base'), w')"
    and good: "good_baseline base" and tidy: "tidy w" and root: "w_remote_root w" and start: "sr_conflicts r = []"
  shows "good_baseline base'"
proof -
  from run obtain lm w1 got w2 where 1: "build_manifest_local (sa_walk a) w = (Inr lm, w1)"
    and 2: "io_try is_transport_error (tr_manifest local_sim (sa_walk a)) w1 = (Inr got, w2)"
    and 3: "(case got of None \<Rightarrow> io_return (r\<lparr>sr_exit_code := EXIT_TRANSFER\<rparr>, base)
       | Some rm \<Rightarrow> io_bind (plan_sync a (sr_authority r) base lm rm) (\<lambda>planned.
           (case planned of
              Inl code \<Rightarrow> io_return (r\<lparr>sr_remote_files := length rm, sr_remote_paths := dict_keys rm, sr_exit_code := code\<rparr>, base)
            | Inr (used, classified) \<Rightarrow>
                (case filter_actions classified (sa_direction a) of (to_apply, skipped) \<Rightarrow>
                   if sync_collisions a lm rm to_apply \<noteq> [] then
                     io_return (r\<lparr>sr_remote_files := length rm, sr_remote_paths := dict_keys rm,
                       sr_used_baseline := used, sr_skipped := map cp_path skipped, sr_exit_code := EXIT_CONFLICT\<rparr>, base)
                   else if sa_dry_run a then
                     io_return (r\<lparr>sr_remote_files := length rm, sr_remote_paths := dict_keys rm,
                       sr_used_baseline := used, sr_skipped := map cp_path skipped, sr_exit_code := EXIT_OK\<rparr>, base)
                   else apply_sync local_sim a base lm rm to_apply
                     (r\<lparr>sr_remote_files := length rm, sr_remote_paths := dict_keys rm,
                       sr_used_baseline := used, sr_skipped := map cp_path skipped\<rparr>))))) w2 = (Inr (r', base'), w')"
    unfolding sync_trees_def Let_def io_bind_Inr_iff by blast
  have lm: "hashed lm" and t1: "tidy w1" "w_remote_root w1"
    using 1 tidy tidy_settle [OF tidy] root
    by (auto simp: build_manifest_local_def io_read_Inr_iff settle_fields tidy_def hashed_disk_manifest, simp add: hashed_def)
  show ?thesis
  proof (cases got)
    case (Some rm)
    with 2 have w2: "w2 = snd (settle w1)" and rm: "rm = remote_view a w2"
      by (auto simp: io_try_Some_iff sim_manifest_def io_read_Inr_iff remote_view_def)
    with t1 tidy_settle [OF t1(1)] have t2: "tidy w2" "w_remote_root w2" by (auto simp: settle_fields)
    have hrm: "hashed rm" using t2 by (simp add: rm remote_view_def tidy_def hashed_disk_manifest)
    from 3 Some obtain x w3 where p: "plan_sync a (sr_authority r) base lm rm w2 = (Inr x, w3)" by (auto simp: io_bind_Inr_iff)
    have w3: "w3 = w2" using p by (auto simp: plan_sync_def io_run_simps local_root_exists_def split: option.splits if_splits)
    show ?thesis
    proof (cases x)
      case (Inl code)
      with 3 Some p good show ?thesis by (auto simp: io_run_simps)
    next
      case (Inr y)
      then obtain used cls where x: "x = Inr (used, cls)" by (cases y) auto
      note src = yields_run [OF plan_sync_yields p, rule_format, OF x]
      have d: "distinct (map cp_path cls)" using yields_run [OF plan_sync_distinct p] x by blast
      have "base' = base \<or> (\<exists>r0. sr_conflicts r0 = [] \<and>
          apply_sync local_sim a base lm rm (fst (filter_actions cls (sa_direction a))) r0 w2 = (Inr (r', base'), w'))"
        using 3 Some p x w3 start by (auto simp: io_run_simps split: prod.splits if_splits)
      then show ?thesis
        using good apply_sync_good [OF _ good t2 rm lm _ d refl classified_settles [OF src good lm hrm]] by blast
    qed
  qed (use 3 good in \<open>auto simp: io_run_simps\<close>)
qed

lemma yields_case_prod: "(\<And>x y. z = (x, y) \<Longrightarrow> yields (f x y) Q) \<Longrightarrow> yields (case z of (x, y) \<Rightarrow> f x y) Q"
  by (cases z) simp

lemma yields_case_sum:
  "(\<And>x. z = Inl x \<Longrightarrow> yields (f x) Q) \<Longrightarrow> (\<And>y. z = Inr y \<Longrightarrow> yields (g y) Q)
   \<Longrightarrow> yields (case z of Inl x \<Rightarrow> f x | Inr y \<Rightarrow> g y) Q"
  by (cases z) simp_all

lemma one_way_keeps_baseline:
  assumes "sa_direction a \<noteq> ''both''"
  shows "yields (sync_trees T a base r) (\<lambda>z. snd z = base)"
  using assms unfolding sync_trees_def apply_sync_def finish_sync_def Let_def
  by (intro yields_intros yields_case_sum yields_case_prod) simp_all

lemma run_sync_good:
  assumes run: "run_sync_result local_sim a base w = (Inr (r, base'), w')"
    and good: "good_baseline base" and tidy: "tidy w"
  shows "good_baseline base'"
proof (cases "base' = base")
  case False
  then obtain r0 missing w1 where
    1: "(if sa_direction a \<noteq> ''push'' then sync_root_missing local_sim else io_return False) w = (Inr missing, w1)"
    and 2: "\<not> missing" and 3: "sync_trees local_sim a base r0 w1 = (Inr (r, base'), w')" and r0: "sr_conflicts r0 = []"
    using run unfolding run_sync_result_def Let_def
    by (auto simp: io_run_simps empty_sync_result_def split: if_splits sum.splits)
  have both: "sa_direction a = ''both''"
    using yields_run [OF one_way_keeps_baseline 3] False by fastforce
  with 1 2 have "w1 = snd (settle w)" and "w_remote_root w1"
    by (auto simp: sync_root_missing_def io_catch_def io_bind_def io_return_def sim_remote_path_exists_def
        io_read_def is_transport_error_def case_prod_unfold split: if_splits)
  with tidy_settle [OF tidy] show ?thesis
    by (intro sync_trees_good [OF 3 good _ _ r0]) simp_all
qed (simp add: good)

text \<open>
  C39: a sync keeps the stored baseline good.  In a world without external writers, with any
  operations failing, every sync that returns leaves a baseline whose two manifests name the
  same paths with the same SHA-256 digests, if it found one or none; and comparing those two
  manifests against that baseline plans no action at all.
\<close>

theorem run_sync_converges:
  assumes "run_sync_result local_sim a base w = (Inr (r, base'), w')"
    and "good_baseline base" and "tidy w"
  shows "good_baseline base'
    \<and> (\<forall>l rm. base' = Some (l, rm) \<longrightarrow>
        (\<forall>i \<in> set (paths (compare_manifests l rm (Some l) (Some rm))). cp_action i = NONE))"
  using run_sync_good [OF assms] good_baseline_no_work by blast

theorem run_sync_converges_witness:
  "case run_sync_result local_sim (sample_sync ''both'' False) None
      (sample_world [(''a'', sample_file 1 ''h1''), (''c'', sample_file 4 ''h4'')] [(''a'', sample_file 2 ''h2'')]) of
     (Inl e, w') \<Rightarrow> False
   | (Inr z, w') \<Rightarrow> sr_exit_code (fst z) = EXIT_OK \<and> snd z \<noteq> None \<and> good_baseline (snd z)"
proof -
  let ?w = "sample_world [(''a'', sample_file 1 ''h1''), (''c'', sample_file 4 ''h4'')] [(''a'', sample_file 2 ''h2'')]"
  let ?a = "sample_sync ''both'' False"
  have "case run_sync_result local_sim ?a None ?w of (Inl e, w') \<Rightarrow> False
   | (Inr z, w') \<Rightarrow> sr_exit_code (fst z) = EXIT_OK \<and> snd z \<noteq> None" by code_simp
  then obtain z w' where run: "run_sync_result local_sim ?a None ?w = (Inr z, w')"
    and z: "sr_exit_code (fst z) = EXIT_OK \<and> snd z \<noteq> None" by (rule run_caseE)
  have "tidy ?w" by (auto simp: tidy_def small_def sample_world_def sample_file_def HASH_ALL_def split: if_splits)
  then have "good_baseline (snd z)"
    using run_sync_converges [of ?a None ?w "fst z" "snd z" w'] run by (simp add: good_baseline_def)
  with z show ?thesis by (simp add: run)
qed

section \<open>A remote edit during a push\<close>

text \<open>
  A remote writer replaces \<open>q\<close> while a sync pushes the new local file \<open>p\<close>: the event happens
  before the fourth operation, the creation of the remote directory.
\<close>

definition quiet_event :: event where
  "quiet_event = \<lparr>ev_local = (\<lambda>d. d), ev_remote = (\<lambda>d. d), ev_fault = False\<rparr>"

definition remote_edit :: "path \<Rightarrow> disk_file \<Rightarrow> event" where
  "remote_edit p f = quiet_event\<lparr>ev_remote := dict_set p f\<rparr>"

definition racing_world :: world where
  "racing_world = (sample_world [(''p'', sample_file 5 ''h5''), (''q'', sample_file 1 ''h1'')]
     [(''q'', sample_file 1 ''h1'')])
     \<lparr>w_script := [quiet_event, quiet_event, quiet_event, remote_edit ''q'' (sample_file 2 ''h2'')]\<rparr>"

text \<open>
  a remote edit that lands between the planning and the verification of a push is lost to
  later syncs.  The sync of \<open>racing_world\<close> succeeds and stores a baseline in which \<open>q\<close> differs
  between the two sides; with that baseline the next sync of the unchanged trees plans no
  action for \<open>q\<close>, although the two files differ.
\<close>

theorem run_sync_absorbs_concurrent_edit:
  "case run_sync_result local_sim (sample_sync ''both'' False) None racing_world of
     (Inl e, w') \<Rightarrow> False
   | (Inr (r, base), w') \<Rightarrow>
       sr_exit_code r = EXIT_OK
       \<and> (case base of None \<Rightarrow> False
          | Some (l, rm) \<Rightarrow>
              \<not> rel_option same_content (dict_get l ''q'') (dict_get rm ''q''))
       \<and> (case run_sync_result local_sim (sample_sync ''both'' False) base w' of
            (Inl e, w'') \<Rightarrow> False
          | (Inr (r2, base2), w'') \<Rightarrow>
              sr_exit_code r2 = EXIT_OK \<and> sr_pulled r2 = [] \<and> sr_pushed r2 = []
              \<and> dict_get (w_local w'') ''q'' = Some (sample_file 1 ''h1'')
              \<and> dict_get (w_remote w'') ''q'' = Some (sample_file 2 ''h2''))"
  by code_simp

end
