(* ===== verification/SyncPaths.thy ===== *)
theory SyncPaths
  imports Sync
begin

text \<open>
  The path mapping of the folder sync: \<open>_safe_subpath\<close> returns only paths that stay below
  their base, and \<open>remote_spec_to_tree\<close> inverts the mapping with the longest matching base.
\<close>

section \<open>Subpaths\<close>

definition safe_part :: "string \<Rightarrow> bool" where
  "safe_part c \<longleftrightarrow> c \<noteq> [] \<and> c \<noteq> ''.'' \<and> c \<noteq> ''..'' \<and> CHR '':'' \<notin> set c \<and> CHR ''/'' \<notin> set c
     \<and> CHR 0x5C \<notin> set c"

lemma unify_no_backslash: "CHR 0x5C \<notin> set (unify_separators s)"
  by (auto simp: unify_separators_def)

lemma unify_id: "CHR 0x5C \<notin> set s \<Longrightarrow> unify_separators s = s"
  unfolding unify_separators_def by (rule map_idI) auto

lemma posix_parts_safe:
  assumes "CHR 0x5C \<notin> set s" and "filter unsafe_part (posix_parts s) = []" and "c \<in> set (posix_parts s)"
  shows "safe_part c"
  using assms split_on_parts [of c "CHR ''/''" s] split_on_chars [of c "CHR ''/''" s]
  by (auto simp: safe_part_def posix_parts_def unsafe_part_def filter_empty_conv)

lemma join_hd_last:
  assumes "parts \<noteq> []" and "\<forall>c \<in> set parts. safe_part c"
  shows "join_with ''/'' parts \<noteq> [] \<and> hd (join_with ''/'' parts) \<noteq> CHR ''/''
    \<and> last (join_with ''/'' parts) \<noteq> CHR ''/''"
  using assms
proof (induction "''/''" parts rule: join_with.induct)
  case (3 x y r)
  then have "x \<noteq> []" and "CHR ''/'' \<notin> set x" by (auto simp: safe_part_def)
  then have "hd x \<noteq> CHR ''/''" by (metis hd_in_set)
  with \<open>x \<noteq> []\<close> 3 show ?case by (auto simp: hd_append)
next
  case (2 x)
  then show ?case by (auto simp: safe_part_def dest: hd_in_set last_in_set)
qed simp

lemma join_chars: "c \<in> set (join_with ''/'' parts) \<Longrightarrow> c = CHR ''/'' \<or> (\<exists>p \<in> set parts. c \<in> set p)"
  by (induction "''/''" parts rule: join_with.induct) auto

lemma safe_subpath_join:
  assumes "parts \<noteq> []" and "\<forall>c \<in> set parts. safe_part c"
  shows "safe_subpath (join_with ''/'' parts) = Inr (join_with ''/'' parts)"
proof -
  let ?r = "join_with ''/'' parts"
  have "CHR 0x5C \<notin> set ?r" using assms by (auto simp: safe_part_def dest!: join_chars)
  then have u: "unify_separators ?r = ?r" by (rule unify_id)
  have s: "strip_slash ?r = ?r" unfolding strip_slash_def
    by (rule strip_with_id) (use join_hd_last [OF assms] in auto)
  have "split_on (CHR ''/'') ?r = parts"
    by (rule split_join [OF assms(1)]) (use assms in \<open>auto simp: safe_part_def\<close>)
  then have "posix_parts ?r = parts" unfolding posix_parts_def
    using assms(2) by (auto simp: safe_part_def intro: filter_True)
  moreover have "filter unsafe_part parts = []"
    using assms(2) by (auto simp: filter_empty_conv unsafe_part_def safe_part_def)
  ultimately show ?thesis
    using join_hd_last [OF assms] assms(1) by (simp add: safe_subpath_def u s as_posix_def Let_def)
qed

text \<open>
  an accepted subpath cannot leave its tree.  It is empty, \<open>.\<close>, or a sequence of
  components none of which is empty, \<open>.\<close>, \<open>..\<close> or contains a colon, a slash or a backslash;
  and \<open>_safe_subpath\<close> accepts it again unchanged.
\<close>

theorem safe_subpath_contained:
  assumes "safe_subpath sub = Inr r"
  shows "(r = [] \<or> r = ''.'' \<or> (\<forall>c \<in> set (split_on (CHR ''/'') r). safe_part c)) \<and> safe_subpath r = Inr r"
proof -
  let ?s = "strip_slash (unify_separators sub)"
  have bs: "CHR 0x5C \<notin> set ?s"
    unfolding strip_slash_def by (rule contra_subsetD [OF strip_with_set unify_no_backslash])
  show ?thesis
  proof (cases "?s = []")
    case True
    with assms have "r = []" by (simp add: safe_subpath_def)
    moreover have "safe_subpath [] = Inr []" by code_simp
    ultimately show ?thesis by simp
  next
    case False
    with assms have ok: "filter unsafe_part (posix_parts ?s) = []" and r: "r = as_posix (posix_parts ?s)"
      by (auto simp: safe_subpath_def Let_def split: list.splits)
    show ?thesis
    proof (cases "posix_parts ?s = []")
      case True
      then have "r = ''.''" by (simp add: r as_posix_def)
      moreover have "safe_subpath ''.'' = Inr ''.''" by code_simp
      ultimately show ?thesis by simp
    next
      case ne: False
      have safe: "\<forall>c \<in> set (posix_parts ?s). safe_part c" using posix_parts_safe [OF bs ok] by blast
      then have "split_on (CHR ''/'') r = posix_parts ?s"
        unfolding r as_posix_def using ne by (auto simp: safe_part_def intro!: split_join)
      with safe safe_subpath_join [OF ne safe] ne show ?thesis by (simp add: r as_posix_def)
    qed
  qed
qed

theorem safe_subpath_contained_witness:
  "safe_subpath ''a//./b/'' = Inr ''a/b'' \<and> safe_subpath ''a/b'' = Inr ''a/b''"
proof -
  have "safe_subpath ''a//./b/'' = Inr ''a/b''" by code_simp
  with safe_subpath_contained [OF this] show ?thesis by simp
qed

section \<open>The reverse mapping\<close>

definition matching_base :: "string \<Rightarrow> string \<Rightarrow> sync_tree \<Rightarrow> string \<Rightarrow> bool" where
  "matching_base os_key spec tree base \<longleftrightarrow>
     (\<exists>b. base_for tree os_key = Some b \<and> b \<noteq> [] \<and> base = rstrip_slash (unify_separators b))
     \<and> (spec = base \<or> prefix (base @ ''/'') spec)"

lemma tree_match_id:
  "tree_match (\<lambda>s. s) spec b = Some (sub, n) \<Longrightarrow>
     (let base = rstrip_slash (unify_separators b)
      in n = length base \<and> (spec = base \<and> sub = [] \<or> spec = base @ ''/'' @ sub))"
  by (auto simp: tree_match_def Let_def prefix_def split: if_splits)

lemma matching_base_iff:
  assumes "base_for tree os_key = Some b" and "b \<noteq> []"
  shows "matching_base os_key spec tree base \<longleftrightarrow>
    base = rstrip_slash (unify_separators b) \<and> tree_match (\<lambda>s. s) spec b \<noteq> None"
  using assms by (auto simp: matching_base_def tree_match_def Let_def)

lemma no_matching_base: "(\<nexists>b. base_for tree os_key = Some b \<and> b \<noteq> []) \<Longrightarrow> \<not> matching_base os_key spec tree base"
  by (auto simp: matching_base_def)

definition bounded_by :: "string \<Rightarrow> string \<Rightarrow> (string, sync_tree) dict \<Rightarrow> int \<Rightarrow> bool" where
  "bounded_by os_key spec trees n \<longleftrightarrow>
     (\<forall>name tree base. (name, tree) \<in> set trees \<and> matching_base os_key spec tree base \<longrightarrow> int (length base) \<le> n)"

definition chosen :: "string \<Rightarrow> string \<Rightarrow> (string, sync_tree) dict \<Rightarrow> string \<Rightarrow> string \<Rightarrow> int \<Rightarrow> bool" where
  "chosen os_key spec trees name sub n \<longleftrightarrow>
     (\<exists>tree base. (name, tree) \<in> set trees \<and> matching_base os_key spec tree base \<and> int (length base) = n
        \<and> (spec = base \<and> sub = [] \<or> spec = base @ ''/'' @ sub))"

lemma best_tree_inv:
  "\<exists>n. bounded_by os_key spec trees n \<and> n \<ge> best_len
     \<and> (best_tree (\<lambda>s. s) os_key spec trees best best_len = best \<and> n = best_len
        \<or> (\<exists>name sub. best_tree (\<lambda>s. s) os_key spec trees best best_len = Some (name, sub)
             \<and> chosen os_key spec trees name sub n))"
proof (induction trees arbitrary: best best_len)
  case Nil
  show ?case by (rule exI [of _ best_len]) (simp add: bounded_by_def)
next
  case (Cons t trees)
  obtain name tree where t: "t = (name, tree)" by (cases t)
  have skip: ?case if nm: "\<And>base. matching_base os_key spec tree base \<Longrightarrow> int (length base) \<le> best_len"
    and eq: "best_tree (\<lambda>s. s) os_key spec (t # trees) best best_len = best_tree (\<lambda>s. s) os_key spec trees best best_len"
  proof -
    from Cons.IH [of best_len best] obtain n where n: "bounded_by os_key spec trees n" "n \<ge> best_len"
      "best_tree (\<lambda>s. s) os_key spec trees best best_len = best \<and> n = best_len
        \<or> (\<exists>name sub. best_tree (\<lambda>s. s) os_key spec trees best best_len = Some (name, sub)
             \<and> chosen os_key spec trees name sub n)" by blast
    have "bounded_by os_key spec (t # trees) n"
      using n(1,2) nm by (auto simp: bounded_by_def t) (metis dual_order.trans)
    moreover have "chosen os_key spec trees name sub n \<Longrightarrow> chosen os_key spec (t # trees) name sub n" for name sub
      by (auto simp: chosen_def)
    ultimately show ?thesis using n(2,3) unfolding eq by blast
  qed
  show ?case
  proof (cases "\<exists>b. base_for tree os_key = Some b \<and> b \<noteq> []")
    case False
    then show ?thesis
      by (intro skip) (auto simp: t no_matching_base split: option.split list.split)
  next
    case True
    then obtain b where b: "base_for tree os_key = Some b" "b \<noteq> []" by blast
    note m = matching_base_iff [OF b, of spec]
    show ?thesis
    proof (cases "tree_match (\<lambda>s. s) spec b")
      case None
      with b m show ?thesis by (intro skip) (auto simp: t split: list.split)
    next
      case (Some z)
      obtain sub k where z: "tree_match (\<lambda>s. s) spec b = Some (sub, k)" using Some by (cases z) auto
      define base where "base = rstrip_slash (unify_separators b)"
      have k: "k = length base" and dec: "spec = base \<and> sub = [] \<or> spec = base @ ''/'' @ sub"
        using tree_match_id [OF z] by (simp_all add: Let_def base_def)
      show ?thesis
      proof (cases "int k > best_len")
        case False
        show ?thesis
        proof (rule skip)
          show "int (length base') \<le> best_len" if "matching_base os_key spec tree base'" for base'
            using that False unfolding m by (simp add: k base_def)
          show "best_tree (\<lambda>s. s) os_key spec (t # trees) best best_len = best_tree (\<lambda>s. s) os_key spec trees best best_len"
            using b z False by (cases b) (simp_all add: t)
        qed
      next
        case True
        have eq: "best_tree (\<lambda>s. s) os_key spec (t # trees) best best_len
            = best_tree (\<lambda>s. s) os_key spec trees (Some (name, sub)) (int k)"
          using b z True by (cases b) (simp_all add: t)
        have me: "chosen os_key spec (t # trees) name sub (int k)"
          using m z dec by (auto simp: chosen_def t k base_def)
        from Cons.IH [of "int k" "Some (name, sub)"] obtain n where
          n: "bounded_by os_key spec trees n" "n \<ge> int k"
          and res: "best_tree (\<lambda>s. s) os_key spec trees (Some (name, sub)) (int k) = Some (name, sub) \<and> n = int k
            \<or> (\<exists>name' sub'. best_tree (\<lambda>s. s) os_key spec trees (Some (name, sub)) (int k) = Some (name', sub')
                 \<and> chosen os_key spec trees name' sub' n)" by blast
        have "bounded_by os_key spec (t # trees) n"
          using n m by (auto simp: bounded_by_def t k base_def)
        moreover have "\<exists>name' sub'. best_tree (\<lambda>s. s) os_key spec (t # trees) best best_len = Some (name', sub')
            \<and> chosen os_key spec (t # trees) name' sub' n"
          using res me unfolding eq by (auto simp: chosen_def)
        ultimately show ?thesis using n True by (intro exI [of _ n]) simp
      qed
    qed
  qed
qed

text \<open>
  \<open>remote_spec_to_tree\<close> inverts the mapping of a tree on a case-sensitive device.  It
  fails exactly when no configured base contains the remote path; otherwise the normalised
  base of the returned tree followed by the returned subpath is the path, and no configured
  base that contains the path is longer.
\<close>

theorem remote_spec_to_tree_inverse:
  "case remote_spec_to_tree (\<lambda>s. s) sync_roots os_key remote_spec of
     None \<Rightarrow> (\<nexists>name tree base. (name, tree) \<in> set sync_roots
               \<and> matching_base os_key (rstrip_slash (unify_separators remote_spec)) tree base)
   | Some (name, sub) \<Rightarrow>
       (\<exists>n. chosen os_key (rstrip_slash (unify_separators remote_spec)) sync_roots name sub n
          \<and> bounded_by os_key (rstrip_slash (unify_separators remote_spec)) sync_roots n)"
proof -
  let ?s = "rstrip_slash (unify_separators remote_spec)"
  obtain n where n: "bounded_by os_key ?s sync_roots n" and
    r: "remote_spec_to_tree (\<lambda>s. s) sync_roots os_key remote_spec = None \<and> n = -1
      \<or> (\<exists>name sub. remote_spec_to_tree (\<lambda>s. s) sync_roots os_key remote_spec = Some (name, sub)
           \<and> chosen os_key ?s sync_roots name sub n)"
    using best_tree_inv [of os_key ?s sync_roots "-1" None] unfolding remote_spec_to_tree_def by blast
  from r show ?thesis
  proof (elim disjE exE conjE)
    assume "remote_spec_to_tree (\<lambda>s. s) sync_roots os_key remote_spec = None" and "n = -1"
    with n show ?thesis by (fastforce simp: bounded_by_def)
  qed (use n in auto)
qed

end
