(* ===== verification/Json.thy ===== *)
theory Json
  imports Prelude
begin

text \<open>
  JSON values as the program receives them, and the checks that several components make on
  them.  Numbers are integers: no component accepts a fractional number.
\<close>

datatype json = JNull | JBool bool | JInt int | JStr string | JList "json list" | JObj "(string \<times> json) list"

definition hex_lower :: "char \<Rightarrow> bool" where
  "hex_lower c \<longleftrightarrow> c \<in> set ''0123456789abcdef''"

definition is_sha256_hex :: "string \<Rightarrow> bool" where
  "is_sha256_hex v \<longleftrightarrow> length v = 64 \<and> list_all hex_lower v"

text \<open>\<open>str(value)\<close>: exact on strings and integers, never a digest on anything else.\<close>

function nat_digits :: "nat \<Rightarrow> string" where
  "nat_digits n = (if n < 10 then [char_of (48 + n)] else nat_digits (n div 10) @ [char_of (48 + n mod 10)])"
  by pat_completeness auto
termination by (relation "measure id") auto

declare nat_digits.simps [simp del]

fun py_str :: "json \<Rightarrow> string" where
  "py_str (JStr s) = s"
| "py_str (JInt n) = (if n < 0 then CHR ''-'' # nat_digits (nat (- n)) else nat_digits (nat n))"
| "py_str JNull = ''None''"
| "py_str (JBool b) = (if b then ''True'' else ''False'')"
| "py_str (JList xs) = ''[...]''"
| "py_str (JObj kvs) = ''{...}''"

text \<open>
  Python compares \<open>True\<close> with 1 and \<open>False\<close> with 0 as equal: the number that a value is equal
  to, if any; and \<open>isinstance(value, int)\<close> without \<open>bool\<close>.
\<close>

definition py_num :: "json \<Rightarrow> int option" where
  "py_num v = (case v of JInt n \<Rightarrow> Some n | JBool b \<Rightarrow> Some (if b then 1 else 0) | _ \<Rightarrow> None)"

definition strict_int :: "json option \<Rightarrow> int option" where
  "strict_int v = (case v of Some (JInt n) \<Rightarrow> Some n | _ \<Rightarrow> None)"

definition json_str :: "json option \<Rightarrow> string option" where
  "json_str v = (case v of Some (JStr s) \<Rightarrow> Some s | _ \<Rightarrow> None)"

text \<open>\<open>dict.get\<close>: an absent key and a JSON null are both \<open>None\<close>.\<close>

definition json_none :: "json option \<Rightarrow> bool" where
  "json_none v \<longleftrightarrow> v = None \<or> v = Some JNull"

definition eq_num :: "json option \<Rightarrow> int \<Rightarrow> bool" where
  "eq_num v n \<longleftrightarrow> (case v of None \<Rightarrow> False | Some j \<Rightarrow> py_num j = Some n)"

definition eq_str :: "json option \<Rightarrow> string \<Rightarrow> bool" where
  "eq_str v s \<longleftrightarrow> v = Some (JStr s)"

text \<open>\<open>str(d.get(key, ""))\<close> and \<open>int(d.get(key, default))\<close>; \<open>None\<close> is a \<open>ValueError\<close> or \<open>TypeError\<close>.\<close>

definition dec_digit :: "char \<Rightarrow> bool" where
  "dec_digit c \<longleftrightarrow> CHR ''0'' \<le> c \<and> c \<le> CHR ''9''"

fun int_digits :: "string \<Rightarrow> bool \<Rightarrow> int \<Rightarrow> int option" where
  "int_digits [] after_digit acc = (if after_digit then Some acc else None)"
| "int_digits (c # cs) after_digit acc =
     (if dec_digit c then int_digits cs True (acc * 10 + (int (of_char c) - 48))
      else if c = CHR ''_'' \<and> after_digit then int_digits cs False acc
      else None)"

definition int_of_string :: "string \<Rightarrow> int option" where
  "int_of_string s =
     (case py_strip s of
        [] \<Rightarrow> None
      | c # cs \<Rightarrow>
          if c = CHR ''-'' then map_option uminus (int_digits cs False 0)
          else if c = CHR ''+'' then int_digits cs False 0
          else int_digits (c # cs) False 0)"

definition py_int :: "json \<Rightarrow> int option" where
  "py_int v =
     (case v of JInt n \<Rightarrow> Some n | JBool b \<Rightarrow> Some (if b then 1 else 0) | JStr s \<Rightarrow> int_of_string s | _ \<Rightarrow> None)"

definition get_str :: "(string, json) dict \<Rightarrow> string \<Rightarrow> string" where
  "get_str d k = (case dict_get d k of None \<Rightarrow> [] | Some v \<Rightarrow> py_str v)"

definition get_int :: "(string, json) dict \<Rightarrow> string \<Rightarrow> int \<Rightarrow> int option" where
  "get_int d k n = (case dict_get d k of None \<Rightarrow> Some n | Some v \<Rightarrow> py_int v)"

text \<open>\<open>d.get(key)\<close> with JSON null read as \<open>None\<close>.\<close>

definition get_opt :: "(string, json) dict \<Rightarrow> string \<Rightarrow> json option" where
  "get_opt d k = (case dict_get d k of None \<Rightarrow> None | Some v \<Rightarrow> if v = JNull then None else Some v)"

definition json_obj :: "json option \<Rightarrow> (string, json) dict option" where
  "json_obj v = (case v of Some (JObj d) \<Rightarrow> Some d | _ \<Rightarrow> None)"

text \<open>Python's \<open>==\<close> on JSON values: numbers and booleans by value, objects up to key order.\<close>

function json_eq :: "json \<Rightarrow> json \<Rightarrow> bool" where
  "json_eq (JList xs) v =
     (case v of JList ys \<Rightarrow> length xs = length ys \<and> list_all (\<lambda>(x, y). json_eq x y) (zip xs ys) | _ \<Rightarrow> False)"
| "json_eq (JObj xs) v =
     (case v of
        JObj ys \<Rightarrow> length xs = length ys
          \<and> list_all (\<lambda>(k, x). case dict_get ys k of None \<Rightarrow> False | Some y \<Rightarrow> json_eq x y) xs
      | _ \<Rightarrow> False)"
| "json_eq (JStr s) v = (v = JStr s)"
| "json_eq JNull v = (v = JNull)"
| "json_eq (JInt n) v = (py_num v = Some n)"
| "json_eq (JBool b) v = (py_num v = Some (if b then 1 else 0))"
  by pat_completeness auto
termination
  by (relation "measure (\<lambda>(a, b). size a)")
    (auto simp: less_Suc_eq_le size_list_estimation' dest!: set_zip_leftD intro: size_list_estimation')

definition json_opt_eq :: "json option \<Rightarrow> json option \<Rightarrow> bool" where
  "json_opt_eq a b = (case (a, b) of (None, None) \<Rightarrow> True | (Some x, Some y) \<Rightarrow> json_eq x y | _ \<Rightarrow> False)"

end
