(* ===== verification/Coordination.thy ===== *)
theory Coordination
  imports TransferPlan Json
begin

text \<open>
  Replica coordination (\<open>src/remrun/coordination.py\<close>): canonical snapshots, deletion
  tombstones, replica cursors, and \<open>plan_replica_catchup\<close>, the three-way plan that brings a
  replica to the canonical head.  Identity records are JSON objects.  \<open>digest\<close> stands for
  SHA-256 over the JSON lines of the sorted records, which the standard library computes; what
  a theorem needs of it is a hypothesis of that theorem.
\<close>

section \<open>Identities\<close>

type_synonym identity = "(string, json) dict"

record content_identity =
  ci_kind :: json
  ci_size :: json
  ci_sha256 :: json
  ci_mode :: json

type_synonym records_digest = "(path \<times> content_identity) list \<Rightarrow> string"

definition sha256_hex :: "string \<Rightarrow> string \<Rightarrow> string + string" where
  "sha256_hex v label =
     (if \<not> is_sha256_hex v then Inl (label @ '' must be a lowercase SHA-256 hex digest'') else Inr v)"

definition json_opt :: "('a \<Rightarrow> json) \<Rightarrow> 'a option \<Rightarrow> json" where
  "json_opt f x = (case x of None \<Rightarrow> JNull | Some v \<Rightarrow> f v)"

text \<open>The dictionary that \<open>canonical_identity\<close> returns.\<close>

definition identity_dict :: "file_entry \<Rightarrow> identity" where
  "identity_dict e =
     [(''kind'', JStr (fe_kind e)), (''size'', JInt (fe_size e)), (''mtime_ns'', JInt (fe_mtime_ns e)),
      (''sha256'', json_opt JStr (fe_sha256 e)), (''mode'', json_opt JInt (fe_mode e))]"

definition obj_get :: "identity \<Rightarrow> string \<Rightarrow> json" where
  "obj_get d k = (case dict_get d k of None \<Rightarrow> JNull | Some v \<Rightarrow> v)"

definition noncanonical_path :: "path \<Rightarrow> bool" where
  "noncanonical_path p \<longleftrightarrow>
     prefix ''/'' p \<or> CHR 0x5C \<in> set p \<or> CHR 0x00 \<in> set p
     \<or> list_ex (\<lambda>part. part \<in> {[], ''.'', ''..''}) (split_on (CHR ''/'') p)"

definition nonneg_int :: "json \<Rightarrow> bool" where
  "nonneg_int v \<longleftrightarrow> (case v of JInt n \<Rightarrow> n \<ge> 0 | _ \<Rightarrow> False)"

definition valid_mode :: "json \<Rightarrow> bool" where
  "valid_mode v \<longleftrightarrow> (case v of JInt n \<Rightarrow> 0 \<le> n \<and> n \<le> 4095 | _ \<Rightarrow> False)"

definition validate_identity :: "path \<Rightarrow> identity \<Rightarrow> string \<Rightarrow> string + unit" where
  "validate_identity p i label =
     (if noncanonical_path p then Inl (label @ '' has a noncanonical path: '' @ p)
      else if set (dict_keys i) \<noteq> {''kind'', ''size'', ''mtime_ns'', ''sha256'', ''mode''}
      then Inl (label @ '' has an invalid identity schema: '' @ p)
      else if obj_get i ''kind'' \<noteq> JStr ''file'' then Inl (label @ '' is not a regular file: '' @ p)
      else if \<not> nonneg_int (obj_get i ''size'') then Inl (label @ '' has an invalid size: '' @ p)
      else if \<not> nonneg_int (obj_get i ''mtime_ns'') then Inl (label @ '' has an invalid mtime_ns: '' @ p)
      else if \<not> valid_mode (obj_get i ''mode'') then Inl (label @ '' has an invalid mode: '' @ p)
      else (case sha256_hex (py_str (obj_get i ''sha256'')) (label @ '' sha256 for '' @ p) of
          Inl e \<Rightarrow> Inl e | Inr _ \<Rightarrow> Inr ()))"

definition content_identity :: "identity \<Rightarrow> content_identity" where
  "content_identity i =
     \<lparr>ci_kind = obj_get i ''kind'', ci_size = obj_get i ''size'',
      ci_sha256 = obj_get i ''sha256'', ci_mode = obj_get i ''mode''\<rparr>"

definition identity_manifest_digest :: "records_digest \<Rightarrow> (path, identity) dict \<Rightarrow> string" where
  "identity_manifest_digest digest ids =
     digest (map (\<lambda>p. (p, content_identity (case dict_get ids p of Some i \<Rightarrow> i | None \<Rightarrow> [])))
       (sorted_set (dict_keys ids)))"

definition strong_manifest_digest :: "records_digest \<Rightarrow> manifest \<Rightarrow> string" where
  "strong_manifest_digest digest m =
     digest (List.map_filter (\<lambda>p. map_option (\<lambda>e.
         (p, \<lparr>ci_kind = JStr (fe_kind e), ci_size = JInt (fe_size e),
              ci_sha256 = json_opt JStr (fe_sha256 e), ci_mode = json_opt JInt (fe_mode e)\<rparr>))
       (dict_get m p)) (sorted_set (dict_keys m)))"

section \<open>Snapshots and tombstones\<close>

record canonical_snapshot =
  cs_format :: string
  cs_generation :: int
  cs_parent_generation :: "int option"
  cs_policy_sha256 :: string
  cs_manifest_sha256 :: string
  cs_entries :: "(string \<times> json) list list"

record tombstone_event =
  te_path :: path
  te_deleted_generation :: int
  te_prior_identity :: identity
  te_deleted_by_txn_id :: string

text \<open>A strong regular-file identity, as a manifest entry.\<close>

definition strong_entry :: "file_entry \<Rightarrow> bool" where
  "strong_entry e \<longleftrightarrow> fe_kind e = ''file'' \<and> fe_mode e \<noteq> None \<and> fe_sha256 e \<noteq> None"

fun snapshot_entries :: "manifest \<Rightarrow> path list \<Rightarrow> string + (string \<times> json) list list" where
  "snapshot_entries m [] = Inr []"
| "snapshot_entries m (p # ps) =
     (case dict_get m p of
        None \<Rightarrow> Inl p
      | Some e \<Rightarrow>
          if fe_path e \<noteq> p then Inl (''snapshot key/path mismatch: '' @ p)
          else if \<not> strong_entry e
          then Inl (''snapshot entry is not a strong regular-file identity: '' @ p)
          else (case sha256_hex (the (fe_sha256 e)) (''sha256 for '' @ p) of
              Inl err \<Rightarrow> Inl err
            | Inr _ \<Rightarrow>
                (case snapshot_entries m ps of
                   Inl err \<Rightarrow> Inl err
                 | Inr rest \<Rightarrow> Inr (((''path'', JStr p) # identity_dict e) # rest))))"

definition bad_generation :: "int \<Rightarrow> int option \<Rightarrow> string option" where
  "bad_generation generation parent =
     (if generation < 0 then Some ''generation must be nonnegative''
      else if generation = 0 \<and> parent \<noteq> None then Some ''generation zero cannot have a parent''
      else if generation > 0 \<and> (case parent of None \<Rightarrow> True | Some g \<Rightarrow> g \<ge> generation)
      then Some ''a later generation requires an earlier parent''
      else None)"

definition build_canonical_snapshot ::
  "records_digest \<Rightarrow> manifest \<Rightarrow> int \<Rightarrow> int option \<Rightarrow> string \<Rightarrow> string + canonical_snapshot" where
  "build_canonical_snapshot digest m generation parent policy =
     (case bad_generation generation parent of
        Some err \<Rightarrow> Inl err
      | None \<Rightarrow>
          (case sha256_hex policy ''policy_sha256'' of
             Inl err \<Rightarrow> Inl err
           | Inr _ \<Rightarrow>
               (case snapshot_entries m (sorted_set (dict_keys m)) of
                  Inl err \<Rightarrow> Inl err
                | Inr entries \<Rightarrow>
                    Inr \<lparr>cs_format = ''remrun-canonical-snapshot-v1'', cs_generation = generation,
                         cs_parent_generation = parent, cs_policy_sha256 = policy,
                         cs_manifest_sha256 = strong_manifest_digest digest m, cs_entries = entries\<rparr>)))"

fun tombstones_for :: "manifest \<Rightarrow> int \<Rightarrow> string \<Rightarrow> path list \<Rightarrow> string + tombstone_event list" where
  "tombstones_for parent gen txn [] = Inr []"
| "tombstones_for parent gen txn (p # ps) =
     (case dict_get parent p of
        None \<Rightarrow> Inl p
      | Some e \<Rightarrow>
          if fe_sha256 e = None \<or> fe_mode e = None
          then Inl (''prior identity is not strong enough to tombstone: '' @ p)
          else (case tombstones_for parent gen txn ps of
              Inl err \<Rightarrow> Inl err
            | Inr rest \<Rightarrow>
                Inr (\<lparr>te_path = p, te_deleted_generation = gen, te_prior_identity = identity_dict e,
                      te_deleted_by_txn_id = txn\<rparr> # rest)))"

definition deletion_tombstones ::
  "manifest \<Rightarrow> manifest \<Rightarrow> int \<Rightarrow> string \<Rightarrow> string + tombstone_event list" where
  "deletion_tombstones parent current gen txn =
     (if gen \<le> 0 then Inl ''deleted_generation must be positive''
      else if txn = [] then Inl ''deleted_by_txn_id is required''
      else tombstones_for parent gen txn
        (sorted_set (filter (\<lambda>p. p \<notin> set (dict_keys current)) (dict_keys parent))))"

section \<open>Replica cursors\<close>

record replica_cursor =
  rc_format :: string
  rc_project_key :: string
  rc_replica_id :: string
  rc_replica_kind :: string
  rc_endpoint_id :: string
  rc_root_fingerprint :: string
  rc_credential_sha256 :: string
  rc_state :: string
  rc_ack_generation :: "int option"
  rc_ack_manifest_sha256 :: "string option"
  rc_pending_txn_id :: "string option"
  rc_last_seen_at_ns :: "int option"

text \<open>
  \<open>__post_init__\<close>: the first violated rule, if any.  \<open>uuid_ok\<close> is whether \<open>uuid.UUID\<close> of the
  standard library accepts a string.
\<close>

definition cursor_error :: "(string \<Rightarrow> bool) \<Rightarrow> replica_cursor \<Rightarrow> string option" where
  "cursor_error uuid_ok c =
     (if rc_format c \<noteq> ''remrun-replica-cursor-v1'' then Some ''unsupported replica cursor format''
      else if \<not> is_sha256_hex (rc_project_key c) then Some ''project_key must be a lowercase SHA-256 hex digest''
      else if \<not> is_sha256_hex (rc_credential_sha256 c)
      then Some ''credential_sha256 must be a lowercase SHA-256 hex digest''
      else if \<not> uuid_ok (rc_replica_id c) then Some ''badly formed hexadecimal UUID string''
      else if rc_replica_kind c \<notin> {''CONTROLLER'', ''RUNNER''}
      then Some ''replica_kind must be CONTROLLER or RUNNER''
      else if rc_state c \<notin> {''ACTIVE'', ''DIRTY'', ''UNVERIFIED'', ''RETIRED''} then Some ''invalid replica state''
      else if rc_endpoint_id c = [] \<or> rc_root_fingerprint c = []
      then Some ''endpoint_id and root_fingerprint are required''
      else if (rc_ack_generation c = None) \<noteq> (rc_ack_manifest_sha256 c = None)
      then Some ''ack generation and manifest digest must be present together''
      else if (case rc_ack_generation c of None \<Rightarrow> False | Some g \<Rightarrow> g < 0)
      then Some ''ack_generation must be nonnegative''
      else if (case rc_ack_manifest_sha256 c of None \<Rightarrow> False | Some d \<Rightarrow> \<not> is_sha256_hex d)
      then Some ''ack_manifest_sha256 must be a lowercase SHA-256 hex digest''
      else if rc_state c = ''ACTIVE'' \<and> rc_ack_generation c = None
      then Some ''an active replica requires a verified acknowledgement''
      else if rc_state c = ''UNVERIFIED'' \<and> rc_ack_generation c \<noteq> None
      then Some ''an unverified replica cannot claim an acknowledgement''
      else if (case rc_last_seen_at_ns c of None \<Rightarrow> False | Some t \<Rightarrow> t < 0)
      then Some ''last_seen_at_ns must be nonnegative''
      else None)"

section \<open>Reading identities back\<close>

fun read_entries ::
  "(string \<times> json) list list \<Rightarrow> (path, identity) dict \<Rightarrow> string + (path, identity) dict" where
  "read_entries [] acc = Inr acc"
| "read_entries (raw # raws) acc =
     (case dict_get raw ''path'' of
        Some (JStr p) \<Rightarrow>
          if p = [] \<or> p \<in> set (dict_keys acc) then Inl ''snapshot entries require unique nonempty paths''
          else (case validate_identity p (dict_pop ''path'' raw) ''snapshot identity'' of
              Inl err \<Rightarrow> Inl err
            | Inr _ \<Rightarrow> read_entries raws (dict_set p (dict_pop ''path'' raw) acc))
      | _ \<Rightarrow> Inl ''snapshot entries require unique nonempty paths'')"

definition snapshot_generation_error :: "int \<Rightarrow> int option \<Rightarrow> string option" where
  "snapshot_generation_error generation parent =
     (if generation < 0 then Some ''snapshot generation must be nonnegative''
      else if generation = 0 \<and> parent \<noteq> None then Some ''generation zero snapshot cannot have a parent''
      else if generation > 0 \<and> (case parent of None \<Rightarrow> True | Some g \<Rightarrow> g \<ge> generation)
      then Some ''later snapshot requires an earlier parent''
      else None)"

definition snapshot_identities ::
  "records_digest \<Rightarrow> canonical_snapshot \<Rightarrow> string + (path, content_identity) dict" where
  "snapshot_identities digest s =
     (if cs_format s \<noteq> ''remrun-canonical-snapshot-v1'' then Inl ''unsupported canonical snapshot format''
      else (case snapshot_generation_error (cs_generation s) (cs_parent_generation s) of
          Some err \<Rightarrow> Inl err
        | None \<Rightarrow>
            if \<not> is_sha256_hex (cs_policy_sha256 s)
            then Inl ''snapshot policy_sha256 must be a lowercase SHA-256 hex digest''
            else if \<not> is_sha256_hex (cs_manifest_sha256 s)
            then Inl ''snapshot manifest_sha256 must be a lowercase SHA-256 hex digest''
            else (case read_entries (cs_entries s) [] of
                Inl err \<Rightarrow> Inl err
              | Inr raw \<Rightarrow>
                  if identity_manifest_digest digest raw \<noteq> cs_manifest_sha256 s
                  then Inl ''snapshot entries do not match manifest_sha256''
                  else Inr (map (\<lambda>(p, i). (p, content_identity i)) raw))))"

fun strong_identities :: "manifest \<Rightarrow> (path, content_identity) dict \<Rightarrow> string + (path, content_identity) dict" where
  "strong_identities [] acc = Inr acc"
| "strong_identities ((p, e) # m) acc =
     (if fe_path e \<noteq> p then Inl (''replica key/path mismatch: '' @ p)
      else if \<not> strong_entry e then Inl (''replica entry is not a strong regular-file identity: '' @ p)
      else (case validate_identity p (identity_dict e) ''replica identity'' of
          Inl err \<Rightarrow> Inl err
        | Inr _ \<Rightarrow> strong_identities m (dict_set p (content_identity (identity_dict e)) acc)))"

definition strong_manifest_identities :: "manifest \<Rightarrow> string + (path, content_identity) dict" where
  "strong_manifest_identities m = strong_identities m []"

section \<open>The catch-up plan\<close>

datatype catch_up_action = APPLY_HEAD | ADOPT_REPLICA | NOOP | CONFLICT

record catch_up_decision =
  cd_path :: path
  cd_action :: catch_up_action
  cd_reason :: string
  cd_base :: "content_identity option"
  cd_head :: "content_identity option"
  cd_replica :: "content_identity option"
  cd_tombstone_generation :: "int option"

record catch_up_plan =
  cu_state :: string
  cu_reason :: "string option"
  cu_replica_id :: string
  cu_ack_generation :: "int option"
  cu_head_generation :: int
  cu_decisions :: "catch_up_decision list"

definition can_apply :: "catch_up_plan \<Rightarrow> bool" where
  "can_apply p \<longleftrightarrow> cu_state p = ''READY''"

definition blocked_catchup :: "replica_cursor \<Rightarrow> canonical_snapshot \<Rightarrow> string \<Rightarrow> catch_up_plan" where
  "blocked_catchup cursor head reason =
     \<lparr>cu_state = ''BLOCKED'', cu_reason = Some reason, cu_replica_id = rc_replica_id cursor,
      cu_ack_generation = rc_ack_generation cursor, cu_head_generation = cs_generation head,
      cu_decisions = []\<rparr>"

text \<open>The tombstone history: \<open>None\<close> when an event is invalid or repeated.\<close>

fun valid_history :: "int \<Rightarrow> (path \<times> int) list \<Rightarrow> tombstone_event list \<Rightarrow> bool" where
  "valid_history head_gen seen [] = True"
| "valid_history head_gen seen (e # es) =
     (if (te_path e, te_deleted_generation e) \<in> set seen \<or> te_deleted_by_txn_id e = [] then False
      else if te_deleted_generation e \<le> 0 \<or> te_deleted_generation e > head_gen then False
      else (case validate_identity (te_path e) (te_prior_identity e) ''tombstone prior identity'' of
          Inl _ \<Rightarrow> False
        | Inr _ \<Rightarrow> valid_history head_gen ((te_path e, te_deleted_generation e) # seen) es))"

definition path_events :: "tombstone_event list \<Rightarrow> path \<Rightarrow> tombstone_event list" where
  "path_events events p = sort_key te_deleted_generation (filter (\<lambda>e. te_path e = p) events)"

definition decide ::
  "int \<Rightarrow> int \<Rightarrow> tombstone_event list \<Rightarrow> path \<Rightarrow> content_identity option \<Rightarrow> content_identity option
   \<Rightarrow> content_identity option \<Rightarrow> catch_up_decision" where
  "decide ack head_gen events p base head replica =
     (let decision = (\<lambda>act reason gen. \<lparr>cd_path = p, cd_action = act, cd_reason = reason, cd_base = base,
            cd_head = head, cd_replica = replica, cd_tombstone_generation = gen\<rparr>);
          unseen = filter (\<lambda>e. ack < te_deleted_generation e \<and> te_deleted_generation e \<le> head_gen) events;
          matching = filter (\<lambda>e. Some (content_identity (te_prior_identity e)) = replica) unseen
      in if head = None \<and> replica \<noteq> None \<and> unseen \<noteq> [] then
           (if matching \<noteq> []
            then decision APPLY_HEAD ''STALE_PRE_DELETE'' (Some (te_deleted_generation (last matching)))
            else decision CONFLICT ''DELETE_MODIFY'' (Some (te_deleted_generation (last unseen))))
         else if replica = base \<and> head = base then decision NOOP ''CLEAN'' None
         else if replica = head then decision NOOP ''CONVERGED_CHANGE'' None
         else if replica = base then
           (if base \<noteq> None \<and> head = None then decision CONFLICT ''MISSING_TOMBSTONE'' None
            else decision APPLY_HEAD ''CANONICAL_CHANGE'' None)
         else if head = base then
           decision ADOPT_REPLICA
             (if head = None \<and> list_ex (\<lambda>e. te_deleted_generation e \<le> ack) events
              then ''POST_DELETE_RECREATION'' else ''REPLICA_EDIT'') None
         else
           decision CONFLICT
             (if (head = None) \<noteq> (replica = None) then ''DELETE_MODIFY'' else ''DIVERGENT_EDIT'') None)"

definition three_way_paths ::
  "(path, content_identity) dict \<Rightarrow> (path, content_identity) dict \<Rightarrow> (path, content_identity) dict \<Rightarrow> path list" where
  "three_way_paths base head replica = sorted_set (dict_keys base @ dict_keys head @ dict_keys replica)"

definition decide_all ::
  "int \<Rightarrow> int \<Rightarrow> tombstone_event list \<Rightarrow> (path, content_identity) dict \<Rightarrow> (path, content_identity) dict
   \<Rightarrow> (path, content_identity) dict \<Rightarrow> catch_up_decision list" where
  "decide_all ack head_gen events base head replica =
     map (\<lambda>p. decide ack head_gen (path_events events p) p (dict_get base p) (dict_get head p) (dict_get replica p))
       (three_way_paths base head replica)"

text \<open>The guards before any identity is read: the reason to block, if any.\<close>

definition catchup_block ::
  "replica_cursor \<Rightarrow> canonical_snapshot \<Rightarrow> canonical_snapshot \<Rightarrow> string \<Rightarrow> string option" where
  "catchup_block cursor base head policy =
     (if cs_policy_sha256 base \<noteq> policy \<or> cs_policy_sha256 head \<noteq> policy then Some ''POLICY_MISMATCH''
      else if rc_state cursor = ''UNVERIFIED'' then Some ''UNVERIFIED_REPLICA''
      else if rc_state cursor = ''RETIRED'' then Some ''RETIRED_REPLICA''
      else if rc_ack_generation cursor = None \<or> rc_ack_manifest_sha256 cursor = None
      then Some ''MISSING_ACKNOWLEDGEMENT''
      else if rc_ack_generation cursor \<noteq> Some (cs_generation base)
        \<or> rc_ack_manifest_sha256 cursor \<noteq> Some (cs_manifest_sha256 base) then Some ''CURSOR_BASE_MISMATCH''
      else if cs_generation head < cs_generation base then Some ''HEAD_PRECEDES_CURSOR''
      else None)"

definition finish_catchup :: "replica_cursor \<Rightarrow> canonical_snapshot \<Rightarrow> catch_up_decision list \<Rightarrow> catch_up_plan" where
  "finish_catchup cursor head ds =
     \<lparr>cu_state = (if list_ex (\<lambda>d. cd_action d = CONFLICT) ds then ''CONFLICT'' else ''READY''),
      cu_reason = None, cu_replica_id = rc_replica_id cursor,
      cu_ack_generation = rc_ack_generation cursor, cu_head_generation = cs_generation head,
      cu_decisions = ds\<rparr>"

definition plan_replica_catchup ::
  "records_digest \<Rightarrow> replica_cursor \<Rightarrow> canonical_snapshot \<Rightarrow> canonical_snapshot \<Rightarrow> manifest
   \<Rightarrow> tombstone_event list \<Rightarrow> string \<Rightarrow> string + catch_up_plan" where
  "plan_replica_catchup digest cursor base head current tombstones policy =
     (case sha256_hex policy ''expected_policy_sha256'' of
        Inl err \<Rightarrow> Inl err
      | Inr _ \<Rightarrow> Inr (
          case catchup_block cursor base head policy of
            Some reason \<Rightarrow> blocked_catchup cursor head reason
          | None \<Rightarrow>
              (case (snapshot_identities digest base, snapshot_identities digest head,
                     strong_manifest_identities current) of
                 (Inr b, Inr h, Inr r) \<Rightarrow>
                   if \<not> valid_history (cs_generation head) [] tombstones
                   then blocked_catchup cursor head ''INVALID_TOMBSTONE_HISTORY''
                   else finish_catchup cursor head
                     (decide_all (cs_generation base) (cs_generation head) tombstones b h r)
               | _ \<Rightarrow> blocked_catchup cursor head ''INVALID_IDENTITY'')))"

end
