(* ===== verification/CatchUp.thy ===== *)
theory CatchUp
  imports Coordination
begin

text \<open>
  Correctness of the catch-up planner: a plan decides every path once, overwrites replica
  work only with the authority of an unseen tombstone, adopts replica work only when the
  canonical head did not move, reads back the snapshots that the builder wrote, and always
  fast-forwards a replica that still holds its acknowledged generation.
\<close>

section \<open>Decisions\<close>

lemma decide_fields [simp]:
  "cd_path (decide ack hg ev p b h r) = p" "cd_base (decide ack hg ev p b h r) = b"
  "cd_head (decide ack hg ev p b h r) = h" "cd_replica (decide ack hg ev p b h r) = r"
  by (simp_all add: decide_def Let_def)

lemma decide_noop_iff: "cd_action (decide ack hg ev p b h r) = NOOP \<longleftrightarrow> r = h"
  by (auto simp: decide_def Let_def)

lemma decide_adopt:
  "cd_action (decide ack hg ev p b h r) = ADOPT_REPLICA \<Longrightarrow> h = b \<and> r \<noteq> b"
  by (auto simp: decide_def Let_def split: if_splits)

lemma decide_apply:
  assumes "cd_action (decide ack hg ev p b h r) = APPLY_HEAD"
  shows "(h \<noteq> None \<and> r = b) \<or> (h = None \<and> (\<exists>e \<in> set ev. ack < te_deleted_generation e
    \<and> te_deleted_generation e \<le> hg \<and> r = Some (content_identity (te_prior_identity e))))"
proof (cases "h = None \<and> r \<noteq> None \<and> filter (\<lambda>e. ack < te_deleted_generation e \<and> te_deleted_generation e \<le> hg) ev \<noteq> []")
  case True
  with assms have "filter (\<lambda>e. Some (content_identity (te_prior_identity e)) = r)
      (filter (\<lambda>e. ack < te_deleted_generation e \<and> te_deleted_generation e \<le> hg) ev) \<noteq> []"
    by (auto simp: decide_def Let_def split: if_splits)
  with True show ?thesis by (auto simp: filter_empty_conv)
next
  case False
  with assms show ?thesis by (auto simp: decide_def Let_def split: if_splits)
qed

lemma set_path_events: "set (path_events events p) = {e \<in> set events. te_path e = p}"
  by (simp add: path_events_def)

lemma plan_cases:
  assumes "plan_replica_catchup digest cursor base head current ts policy = Inr plan"
    and "cu_state plan \<noteq> ''BLOCKED''"
  obtains b h r where "snapshot_identities digest base = Inr b" "snapshot_identities digest head = Inr h"
    "strong_manifest_identities current = Inr r" "catchup_block cursor base head policy = None"
    "plan = finish_catchup cursor head (decide_all (cs_generation base) (cs_generation head) ts b h r)"
  using assms unfolding plan_replica_catchup_def
  by (auto simp: blocked_catchup_def split: sum.splits option.splits if_splits)

lemma plan_decision:
  assumes "plan_replica_catchup digest cursor base head current ts policy = Inr plan"
    and "d \<in> set (cu_decisions plan)"
  obtains b h r where "snapshot_identities digest base = Inr b" "snapshot_identities digest head = Inr h"
    "strong_manifest_identities current = Inr r" "catchup_block cursor base head policy = None"
    "d = decide (cs_generation base) (cs_generation head) (path_events ts (cd_path d)) (cd_path d)
       (dict_get b (cd_path d)) (dict_get h (cd_path d)) (dict_get r (cd_path d))"
proof -
  have "cu_state plan \<noteq> ''BLOCKED''"
    using assms unfolding plan_replica_catchup_def
    by (auto simp: blocked_catchup_def finish_catchup_def split: sum.splits option.splits if_splits)
  then obtain b h r where p: "snapshot_identities digest base = Inr b" "snapshot_identities digest head = Inr h"
    "strong_manifest_identities current = Inr r" "catchup_block cursor base head policy = None"
    "plan = finish_catchup cursor head (decide_all (cs_generation base) (cs_generation head) ts b h r)"
    by (rule plan_cases [OF assms(1)])
  from assms(2) obtain q where "d = decide (cs_generation base) (cs_generation head) (path_events ts q) q
      (dict_get b q) (dict_get h q) (dict_get r q)"
    by (auto simp: p(5) finish_catchup_def decide_all_def)
  then show thesis using p(1-4) by (intro that) auto
qed

definition replica_digest :: string where
  "replica_digest = replicate 64 (CHR ''a'')"

definition strong_sample :: "path \<Rightarrow> int \<Rightarrow> char \<Rightarrow> file_entry" where
  "strong_sample p n c = \<lparr>fe_path = p, fe_kind = ''file'', fe_size = n, fe_mtime_ns = 1,
     fe_sha256 = Some (replicate 64 c), fe_mode = Some 420\<rparr>"

definition sample_snapshot :: "manifest \<Rightarrow> int \<Rightarrow> int option \<Rightarrow> canonical_snapshot" where
  "sample_snapshot m g parent =
     (case build_canonical_snapshot (\<lambda>_. replica_digest) m g parent replica_digest of
        Inr s \<Rightarrow> s
      | Inl _ \<Rightarrow> \<lparr>cs_format = [], cs_generation = 0, cs_parent_generation = None, cs_policy_sha256 = [],
          cs_manifest_sha256 = [], cs_entries = []\<rparr>)"

definition sample_cursor :: "int \<Rightarrow> replica_cursor" where
  "sample_cursor g = \<lparr>rc_format = ''remrun-replica-cursor-v1'', rc_project_key = replica_digest,
     rc_replica_id = ''r'', rc_replica_kind = ''RUNNER'', rc_endpoint_id = ''e'', rc_root_fingerprint = ''f'',
     rc_credential_sha256 = replica_digest, rc_state = ''ACTIVE'', rc_ack_generation = Some g,
     rc_ack_manifest_sha256 = Some replica_digest, rc_pending_txn_id = None, rc_last_seen_at_ns = None\<rparr>"

definition old_tree :: manifest where
  "old_tree = [(''a'', strong_sample ''a'' 1 (CHR ''1'')), (''b'', strong_sample ''b'' 2 (CHR ''2''))]"

definition new_tree :: manifest where
  "new_tree = [(''a'', strong_sample ''a'' 3 (CHR ''3''))]"

definition sample_tombstone :: tombstone_event where
  "sample_tombstone = \<lparr>te_path = ''b'', te_deleted_generation = 1,
     te_prior_identity = identity_dict (strong_sample ''b'' 2 (CHR ''2'')), te_deleted_by_txn_id = ''t''\<rparr>"

abbreviation sample_plan :: "string + catch_up_plan" where
  "sample_plan \<equiv> plan_replica_catchup (\<lambda>_. replica_digest) (sample_cursor 0) (sample_snapshot old_tree 0 None)
     (sample_snapshot new_tree 1 (Some 0)) old_tree [sample_tombstone] replica_digest"

lemma sample_plan_run:
  obtains plan where "sample_plan = Inr plan" "map cd_action (cu_decisions plan) = [APPLY_HEAD, APPLY_HEAD]"
    "map cd_head (cu_decisions plan) ! 1 = None" "cu_state plan = ''READY''"
proof -
  have "case sample_plan of Inl e \<Rightarrow> False | Inr plan \<Rightarrow>
      map cd_action (cu_decisions plan) = [APPLY_HEAD, APPLY_HEAD]
      \<and> map cd_head (cu_decisions plan) ! 1 = None \<and> cu_state plan = ''READY''"
    by code_simp
  then show thesis by (auto split: sum.splits intro: that)
qed



text \<open>
  a plan that is not blocked decides every path of base, head and replica exactly once, in
  sorted order; it leaves a path alone exactly when the replica already equals the head; it
  adopts the replica only where the head did not move since the acknowledged base; and it is
  READY exactly when no decision is a conflict.
\<close>

theorem catchup_plan_sound:
  assumes "plan_replica_catchup digest cursor base head current tombstones policy = Inr plan"
    and "cu_state plan \<noteq> ''BLOCKED''"
  shows "sorted (map cd_path (cu_decisions plan)) \<and> distinct (map cd_path (cu_decisions plan))
    \<and> (can_apply plan \<longleftrightarrow> (\<forall>d \<in> set (cu_decisions plan). cd_action d \<noteq> CONFLICT))
    \<and> (\<forall>d \<in> set (cu_decisions plan).
         (cd_action d = NOOP \<longleftrightarrow> cd_replica d = cd_head d)
       \<and> (cd_action d = ADOPT_REPLICA \<longrightarrow> cd_head d = cd_base d \<and> cd_replica d \<noteq> cd_base d))"
proof -
  obtain b h r where p: "plan = finish_catchup cursor head
      (decide_all (cs_generation base) (cs_generation head) tombstones b h r)"
    by (rule plan_cases [OF assms])
  show ?thesis
    by (auto simp: p finish_catchup_def can_apply_def list_ex_iff decide_all_def comp_def three_way_paths_def
        decide_noop_iff dest: decide_adopt)
qed

theorem catchup_plan_sound_witness:
  "\<exists>plan. sample_plan = Inr plan \<and> can_apply plan \<and> sorted (map cd_path (cu_decisions plan))
     \<and> (\<forall>d \<in> set (cu_decisions plan). cd_action d \<noteq> CONFLICT)"
proof -
  obtain plan where run: "sample_plan = Inr plan" and st: "cu_state plan = ''READY''" by (rule sample_plan_run)
  from st have "cu_state plan \<noteq> ''BLOCKED''" and "can_apply plan" by (simp_all add: can_apply_def)
  with catchup_plan_sound [OF run] run show ?thesis by blast
qed

section \<open>Snapshots read back\<close>

text \<open>An entry whose identity every reader accepts.\<close>

definition portable_entry :: "path \<Rightarrow> file_entry \<Rightarrow> bool" where
  "portable_entry p e \<longleftrightarrow> \<not> noncanonical_path p \<and> fe_path e = p \<and> fe_kind e = ''file'' \<and> fe_size e \<ge> 0
     \<and> fe_mtime_ns e \<ge> 0 \<and> (\<exists>m. fe_mode e = Some m \<and> 0 \<le> m \<and> m \<le> 4095)
     \<and> (\<exists>h. fe_sha256 e = Some h \<and> is_sha256_hex h)"

definition portable :: "manifest \<Rightarrow> bool" where
  "portable m \<longleftrightarrow> dict_ok m \<and> (\<forall>p e. dict_get m p = Some e \<longrightarrow> portable_entry p e)"

definition entry_identity :: "file_entry \<Rightarrow> content_identity" where
  "entry_identity e = content_identity (identity_dict e)"

definition identities_of :: "manifest \<Rightarrow> (path, content_identity) dict \<Rightarrow> bool" where
  "identities_of m ids \<longleftrightarrow> (\<forall>p. dict_get ids p = map_option entry_identity (dict_get m p))"

lemma obj_get_identity [simp]:
  "obj_get (identity_dict e) ''kind'' = JStr (fe_kind e)"
  "obj_get (identity_dict e) ''size'' = JInt (fe_size e)"
  "obj_get (identity_dict e) ''mtime_ns'' = JInt (fe_mtime_ns e)"
  "obj_get (identity_dict e) ''sha256'' = json_opt JStr (fe_sha256 e)"
  "obj_get (identity_dict e) ''mode'' = json_opt JInt (fe_mode e)"
  by (simp_all add: obj_get_def identity_dict_def)

lemma entry_identity_alt:
  "entry_identity e = \<lparr>ci_kind = JStr (fe_kind e), ci_size = JInt (fe_size e),
     ci_sha256 = json_opt JStr (fe_sha256 e), ci_mode = json_opt JInt (fe_mode e)\<rparr>"
  by (simp add: entry_identity_def content_identity_def)

lemma validate_portable: "portable_entry p e \<Longrightarrow> validate_identity p (identity_dict e) label = Inr ()"
  by (auto simp: validate_identity_def portable_entry_def nonneg_int_def valid_mode_def sha256_hex_def json_opt_def,
      auto simp: identity_dict_def)

lemma portable_nonempty: "portable_entry p e \<Longrightarrow> p \<noteq> []"
  by (auto simp: portable_entry_def noncanonical_path_def)

lemma snapshot_entries_portable:
  assumes "\<And>p. p \<in> set ps \<Longrightarrow> \<exists>e. dict_get m p = Some e \<and> portable_entry p e"
  shows "snapshot_entries m ps =
    Inr (map (\<lambda>p. (''path'', JStr p) # identity_dict (the (dict_get m p))) ps)"
  using assms
proof (induction ps)
  case (Cons p ps)
  then obtain e where "dict_get m p = Some e" "portable_entry p e" by auto
  with Cons show ?case by (auto simp: portable_entry_def strong_entry_def sha256_hex_def)
qed simp

lemma read_entries_portable:
  assumes "\<And>p. p \<in> set ps \<Longrightarrow> \<exists>e. dict_get m p = Some e \<and> portable_entry p e"
    and "distinct ps" and "set ps \<inter> set (dict_keys acc) = {}"
  shows "read_entries (map (\<lambda>p. (''path'', JStr p) # identity_dict (the (dict_get m p))) ps) acc
    = Inr (acc @ map (\<lambda>p. (p, identity_dict (the (dict_get m p)))) ps)"
  using assms
proof (induction ps arbitrary: acc)
  case (Cons p ps)
  obtain e where e: "dict_get m p = Some e" "portable_entry p e" using Cons.prems(1) [of p] by auto
  have pop: "dict_pop ''path'' (identity_dict e) = identity_dict e"
    by (simp add: identity_dict_def)
  have new: "dict_set p i acc = acc @ [(p, i)]" for i
    using Cons.prems(3) by (intro dict_set_new) auto
  have "read_entries (map (\<lambda>p. (''path'', JStr p) # identity_dict (the (dict_get m p))) ps) (acc @ [(p, identity_dict e)])
      = Inr ((acc @ [(p, identity_dict e)]) @ map (\<lambda>p. (p, identity_dict (the (dict_get m p)))) ps)"
    using Cons.prems by (intro Cons.IH) auto
  with e Cons.prems show ?case
    by (simp add: pop new validate_portable portable_nonempty)
qed simp

lemma portable_keys:
  assumes "portable m" and "p \<in> set (sorted_set (dict_keys m))"
  shows "\<exists>e. dict_get m p = Some e \<and> portable_entry p e"
  using assms dict_key_iff [of p m] by (auto simp: portable_def)

lemma digest_agrees:
  "identity_manifest_digest digest (map (\<lambda>p. (p, identity_dict (the (dict_get m p)))) (sorted_set (dict_keys m)))
   = strong_manifest_digest digest m"
proof -
  let ?ks = "sorted_set (dict_keys m)"
  let ?ids = "map (\<lambda>p. (p, identity_dict (the (dict_get m p)))) ?ks"
  have keys: "sorted_set (dict_keys ?ids) = ?ks"
    by (rule sorted_set_cong) (simp add: comp_def)
  have "map (\<lambda>p. (p, content_identity (case dict_get ?ids p of Some i \<Rightarrow> i | None \<Rightarrow> []))) ?ks
      = map (\<lambda>p. (p, entry_identity (the (dict_get m p)))) ?ks"
    by (rule map_cong) (auto simp: dict_get_pairs entry_identity_def)
  also have "\<dots> = List.map_filter (\<lambda>p. map_option (\<lambda>e. (p, entry_identity e)) (dict_get m p)) ?ks"
  proof -
    have "\<forall>p \<in> set ks. dict_get m p \<noteq> None \<Longrightarrow> map (\<lambda>p. (p, entry_identity (the (dict_get m p)))) ks
        = List.map_filter (\<lambda>p. map_option (\<lambda>e. (p, entry_identity e)) (dict_get m p)) ks" for ks
      by (induction ks) (auto simp: map_filter_simps)
    then show ?thesis by (simp add: dict_get_None_iff)
  qed
  finally show ?thesis
    unfolding identity_manifest_digest_def strong_manifest_digest_def keys by (simp add: entry_identity_alt)
qed

lemma generation_rules_agree: "snapshot_generation_error g parent = None \<longleftrightarrow> bad_generation g parent = None"
  by (auto simp: snapshot_generation_error_def bad_generation_def)

lemma snapshot_roundtrip:
  assumes "build_canonical_snapshot digest m g parent policy = Inr s" and "portable m"
    and "\<And>rs. is_sha256_hex (digest rs)"
  shows "\<exists>ids. snapshot_identities digest s = Inr ids \<and> identities_of m ids"
proof -
  let ?ks = "sorted_set (dict_keys m)"
  let ?ids = "map (\<lambda>p. (p, identity_dict (the (dict_get m p)))) ?ks"
  have e: "snapshot_entries m ?ks = Inr (map (\<lambda>p. (''path'', JStr p) # identity_dict (the (dict_get m p))) ?ks)"
    by (rule snapshot_entries_portable) (rule portable_keys [OF assms(2)])
  have r: "read_entries (map (\<lambda>p. (''path'', JStr p) # identity_dict (the (dict_get m p))) ?ks) [] = Inr ?ids"
    using read_entries_portable [of ?ks m "[]", OF portable_keys [OF assms(2)]] by simp
  from assms(1) have g: "bad_generation g parent = None" and pol: "is_sha256_hex policy"
    by (auto simp: build_canonical_snapshot_def sha256_hex_def split: option.splits if_splits sum.splits)
  from assms(1) e g have s: "s = \<lparr>cs_format = ''remrun-canonical-snapshot-v1'', cs_generation = g,
      cs_parent_generation = parent, cs_policy_sha256 = policy, cs_manifest_sha256 = strong_manifest_digest digest m,
      cs_entries = map (\<lambda>p. (''path'', JStr p) # identity_dict (the (dict_get m p))) ?ks\<rparr>"
    by (auto simp: build_canonical_snapshot_def split: sum.splits)
  have "is_sha256_hex (strong_manifest_digest digest m)" using assms(3) by (simp add: strong_manifest_digest_def)
  then have "snapshot_identities digest s = Inr (map (\<lambda>(p, i). (p, content_identity i)) ?ids)"
    using g pol r digest_agrees [of digest m] generation_rules_agree [of g parent] by (simp add: snapshot_identities_def s)
  moreover have "identities_of m (map (\<lambda>(p, i). (p, content_identity i)) ?ids)"
  proof -
    have m: "map (\<lambda>(p, i). (p, content_identity i)) ?ids = map (\<lambda>p. (p, entry_identity (the (dict_get m p)))) ?ks"
      by (simp add: entry_identity_def)
    have "dict_get (map (\<lambda>(p, i). (p, content_identity i)) ?ids) p = map_option entry_identity (dict_get m p)" for p
      unfolding m dict_get_pairs set_sorted_set using dict_key_iff [of p m] by (cases "dict_get m p") auto
    then show ?thesis by (simp add: identities_of_def)
  qed
  ultimately show ?thesis by blast
qed

lemma strong_identities_portable:
  assumes "dict_ok m" and "\<And>p e. (p, e) \<in> set m \<Longrightarrow> portable_entry p e" and "set (dict_keys m) \<inter> set (dict_keys acc) = {}"
  shows "strong_identities m acc = Inr (acc @ map (\<lambda>(p, e). (p, entry_identity e)) m)"
  using assms
proof (induction m arbitrary: acc)
  case (Cons a m)
  obtain p e where a: "a = (p, e)" by (cases a)
  have pe: "portable_entry p e" using Cons.prems(2) a by simp
  have "strong_identities m (acc @ [(p, entry_identity e)]) = Inr ((acc @ [(p, entry_identity e)]) @ map (\<lambda>(p, e). (p, entry_identity e)) m)"
    using Cons.prems a by (intro Cons.IH) (auto simp: image_iff)
  moreover have "dict_set p i acc = acc @ [(p, i)]" for i
    using Cons.prems(3) a by (intro dict_set_new) auto
  ultimately show ?case
    using pe validate_portable [OF pe] by (auto simp: a portable_entry_def strong_entry_def entry_identity_def)
qed simp

lemma manifest_identities:
  assumes "portable m"
  shows "\<exists>ids. strong_manifest_identities m = Inr ids \<and> identities_of m ids"
proof -
  have "portable_entry p e" if "(p, e) \<in> set m" for p e
    using assms that map_of_is_SomeI [of m p e] by (auto simp: portable_def)
  with assms have "strong_manifest_identities m = Inr (map (\<lambda>(p, e). (p, entry_identity e)) m)"
    unfolding strong_manifest_identities_def portable_def by (subst strong_identities_portable) auto
  moreover have "identities_of m (map (\<lambda>(p, e). (p, entry_identity e)) m)"
    unfolding identities_of_def by (simp add: dict_get_map)
  ultimately show ?thesis by blast
qed

text \<open>
  a snapshot reads back.  The record that \<open>build_canonical_snapshot\<close> writes for a portable
  manifest is accepted by \<open>_snapshot_identities\<close>, digest check included, and yields exactly
  the content identities that \<open>_strong_manifest_identities\<close> computes from the manifest.
\<close>

theorem canonical_snapshot_roundtrip:
  assumes "build_canonical_snapshot digest m g parent policy = Inr s" and "portable m"
    and "\<And>rs. is_sha256_hex (digest rs)"
  shows "\<exists>ids ids'. snapshot_identities digest s = Inr ids \<and> strong_manifest_identities m = Inr ids'
    \<and> (\<forall>p. dict_get ids p = dict_get ids' p)"
  using snapshot_roundtrip [OF assms] manifest_identities [OF assms(2)] by (auto simp: identities_of_def)

lemma portable_samples: "portable old_tree" "portable new_tree"
proof -
  have "portable_entry p (strong_sample p n c)" if "p \<in> {''a'', ''b''}" "n \<ge> 0" "c \<in> {CHR ''1'', CHR ''2'', CHR ''3''}" for p n c
    using that by (auto simp: portable_entry_def strong_sample_def noncanonical_path_def is_sha256_hex_def hex_lower_def list_all_iff)
  then show "portable old_tree" "portable new_tree"
    by (auto simp: portable_def old_tree_def new_tree_def split: if_splits)
qed

lemma replica_digest_hex: "is_sha256_hex replica_digest"
  by code_simp

theorem canonical_snapshot_roundtrip_witness:
  "\<exists>ids. snapshot_identities (\<lambda>_. replica_digest) (sample_snapshot old_tree 0 None) = Inr ids"
proof -
  have "build_canonical_snapshot (\<lambda>_. replica_digest) old_tree 0 None replica_digest = Inr (sample_snapshot old_tree 0 None)"
    by code_simp
  from canonical_snapshot_roundtrip [OF this portable_samples(1) replica_digest_hex] show ?thesis by blast
qed

section \<open>Fast-forward\<close>

lemma tombstones_for_portable:
  assumes "\<And>p. p \<in> set ps \<Longrightarrow> \<exists>e. dict_get m p = Some e \<and> portable_entry p e"
  shows "tombstones_for m gen txn ps = Inr (map (\<lambda>p. \<lparr>te_path = p, te_deleted_generation = gen,
    te_prior_identity = identity_dict (the (dict_get m p)), te_deleted_by_txn_id = txn\<rparr>) ps)"
  using assms
proof (induction ps)
  case (Cons p ps)
  obtain e where "dict_get m p = Some e" "portable_entry p e" using Cons.prems [of p] by auto
  with Cons show ?case by (auto simp: portable_entry_def)
qed simp

lemma valid_history_portable:
  assumes "\<And>p. p \<in> set ps \<Longrightarrow> \<exists>e. dict_get m p = Some e \<and> portable_entry p e"
    and "distinct ps" and "\<And>p. p \<in> set ps \<Longrightarrow> (p, gen) \<notin> set seen"
    and "0 < gen" and "gen \<le> hg" and "txn \<noteq> []"
  shows "valid_history hg seen (map (\<lambda>p. \<lparr>te_path = p, te_deleted_generation = gen,
    te_prior_identity = identity_dict (the (dict_get m p)), te_deleted_by_txn_id = txn\<rparr>) ps)"
  using assms(1-3)
proof (induction ps arbitrary: seen)
  case (Cons p ps)
  obtain e where e: "dict_get m p = Some e" "portable_entry p e" using Cons.prems(1) [of p] by auto
  have "valid_history hg ((p, gen) # seen) (map (\<lambda>p. \<lparr>te_path = p, te_deleted_generation = gen,
    te_prior_identity = identity_dict (the (dict_get m p)), te_deleted_by_txn_id = txn\<rparr>) ps)"
    using Cons.prems by (intro Cons.IH) auto
  with e Cons.prems(3) assms(4-6) show ?case by (simp add: validate_portable)
qed simp

lemma decide_fast_forward:
  assumes "h = None \<and> b \<noteq> None \<longrightarrow> (\<exists>e \<in> set ev. ack < te_deleted_generation e \<and> te_deleted_generation e \<le> hg
     \<and> Some (content_identity (te_prior_identity e)) = b)"
  shows "cd_action (decide ack hg ev p b h b) = (if b = h then NOOP else APPLY_HEAD)"
  using assms by (auto simp: decide_def Let_def filter_empty_conv)

lemma deletion_tombstones_portable:
  assumes "deletion_tombstones parent cur gen txn = Inr ts" and "portable parent"
  shows "valid_history gen [] ts"
    and "\<And>p e. dict_get parent p = Some e \<Longrightarrow> dict_get cur p = None \<Longrightarrow>
      \<exists>t \<in> set ts. te_path t = p \<and> te_deleted_generation t = gen \<and> te_prior_identity t = identity_dict e"
proof -
  let ?ps = "sorted_set (filter (\<lambda>p. p \<notin> set (dict_keys cur)) (dict_keys parent))"
  have here: "\<exists>e. dict_get parent p = Some e \<and> portable_entry p e" if "p \<in> set ?ps" for p
    using that portable_keys [OF assms(2), of p] by simp
  from assms(1) have ts: "tombstones_for parent gen txn ?ps = Inr ts" and g: "0 < gen" "txn \<noteq> []"
    by (auto simp: deletion_tombstones_def split: if_splits)
  then have eq: "ts = map (\<lambda>p. \<lparr>te_path = p, te_deleted_generation = gen,
    te_prior_identity = identity_dict (the (dict_get parent p)), te_deleted_by_txn_id = txn\<rparr>) ?ps"
    using tombstones_for_portable [of ?ps parent gen txn] here by simp
  show "valid_history gen [] ts" unfolding eq by (rule valid_history_portable [OF here]) (use g in auto)
  show "\<exists>t \<in> set ts. te_path t = p \<and> te_deleted_generation t = gen \<and> te_prior_identity t = identity_dict e"
    if "dict_get parent p = Some e" "dict_get cur p = None" for p e
  proof -
    have "p \<in> set ?ps" using that dict_key_iff [of p parent] dict_get_None_iff [of cur p] by auto
    with that show ?thesis unfolding eq by auto
  qed
qed

lemma clean_replica_not_blocked:
  assumes "rc_state cursor \<notin> {''UNVERIFIED'', ''RETIRED''}"
    and "rc_ack_generation cursor = Some (cs_generation base)"
    and "rc_ack_manifest_sha256 cursor = Some (cs_manifest_sha256 base)"
    and "cs_policy_sha256 base = policy" and "cs_policy_sha256 head = policy"
    and "cs_generation base \<le> cs_generation head"
  shows "catchup_block cursor base head policy = None"
  using assms by (simp add: catchup_block_def)

lemma build_fields:
  assumes "build_canonical_snapshot digest m g parent policy = Inr s"
  shows "cs_generation s = g" "cs_policy_sha256 s = policy" "is_sha256_hex policy"
  using assms
  by (auto simp: build_canonical_snapshot_def sha256_hex_def split: option.splits sum.splits if_splits)

text \<open>
  a clean replica always fast-forwards.  Let the base be the snapshot of a portable
  manifest, the head the snapshot of a later one, and the tombstones what
  \<open>deletion_tombstones\<close> records between them.  A verified replica that acknowledged the base
  and still holds its content gets a READY plan, in which every path is left alone if it is
  equal in the head and is replaced by the head otherwise; deletions included.
\<close>

theorem catchup_fast_forward:
  assumes base: "build_canonical_snapshot digest parent g gp policy = Inr b"
    and head: "build_canonical_snapshot digest cur g' gp' policy = Inr h"
    and later: "g < g'" and port: "portable parent" "portable cur"
    and ts: "deletion_tombstones parent cur g' txn = Inr tombstones"
    and hex: "\<And>rs. is_sha256_hex (digest rs)"
    and state: "rc_state cursor \<notin> {''UNVERIFIED'', ''RETIRED''}"
    and ack: "rc_ack_generation cursor = Some g" "rc_ack_manifest_sha256 cursor = Some (cs_manifest_sha256 b)"
  shows "\<exists>plan. plan_replica_catchup digest cursor b h parent tombstones policy = Inr plan \<and> can_apply plan
    \<and> (\<forall>d \<in> set (cu_decisions plan). cd_action d = (if cd_replica d = cd_head d then NOOP else APPLY_HEAD))"
proof -
  obtain bi hi ri where ids: "snapshot_identities digest b = Inr bi" "identities_of parent bi"
    "snapshot_identities digest h = Inr hi" "identities_of cur hi"
    "strong_manifest_identities parent = Inr ri" "identities_of parent ri"
    using snapshot_roundtrip [OF base port(1) hex] snapshot_roundtrip [OF head port(2) hex]
      manifest_identities [OF port(1)] by blast
  note bf = build_fields [OF base] and hf = build_fields [OF head]
  have nb: "catchup_block cursor b h policy = None"
    using state ack bf hf later by (intro clean_replica_not_blocked) simp_all
  let ?ds = "decide_all g g' tombstones bi hi ri"
  have act: "cd_action (decide g g' (path_events tombstones p) p (dict_get bi p) (dict_get hi p) (dict_get ri p))
      = (if dict_get ri p = dict_get hi p then NOOP else APPLY_HEAD)" for p
  proof -
    have eq: "dict_get ri p = dict_get bi p" using ids(2,6) by (simp add: identities_of_def)
    have "\<exists>e \<in> set (path_events tombstones p). g < te_deleted_generation e \<and> te_deleted_generation e \<le> g'
        \<and> Some (content_identity (te_prior_identity e)) = dict_get bi p"
      if "dict_get hi p = None" "dict_get bi p \<noteq> None"
    proof -
      from that ids(2,4) obtain e where e: "dict_get parent p = Some e" "dict_get cur p = None"
        by (auto simp: identities_of_def)
      from deletion_tombstones_portable(2) [OF ts port(1) this] ids(2) later e show ?thesis
        by (auto simp: set_path_events identities_of_def entry_identity_def)
    qed
    then show ?thesis unfolding eq by (intro decide_fast_forward) blast
  qed
  have plan: "plan_replica_catchup digest cursor b h parent tombstones policy = Inr (finish_catchup cursor h ?ds)"
    using nb ids(1,3,5) deletion_tombstones_portable(1) [OF ts port(1)] bf hf
    by (simp add: plan_replica_catchup_def sha256_hex_def)
  show ?thesis
    by (rule exI [of _ "finish_catchup cursor h ?ds"])
       (auto simp: plan can_apply_def finish_catchup_def list_ex_iff decide_all_def act)
qed

theorem catchup_fast_forward_witness:
  "\<exists>plan. sample_plan = Inr plan \<and> can_apply plan"
proof -
  have b: "build_canonical_snapshot (\<lambda>_. replica_digest) old_tree 0 None replica_digest = Inr (sample_snapshot old_tree 0 None)"
    and h: "build_canonical_snapshot (\<lambda>_. replica_digest) new_tree 1 (Some 0) replica_digest = Inr (sample_snapshot new_tree 1 (Some 0))"
    and t: "deletion_tombstones old_tree new_tree 1 ''t'' = Inr [sample_tombstone]"
    by code_simp+
  have "cs_manifest_sha256 (sample_snapshot old_tree 0 None) = replica_digest" by code_simp
  then have a: "rc_ack_manifest_sha256 (sample_cursor 0) = Some (cs_manifest_sha256 (sample_snapshot old_tree 0 None))"
    by (simp add: sample_cursor_def)
  have "rc_state (sample_cursor 0) \<notin> {''UNVERIFIED'', ''RETIRED''}" and "rc_ack_generation (sample_cursor 0) = Some 0"
    by (simp_all add: sample_cursor_def)
  from catchup_fast_forward [OF b h _ portable_samples t replica_digest_hex this a] show ?thesis by auto
qed

end
