(* ===== verification/TargetResources.thy ===== *)
theory TargetResources
  imports Json
begin

text \<open>
  Exclusive target resources (\<open>src/remrun/remote/runner.py\<close>): the policy document, the
  allocation table with its state machine, the hold table and the fence, and every operation
  on them, each run inside one transaction of \<open>participant_rpc\<close> or
  \<open>_resource_owner_mutation\<close>.  What an operation observes of the machine (boot identity,
  clocks, fresh randomness, the state of a process tree, SHA-256) is an argument of it.
\<close>

section \<open>Tables\<close>

datatype alloc_state = RESERVED | CLAIMED | QUARANTINED | RELEASED | EXPIRED | CANCELLED | REBOOTED

datatype start_state = StartNo | StartMaybe | StartYes

datatype cleanup = Live | Gone | Unknown

record resource_owner =
  ow_kind :: string
  ow_key :: string
  ow_pid :: int
  ow_start_id :: string
  ow_root_pid :: int
  ow_root_start_id :: string

record allocation =
  al_id :: string
  al_operation_id :: string
  al_request_sha256 :: string
  al_spec_sha256 :: string
  al_keys :: "string list"
  al_policy_generation :: int
  al_policy_digest :: string
  al_fence :: int
  al_token_sha256 :: string
  al_state :: alloc_state
  al_reservation_boot :: string
  al_reserved_mono :: int
  al_expires_mono :: int
  al_claim_boot :: "string option"
  al_claimed_mono :: "int option"
  al_owner :: "resource_owner option"
  al_user :: "(int \<times> string) option"
  al_start :: start_state
  al_terminal_reason :: "string option"
  al_updated :: int

text \<open>The policy row: the document is determined by its generation and its sorted keys.\<close>

record policy_row =
  po_generation :: int
  po_digest :: string
  po_keys :: "string list"

record resource_db =
  rd_policy :: "policy_row option"
  rd_last_fence :: int
  rd_allocations :: "(string, allocation) dict"
  rd_holds :: "(string, string \<times> int) dict"

record target_env =
  en_boot :: string
  en_mono :: int
  en_now :: int
  en_token :: string
  en_cleanup :: "allocation \<Rightarrow> cleanup"
  en_terminate :: "allocation \<Rightarrow> bool"
  en_sha256 :: "string \<Rightarrow> string"
  en_spec_sha256 :: "string \<times> string \<times> string \<times> string list \<times> int \<times> string \<Rightarrow> string"
  en_policy_sha256 :: "int \<Rightarrow> string list \<Rightarrow> string"

type_synonym request = "(string, json) dict"

datatype runner_error = RunnerError string | IntegrityError | ValueError | OSError

definition RESOURCE_RESERVATION_NS :: int where
  "RESOURCE_RESERVATION_NS = 30000000000"

definition MAX_RESOURCE_FENCE :: int where
  "MAX_RESOURCE_FENCE = 2 ^ 63 - 1"

definition EMPTY_RESOURCE_POLICY_DIGEST :: string where
  "EMPTY_RESOURCE_POLICY_DIGEST = replicate 64 (CHR ''0'')"

definition empty_resource_db :: resource_db where
  "empty_resource_db = \<lparr>rd_policy = None, rd_last_fence = 0, rd_allocations = [], rd_holds = []\<rparr>"

section \<open>Validation\<close>

definition bounded_resource_text :: "json option \<Rightarrow> string \<Rightarrow> nat \<Rightarrow> runner_error + string" where
  "bounded_resource_text v label limit =
     (case json_str v of
        Some s \<Rightarrow> if s = [] \<or> length s > limit \<or> CHR 0x00 \<in> set s then Inl (RunnerError (label @ '' is invalid'')) else Inr s
      | None \<Rightarrow> Inl (RunnerError (label @ '' is invalid'')))"

definition resource_sha256 :: "json option \<Rightarrow> string \<Rightarrow> runner_error + string" where
  "resource_sha256 v label =
     (case json_str v of
        Some s \<Rightarrow> if is_sha256_hex s then Inr s else Inl (RunnerError (label @ '' must be a lowercase SHA-256''))
      | None \<Rightarrow> Inl (RunnerError (label @ '' must be a lowercase SHA-256'')))"

definition alnum :: "char \<Rightarrow> bool" where
  "alnum c \<longleftrightarrow> (CHR ''A'' \<le> c \<and> c \<le> CHR ''Z'') \<or> (CHR ''a'' \<le> c \<and> c \<le> CHR ''z'') \<or> (CHR ''0'' \<le> c \<and> c \<le> CHR ''9'')"

text \<open>\<open>RESOURCE_KEY_RE\<close>: an alphanumeric character and up to 127 more of the key alphabet.\<close>

definition resource_key_re :: "string \<Rightarrow> bool" where
  "resource_key_re k \<longleftrightarrow>
     (case k of [] \<Rightarrow> False
      | c # cs \<Rightarrow> alnum c \<and> length cs \<le> 127 \<and> list_all (\<lambda>c. alnum c \<or> c \<in> set ''._:/-'') cs)"

fun key_list :: "json list \<Rightarrow> string list option" where
  "key_list [] = Some []"
| "key_list (v # vs) =
     (case v of
        JStr k \<Rightarrow> if resource_key_re k then map_option (Cons k) (key_list vs) else None
      | _ \<Rightarrow> None)"

definition resource_keys :: "json option \<Rightarrow> runner_error + string list" where
  "resource_keys v =
     (case v of
        Some (JList vs) \<Rightarrow>
          if length vs > 64 then Inl (RunnerError ''resource_keys must be a bounded array'')
          else (case key_list vs of
              None \<Rightarrow> Inl (RunnerError ''resource key is invalid'')
            | Some ks \<Rightarrow>
                if \<not> distinct ks then Inl (RunnerError ''duplicate resource key'') else Inr (sort ks))
      | _ \<Rightarrow> Inl (RunnerError ''resource_keys must be a bounded array''))"

text \<open>One resource of a policy document.\<close>

definition policy_key :: "string list \<Rightarrow> json \<Rightarrow> runner_error + string" where
  "policy_key seen v =
     (case v of
        JObj r \<Rightarrow>
          if set (dict_keys r) \<noteq> {''key'', ''capacity''}
          then Inl (RunnerError ''target resource policy resource is malformed'')
          else (case json_str (dict_get r ''key'') of
              None \<Rightarrow> Inl (RunnerError ''target resource policy key is invalid'')
            | Some k \<Rightarrow>
                if \<not> resource_key_re k then Inl (RunnerError ''target resource policy key is invalid'')
                else if k \<in> set seen then Inl (RunnerError ''duplicate target resource policy key'')
                else if dict_get r ''capacity'' \<noteq> Some (JInt 1)
                then Inl (RunnerError ''target resource policy capacity must be exactly 1'')
                else Inr k)
      | _ \<Rightarrow> Inl (RunnerError ''target resource policy resource is malformed''))"

fun policy_keys :: "json list \<Rightarrow> string list \<Rightarrow> runner_error + string list" where
  "policy_keys [] seen = Inr []"
| "policy_keys (v # vs) seen =
     (case policy_key seen v of
        Inl e \<Rightarrow> Inl e
      | Inr k \<Rightarrow> (case policy_keys vs (k # seen) of Inl e \<Rightarrow> Inl e | Inr ks \<Rightarrow> Inr (k # ks)))"

definition canonical_resource_policy :: "json option \<Rightarrow> runner_error + int \<times> string list" where
  "canonical_resource_policy v =
     (case v of
        Some (JObj d) \<Rightarrow>
          if set (dict_keys d) \<noteq> {''schema'', ''version'', ''generation'', ''resources''}
          then Inl (RunnerError ''target resource policy has unknown or missing fields'')
          else if \<not> eq_str (dict_get d ''schema'') ''remrun.target-resource-policy'' \<or> \<not> eq_num (dict_get d ''version'') 1
          then Inl (RunnerError ''target resource policy schema/version is unsupported'')
          else (case strict_int (dict_get d ''generation'') of
              None \<Rightarrow> Inl (RunnerError ''target resource policy generation is invalid'')
            | Some g \<Rightarrow>
                if g < 1 then Inl (RunnerError ''target resource policy generation is invalid'')
                else (case dict_get d ''resources'' of
                    Some (JList rs) \<Rightarrow>
                      if rs = [] \<or> length rs > 256
                      then Inl (RunnerError ''target resource policy resources are invalid'')
                      else (case policy_keys rs [] of
                          Inl e \<Rightarrow> Inl e
                        | Inr ks \<Rightarrow> Inr (g, sort ks))
                  | _ \<Rightarrow> Inl (RunnerError ''target resource policy resources are invalid'')))
      | _ \<Rightarrow> Inl (RunnerError ''target resource policy has unknown or missing fields''))"

section \<open>Receipts and responses\<close>

record receipt =
  rp_allocation_id :: string
  rp_operation_id :: string
  rp_request_sha256 :: string
  rp_keys :: "string list"
  rp_policy_generation :: int
  rp_policy_digest :: string
  rp_fence :: int
  rp_target_boot :: string
  rp_expires_mono :: int
  rp_state :: alloc_state
  rp_start :: start_state
  rp_owner :: "(resource_owner \<times> (int \<times> string) option) option"
  rp_terminal_reason :: "string option"
  rp_updated :: int

definition resource_receipt :: "allocation \<Rightarrow> string \<Rightarrow> receipt" where
  "resource_receipt row boot_id =
     \<lparr>rp_allocation_id = al_id row, rp_operation_id = al_operation_id row,
      rp_request_sha256 = al_request_sha256 row, rp_keys = al_keys row,
      rp_policy_generation = al_policy_generation row, rp_policy_digest = al_policy_digest row,
      rp_fence = al_fence row, rp_target_boot = boot_id, rp_expires_mono = al_expires_mono row,
      rp_state = al_state row, rp_start = al_start row,
      rp_owner = map_option (\<lambda>ow. (ow, al_user row)) (al_owner row),
      rp_terminal_reason = al_terminal_reason row, rp_updated = al_updated row\<rparr>"

fun state_word :: "alloc_state \<Rightarrow> string" where
  "state_word RESERVED = ''reserved''"
| "state_word CLAIMED = ''claimed''"
| "state_word QUARANTINED = ''quarantined''"
| "state_word RELEASED = ''released''"
| "state_word EXPIRED = ''expired''"
| "state_word CANCELLED = ''cancelled''"
| "state_word REBOOTED = ''rebooted''"

datatype response =
    PolicyStatus "policy_row option" bool
  | PolicyInstalled int string bool
  | ResourceBusy "string list"
  | WithReceipt string "string option" receipt

type_synonym 'a res_op = "resource_db \<Rightarrow> runner_error + 'a \<times> resource_db"

section \<open>The policy\<close>

definition resource_policy_get :: "response res_op" where
  "resource_policy_get db =
     Inr (case rd_policy db of
            None \<Rightarrow> PolicyStatus None False
          | Some row \<Rightarrow> PolicyStatus (Some row) (rd_holds db \<noteq> []), db)"

definition resource_policy_install :: "target_env \<Rightarrow> request \<Rightarrow> response res_op" where
  "resource_policy_install env body db =
     (case canonical_resource_policy (dict_get body ''policy_document'') of
        Inl e \<Rightarrow> Inl e
      | Inr (g, ks) \<Rightarrow>
          (let digest = en_policy_sha256 env g ks;
               row = \<lparr>po_generation = g, po_digest = digest, po_keys = ks\<rparr>;
               install = Inr (PolicyInstalled g digest False, db\<lparr>rd_policy := Some row\<rparr>)
           in (case resource_sha256 (dict_get body ''supplied_digest'') ''supplied policy digest'' of
                 Inl e \<Rightarrow> Inl e
               | Inr supplied \<Rightarrow>
                   if supplied \<noteq> digest then Inl (RunnerError ''supplied target resource policy digest mismatch'')
                   else (case rd_policy db of
                       None \<Rightarrow>
                         if \<not> json_none (dict_get body ''expected_generation'') \<or> \<not> json_none (dict_get body ''expected_digest'')
                         then Inl (RunnerError ''first target resource policy install must expect no policy'')
                         else if g \<noteq> 1 then Inl (RunnerError ''first target resource policy generation must be generation 1'')
                         else install
                     | Some cur \<Rightarrow>
                         if g = po_generation cur \<and> digest = po_digest cur \<and> ks = po_keys cur
                         then Inr (PolicyInstalled g digest True, db)
                         else if g = po_generation cur
                         then Inl (RunnerError ''target resource policy generation has conflicting content'')
                         else if \<not> eq_num (dict_get body ''expected_generation'') (po_generation cur)
                              \<or> \<not> eq_str (dict_get body ''expected_digest'') (po_digest cur)
                         then Inl (RunnerError ''target resource policy expected head mismatch'')
                         else if g \<noteq> po_generation cur + 1
                         then Inl (RunnerError ''target resource policy generation must advance by exactly one'')
                         else if rd_holds db \<noteq> []
                         then Inl (RunnerError ''target resource policy cannot change while holds are active'')
                         else install))))"

section \<open>Rows\<close>

definition alloc_row :: "resource_db \<Rightarrow> string \<Rightarrow> allocation option" where
  "alloc_row db i = dict_get (rd_allocations db) i"

definition update_row :: "string \<Rightarrow> (allocation \<Rightarrow> allocation) \<Rightarrow> resource_db \<Rightarrow> resource_db" where
  "update_row i f db =
     (case alloc_row db i of
        None \<Rightarrow> db
      | Some row \<Rightarrow> db\<lparr>rd_allocations := dict_set i (f row) (rd_allocations db)\<rparr>)"

definition drop_holds :: "string \<Rightarrow> resource_db \<Rightarrow> resource_db" where
  "drop_holds i db = db\<lparr>rd_holds := filter (\<lambda>(k, h). fst h \<noteq> i) (rd_holds db)\<rparr>"

definition terminalize_resource :: "target_env \<Rightarrow> string \<Rightarrow> alloc_state \<Rightarrow> string \<Rightarrow> resource_db \<Rightarrow> resource_db" where
  "terminalize_resource env i st reason db =
     update_row i (\<lambda>row. row\<lparr>al_state := st, al_terminal_reason := Some reason, al_updated := en_now env\<rparr>)
       (drop_holds i db)"

text \<open>\<open>UPDATE ... SET state='QUARANTINED' WHERE state='CLAIMED'\<close>\<close>

definition quarantine_row :: "target_env \<Rightarrow> string \<Rightarrow> string \<Rightarrow> resource_db \<Rightarrow> resource_db" where
  "quarantine_row env i reason =
     update_row i (\<lambda>row. if al_state row = CLAIMED
       then row\<lparr>al_state := QUARANTINED, al_terminal_reason := Some reason, al_updated := en_now env\<rparr> else row)"

definition active :: "alloc_state \<Rightarrow> bool" where
  "active st \<longleftrightarrow> st \<in> {RESERVED, CLAIMED, QUARANTINED}"

definition active_boot :: "allocation \<Rightarrow> string option" where
  "active_boot row = (if al_state row \<in> {CLAIMED, QUARANTINED} then al_claim_boot row else Some (al_reservation_boot row))"

definition reconcile_row :: "target_env \<Rightarrow> allocation \<Rightarrow> resource_db \<Rightarrow> resource_db" where
  "reconcile_row env row db =
     (if active_boot row \<noteq> Some (en_boot env) then terminalize_resource env (al_id row) REBOOTED ''target_rebooted'' db
      else if al_state row = RESERVED \<and> en_mono env \<ge> al_expires_mono row
      then terminalize_resource env (al_id row) EXPIRED ''reservation_expired'' db
      else if al_state row \<in> {CLAIMED, QUARANTINED} then
        (case en_cleanup env row of
           Gone \<Rightarrow> terminalize_resource env (al_id row) RELEASED ''process_tree_exited'' db
         | Unknown \<Rightarrow>
             if al_state row = CLAIMED then quarantine_row env (al_id row) ''process_cleanup_unverified'' db else db
         | Live \<Rightarrow> db)
      else db)"

definition reconcile_resources :: "target_env \<Rightarrow> resource_db \<Rightarrow> resource_db" where
  "reconcile_resources env db =
     fold (reconcile_row env) (filter (\<lambda>row. active (al_state row)) (map snd (rd_allocations db))) db"

definition require_resource_policy ::
  "resource_db \<Rightarrow> json option \<Rightarrow> string \<Rightarrow> runner_error + string list" where
  "require_resource_policy db generation digest =
     (case rd_policy db of
        None \<Rightarrow> Inl (RunnerError ''target resource policy is not installed'')
      | Some row \<Rightarrow>
          if \<not> eq_num generation (po_generation row) \<or> digest \<noteq> po_digest row
          then Inl (RunnerError ''target resource policy identity mismatch'')
          else Inr (po_keys row))"

section \<open>Reserving\<close>

definition new_allocation ::
  "target_env \<Rightarrow> string \<Rightarrow> string \<Rightarrow> string \<Rightarrow> string \<Rightarrow> string list \<Rightarrow> int \<Rightarrow> string \<Rightarrow> int \<Rightarrow> allocation" where
  "new_allocation env i op_id req spec keys g digest fence =
     \<lparr>al_id = i, al_operation_id = op_id, al_request_sha256 = req, al_spec_sha256 = spec, al_keys = keys,
      al_policy_generation = g, al_policy_digest = digest, al_fence = fence,
      al_token_sha256 = en_sha256 env (en_token env), al_state = RESERVED,
      al_reservation_boot = en_boot env, al_reserved_mono = en_mono env,
      al_expires_mono = en_mono env + RESOURCE_RESERVATION_NS, al_claim_boot = None, al_claimed_mono = None,
      al_owner = None, al_user = None, al_start = StartNo, al_terminal_reason = None, al_updated = en_now env\<rparr>"

definition busy_keys :: "resource_db \<Rightarrow> string list \<Rightarrow> string list" where
  "busy_keys db keys = sort (filter (\<lambda>k. k \<in> set keys) (dict_keys (rd_holds db)))"

definition insert_allocation :: "allocation \<Rightarrow> resource_db \<Rightarrow> resource_db" where
  "insert_allocation row db =
     db\<lparr>rd_last_fence := al_fence row,
        rd_allocations := dict_set (al_id row) row (rd_allocations db),
        rd_holds := fold (\<lambda>k. dict_set k (al_id row, al_fence row)) (al_keys row) (rd_holds db)\<rparr>"

text \<open>The insertion after the idempotency and busy checks: the \<open>UNIQUE\<close> constraint on tokens may fail.\<close>

definition reserve_new ::
  "target_env \<Rightarrow> string \<Rightarrow> string \<Rightarrow> string \<Rightarrow> string \<Rightarrow> string list \<Rightarrow> int \<Rightarrow> string \<Rightarrow> response res_op" where
  "reserve_new env i op_id req spec keys g digest db =
     (if rd_last_fence db \<ge> MAX_RESOURCE_FENCE then Inl (RunnerError ''target resource fence exhausted'')
      else if list_ex (\<lambda>row. al_token_sha256 row = en_sha256 env (en_token env)) (map snd (rd_allocations db))
      then Inl IntegrityError
      else (let row = new_allocation env i op_id req spec keys g digest (rd_last_fence db + 1)
            in Inr (WithReceipt ''reserved'' (Some (en_token env)) (resource_receipt row (en_boot env)),
                    insert_allocation row db)))"

definition reserve_checked ::
  "target_env \<Rightarrow> string \<Rightarrow> string \<Rightarrow> string \<Rightarrow> string list \<Rightarrow> int \<Rightarrow> string \<Rightarrow> response res_op" where
  "reserve_checked env i op_id req keys g digest db =
     (let spec = en_spec_sha256 env (i, op_id, req, keys, g, digest)
      in (case alloc_row db i of
            Some prior \<Rightarrow>
              if al_spec_sha256 prior \<noteq> spec
              then Inl (RunnerError ''allocation_id reused with different immutable fields'')
              else Inr (WithReceipt ''allocation_exists'' None (resource_receipt prior (en_boot env)), db)
          | None \<Rightarrow>
              if busy_keys db keys \<noteq> [] then Inr (ResourceBusy (busy_keys db keys), db)
              else reserve_new env i op_id req spec keys g digest db))"

definition reserve_policy_error ::
  "resource_db \<Rightarrow> string list \<Rightarrow> int \<Rightarrow> string \<Rightarrow> runner_error option" where
  "reserve_policy_error db keys g digest =
     (if keys \<noteq> [] then
        (case require_resource_policy db (Some (JInt g)) digest of
           Inl e \<Rightarrow> Some e
         | Inr policy \<Rightarrow>
             if filter (\<lambda>k. k \<notin> set policy) keys \<noteq> []
             then Some (RunnerError (''resource key is absent from target policy: ''
                         @ join_with '', '' (filter (\<lambda>k. k \<notin> set policy) keys)))
             else None)
      else if g \<noteq> 0 \<or> digest \<noteq> EMPTY_RESOURCE_POLICY_DIGEST
      then Some (RunnerError ''resource-free operation must use the empty policy identity'')
      else None)"

definition resource_reserve :: "target_env \<Rightarrow> request \<Rightarrow> response res_op" where
  "resource_reserve env body db =
     (case bounded_resource_text (dict_get body ''allocation_id'') ''allocation_id'' 200 of
        Inl e \<Rightarrow> Inl e
      | Inr i \<Rightarrow>
     (case bounded_resource_text (dict_get body ''operation_id'') ''operation_id'' 200 of
        Inl e \<Rightarrow> Inl e
      | Inr op_id \<Rightarrow>
     (case resource_sha256 (dict_get body ''request_sha256'') ''request_sha256'' of
        Inl e \<Rightarrow> Inl e
      | Inr req \<Rightarrow>
     (case resource_keys (dict_get body ''resource_keys'') of
        Inl e \<Rightarrow> Inl e
      | Inr keys \<Rightarrow>
     (case strict_int (dict_get body ''expected_policy_generation'') of
        None \<Rightarrow> Inl (RunnerError ''expected policy generation is invalid'')
      | Some g \<Rightarrow>
     (case resource_sha256 (dict_get body ''expected_policy_digest'') ''expected policy digest'' of
        Inl e \<Rightarrow> Inl e
      | Inr digest \<Rightarrow>
          (let db' = reconcile_resources env db
           in (case reserve_policy_error db' keys g digest of
                 Some e \<Rightarrow> Inl e
               | None \<Rightarrow> reserve_checked env i op_id req keys g digest db'))))))))"

section \<open>Authenticated operations\<close>

definition resource_auth :: "target_env \<Rightarrow> request \<Rightarrow> bool \<Rightarrow> resource_db \<Rightarrow> runner_error + allocation" where
  "resource_auth env body require_fence db =
     (case bounded_resource_text (dict_get body ''allocation_id'') ''allocation_id'' 200 of
        Inl e \<Rightarrow> Inl e
      | Inr i \<Rightarrow>
          (case alloc_row db i of
             None \<Rightarrow> Inl (RunnerError ''target resource allocation is absent'')
           | Some row \<Rightarrow>
               (case json_str (dict_get body ''token'') of
                  None \<Rightarrow> Inl (RunnerError ''target resource token is invalid'')
                | Some token \<Rightarrow>
                    if token = [] \<or> length token > 256 then Inl (RunnerError ''target resource token is invalid'')
                    else if en_sha256 env token \<noteq> al_token_sha256 row
                    then Inl (RunnerError ''target resource token mismatch'')
                    else if require_fence \<and> strict_int (dict_get body ''fence'') \<noteq> Some (al_fence row)
                    then Inl (RunnerError ''target resource fence mismatch'')
                    else Inr row)))"

text \<open>Reading a row that a previous statement of the transaction proved to exist.\<close>

definition with_row :: "string \<Rightarrow> (allocation \<Rightarrow> 'a res_op) \<Rightarrow> 'a res_op" where
  "with_row i f db = (case alloc_row db i of None \<Rightarrow> Inl (RunnerError ''AssertionError'') | Some row \<Rightarrow> f row db)"

definition answer :: "target_env \<Rightarrow> string \<Rightarrow> string \<Rightarrow> response res_op" where
  "answer env status i = with_row i (\<lambda>row db. Inr (WithReceipt status None (resource_receipt row (en_boot env)), db))"

text \<open>The policy check of a renewal and of a claim, for a row and the policy identity of the request.\<close>

definition current_policy_error ::
  "string \<Rightarrow> json option \<Rightarrow> string \<Rightarrow> allocation \<Rightarrow> resource_db \<Rightarrow> runner_error option" where
  "current_policy_error msg generation digest row db =
     (if eq_num generation 0 \<and> digest = EMPTY_RESOURCE_POLICY_DIGEST
      then (if al_keys row \<noteq> [] then Some (RunnerError msg) else None)
      else (case require_resource_policy db generation digest of Inl e \<Rightarrow> Some e | Inr _ \<Rightarrow> None))"

definition resource_renew :: "target_env \<Rightarrow> request \<Rightarrow> response res_op" where
  "resource_renew env body db0 =
     (case resource_auth env body True db0 of
        Inl e \<Rightarrow> Inl e
      | Inr row0 \<Rightarrow>
          with_row (al_id row0) (\<lambda>row db.
            (case resource_sha256 (dict_get body ''expected_policy_digest'') ''expected policy digest'' of
               Inl e \<Rightarrow> Inl e
             | Inr digest \<Rightarrow>
                 (case current_policy_error ''resource-free renewal has a non-empty key set''
                         (dict_get body ''expected_policy_generation'') digest row db of
                    Some e \<Rightarrow> Inl e
                  | None \<Rightarrow>
                      if al_state row \<noteq> RESERVED then answer env (state_word (al_state row)) (al_id row) db
                      else answer env ''reserved'' (al_id row)
                        (update_row (al_id row) (\<lambda>r. if al_state r = RESERVED
                           then r\<lparr>al_expires_mono := en_mono env + RESOURCE_RESERVATION_NS, al_updated := en_now env\<rparr>
                           else r) db))))
            (reconcile_resources env db0))"

definition resource_cancel :: "target_env \<Rightarrow> request \<Rightarrow> response res_op" where
  "resource_cancel env body db0 =
     (case resource_auth env body True db0 of
        Inl e \<Rightarrow> Inl e
      | Inr row0 \<Rightarrow>
          with_row (al_id row0) (\<lambda>row db.
            if al_state row = CANCELLED then answer env ''cancelled'' (al_id row) db
            else if al_state row \<in> {RELEASED, EXPIRED, REBOOTED}
            then answer env (state_word (al_state row)) (al_id row) db
            else if al_state row \<in> {CLAIMED, QUARANTINED} \<and> \<not> en_terminate env row
            then answer env ''could_not_stop'' (al_id row)
              (if al_state row = CLAIMED then quarantine_row env (al_id row) ''cancel_cleanup_unverified'' db else db)
            else answer env ''cancelled'' (al_id row)
              (terminalize_resource env (al_id row) CANCELLED ''controller_cancelled'' db))
            (reconcile_resources env db0))"

definition resource_status :: "target_env \<Rightarrow> request \<Rightarrow> response res_op" where
  "resource_status env body db0 =
     (case resource_auth env body False db0 of
        Inl e \<Rightarrow> Inl e
      | Inr row \<Rightarrow> answer env ''found'' (al_id row) (reconcile_resources env db0))"

section \<open>Owner mutations\<close>

definition OWNER_KINDS :: "string list" where
  "OWNER_KINDS = [''posix_pgid_v1'', ''posix_pgid'', ''windows_job_v1'', ''windows_job_v2'']"

text \<open>The validated owner identity of a claim.\<close>

definition owner_identity :: "request \<Rightarrow> runner_error + resource_owner" where
  "owner_identity ow =
     (if set (dict_keys ow) \<noteq> {''kind'', ''key'', ''pid'', ''start_id'', ''root_pid'', ''root_start_id''}
      then Inl (RunnerError ''target owner identity is malformed'')
      else (case (dict_get ow ''kind'', strict_int (dict_get ow ''pid''), strict_int (dict_get ow ''root_pid'')) of
          (Some kind, pid, root_pid) \<Rightarrow>
            if py_str kind \<notin> set OWNER_KINDS then Inl (RunnerError ''target owner kind is unsupported'')
            else (case (pid, root_pid) of
                (Some p, Some rp) \<Rightarrow>
                  if p < 1 \<or> rp < 1 then Inl (RunnerError ''target owner PID identity is invalid'')
                  else (case bounded_resource_text (dict_get ow ''key'') ''target owner key'' 512 of
                      Inl e \<Rightarrow> Inl e
                    | Inr key \<Rightarrow>
                        (case bounded_resource_text (dict_get ow ''start_id'') ''target owner start_id'' 512 of
                           Inl e \<Rightarrow> Inl e
                         | Inr sid \<Rightarrow>
                             (case bounded_resource_text (dict_get ow ''root_start_id'') ''target owner root_start_id'' 512 of
                                Inl e \<Rightarrow> Inl e
                              | Inr rsid \<Rightarrow>
                                  Inr \<lparr>ow_kind = py_str kind, ow_key = key, ow_pid = p, ow_start_id = sid,
                                       ow_root_pid = rp, ow_root_start_id = rsid\<rparr>)))
              | _ \<Rightarrow> Inl (RunnerError ''target owner PID identity is invalid''))
        | _ \<Rightarrow> Inl (RunnerError ''target owner identity is malformed'')))"

definition owner_answer :: "target_env \<Rightarrow> string \<Rightarrow> receipt res_op" where
  "owner_answer env i = with_row i (\<lambda>row db. Inr (resource_receipt row (en_boot env), db))"

definition claim_row :: "target_env \<Rightarrow> resource_owner \<Rightarrow> allocation \<Rightarrow> allocation" where
  "claim_row env ow r =
     (if al_state r = RESERVED
      then r\<lparr>al_state := CLAIMED, al_claim_boot := Some (en_boot env), al_claimed_mono := Some (en_mono env),
             al_owner := Some ow, al_start := StartNo, al_updated := en_now env\<rparr>
      else r)"

definition resource_owner_claim :: "target_env \<Rightarrow> request \<Rightarrow> request \<Rightarrow> receipt res_op" where
  "resource_owner_claim env body ow db0 =
     (case resource_auth env body True db0 of
        Inl e \<Rightarrow> Inl e
      | Inr row0 \<Rightarrow>
          with_row (al_id row0) (\<lambda>row db.
            if al_state row \<noteq> RESERVED then Inl (RunnerError ''target owner requires a live reserved allocation'')
            else (case resource_sha256 (dict_get body ''policy_digest'') ''owner policy digest'' of
                Inl e \<Rightarrow> Inl e
              | Inr digest \<Rightarrow>
                  if \<not> eq_num (dict_get body ''policy_generation'') (al_policy_generation row) \<or> digest \<noteq> al_policy_digest row
                  then Inl (RunnerError ''target owner policy identity mismatch'')
                  else (case current_policy_error ''resource-free target owner has a non-empty key set''
                               (dict_get body ''policy_generation'') digest row db of
                      Some e \<Rightarrow> Inl e
                    | None \<Rightarrow>
                        if en_mono env \<ge> al_expires_mono row
                        then Inl (RunnerError ''target resource reservation expired before owner claim'')
                        else (case owner_identity ow of
                            Inl e \<Rightarrow> Inl e
                          | Inr owner \<Rightarrow> owner_answer env (al_id row) (update_row (al_id row) (claim_row env owner) db)))))
            (reconcile_resources env db0))"

definition start_allowed :: "start_state \<Rightarrow> start_state \<Rightarrow> bool \<Rightarrow> bool" where
  "start_allowed current target explicit_no_start \<longleftrightarrow>
     (current = StartNo \<and> target = StartMaybe)
     \<or> (current = StartMaybe \<and> target = StartNo \<and> explicit_no_start)
     \<or> current = target"

definition resource_owner_start_state :: "target_env \<Rightarrow> request \<Rightarrow> start_state \<Rightarrow> bool \<Rightarrow> receipt res_op" where
  "resource_owner_start_state env body target explicit_no_start db =
     (case resource_auth env body True db of
        Inl e \<Rightarrow> Inl e
      | Inr row \<Rightarrow>
          if al_state row \<noteq> CLAIMED \<or> al_claim_boot row \<noteq> Some (en_boot env)
          then Inl (RunnerError ''target resource claim is not current'')
          else if \<not> start_allowed (al_start row) target explicit_no_start
          then Inl (RunnerError ''invalid target owner start transition'')
          else owner_answer env (al_id row) (update_row (al_id row) (\<lambda>r. if al_state r = CLAIMED
                 then r\<lparr>al_start := target, al_updated := en_now env\<rparr> else r) db))"

definition resource_owner_exec_confirm :: "target_env \<Rightarrow> request \<Rightarrow> json option \<Rightarrow> json option \<Rightarrow> receipt res_op" where
  "resource_owner_exec_confirm env body user_pid user_start db =
     (case resource_auth env body True db of
        Inl e \<Rightarrow> Inl e
      | Inr row \<Rightarrow>
          if al_state row \<noteq> CLAIMED \<or> al_claim_boot row \<noteq> Some (en_boot env)
          then Inl (RunnerError ''target resource claim is not current'')
          else if al_start row \<noteq> StartMaybe
          then Inl (RunnerError ''target resource exec confirmation requires MAYBE'')
          else (case strict_int user_pid of
              None \<Rightarrow> Inl (RunnerError ''target resource user PID is invalid'')
            | Some pid \<Rightarrow>
                if pid < 1 then Inl (RunnerError ''target resource user PID is invalid'')
                else (case bounded_resource_text user_start ''target resource user start identity'' 512 of
                    Inl e \<Rightarrow> Inl e
                  | Inr sid \<Rightarrow>
                      owner_answer env (al_id row) (update_row (al_id row)
                        (\<lambda>r. if al_state r = CLAIMED \<and> al_start r = StartMaybe
                          then r\<lparr>al_start := StartYes, al_user := Some (pid, sid), al_updated := en_now env\<rparr>
                          else r) db))))"

definition resource_owner_release :: "target_env \<Rightarrow> request \<Rightarrow> string \<Rightarrow> receipt res_op" where
  "resource_owner_release env body reason db =
     (case resource_auth env body True db of
        Inl e \<Rightarrow> Inl e
      | Inr row \<Rightarrow>
          if al_claim_boot row \<noteq> Some (en_boot env)
          then Inl (RunnerError ''target resource claim boot identity mismatch'')
          else if al_state row \<in> {RELEASED, CANCELLED} then Inr (resource_receipt row (en_boot env), db)
          else if al_state row \<notin> {CLAIMED, QUARANTINED}
          then Inl (RunnerError ''only a target-owned claim may be released'')
          else owner_answer env (al_id row) (terminalize_resource env (al_id row) RELEASED reason db))"

definition resource_owner_quarantine :: "target_env \<Rightarrow> request \<Rightarrow> string \<Rightarrow> receipt res_op" where
  "resource_owner_quarantine env body reason db =
     (case resource_auth env body True db of
        Inl e \<Rightarrow> Inl e
      | Inr row \<Rightarrow>
          if al_claim_boot row \<noteq> Some (en_boot env)
          then Inl (RunnerError ''target resource claim boot identity mismatch'')
          else if al_state row = QUARANTINED then Inr (resource_receipt row (en_boot env), db)
          else if al_state row \<noteq> CLAIMED
          then Inl (RunnerError ''only a current target-owned claim may be quarantined'')
          else owner_answer env (al_id row) (quarantine_row env (al_id row) reason db))"

definition resource_owner_finish :: "target_env \<Rightarrow> request \<Rightarrow> receipt res_op" where
  "resource_owner_finish env body db =
     (case resource_auth env body True db of
        Inl e \<Rightarrow> Inl e
      | Inr row \<Rightarrow>
          if al_claim_boot row \<noteq> Some (en_boot env)
          then Inl (RunnerError ''target resource claim boot identity mismatch'')
          else if al_state row \<in> {RELEASED, QUARANTINED, CANCELLED} then Inr (resource_receipt row (en_boot env), db)
          else if al_state row \<noteq> CLAIMED
          then Inl (RunnerError ''only a current target-owned claim may finish'')
          else (case en_cleanup env row of
              Gone \<Rightarrow> resource_owner_release env body ''process_tree_exited'' db
            | Live \<Rightarrow> resource_owner_quarantine env body ''process_tree_live_after_wrapper_exit'' db
            | Unknown \<Rightarrow> resource_owner_quarantine env body ''process_cleanup_unverified'' db))"

section \<open>Transactions\<close>

datatype rpc_op = PolicyGet | PolicyInstall | Reserve | Renew | Cancel | Status

datatype owner_op =
    Claim request
  | Start start_state bool
  | ExecConfirm "json option" "json option"
  | Release string
  | Quarantine string
  | Finish
  | OwnerStatus

fun run_rpc :: "target_env \<Rightarrow> rpc_op \<Rightarrow> request \<Rightarrow> response res_op" where
  "run_rpc env PolicyGet body = resource_policy_get"
| "run_rpc env PolicyInstall body = resource_policy_install env body"
| "run_rpc env Reserve body = resource_reserve env body"
| "run_rpc env Renew body = resource_renew env body"
| "run_rpc env Cancel body = resource_cancel env body"
| "run_rpc env Status body = resource_status env body"

fun response_receipt :: "response \<times> resource_db \<Rightarrow> (receipt \<times> resource_db) option" where
  "response_receipt (WithReceipt s t r, db) = Some (r, db)"
| "response_receipt _ = None"

fun run_owner_op :: "target_env \<Rightarrow> owner_op \<Rightarrow> request \<Rightarrow> receipt res_op" where
  "run_owner_op env (Claim ow) body = resource_owner_claim env body ow"
| "run_owner_op env (Start st explicit) body = resource_owner_start_state env body st explicit"
| "run_owner_op env (ExecConfirm pid sid) body = resource_owner_exec_confirm env body pid sid"
| "run_owner_op env (Release reason) body = resource_owner_release env body reason"
| "run_owner_op env (Quarantine reason) body = resource_owner_quarantine env body reason"
| "run_owner_op env Finish body = resource_owner_finish env body"
| "run_owner_op env OwnerStatus body =
     (\<lambda>db. case resource_status env body db of
             Inl e \<Rightarrow> Inl e
           | Inr z \<Rightarrow> (case response_receipt z of None \<Rightarrow> Inl (RunnerError ''KeyError'') | Some r \<Rightarrow> Inr r))"

text \<open>\<open>BEGIN IMMEDIATE\<close> ... \<open>COMMIT\<close>, or \<open>ROLLBACK\<close> on any exception.\<close>

definition transaction :: "'a res_op \<Rightarrow> resource_db \<Rightarrow> (runner_error + 'a) \<times> resource_db" where
  "transaction m db = (case m db of Inl e \<Rightarrow> (Inl e, db) | Inr (x, db') \<Rightarrow> (Inr x, db'))"

definition resource_owner_mutation ::
  "target_env \<Rightarrow> owner_op \<Rightarrow> request \<Rightarrow> resource_db \<Rightarrow> (runner_error + receipt) \<times> resource_db" where
  "resource_owner_mutation env op body = transaction (run_owner_op env op body)"

text \<open>The participant's replay table in front of the operations.\<close>

record participant =
  pt_db :: resource_db
  pt_rpc :: "(string, rpc_op \<times> string \<times> response) dict"

definition participant_rpc ::
  "target_env \<Rightarrow> string \<Rightarrow> string \<Rightarrow> rpc_op \<Rightarrow> request \<Rightarrow> participant
   \<Rightarrow> (runner_error + response) \<times> participant" where
  "participant_rpc env rpc_id request_sha op body p =
     (case dict_get (pt_rpc p) rpc_id of
        Some (op', sha', resp) \<Rightarrow>
          if op' \<noteq> op \<or> sha' \<noteq> request_sha then (Inl (RunnerError ''rpc_id reused with a different request''), p)
          else (Inr resp, p)
      | None \<Rightarrow>
          (case run_rpc env op body (pt_db p) of
             Inl e \<Rightarrow> (Inl e, p)
           | Inr (resp, db') \<Rightarrow>
               (Inr resp, p\<lparr>pt_db := db', pt_rpc := dict_set rpc_id (op, request_sha, resp) (pt_rpc p)\<rparr>)))"

end
