(* ===== verification/StateMachine.thy ===== *)
theory StateMachine
  imports Prelude
begin

text \<open>
  The interface between an operation's step relation and the properties of whole runs: an
  invariant that every step keeps holds along every sequence of steps, and so does every
  property that the steps keep under the invariant.
\<close>

locale invariant_machine =
  fixes step :: "'s \<Rightarrow> 's \<Rightarrow> bool" and inv :: "'s \<Rightarrow> bool"
  assumes inv_step: "inv s \<Longrightarrow> step s s' \<Longrightarrow> inv s'"
begin

lemma steps_inv: "step\<^sup>*\<^sup>* s s' \<Longrightarrow> inv s \<Longrightarrow> inv s'"
  by (induction rule: rtranclp_induct) (auto intro: inv_step)

lemma steps_stable:
  assumes "step\<^sup>*\<^sup>* s s'" and "inv s" and "P s"
    and "\<And>a b. inv a \<Longrightarrow> step a b \<Longrightarrow> P a \<Longrightarrow> P b"
  shows "P s'"
proof -
  from assms(1) have "inv s' \<and> P s'"
    by (induction rule: rtranclp_induct) (auto intro: inv_step assms)
  then show ?thesis ..
qed

end

text \<open>
  A machine whose states carry a rank that no step lowers: the rank of a later state is at
  least that of an earlier one.
\<close>

locale ranked_machine = invariant_machine step inv
  for step :: "'s \<Rightarrow> 's \<Rightarrow> bool" and inv :: "'s \<Rightarrow> bool" +
  fixes rank :: "'s \<Rightarrow> int"
  assumes rank_step: "inv s \<Longrightarrow> step s s' \<Longrightarrow> rank s \<le> rank s'"
begin

lemma steps_rank:
  assumes "step\<^sup>*\<^sup>* s s'" and "inv s"
  shows "rank s \<le> rank s'"
proof -
  from assms(1) have "inv s' \<and> rank s \<le> rank s'"
    by (induction rule: rtranclp_induct) (use assms(2) in \<open>auto intro: inv_step dest: rank_step\<close>)
  then show ?thesis ..
qed

end

end
