(* ===== verification/ResourceSteps.thy ===== *)
theory ResourceSteps
  imports TargetResources StateMachine
begin

text \<open>
  The state machine of the target resources.  \<open>res_step\<close> is the abstract specification: the
  transitions an allocation may take, with their guards; \<open>R\<close> says which live allocations may
  be retired.  \<open>res_inv\<close> is the invariant of the tables, kept by every step, and every
  operation of the program refines a sequence of steps.
\<close>

section \<open>The abstract machine\<close>

inductive res_step :: "(allocation \<Rightarrow> bool) \<Rightarrow> resource_db \<Rightarrow> resource_db \<Rightarrow> bool"
  for R :: "allocation \<Rightarrow> bool" where
  install:
    "rd_policy db = None \<and> po_generation p = 1
     \<or> (\<exists>cur. rd_policy db = Some cur \<and> po_generation p = po_generation cur + 1 \<and> rd_holds db = [])
     \<Longrightarrow> res_step R db (db\<lparr>rd_policy := Some p\<rparr>)"
| retire:
    "\<lbrakk>alloc_row db i = Some row; active (al_state row); \<not> active st; R row\<rbrakk>
     \<Longrightarrow> res_step R db (update_row i (\<lambda>r. r\<lparr>al_state := st, al_terminal_reason := Some why, al_updated := t\<rparr>)
           (drop_holds i db))"
| quarantine:
    "\<lbrakk>alloc_row db i = Some row; al_state row = CLAIMED\<rbrakk>
     \<Longrightarrow> res_step R db (update_row i (\<lambda>r. r\<lparr>al_state := QUARANTINED, al_terminal_reason := Some why, al_updated := t\<rparr>) db)"
| renew:
    "\<lbrakk>alloc_row db i = Some row; al_state row = RESERVED\<rbrakk>
     \<Longrightarrow> res_step R db (update_row i (\<lambda>r. r\<lparr>al_expires_mono := e, al_updated := t\<rparr>) db)"
| claim:
    "\<lbrakk>alloc_row db i = Some row; al_state row = RESERVED\<rbrakk>
     \<Longrightarrow> res_step R db (update_row i (\<lambda>r. r\<lparr>al_state := CLAIMED, al_claim_boot := Some b, al_claimed_mono := Some m,
           al_owner := Some ow, al_start := StartNo, al_updated := t\<rparr>) db)"
| start:
    "\<lbrakk>alloc_row db i = Some row; al_state row = CLAIMED; start_allowed (al_start row) st explicit\<rbrakk>
     \<Longrightarrow> res_step R db (update_row i (\<lambda>r. r\<lparr>al_start := st, al_updated := t\<rparr>) db)"
| confirm:
    "\<lbrakk>alloc_row db i = Some row; al_state row = CLAIMED; al_start row = StartMaybe\<rbrakk>
     \<Longrightarrow> res_step R db (update_row i (\<lambda>r. r\<lparr>al_start := StartYes, al_user := Some u, al_updated := t\<rparr>) db)"
| reserve:
    "\<lbrakk>alloc_row db (al_id row) = None; al_state row = RESERVED; distinct (al_keys row);
      \<forall>k \<in> set (al_keys row). dict_get (rd_holds db) k = None;
      al_fence row = rd_last_fence db + 1; rd_last_fence db < MAX_RESOURCE_FENCE;
      al_start row = StartNo; al_user row = None;
      al_keys row = [] \<or> (\<exists>p. rd_policy db = Some p \<and> al_policy_generation row = po_generation p
                           \<and> set (al_keys row) \<subseteq> set (po_keys p))\<rbrakk>
     \<Longrightarrow> res_step R db (insert_allocation row db)"

inductive_cases res_stepE: "res_step R db db'"

abbreviation res_steps :: "(allocation \<Rightarrow> bool) \<Rightarrow> resource_db \<Rightarrow> resource_db \<Rightarrow> bool" where
  "res_steps R \<equiv> (res_step R)\<^sup>*\<^sup>*"

section \<open>The invariant\<close>

definition row_ok :: "resource_db \<Rightarrow> string \<Rightarrow> allocation \<Rightarrow> bool" where
  "row_ok db i row \<longleftrightarrow>
     al_id row = i \<and> distinct (al_keys row) \<and> 1 \<le> al_fence row \<and> al_fence row \<le> rd_last_fence db
     \<and> (active (al_state row) \<longrightarrow> (\<forall>k \<in> set (al_keys row). dict_get (rd_holds db) k = Some (i, al_fence row)))
     \<and> (active (al_state row) \<and> al_keys row \<noteq> [] \<longrightarrow>
          (\<exists>p. rd_policy db = Some p \<and> al_policy_generation row = po_generation p \<and> set (al_keys row) \<subseteq> set (po_keys p)))
     \<and> (al_state row \<in> {CLAIMED, QUARANTINED} \<longrightarrow> al_claim_boot row \<noteq> None \<and> al_owner row \<noteq> None)
     \<and> (al_state row = RESERVED \<longrightarrow> al_start row = StartNo)
     \<and> (al_start row = StartYes \<longleftrightarrow> al_user row \<noteq> None)"

definition hold_ok :: "resource_db \<Rightarrow> string \<Rightarrow> string \<Rightarrow> int \<Rightarrow> bool" where
  "hold_ok db k i f \<longleftrightarrow>
     (\<exists>row. alloc_row db i = Some row \<and> active (al_state row) \<and> k \<in> set (al_keys row) \<and> al_fence row = f)"

definition res_inv :: "resource_db \<Rightarrow> bool" where
  "res_inv db \<longleftrightarrow>
     dict_ok (rd_allocations db) \<and> dict_ok (rd_holds db) \<and> 0 \<le> rd_last_fence db
     \<and> rd_last_fence db \<le> MAX_RESOURCE_FENCE
     \<and> (\<forall>p. rd_policy db = Some p \<longrightarrow> 1 \<le> po_generation p)
     \<and> (\<forall>i row. alloc_row db i = Some row \<longrightarrow> row_ok db i row)
     \<and> (\<forall>k i f. dict_get (rd_holds db) k = Some (i, f) \<longrightarrow> hold_ok db k i f)
     \<and> (\<forall>i j a b. alloc_row db i = Some a \<and> alloc_row db j = Some b \<and> al_fence a = al_fence b \<longrightarrow> i = j)"

lemma res_invD:
  assumes "res_inv db"
  shows "dict_ok (rd_allocations db)" "dict_ok (rd_holds db)" "0 \<le> rd_last_fence db"
    "rd_last_fence db \<le> MAX_RESOURCE_FENCE"
    "\<And>i row. alloc_row db i = Some row \<Longrightarrow> row_ok db i row"
    "\<And>k i f. dict_get (rd_holds db) k = Some (i, f) \<Longrightarrow> hold_ok db k i f"
    "\<And>i j a b. alloc_row db i = Some a \<Longrightarrow> alloc_row db j = Some b \<Longrightarrow> al_fence a = al_fence b \<Longrightarrow> i = j"
    "\<And>p. rd_policy db = Some p \<Longrightarrow> 1 \<le> po_generation p"
  using assms by (auto simp: res_inv_def)

lemma empty_inv: "res_inv empty_resource_db"
  by (simp add: res_inv_def empty_resource_db_def alloc_row_def MAX_RESOURCE_FENCE_def)

lemma update_row_simps [simp]:
  "rd_holds (update_row i f db) = rd_holds db" "rd_last_fence (update_row i f db) = rd_last_fence db"
  "rd_policy (update_row i f db) = rd_policy db"
  by (simp_all add: update_row_def split: option.splits)

lemma drop_holds_simps [simp]:
  "rd_allocations (drop_holds i db) = rd_allocations db" "rd_last_fence (drop_holds i db) = rd_last_fence db"
  "rd_policy (drop_holds i db) = rd_policy db" "alloc_row (drop_holds i db) j = alloc_row db j"
  by (simp_all add: drop_holds_def alloc_row_def)

lemma alloc_row_update:
  "alloc_row (update_row i f db) j = (if j = i then map_option f (alloc_row db i) else alloc_row db j)"
  by (auto simp: update_row_def alloc_row_def dict_simps split: option.splits)

lemma dict_ok_update_row: "dict_ok (rd_allocations db) \<Longrightarrow> dict_ok (rd_allocations (update_row i f db))"
  by (simp add: update_row_def dict_ok_set split: option.split)

lemma holds_drop:
  assumes "dict_ok (rd_holds db)"
  shows "dict_get (rd_holds (drop_holds i db)) k =
    (case dict_get (rd_holds db) k of None \<Rightarrow> None | Some h \<Rightarrow> if fst h \<noteq> i then Some h else None)"
  unfolding drop_holds_def by (simp add: dict_get_filter [OF assms, where P = "\<lambda>k h. fst h \<noteq> i"])

lemma dict_ok_drop: "dict_ok (rd_holds db) \<Longrightarrow> dict_ok (rd_holds (drop_holds i db))"
  by (simp add: drop_holds_def dict_ok_filter)

lemma get_fold_set:
  "dict_get (fold (\<lambda>k. dict_set k v) ks d) k' = (if k' \<in> set ks then Some v else dict_get d k')"
  by (induction ks arbitrary: d) (auto simp: dict_simps)

lemma dict_ok_fold_set: "dict_ok d \<Longrightarrow> dict_ok (fold (\<lambda>k. dict_set k v) ks d)"
  by (induction ks arbitrary: d) (simp_all add: dict_ok_set)

section \<open>Every step keeps the invariant\<close>

text \<open>A step that changes one row in place: keys, fence, identity and liveness stay.\<close>

lemma update_keeps_inv:
  assumes inv: "res_inv db" and row: "alloc_row db i = Some row"
    and same: "al_id (f row) = al_id row" "al_keys (f row) = al_keys row" "al_fence (f row) = al_fence row"
      "al_policy_generation (f row) = al_policy_generation row"
      "active (al_state (f row)) = active (al_state row)"
    and own: "al_state (f row) \<in> {CLAIMED, QUARANTINED} \<longrightarrow> al_claim_boot (f row) \<noteq> None \<and> al_owner (f row) \<noteq> None"
    and st: "al_state (f row) = RESERVED \<longrightarrow> al_start (f row) = StartNo"
      "al_start (f row) = StartYes \<longleftrightarrow> al_user (f row) \<noteq> None"
  shows "res_inv (update_row i f db)"
proof -
  note d = res_invD [OF inv]
  have new: "alloc_row (update_row i f db) j = Some r \<longleftrightarrow>
      (if j = i then r = f row else alloc_row db j = Some r)" for j r
    by (auto simp: alloc_row_update row)
  have "row_ok (update_row i f db) j r" if "alloc_row (update_row i f db) j = Some r" for j r
  proof (cases "j = i")
    case True
    with that new have "r = f row" by simp
    with d(5) [OF row] same own st True show ?thesis by (simp add: row_ok_def)
  next
    case False
    with that new d(5) show ?thesis by (simp add: row_ok_def)
  qed
  moreover have "hold_ok (update_row i f db) k j g" if "dict_get (rd_holds db) k = Some (j, g)" for k j g
    using d(6) [OF that] row same unfolding hold_ok_def new by (cases "j = i") auto
  moreover have "j = l" if "alloc_row (update_row i f db) j = Some a" "alloc_row (update_row i f db) l = Some b"
      "al_fence a = al_fence b" for j l a b
    using that d(7) row same unfolding new by (metis (full_types))
  ultimately show ?thesis
    using d(1-4,8) by (simp add: res_inv_def dict_ok_update_row)
qed

lemma retire_keeps_inv:
  assumes inv: "res_inv db" and row: "alloc_row db i = Some row" and dead: "\<not> active st"
  shows "res_inv (update_row i (\<lambda>r. r\<lparr>al_state := st, al_terminal_reason := w, al_updated := t\<rparr>) (drop_holds i db))"
    (is "res_inv ?db")
proof -
  note d = res_invD [OF inv]
  let ?new = "row\<lparr>al_state := st, al_terminal_reason := w, al_updated := t\<rparr>"
  have new: "alloc_row ?db j = Some r \<longleftrightarrow> (if j = i then r = ?new else alloc_row db j = Some r)" for j r
    by (auto simp: alloc_row_update row)
  have held: "dict_get (rd_holds ?db) k = Some (j, g) \<longleftrightarrow> dict_get (rd_holds db) k = Some (j, g) \<and> j \<noteq> i" for k j g
    by (auto simp: holds_drop [OF d(2)] split: option.splits)
  have "row_ok ?db j r" if "alloc_row ?db j = Some r" for j r
  proof (cases "j = i")
    case True
    with that new have "r = ?new" by simp
    with d(5) [OF row] dead True show ?thesis by (auto simp: row_ok_def active_def)
  next
    case False
    with that new d(5) [of j r] show ?thesis unfolding row_ok_def held by auto
  qed
  moreover have "hold_ok ?db k j g" if "dict_get (rd_holds ?db) k = Some (j, g)" for k j g
    using that d(6) [of k j g] unfolding hold_ok_def held new by auto
  moreover have "j = l" if "alloc_row ?db j = Some a" "alloc_row ?db l = Some b" "al_fence a = al_fence b" for j l a b
    using that d(7) row unfolding new by (auto split: if_splits)
  ultimately show ?thesis
    using d(1-4,8) dict_ok_drop [OF d(2)] by (simp add: res_inv_def dict_ok_update_row)
qed


lemma alloc_row_policy [simp]: "alloc_row (db\<lparr>rd_policy := q\<rparr>) i = alloc_row db i"
  by (simp add: alloc_row_def)

lemma install_keeps_inv:
  assumes inv: "res_inv db"
    and idle: "rd_policy db = None \<or> rd_holds db = []" and gen: "1 \<le> po_generation p"
  shows "res_inv (db\<lparr>rd_policy := Some p\<rparr>)"
proof -
  note d = res_invD [OF inv]
  have "row_ok (db\<lparr>rd_policy := Some p\<rparr>) i r" if "alloc_row db i = Some r" for i r
  proof -
    from d(5) [OF that] have ok: "row_ok db i r" .
    have "\<not> (active (al_state r) \<and> al_keys r \<noteq> [])"
    proof
      assume a: "active (al_state r) \<and> al_keys r \<noteq> []"
      then obtain k where "k \<in> set (al_keys r)" by (cases "al_keys r") auto
      with ok a have "dict_get (rd_holds db) k \<noteq> None" "rd_policy db \<noteq> None" by (auto simp: row_ok_def)
      with idle show False by auto
    qed
    with ok show ?thesis by (auto simp: row_ok_def)
  qed
  moreover have "hold_ok (db\<lparr>rd_policy := Some p\<rparr>) k i f" if "dict_get (rd_holds db) k = Some (i, f)" for k i f
    using d(6) [OF that] by (simp add: hold_ok_def)
  moreover have "i = j" if "alloc_row db i = Some a" "alloc_row db j = Some b" "al_fence a = al_fence b" for i j a b
    using d(7) that .
  ultimately show ?thesis
    using d(1-4) gen unfolding res_inv_def by simp
qed

lemma alloc_row_insert:
  "alloc_row (insert_allocation row db) i = (if i = al_id row then Some row else alloc_row db i)"
  by (simp add: insert_allocation_def alloc_row_def dict_simps)

lemma insert_allocation_simps [simp]:
  "rd_policy (insert_allocation row db) = rd_policy db"
  "rd_last_fence (insert_allocation row db) = al_fence row"
  "rd_holds (insert_allocation row db)
     = fold (\<lambda>k. dict_set k (al_id row, al_fence row)) (al_keys row) (rd_holds db)"
  by (simp_all add: insert_allocation_def)

lemma reserve_keeps_inv:
  assumes inv: "res_inv db" and fresh: "alloc_row db (al_id row) = None"
    and st: "al_state row = RESERVED" "al_start row = StartNo" "al_user row = None" "distinct (al_keys row)"
    and free: "\<forall>k \<in> set (al_keys row). dict_get (rd_holds db) k = None"
    and fence: "al_fence row = rd_last_fence db + 1" "rd_last_fence db < MAX_RESOURCE_FENCE"
    and pol: "al_keys row = [] \<or> (\<exists>p. rd_policy db = Some p \<and> al_policy_generation row = po_generation p
                \<and> set (al_keys row) \<subseteq> set (po_keys p))"
  shows "res_inv (insert_allocation row db)" (is "res_inv ?db")
proof -
  note d = res_invD [OF inv]
  have new: "alloc_row ?db j = Some r \<longleftrightarrow> (if j = al_id row then r = row else alloc_row db j = Some r)" for j r
    by (auto simp: alloc_row_insert)
  have held: "dict_get (rd_holds ?db) k
      = (if k \<in> set (al_keys row) then Some (al_id row, al_fence row) else dict_get (rd_holds db) k)" for k
    by (simp add: get_fold_set)
  have older: "al_fence r < al_fence row" if "alloc_row db j = Some r" for j r
    using d(5) [OF that] fence by (simp add: row_ok_def)
  have "row_ok ?db j r" if "alloc_row ?db j = Some r" for j r
  proof (cases "j = al_id row")
    case True
    with that new have "r = row" by simp
    with True st fence pol d(3) show ?thesis unfolding row_ok_def held by auto
  next
    case False
    with that new have r: "alloc_row db j = Some r" by simp
    then have ok: "row_ok db j r" by (rule d(5))
    have "k \<notin> set (al_keys row)" if "dict_get (rd_holds db) k = Some h" for k h
      using free that by auto
    with ok older [OF r] show ?thesis unfolding row_ok_def held by auto
  qed
  moreover have "hold_ok ?db k j g" if "dict_get (rd_holds ?db) k = Some (j, g)" for k j g
  proof (cases "k \<in> set (al_keys row)")
    case True
    with that have "j = al_id row" "g = al_fence row" unfolding held by auto
    with True st show ?thesis by (simp add: hold_ok_def new active_def)
  next
    case False
    with that have "hold_ok db k j g" unfolding held by (simp add: d(6))
    with fresh show ?thesis unfolding hold_ok_def new by auto
  qed
  moreover have "j = l" if "alloc_row ?db j = Some a" "alloc_row ?db l = Some b" "al_fence a = al_fence b" for j l a b
    using that d(7) older unfolding new by (metis less_irrefl)
  moreover have "dict_ok (rd_allocations ?db)" "dict_ok (rd_holds ?db)"
    using d(1,2) by (simp_all add: insert_allocation_def dict_ok_set dict_ok_fold_set)
  ultimately show ?thesis
    using d(3,8) fence unfolding res_inv_def by simp
qed

lemma res_step_inv:
  assumes inv: "res_inv db" and step: "res_step R db db'"
  shows "res_inv db'"
  using step
proof cases
  case (install p)
  with inv show ?thesis by (auto intro!: install_keeps_inv dest: res_invD(8) [OF inv])
next
  case (retire i row st why t)
  with inv show ?thesis by (auto intro: retire_keeps_inv)
next
  case (quarantine i row why t)
  with res_invD(5) [OF inv] have "row_ok db i row" by simp
  with quarantine show ?thesis
    by (auto simp: row_ok_def active_def intro!: update_keeps_inv [OF inv])
next
  case (renew i row e t)
  with res_invD(5) [OF inv] have "row_ok db i row" by simp
  with renew show ?thesis
    by (auto simp: row_ok_def active_def intro!: update_keeps_inv [OF inv])
next
  case (claim i row b m ow t)
  with res_invD(5) [OF inv] have "row_ok db i row" by simp
  with claim show ?thesis
    by (auto simp: row_ok_def active_def intro!: update_keeps_inv [OF inv])
next
  case (start i row st explicit t)
  with res_invD(5) [OF inv] have "row_ok db i row" by simp
  with start show ?thesis
    by (auto simp: row_ok_def active_def start_allowed_def intro!: update_keeps_inv [OF inv])
next
  case (confirm i row u t)
  with res_invD(5) [OF inv] have "row_ok db i row" by simp
  with confirm show ?thesis
    by (auto simp: row_ok_def active_def intro!: update_keeps_inv [OF inv])
next
  case (reserve row)
  with inv show ?thesis by (auto intro: reserve_keeps_inv)
qed

lemma res_step_fence: "res_step R db db' \<Longrightarrow> rd_last_fence db \<le> rd_last_fence db'"
  by (auto elim!: res_stepE)

interpretation rs: ranked_machine "res_step R" res_inv rd_last_fence for R
  by unfold_locales (auto intro: res_step_inv dest: res_step_fence)

text \<open>What no step changes: a row that is no longer active, and the identity of any row.\<close>

definition same_identity :: "allocation \<Rightarrow> allocation \<Rightarrow> bool" where
  "same_identity a b \<longleftrightarrow>
     al_id b = al_id a \<and> al_operation_id b = al_operation_id a \<and> al_request_sha256 b = al_request_sha256 a
     \<and> al_spec_sha256 b = al_spec_sha256 a \<and> al_keys b = al_keys a
     \<and> al_policy_generation b = al_policy_generation a \<and> al_policy_digest b = al_policy_digest a
     \<and> al_fence b = al_fence a \<and> al_token_sha256 b = al_token_sha256 a"

lemma res_step_row:
  assumes "res_step R db db'" and "alloc_row db i = Some row"
  shows "\<exists>row'. alloc_row db' i = Some row' \<and> same_identity row row' \<and> (\<not> active (al_state row) \<longrightarrow> row' = row)
    \<and> (active (al_state row) \<and> \<not> active (al_state row') \<longrightarrow> R row)"
  using assms
  by cases (auto simp: alloc_row_update alloc_row_insert same_identity_def active_def)

end
