(* ===== verification/ResourceRefine.thy ===== *)
theory ResourceRefine
  imports ResourceSteps
begin

text \<open>
  The operations on the target resources refine the abstract machine: each successful
  operation of a controller or of an owner is a sequence of steps of \<open>res_step\<close>, in which an
  allocation is retired only for a reason that the target itself can vouch for.
\<close>

section \<open>Why an allocation may be retired\<close>

definition retirable :: "target_env \<Rightarrow> allocation \<Rightarrow> bool" where
  "retirable env row \<longleftrightarrow>
     active_boot row \<noteq> Some (en_boot env) \<or> al_state row = RESERVED \<or> en_cleanup env row = Gone
     \<or> en_terminate env row"

definition owner_retirable :: "target_env \<Rightarrow> owner_op \<Rightarrow> allocation \<Rightarrow> bool" where
  "owner_retirable env op row \<longleftrightarrow> retirable env row \<or> (\<exists>reason. op = Release reason)"

section \<open>Single statements\<close>

lemma update_row_cong:
  "alloc_row db i = Some row \<Longrightarrow> f row = g row \<Longrightarrow> update_row i f db = update_row i g db"
  by (simp add: update_row_def)

lemma terminalize_step:
  "alloc_row db i = Some row \<Longrightarrow> active (al_state row) \<Longrightarrow> \<not> active st \<Longrightarrow> R row
   \<Longrightarrow> res_step R db (terminalize_resource env i st why db)"
  unfolding terminalize_resource_def by (rule res_step.retire)

lemma quarantine_step:
  assumes "alloc_row db i = Some row" and "al_state row = CLAIMED"
  shows "res_step R db (quarantine_row env i why db)"
proof -
  have "quarantine_row env i why db
      = update_row i (\<lambda>r. r\<lparr>al_state := QUARANTINED, al_terminal_reason := Some why, al_updated := en_now env\<rparr>) db"
    unfolding quarantine_row_def by (rule update_row_cong [OF assms(1)]) (simp add: assms(2))
  with res_step.quarantine [OF assms] show ?thesis by simp
qed

lemma reconcile_row_steps:
  assumes "alloc_row db (al_id row) = Some row" and "active (al_state row)"
    and "\<forall>r. retirable env r \<longrightarrow> R r"
  shows "res_steps R db (reconcile_row env row db)"
proof -
  have "res_step R db (reconcile_row env row db) \<or> reconcile_row env row db = db"
    using terminalize_step [OF assms(1,2)] quarantine_step [OF assms(1)] spec [OF assms(3), of row]
    unfolding reconcile_row_def retirable_def by (auto simp: active_def split: cleanup.split)
  then show ?thesis by auto
qed

lemma reconcile_row_other:
  "j \<noteq> al_id row \<Longrightarrow> alloc_row (reconcile_row env row db) j = alloc_row db j"
  by (simp add: reconcile_row_def terminalize_resource_def quarantine_row_def alloc_row_update split: cleanup.split)

lemma reconcile_fold_steps:
  assumes "distinct (map al_id rows)"
    and "\<And>row. row \<in> set rows \<Longrightarrow> alloc_row db (al_id row) = Some row \<and> active (al_state row)"
    and R: "\<forall>r. retirable env r \<longrightarrow> R r"
  shows "res_steps R db (fold (reconcile_row env) rows db)"
  using assms(1,2)
proof (induction rows arbitrary: db)
  case Nil
  then show ?case by simp
next
  case (Cons row rows)
  let ?db = "reconcile_row env row db"
  have "res_steps R db ?db"
    using Cons.prems R by (intro reconcile_row_steps) auto
  moreover have "res_steps R ?db (fold (reconcile_row env) rows ?db)"
  proof (rule Cons.IH)
    fix r assume r: "r \<in> set rows"
    with Cons.prems(1) have "al_id r \<noteq> al_id row" by (metis distinct.simps(2) imageI list.set_map list.simps(9))
    with Cons.prems(2) [of r] r show "alloc_row ?db (al_id r) = Some r \<and> active (al_state r)"
      by (simp add: reconcile_row_other)
  qed (use Cons.prems in auto)
  ultimately show ?case by simp
qed

lemma rows_current:
  assumes "res_inv db" and "(i, row) \<in> set (rd_allocations db)"
  shows "alloc_row db i = Some row" "al_id row = i"
proof -
  note d = res_invD [OF assms(1)]
  show get: "alloc_row db i = Some row"
    using d(1) assms(2) by (simp add: alloc_row_def)
  from d(5) [OF this] show "al_id row = i" by (simp add: row_ok_def)
qed

lemma reconcile_steps:
  assumes inv: "res_inv db" and R: "\<forall>r. retirable env r \<longrightarrow> R r"
  shows "res_steps R db (reconcile_resources env db)"
  unfolding reconcile_resources_def
proof (rule reconcile_fold_steps)
  have "map al_id (map snd (rd_allocations db)) = dict_keys (rd_allocations db)"
    using rows_current(2) [OF inv] by auto
  with res_invD(1) [OF inv] have "distinct (map al_id (map snd (rd_allocations db)))" by (simp only:)
  then show "distinct (map al_id (filter (\<lambda>row. active (al_state row)) (map snd (rd_allocations db))))"
    by (rule distinct_map_filter)
qed (use rows_current [OF inv] R in \<open>auto simp: alloc_row_def\<close>)

lemma reconcile_inv: "res_inv db \<Longrightarrow> res_inv (reconcile_resources env db)"
  by (rule rs.steps_inv [OF reconcile_steps [where R = "\<lambda>_. True"]]) simp_all

section \<open>Requests of a controller\<close>

lemma auth_row:
  assumes "resource_auth env body rf db = Inr row"
  shows "alloc_row db (al_id row) = Some row \<or> \<not> res_inv db" "\<exists>i. alloc_row db i = Some row"
proof -
  show "\<exists>i. alloc_row db i = Some row"
    using assms by (auto simp: resource_auth_def split: sum.splits option.splits if_splits)
  then show "alloc_row db (al_id row) = Some row \<or> \<not> res_inv db"
    using res_invD(5) [of db] by (auto simp: row_ok_def)
qed

lemma with_rowE:
  assumes "with_row i f db = Inr z"
  obtains row where "alloc_row db i = Some row" "f row db = Inr z"
  using assms by (auto simp: with_row_def split: option.splits)

lemma answer_db: "answer env s i db = Inr (resp, db') \<Longrightarrow> db' = db"
  by (auto simp: answer_def elim!: with_rowE)

lemma resource_keys_distinct: "resource_keys v = Inr ks \<Longrightarrow> distinct ks"
  by (auto simp: resource_keys_def split: option.splits json.splits if_splits)

lemma busy_free: "busy_keys db keys = [] \<Longrightarrow> k \<in> set keys \<Longrightarrow> dict_get (rd_holds db) k = None"
  unfolding busy_keys_def sort_key_Nil_iff dict_get_None_iff filter_empty_conv by blast

lemma reserve_policy_ok:
  assumes "reserve_policy_error db keys g digest = None" and "keys \<noteq> []"
  shows "\<exists>p. rd_policy db = Some p \<and> g = po_generation p \<and> set keys \<subseteq> set (po_keys p)"
  using assms
  by (auto simp: reserve_policy_error_def require_resource_policy_def eq_num_def py_num_def filter_empty_conv
        split: sum.splits option.splits if_splits)

lemma reserve_new_step:
  assumes "reserve_new env i op_id req spec keys g digest db = Inr (resp, db')"
    and "alloc_row db i = None" and "busy_keys db keys = []" and "distinct keys"
    and "reserve_policy_error db keys g digest = None"
  shows "res_step R db db'"
proof -
  let ?row = "new_allocation env i op_id req spec keys g digest (rd_last_fence db + 1)"
  from assms(1) have db': "db' = insert_allocation ?row db" and f: "rd_last_fence db < MAX_RESOURCE_FENCE"
    by (auto simp: reserve_new_def Let_def split: if_splits)
  show ?thesis unfolding db'
    by (rule res_step.reserve)
      (use assms(2-5) f busy_free [OF assms(3)] reserve_policy_ok [OF assms(5)] in \<open>auto simp: new_allocation_def\<close>)
qed

lemma reserve_checked_steps:
  assumes "reserve_checked env i op_id req keys g digest db = Inr (resp, db')" and "distinct keys"
    and "reserve_policy_error db keys g digest = None"
  shows "res_steps R db db'"
  using assms reserve_new_step [of env i op_id req _ keys g digest db resp db' R]
  by (auto simp: reserve_checked_def Let_def split: option.splits if_splits)

lemma reserve_steps:
  assumes inv: "res_inv db" and run: "resource_reserve env body db = Inr (resp, db')"
    and R: "\<forall>r. retirable env r \<longrightarrow> R r"
  shows "res_steps R db db'"
proof -
  from run obtain i op_id req keys g digest where
      c: "reserve_checked env i op_id req keys g digest (reconcile_resources env db) = Inr (resp, db')"
    and e: "reserve_policy_error (reconcile_resources env db) keys g digest = None" and k: "distinct keys"
    unfolding resource_reserve_def Let_def
    by (auto split: sum.splits option.splits dest: resource_keys_distinct)
  from reconcile_steps [OF inv R] reserve_checked_steps [OF c k e, of R] show ?thesis by (rule rtranclp_trans)
qed

lemma renew_steps:
  assumes inv: "res_inv db" and run: "resource_renew env body db = Inr (resp, db')"
    and R: "\<forall>r. retirable env r \<longrightarrow> R r"
  shows "res_steps R db db'"
proof -
  let ?db = "reconcile_resources env db"
  let ?f = "\<lambda>r. if al_state r = RESERVED
     then r\<lparr>al_expires_mono := en_mono env + RESOURCE_RESERVATION_NS, al_updated := en_now env\<rparr> else r"
  from run obtain i row where row: "alloc_row ?db i = Some row"
      and db': "al_state row \<noteq> RESERVED \<and> db' = ?db
                \<or> al_state row = RESERVED \<and> db' = update_row (al_id row) ?f ?db"
    unfolding resource_renew_def
    by (auto elim!: with_rowE split: sum.splits option.splits if_splits dest!: answer_db)
  have i: "al_id row = i" using res_invD(5) [OF reconcile_inv [OF inv] row] by (simp add: row_ok_def)
  have "res_step R ?db (update_row i ?f ?db)" if "al_state row = RESERVED"
    using res_step.renew [OF row that]
      update_row_cong [OF row, of ?f "\<lambda>r. r\<lparr>al_expires_mono := en_mono env + RESOURCE_RESERVATION_NS, al_updated := en_now env\<rparr>"]
      that by simp
  with db' i have "res_steps R ?db db'" by auto
  with reconcile_steps [OF inv R] show ?thesis by auto
qed

lemma cancelled_only_active:
  "al_state row \<noteq> CANCELLED \<Longrightarrow> al_state row \<notin> {RELEASED, EXPIRED, REBOOTED} \<Longrightarrow> active (al_state row)"
  by (cases "al_state row") (simp_all add: active_def)

lemma cancel_cases:
  assumes "resource_cancel env body db = Inr (resp, db')"
  obtains i row where "alloc_row (reconcile_resources env db) i = Some row"
    and "db' = reconcile_resources env db
        \<or> al_state row = CLAIMED \<and> db' = quarantine_row env (al_id row) ''cancel_cleanup_unverified'' (reconcile_resources env db)
        \<or> active (al_state row) \<and> (al_state row = RESERVED \<or> en_terminate env row)
           \<and> db' = terminalize_resource env (al_id row) CANCELLED ''controller_cancelled'' (reconcile_resources env db)"
proof -
  let ?db = "reconcile_resources env db"
  from assms obtain row0 where auth: "resource_auth env body True db = Inr row0"
    unfolding resource_cancel_def by (auto split: sum.splits)
  from assms [unfolded resource_cancel_def auth sum.case] obtain row where row: "alloc_row (reconcile_resources env db) (al_id row0) = Some row"
    and run: "(if al_state row = CANCELLED then answer env ''cancelled'' (al_id row) ?db
       else if al_state row \<in> {RELEASED, EXPIRED, REBOOTED} then answer env (state_word (al_state row)) (al_id row) ?db
       else if al_state row \<in> {CLAIMED, QUARANTINED} \<and> \<not> en_terminate env row
       then answer env ''could_not_stop'' (al_id row)
              (if al_state row = CLAIMED then quarantine_row env (al_id row) ''cancel_cleanup_unverified'' ?db else ?db)
       else answer env ''cancelled'' (al_id row)
              (terminalize_resource env (al_id row) CANCELLED ''controller_cancelled'' ?db)) = Inr (resp, db')"
    by (rule with_rowE)
  show thesis
    using row
  proof (rule that)
    show "db' = reconcile_resources env db
        \<or> al_state row = CLAIMED \<and> db' = quarantine_row env (al_id row) ''cancel_cleanup_unverified'' (reconcile_resources env db)
        \<or> active (al_state row) \<and> (al_state row = RESERVED \<or> en_terminate env row)
           \<and> db' = terminalize_resource env (al_id row) CANCELLED ''controller_cancelled'' (reconcile_resources env db)"
      using run by (cases "al_state row"; simp add: active_def split: if_splits) (auto dest: answer_db)
  qed
qed

lemma cancel_steps:
  assumes inv: "res_inv db" and run: "resource_cancel env body db = Inr (resp, db')"
    and R: "\<forall>r. retirable env r \<longrightarrow> R r"
  shows "res_steps R db db'"
proof -
  let ?db = "reconcile_resources env db"
  from run obtain i row where row: "alloc_row ?db i = Some row"
      and db': "db' = ?db
        \<or> al_state row = CLAIMED \<and> db' = quarantine_row env (al_id row) ''cancel_cleanup_unverified'' ?db
        \<or> active (al_state row) \<and> (al_state row = RESERVED \<or> en_terminate env row)
           \<and> db' = terminalize_resource env (al_id row) CANCELLED ''controller_cancelled'' ?db"
    by (elim cancel_cases)
  have i: "al_id row = i" using res_invD(5) [OF reconcile_inv [OF inv] row] by (simp add: row_ok_def)
  have "res_step R ?db db' \<or> db' = ?db"
    using db' quarantine_step [OF row] terminalize_step [OF row, of CANCELLED R] spec [OF R, of row] unfolding i
    by (auto simp: retirable_def active_def)
  with reconcile_steps [OF inv R] show ?thesis by auto
qed

lemma status_steps:
  assumes inv: "res_inv db" and run: "resource_status env body db = Inr (resp, db')"
    and R: "\<forall>r. retirable env r \<longrightarrow> R r"
  shows "res_steps R db db'"
proof -
  from run have "db' = reconcile_resources env db"
    by (auto simp: resource_status_def split: sum.splits dest!: answer_db)
  with reconcile_steps [OF inv R] show ?thesis by simp
qed

lemma install_steps:
  assumes "resource_policy_install env body db = Inr (resp, db')"
  shows "res_steps R db db'"
proof -
  from assms have "db' = db \<or> (\<exists>p. db' = db\<lparr>rd_policy := Some p\<rparr>
      \<and> (rd_policy db = None \<and> po_generation p = 1
         \<or> (\<exists>cur. rd_policy db = Some cur \<and> po_generation p = po_generation cur + 1 \<and> rd_holds db = [])))"
    unfolding resource_policy_install_def Let_def
    by (auto split: sum.splits option.splits if_splits prod.splits) 
  then show ?thesis
  proof (elim disjE exE conjE)
    fix p assume "db' = db\<lparr>rd_policy := Some p\<rparr>" "rd_policy db = None" "po_generation p = 1"
    then show ?thesis by (simp add: r_into_rtranclp res_step.install)
  next
    fix p cur assume "db' = db\<lparr>rd_policy := Some p\<rparr>" "rd_policy db = Some cur"
      "po_generation p = po_generation cur + 1" "rd_holds db = []"
    then show ?thesis by (simp add: r_into_rtranclp res_step.install)
  qed simp
qed

lemma run_rpc_steps:
  assumes inv: "res_inv db" and run: "run_rpc env op body db = Inr (resp, db')"
  shows "res_steps (retirable env) db db'"
  using run
  by (cases op) (auto simp: resource_policy_get_def
    intro: reserve_steps [OF inv] renew_steps [OF inv] cancel_steps [OF inv] status_steps [OF inv] install_steps)

section \<open>Requests of an owner\<close>

lemma owner_answer_db: "owner_answer env i db = Inr (r, db') \<Longrightarrow> db' = db"
  by (auto simp: owner_answer_def elim!: with_rowE)

lemma auth_current:
  assumes "res_inv db" and "resource_auth env body rf db = Inr row"
  shows "alloc_row db (al_id row) = Some row"
  using auth_row(1) [OF assms(2)] assms(1) by simp

lemma claim_steps:
  assumes inv: "res_inv db" and run: "resource_owner_claim env body ow db = Inr (resp, db')"
    and R: "\<forall>r. retirable env r \<longrightarrow> R r"
  shows "res_steps R db db'"
proof -
  let ?db = "reconcile_resources env db"
  from run obtain row0 where auth: "resource_auth env body True db = Inr row0"
    unfolding resource_owner_claim_def by (auto split: sum.splits)
  from run [unfolded resource_owner_claim_def auth sum.case] obtain row owner where
      row: "alloc_row ?db (al_id row0) = Some row" and st: "al_state row = RESERVED"
    and db': "db' = update_row (al_id row) (claim_row env owner) ?db"
    by (rule with_rowE) (auto split: sum.splits option.splits if_splits dest!: owner_answer_db)
  have i: "al_id row = al_id row0" using res_invD(5) [OF reconcile_inv [OF inv] row] by (simp add: row_ok_def)
  have "res_step R ?db db'"
    using res_step.claim [OF row st, where R = R and b = "en_boot env" and m = "en_mono env" and ow = owner and t = "en_now env"] st
    unfolding db' i by (subst update_row_cong [OF row]) (simp_all add: claim_row_def)
  with reconcile_steps [OF inv R] show ?thesis by auto
qed

lemma start_steps:
  assumes inv: "res_inv db" and run: "resource_owner_start_state env body target explicit db = Inr (resp, db')"
  shows "res_steps R db db'"
proof -
  from run obtain row where auth: "resource_auth env body True db = Inr row"
      and st: "al_state row = CLAIMED" "start_allowed (al_start row) target explicit"
      and db': "db' = update_row (al_id row) (\<lambda>r. if al_state r = CLAIMED
                 then r\<lparr>al_start := target, al_updated := en_now env\<rparr> else r) db"
    unfolding resource_owner_start_state_def by (auto split: sum.splits if_splits dest!: owner_answer_db)
  note row = auth_current [OF inv auth]
  have "res_step R db db'"
    using res_step.start [OF row st, of R "en_now env"] st(1)
    unfolding db' by (subst update_row_cong [OF row]) simp_all
  then show ?thesis by simp
qed

lemma confirm_steps:
  assumes inv: "res_inv db" and run: "resource_owner_exec_confirm env body pid sid db = Inr (resp, db')"
  shows "res_steps R db db'"
proof -
  from run obtain row u where auth: "resource_auth env body True db = Inr row"
      and st: "al_state row = CLAIMED" "al_start row = StartMaybe"
      and db': "db' = update_row (al_id row) (\<lambda>r. if al_state r = CLAIMED \<and> al_start r = StartMaybe
                 then r\<lparr>al_start := StartYes, al_user := Some u, al_updated := en_now env\<rparr> else r) db"
    unfolding resource_owner_exec_confirm_def
    by (auto split: sum.splits option.splits if_splits dest!: owner_answer_db)
  note row = auth_current [OF inv auth]
  have "res_step R db db'"
    using res_step.confirm [OF row st, where R = R and u = u and t = "en_now env"] st
    unfolding db' by (subst update_row_cong [OF row]) simp_all
  then show ?thesis by simp
qed

lemma release_steps:
  assumes inv: "res_inv db" and run: "resource_owner_release env body reason db = Inr (resp, db')"
    and auth: "resource_auth env body True db = Inr row" and R: "al_state row \<in> {CLAIMED, QUARANTINED} \<Longrightarrow> R row"
  shows "res_steps R db db'"
proof -
  from run auth have "db' = db \<or> al_state row \<in> {CLAIMED, QUARANTINED}
      \<and> db' = terminalize_resource env (al_id row) RELEASED reason db"
    unfolding resource_owner_release_def by (auto split: if_splits dest!: owner_answer_db)
  moreover have "al_state row \<in> {CLAIMED, QUARANTINED} \<Longrightarrow>
      res_step R db (terminalize_resource env (al_id row) RELEASED reason db)"
    using R by (intro terminalize_step [OF auth_current [OF inv auth]]) (auto simp: active_def)
  ultimately show ?thesis by auto
qed

lemma quarantine_steps:
  assumes inv: "res_inv db" and run: "resource_owner_quarantine env body reason db = Inr (resp, db')"
  shows "res_steps R db db'"
proof -
  from run obtain row where auth: "resource_auth env body True db = Inr row"
      and "db' = db \<or> al_state row = CLAIMED \<and> db' = quarantine_row env (al_id row) reason db"
    unfolding resource_owner_quarantine_def by (auto split: sum.splits if_splits dest!: owner_answer_db)
  with quarantine_step [OF auth_current [OF inv auth], of R env reason] show ?thesis by auto
qed

lemma finish_steps:
  assumes inv: "res_inv db" and run: "resource_owner_finish env body db = Inr (resp, db')"
    and R: "\<forall>r. retirable env r \<longrightarrow> R r"
  shows "res_steps R db db'"
proof -
  from run obtain row where auth: "resource_auth env body True db = Inr row"
    unfolding resource_owner_finish_def by (auto split: sum.splits)
  with run consider "db' = db"
    | "en_cleanup env row = Gone" "resource_owner_release env body ''process_tree_exited'' db = Inr (resp, db')"
    | reason where "resource_owner_quarantine env body reason db = Inr (resp, db')"
    unfolding resource_owner_finish_def by (auto split: if_splits cleanup.splits)
  then show ?thesis
  proof cases
    case 2
    then have "R row" using R by (simp add: retirable_def)
    with 2 show ?thesis by (auto intro: release_steps [OF inv _ auth])
  qed (auto intro: quarantine_steps [OF inv])
qed

lemma owner_status_steps:
  assumes inv: "res_inv db" and run: "run_owner_op env OwnerStatus body db = Inr (resp, db')"
    and R: "\<forall>r. retirable env r \<longrightarrow> R r"
  shows "res_steps R db db'"
proof -
  from run obtain z where z: "resource_status env body db = Inr z" and r: "response_receipt z = Some (resp, db')"
    by (auto split: sum.splits option.splits)
  from r obtain s t where "z = (WithReceipt s t resp, db')"
    by (cases z rule: response_receipt.cases) auto
  with z status_steps [OF inv _ R] show ?thesis by simp
qed

lemma run_owner_op_steps:
  assumes inv: "res_inv db" and run: "run_owner_op env op body db = Inr (resp, db')"
  shows "res_steps (owner_retirable env op) db db'"
proof -
  have R: "\<forall>r. retirable env r \<longrightarrow> owner_retirable env op r" by (simp add: owner_retirable_def)
  show ?thesis
  proof (cases op)
    case (Release reason)
    with run obtain row where "resource_auth env body True db = Inr row"
      by (auto simp: resource_owner_release_def split: sum.splits)
    with run Release show ?thesis by (auto intro: release_steps [OF inv] simp: owner_retirable_def)
  next
    case OwnerStatus
    with owner_status_steps [OF inv _ R] run show ?thesis by simp
  qed (use run R in \<open>auto intro: claim_steps [OF inv] start_steps [OF inv] confirm_steps [OF inv]
        quarantine_steps [OF inv] finish_steps [OF inv]\<close>)
qed

end
