(* ===== verification/ResourceSafety.thy ===== *)
theory ResourceSafety
  imports ResourceRefine
begin

text \<open>
  Properties of the target resources over whole histories: any interleaving of controller
  requests and owner mutations, each in an environment of its own (reboots, clocks, process
  observations), starting from the empty tables.
\<close>

section \<open>Histories\<close>

inductive target_step :: "participant \<Rightarrow> participant \<Rightarrow> bool" where
  rpc: "target_step p (snd (participant_rpc env rpc_id sha op body p))"
| owner: "target_step p (p\<lparr>pt_db := snd (resource_owner_mutation env op body (pt_db p))\<rparr>)"

definition initial_participant :: participant where
  "initial_participant = \<lparr>pt_db = empty_resource_db, pt_rpc = []\<rparr>"

definition target_reachable :: "participant \<Rightarrow> bool" where
  "target_reachable p \<longleftrightarrow> target_step\<^sup>*\<^sup>* initial_participant p"

lemma res_step_mono: "res_step R db db' \<Longrightarrow> res_step (\<lambda>_. True) db db'"
  by (erule res_step.cases) (auto intro: res_step.intros)

lemma res_steps_mono: "res_steps R db db' \<Longrightarrow> res_steps (\<lambda>_. True) db db'"
  using mono_rtranclp [of "res_step R" "res_step (\<lambda>_. True)"] res_step_mono by blast

lemma participant_rpc_steps:
  assumes "res_inv (pt_db p)"
  shows "res_steps (retirable env) (pt_db p) (pt_db (snd (participant_rpc env rpc_id sha op body p)))"
  using run_rpc_steps [OF assms]
  by (auto simp: participant_rpc_def split: option.splits sum.splits)

lemma owner_mutation_steps:
  assumes "res_inv db"
  shows "res_steps (owner_retirable env op) db (snd (resource_owner_mutation env op body db))"
  using run_owner_op_steps [OF assms]
  by (auto simp: resource_owner_mutation_def transaction_def split: sum.splits)

lemma target_step_steps:
  assumes "target_step p p'" and "res_inv (pt_db p)"
  shows "res_steps (\<lambda>_. True) (pt_db p) (pt_db p')"
  using assms
  by cases (auto intro: res_steps_mono dest: participant_rpc_steps owner_mutation_steps)

interpretation tm: ranked_machine target_step "\<lambda>p. res_inv (pt_db p)" "\<lambda>p. rd_last_fence (pt_db p)"
  by unfold_locales (auto dest: target_step_steps intro: rs.steps_inv rs.steps_rank)

lemma initial_inv: "res_inv (pt_db initial_participant)"
  by (simp add: initial_participant_def empty_inv)

lemma reachable_inv: "target_reachable p \<Longrightarrow> res_inv (pt_db p)"
  unfolding target_reachable_def by (rule tm.steps_inv [OF _ initial_inv])

lemma target_steps_db:
  "target_step\<^sup>*\<^sup>* p p' \<Longrightarrow> res_inv (pt_db p) \<Longrightarrow> res_steps (\<lambda>_. True) (pt_db p) (pt_db p')"
proof (induction rule: rtranclp_induct)
  case (step a b)
  with target_step_steps [OF step.hyps(2) tm.steps_inv [OF step.hyps(1)]] show ?case by auto
qed simp

section \<open>Rows along a history\<close>

lemma same_identity_trans: "same_identity a b \<Longrightarrow> same_identity b c \<Longrightarrow> same_identity a c"
  by (simp add: same_identity_def)

lemma steps_row:
  assumes "res_steps R db db'" and "alloc_row db i = Some row"
  shows "\<exists>row'. alloc_row db' i = Some row' \<and> same_identity row row' \<and> (\<not> active (al_state row) \<longrightarrow> row' = row)"
  using assms
proof (induction rule: rtranclp_induct)
  case base
  then show ?case by (simp add: same_identity_def)
next
  case (step a b)
  from step.IH [OF step.prems] obtain r where r: "alloc_row a i = Some r" "same_identity row r"
    "\<not> active (al_state row) \<longrightarrow> r = row" by blast
  from res_step_row [OF step.hyps(2) r(1)] obtain r' where "alloc_row b i = Some r'" "same_identity r r'"
    "\<not> active (al_state r) \<longrightarrow> r' = r" by blast
  with r same_identity_trans show ?case by metis
qed

text \<open>A claimed allocation that the environment cannot vouch for stays claimed or quarantined.\<close>

definition owned_here :: "string \<Rightarrow> string \<Rightarrow> resource_db \<Rightarrow> bool" where
  "owned_here i boot db \<longleftrightarrow>
     (\<exists>row. alloc_row db i = Some row \<and> al_state row \<in> {CLAIMED, QUARANTINED} \<and> al_claim_boot row = Some boot)"

lemma res_step_owned:
  assumes "res_inv db" and "res_step R db db'" and "owned_here i boot db"
    and doubt: "\<And>row. al_id row = i \<Longrightarrow> al_state row \<in> {CLAIMED, QUARANTINED}
                  \<Longrightarrow> al_claim_boot row = Some boot \<Longrightarrow> \<not> R row"
  shows "owned_here i boot db'"
proof -
  from assms(3) obtain row where row: "alloc_row db i = Some row" "al_state row \<in> {CLAIMED, QUARANTINED}"
    "al_claim_boot row = Some boot" unfolding owned_here_def by blast
  from res_invD(5) [OF assms(1) row(1)] doubt row have "\<not> R row" by (simp add: row_ok_def)
  with assms(2) row show ?thesis
    by cases (auto simp: owned_here_def alloc_row_update alloc_row_insert)
qed

lemma res_steps_owned:
  assumes "res_steps R db db'" and "res_inv db" and "owned_here i boot db"
    and "\<And>row. al_id row = i \<Longrightarrow> al_state row \<in> {CLAIMED, QUARANTINED}
           \<Longrightarrow> al_claim_boot row = Some boot \<Longrightarrow> \<not> R row"
  shows "owned_here i boot db'"
  using rs.steps_stable [OF assms(1), of "owned_here i boot"] assms(2-4) res_step_owned by metis

text \<open>The replay table only grows.\<close>

lemma target_steps_replay:
  assumes "target_step\<^sup>*\<^sup>* p p'" and "dict_get (pt_rpc p) k = Some v"
  shows "dict_get (pt_rpc p') k = Some v"
  using assms
proof (induction rule: rtranclp_induct)
  case (step a b)
  then have "dict_get (pt_rpc a) k = Some v" by simp
  with step.hyps(2) show ?case
    by cases (auto simp: participant_rpc_def dict_simps split: option.splits sum.splits)
qed simp

section \<open>Sample values for witnesses\<close>

definition sample_env :: target_env where
  "sample_env = \<lparr>en_boot = ''boot-1'', en_mono = 5, en_now = 100, en_token = ''secret'',
     en_cleanup = (\<lambda>_. Unknown), en_terminate = (\<lambda>_. False),
     en_sha256 = (\<lambda>s. s), en_spec_sha256 = (\<lambda>(i, op, req, ks, g, d). i @ op @ req), en_policy_sha256 = (\<lambda>g ks. replicate 64 (CHR ''a''))\<rparr>"

definition sample_digest :: json where
  "sample_digest = JStr (replicate 64 (CHR ''a''))"

definition sample_install :: request where
  "sample_install = [(''policy_document'', JObj [(''schema'', JStr ''remrun.target-resource-policy''), (''version'', JInt 1),
      (''generation'', JInt 1), (''resources'', JList [JObj [(''key'', JStr ''gpu:0''), (''capacity'', JInt 1)]])]),
     (''supplied_digest'', sample_digest)]"

definition sample_reserve :: "string \<Rightarrow> request" where
  "sample_reserve i = [(''allocation_id'', JStr i), (''operation_id'', JStr ''op''), (''request_sha256'', sample_digest),
     (''resource_keys'', JList [JStr ''gpu:0'']), (''expected_policy_generation'', JInt 1), (''expected_policy_digest'', sample_digest)]"

definition sample_owner :: request where
  "sample_owner = [(''kind'', JStr ''posix_pgid_v1''), (''key'', JStr ''42''), (''pid'', JInt 42), (''start_id'', JStr ''s''),
     (''root_pid'', JInt 42), (''root_start_id'', JStr ''s'')]"

definition sample_claim :: request where
  "sample_claim = [(''allocation_id'', JStr ''a''), (''token'', JStr ''secret''), (''fence'', JInt 1),
     (''policy_generation'', JInt 1), (''policy_digest'', sample_digest)]"

definition sample_installed :: participant where
  "sample_installed = snd (participant_rpc sample_env ''r1'' ''s1'' PolicyInstall sample_install initial_participant)"

definition sample_reserved :: participant where
  "sample_reserved = snd (participant_rpc sample_env ''r2'' ''s2'' Reserve (sample_reserve ''a'') sample_installed)"

definition sample_claimed :: participant where
  "sample_claimed = sample_reserved\<lparr>pt_db := snd (resource_owner_mutation sample_env (Claim sample_owner) sample_claim (pt_db sample_reserved))\<rparr>"

lemma sample_installed_reachable: "target_reachable sample_installed"
  unfolding target_reachable_def sample_installed_def by (rule r_into_rtranclp) (rule target_step.rpc)

lemma sample_reserved_reachable: "target_reachable sample_reserved"
  using sample_installed_reachable
    target_step.rpc [of sample_installed sample_env "''r2''" "''s2''" Reserve "sample_reserve ''a''"]
  unfolding target_reachable_def sample_reserved_def by auto

lemma sample_claimed_step: "target_step sample_reserved sample_claimed"
  unfolding sample_claimed_def by (rule target_step.owner)

lemma sample_claimed_reachable: "target_reachable sample_claimed"
  using sample_reserved_reachable sample_claimed_step unfolding target_reachable_def by auto

section \<open>Properties\<close>

lemma inv_exclusion:
  assumes inv: "res_inv db" and "alloc_row db i = Some a" "active (al_state a)"
    and "alloc_row db j = Some b" "active (al_state b)" "j \<noteq> i"
  shows "set (al_keys a) \<inter> set (al_keys b) = {}"
proof -
  from res_invD(5) [OF inv assms(2)] res_invD(5) [OF inv assms(4)] assms(3,5)
  have "\<forall>k \<in> set (al_keys a). dict_get (rd_holds db) k = Some (i, al_fence a)"
    "\<forall>k \<in> set (al_keys b). dict_get (rd_holds db) k = Some (j, al_fence b)"
    by (simp_all add: row_ok_def)
  with assms(6) show ?thesis by fastforce
qed

lemma inv_hold:
  assumes inv: "res_inv db" and "dict_get (rd_holds db) k = Some (j, f)"
  shows "\<exists>b q. alloc_row db j = Some b \<and> active (al_state b) \<and> k \<in> set (al_keys b) \<and> al_fence b = f
          \<and> rd_policy db = Some q \<and> k \<in> set (po_keys q)"
proof -
  from res_invD(6) [OF assms] obtain b where b: "alloc_row db j = Some b" "active (al_state b)"
    "k \<in> set (al_keys b)" "al_fence b = f" by (auto simp: hold_ok_def)
  from res_invD(5) [OF inv b(1)] b obtain q where "rd_policy db = Some q" "set (al_keys b) \<subseteq> set (po_keys q)"
    by (auto simp: row_ok_def)
  with b show ?thesis by auto
qed

text \<open>What a granted reservation did.\<close>

lemma reserve_granted:
  assumes "resource_reserve env body db = Inr (WithReceipt st (Some tok) r, db')"
  obtains i op_id req spec keys g digest where
    "bounded_resource_text (dict_get body ''allocation_id'') ''allocation_id'' 200 = Inr i"
    "resource_keys (dict_get body ''resource_keys'') = Inr keys"
    "st = ''reserved''" "tok = en_token env" "rd_last_fence (reconcile_resources env db) < MAX_RESOURCE_FENCE"
    "alloc_row (reconcile_resources env db) i = None" "busy_keys (reconcile_resources env db) keys = []"
    "reserve_policy_error (reconcile_resources env db) keys g digest = None" "is_sha256_hex digest"
    "r = resource_receipt (new_allocation env i op_id req spec keys g digest (rd_last_fence (reconcile_resources env db) + 1)) (en_boot env)"
    "db' = insert_allocation (new_allocation env i op_id req spec keys g digest (rd_last_fence (reconcile_resources env db) + 1))
             (reconcile_resources env db)"
proof -
  have dig: "is_sha256_hex d" if "resource_sha256 v l = Inr d" for v l d
    using that by (auto simp: resource_sha256_def split: option.splits if_splits)
  from assms obtain i op_id req keys g digest where
      b: "bounded_resource_text (dict_get body ''allocation_id'') ''allocation_id'' 200 = Inr i"
         "resource_keys (dict_get body ''resource_keys'') = Inr keys"
    and c: "reserve_checked env i op_id req keys g digest (reconcile_resources env db) = Inr (WithReceipt st (Some tok) r, db')"
    and e: "reserve_policy_error (reconcile_resources env db) keys g digest = None" and d: "is_sha256_hex digest"
    unfolding resource_reserve_def Let_def by (auto split: sum.splits option.splits dest: dig)
  from c have n: "alloc_row (reconcile_resources env db) i = None" "busy_keys (reconcile_resources env db) keys = []"
    by (auto simp: reserve_checked_def Let_def split: option.splits if_splits)
  from c n obtain spec where
      "reserve_new env i op_id req spec keys g digest (reconcile_resources env db) = Inr (WithReceipt st (Some tok) r, db')"
    by (auto simp: reserve_checked_def Let_def)
  then show thesis
    by (intro that [OF b _ _ _ n e d, of op_id req spec])
      (auto simp: reserve_new_def Let_def split: if_splits)
qed

text \<open>Reconciliation leaves an unexpired reservation of the current boot alone.\<close>

lemma reconcile_fold_keeps:
  assumes "\<And>r. r \<in> set rows \<Longrightarrow> al_id r = i \<Longrightarrow> reconcile_row env r = (\<lambda>db. db)"
  shows "alloc_row (fold (reconcile_row env) rows db) i = alloc_row db i"
  using assms
proof (induction rows arbitrary: db)
  case (Cons r rows)
  then have "alloc_row (reconcile_row env r db) i = alloc_row db i"
    using reconcile_row_other [of i r env db] by (cases "al_id r = i") auto
  with Cons show ?case by simp
qed simp

lemma reconcile_keeps_reserved:
  assumes inv: "res_inv db" and row: "alloc_row db i = Some row" and st: "al_state row = RESERVED"
    and boot: "al_reservation_boot row = en_boot env" and time: "en_mono env < al_expires_mono row"
  shows "alloc_row (reconcile_resources env db) i = Some row"
proof -
  have "reconcile_row env r = (\<lambda>db. db)" if "r \<in> snd ` set (rd_allocations db)" "al_id r = i" for r
  proof -
    from that(1) obtain j where "(j, r) \<in> set (rd_allocations db)" by auto
    from rows_current [OF inv this] that(2) row have "r = row" by simp
    with st boot time show ?thesis by (auto simp: reconcile_row_def active_boot_def fun_eq_iff)
  qed
  then show ?thesis
    unfolding reconcile_resources_def by (subst reconcile_fold_keeps) (auto simp: row)
qed

lemma reconcile_row_policy: "rd_policy (reconcile_row env r db) = rd_policy db"
  by (simp add: reconcile_row_def terminalize_resource_def quarantine_row_def split: cleanup.split)

lemma reconcile_policy: "rd_policy (reconcile_resources env db) = rd_policy db"
proof -
  have "rd_policy (fold (reconcile_row env) rows db) = rd_policy db" for rows
    by (induction rows arbitrary: db) (simp_all add: reconcile_row_policy)
  then show ?thesis by (simp add: reconcile_resources_def)
qed

text \<open>A claim of a live reservation succeeds when the owner presents what the receipt says.\<close>

lemma claim_succeeds:
  assumes inv: "res_inv db" and row: "alloc_row db i = Some row" and st: "al_state row = RESERVED"
    and boot: "al_reservation_boot row = en_boot env" and time: "en_mono env < al_expires_mono row"
    and auth: "resource_auth env body True db = Inr row"
    and dig: "resource_sha256 (dict_get body ''policy_digest'') ''owner policy digest'' = Inr (al_policy_digest row)"
    and gen: "dict_get body ''policy_generation'' = Some (JInt (al_policy_generation row))"
    and pol: "reserve_policy_error db (al_keys row) (al_policy_generation row) (al_policy_digest row) = None"
    and own: "owner_identity ow = Inr owner"
  shows "\<exists>db'. resource_owner_claim env body ow db = Inr (resource_receipt (claim_row env owner row) (en_boot env), db')
           \<and> alloc_row db' i = Some (claim_row env owner row)"
proof -
  let ?db = "reconcile_resources env db"
  have id: "al_id row = i" using res_invD(5) [OF inv row] by (simp add: row_ok_def)
  note kept = reconcile_keeps_reserved [OF inv row st boot time]
  have "current_policy_error msg (Some (JInt (al_policy_generation row))) (al_policy_digest row) row ?db = None" for msg
    using pol res_invD(8) [OF inv]
    by (auto simp: current_policy_error_def reserve_policy_error_def require_resource_policy_def reconcile_policy
        eq_num_def py_num_def split: if_splits option.splits sum.splits)
  moreover have "alloc_row (update_row i (claim_row env owner) ?db) i = Some (claim_row env owner row)"
    using kept by (simp add: alloc_row_update)
  ultimately show ?thesis
    using kept st time unfolding resource_owner_claim_def auth
    by (simp add: with_row_def id dig gen eq_num_def py_num_def own owner_answer_def)
qed

lemma reserve_policy_error_cong:
  "rd_policy a = rd_policy b \<Longrightarrow> reserve_policy_error a keys g digest = reserve_policy_error b keys g digest"
  by (simp add: reserve_policy_error_def require_resource_policy_def)

lemma reserve_claimable:
  assumes run: "resource_reserve env body db = Inr (WithReceipt st (Some tok) r, db')"
  shows "\<exists>row. alloc_row db' (rp_allocation_id r) = Some row \<and> r = resource_receipt row (en_boot env)
    \<and> al_state row = RESERVED \<and> al_reservation_boot row = en_boot env
    \<and> al_expires_mono row = en_mono env + RESOURCE_RESERVATION_NS \<and> al_token_sha256 row = en_sha256 env tok
    \<and> rp_allocation_id r = al_id row \<and> length (al_id row) \<le> 200 \<and> al_id row \<noteq> [] \<and> CHR 0x00 \<notin> set (al_id row)
    \<and> is_sha256_hex (al_policy_digest row)
    \<and> reserve_policy_error db' (al_keys row) (al_policy_generation row) (al_policy_digest row) = None"
  using run
proof (rule reserve_granted, goal_cases)
  case (1 i op_id req spec keys g digest)
  from 1(1) have i: "length i \<le> 200" "i \<noteq> []" "CHR 0x00 \<notin> set i"
    by (auto simp: bounded_resource_text_def split: option.splits if_splits)
  have "reserve_policy_error db' keys g digest = None"
    using 1(8) reserve_policy_error_cong [of db' "reconcile_resources env db"] 1(11) by simp
  with 1 i show ?case by (simp add: alloc_row_insert new_allocation_def resource_receipt_def)
qed

text \<open>
  C5: Mutual exclusion.  In every history of controller requests and owner mutations, two
  different active allocations never share a resource key, and every hold belongs to an
  active allocation that lists the key, under the allocation's fence and an installed policy
  that contains the key.
\<close>

theorem resource_mutual_exclusion:
  assumes "target_reachable p"
  shows "(\<forall>i j a b. alloc_row (pt_db p) i = Some a \<and> active (al_state a)
            \<and> alloc_row (pt_db p) j = Some b \<and> active (al_state b) \<and> j \<noteq> i
            \<longrightarrow> set (al_keys a) \<inter> set (al_keys b) = {})
       \<and> (\<forall>k j f. dict_get (rd_holds (pt_db p)) k = Some (j, f) \<longrightarrow>
            (\<exists>b q. alloc_row (pt_db p) j = Some b \<and> active (al_state b) \<and> k \<in> set (al_keys b) \<and> al_fence b = f
              \<and> rd_policy (pt_db p) = Some q \<and> k \<in> set (po_keys q)))"
  using inv_exclusion [OF reachable_inv [OF assms]] inv_hold [OF reachable_inv [OF assms]] by blast

theorem resource_mutual_exclusion_witness:
  "dict_get (rd_holds (pt_db sample_claimed)) ''gpu:0'' = Some (''a'', 1)
   \<and> (\<exists>b. alloc_row (pt_db sample_claimed) ''a'' = Some b \<and> active (al_state b) \<and> ''gpu:0'' \<in> set (al_keys b))"
proof -
  have h: "dict_get (rd_holds (pt_db sample_claimed)) ''gpu:0'' = Some (''a'', 1)" by code_simp
  with resource_mutual_exclusion [OF sample_claimed_reachable] show ?thesis by blast
qed



text \<open>
  Terminal states are final and identities immutable.  Whatever happens after, an
  allocation keeps its keys, fence, policy identity, token digest and request identity; once
  it is released, expired, cancelled or rebooted its row never changes again; and the fence
  counter never goes back.
\<close>

theorem resource_rows_monotone:
  assumes "target_reachable p" and "target_step\<^sup>*\<^sup>* p p'" and "alloc_row (pt_db p) i = Some row"
  shows "(\<exists>row'. alloc_row (pt_db p') i = Some row' \<and> same_identity row row'
           \<and> (\<not> active (al_state row) \<longrightarrow> row' = row))
       \<and> rd_last_fence (pt_db p) \<le> rd_last_fence (pt_db p')"
  using steps_row [OF target_steps_db [OF assms(2) reachable_inv [OF assms(1)]] assms(3)]
    tm.steps_rank [OF assms(2) reachable_inv [OF assms(1)]] by blast

theorem resource_rows_monotone_witness:
  "\<exists>row'. alloc_row (pt_db sample_claimed) ''a'' = Some row' \<and> al_fence row' = 1 \<and> al_state row' = CLAIMED"
proof -
  have "case alloc_row (pt_db sample_reserved) ''a'' of None \<Rightarrow> False | Some r \<Rightarrow> al_fence r = 1"
    "case alloc_row (pt_db sample_claimed) ''a'' of None \<Rightarrow> False | Some r \<Rightarrow> al_state r = CLAIMED"
    by code_simp+
  then obtain r c where r: "alloc_row (pt_db sample_reserved) ''a'' = Some r" "al_fence r = 1"
    and c: "alloc_row (pt_db sample_claimed) ''a'' = Some c" "al_state c = CLAIMED"
    by (auto split: option.splits)
  from resource_rows_monotone [OF sample_reserved_reachable r_into_rtranclp [of target_step, OF sample_claimed_step] r(1)] r(2) c
  show ?thesis by (auto simp: same_identity_def)
qed

text \<open>
  C15: Doubt never frees a resource.  While an owner holds a claim of the current boot, no
  controller request frees its keys unless the process tree is observed gone or termination
  is confirmed: the allocation stays claimed or becomes quarantined, and all its keys stay
  held under its fence.
\<close>

theorem doubt_never_frees:
  assumes "target_reachable p" and "alloc_row (pt_db p) i = Some row"
    and "al_state row \<in> {CLAIMED, QUARANTINED}" and "al_claim_boot row = Some (en_boot env)"
    and "\<And>r. al_id r = i \<Longrightarrow> en_cleanup env r \<noteq> Gone \<and> \<not> en_terminate env r"
  shows "\<exists>row'. alloc_row (pt_db (snd (participant_rpc env rpc_id sha op body p))) i = Some row'
      \<and> al_state row' \<in> {CLAIMED, QUARANTINED}
      \<and> (\<forall>k \<in> set (al_keys row). dict_get (rd_holds (pt_db (snd (participant_rpc env rpc_id sha op body p)))) k
            = Some (i, al_fence row))"
proof -
  let ?db = "pt_db p" and ?db' = "pt_db (snd (participant_rpc env rpc_id sha op body p))"
  note inv = reachable_inv [OF assms(1)]
  note steps = participant_rpc_steps [OF inv, of env rpc_id sha op body]
  have "owned_here i (en_boot env) ?db'"
    by (rule res_steps_owned [OF steps inv])
      (use assms in \<open>auto simp: owned_here_def retirable_def active_boot_def\<close>)
  then obtain row' where r: "alloc_row ?db' i = Some row'" "al_state row' \<in> {CLAIMED, QUARANTINED}"
    unfolding owned_here_def by blast
  from steps_row [OF steps assms(2)] r(1) have "same_identity row row'" by auto
  with res_invD(5) [OF rs.steps_inv [OF steps inv] r(1)] r show ?thesis
    by (auto simp: row_ok_def active_def same_identity_def)
qed

theorem doubt_never_frees_witness:
  "dict_get (rd_holds (pt_db (snd (participant_rpc sample_env ''r3'' ''s3'' Cancel sample_claim sample_claimed)))) ''gpu:0''
     = Some (''a'', 1)"
proof -
  have "case alloc_row (pt_db sample_claimed) ''a'' of None \<Rightarrow> False
        | Some r \<Rightarrow> al_state r = CLAIMED \<and> al_claim_boot r = Some (en_boot sample_env) \<and> al_fence r = 1 \<and> al_keys r = [''gpu:0'']"
    by code_simp
  then obtain r where r: "alloc_row (pt_db sample_claimed) ''a'' = Some r" "al_state r = CLAIMED"
    "al_claim_boot r = Some (en_boot sample_env)" "al_fence r = 1" "al_keys r = [''gpu:0'']"
    by (auto split: option.splits)
  show ?thesis
    using doubt_never_frees [OF sample_claimed_reachable r(1) _ r(3)] r by (auto simp: sample_env_def)
qed

text \<open>
  Requests are idempotent.  Once a request has been answered, the same request identifier
  is answered with the recorded response at any later time, in any environment, and changes
  nothing; with another operation or another request digest it is refused.
\<close>

theorem participant_rpc_replay:
  assumes "participant_rpc env rpc_id sha op body p = (Inr resp, p')" and "target_step\<^sup>*\<^sup>* p' q"
  shows "participant_rpc env' rpc_id sha' op' body' q =
    (if op' = op \<and> sha' = sha then Inr resp else Inl (RunnerError ''rpc_id reused with a different request''), q)"
proof -
  have "dict_get (pt_rpc p') rpc_id = Some (op, sha, resp)"
    using assms(1) by (auto simp: participant_rpc_def dict_simps split: option.splits sum.splits if_splits)
  from target_steps_replay [OF assms(2) this] show ?thesis by (simp add: participant_rpc_def)
qed

theorem participant_rpc_replay_witness:
  "\<exists>resp. participant_rpc sample_env ''r2'' ''s2'' Reserve [] sample_claimed = (Inr resp, sample_claimed)"
proof -
  let ?p = sample_installed
  have "case participant_rpc sample_env ''r2'' ''s2'' Reserve (sample_reserve ''a'') ?p of (Inl _, _) \<Rightarrow> False | (Inr _, _) \<Rightarrow> True"
    by code_simp
  then obtain resp where "participant_rpc sample_env ''r2'' ''s2'' Reserve (sample_reserve ''a'') ?p = (Inr resp, sample_reserved)"
    by (auto simp: sample_reserved_def split: prod.splits sum.splits)
  from participant_rpc_replay [OF this r_into_rtranclp [of target_step, OF sample_claimed_step]] show ?thesis by auto
qed

text \<open>
  C32: Fencing.  A granted reservation carries a fence above that of every allocation the
  target has ever made, within the signed 64-bit range of the fence counter; its keys are
  exactly the requested ones, sorted and without duplicates, none of them was held, and all of
  them are held by it afterwards.
\<close>

theorem reserve_fences:
  assumes "res_inv db" and "resource_reserve env body db = Inr (WithReceipt st (Some tok) r, db')"
  shows "(\<forall>j old. alloc_row db j = Some old \<longrightarrow> al_fence old < rp_fence r) \<and> rp_fence r \<le> 2 ^ 63 - 1
    \<and> rd_last_fence db' = rp_fence r
    \<and> resource_keys (dict_get body ''resource_keys'') = Inr (rp_keys r)
    \<and> (\<forall>k \<in> set (rp_keys r). dict_get (rd_holds (reconcile_resources env db)) k = None
         \<and> dict_get (rd_holds db') k = Some (rp_allocation_id r, rp_fence r))"
  using assms(2)
proof (rule reserve_granted, goal_cases)
  case (1 i op_id req spec keys g digest)
  have "rd_last_fence db \<le> rd_last_fence (reconcile_resources env db)"
    using rs.steps_rank [OF reconcile_steps [OF assms(1), where R = "\<lambda>_. True"] assms(1)] by simp
  moreover have "al_fence old \<le> rd_last_fence db" if "alloc_row db j = Some old" for j old
    using res_invD(5) [OF assms(1) that] by (simp add: row_ok_def)
  ultimately have "al_fence old < rd_last_fence (reconcile_resources env db) + 1" if "alloc_row db j = Some old" for j old
    using that by fastforce
  with 1 busy_free [OF 1(7)] show ?case
    by (auto simp: new_allocation_def resource_receipt_def get_fold_set MAX_RESOURCE_FENCE_def)
qed

lemma sample_reserve_run:
  "\<exists>r db'. resource_reserve sample_env (sample_reserve ''a'') (pt_db sample_installed)
     = Inr (WithReceipt ''reserved'' (Some ''secret'') r, db')
     \<and> rp_allocation_id r = ''a'' \<and> rp_fence r = 1 \<and> rp_policy_generation r = 1 \<and> rp_keys r = [''gpu:0'']
     \<and> JStr (rp_policy_digest r) = sample_digest"
proof -
  have "case resource_reserve sample_env (sample_reserve ''a'') (pt_db sample_installed) of
      Inr (WithReceipt st tok r, db') \<Rightarrow> st = ''reserved'' \<and> tok = Some ''secret''
     \<and> rp_allocation_id r = ''a'' \<and> rp_fence r = 1 \<and> rp_policy_generation r = 1 \<and> rp_keys r = [''gpu:0'']
     \<and> JStr (rp_policy_digest r) = sample_digest | _ \<Rightarrow> False" by code_simp
  then show ?thesis by (auto split: sum.splits prod.splits response.splits)
qed

theorem reserve_fences_witness:
  "\<exists>r db'. resource_reserve sample_env (sample_reserve ''a'') (pt_db sample_installed)
     = Inr (WithReceipt ''reserved'' (Some ''secret'') r, db') \<and> dict_get (rd_holds db') ''gpu:0'' = Some (''a'', 1)"
proof -
  obtain r db' where r: "resource_reserve sample_env (sample_reserve ''a'') (pt_db sample_installed)
     = Inr (WithReceipt ''reserved'' (Some ''secret'') r, db')"
     "rp_allocation_id r = ''a''" "rp_fence r = 1" "rp_keys r = [''gpu:0'']"
    using sample_reserve_run by blast
  from reserve_fences [OF reachable_inv [OF sample_installed_reachable] r(1)] r show ?thesis by simp
qed

text \<open>
  C30: A granted reservation can be claimed.  An owner that presents the allocation
  identifier, the token and fence of the answer and its policy identity, on the same boot and
  before the reservation expires, is given the claim, whatever else reconciliation finds; the
  allocation is then \<open>CLAIMED\<close> by that owner.
\<close>

theorem reserve_then_claim:
  assumes inv: "res_inv db" and run: "resource_reserve env body db = Inr (WithReceipt st (Some tok) r, db')"
    and boot: "en_boot env' = en_boot env" and time: "en_mono env' < en_mono env + RESOURCE_RESERVATION_NS"
    and sha: "en_sha256 env' = en_sha256 env" and tok: "tok \<noteq> []" "length tok \<le> 256"
    and req: "dict_get req ''allocation_id'' = Some (JStr (rp_allocation_id r))"
      "dict_get req ''token'' = Some (JStr tok)" "dict_get req ''fence'' = Some (JInt (rp_fence r))"
      "dict_get req ''policy_generation'' = Some (JInt (rp_policy_generation r))"
      "dict_get req ''policy_digest'' = Some (JStr (rp_policy_digest r))"
    and own: "owner_identity ow = Inr owner"
  shows "\<exists>c db''. resource_owner_mutation env' (Claim ow) req db' = (Inr c, db'')
      \<and> rp_state c = CLAIMED \<and> rp_fence c = rp_fence r \<and> rp_keys c = rp_keys r
      \<and> map_option fst (rp_owner c) = Some owner"
proof -
  obtain row where row: "alloc_row db' (rp_allocation_id r) = Some row" "r = resource_receipt row (en_boot env)"
    "al_state row = RESERVED" "al_reservation_boot row = en_boot env"
    "al_expires_mono row = en_mono env + RESOURCE_RESERVATION_NS" "al_token_sha256 row = en_sha256 env tok"
    "rp_allocation_id r = al_id row" "length (al_id row) \<le> 200" "al_id row \<noteq> []" "CHR 0x00 \<notin> set (al_id row)"
    "is_sha256_hex (al_policy_digest row)"
    "reserve_policy_error db' (al_keys row) (al_policy_generation row) (al_policy_digest row) = None"
    using reserve_claimable [OF run] by blast
  have inv': "res_inv db'"
    by (rule rs.steps_inv [OF reserve_steps [OF inv run, of "\<lambda>_. True"] inv]) simp
  have auth: "resource_auth env' req True db' = Inr row"
    using row req sha tok
    by (simp add: resource_auth_def bounded_resource_text_def json_str_def strict_int_def resource_receipt_def)
  have "\<exists>db''. resource_owner_claim env' req ow db' = Inr (resource_receipt (claim_row env' owner row) (en_boot env'), db'')
         \<and> alloc_row db'' (rp_allocation_id r) = Some (claim_row env' owner row)"
    by (rule claim_succeeds [OF inv' row(1,3) _ _ auth _ _ row(12) own])
      (use row req boot time in \<open>simp_all add: resource_sha256_def json_str_def resource_receipt_def\<close>)
  then show ?thesis
    using row(2,3) by (auto simp: resource_owner_mutation_def transaction_def claim_row_def resource_receipt_def)
qed

theorem reserve_then_claim_witness:
  "\<exists>r db'. resource_reserve sample_env (sample_reserve ''a'') (pt_db sample_installed)
     = Inr (WithReceipt ''reserved'' (Some ''secret'') r, db')
     \<and> (\<exists>c db''. resource_owner_mutation sample_env (Claim sample_owner) sample_claim db' = (Inr c, db'') \<and> rp_state c = CLAIMED)"
proof -
  obtain r db' where r: "resource_reserve sample_env (sample_reserve ''a'') (pt_db sample_installed)
     = Inr (WithReceipt ''reserved'' (Some ''secret'') r, db')"
     "rp_allocation_id r = ''a''" "rp_fence r = 1" "rp_policy_generation r = 1" "JStr (rp_policy_digest r) = sample_digest"
    using sample_reserve_run by blast
  have "case owner_identity sample_owner of Inl _ \<Rightarrow> False | Inr _ \<Rightarrow> True" by code_simp
  then obtain owner where o: "owner_identity sample_owner = Inr owner" by (auto split: sum.splits)
  have "\<exists>c db''. resource_owner_mutation sample_env (Claim sample_owner) sample_claim db' = (Inr c, db'')
      \<and> rp_state c = CLAIMED \<and> rp_fence c = rp_fence r \<and> rp_keys c = rp_keys r
      \<and> map_option fst (rp_owner c) = Some owner"
    by (rule reserve_then_claim [OF reachable_inv [OF sample_installed_reachable] r(1) _ _ _ _ _ _ _ _ _ _ o])
      (use r in \<open>simp_all add: sample_claim_def RESOURCE_RESERVATION_NS_def\<close>)
  with r(1) show ?thesis by blast
qed

end
