(* ===== verification/Authority.thy ===== *)
theory Authority
  imports TargetResources "HOL-Library.Product_Lexorder"
begin

text \<open>
  The project authority (\<open>src/remrun/remote/runner.py\<close>): project leases with fences, grants
  signed for enrolled targets, the import of signed status receipts, and recovery.  Each
  operation runs inside one transaction of \<open>authority_rpc\<close>.  The metadata row is read when the
  store is opened, before that transaction, so it is an argument of its own.  Fresh
  identifiers and keys, the clock, SHA-256, HMAC and base64 are fields of the environment.
\<close>

section \<open>Tables\<close>

datatype project_state = BOOTSTRAP | READY | RECOVERING | SEALED

datatype lease_phase = NORMAL_PHASE | RECOVERY_PHASE

datatype lease_state = LEASE_ACTIVE | LEASE_SUPERSEDED | LEASE_RELEASED

datatype target_state = KEY_PENDING | KEY_ENROLLED | KEY_RETIRED

datatype grant_state = ISSUED | ACCEPTED | TERMINAL | FENCED | UNKNOWN

record project_row =
  pj_id :: string
  pj_policy :: string
  pj_state :: project_state
  pj_next_fence :: int
  pj_current :: "string option"
  pj_active_run :: "string option"
  pj_pending_txn :: "string option"
  pj_prior :: "project_state option"
  pj_updated :: int

record lease_row =
  le_project :: string
  le_acquire_id :: string
  le_request_sha256 :: string
  le_fence :: int
  le_token_sha256 :: string
  le_controller :: string
  le_controller_replica :: string
  le_owner_host :: "json option"
  le_owner_pid :: "json option"
  le_phase :: lease_phase
  le_state :: lease_state
  le_recovery_of :: "string option"
  le_heartbeat_seq :: int
  le_acquired_at :: int
  le_heartbeat_at :: int
  le_until :: int
  le_released_at :: "int option"

record target_row =
  tr_key_id :: string
  tr_key_sha256 :: string
  tr_state :: target_state

record grant_row =
  gr_request_id :: string
  gr_project :: string
  gr_lease :: string
  gr_epoch :: int
  gr_fence :: int
  gr_target :: string
  gr_operation :: string
  gr_operation_id :: string
  gr_request_sha256 :: string
  gr_issue_sha256 :: string
  gr_capability :: json
  gr_state :: grant_state
  gr_accepted_at :: "int option"
  gr_terminal_at :: "int option"
  gr_result :: "json option"
  gr_last_receipt :: "string option"

record authority_meta =
  am_cluster :: string
  am_epoch :: int
  am_sealed :: bool
  am_lease_seconds :: int

text \<open>Targets are unique per device and epoch; key files are named by device, epoch and key.\<close>

record authority =
  au_epoch :: int
  au_projects :: "(string, project_row) dict"
  au_leases :: "(string, lease_row) dict"
  au_targets :: "(string \<times> int, target_row) dict"
  au_grants :: "(string, grant_row) dict"
  au_keys :: "(string \<times> int \<times> string, string) dict"

record authority_env =
  ae_now :: int
  ae_uuid :: string
  ae_secret :: string
  ae_sha256 :: "string \<Rightarrow> string"
  ae_b64decode :: "string \<Rightarrow> string option"
  ae_b64url :: "string \<Rightarrow> string"
  ae_hmac :: "string \<Rightarrow> json \<Rightarrow> string"
  ae_digest :: "json \<Rightarrow> string"

type_synonym reply = "(string, json) dict"

type_synonym au_op = "authority \<Rightarrow> runner_error + reply \<times> authority"

definition LEASE_NS :: int where
  "LEASE_NS = 1000000000"

text \<open>\<open>{"ok": True, "status": status, ...}\<close>\<close>

definition reply_with :: "string \<Rightarrow> (string, json) dict \<Rightarrow> reply" where
  "reply_with status rest = (''ok'', JBool True) # (''status'', JStr status) # rest"

definition opt_json :: "('a \<Rightarrow> json) \<Rightarrow> 'a option \<Rightarrow> json" where
  "opt_json f v = (case v of None \<Rightarrow> JNull | Some x \<Rightarrow> f x)"

definition truthy :: "string option \<Rightarrow> bool" where
  "truthy v \<longleftrightarrow> v \<noteq> None \<and> v \<noteq> Some []"

fun project_state_word :: "project_state \<Rightarrow> string" where
  "project_state_word BOOTSTRAP = ''BOOTSTRAP''"
| "project_state_word READY = ''READY''"
| "project_state_word RECOVERING = ''RECOVERY''"
| "project_state_word SEALED = ''SEALED''"

fun lease_state_word :: "lease_state \<Rightarrow> string" where
  "lease_state_word LEASE_ACTIVE = ''ACTIVE''"
| "lease_state_word LEASE_SUPERSEDED = ''SUPERSEDED''"
| "lease_state_word LEASE_RELEASED = ''RELEASED''"

fun phase_word :: "lease_phase \<Rightarrow> string" where
  "phase_word NORMAL_PHASE = ''NORMAL''"
| "phase_word RECOVERY_PHASE = ''RECOVERY''"

fun target_state_word :: "target_state \<Rightarrow> string" where
  "target_state_word KEY_PENDING = ''PENDING''"
| "target_state_word KEY_ENROLLED = ''ENROLLED''"
| "target_state_word KEY_RETIRED = ''RETIRED''"

fun grant_state_word :: "grant_state \<Rightarrow> string" where
  "grant_state_word ISSUED = ''ISSUED''"
| "grant_state_word ACCEPTED = ''ACCEPTED''"
| "grant_state_word TERMINAL = ''TERMINAL''"
| "grant_state_word FENCED = ''FENCED''"
| "grant_state_word UNKNOWN = ''UNKNOWN''"

definition lease_dict :: "string \<Rightarrow> lease_row \<Rightarrow> json" where
  "lease_dict i l = JObj
     [(''lease_id'', JStr i), (''project_key'', JStr (le_project l)), (''acquire_id'', JStr (le_acquire_id l)),
      (''fence'', JInt (le_fence l)), (''controller_id'', JStr (le_controller l)),
      (''controller_replica_id'', JStr (le_controller_replica l)),
      (''owner_host'', opt_json id (le_owner_host l)), (''owner_pid'', opt_json id (le_owner_pid l)),
      (''phase'', JStr (phase_word (le_phase l))), (''state'', JStr (lease_state_word (le_state l))),
      (''recovery_of_lease_id'', opt_json JStr (le_recovery_of l)),
      (''heartbeat_seq'', JInt (le_heartbeat_seq l)), (''acquired_at_ns'', JInt (le_acquired_at l)),
      (''heartbeat_at_ns'', JInt (le_heartbeat_at l)), (''lease_until_ns'', JInt (le_until l)),
      (''released_at_ns'', opt_json JInt (le_released_at l))]"

section \<open>Credentials and digests\<close>

definition token_sha256 :: "authority_env \<Rightarrow> json option \<Rightarrow> runner_error + string" where
  "token_sha256 env v =
     (case json_str v of
        None \<Rightarrow> Inl (RunnerError ''owner_token is required'')
      | Some s \<Rightarrow>
          if s = [] then Inl (RunnerError ''owner_token is required'')
          else (case ae_b64decode env s of
              None \<Rightarrow> Inl (RunnerError ''owner_token is not valid base64url'')
            | Some raw \<Rightarrow>
                if length raw \<noteq> 32 then Inl (RunnerError ''owner_token must contain 32 random bytes'')
                else Inr (ae_sha256 env raw)))"

definition acquire_request_digest :: "authority_env \<Rightarrow> request \<Rightarrow> string \<Rightarrow> string" where
  "acquire_request_digest env body token_hash =
     ae_digest env (JObj
       [(''cluster_id'', JStr (get_str body ''cluster_id'')), (''project_key'', JStr (get_str body ''project_key'')),
        (''policy_sha256'', JStr (get_str body ''policy_sha256'')), (''acquire_id'', JStr (get_str body ''acquire_id'')),
        (''owner_token_sha256'', JStr token_hash), (''controller_id'', JStr (get_str body ''controller_id'')),
        (''controller_replica_id'', JStr (get_str body ''controller_replica_id'')),
        (''owner_host'', opt_json id (get_opt body ''owner_host'')), (''owner_pid'', opt_json id (get_opt body ''owner_pid''))])"

text \<open>Project, lease, fence and token digest of a request.\<close>

definition lease_credential :: "authority_env \<Rightarrow> request \<Rightarrow> runner_error + string \<times> string \<times> int \<times> string" where
  "lease_credential env body =
     (case get_int body ''fence'' (- 1) of
        None \<Rightarrow> Inl ValueError
      | Some fence \<Rightarrow>
          (case token_sha256 env (dict_get body ''owner_token'') of
             Inl e \<Rightarrow> Inl e
           | Inr tok \<Rightarrow> Inr (get_str body ''project_key'', get_str body ''lease_id'', fence, tok)))"

definition unresolved :: "grant_state \<Rightarrow> bool" where
  "unresolved st \<longleftrightarrow> st \<in> {ISSUED, UNKNOWN, ACCEPTED}"

definition unresolved_grants :: "authority \<Rightarrow> string \<Rightarrow> (string \<times> grant_row) list" where
  "unresolved_grants au project =
     sort_key (\<lambda>(i, g). (gr_fence g, i))
       (filter (\<lambda>(i, g). gr_project g = project \<and> unresolved (gr_state g)) (au_grants au))"

text \<open>The lease row that the credential selects while it is the project's current lease.\<close>

definition held_lease :: "authority \<Rightarrow> string \<Rightarrow> string \<Rightarrow> int \<Rightarrow> string \<Rightarrow> (lease_row \<times> project_row) option" where
  "held_lease au project lease_id fence tok =
     (case (dict_get (au_leases au) lease_id, dict_get (au_projects au) project) of
        (Some l, Some p) \<Rightarrow>
          if le_project l = project \<and> le_fence l = fence \<and> le_token_sha256 l = tok \<and> pj_current p = Some lease_id
          then Some (l, p) else None
      | _ \<Rightarrow> None)"

definition set_lease :: "string \<Rightarrow> lease_row \<Rightarrow> authority \<Rightarrow> authority" where
  "set_lease i l au = au\<lparr>au_leases := dict_set i l (au_leases au)\<rparr>"

definition set_project :: "string \<Rightarrow> project_row \<Rightarrow> authority \<Rightarrow> authority" where
  "set_project k p au = au\<lparr>au_projects := dict_set k p (au_projects au)\<rparr>"

definition set_grant :: "string \<Rightarrow> grant_row \<Rightarrow> authority \<Rightarrow> authority" where
  "set_grant i g au = au\<lparr>au_grants := dict_set i g (au_grants au)\<rparr>"

section \<open>Projects\<close>

definition project_register :: "authority_env \<Rightarrow> request \<Rightarrow> au_op" where
  "project_register env body au =
     (let key = get_str body ''project_key''; pid = get_str body ''project_id''; policy = get_str body ''policy_sha256'';
          done = reply_with ''REGISTERED'' [(''project_key'', JStr key)]
      in if length key \<noteq> 64 \<or> length policy \<noteq> 64 \<or> pid = []
         then Inl (RunnerError ''project_key, project_id, and policy_sha256 are required'')
         else (case dict_get (au_projects au) key of
             Some prior \<Rightarrow>
               if pj_id prior \<noteq> pid \<or> pj_policy prior \<noteq> policy then Inl (RunnerError ''project registration mismatch'')
               else Inr (done, au)
           | None \<Rightarrow>
               if list_ex (\<lambda>(k, p). pj_id p = pid) (au_projects au) then Inl IntegrityError
               else Inr (done, set_project key \<lparr>pj_id = pid, pj_policy = policy, pj_state = BOOTSTRAP, pj_next_fence = 0,
                      pj_current = None, pj_active_run = None, pj_pending_txn = None, pj_prior = None,
                      pj_updated = ae_now env\<rparr> au)))"

section \<open>Leases\<close>

definition find_acquire :: "authority \<Rightarrow> string \<Rightarrow> (string \<times> lease_row) option" where
  "find_acquire au acquire_id = List.find (\<lambda>(i, l). le_acquire_id l = acquire_id) (au_leases au)"

text \<open>The answer to a repeated acquire.\<close>

definition acquire_again :: "authority_env \<Rightarrow> string \<Rightarrow> lease_row \<Rightarrow> authority \<Rightarrow> reply" where
  "acquire_again env lease_id prior au =
     reply_with
       (if le_state prior = LEASE_ACTIVE
           \<and> (case dict_get (au_projects au) (le_project prior) of None \<Rightarrow> False | Some p \<Rightarrow> pj_current p = Some lease_id)
           \<and> ae_now env < le_until prior then ''ACQUIRED''
        else if le_state prior \<in> {LEASE_SUPERSEDED, LEASE_RELEASED} then lease_state_word (le_state prior)
        else ''LOST'')
       [(''idempotent'', JBool True), (''lease'', lease_dict lease_id prior)]"

definition current_lease :: "authority \<Rightarrow> project_row \<Rightarrow> (string \<times> lease_row) option" where
  "current_lease au p =
     (case pj_current p of
        None \<Rightarrow> None
      | Some i \<Rightarrow> if i = [] then None else map_option (Pair i) (dict_get (au_leases au) i))"

definition holder_busy :: "authority_env \<Rightarrow> (string \<times> lease_row) option \<Rightarrow> bool" where
  "holder_busy env cur =
     (case cur of None \<Rightarrow> False | Some (i, l) \<Rightarrow> le_state l = LEASE_ACTIVE \<and> ae_now env < le_until l)"

definition busy_reply :: "string \<Rightarrow> lease_row \<Rightarrow> reply" where
  "busy_reply i l = reply_with ''BUSY'' [(''holder'', JObj
     [(''lease_id'', JStr i), (''fence'', JInt (le_fence l)), (''controller_id'', JStr (le_controller l)),
      (''owner_host'', opt_json id (le_owner_host l)), (''owner_pid'', opt_json id (le_owner_pid l)),
      (''lease_until_ns'', JInt (le_until l))])]"

text \<open>What SQLite can bind as a parameter.\<close>

definition bindable :: "json option \<Rightarrow> bool" where
  "bindable v = (case v of Some (JList _) \<Rightarrow> False | Some (JObj _) \<Rightarrow> False | _ \<Rightarrow> True)"

definition takeover_phase :: "authority \<Rightarrow> string \<Rightarrow> project_row \<Rightarrow> lease_phase" where
  "takeover_phase au project p =
     (if pj_state p = RECOVERING \<or> truthy (pj_active_run p) \<or> truthy (pj_pending_txn p)
         \<or> unresolved_grants au project \<noteq> [] then RECOVERY_PHASE else NORMAL_PHASE)"

definition new_lease ::
  "authority_env \<Rightarrow> authority_meta \<Rightarrow> request \<Rightarrow> string \<Rightarrow> project_row \<Rightarrow> (string \<times> lease_row) option \<Rightarrow> authority \<Rightarrow> lease_row" where
  "new_lease env meta body tok p cur au =
     \<lparr>le_project = get_str body ''project_key'', le_acquire_id = get_str body ''acquire_id'',
      le_request_sha256 = acquire_request_digest env body tok, le_fence = pj_next_fence p + 1, le_token_sha256 = tok,
      le_controller = get_str body ''controller_id'', le_controller_replica = get_str body ''controller_replica_id'',
      le_owner_host = get_opt body ''owner_host'', le_owner_pid = get_opt body ''owner_pid'',
      le_phase = takeover_phase au (get_str body ''project_key'') p, le_state = LEASE_ACTIVE,
      le_recovery_of = map_option fst cur, le_heartbeat_seq = 0, le_acquired_at = ae_now env,
      le_heartbeat_at = ae_now env, le_until = ae_now env + am_lease_seconds meta * LEASE_NS, le_released_at = None\<rparr>"

definition supersede :: "(string \<times> lease_row) option \<Rightarrow> authority \<Rightarrow> authority" where
  "supersede cur au = (case cur of None \<Rightarrow> au | Some (i, l) \<Rightarrow> set_lease i (l\<lparr>le_state := LEASE_SUPERSEDED\<rparr>) au)"

text \<open>
  The insert and the updates of a takeover; the table's constraints refuse a repeated lease
  identifier or fence, and \<open>SEALED\<close> as the state to restore.
\<close>

definition takeover ::
  "authority_env \<Rightarrow> authority_meta \<Rightarrow> request \<Rightarrow> string \<Rightarrow> project_row \<Rightarrow> (string \<times> lease_row) option \<Rightarrow> au_op" where
  "takeover env meta body tok p cur au =
     (let project = get_str body ''project_key''; l = new_lease env meta body tok p cur au
      in if \<not> bindable (le_owner_host l) \<or> \<not> bindable (le_owner_pid l) then Inl ValueError
         else if dict_get (au_leases au) (ae_uuid env) \<noteq> None
            \<or> list_ex (\<lambda>(i, k). le_project k = project \<and> le_fence k = le_fence l) (au_leases au)
            \<or> le_phase l = RECOVERY_PHASE \<and> pj_state p = SEALED
         then Inl IntegrityError
         else Inr (reply_with ''ACQUIRED'' [(''idempotent'', JBool False), (''lease'', lease_dict (ae_uuid env) l)],
           set_project project
             (p\<lparr>pj_next_fence := le_fence l, pj_current := Some (ae_uuid env),
                pj_state := (if le_phase l = RECOVERY_PHASE then RECOVERING else pj_state p),
                pj_prior := (if le_phase l = RECOVERY_PHASE \<and> pj_state p \<noteq> RECOVERING then Some (pj_state p) else pj_prior p),
                pj_updated := ae_now env\<rparr>)
             (supersede cur (set_lease (ae_uuid env) l au))))"

definition authority_acquire :: "authority_env \<Rightarrow> authority_meta \<Rightarrow> request \<Rightarrow> au_op" where
  "authority_acquire env meta body au =
     (case token_sha256 env (dict_get body ''owner_token'') of
        Inl e \<Rightarrow> Inl e
      | Inr tok \<Rightarrow>
          if get_str body ''acquire_id'' = [] then Inl (RunnerError ''acquire_id is required'')
          else (case find_acquire au (get_str body ''acquire_id'') of
              Some (i, prior) \<Rightarrow>
                if le_token_sha256 prior \<noteq> tok \<or> le_request_sha256 prior \<noteq> acquire_request_digest env body tok
                then Inl (RunnerError ''acquire_id reused with a different request'')
                else Inr (acquire_again env i prior au, au)
            | None \<Rightarrow>
                (case dict_get (au_projects au) (get_str body ''project_key'') of
                   None \<Rightarrow> Inl (RunnerError ''project is not registered'')
                 | Some p \<Rightarrow>
                     if get_str body ''policy_sha256'' \<noteq> pj_policy p
                     then Inl (RunnerError ''project surface policy mismatch'')
                     else (case current_lease au p of
                         Some (i, l) \<Rightarrow>
                           if holder_busy env (Some (i, l)) then Inr (busy_reply i l, au)
                           else takeover env meta body tok p (Some (i, l)) au
                       | None \<Rightarrow> takeover env meta body tok p None au))))"

definition authority_heartbeat :: "authority_env \<Rightarrow> authority_meta \<Rightarrow> request \<Rightarrow> au_op" where
  "authority_heartbeat env meta body au =
     (case lease_credential env body of
        Inl e \<Rightarrow> Inl e
      | Inr (project, lease_id, fence, tok) \<Rightarrow>
          (case held_lease au project lease_id fence tok of
             None \<Rightarrow> Inr (reply_with ''LOST'' [], au)
           | Some (l, p) \<Rightarrow>
               if le_state l \<noteq> LEASE_ACTIVE then Inr (reply_with ''LOST'' [], au)
               else (let l' = l\<lparr>le_heartbeat_seq := le_heartbeat_seq l + 1, le_heartbeat_at := ae_now env,
                              le_until := max (le_until l) (ae_now env + am_lease_seconds meta * LEASE_NS)\<rparr>
                     in Inr (reply_with ''OWNED'' [(''lease'', lease_dict lease_id l')], set_lease lease_id l' au))))"

definition authority_release :: "authority_env \<Rightarrow> request \<Rightarrow> au_op" where
  "authority_release env body au =
     (case lease_credential env body of
        Inl e \<Rightarrow> Inl e
      | Inr (project, lease_id, fence, tok) \<Rightarrow>
          (case dict_get (au_projects au) project of
             None \<Rightarrow> Inr (reply_with ''LOST'' [], au)
           | Some p \<Rightarrow>
               if pj_current p \<noteq> Some lease_id then Inr (reply_with ''LOST'' [], au)
               else if pj_state p = RECOVERING
                    \<or> (case dict_get (au_leases au) lease_id of None \<Rightarrow> True | Some l \<Rightarrow> le_phase l = RECOVERY_PHASE)
                    \<or> truthy (pj_active_run p) \<or> truthy (pj_pending_txn p) \<or> unresolved_grants au project \<noteq> []
               then Inr (reply_with ''RECOVERY_REQUIRED'' [], au)
               else (case held_lease au project lease_id fence tok of
                   None \<Rightarrow> Inr (reply_with ''LOST'' [], au)
                 | Some (l, _) \<Rightarrow>
                     if le_state l \<noteq> LEASE_ACTIVE then Inr (reply_with ''LOST'' [], au)
                     else Inr (reply_with ''RELEASED'' [],
                            set_project project (p\<lparr>pj_current := None, pj_updated := ae_now env\<rparr>)
                              (set_lease lease_id (l\<lparr>le_state := LEASE_RELEASED, le_released_at := Some (ae_now env)\<rparr>) au)))))"

section \<open>Target keys and epochs\<close>

text \<open>The identity check of \<open>_secret_path\<close>; a key file is named by cluster, device, epoch and key.\<close>

definition secret_path_ok :: "string \<Rightarrow> string \<Rightarrow> int \<Rightarrow> string \<Rightarrow> bool" where
  "secret_path_ok cluster target epoch key_id \<longleftrightarrow>
     (let safe = filter (\<lambda>c. c \<noteq> CHR ''-'') (cluster @ target @ py_str (JInt epoch) @ key_id)
      in safe \<noteq> [] \<and> list_all alnum safe)"

definition key_reply :: "string \<Rightarrow> string \<Rightarrow> int \<Rightarrow> string \<Rightarrow> string \<Rightarrow> bool \<Rightarrow> reply" where
  "key_reply status target epoch key_id digest idempotent =
     reply_with status [(''target_device_id'', JStr target), (''authority_epoch'', JInt epoch), (''key_id'', JStr key_id),
       (''key_sha256'', JStr digest), (''idempotent'', JBool idempotent)]"

definition target_key_create :: "authority_env \<Rightarrow> authority_meta \<Rightarrow> request \<Rightarrow> au_op" where
  "target_key_create env meta body au =
     (let target = get_str body ''target_device_id''; epoch = am_epoch meta; digest = ae_sha256 env (ae_secret env)
      in if target = [] then Inl (RunnerError ''target_device_id is required'')
         else (case dict_get (au_targets au) (target, epoch) of
             Some prior \<Rightarrow>
               Inr (key_reply (target_state_word (tr_state prior)) target epoch (tr_key_id prior) (tr_key_sha256 prior) True, au)
           | None \<Rightarrow>
               if \<not> secret_path_ok (am_cluster meta) target epoch (ae_uuid env) then Inl (RunnerError ''invalid key identity'')
               else if dict_get (au_keys au) (target, epoch, ae_uuid env) \<noteq> None then Inl OSError
               else Inr (key_reply ''PENDING'' target epoch (ae_uuid env) digest False,
                 au\<lparr>au_keys := dict_set (target, epoch, ae_uuid env) (ae_secret env) (au_keys au),
                    au_targets := dict_set (target, epoch)
                      \<lparr>tr_key_id = ae_uuid env, tr_key_sha256 = digest, tr_state = KEY_PENDING\<rparr> (au_targets au)\<rparr>)))"

text \<open>The HMAC check of a signed envelope: \<open>compare_digest(hmac(secret, body), decode(sig))\<close>.\<close>

definition signature_error :: "authority_env \<Rightarrow> string \<Rightarrow> (string, json) dict \<Rightarrow> (string, json) dict \<Rightarrow> string \<Rightarrow> runner_error option" where
  "signature_error env secret body envelope msg =
     (case ae_b64decode env (get_str envelope ''sig'') of
        None \<Rightarrow> Some (RunnerError ''invalid base64url value'')
      | Some actual \<Rightarrow> if ae_hmac env secret (JObj body) \<noteq> actual then Some (RunnerError msg) else None)"

definition enrolled_pending :: "authority_env \<Rightarrow> authority_meta \<Rightarrow> (string, json) dict \<Rightarrow> (string, json) dict \<Rightarrow> int \<Rightarrow> au_op" where
  "enrolled_pending env meta receipt body epoch au =
     (let target = get_str body ''target_device_id''; key_id = get_str body ''key_id''; digest = get_str body ''key_sha256''
      in (case dict_get (au_targets au) (target, epoch) of
            None \<Rightarrow> Inl (RunnerError ''target enrollment receipt does not match the prepared key'')
          | Some row \<Rightarrow>
              if tr_key_id row \<noteq> key_id \<or> tr_key_sha256 row \<noteq> digest
              then Inl (RunnerError ''target enrollment receipt does not match the prepared key'')
              else if \<not> secret_path_ok (am_cluster meta) target epoch key_id then Inl (RunnerError ''invalid key identity'')
              else (case dict_get (au_keys au) (target, epoch, key_id) of
                  None \<Rightarrow> Inl OSError
                | Some secret \<Rightarrow>
                    (case signature_error env secret body receipt ''target enrollment receipt signature mismatch'' of
                       Some e \<Rightarrow> Inl e
                     | None \<Rightarrow>
                         if tr_state row = KEY_ENROLLED
                         then Inr (key_reply ''ENROLLED'' target epoch key_id digest True, au)
                         else if tr_state row \<noteq> KEY_PENDING then Inl (RunnerError ''target enrollment is not pending'')
                         else Inr (key_reply ''ENROLLED'' target epoch key_id digest False,
                           au\<lparr>au_targets := dict_set (target, epoch) (row\<lparr>tr_state := KEY_ENROLLED\<rparr>) (au_targets au)\<rparr>)))))"

definition target_key_finalize :: "authority_env \<Rightarrow> authority_meta \<Rightarrow> request \<Rightarrow> au_op" where
  "target_key_finalize env meta body au =
     (case json_obj (dict_get body ''receipt'') of
        None \<Rightarrow> Inl (RunnerError ''invalid target enrollment receipt'')
      | Some receipt \<Rightarrow>
          if \<not> eq_str (dict_get receipt ''sig_alg'') ''hmac-sha256''
          then Inl (RunnerError ''invalid target enrollment receipt'')
          else (case json_obj (dict_get receipt ''body'') of
              None \<Rightarrow> Inl (RunnerError ''invalid target enrollment receipt body'')
            | Some rb \<Rightarrow>
                if \<not> eq_str (dict_get rb ''kind'') ''key-enrollment''
                then Inl (RunnerError ''invalid target enrollment receipt body'')
                else (case (get_int rb ''v'' 0, get_int rb ''authority_epoch'' 0) of
                    (None, _) \<Rightarrow> Inl ValueError
                  | (Some v, ep) \<Rightarrow>
                      if v \<noteq> 1 then Inl (RunnerError ''invalid target enrollment receipt body'')
                      else (case ep of
                          None \<Rightarrow> Inl ValueError
                        | Some epoch \<Rightarrow>
                            if get_str rb ''cluster_id'' \<noteq> am_cluster meta \<or> epoch \<noteq> am_epoch meta
                            then Inl (RunnerError ''target enrollment receipt identity or epoch mismatch'')
                            else enrolled_pending env meta receipt rb epoch au))))"

definition quiescent :: "authority \<Rightarrow> bool" where
  "quiescent au \<longleftrightarrow>
     \<not> list_ex (\<lambda>(k, p). pj_current p \<noteq> None \<or> pj_active_run p \<noteq> None \<or> pj_pending_txn p \<noteq> None) (au_projects au)
     \<and> \<not> list_ex (\<lambda>(i, g). unresolved (gr_state g)) (au_grants au)
     \<and> \<not> list_ex (\<lambda>(k, t). tr_state t = KEY_PENDING) (au_targets au)"

definition epoch_rotate :: "authority_meta \<Rightarrow> request \<Rightarrow> au_op" where
  "epoch_rotate meta body au =
     (case get_int body ''expected_authority_epoch'' 0 of
        None \<Rightarrow> Inl ValueError
      | Some expected \<Rightarrow>
          if expected \<noteq> am_epoch meta then Inl (RunnerError ''authority epoch rotation expectation mismatch'')
          else if \<not> quiescent au then Inr (reply_with ''NOT_QUIESCENT'' [], au)
          else Inr (reply_with ''ROTATED'' [(''authority_epoch'', JInt (expected + 1)), (''previous_authority_epoch'', JInt expected)],
            au\<lparr>au_epoch := expected + 1,
               au_targets := map (\<lambda>((t, e), row). ((t, e),
                 if e = expected \<and> tr_state row = KEY_ENROLLED then row\<lparr>tr_state := KEY_RETIRED\<rparr> else row)) (au_targets au)\<rparr>))"

section \<open>Grants\<close>

definition FENCE_BARRIER :: string where
  "FENCE_BARRIER = ''fence_barrier''"

text \<open>The fields of a grant request.\<close>

record issue_request =
  ir_project :: string
  ir_lease :: string
  ir_fence :: int
  ir_token :: string
  ir_request_id :: string
  ir_target :: string
  ir_operation :: string
  ir_operation_id :: string
  ir_request_sha256 :: string

definition issue_digest :: "authority_env \<Rightarrow> issue_request \<Rightarrow> string" where
  "issue_digest env r =
     ae_digest env (JObj
       [(''project_key'', JStr (ir_project r)), (''lease_id'', JStr (ir_lease r)), (''fence'', JInt (ir_fence r)),
        (''owner_token_sha256'', JStr (ir_token r)), (''grant_request_id'', JStr (ir_request_id r)),
        (''target_device_id'', JStr (ir_target r)), (''operation'', JStr (ir_operation r)),
        (''operation_id'', JStr (ir_operation_id r)), (''request_sha256'', JStr (ir_request_sha256 r))])"

definition issue_request_of :: "authority_env \<Rightarrow> request \<Rightarrow> runner_error + issue_request" where
  "issue_request_of env body =
     (case lease_credential env body of
        Inl e \<Rightarrow> Inl e
      | Inr (project, lease_id, fence, tok) \<Rightarrow>
          (let r = \<lparr>ir_project = project, ir_lease = lease_id, ir_fence = fence, ir_token = tok,
                 ir_request_id = get_str body ''grant_request_id'', ir_target = get_str body ''target_device_id'',
                 ir_operation = get_str body ''grant_operation'', ir_operation_id = get_str body ''operation_id'',
                 ir_request_sha256 = get_str body ''request_sha256''\<rparr>
           in if ir_request_id r = [] then Inl (RunnerError ''grant_request_id is required'')
              else if ir_operation r = [] \<or> ir_operation_id r = [] \<or> length (ir_request_sha256 r) \<noteq> 64
              then Inl (RunnerError ''grant operation, operation_id, and request_sha256 are required'')
              else Inr r))"

definition capability_body :: "authority_env \<Rightarrow> authority_meta \<Rightarrow> issue_request \<Rightarrow> (string, json) dict" where
  "capability_body env meta r =
     [(''v'', JInt 1), (''cluster_id'', JStr (am_cluster meta)), (''authority_epoch'', JInt (am_epoch meta)),
      (''grant_id'', JStr (ae_uuid env)), (''project_key'', JStr (ir_project r)), (''lease_id'', JStr (ir_lease r)),
      (''fence'', JInt (ir_fence r)), (''target_device_id'', JStr (ir_target r)), (''operation'', JStr (ir_operation r)),
      (''operation_id'', JStr (ir_operation_id r)), (''request_sha256'', JStr (ir_request_sha256 r))]"

definition signed_envelope :: "authority_env \<Rightarrow> string \<Rightarrow> string \<Rightarrow> (string, json) dict \<Rightarrow> (string, json) dict" where
  "signed_envelope env secret key_id body =
     [(''body'', JObj body), (''sig_alg'', JStr ''hmac-sha256''), (''key_id'', JStr key_id),
      (''sig'', JStr (ae_b64url env (ae_hmac env secret (JObj body))))]"

definition new_grant :: "authority_env \<Rightarrow> authority_meta \<Rightarrow> issue_request \<Rightarrow> json \<Rightarrow> grant_row" where
  "new_grant env meta r cap =
     \<lparr>gr_request_id = ir_request_id r, gr_project = ir_project r, gr_lease = ir_lease r, gr_epoch = am_epoch meta,
      gr_fence = ir_fence r, gr_target = ir_target r, gr_operation = ir_operation r, gr_operation_id = ir_operation_id r,
      gr_request_sha256 = ir_request_sha256 r, gr_issue_sha256 = issue_digest env r, gr_capability = cap,
      gr_state = ISSUED, gr_accepted_at = None, gr_terminal_at = None, gr_result = None, gr_last_receipt = None\<rparr>"

text \<open>Signing and recording a grant for an enrolled target.\<close>

definition sign_grant :: "authority_env \<Rightarrow> authority_meta \<Rightarrow> issue_request \<Rightarrow> au_op" where
  "sign_grant env meta r au =
     (case dict_get (au_targets au) (ir_target r, am_epoch meta) of
        None \<Rightarrow> Inl (RunnerError ''target is not enrolled'')
      | Some row \<Rightarrow>
          if tr_state row \<noteq> KEY_ENROLLED then Inl (RunnerError ''target is not enrolled'')
          else if \<not> secret_path_ok (am_cluster meta) (ir_target r) (am_epoch meta) (tr_key_id row)
          then Inl (RunnerError ''invalid key identity'')
          else (case dict_get (au_keys au) (ir_target r, am_epoch meta, tr_key_id row) of
              None \<Rightarrow> Inl OSError
            | Some secret \<Rightarrow>
                (let cap = JObj (signed_envelope env secret (tr_key_id row) (capability_body env meta r))
                 in if dict_get (au_grants au) (ae_uuid env) \<noteq> None then Inl IntegrityError
                    else Inr (reply_with ''ISSUED'' [(''idempotent'', JBool False), (''capability'', cap)],
                           set_grant (ae_uuid env) (new_grant env meta r cap) au))))"

definition find_request :: "authority \<Rightarrow> string \<Rightarrow> (string \<times> grant_row) option" where
  "find_request au request_id = List.find (\<lambda>(i, g). gr_request_id g = request_id) (au_grants au)"

definition grant_issue :: "authority_env \<Rightarrow> authority_meta \<Rightarrow> request \<Rightarrow> au_op" where
  "grant_issue env meta body au =
     (case issue_request_of env body of
        Inl e \<Rightarrow> Inl e
      | Inr r \<Rightarrow>
          (case find_request au (ir_request_id r) of
             Some (i, prior) \<Rightarrow>
               if gr_issue_sha256 prior \<noteq> issue_digest env r
               then Inl (RunnerError ''grant_request_id reused with a different request'')
               else Inr (reply_with (grant_state_word (gr_state prior))
                      [(''idempotent'', JBool True), (''capability'', gr_capability prior)], au)
           | None \<Rightarrow>
               (case held_lease au (ir_project r) (ir_lease r) (ir_fence r) (ir_token r) of
                  None \<Rightarrow> Inr (reply_with ''LOST'' [], au)
                | Some (l, p) \<Rightarrow>
                    if le_state l \<noteq> LEASE_ACTIVE \<or> ae_now env \<ge> le_until l then Inr (reply_with ''LOST'' [], au)
                    else if ir_operation r \<noteq> FENCE_BARRIER
                         \<and> (le_phase l = RECOVERY_PHASE \<or> pj_state p = RECOVERING
                            \<or> unresolved_grants au (ir_project r) \<noteq> [])
                    then Inr (reply_with ''RECOVERY_REQUIRED'' [], au)
                    else sign_grant env meta r au)))"

section \<open>Status receipts\<close>

definition verify_status_receipt ::
  "authority_env \<Rightarrow> authority_meta \<Rightarrow> json option \<Rightarrow> authority \<Rightarrow> runner_error + (string, json) dict \<times> string" where
  "verify_status_receipt env meta v au =
     (case json_obj v of
        None \<Rightarrow> Inl (RunnerError ''invalid grant status receipt envelope'')
      | Some receipt \<Rightarrow>
          if \<not> eq_str (dict_get receipt ''sig_alg'') ''hmac-sha256''
          then Inl (RunnerError ''invalid grant status receipt envelope'')
          else (case json_obj (dict_get receipt ''body'') of
              None \<Rightarrow> Inl (RunnerError ''invalid grant status receipt body'')
            | Some body \<Rightarrow>
                (case get_int body ''v'' 0 of
                   None \<Rightarrow> Inl ValueError
                 | Some v \<Rightarrow>
                     if v \<noteq> 1 \<or> \<not> eq_str (dict_get body ''kind'') ''grant-status''
                     then Inl (RunnerError ''invalid grant status receipt body'')
                     else (case get_int body ''authority_epoch'' 0 of
                         None \<Rightarrow> Inl ValueError
                       | Some epoch \<Rightarrow>
                           if get_str body ''cluster_id'' \<noteq> am_cluster meta \<or> epoch \<noteq> am_epoch meta
                           then Inl (RunnerError ''grant status receipt authority mismatch'')
                           else (case dict_get (au_targets au) (get_str body ''target_device_id'', epoch) of
                               None \<Rightarrow> Inl (RunnerError ''grant status receipt key is not enrolled'')
                             | Some row \<Rightarrow>
                                 if tr_state row \<noteq> KEY_ENROLLED \<or> tr_key_id row \<noteq> get_str receipt ''key_id''
                                 then Inl (RunnerError ''grant status receipt key is not enrolled'')
                                 else if \<not> secret_path_ok (am_cluster meta) (get_str body ''target_device_id'') epoch (tr_key_id row)
                                 then Inl (RunnerError ''invalid key identity'')
                                 else (case dict_get (au_keys au) (get_str body ''target_device_id'', epoch, tr_key_id row) of
                                     None \<Rightarrow> Inl (RunnerError ''grant status receipt key is unavailable'')
                                   | Some secret \<Rightarrow>
                                       if ae_sha256 env secret \<noteq> tr_key_sha256 row
                                       then Inl (RunnerError ''grant status receipt key fingerprint mismatch'')
                                       else (case signature_error env secret body receipt ''grant status receipt signature mismatch'' of
                                           Some e \<Rightarrow> Inl e
                                         | None \<Rightarrow> Inr (body, ae_digest env (JObj receipt)))))))))"

text \<open>One lower-fence observation of a barrier receipt, checked against the authority's row.\<close>

definition observation_error ::
  "authority \<Rightarrow> string \<Rightarrow> int \<Rightarrow> int \<Rightarrow> string \<Rightarrow> (string, json) dict \<Rightarrow> int \<Rightarrow> runner_error option" where
  "observation_error au project epoch barrier target item item_fence =
     (let inconsistent = Some (RunnerError ''barrier lower-fence observation is inconsistent'');
          st = get_str item ''state''
      in (case dict_get (au_grants au) (get_str item ''grant_id'') of
            None \<Rightarrow> inconsistent
          | Some g \<Rightarrow>
              if gr_project g \<noteq> project \<or> gr_epoch g \<noteq> epoch \<or> gr_fence g \<noteq> item_fence \<or> gr_target g \<noteq> target
                 \<or> gr_operation g \<noteq> get_str item ''operation'' \<or> gr_operation_id g \<noteq> get_str item ''operation_id''
                 \<or> gr_request_sha256 g \<noteq> get_str item ''request_sha256''
                 \<or> gr_fence g \<ge> barrier \<or> st \<notin> {''ACCEPTED'', ''TERMINAL''} \<or> gr_state g = FENCED
              then inconsistent
              else if gr_state g = TERMINAL \<and> (st \<noteq> ''TERMINAL'' \<or> \<not> json_opt_eq (gr_result g) (get_opt item ''result''))
              then Some (RunnerError ''barrier terminal observation conflicts with authority state'')
              else None))"

fun observations ::
  "authority \<Rightarrow> string \<Rightarrow> int \<Rightarrow> int \<Rightarrow> string \<Rightarrow> json list \<Rightarrow> (string, (string, json) dict) dict
   \<Rightarrow> runner_error + (string, (string, json) dict) dict" where
  "observations au project epoch barrier target [] observed = Inr observed"
| "observations au project epoch barrier target (v # vs) observed =
     (case json_obj (Some v) of
        None \<Rightarrow> Inl (RunnerError ''invalid barrier lower-fence observation'')
      | Some item \<Rightarrow>
          if get_str item ''grant_id'' = [] \<or> get_str item ''grant_id'' \<in> set (dict_keys observed)
          then Inl (RunnerError ''duplicate or empty barrier lower-fence grant'')
          else (case get_int item ''fence'' (- 1) of
              None \<Rightarrow> Inl ValueError
            | Some f \<Rightarrow>
                (case observation_error au project epoch barrier target item f of
                   Some e \<Rightarrow> Inl e
                 | None \<Rightarrow> observations au project epoch barrier target vs
                             (dict_set (get_str item ''grant_id'') item observed))))"

definition first_time :: "int \<Rightarrow> int option \<Rightarrow> int option" where
  "first_time now t = (case t of None \<Rightarrow> Some now | Some x \<Rightarrow> Some x)"

text \<open>The new row of a lower-fence grant after the barrier, or the error.\<close>

definition barrier_row :: "int \<Rightarrow> (string, (string, json) dict) dict \<Rightarrow> string \<Rightarrow> grant_row \<Rightarrow> runner_error + grant_row" where
  "barrier_row now observed i g =
     (case dict_get observed i of
        Some item \<Rightarrow>
          if dict_get item ''state'' = Some (JStr ''TERMINAL'')
          then Inr (g\<lparr>gr_state := TERMINAL, gr_result := get_opt item ''result'',
                   gr_accepted_at := first_time now (gr_accepted_at g), gr_terminal_at := first_time now (gr_terminal_at g)\<rparr>)
          else Inr (g\<lparr>gr_state := ACCEPTED, gr_accepted_at := first_time now (gr_accepted_at g)\<rparr>)
      | None \<Rightarrow>
          if gr_state g = ACCEPTED then Inl (RunnerError ''barrier omitted a grant already known accepted'')
          else Inr (g\<lparr>gr_state := FENCED, gr_terminal_at := first_time now (gr_terminal_at g)\<rparr>))"

fun settle_grants ::
  "int \<Rightarrow> (string, (string, json) dict) dict \<Rightarrow> (string \<times> grant_row) list \<Rightarrow> authority \<Rightarrow> runner_error + authority" where
  "settle_grants now observed [] au = Inr au"
| "settle_grants now observed ((i, g) # gs) au =
     (case barrier_row now observed i g of
        Inl e \<Rightarrow> Inl e
      | Inr g' \<Rightarrow> settle_grants now observed gs (set_grant i g' au))"

definition below_barrier :: "authority \<Rightarrow> string \<Rightarrow> int \<Rightarrow> string \<Rightarrow> int \<Rightarrow> (string \<times> grant_row) list" where
  "below_barrier au project epoch target barrier =
     filter (\<lambda>(i, g). gr_project g = project \<and> gr_epoch g = epoch \<and> gr_target g = target
       \<and> gr_fence g < barrier \<and> unresolved (gr_state g)) (au_grants au)"

definition reconcile_barrier ::
  "int \<Rightarrow> string \<Rightarrow> int \<Rightarrow> int \<Rightarrow> string \<Rightarrow> json option \<Rightarrow> authority \<Rightarrow> runner_error + authority" where
  "reconcile_barrier now project epoch barrier target result au =
     (case json_obj result of
        None \<Rightarrow> Inl (RunnerError ''barrier receipt is missing lower-fence observations'')
      | Some r \<Rightarrow>
          (case dict_get r ''lower_fence_operations'' of
             Some (JList items) \<Rightarrow>
               (case observations au project epoch barrier target items [] of
                  Inl e \<Rightarrow> Inl e
                | Inr observed \<Rightarrow> settle_grants now observed (below_barrier au project epoch target barrier) au)
           | _ \<Rightarrow> Inl (RunnerError ''barrier receipt is missing lower-fence observations'')))"

definition receipt_matches :: "grant_row \<Rightarrow> (string, json) dict \<Rightarrow> int \<Rightarrow> int \<Rightarrow> bool" where
  "receipt_matches g rb epoch fence \<longleftrightarrow>
     gr_project g = get_str rb ''project_key'' \<and> gr_lease g = get_str rb ''lease_id'' \<and> gr_epoch g = epoch
     \<and> gr_fence g = fence \<and> gr_target g = get_str rb ''target_device_id'' \<and> gr_operation g = get_str rb ''operation''
     \<and> gr_operation_id g = get_str rb ''operation_id'' \<and> gr_request_sha256 g = get_str rb ''request_sha256''"

text \<open>The new state and result of a grant that is not final, by the receipt's status.\<close>

definition receipt_state :: "grant_row \<Rightarrow> (string, json) dict \<Rightarrow> runner_error + grant_state \<times> json option" where
  "receipt_state g rb =
     (if get_str rb ''status'' = ''ABSENT'' then
        (if gr_state g = ACCEPTED then Inl (RunnerError ''grant status receipt would regress an accepted grant'')
         else Inr (UNKNOWN, None))
      else if get_str rb ''status'' = ''ACCEPTED'' then Inr (ACCEPTED, get_opt rb ''result'')
      else Inr (TERMINAL, get_opt rb ''result''))"

definition imported_row :: "int \<Rightarrow> grant_row \<Rightarrow> grant_state \<Rightarrow> json option \<Rightarrow> string \<Rightarrow> grant_row" where
  "imported_row now g st result receipt_sha =
     g\<lparr>gr_state := st, gr_result := result,
       gr_accepted_at := (if st \<in> {ACCEPTED, TERMINAL} then first_time now (gr_accepted_at g) else gr_accepted_at g),
       gr_terminal_at := (if st = TERMINAL then first_time now (gr_terminal_at g) else gr_terminal_at g),
       gr_last_receipt := Some receipt_sha\<rparr>"

definition import_reply :: "grant_state \<Rightarrow> bool \<Rightarrow> string \<Rightarrow> reply" where
  "import_reply st idempotent i =
     reply_with (grant_state_word st) [(''idempotent'', JBool idempotent), (''grant_id'', JStr i)]"

definition import_receipt ::
  "authority_env \<Rightarrow> string \<Rightarrow> (string, json) dict \<Rightarrow> string \<Rightarrow> string \<Rightarrow> grant_row \<Rightarrow> au_op" where
  "import_receipt env project rb receipt_sha i g au =
     (if gr_last_receipt g = Some receipt_sha then Inr (import_reply (gr_state g) True i, au)
      else if get_str rb ''status'' \<notin> {''ABSENT'', ''ACCEPTED'', ''TERMINAL''}
      then Inl (RunnerError ''unsupported grant status receipt state'')
      else if gr_state g \<in> {TERMINAL, FENCED} then
        (if get_str rb ''status'' \<noteq> grant_state_word (gr_state g)
         then Inl (RunnerError ''grant status receipt would regress a terminal grant'')
         else if \<not> json_opt_eq (gr_result g) (get_opt rb ''result'')
         then Inl (RunnerError ''terminal grant receipt result mismatch'')
         else Inr (import_reply (gr_state g) True i, set_grant i (g\<lparr>gr_last_receipt := Some receipt_sha\<rparr>) au))
      else (case receipt_state g rb of
          Inl e \<Rightarrow> Inl e
        | Inr (st, result) \<Rightarrow>
            (case (if st = TERMINAL \<and> gr_operation g = FENCE_BARRIER
                   then reconcile_barrier (ae_now env) project (gr_epoch g) (gr_fence g) (gr_target g) result au
                   else Inr au) of
               Inl e \<Rightarrow> Inl e
             | Inr au' \<Rightarrow> Inr (import_reply st False i, set_grant i (imported_row (ae_now env) g st result receipt_sha) au'))))"

definition grant_import :: "authority_env \<Rightarrow> authority_meta \<Rightarrow> request \<Rightarrow> au_op" where
  "grant_import env meta body au =
     (case lease_credential env body of
        Inl e \<Rightarrow> Inl e
      | Inr (project, lease_id, fence, tok) \<Rightarrow>
          (case held_lease au project lease_id fence tok of
             None \<Rightarrow> Inr (reply_with ''LOST'' [], au)
           | Some (l, p) \<Rightarrow>
               if le_state l \<noteq> LEASE_ACTIVE \<or> ae_now env \<ge> le_until l then Inr (reply_with ''LOST'' [], au)
               else if le_phase l \<noteq> RECOVERY_PHASE then Inr (reply_with ''NOT_RECOVERING'' [], au)
               else (case verify_status_receipt env meta (dict_get body ''receipt'') au of
                   Inl e \<Rightarrow> Inl e
                 | Inr (rb, receipt_sha) \<Rightarrow>
                     (case dict_get (au_grants au) (get_str rb ''grant_id'') of
                        None \<Rightarrow> Inl (RunnerError ''grant status receipt names an unknown grant'')
                      | Some g \<Rightarrow>
                          (case (get_int rb ''authority_epoch'' 0, get_int rb ''fence'' (- 1)) of
                             (Some e, Some f) \<Rightarrow>
                               if \<not> receipt_matches g rb e f \<or> gr_project g \<noteq> project
                               then Inl (RunnerError ''grant status receipt does not match the authority grant'')
                               else import_receipt env project rb receipt_sha (get_str rb ''grant_id'') g au
                           | _ \<Rightarrow> Inl ValueError)))))"

section \<open>Recovery\<close>

definition grant_view :: "string \<times> grant_row \<Rightarrow> json" where
  "grant_view = (\<lambda>(i, g). JObj [(''grant_id'', JStr i), (''fence'', JInt (gr_fence g)),
     (''target_device_id'', JStr (gr_target g)), (''operation'', JStr (gr_operation g)),
     (''operation_id'', JStr (gr_operation_id g)), (''state'', JStr (grant_state_word (gr_state g)))])"

definition recovery_complete :: "authority_env \<Rightarrow> request \<Rightarrow> au_op" where
  "recovery_complete env body au =
     (case lease_credential env body of
        Inl e \<Rightarrow> Inl e
      | Inr (project, lease_id, fence, tok) \<Rightarrow>
          (case held_lease au project lease_id fence tok of
             None \<Rightarrow> Inr (reply_with ''LOST'' [], au)
           | Some (l, p) \<Rightarrow>
               if le_state l \<noteq> LEASE_ACTIVE \<or> ae_now env \<ge> le_until l then Inr (reply_with ''LOST'' [], au)
               else if le_phase l \<noteq> RECOVERY_PHASE \<and> pj_state p \<noteq> RECOVERING
               then Inr (reply_with ''NORMAL'' [(''idempotent'', JBool True)], au)
               else if truthy (pj_active_run p) \<or> truthy (pj_pending_txn p) \<or> unresolved_grants au project \<noteq> []
               then Inr (reply_with ''RECOVERY_REQUIRED''
                      [(''operations'', JList (map grant_view (unresolved_grants au project)))], au)
               else (let restored = (case pj_prior p of None \<Rightarrow> BOOTSTRAP | Some st \<Rightarrow> st)
                     in Inr (reply_with ''NORMAL'' [(''idempotent'', JBool False),
                               (''restored_project_state'', JStr (project_state_word restored))],
                          set_project project (p\<lparr>pj_state := restored, pj_prior := None, pj_updated := ae_now env\<rparr>)
                            (set_lease lease_id (l\<lparr>le_phase := NORMAL_PHASE\<rparr>) au)))))"

definition work_view :: "string \<times> grant_row \<Rightarrow> json" where
  "work_view = (\<lambda>(i, g). JObj [(''grant_id'', JStr i), (''lease_id'', JStr (gr_lease g)), (''authority_epoch'', JInt (gr_epoch g)),
     (''fence'', JInt (gr_fence g)), (''target_device_id'', JStr (gr_target g)), (''operation'', JStr (gr_operation g)),
     (''operation_id'', JStr (gr_operation_id g)), (''request_sha256'', JStr (gr_request_sha256 g)),
     (''state'', JStr (grant_state_word (gr_state g))), (''capability'', gr_capability g)])"

definition recovery_worklist :: "authority_env \<Rightarrow> request \<Rightarrow> au_op" where
  "recovery_worklist env body au =
     (case lease_credential env body of
        Inl e \<Rightarrow> Inl e
      | Inr (project, lease_id, fence, tok) \<Rightarrow>
          (case held_lease au project lease_id fence tok of
             None \<Rightarrow> Inr (reply_with ''LOST'' [], au)
           | Some (l, p) \<Rightarrow>
               if le_state l \<noteq> LEASE_ACTIVE \<or> ae_now env \<ge> le_until l then Inr (reply_with ''LOST'' [], au)
               else if le_phase l \<noteq> RECOVERY_PHASE \<or> pj_state p \<noteq> RECOVERING
               then Inr (reply_with ''NOT_RECOVERING'' [], au)
               else Inr (reply_with ''RECOVERY'' [(''grants'', JList (map work_view (unresolved_grants au project)))], au)))"

section \<open>Requests\<close>

datatype authority_operation =
    ProjectRegister | Acquire | Heartbeat | ReleaseLease | TargetKeyCreate | TargetKeyFinalize
  | EpochRotate | GrantIssue | GrantImport | RecoveryComplete | RecoveryWorklist

fun run_authority :: "authority_env \<Rightarrow> authority_meta \<Rightarrow> authority_operation \<Rightarrow> request \<Rightarrow> au_op" where
  "run_authority env meta ProjectRegister body = project_register env body"
| "run_authority env meta Acquire body = authority_acquire env meta body"
| "run_authority env meta Heartbeat body = authority_heartbeat env meta body"
| "run_authority env meta ReleaseLease body = authority_release env body"
| "run_authority env meta TargetKeyCreate body = target_key_create env meta body"
| "run_authority env meta TargetKeyFinalize body = target_key_finalize env meta body"
| "run_authority env meta EpochRotate body = epoch_rotate meta body"
| "run_authority env meta GrantIssue body = grant_issue env meta body"
| "run_authority env meta GrantImport body = grant_import env meta body"
| "run_authority env meta RecoveryComplete body = recovery_complete env body"
| "run_authority env meta RecoveryWorklist body = recovery_worklist env body"

record authority_store =
  as_tables :: authority
  as_rpc :: "(string, authority_operation \<times> string \<times> reply) dict"

definition authority_rpc ::
  "authority_env \<Rightarrow> authority_meta \<Rightarrow> string \<Rightarrow> string \<Rightarrow> authority_operation \<Rightarrow> request \<Rightarrow> authority_store
   \<Rightarrow> (runner_error + reply) \<times> authority_store" where
  "authority_rpc env meta rpc_id request_sha op body s =
     (if am_sealed meta then (Inl (RunnerError ''authority is sealed''), s)
      else (case dict_get (as_rpc s) rpc_id of
          Some (op', sha', resp) \<Rightarrow>
            if op' \<noteq> op \<or> sha' \<noteq> request_sha then (Inl (RunnerError ''authority rpc_id reused with a different request''), s)
            else (Inr resp, s)
        | None \<Rightarrow>
            (case run_authority env meta op body (as_tables s) of
               Inl e \<Rightarrow> (Inl e, s)
             | Inr (resp, au) \<Rightarrow>
                 (Inr resp, s\<lparr>as_tables := au, as_rpc := dict_set rpc_id (op, request_sha, resp) (as_rpc s)\<rparr>))))"

end
