(* ===== verification/TargetGrants.thy ===== *)
theory TargetGrants
  imports Authority
begin

text \<open>
  The target's side of the authority (\<open>src/remrun/remote/runner.py\<close>): key enrollment, the
  verification of signed capabilities, the fence a project has reached, the grants the target
  has accepted, and the status receipts it signs.
\<close>

section \<open>Tables\<close>

record accepted_grant =
  ag_cluster :: string
  ag_project :: string
  ag_epoch :: int
  ag_fence :: int
  ag_operation :: string
  ag_operation_id :: string
  ag_request_sha256 :: string
  ag_state :: grant_state
  ag_result :: "json option"

record enrollment_row =
  er_key_id :: string
  er_key_sha256 :: string
  er_enrolled :: bool

record target_store =
  ts_device :: string
  ts_enrolled :: "(string \<times> int, enrollment_row) dict"
  ts_keys :: "(string \<times> int \<times> string, string) dict"
  ts_fences :: "(string \<times> string, int \<times> int) dict"
  ts_accepted :: "(string, accepted_grant) dict"

type_synonym ts_op = "target_store \<Rightarrow> runner_error + reply \<times> target_store"

section \<open>Key enrollment\<close>

text \<open>The highest epoch of the cluster with an enrolled key.\<close>

definition prior_epoch :: "target_store \<Rightarrow> string \<Rightarrow> int option" where
  "prior_epoch ts cluster =
     (case [e. ((c, e), row) \<leftarrow> ts_enrolled ts, c = cluster \<and> er_enrolled row] of
        [] \<Rightarrow> None | e # es \<Rightarrow> Some (fold max es e))"

definition retire_older :: "string \<Rightarrow> int \<Rightarrow> (string \<times> int, enrollment_row) dict \<Rightarrow> (string \<times> int, enrollment_row) dict" where
  "retire_older cluster epoch =
     map (\<lambda>((c, e), row). ((c, e), if c = cluster \<and> e < epoch \<and> er_enrolled row then row\<lparr>er_enrolled := False\<rparr> else row))"

definition record_enrollment ::
  "authority_env \<Rightarrow> string \<Rightarrow> string \<Rightarrow> int \<Rightarrow> string \<Rightarrow> string \<Rightarrow> string \<Rightarrow> target_store \<Rightarrow> runner_error + bool \<times> target_store" where
  "record_enrollment env cluster target epoch key_id digest secret ts =
     (if target \<noteq> ts_device ts \<or> cluster = [] \<or> epoch < 1 \<or> key_id = []
      then Inl (RunnerError ''key enrollment target or identity is invalid'')
      else if length secret \<noteq> 32 \<or> ae_sha256 env secret \<noteq> digest
      then Inl (RunnerError ''key enrollment secret fingerprint mismatch'')
      else if (case prior_epoch ts cluster of None \<Rightarrow> False | Some e \<Rightarrow> epoch < e)
      then Inl (RunnerError ''key enrollment authority epoch is stale'')
      else (case dict_get (ts_enrolled ts) (cluster, epoch) of
          Some row \<Rightarrow>
            if er_key_id row \<noteq> key_id \<or> er_key_sha256 row \<noteq> digest
            then Inl (RunnerError ''authority epoch already has a different enrolled key'')
            else Inr (True, ts\<lparr>ts_enrolled := dict_set (cluster, epoch) (row\<lparr>er_enrolled := True\<rparr>) (ts_enrolled ts)\<rparr>)
        | None \<Rightarrow>
            Inr (False, ts\<lparr>ts_enrolled := dict_set (cluster, epoch)
                   \<lparr>er_key_id = key_id, er_key_sha256 = digest, er_enrolled = True\<rparr>
                   (retire_older cluster epoch (ts_enrolled ts))\<rparr>)))"

section \<open>Capabilities\<close>

definition verify_capability ::
  "authority_env \<Rightarrow> json option \<Rightarrow> target_store \<Rightarrow> runner_error + (string, json) dict \<times> string \<times> string" where
  "verify_capability env v ts =
     (case json_obj v of
        None \<Rightarrow> Inl (RunnerError ''invalid capability envelope'')
      | Some cap \<Rightarrow>
          if \<not> eq_str (dict_get cap ''sig_alg'') ''hmac-sha256'' then Inl (RunnerError ''invalid capability envelope'')
          else (case json_obj (dict_get cap ''body'') of
              None \<Rightarrow> Inl (RunnerError ''invalid capability body'')
            | Some body \<Rightarrow>
                (case get_int body ''v'' 0 of
                   None \<Rightarrow> Inl ValueError
                 | Some v \<Rightarrow>
                     if v \<noteq> 1 then Inl (RunnerError ''invalid capability body'')
                     else if get_str body ''target_device_id'' \<noteq> ts_device ts then Inl (RunnerError ''capability target mismatch'')
                     else (case get_int body ''authority_epoch'' 0 of
                         None \<Rightarrow> Inl ValueError
                       | Some epoch \<Rightarrow>
                           (case dict_get (ts_enrolled ts) (get_str body ''cluster_id'', epoch) of
                              None \<Rightarrow> Inl (RunnerError ''capability key is not enrolled for this authority epoch'')
                            | Some row \<Rightarrow>
                                if er_key_id row \<noteq> get_str cap ''key_id'' \<or> \<not> er_enrolled row
                                then Inl (RunnerError ''capability key is not enrolled for this authority epoch'')
                                else if \<not> secret_path_ok (get_str body ''cluster_id'') (ts_device ts) epoch (er_key_id row)
                                then Inl (RunnerError ''invalid key identity'')
                                else (case dict_get (ts_keys ts) (get_str body ''cluster_id'', epoch, er_key_id row) of
                                    None \<Rightarrow> Inl (RunnerError ''capability key is not enrolled'')
                                  | Some secret \<Rightarrow>
                                      if ae_sha256 env secret \<noteq> er_key_sha256 row
                                      then Inl (RunnerError ''capability key fingerprint mismatch'')
                                      else (case signature_error env secret body cap ''capability signature mismatch'' of
                                          Some e \<Rightarrow> Inl e
                                        | None \<Rightarrow> Inr (body, er_key_id row, secret))))))))"

text \<open>The immutable fields of a capability.\<close>

record cap_fields =
  cf_cluster :: string
  cf_project :: string
  cf_epoch :: int
  cf_fence :: int
  cf_operation :: string
  cf_operation_id :: string
  cf_request_sha256 :: string

definition cap_fields_of :: "(string, json) dict \<Rightarrow> cap_fields option" where
  "cap_fields_of body =
     (case (get_int body ''authority_epoch'' 0, get_int body ''fence'' (- 1)) of
        (Some e, Some f) \<Rightarrow>
          Some \<lparr>cf_cluster = get_str body ''cluster_id'', cf_project = get_str body ''project_key'', cf_epoch = e, cf_fence = f,
                cf_operation = get_str body ''operation'', cf_operation_id = get_str body ''operation_id'',
                cf_request_sha256 = get_str body ''request_sha256''\<rparr>
      | _ \<Rightarrow> None)"

definition same_fields :: "accepted_grant \<Rightarrow> cap_fields \<Rightarrow> bool" where
  "same_fields g c \<longleftrightarrow>
     ag_cluster g = cf_cluster c \<and> ag_project g = cf_project c \<and> ag_epoch g = cf_epoch c \<and> ag_fence g = cf_fence c
     \<and> ag_operation g = cf_operation c \<and> ag_operation_id g = cf_operation_id c \<and> ag_request_sha256 g = cf_request_sha256 c"

definition accepted_observation :: "string \<times> accepted_grant \<Rightarrow> json" where
  "accepted_observation = (\<lambda>(i, g). JObj
     [(''grant_id'', JStr i), (''operation'', JStr (ag_operation g)), (''operation_id'', JStr (ag_operation_id g)),
      (''fence'', JInt (ag_fence g)), (''request_sha256'', JStr (ag_request_sha256 g)),
      (''state'', JStr (grant_state_word (ag_state g))), (''result'', opt_json id (ag_result g))])"

definition lower_grants :: "target_store \<Rightarrow> cap_fields \<Rightarrow> (string \<times> accepted_grant) list" where
  "lower_grants ts c =
     sort_key (\<lambda>(i, g). (ag_fence g, i))
       (filter (\<lambda>(i, g). ag_cluster g = cf_cluster c \<and> ag_project g = cf_project c \<and> ag_epoch g = cf_epoch c
          \<and> ag_fence g < cf_fence c \<and> ag_state g \<noteq> FENCED) (ts_accepted ts))"

text \<open>Why a capability is fenced off, if it is; and the fence the project has reached in its epoch.\<close>

definition reached_fence :: "target_store \<Rightarrow> cap_fields \<Rightarrow> int" where
  "reached_fence ts c =
     (case dict_get (ts_fences ts) (cf_cluster c, cf_project c) of
        Some (e, f) \<Rightarrow> if cf_epoch c = e then f else - 1
      | None \<Rightarrow> - 1)"

definition fenced_reason :: "target_store \<Rightarrow> cap_fields \<Rightarrow> string option" where
  "fenced_reason ts c =
     (if (case dict_get (ts_fences ts) (cf_cluster c, cf_project c) of None \<Rightarrow> False | Some (e, f) \<Rightarrow> cf_epoch c < e)
      then Some ''older authority epoch''
      else if cf_fence c < reached_fence ts c then Some ''stale fence''
      else None)"

definition accept_new :: "string \<Rightarrow> cap_fields \<Rightarrow> ts_op" where
  "accept_new i c ts =
     (let lower = lower_grants ts c; barrier = cf_operation c = FENCE_BARRIER;
          result = (if barrier then Some (JObj [(''lower_fence_operations'', JList (map accepted_observation lower))]) else None);
          row = \<lparr>ag_cluster = cf_cluster c, ag_project = cf_project c, ag_epoch = cf_epoch c, ag_fence = cf_fence c,
                 ag_operation = cf_operation c, ag_operation_id = cf_operation_id c, ag_request_sha256 = cf_request_sha256 c,
                 ag_state = (if barrier then TERMINAL else ACCEPTED), ag_result = result\<rparr>
      in if list_ex (\<lambda>(j, g). ag_project g = cf_project c \<and> ag_operation_id g = cf_operation_id c) (ts_accepted ts)
         then Inl IntegrityError
         else Inr (reply_with (if barrier then ''BARRIER'' else ''ACCEPTED'')
                     [(''idempotent'', JBool False), (''result'', opt_json id result)],
               ts\<lparr>ts_fences := dict_set (cf_cluster c, cf_project c) (cf_epoch c, max (reached_fence ts c) (cf_fence c)) (ts_fences ts),
                  ts_accepted := dict_set i row (ts_accepted ts)\<rparr>))"

definition accept_fields :: "string \<Rightarrow> cap_fields \<Rightarrow> ts_op" where
  "accept_fields i c ts =
     (case dict_get (ts_accepted ts) i of
        Some prior \<Rightarrow>
          if \<not> same_fields prior c then Inl (RunnerError ''grant_id reused with different capability fields'')
          else Inr (reply_with (grant_state_word (ag_state prior))
                 [(''idempotent'', JBool True), (''result'', opt_json id (ag_result prior))], ts)
      | None \<Rightarrow>
          (case fenced_reason ts c of
             Some reason \<Rightarrow> Inr (reply_with ''FENCED'' [(''reason'', JStr reason)], ts)
           | None \<Rightarrow>
               (let blocking = filter (\<lambda>(j, g). ag_state g \<noteq> TERMINAL) (lower_grants ts c)
                in if cf_operation c \<noteq> FENCE_BARRIER \<and> blocking \<noteq> []
                   then Inr (reply_with ''RECOVERY_REQUIRED'' [(''operations'', JList (map accepted_observation blocking))], ts)
                   else accept_new i c ts)))"

definition accept_capability :: "authority_env \<Rightarrow> json option \<Rightarrow> ts_op" where
  "accept_capability env v ts =
     (case verify_capability env v ts of
        Inl e \<Rightarrow> Inl e
      | Inr (body, key_id, secret) \<Rightarrow>
          (case cap_fields_of body of
             None \<Rightarrow> Inl ValueError
           | Some c \<Rightarrow> accept_fields (get_str body ''grant_id'') c ts))"

section \<open>Status receipts\<close>

text \<open>\<open>{"v": 1, "kind": ..., **body, "status": ..., "result": ...}\<close>\<close>

definition receipt_body :: "int \<Rightarrow> (string, json) dict \<Rightarrow> string \<Rightarrow> json option \<Rightarrow> (string, json) dict" where
  "receipt_body now body status result =
     dict_set ''result'' (opt_json id result) (dict_set ''status'' (JStr status)
       (fold (\<lambda>(k, v). dict_set k v) body
         [(''v'', JInt 1), (''kind'', JStr ''grant-status''), (''observed_at_ns'', JInt now)]))"

definition grant_status_receipt :: "authority_env \<Rightarrow> json option \<Rightarrow> ts_op" where
  "grant_status_receipt env v ts =
     (case verify_capability env v ts of
        Inl e \<Rightarrow> Inl e
      | Inr (body, key_id, secret) \<Rightarrow>
          (case cap_fields_of body of
             None \<Rightarrow> Inl ValueError
           | Some c \<Rightarrow>
               (let sign = (\<lambda>status result. Inr (reply_with status
                      [(''receipt'', JObj (signed_envelope env secret key_id (receipt_body (ae_now env) body status result)))], ts))
                in (case dict_get (ts_accepted ts) (get_str body ''grant_id'') of
                      None \<Rightarrow> sign ''ABSENT'' None
                    | Some row \<Rightarrow>
                        if \<not> same_fields row c then Inl (RunnerError ''grant_id reused with different capability fields'')
                        else sign (grant_state_word (ag_state row)) (ag_result row)))))"

end
