(* ===== verification/AuthorityInv.thy ===== *)
theory AuthorityInv
  imports Authority StateMachine
begin

text \<open>
  The invariant of the authority's tables.  \<open>lease_inv\<close> ties projects and leases together: a
  project's current lease is its only active one and has its highest fence.  \<open>grant_inv\<close> ties
  grants to leases.  Every operation keeps both.
\<close>

section \<open>Lookups\<close>

abbreviation project_at :: "authority \<Rightarrow> string \<Rightarrow> project_row option" where
  "project_at au \<equiv> dict_get (au_projects au)"

abbreviation lease_at :: "authority \<Rightarrow> string \<Rightarrow> lease_row option" where
  "lease_at au \<equiv> dict_get (au_leases au)"

abbreviation grant_at :: "authority \<Rightarrow> string \<Rightarrow> grant_row option" where
  "grant_at au \<equiv> dict_get (au_grants au)"

lemma setters [simp]:
  "au_projects (set_lease i l au) = au_projects au" "au_grants (set_lease i l au) = au_grants au"
  "au_leases (set_lease i l au) = dict_set i l (au_leases au)"
  "au_targets (set_lease i l au) = au_targets au" "au_keys (set_lease i l au) = au_keys au"
  "au_projects (set_project k p au) = dict_set k p (au_projects au)" "au_grants (set_project k p au) = au_grants au"
  "au_leases (set_project k p au) = au_leases au"
  "au_targets (set_project k p au) = au_targets au" "au_keys (set_project k p au) = au_keys au"
  "au_projects (set_grant i g au) = au_projects au" "au_grants (set_grant i g au) = dict_set i g (au_grants au)"
  "au_leases (set_grant i g au) = au_leases au"
  "au_targets (set_grant i g au) = au_targets au" "au_keys (set_grant i g au) = au_keys au"
  by (simp_all add: set_lease_def set_project_def set_grant_def)

section \<open>The invariant\<close>

definition project_ok :: "authority \<Rightarrow> string \<Rightarrow> project_row \<Rightarrow> bool" where
  "project_ok au k p \<longleftrightarrow>
     0 \<le> pj_next_fence p \<and> pj_prior p \<noteq> Some RECOVERING
     \<and> (pj_current p = None \<longrightarrow> pj_state p \<noteq> RECOVERING)
     \<and> (\<forall>i. pj_current p = Some i \<longrightarrow> (\<exists>l. lease_at au i = Some l \<and> le_project l = k
          \<and> le_fence l = pj_next_fence p \<and> le_state l = LEASE_ACTIVE
          \<and> (le_phase l = RECOVERY_PHASE \<longleftrightarrow> pj_state p = RECOVERING)))"

definition lease_ok :: "authority \<Rightarrow> string \<Rightarrow> lease_row \<Rightarrow> bool" where
  "lease_ok au i l \<longleftrightarrow>
     i \<noteq> [] \<and> 1 \<le> le_fence l
     \<and> (\<exists>p. project_at au (le_project l) = Some p \<and> le_fence l \<le> pj_next_fence p
            \<and> (le_state l = LEASE_ACTIVE \<longrightarrow> pj_current p = Some i))"

definition lease_inv :: "authority \<Rightarrow> bool" where
  "lease_inv au \<longleftrightarrow>
     dict_ok (au_projects au) \<and> dict_ok (au_leases au)
     \<and> (\<forall>k p. project_at au k = Some p \<longrightarrow> project_ok au k p)
     \<and> (\<forall>i l. lease_at au i = Some l \<longrightarrow> lease_ok au i l)
     \<and> (\<forall>i j a b. lease_at au i = Some a \<and> lease_at au j = Some b \<and> le_project a = le_project b
          \<and> le_fence a = le_fence b \<longrightarrow> i = j)"

definition grant_inv :: "authority \<Rightarrow> bool" where
  "grant_inv au \<longleftrightarrow>
     dict_ok (au_grants au)
     \<and> (\<forall>i g. grant_at au i = Some g \<longrightarrow>
          (\<exists>l. lease_at au (gr_lease g) = Some l \<and> le_project l = gr_project g \<and> le_fence l = gr_fence g))
     \<and> (\<forall>i j g h. grant_at au i = Some g \<and> grant_at au j = Some h \<and> gr_project g = gr_project h
          \<and> gr_operation g \<noteq> FENCE_BARRIER \<and> gr_operation h \<noteq> FENCE_BARRIER
          \<and> unresolved (gr_state g) \<and> unresolved (gr_state h) \<longrightarrow> i = j)"

definition authority_inv :: "authority \<Rightarrow> bool" where
  "authority_inv au \<longleftrightarrow> lease_inv au \<and> grant_inv au"

definition empty_authority :: authority where
  "empty_authority = \<lparr>au_epoch = 1, au_projects = [], au_leases = [], au_targets = [], au_grants = [], au_keys = []\<rparr>"

lemma empty_authority_inv: "authority_inv empty_authority"
  by (simp add: authority_inv_def lease_inv_def grant_inv_def empty_authority_def)

lemma lease_invD:
  assumes "lease_inv au"
  shows "dict_ok (au_projects au)" "dict_ok (au_leases au)"
    "\<And>k p. project_at au k = Some p \<Longrightarrow> project_ok au k p"
    "\<And>i l. lease_at au i = Some l \<Longrightarrow> lease_ok au i l"
    "\<And>i j a b. lease_at au i = Some a \<Longrightarrow> lease_at au j = Some b \<Longrightarrow> le_project a = le_project b
       \<Longrightarrow> le_fence a = le_fence b \<Longrightarrow> i = j"
  using assms unfolding lease_inv_def by blast+

lemma keep_unique:
  assumes "lease_inv au"
    and "\<And>a m. lease_at au' a = Some m \<Longrightarrow> \<exists>m0. lease_at au a = Some m0 \<and> le_project m0 = le_project m \<and> le_fence m0 = le_fence m"
    and "lease_at au' a = Some m" "lease_at au' b = Some n" "le_project m = le_project n" "le_fence m = le_fence n"
  shows "a = b"
proof -
  from assms(2) [OF assms(3)] assms(2) [OF assms(4)] obtain m0 n0 where
    "lease_at au a = Some m0" "le_project m0 = le_project m" "le_fence m0 = le_fence m"
    "lease_at au b = Some n0" "le_project n0 = le_project n" "le_fence n0 = le_fence n" by blast
  with lease_invD(5) [OF assms(1), of a m0 b n0] assms(5,6) show ?thesis by simp
qed

text \<open>The active lease of a project is unique.\<close>

lemma active_current:
  assumes "lease_inv au" and "lease_at au i = Some l" and "le_state l = LEASE_ACTIVE"
  shows "\<exists>p. project_at au (le_project l) = Some p \<and> pj_current p = Some i \<and> le_fence l = pj_next_fence p"
proof -
  from lease_invD(4) [OF assms(1,2)] assms(3) obtain p where
      p: "project_at au (le_project l) = Some p" "pj_current p = Some i" by (auto simp: lease_ok_def)
  from lease_invD(3) [OF assms(1) p(1)] p(2) assms(2) have "le_fence l = pj_next_fence p"
    by (auto simp: project_ok_def)
  with p show ?thesis by blast
qed

section \<open>Operations on leases\<close>

text \<open>Changing the current lease in place: identity and liveness stay.\<close>

lemma set_lease_inv:
  assumes inv: "lease_inv au" and l: "lease_at au i = Some l"
    and same: "le_project l' = le_project l" "le_fence l' = le_fence l" "le_state l' = le_state l"
      "le_phase l' = le_phase l"
  shows "lease_inv (set_lease i l' au)"
proof -
  note d = lease_invD [OF inv]
  have "project_ok (set_lease i l' au) k p" if "project_at au k = Some p" for k p
    using d(3) [OF that] l same unfolding project_ok_def by (auto simp: dict_simps)
  moreover have "lease_ok (set_lease i l' au) j m" if "lease_at (set_lease i l' au) j = Some m" for j m
    using d(4) [OF l] d(4) [of j m] that same unfolding lease_ok_def by (auto simp: dict_simps split: if_splits)
  moreover have "a = b" if "lease_at (set_lease i l' au) a = Some m" "lease_at (set_lease i l' au) b = Some n"
      "le_project m = le_project n" "le_fence m = le_fence n" for a b m n
    using d(5) [of a _ b] that l same by (auto simp: dict_simps split: if_splits)
  ultimately show ?thesis
    using d(1,2) unfolding lease_inv_def by (auto simp: dict_ok_set)
qed

lemma grant_inv_leases:
  assumes "grant_inv au" and "au_grants au' = au_grants au"
    and "\<And>i l. lease_at au i = Some l \<Longrightarrow> \<exists>l'. lease_at au' i = Some l' \<and> le_project l' = le_project l \<and> le_fence l' = le_fence l"
  shows "grant_inv au'"
  using assms unfolding grant_inv_def by metis

text \<open>Taking a project over: what each lease and project becomes.\<close>

definition demoted :: "(string \<times> lease_row) option \<Rightarrow> string \<Rightarrow> lease_row \<Rightarrow> lease_row" where
  "demoted cur j m = (if map_option fst cur = Some j then m\<lparr>le_state := LEASE_SUPERSEDED\<rparr> else m)"

lemma demoted_simps [simp]:
  "le_project (demoted cur j m) = le_project m" "le_fence (demoted cur j m) = le_fence m"
  "le_phase (demoted cur j m) = le_phase m"
  "le_state (demoted cur j m) = (if map_option fst cur = Some j then LEASE_SUPERSEDED else le_state m)"
  by (simp_all add: demoted_def)

lemma current_lease_inv:
  assumes "lease_inv au" and "project_at au k = Some p"
  shows "current_lease au p = (case pj_current p of None \<Rightarrow> None | Some i \<Rightarrow> map_option (Pair i) (lease_at au i))"
    and "map_option fst (current_lease au p) = pj_current p"
proof -
  from lease_invD(3) [OF assms] have c: "\<exists>l. lease_at au i = Some l" if "pj_current p = Some i" for i
    using that unfolding project_ok_def by blast
  from c lease_invD(4) [OF assms(1)] have "i \<noteq> []" if "pj_current p = Some i" for i
    using that unfolding lease_ok_def by blast
  then show "current_lease au p = (case pj_current p of None \<Rightarrow> None | Some i \<Rightarrow> map_option (Pair i) (lease_at au i))"
    by (auto simp: current_lease_def split: option.split)
  with c show "map_option fst (current_lease au p) = pj_current p"
    by (auto split: option.split)
qed

lemma lease_at_takeover:
  assumes "lease_inv au" and "project_at au k = Some p" and "lease_at au u = None"
  shows "lease_at (supersede (current_lease au p) (set_lease u l au)) j
    = (if j = u then Some l else map_option (demoted (current_lease au p) j) (lease_at au j))"
  using current_lease_inv(1) [OF assms(1,2)] assms(3)
  by (cases "lease_at au j") (auto simp: supersede_def demoted_def dict_simps split: option.splits)

lemma supersede_simps [simp]:
  "au_projects (supersede cur au) = au_projects au" "au_grants (supersede cur au) = au_grants au"
  by (simp_all add: supersede_def split: option.split)

lemma supersede_dict_ok: "dict_ok (au_leases au) \<Longrightarrow> dict_ok (au_leases (supersede cur au))"
  by (simp add: supersede_def dict_ok_set split: option.split)

lemma takeover_lease_inv:
  assumes inv: "lease_inv au" and p: "project_at au k = Some p" and u: "lease_at au u = None" "u \<noteq> []"
    and l: "le_project l = k" "le_fence l = pj_next_fence p + 1" "le_state l = LEASE_ACTIVE"
    and p': "pj_next_fence p' = pj_next_fence p + 1" "pj_current p' = Some u" "pj_prior p' \<noteq> Some RECOVERING"
      "le_phase l = RECOVERY_PHASE \<longleftrightarrow> pj_state p' = RECOVERING"
  shows "lease_inv (set_project k p' (supersede (current_lease au p) (set_lease u l au)))" (is "lease_inv ?au")
proof -
  note d = lease_invD [OF inv]
  note cur = current_lease_inv(2) [OF inv p]
  have la: "lease_at ?au j = (if j = u then Some l else map_option (demoted (current_lease au p) j) (lease_at au j))" for j
    by (simp add: lease_at_takeover [OF inv p u(1)])
  have pa: "project_at ?au j = (if j = k then Some p' else project_at au j)" for j by (simp add: dict_simps)
  have old: "le_fence m < le_fence l" if "lease_at au j = Some m" "le_project m = k" for j m
    using d(4) [OF that(1)] that(2) p l(2) by (auto simp: lease_ok_def)
  have "project_ok ?au j q" if q: "project_at ?au j = Some q" for j q
  proof (cases "j = k")
    case True
    with q pa have "q = p'" by simp
    with True p' l d(3) [OF p] show ?thesis unfolding project_ok_def la by auto
  next
    case False
    with q pa have qa: "project_at au j = Some q" by simp
    have "lease_at ?au i = lease_at au i" if "pj_current q = Some i" for i
    proof -
      from d(3) [OF qa] that obtain m where m: "lease_at au i = Some m" "le_project m = j" by (auto simp: project_ok_def)
      then have "i \<noteq> u" "pj_current p \<noteq> Some i" using u(1) d(3) [OF p] False by (auto simp: project_ok_def)
      with m(1) show ?thesis unfolding la demoted_def cur by simp
    qed
    with d(3) [OF qa] show ?thesis by (simp add: project_ok_def)
  qed
  moreover have "lease_ok ?au j m" if "lease_at ?au j = Some m" for j m
  proof (cases "j = u")
    case True
    with that la have "m = l" by simp
    moreover have "0 \<le> pj_next_fence p" using d(3) [OF p] by (simp add: project_ok_def)
    ultimately show ?thesis using True u l p' unfolding lease_ok_def pa by simp
  next
    case False
    with that la obtain m0 where m0: "lease_at au j = Some m0" "m = demoted (current_lease au p) j m0" by auto
    with d(4) [OF m0(1)] cur p p' show ?thesis unfolding lease_ok_def pa by auto
  qed
  moreover have "a = b" if "lease_at ?au a = Some m" "lease_at ?au b = Some n"
      "le_project m = le_project n" "le_fence m = le_fence n" for a b m n
  proof (cases "a = u \<or> b = u")
    case True
    have "c = u" if c: "lease_at ?au c = Some o'" "le_project o' = k" "le_fence o' = le_fence l" for c o'
    proof (rule ccontr)
      assume "c \<noteq> u"
      with c(1) la obtain o0 where "lease_at au c = Some o0" "o' = demoted (current_lease au p) c o0" by auto
      with c(2,3) old [of c o0] show False by simp
    qed
    moreover have "m = l" if "a = u" using that \<open>lease_at ?au a = Some m\<close> la by simp
    moreover have "n = l" if "b = u" using that \<open>lease_at ?au b = Some n\<close> la by simp
    ultimately show ?thesis using True that l(1) by metis
  next
    case False
    note ab = that
    have old_lease: "\<exists>o0. lease_at au c = Some o0 \<and> o' = demoted (current_lease au p) c o0"
      if "lease_at ?au c = Some o'" "c \<noteq> u" for c o'
      using that(1) la [of c] that(2) by (cases "lease_at au c") simp_all
    from False have ne: "a \<noteq> u" "b \<noteq> u" by simp_all
    obtain m0 where m0: "lease_at au a = Some m0" "m = demoted (current_lease au p) a m0"
      using old_lease [OF ab(1) ne(1)] by (elim exE conjE)
    obtain n0 where n0: "lease_at au b = Some n0" "n = demoted (current_lease au p) b n0"
      using old_lease [OF ab(2) ne(2)] by (elim exE conjE)
    from ab(3,4) have "le_project m0 = le_project n0" "le_fence m0 = le_fence n0"
      unfolding m0(2) n0(2) demoted_simps .
    then show ?thesis by (rule d(5) [OF m0(1) n0(1)])
  qed
  moreover have "dict_ok (au_projects ?au)" "dict_ok (au_leases ?au)"
    using d(1,2) by (simp_all add: dict_ok_set supersede_dict_ok)
  ultimately show ?thesis unfolding lease_inv_def by blast
qed

lemma set_project_inv:
  assumes inv: "lease_inv au" and new: "project_at au k = None"
    and p: "pj_next_fence p = 0" "pj_current p = None" "pj_prior p = None" "pj_state p \<noteq> RECOVERING"
  shows "lease_inv (set_project k p au)"
proof -
  note d = lease_invD [OF inv]
  have pa: "project_at (set_project k p au) j = (if j = k then Some p else project_at au j)" for j by (simp add: dict_simps)
  have "project_ok (set_project k p au) j q" if "project_at (set_project k p au) j = Some q" for j q
    using that d(3) [of j q] p unfolding pa by (auto simp: project_ok_def split: if_splits)
  moreover have "lease_ok (set_project k p au) i l" if "lease_at au i = Some l" for i l
    using d(4) [OF that] new unfolding lease_ok_def pa by auto
  ultimately show ?thesis
    using d(1,2,5) unfolding lease_inv_def by (auto simp: dict_ok_set)
qed

text \<open>Releasing the current lease, and completing a recovery.\<close>

lemma release_lease_inv:
  assumes inv: "lease_inv au" and p: "project_at au k = Some p" and cur: "pj_current p = Some i"
    and l: "lease_at au i = Some l" and st: "pj_state p \<noteq> RECOVERING"
  shows "lease_inv (set_project k (p\<lparr>pj_current := None, pj_updated := t\<rparr>)
           (set_lease i (l\<lparr>le_state := LEASE_RELEASED, le_released_at := r\<rparr>) au))" (is "lease_inv ?au")
proof -
  note d = lease_invD [OF inv]
  let ?l = "l\<lparr>le_state := LEASE_RELEASED, le_released_at := r\<rparr>" and ?p = "p\<lparr>pj_current := None, pj_updated := t\<rparr>"
  have la: "lease_at ?au j = (if j = i then Some ?l else lease_at au j)" for j by (simp add: dict_simps)
  have pa: "project_at ?au j = (if j = k then Some ?p else project_at au j)" for j by (simp add: dict_simps)
  from d(3) [OF p] cur l have k: "le_project l = k" by (auto simp: project_ok_def)
  have "project_ok ?au j q" if "project_at ?au j = Some q" for j q
  proof (cases "j = k")
    case True
    with that pa d(3) [OF p] st show ?thesis by (auto simp: project_ok_def)
  next
    case False
    with that pa have q: "project_at au j = Some q" by simp
    have "pj_current q \<noteq> Some i" using d(3) [OF q] l k False by (auto simp: project_ok_def)
    with d(3) [OF q] show ?thesis unfolding project_ok_def la by metis
  qed
  moreover have "lease_ok ?au j m" if "lease_at ?au j = Some m" for j m
    using that d(4) [OF l] d(4) [of j m] p cur unfolding lease_ok_def la pa by (auto split: if_splits)
  moreover have "a = b" if "lease_at ?au a = Some m" "lease_at ?au b = Some n"
      "le_project m = le_project n" "le_fence m = le_fence n" for a b m n
    by (rule keep_unique [OF inv _ that]) (use l in \<open>auto simp: dict_simps split: if_splits\<close>)
  ultimately show ?thesis
    using d(1,2) unfolding lease_inv_def by (auto simp: dict_ok_set)
qed

lemma complete_lease_inv:
  assumes inv: "lease_inv au" and p: "project_at au k = Some p" and cur: "pj_current p = Some i"
    and l: "lease_at au i = Some l" and st: "restored \<noteq> RECOVERING"
  shows "lease_inv (set_project k (p\<lparr>pj_state := restored, pj_prior := None, pj_updated := t\<rparr>)
           (set_lease i (l\<lparr>le_phase := NORMAL_PHASE\<rparr>) au))" (is "lease_inv ?au")
proof -
  note d = lease_invD [OF inv]
  let ?l = "l\<lparr>le_phase := NORMAL_PHASE\<rparr>" and ?p = "p\<lparr>pj_state := restored, pj_prior := None, pj_updated := t\<rparr>"
  have la: "lease_at ?au j = (if j = i then Some ?l else lease_at au j)" for j by (simp add: dict_simps)
  have pa: "project_at ?au j = (if j = k then Some ?p else project_at au j)" for j by (simp add: dict_simps)
  from d(3) [OF p] cur l have k: "le_project l = k" by (auto simp: project_ok_def)
  have "project_ok ?au j q" if "project_at ?au j = Some q" for j q
  proof (cases "j = k")
    case True
    with that pa d(3) [OF p] st l cur show ?thesis unfolding project_ok_def la by auto
  next
    case False
    with that pa have q: "project_at au j = Some q" by simp
    have "pj_current q \<noteq> Some i" using d(3) [OF q] l k False by (auto simp: project_ok_def)
    with d(3) [OF q] show ?thesis unfolding project_ok_def la by metis
  qed
  moreover have "lease_ok ?au j m" if "lease_at ?au j = Some m" for j m
    using that d(4) [OF l] d(4) [of j m] p cur unfolding lease_ok_def la pa by (auto split: if_splits)
  moreover have "a = b" if "lease_at ?au a = Some m" "lease_at ?au b = Some n"
      "le_project m = le_project n" "le_fence m = le_fence n" for a b m n
    by (rule keep_unique [OF inv _ that]) (use l in \<open>auto simp: dict_simps split: if_splits\<close>)
  ultimately show ?thesis
    using d(1,2) unfolding lease_inv_def by (auto simp: dict_ok_set)
qed

end
