(* ===== verification/AuthoritySteps.thy ===== *)
theory AuthoritySteps
  imports AuthorityInv
begin

text \<open>
  The abstract machine of the authority and the refinement: every operation of
  \<open>run_authority\<close> is a sequence of steps of \<open>authority_step\<close>, whose guards say who may take a
  lease over, when a grant may be issued and how a grant may change.
\<close>

section \<open>The abstract machine\<close>

definition same_grant :: "grant_row \<Rightarrow> grant_row \<Rightarrow> bool" where
  "same_grant g h \<longleftrightarrow>
     gr_request_id h = gr_request_id g \<and> gr_project h = gr_project g \<and> gr_lease h = gr_lease g \<and> gr_epoch h = gr_epoch g
     \<and> gr_fence h = gr_fence g \<and> gr_target h = gr_target g \<and> gr_operation h = gr_operation g
     \<and> gr_operation_id h = gr_operation_id g \<and> gr_request_sha256 h = gr_request_sha256 g
     \<and> gr_issue_sha256 h = gr_issue_sha256 g \<and> gr_capability h = gr_capability g"

definition no_unresolved :: "authority \<Rightarrow> string \<Rightarrow> bool" where
  "no_unresolved au k \<longleftrightarrow> (\<forall>i g. grant_at au i = Some g \<and> gr_project g = k \<longrightarrow> \<not> unresolved (gr_state g))"

text \<open>The request presents the credential of the lease that is current and active.\<close>

type_synonym credential = "string \<times> string \<times> int \<times> string"

definition presents :: "credential option \<Rightarrow> authority \<Rightarrow> string \<Rightarrow> string \<Rightarrow> lease_row \<Rightarrow> project_row \<Rightarrow> bool" where
  "presents cred au k i l p \<longleftrightarrow>
     (\<exists>f tok. cred = Some (k, i, f, tok) \<and> held_lease au k i f tok = Some (l, p)) \<and> le_state l = LEASE_ACTIVE"

inductive authority_step :: "authority_env \<Rightarrow> credential option \<Rightarrow> authority \<Rightarrow> authority \<Rightarrow> bool"
  for env :: authority_env and cred :: "credential option" where
  register:
    "\<lbrakk>project_at au k = None; pj_next_fence p = 0; pj_current p = None; pj_prior p = None; pj_state p \<noteq> RECOVERING\<rbrakk>
     \<Longrightarrow> authority_step env cred au (set_project k p au)"
| take:
    "\<lbrakk>project_at au k = Some p; \<not> holder_busy env (current_lease au p); lease_at au u = None; u \<noteq> [];
      le_project l = k; le_fence l = pj_next_fence p + 1; le_state l = LEASE_ACTIVE;
      pj_next_fence p' = pj_next_fence p + 1; pj_current p' = Some u; pj_prior p' \<noteq> Some RECOVERING;
      le_phase l = RECOVERY_PHASE \<longleftrightarrow> pj_state p' = RECOVERING;
      \<not> no_unresolved au k \<longrightarrow> le_phase l = RECOVERY_PHASE\<rbrakk>
     \<Longrightarrow> authority_step env cred au (set_project k p' (supersede (current_lease au p) (set_lease u l au)))"
| extend:
    "\<lbrakk>presents cred au k i l p; le_until l \<le> t\<rbrakk>
     \<Longrightarrow> authority_step env cred au (set_lease i (l\<lparr>le_heartbeat_seq := n, le_heartbeat_at := h, le_until := t\<rparr>) au)"
| release:
    "\<lbrakk>presents cred au k i l p; pj_state p \<noteq> RECOVERING; no_unresolved au k\<rbrakk>
     \<Longrightarrow> authority_step env cred au (set_project k (p\<lparr>pj_current := None, pj_updated := t\<rparr>)
           (set_lease i (l\<lparr>le_state := LEASE_RELEASED, le_released_at := r\<rparr>) au))"
| complete:
    "\<lbrakk>presents cred au k i l p; ae_now env < le_until l; no_unresolved au k; restored \<noteq> RECOVERING\<rbrakk>
     \<Longrightarrow> authority_step env cred au (set_project k (p\<lparr>pj_state := restored, pj_prior := None, pj_updated := t\<rparr>)
           (set_lease i (l\<lparr>le_phase := NORMAL_PHASE\<rparr>) au))"
| issue:
    "\<lbrakk>grant_at au i = None; presents cred au (gr_project g) (gr_lease g) l p; le_fence l = gr_fence g;
      ae_now env < le_until l; gr_state g = ISSUED;
      gr_operation g = FENCE_BARRIER \<or> le_phase l = NORMAL_PHASE \<and> pj_state p \<noteq> RECOVERING \<and> no_unresolved au (gr_project g)\<rbrakk>
     \<Longrightarrow> authority_step env cred au (set_grant i g au)"
| settle:
    "\<lbrakk>grant_at au i = Some g; presents cred au (gr_project g) j l p; ae_now env < le_until l; le_phase l = RECOVERY_PHASE;
      same_grant g g'; \<not> unresolved (gr_state g) \<longrightarrow> gr_state g' = gr_state g \<and> gr_result g' = gr_result g;
      gr_state g = ACCEPTED \<longrightarrow> gr_state g' \<in> {ACCEPTED, TERMINAL}\<rbrakk>
     \<Longrightarrow> authority_step env cred au (set_grant i g' au)"
| keys:
    "authority_step env cred au (au\<lparr>au_targets := T, au_keys := K, au_epoch := e\<rparr>)"

inductive_cases authority_stepE: "authority_step env cred au au'"

abbreviation authority_steps :: "authority_env \<Rightarrow> credential option \<Rightarrow> authority \<Rightarrow> authority \<Rightarrow> bool" where
  "authority_steps env cred \<equiv> (authority_step env cred)\<^sup>*\<^sup>*"

lemma held_leaseD:
  assumes "held_lease au k i f tok = Some (l, p)"
  shows "lease_at au i = Some l" "project_at au k = Some p" "le_project l = k" "le_fence l = f"
    "le_token_sha256 l = tok" "pj_current p = Some i"
  using assms by (auto simp: held_lease_def split: option.splits if_splits)

lemma presentsD:
  assumes "presents cred au k i l p"
  shows "lease_at au i = Some l" "project_at au k = Some p" "le_project l = k" "pj_current p = Some i"
    "le_state l = LEASE_ACTIVE" "cred = Some (k, i, le_fence l, le_token_sha256 l)"
  using assms held_leaseD unfolding presents_def by auto

lemma unresolved_grants_Nil:
  assumes "dict_ok (au_grants au)"
  shows "unresolved_grants au k = [] \<longleftrightarrow> no_unresolved au k"
  unfolding unresolved_grants_def sort_key_Nil_iff filter_empty_conv no_unresolved_def map_of_eq_Some_iff [OF assms]
  by auto

section \<open>Steps keep the invariant\<close>

lemma grant_invD:
  assumes "grant_inv au"
  shows "dict_ok (au_grants au)"
    "\<And>i g. grant_at au i = Some g \<Longrightarrow> \<exists>l. lease_at au (gr_lease g) = Some l \<and> le_project l = gr_project g \<and> le_fence l = gr_fence g"
    "\<And>i j g h. grant_at au i = Some g \<Longrightarrow> grant_at au j = Some h \<Longrightarrow> gr_project g = gr_project h
       \<Longrightarrow> gr_operation g \<noteq> FENCE_BARRIER \<Longrightarrow> gr_operation h \<noteq> FENCE_BARRIER
       \<Longrightarrow> unresolved (gr_state g) \<Longrightarrow> unresolved (gr_state h) \<Longrightarrow> i = j"
  using assms unfolding grant_inv_def by blast+

lemma issue_grant_inv:
  assumes inv: "grant_inv au" and new: "grant_at au i = None"
    and l: "lease_at au (gr_lease g) = Some l" "le_project l = gr_project g" "le_fence l = gr_fence g"
    and quiet: "gr_operation g = FENCE_BARRIER \<or> no_unresolved au (gr_project g)"
  shows "grant_inv (set_grant i g au)"
proof -
  note d = grant_invD [OF inv]
  have ga: "grant_at (set_grant i g au) j = (if j = i then Some g else grant_at au j)" for j by (simp add: dict_simps)
  have "a = b" if "grant_at (set_grant i g au) a = Some m" "grant_at (set_grant i g au) b = Some n" "gr_project m = gr_project n"
     "gr_operation m \<noteq> FENCE_BARRIER" "gr_operation n \<noteq> FENCE_BARRIER" "unresolved (gr_state m)" "unresolved (gr_state n)" for a b m n
    using that d(3) [of a m b n] quiet unfolding ga no_unresolved_def by (auto split: if_splits)
  moreover have "\<exists>l. lease_at au (gr_lease m) = Some l \<and> le_project l = gr_project m \<and> le_fence l = gr_fence m"
    if "grant_at (set_grant i g au) a = Some m" for a m
    using that d(2) [of a m] l unfolding ga by (auto split: if_splits)
  ultimately show ?thesis
    using d(1) unfolding grant_inv_def by (auto simp: dict_ok_set)
qed

lemma settle_grant_inv:
  assumes inv: "grant_inv au" and g: "grant_at au i = Some g" and same: "same_grant g g'"
    and fin: "\<not> unresolved (gr_state g) \<longrightarrow> gr_state g' = gr_state g"
  shows "grant_inv (set_grant i g' au)"
proof -
  note d = grant_invD [OF inv]
  have ga: "grant_at (set_grant i g' au) j = (if j = i then Some g' else grant_at au j)" for j by (simp add: dict_simps)
  have old: "\<exists>m0. grant_at au a = Some m0 \<and> gr_project m0 = gr_project m \<and> gr_operation m0 = gr_operation m
      \<and> gr_lease m0 = gr_lease m \<and> gr_fence m0 = gr_fence m \<and> (unresolved (gr_state m) \<longrightarrow> unresolved (gr_state m0))"
    if "grant_at (set_grant i g' au) a = Some m" for a m
    using that g same fin unfolding ga same_grant_def by (auto split: if_splits)
  have "a = b" if ab: "grant_at (set_grant i g' au) a = Some m" "grant_at (set_grant i g' au) b = Some n" "gr_project m = gr_project n"
     "gr_operation m \<noteq> FENCE_BARRIER" "gr_operation n \<noteq> FENCE_BARRIER" "unresolved (gr_state m)" "unresolved (gr_state n)" for a b m n
    using old [OF ab(1)] old [OF ab(2)] ab(3-7) d(3) [of a _ b] by metis
  moreover have "\<exists>l. lease_at au (gr_lease m) = Some l \<and> le_project l = gr_project m \<and> le_fence l = gr_fence m"
    if "grant_at (set_grant i g' au) a = Some m" for a m
    using old [OF that] d(2) [of a] by metis
  ultimately show ?thesis
    using d(1) unfolding grant_inv_def by (auto simp: dict_ok_set)
qed

lemma lease_inv_cong:
  assumes "au_projects a = au_projects b" and "au_leases a = au_leases b"
  shows "lease_inv a = lease_inv b"
  unfolding lease_inv_def project_ok_def lease_ok_def assms by (rule refl)

lemma grant_inv_cong:
  assumes "au_grants a = au_grants b" and "au_leases a = au_leases b"
  shows "grant_inv a = grant_inv b"
  unfolding grant_inv_def assms by (rule refl)

lemma lease_inv_grants: "lease_inv au \<Longrightarrow> lease_inv (set_grant i g au)"
  using lease_inv_cong [of "set_grant i g au" au] by simp

lemma authority_step_inv:
  assumes "authority_inv au" and step: "authority_step env cred au au'"
  shows "authority_inv au'"
proof -
  from assms(1) have L: "lease_inv au" and G: "grant_inv au" by (simp_all add: authority_inv_def)
  from step show ?thesis
  proof cases
    case (register k p)
    then show ?thesis using set_project_inv [OF L] grant_inv_leases [OF G, of au'] by (simp add: authority_inv_def)
  next
    case (take k p u l p')
    have "lease_inv au'"
      unfolding take(1) by (rule takeover_lease_inv [OF L take(2,4,5,6,7,8,9,10,11,12)])
    moreover have "grant_inv au'"
      by (rule grant_inv_leases [OF G]) (use take lease_at_takeover [OF L take(2,4), of l] in auto)
    ultimately show ?thesis by (simp add: authority_inv_def)
  next
    case (extend k i l p t n h)
    note h = presentsD [OF extend(2)]
    show ?thesis
      using extend(1) set_lease_inv [OF L h(1)] h(1)
      by (auto simp: authority_inv_def dict_simps intro!: grant_inv_leases [OF G])
  next
    case (release k i l p t r)
    note h = presentsD [OF release(2)]
    show ?thesis
      using release_lease_inv [OF L h(2,4,1) release(3)] release(1) h(1)
      by (auto simp: authority_inv_def dict_simps intro!: grant_inv_leases [OF G])
  next
    case (complete k i l p restored t)
    note h = presentsD [OF complete(2)]
    show ?thesis
      using complete_lease_inv [OF L h(2,4,1) complete(5)] complete(1) h(1)
      by (auto simp: authority_inv_def dict_simps intro!: grant_inv_leases [OF G])
  next
    case (issue i g l p)
    note h = presentsD [OF issue(3)]
    show ?thesis
      using issue_grant_inv [OF G issue(2) h(1,3) issue(4)] issue lease_inv_grants [OF L] by (auto simp: authority_inv_def)
  next
    case (settle i g j l p g')
    then show ?thesis
      using settle_grant_inv [OF G settle(2,6)] lease_inv_grants [OF L] by (auto simp: authority_inv_def)
  next
    case (keys T K e)
    then show ?thesis
      using L G lease_inv_cong [of au' au] grant_inv_cong [of au' au] by (simp add: authority_inv_def)
  qed
qed

interpretation am: invariant_machine "authority_step env cred" authority_inv for env cred
  by unfold_locales (rule authority_step_inv)

end
