(* ===== verification/AuthorityRefine.thy ===== *)
theory AuthorityRefine
  imports AuthoritySteps
begin

text \<open>
  Every operation of the authority refines the abstract machine of \<open>AuthoritySteps\<close>.
\<close>

definition cred_of :: "authority_env \<Rightarrow> request \<Rightarrow> credential option" where
  "cred_of env body = (case lease_credential env body of Inl _ \<Rightarrow> None | Inr c \<Rightarrow> Some c)"

lemma presentsI:
  "lease_credential env body = Inr (k, i, f, tok) \<Longrightarrow> held_lease au k i f tok = Some (l, p) \<Longrightarrow> le_state l = LEASE_ACTIVE
   \<Longrightarrow> presents (cred_of env body) au k i l p"
  by (auto simp: presents_def cred_of_def)

lemma takeover_step:
  assumes inv: "authority_inv au" and uuid: "ae_uuid env \<noteq> []"
    and p: "project_at au (get_str body ''project_key'') = Some p" and free: "\<not> holder_busy env (current_lease au p)"
    and run: "takeover env meta body tok p (current_lease au p) au = Inr (resp, au')"
  shows "authority_step env cred au au'"
proof -
  let ?k = "get_str body ''project_key''" and ?cur = "current_lease au p"
  let ?l = "new_lease env meta body tok p ?cur au"
  let ?p = "p\<lparr>pj_next_fence := le_fence ?l, pj_current := Some (ae_uuid env),
        pj_state := (if le_phase ?l = RECOVERY_PHASE then RECOVERING else pj_state p),
        pj_prior := (if le_phase ?l = RECOVERY_PHASE \<and> pj_state p \<noteq> RECOVERING then Some (pj_state p) else pj_prior p),
        pj_updated := ae_now env\<rparr>"
  from run have u: "lease_at au (ae_uuid env) = None"
    and au': "au' = set_project ?k ?p (supersede ?cur (set_lease (ae_uuid env) ?l au))"
    by (auto simp: takeover_def Let_def split: if_splits)
  have l: "le_project ?l = ?k" "le_fence ?l = pj_next_fence p + 1" "le_state ?l = LEASE_ACTIVE"
    by (simp_all add: new_lease_def)
  have G: "dict_ok (au_grants au)" and L: "lease_inv au" using inv by (auto simp: authority_inv_def grant_inv_def)
  have "\<not> no_unresolved au ?k \<longrightarrow> le_phase ?l = RECOVERY_PHASE"
    using unresolved_grants_Nil [OF G, of ?k] by (auto simp: new_lease_def takeover_phase_def)
  moreover have "le_phase ?l = RECOVERY_PHASE" if "pj_state p = RECOVERING"
    using that by (simp add: new_lease_def takeover_phase_def)
  moreover have "pj_prior p \<noteq> Some RECOVERING" using lease_invD(3) [OF L p] by (simp add: project_ok_def)
  ultimately show ?thesis
    unfolding au' by (intro authority_step.take [OF p free u uuid l]) (auto simp: l)
qed

lemma acquire_steps:
  assumes inv: "authority_inv au" and uuid: "ae_uuid env \<noteq> []"
    and run: "authority_acquire env meta body au = Inr (resp, au')"
  shows "authority_steps env cred au au'"
proof -
  from run consider "au' = au"
    | tok p where "project_at au (get_str body ''project_key'') = Some p" "\<not> holder_busy env (current_lease au p)"
        "takeover env meta body tok p (current_lease au p) au = Inr (resp, au')"
    unfolding authority_acquire_def
    by (auto simp: holder_busy_def split: sum.splits option.splits if_splits prod.splits)
  then show ?thesis by cases (auto dest: takeover_step [OF inv uuid])
qed

lemma register_steps:
  assumes "project_register env body au = Inr (resp, au')"
  shows "authority_steps env cred au au'"
  using assms unfolding project_register_def Let_def
  by (auto split: if_splits option.splits intro!: r_into_rtranclp [of "authority_step env cred"] authority_step.register)

lemma heartbeat_steps:
  assumes run: "authority_heartbeat env meta body au = Inr (resp, au')"
  shows "authority_steps env (cred_of env body) au au'"
proof -
  from run obtain k i f tok where c: "lease_credential env body = Inr (k, i, f, tok)"
    unfolding authority_heartbeat_def by (auto split: sum.splits)
  have "au' = au \<or> authority_step env (cred_of env body) au au'"
    using run presentsI [OF c] unfolding authority_heartbeat_def c Let_def
    by (auto split: option.splits if_splits intro!: authority_step.extend)
  then show ?thesis by auto
qed

lemma authority_release_steps:
  assumes inv: "authority_inv au" and run: "authority_release env body au = Inr (resp, au')"
  shows "authority_steps env (cred_of env body) au au'"
proof -
  have G: "dict_ok (au_grants au)" using inv by (auto simp: authority_inv_def grant_inv_def)
  from run obtain k i f tok where c: "lease_credential env body = Inr (k, i, f, tok)"
    unfolding authority_release_def by (auto split: sum.splits)
  show ?thesis
  proof (cases "au' = au")
    case False
    with run [unfolded authority_release_def c sum.case prod.case] obtain p where p: "project_at au k = Some p"
      and quiet: "pj_state p \<noteq> RECOVERING" "unresolved_grants au k = []"
      and r: "(case held_lease au k i f tok of None \<Rightarrow> Inr (reply_with ''LOST'' [], au)
         | Some (l, _) \<Rightarrow> if le_state l \<noteq> LEASE_ACTIVE then Inr (reply_with ''LOST'' [], au)
           else Inr (reply_with ''RELEASED'' [], set_project k (p\<lparr>pj_current := None, pj_updated := ae_now env\<rparr>)
             (set_lease i (l\<lparr>le_state := LEASE_RELEASED, le_released_at := Some (ae_now env)\<rparr>) au))) = (Inr (resp, au') :: runner_error + reply \<times> authority)"
      by (cases "project_at au k") (auto split: if_split_asm)
    from r False obtain l q where h: "held_lease au k i f tok = Some (l, q)" "le_state l = LEASE_ACTIVE"
      and au': "au' = set_project k (p\<lparr>pj_current := None, pj_updated := ae_now env\<rparr>)
             (set_lease i (l\<lparr>le_state := LEASE_RELEASED, le_released_at := Some (ae_now env)\<rparr>) au)"
      by (cases "held_lease au k i f tok") (auto split: if_splits)
    from held_leaseD(2) [OF h(1)] p have "q = p" by simp
    with presentsI [OF c h] have "authority_step env (cred_of env body) au au'"
      unfolding au' using quiet by (intro authority_step.release) (simp_all add: unresolved_grants_Nil [OF G])
    then show ?thesis by simp
  qed simp
qed

lemma keys_step:
  fixes au au' :: authority
  assumes "au_projects au' = au_projects au" and "au_leases au' = au_leases au" and "au_grants au' = au_grants au"
  shows "authority_steps env cred au au'"
proof -
  have "au' = au\<lparr>au_targets := au_targets au', au_keys := au_keys au', au_epoch := au_epoch au'\<rparr>"
    by (rule authority.equality) (simp_all add: assms)
  with authority_step.keys [of env cred au] show ?thesis by (metis r_into_rtranclp)
qed

lemma key_ops_steps:
  "target_key_create env meta body au = Inr (resp, au') \<Longrightarrow> authority_steps env cred au au'"
  "target_key_finalize env meta body au = Inr (resp, au') \<Longrightarrow> authority_steps env cred au au'"
  "epoch_rotate meta body au = Inr (resp, au') \<Longrightarrow> authority_steps env cred au au'"
proof -
  show "target_key_create env meta body au = Inr (resp, au') \<Longrightarrow> authority_steps env cred au au'"
    unfolding target_key_create_def Let_def by (auto split: if_splits option.splits intro!: keys_step)
  show "epoch_rotate meta body au = Inr (resp, au') \<Longrightarrow> authority_steps env cred au au'"
    unfolding epoch_rotate_def by (auto split: if_splits option.splits intro!: keys_step)
  have "enrolled_pending env meta receipt rb epoch au = Inr (resp, au') \<Longrightarrow> authority_steps env cred au au'" for receipt rb epoch
    unfolding enrolled_pending_def Let_def by (auto split: if_splits option.splits intro!: keys_step)
  then show "target_key_finalize env meta body au = Inr (resp, au') \<Longrightarrow> authority_steps env cred au au'"
    unfolding target_key_finalize_def by (auto split: if_splits option.splits)
qed

lemma sign_grant_row:
  assumes "sign_grant env meta r au = Inr (resp, au')"
  obtains cap where "grant_at au (ae_uuid env) = None" "au' = set_grant (ae_uuid env) (new_grant env meta r cap) au"
  using assms unfolding sign_grant_def Let_def by (auto split: option.splits if_splits)

lemma issue_steps:
  assumes inv: "authority_inv au" and run: "grant_issue env meta body au = Inr (resp, au')"
  shows "authority_steps env (cred_of env body) au au'"
proof -
  have G: "dict_ok (au_grants au)" using inv by (auto simp: authority_inv_def grant_inv_def)
  from run obtain r where r: "issue_request_of env body = Inr r"
    unfolding grant_issue_def by (auto split: sum.splits)
  show ?thesis
  proof (cases "au' = au")
    case False
    with run [unfolded grant_issue_def r sum.case] obtain l p where
        h: "held_lease au (ir_project r) (ir_lease r) (ir_fence r) (ir_token r) = Some (l, p)"
      by (cases "find_request au (ir_request_id r)"; cases "held_lease au (ir_project r) (ir_lease r) (ir_fence r) (ir_token r)")
        (auto split: if_splits)
    from False run [unfolded grant_issue_def r sum.case h] have
        live: "le_state l = LEASE_ACTIVE" "ae_now env < le_until l"
      and quiet: "ir_operation r = FENCE_BARRIER \<or> le_phase l \<noteq> RECOVERY_PHASE \<and> pj_state p \<noteq> RECOVERING
           \<and> unresolved_grants au (ir_project r) = []"
      and sign: "sign_grant env meta r au = Inr (resp, au')"
      by (cases "find_request au (ir_request_id r)"; auto split: if_splits)+
    have "lease_credential env body = Inr (ir_project r, ir_lease r, ir_fence r, ir_token r)"
      using r by (auto simp: issue_request_of_def Let_def split: sum.splits if_splits)
    from presentsI [OF this h live(1)] have pr: "presents (cred_of env body) au (ir_project r) (ir_lease r) l p" .
    from sign obtain cap where cap: "grant_at au (ae_uuid env) = None"
      "au' = set_grant (ae_uuid env) (new_grant env meta r cap) au" by (rule sign_grant_row)
    have "le_phase l \<noteq> RECOVERY_PHASE \<Longrightarrow> le_phase l = NORMAL_PHASE" by (cases "le_phase l") simp_all
    with live quiet pr held_leaseD(4) [OF h] have "authority_step env (cred_of env body) au au'"
      unfolding cap(2) by (intro authority_step.issue [OF cap(1), where l = l and p = p])
        (auto simp: new_grant_def unresolved_grants_Nil [OF G])
    then show ?thesis by simp
  qed simp
qed

section \<open>Importing receipts\<close>

text \<open>The holder of a recovery lease; recording grants does not affect it.\<close>

definition recovering :: "authority_env \<Rightarrow> credential option \<Rightarrow> authority \<Rightarrow> string \<Rightarrow> bool" where
  "recovering env cred au k \<longleftrightarrow>
     (\<exists>i l p. presents cred au k i l p \<and> ae_now env < le_until l \<and> le_phase l = RECOVERY_PHASE)"

lemma recovering_set_grant [simp]: "recovering env cred (set_grant i g au) k = recovering env cred au k"
  by (simp add: recovering_def presents_def held_lease_def)

lemma settle_step:
  assumes "grant_at au i = Some g" and "recovering env cred au (gr_project g)" and "same_grant g g'"
    and "\<not> unresolved (gr_state g) \<longrightarrow> gr_state g' = gr_state g \<and> gr_result g' = gr_result g"
    and "gr_state g = ACCEPTED \<longrightarrow> gr_state g' \<in> {ACCEPTED, TERMINAL}"
  shows "authority_step env cred au (set_grant i g' au)"
  using assms unfolding recovering_def by (auto intro: authority_step.settle)

lemma barrier_row_step:
  assumes "barrier_row now observed i g = Inr g'" and "unresolved (gr_state g)" and "grant_at au i = Some g"
    and "recovering env cred au (gr_project g)"
  shows "authority_step env cred au (set_grant i g' au)"
  using assms
  by (intro settle_step [OF assms(3,4)])
    (auto simp: barrier_row_def same_grant_def split: option.splits if_splits)

lemma settle_grants_steps:
  assumes "settle_grants now observed gs au = Inr au'" and "distinct (map fst gs)"
    and "\<And>i g. (i, g) \<in> set gs \<Longrightarrow> grant_at au i = Some g \<and> unresolved (gr_state g) \<and> gr_project g = k"
    and "recovering env cred au k"
  shows "authority_steps env cred au au' \<and> (\<forall>j. j \<notin> fst ` set gs \<longrightarrow> grant_at au' j = grant_at au j)
    \<and> recovering env cred au' k"
  using assms
proof (induction now observed gs au rule: settle_grants.induct)
  case (2 now observed i g gs au)
  from "2.prems"(1) obtain g' where g': "barrier_row now observed i g = Inr g'"
    and rest: "settle_grants now observed gs (set_grant i g' au) = Inr au'" by (auto split: sum.splits)
  have "authority_step env cred au (set_grant i g' au)"
    using "2.prems"(3,4) g' by (intro barrier_row_step [OF g']) auto
  moreover have "authority_steps env cred (set_grant i g' au) au'
      \<and> (\<forall>j. j \<notin> fst ` set gs \<longrightarrow> grant_at au' j = grant_at (set_grant i g' au) j) \<and> recovering env cred au' k"
  proof (rule "2.IH" [OF g' rest])
    show "grant_at (set_grant i g' au) j = Some h \<and> unresolved (gr_state h) \<and> gr_project h = k" if "(j, h) \<in> set gs" for j h
      using "2.prems"(2,3) that by (force simp: dict_simps)
  qed (use "2.prems" in auto)
  ultimately show ?case by (auto simp: dict_simps)
qed simp

lemma reconcile_barrier_steps:
  assumes inv: "authority_inv au" and rec: "recovering env cred au k"
    and run: "reconcile_barrier now k epoch barrier target result au = Inr au'"
  shows "authority_steps env cred au au' \<and> (\<forall>j g. grant_at au j = Some g \<and> barrier \<le> gr_fence g \<longrightarrow> grant_at au' j = Some g)
    \<and> recovering env cred au' k"
proof -
  have G: "dict_ok (au_grants au)" using inv by (auto simp: authority_inv_def grant_inv_def)
  from run obtain observed where s: "settle_grants now observed (below_barrier au k epoch target barrier) au = Inr au'"
    unfolding reconcile_barrier_def by (auto split: option.splits json.splits sum.splits)
  have "authority_steps env cred au au' \<and> (\<forall>j. j \<notin> fst ` set (below_barrier au k epoch target barrier) \<longrightarrow> grant_at au' j = grant_at au j)
      \<and> recovering env cred au' k"
    by (rule settle_grants_steps [OF s, where k = k])
      (use G rec in \<open>auto simp: below_barrier_def dict_ok_filter\<close>)
  moreover have "j \<notin> fst ` set (below_barrier au k epoch target barrier)" if j: "grant_at au j = Some g" "barrier \<le> gr_fence g" for j g
  proof
    assume "j \<in> fst ` set (below_barrier au k epoch target barrier)"
    then obtain h where "(j, h) \<in> set (au_grants au)" "gr_fence h < barrier" by (auto simp: below_barrier_def)
    with j G show False by (auto dest: map_of_is_SomeI)
  qed
  ultimately show ?thesis by auto
qed

lemma import_receipt_steps:
  assumes inv: "authority_inv au" and g: "grant_at au i = Some g"
    and rec: "recovering env cred au (gr_project g)" and k: "k = gr_project g"
    and run: "import_receipt env k rb sha i g au = Inr (resp, au')"
  shows "authority_steps env cred au au'"
proof -
  from run consider "au' = au"
    | "\<not> unresolved (gr_state g)" "au' = set_grant i (g\<lparr>gr_last_receipt := Some sha\<rparr>) au"
    | st result au1 where "unresolved (gr_state g)" "receipt_state g rb = Inr (st, result)"
        "authority_steps env cred au au1 \<and> grant_at au1 i = Some g \<and> recovering env cred au1 (gr_project g)"
        "au' = set_grant i (imported_row (ae_now env) g st result sha) au1"
  proof -
    have barrier: "authority_steps env cred au au1 \<and> grant_at au1 i = Some g \<and> recovering env cred au1 (gr_project g)"
      if "(if c then reconcile_barrier (ae_now env) k (gr_epoch g) (gr_fence g) (gr_target g) result au else Inr au) = Inr au1"
      for c result au1
      using that reconcile_barrier_steps [OF inv rec, of "ae_now env" "gr_epoch g" "gr_fence g" "gr_target g" result au1] g rec k
      by (auto split: if_splits)
    have un: "unresolved (gr_state g) \<longleftrightarrow> gr_state g \<notin> {TERMINAL, FENCED}"
      by (cases "gr_state g") (simp_all add: unresolved_def)
    show thesis
    proof (cases "gr_last_receipt g = Some sha")
      case True
      with run that(1) show ?thesis by (simp add: import_receipt_def)
    next
      case fresh: False
      show ?thesis
      proof (cases "unresolved (gr_state g)")
        case False
        with run fresh that(2) show ?thesis unfolding import_receipt_def un by (auto split: if_splits)
      next
        case True
        with run fresh obtain st result au1 where "receipt_state g rb = Inr (st, result)"
            "(if st = TERMINAL \<and> gr_operation g = FENCE_BARRIER
              then reconcile_barrier (ae_now env) k (gr_epoch g) (gr_fence g) (gr_target g) result au else Inr au) = Inr au1"
            "au' = set_grant i (imported_row (ae_now env) g st result sha) au1"
          unfolding import_receipt_def un by (auto split: if_split_asm sum.split_asm prod.split_asm)
        with that(3) True barrier show ?thesis by blast
      qed
    qed
  qed
  then show ?thesis
  proof cases
    case 2
    then show ?thesis
      by (auto simp: same_grant_def unresolved_def intro!: r_into_rtranclp [of "authority_step env cred"] settle_step [OF g rec])
  next
    case (3 st result au1)
    have "authority_step env cred au1 au'"
      unfolding 3(4) by (rule settle_step [where g = g])
        (use 3 in \<open>auto simp: same_grant_def imported_row_def receipt_state_def unresolved_def split: if_splits\<close>)
    with 3(3) show ?thesis by auto
  qed simp
qed

lemma grant_import_steps:
  assumes inv: "authority_inv au" and run: "grant_import env meta body au = Inr (resp, au')"
  shows "authority_steps env (cred_of env body) au au'"
proof -
  from run obtain k i f tok where c: "lease_credential env body = Inr (k, i, f, tok)"
    unfolding grant_import_def by (auto split: sum.splits)
  show ?thesis
  proof (cases "au' = au")
    case False
    with run [unfolded grant_import_def c sum.case prod.case] obtain l p where h: "held_lease au k i f tok = Some (l, p)"
      by (cases "held_lease au k i f tok") auto
    from False run [unfolded grant_import_def c sum.case prod.case h option.case]
    have live: "le_state l = LEASE_ACTIVE" "ae_now env < le_until l" "le_phase l = RECOVERY_PHASE"
      by (simp_all split: if_split_asm)
    have rec: "recovering env (cred_of env body) au k"
      using presentsI [OF c h live(1)] live unfolding recovering_def by blast
    from False run [unfolded grant_import_def c sum.case prod.case h option.case]
    obtain j g rb sha where "grant_at au j = Some g" "gr_project g = k" "import_receipt env k rb sha j g au = Inr (resp, au')"
      by (auto split: sum.splits option.splits if_splits)
    with import_receipt_steps [OF inv] rec show ?thesis by auto
  qed simp
qed

lemma complete_steps:
  assumes inv: "authority_inv au" and run: "recovery_complete env body au = Inr (resp, au')"
  shows "authority_steps env (cred_of env body) au au'"
proof -
  have G: "dict_ok (au_grants au)" and L: "lease_inv au" using inv by (auto simp: authority_inv_def grant_inv_def)
  from run obtain k i f tok where c: "lease_credential env body = Inr (k, i, f, tok)"
    unfolding recovery_complete_def by (auto split: sum.splits)
  show ?thesis
  proof (cases "au' = au")
    case False
    with run [unfolded recovery_complete_def c sum.case prod.case] obtain l p where h: "held_lease au k i f tok = Some (l, p)"
      by (cases "held_lease au k i f tok") auto
    from False run [unfolded recovery_complete_def c sum.case prod.case h option.case Let_def]
    have quiet: "unresolved_grants au k = []" "le_state l = LEASE_ACTIVE" "ae_now env < le_until l"
      and au': "au' = set_project k (p\<lparr>pj_state := (case pj_prior p of None \<Rightarrow> BOOTSTRAP | Some st \<Rightarrow> st), pj_prior := None, pj_updated := ae_now env\<rparr>)
           (set_lease i (l\<lparr>le_phase := NORMAL_PHASE\<rparr>) au)"
      by (simp_all split: if_split_asm)
    have "pj_prior p \<noteq> Some RECOVERING"
      using lease_invD(3) [OF L held_leaseD(2) [OF h]] by (simp add: project_ok_def)
    then have "(case pj_prior p of None \<Rightarrow> BOOTSTRAP | Some st \<Rightarrow> st) \<noteq> RECOVERING" by (auto split: option.split)
    then have "authority_step env (cred_of env body) au au'"
      unfolding au' using presentsI [OF c h quiet(2)] quiet by (intro authority_step.complete) (simp_all add: unresolved_grants_Nil [OF G])
    then show ?thesis by simp
  qed simp
qed

lemma worklist_same: "recovery_worklist env body au = Inr (resp, au') \<Longrightarrow> au' = au"
  unfolding recovery_worklist_def by (auto split: sum.splits option.splits prod.splits if_splits)

lemma run_authority_steps:
  assumes inv: "authority_inv au" and uuid: "ae_uuid env \<noteq> []" and run: "run_authority env meta op body au = Inr (resp, au')"
  shows "authority_steps env (cred_of env body) au au'"
  using run
  by (cases op) (auto intro: register_steps acquire_steps [OF inv uuid] heartbeat_steps authority_release_steps [OF inv] key_ops_steps
    issue_steps [OF inv] grant_import_steps [OF inv] complete_steps [OF inv] dest: worklist_same)

lemma authority_rpc_steps:
  assumes "authority_inv (as_tables s)" and "ae_uuid env \<noteq> []"
  shows "authority_steps env (cred_of env body) (as_tables s) (as_tables (snd (authority_rpc env meta rpc_id sha op body s)))"
  using run_authority_steps [OF assms]
  by (auto simp: authority_rpc_def split: option.splits sum.splits)

end
