(* ===== verification/AuthoritySafety.thy ===== *)
theory AuthoritySafety
  imports AuthorityRefine
begin

text \<open>
  Properties of the authority over whole histories of requests, each with an environment and
  a metadata row of its own.
\<close>

section \<open>Histories\<close>

inductive store_step :: "authority_store \<Rightarrow> authority_store \<Rightarrow> bool" where
  "ae_uuid env \<noteq> [] \<Longrightarrow> store_step s (snd (authority_rpc env meta rpc_id sha op body s))"

definition initial_store :: authority_store where
  "initial_store = \<lparr>as_tables = empty_authority, as_rpc = []\<rparr>"

definition authority_reachable :: "authority_store \<Rightarrow> bool" where
  "authority_reachable s \<longleftrightarrow> store_step\<^sup>*\<^sup>* initial_store s"

lemma store_step_steps:
  assumes "store_step s s'" and "authority_inv (as_tables s)"
  shows "\<exists>env cred. authority_steps env cred (as_tables s) (as_tables s')"
  using assms by cases (auto intro: authority_rpc_steps)

interpretation ss: invariant_machine store_step "\<lambda>s. authority_inv (as_tables s)"
  by unfold_locales (auto dest: store_step_steps intro: am.steps_inv)

lemma initial_store_inv: "authority_inv (as_tables initial_store)"
  by (simp add: initial_store_def empty_authority_inv)

lemma reachable_authority_inv: "authority_reachable s \<Longrightarrow> authority_inv (as_tables s)"
  unfolding authority_reachable_def by (rule ss.steps_inv [OF _ initial_store_inv])

section \<open>Leases along a request\<close>

text \<open>The lease is still the active, unexpired one, with the same identity.\<close>

definition lease_stands :: "string \<Rightarrow> lease_row \<Rightarrow> authority \<Rightarrow> bool" where
  "lease_stands i l au \<longleftrightarrow>
     (\<exists>l'. lease_at au i = Some l' \<and> le_state l' = LEASE_ACTIVE \<and> le_project l' = le_project l \<and> le_fence l' = le_fence l
        \<and> le_token_sha256 l' = le_token_sha256 l \<and> le_until l \<le> le_until l')"

lemma step_lease_stands:
  assumes inv: "authority_inv au" and step: "authority_step env cred au au'" and st: "lease_stands i l au"
    and live: "ae_now env < le_until l" and other: "cred \<noteq> Some (le_project l, i, le_fence l, le_token_sha256 l)"
  shows "lease_stands i l au'"
proof -
  have L: "lease_inv au" using inv by (simp add: authority_inv_def)
  from st obtain m where m: "lease_at au i = Some m" "le_state m = LEASE_ACTIVE" "le_project m = le_project l"
    "le_fence m = le_fence l" "le_token_sha256 m = le_token_sha256 l" "le_until l \<le> le_until m"
    unfolding lease_stands_def by blast
  from active_current [OF L m(1,2)] obtain q where q: "project_at au (le_project l) = Some q" "pj_current q = Some i"
    using m(3) by auto
  from step show ?thesis
  proof cases
    case (take k p u n p')
    have "pj_current p \<noteq> Some i"
    proof
      assume "pj_current p = Some i"
      with current_lease_inv(1) [OF L take(2)] m(1) have "current_lease au p = Some (i, m)" by simp
      with take(3) m live show False by (simp add: holder_busy_def)
    qed
    with current_lease_inv(2) [OF L take(2)] m take(4) lease_at_takeover [OF L take(2,4), of n] show ?thesis
      unfolding take(1) lease_stands_def by (auto simp: demoted_def)
  next
    case (extend k j n p t a b)
    with presentsD(1) [OF extend(2)] m show ?thesis unfolding lease_stands_def by (auto simp: dict_simps)
  next
    case (release k j n p t r)
    from presentsD [OF release(2)] other m have "j \<noteq> i" by auto
    with m release(1) show ?thesis unfolding lease_stands_def by (auto simp: dict_simps)
  next
    case (complete k j n p restored t)
    with presentsD(1) [OF complete(2)] m show ?thesis unfolding lease_stands_def by (auto simp: dict_simps)
  qed (use m in \<open>auto simp: lease_stands_def\<close>)
qed

lemma steps_lease_stands:
  assumes "authority_inv au" and "authority_steps env cred au au'" and "lease_stands i l au"
    and "ae_now env < le_until l" and "cred \<noteq> Some (le_project l, i, le_fence l, le_token_sha256 l)"
  shows "lease_stands i l au'"
  using am.steps_stable [OF assms(2,1), of "lease_stands i l"] assms step_lease_stands by blast

section \<open>Grants along a history\<close>

definition grant_follows :: "grant_row \<Rightarrow> grant_row \<Rightarrow> bool" where
  "grant_follows g h \<longleftrightarrow>
     same_grant g h \<and> (\<not> unresolved (gr_state g) \<longrightarrow> gr_state h = gr_state g \<and> gr_result h = gr_result g)
     \<and> (gr_state g = ACCEPTED \<longrightarrow> gr_state h \<in> {ACCEPTED, TERMINAL})"

lemma grant_follows_refl: "grant_follows g g"
  by (simp add: grant_follows_def same_grant_def)

lemma grant_follows_trans: "grant_follows f g \<Longrightarrow> grant_follows g h \<Longrightarrow> grant_follows f h"
  by (auto simp: grant_follows_def same_grant_def unresolved_def)

lemma step_grants:
  assumes "authority_step env cred au au'" and "grant_at au i = Some g"
  shows "\<exists>h. grant_at au' i = Some h \<and> grant_follows g h"
  using assms(1)
proof cases
  case (issue j h l p)
  with assms(2) show ?thesis by (auto simp: dict_simps grant_follows_refl)
next
  case (settle j h k l p h')
  with assms(2) show ?thesis by (cases "j = i") (auto simp: dict_simps grant_follows_def same_grant_def)
qed (use assms(2) in \<open>auto simp: grant_follows_refl\<close>)

lemma steps_grants:
  assumes "authority_steps env cred au au'" and "grant_at au i = Some g"
  shows "\<exists>h. grant_at au' i = Some h \<and> grant_follows g h"
  using assms
proof (induction rule: rtranclp_induct)
  case (step a b)
  then show ?case using step_grants [OF step.hyps(2)] grant_follows_trans by metis
qed (simp add: grant_follows_refl)

lemma store_steps_grants:
  assumes "store_step\<^sup>*\<^sup>* s s'" and "authority_inv (as_tables s)" and "grant_at (as_tables s) i = Some g"
  shows "\<exists>h. grant_at (as_tables s') i = Some h \<and> grant_follows g h"
  using assms
proof (induction rule: rtranclp_induct)
  case (step a b)
  from step obtain h where h: "grant_at (as_tables a) i = Some h" "grant_follows g h" by blast
  have "authority_inv (as_tables a)" by (rule ss.steps_inv [OF step.hyps(1) step.prems(1)])
  from store_step_steps [OF step.hyps(2) this] steps_grants h(1) obtain h' where
    "grant_at (as_tables b) i = Some h'" "grant_follows h h'" by metis
  with h(2) grant_follows_trans show ?case by blast
qed (simp add: grant_follows_refl)

section \<open>Sample requests for witnesses\<close>

definition token_a :: string where "token_a = replicate 32 (CHR ''a'')"

definition token_b :: string where "token_b = replicate 32 (CHR ''b'')"

definition key_project :: string where "key_project = replicate 64 (CHR ''1'')"

definition sample_aenv :: "int \<Rightarrow> string \<Rightarrow> authority_env" where
  "sample_aenv now uuid = \<lparr>ae_now = now, ae_uuid = uuid, ae_secret = replicate 32 (CHR ''s''), ae_sha256 = (\<lambda>s. s),
     ae_b64decode = Some, ae_b64url = (\<lambda>s. s), ae_hmac = (\<lambda>k v. k), ae_digest = (\<lambda>v. case v of JObj kvs \<Rightarrow> get_str kvs ''acquire_id'' | _ \<Rightarrow> [])\<rparr>"

definition sample_meta :: "int \<Rightarrow> authority_meta" where
  "sample_meta epoch = \<lparr>am_cluster = ''c'', am_epoch = epoch, am_sealed = False, am_lease_seconds = 10\<rparr>"

definition sample_register :: request where
  "sample_register = [(''project_key'', JStr key_project), (''project_id'', JStr ''p''), (''policy_sha256'', JStr key_project)]"

definition sample_acquire :: "string \<Rightarrow> string \<Rightarrow> request" where
  "sample_acquire acq tok = [(''cluster_id'', JStr ''c''), (''project_key'', JStr key_project), (''policy_sha256'', JStr key_project),
     (''acquire_id'', JStr acq), (''owner_token'', JStr tok), (''controller_id'', JStr ''ctl'')]"

definition sample_lease_request :: request where
  "sample_lease_request = [(''project_key'', JStr key_project), (''lease_id'', JStr ''L1''), (''fence'', JInt 1), (''owner_token'', JStr token_a)]"

definition sample_registered :: authority_store where
  "sample_registered = snd (authority_rpc (sample_aenv 0 ''u0'') (sample_meta 1) ''q0'' [] ProjectRegister sample_register initial_store)"

definition sample_held :: authority_store where
  "sample_held = snd (authority_rpc (sample_aenv 0 ''L1'') (sample_meta 1) ''q1'' [] Acquire (sample_acquire ''A1'' token_a) sample_registered)"

definition sample_taken :: authority_store where
  "sample_taken = snd (authority_rpc (sample_aenv 20000000000 ''L2'') (sample_meta 1) ''q2'' [] Acquire (sample_acquire ''A2'' token_b) sample_held)"

lemma sample_uuid [simp]: "ae_uuid (sample_aenv t u) = u" "ae_now (sample_aenv t u) = t"
  by (simp_all add: sample_aenv_def)

lemma reachable_step:
  "authority_reachable s \<Longrightarrow> ae_uuid env \<noteq> [] \<Longrightarrow> authority_reachable (snd (authority_rpc env meta rpc_id sha op body s))"
  unfolding authority_reachable_def by (erule rtranclp.rtrancl_into_rtrancl) (rule store_step.intros)

lemma sample_registered_reachable: "authority_reachable sample_registered"
  unfolding sample_registered_def by (rule reachable_step) (simp_all add: authority_reachable_def)

lemma sample_held_reachable: "authority_reachable sample_held"
  unfolding sample_held_def by (rule reachable_step [OF sample_registered_reachable]) simp

lemma sample_taken_reachable: "authority_reachable sample_taken"
  unfolding sample_taken_def by (rule reachable_step [OF sample_held_reachable]) simp

lemma sample_held_lease:
  "\<exists>l. lease_at (as_tables sample_held) ''L1'' = Some l \<and> le_state l = LEASE_ACTIVE \<and> le_until l = 10000000000 \<and> le_token_sha256 l = token_a"
proof -
  have "case lease_at (as_tables sample_held) ''L1'' of None \<Rightarrow> False
     | Some l \<Rightarrow> le_state l = LEASE_ACTIVE \<and> le_until l = 10000000000 \<and> le_token_sha256 l = token_a" by code_simp
  then show ?thesis by (auto split: option.splits)
qed

lemma sample_taken_lease: "\<exists>l. lease_at (as_tables sample_taken) ''L1'' = Some l \<and> le_state l = LEASE_SUPERSEDED"
proof -
  have "case lease_at (as_tables sample_taken) ''L1'' of None \<Rightarrow> False | Some l \<Rightarrow> le_state l = LEASE_SUPERSEDED" by code_simp
  then show ?thesis by (auto split: option.splits)
qed

section \<open>Properties\<close>

text \<open>
  C16: One holder, one fence.  In every history of authority requests a project has at most one
  active lease; it is the project's current lease and carries the highest fence the project
  has handed out; no two leases of a project share a fence; and every grant carries the fence
  of a lease of its own project.
\<close>

theorem authority_single_holder:
  assumes "authority_reachable s"
  shows "(\<forall>i l. lease_at (as_tables s) i = Some l \<and> le_state l = LEASE_ACTIVE \<longrightarrow>
            (\<exists>p. project_at (as_tables s) (le_project l) = Some p \<and> pj_current p = Some i \<and> le_fence l = pj_next_fence p))
       \<and> (\<forall>i j a b. lease_at (as_tables s) i = Some a \<and> lease_at (as_tables s) j = Some b \<and> le_project a = le_project b
            \<and> (le_fence a = le_fence b \<or> le_state a = LEASE_ACTIVE \<and> le_state b = LEASE_ACTIVE) \<longrightarrow> i = j)
       \<and> (\<forall>i g. grant_at (as_tables s) i = Some g \<longrightarrow>
            (\<exists>l. lease_at (as_tables s) (gr_lease g) = Some l \<and> le_project l = gr_project g \<and> le_fence l = gr_fence g))"
proof -
  from reachable_authority_inv [OF assms] have L: "lease_inv (as_tables s)" and G: "grant_inv (as_tables s)"
    by (simp_all add: authority_inv_def)
  have "i = j" if "lease_at (as_tables s) i = Some a" "lease_at (as_tables s) j = Some b" "le_project a = le_project b"
     "le_fence a = le_fence b \<or> le_state a = LEASE_ACTIVE \<and> le_state b = LEASE_ACTIVE" for i j a b
    using active_current [OF L that(1)] active_current [OF L that(2)] lease_invD(5) [OF L that(1,2,3)] that(3,4) by auto
  with active_current [OF L] grant_invD(2) [OF G] show ?thesis by blast
qed

theorem authority_single_holder_witness:
  "\<exists>p. project_at (as_tables sample_held) key_project = Some p \<and> pj_current p = Some ''L1''"
proof -
  have "case lease_at (as_tables sample_held) ''L1'' of None \<Rightarrow> False
     | Some l \<Rightarrow> le_state l = LEASE_ACTIVE \<and> le_project l = key_project" by code_simp
  then obtain l where "lease_at (as_tables sample_held) ''L1'' = Some l" "le_state l = LEASE_ACTIVE" "le_project l = key_project"
    by (auto split: option.splits)
  with conjunct1 [OF authority_single_holder [OF sample_held_reachable]] show ?thesis by metis
qed

text \<open>
  C13: A live lease cannot be taken.  While a lease is active and unexpired, no request of any
  kind ends it, shortens it or replaces it, except one that presents the lease's own project,
  identifier, fence and token.
\<close>

theorem live_lease_not_stolen:
  assumes "authority_reachable s" and "ae_uuid env \<noteq> []"
    and "lease_at (as_tables s) i = Some l" and "le_state l = LEASE_ACTIVE" and "ae_now env < le_until l"
    and "lease_credential env body \<noteq> Inr (le_project l, i, le_fence l, le_token_sha256 l)"
  shows "lease_stands i l (as_tables (snd (authority_rpc env meta rpc_id sha op body s)))"
proof (rule steps_lease_stands)
  show "authority_inv (as_tables s)" by (rule reachable_authority_inv [OF assms(1)])
  then show "authority_steps env (cred_of env body) (as_tables s) (as_tables (snd (authority_rpc env meta rpc_id sha op body s)))"
    using assms(2) by (rule authority_rpc_steps)
  show "cred_of env body \<noteq> Some (le_project l, i, le_fence l, le_token_sha256 l)"
    using assms(6) by (auto simp: cred_of_def split: sum.splits)
qed (use assms(3-5) in \<open>auto simp: lease_stands_def\<close>)

theorem live_lease_not_stolen_witness:
  "\<exists>l. lease_at (as_tables sample_held) ''L1'' = Some l
     \<and> lease_stands ''L1'' l (as_tables (snd (authority_rpc (sample_aenv 5 ''L9'') (sample_meta 1) ''q9'' [] Acquire
         (sample_acquire ''A9'' token_b) sample_held)))"
proof -
  obtain l where l: "lease_at (as_tables sample_held) ''L1'' = Some l" "le_state l = LEASE_ACTIVE" "le_until l = 10000000000"
    using sample_held_lease by blast
  have "case lease_credential (sample_aenv 5 ''L9'') (sample_acquire ''A9'' token_b) of Inl _ \<Rightarrow> True | Inr (k, i, f, t) \<Rightarrow> i \<noteq> ''L1''"
    by code_simp
  then have "lease_credential (sample_aenv 5 ''L9'') (sample_acquire ''A9'' token_b) \<noteq> Inr (le_project l, ''L1'', le_fence l, le_token_sha256 l)"
    by (auto split: sum.splits)
  with live_lease_not_stolen [OF sample_held_reachable _ l(1,2)] l(1,3) show ?thesis by simp
qed

definition lease_operations :: "authority_operation set" where
  "lease_operations = {Heartbeat, ReleaseLease, GrantIssue, GrantImport, RecoveryComplete, RecoveryWorklist}"

lemma held_active:
  assumes "lease_inv au" and "held_lease au k i f tok = Some (l, p)"
  shows "le_state l = LEASE_ACTIVE"
  using lease_invD(3) [OF assms(1) held_leaseD(2) [OF assms(2)]] held_leaseD(1,6) [OF assms(2)]
  by (auto simp: project_ok_def)



text \<open>
  C29: Grants only move forward.  In every history a grant keeps its identity and its signed
  capability; a terminal or fenced grant never changes state or result again, and an accepted
  one stays accepted until it is terminal.  At any time a project has at most one unresolved
  grant that is not a fence barrier.
\<close>

theorem authority_grants_final:
  assumes "authority_reachable s" and "store_step\<^sup>*\<^sup>* s s'" and "grant_at (as_tables s) i = Some g"
  shows "(\<exists>h. grant_at (as_tables s') i = Some h \<and> grant_follows g h)
    \<and> (\<forall>j h h'. grant_at (as_tables s') i = Some h \<and> grant_at (as_tables s') j = Some h' \<and> gr_project h = gr_project h'
         \<and> gr_operation h \<noteq> FENCE_BARRIER \<and> gr_operation h' \<noteq> FENCE_BARRIER
         \<and> unresolved (gr_state h) \<and> unresolved (gr_state h') \<longrightarrow> i = j)"
proof -
  note inv = reachable_authority_inv [OF assms(1)]
  have "grant_inv (as_tables s')" using ss.steps_inv [OF assms(2) inv] by (simp add: authority_inv_def)
  from grant_invD(3) [OF this] store_steps_grants [OF assms(2) inv assms(3)] show ?thesis by blast
qed

definition sample_key_request :: request where
  "sample_key_request = [(''target_device_id'', JStr ''t1'')]"

definition sample_receipt :: request where
  "sample_receipt = [(''receipt'', JObj [(''sig_alg'', JStr ''hmac-sha256''), (''sig'', JStr (replicate 32 (CHR ''s''))),
     (''body'', JObj [(''kind'', JStr ''key-enrollment''), (''v'', JInt 1), (''target_device_id'', JStr ''t1''), (''authority_epoch'', JInt 1),
        (''key_id'', JStr ''k1''), (''key_sha256'', JStr (replicate 32 (CHR ''s''))), (''cluster_id'', JStr ''c'')])])]"

definition sample_issue :: request where
  "sample_issue = sample_lease_request @ [(''grant_request_id'', JStr ''g1''), (''target_device_id'', JStr ''t1''),
     (''grant_operation'', JStr ''execute''), (''operation_id'', JStr ''op1''), (''request_sha256'', JStr key_project)]"

definition sample_enrolled :: authority_store where
  "sample_enrolled = snd (authority_rpc (sample_aenv 1 ''u3'') (sample_meta 1) ''q4'' [] TargetKeyFinalize sample_receipt
     (snd (authority_rpc (sample_aenv 1 ''k1'') (sample_meta 1) ''q3'' [] TargetKeyCreate sample_key_request sample_held)))"

definition sample_granted :: authority_store where
  "sample_granted = snd (authority_rpc (sample_aenv 2 ''G1'') (sample_meta 1) ''q5'' [] GrantIssue sample_issue sample_enrolled)"

lemma sample_granted_reachable: "authority_reachable sample_granted"
  unfolding sample_granted_def sample_enrolled_def
  by (rule reachable_step, rule reachable_step, rule reachable_step [OF sample_held_reachable]) simp_all

theorem authority_grants_final_witness:
  "\<exists>g h. grant_at (as_tables sample_granted) ''G1'' = Some g
     \<and> grant_at (as_tables (snd (authority_rpc (sample_aenv 20000000000 ''L2'') (sample_meta 1) ''q6'' [] Acquire
          (sample_acquire ''A2'' token_b) sample_granted))) ''G1'' = Some h \<and> grant_follows g h"
proof -
  have "case grant_at (as_tables sample_granted) ''G1'' of None \<Rightarrow> False | Some g \<Rightarrow> gr_state g = ISSUED" by code_simp
  then obtain g where g: "grant_at (as_tables sample_granted) ''G1'' = Some g" by (auto split: option.splits)
  have "store_step sample_granted (snd (authority_rpc (sample_aenv 20000000000 ''L2'') (sample_meta 1) ''q6'' [] Acquire
          (sample_acquire ''A2'' token_b) sample_granted))" by (rule store_step.intros) simp
  from authority_grants_final [OF sample_granted_reachable r_into_rtranclp [of store_step, OF this] g] g show ?thesis by blast
qed

definition rotate_request :: "int \<Rightarrow> request" where
  "rotate_request epoch = [(''expected_authority_epoch'', JInt epoch)]"

definition rotated_twice :: authority_store where
  "rotated_twice = snd (authority_rpc (sample_aenv 1 ''u'') (sample_meta 2) ''r2'' [] EpochRotate (rotate_request 2)
     (snd (authority_rpc (sample_aenv 0 ''u'') (sample_meta 1) ''r1'' [] EpochRotate (rotate_request 1) initial_store)))"

text \<open>
  The authority epoch can go back.  The metadata row is read before the transaction that
  rotates the epoch, so a rotation request that was opened in epoch 1 and runs after two other
  rotations puts the epoch back from 3 to 2.
\<close>

theorem epoch_rotation_regresses:
  "au_epoch (as_tables rotated_twice) = 3
   \<and> au_epoch (as_tables (snd (authority_rpc (sample_aenv 2 ''u'') (sample_meta 1) ''r3'' [] EpochRotate (rotate_request 1) rotated_twice))) = 2"
  by code_simp

end
