(* ===== verification/GrantSafety.thy ===== *)
theory GrantSafety
  imports TargetGrants AuthoritySafety
begin

text \<open>
  Properties of the grant protocol across the authority and a target: the fence a target has
  reached never goes back, a barrier shuts out every lower fence for good, so that the grants
  the authority marks \<open>FENCED\<close> on a barrier receipt can never run, and a capability the
  authority signs verifies on the enrolled target.
\<close>

section \<open>Histories of a target\<close>

inductive grant_step :: "target_store \<Rightarrow> target_store \<Rightarrow> bool" where
  accept: "accept_capability env v ts = Inr (resp, ts') \<Longrightarrow> grant_step ts ts'"
| status: "grant_status_receipt env v ts = Inr (resp, ts') \<Longrightarrow> grant_step ts ts'"
| enroll: "record_enrollment env cluster target epoch key_id digest secret ts = Inr (again, ts') \<Longrightarrow> grant_step ts ts'"
| key_file: "grant_step ts (ts\<lparr>ts_keys := K\<rparr>)"

text \<open>The order of fences: by epoch, then by fence.\<close>

definition fence_le :: "int \<times> int \<Rightarrow> int \<times> int \<Rightarrow> bool" where
  "fence_le a b \<longleftrightarrow> fst a < fst b \<or> fst a = fst b \<and> snd a \<le> snd b"

lemma fence_le_refl: "fence_le a a"
  by (simp add: fence_le_def)

lemma fence_le_trans: "fence_le a b \<Longrightarrow> fence_le b c \<Longrightarrow> fence_le a c"
  by (auto simp: fence_le_def)

lemma accept_cases:
  assumes "accept_capability env v ts = Inr (resp, ts')"
  obtains "ts' = ts"
  | i c where "dict_get (ts_accepted ts) i = None" "fenced_reason ts c = None" "accept_new i c ts = Inr (resp, ts')"
proof -
  from assms obtain i c where run: "accept_fields i c ts = Inr (resp, ts')"
    unfolding accept_capability_def by (auto split: sum.splits option.splits)
  show thesis
  proof (cases "dict_get (ts_accepted ts) i")
    case (Some g)
    with run that(1) show ?thesis by (auto simp: accept_fields_def split: if_splits)
  next
    case None
    show ?thesis
    proof (cases "fenced_reason ts c")
      case (Some r)
      with run None that(1) show ?thesis by (simp add: accept_fields_def)
    next
      case free: None
      with run None that show ?thesis unfolding accept_fields_def by (auto simp: Let_def split: if_splits)
    qed
  qed
qed

lemma accept_new_effect:
  assumes "accept_new i c ts = Inr (resp, ts')"
  obtains row where "ts_fences ts' = dict_set (cf_cluster c, cf_project c) (cf_epoch c, max (reached_fence ts c) (cf_fence c)) (ts_fences ts)"
    "ts_accepted ts' = dict_set i row (ts_accepted ts)" "same_fields row c" "ag_state row \<in> {ACCEPTED, TERMINAL}"
  using assms by (auto simp: accept_new_def Let_def same_fields_def split: if_splits)

lemma grant_step_cases:
  assumes "grant_step ts ts'"
  obtains "ts_fences ts' = ts_fences ts" "ts_accepted ts' = ts_accepted ts"
  | i c row where "dict_get (ts_accepted ts) i = None" "fenced_reason ts c = None"
      "ts_fences ts' = dict_set (cf_cluster c, cf_project c) (cf_epoch c, max (reached_fence ts c) (cf_fence c)) (ts_fences ts)"
      "ts_accepted ts' = dict_set i row (ts_accepted ts)" "same_fields row c" "ag_state row \<in> {ACCEPTED, TERMINAL}"
  using assms
proof cases
  case (accept env v resp)
  then show ?thesis by (cases rule: accept_cases) (auto elim!: accept_new_effect intro: that)
next
  case (status env v resp)
  then have "ts' = ts" by (auto simp: grant_status_receipt_def Let_def split: sum.splits option.splits if_splits)
  with that(1) show ?thesis by simp
next
  case (enroll env cluster target epoch key_id digest secret again)
  then have "ts_fences ts' = ts_fences ts" "ts_accepted ts' = ts_accepted ts"
    by (auto simp: record_enrollment_def split: option.splits if_splits)
  with that(1) show ?thesis by simp
next
  case (key_file K)
  with that(1) show ?thesis by simp
qed

text \<open>What a step keeps: fences only grow, accepted grants stay, new ones are not below the fence.\<close>

lemma fenced_reason_None:
  assumes "fenced_reason ts c = None" and "dict_get (ts_fences ts) (cf_cluster c, cf_project c) = Some ef"
  shows "fence_le ef (cf_epoch c, cf_fence c)"
    and "reached_fence ts c = (if cf_epoch c = fst ef then snd ef else - 1)"
  using assms by (auto simp: fenced_reason_def reached_fence_def fence_le_def split: if_splits prod.splits)

lemma grant_step_fences:
  assumes "grant_step ts ts'" and "dict_get (ts_fences ts) key = Some ef"
  shows "\<exists>ef'. dict_get (ts_fences ts') key = Some ef' \<and> fence_le ef ef'"
  using assms(1)
proof (cases rule: grant_step_cases)
  case 1
  with assms(2) fence_le_refl show ?thesis by auto
next
  case (2 i c row)
  show ?thesis
  proof (cases "key = (cf_cluster c, cf_project c)")
    case True
    with fenced_reason_None [OF 2(2)] assms(2) have "fence_le ef (cf_epoch c, max (reached_fence ts c) (cf_fence c))"
      by (auto simp: fence_le_def)
    with True 2(3) show ?thesis by (simp add: dict_simps)
  next
    case False
    with 2(3) assms(2) fence_le_refl show ?thesis by (auto simp: dict_simps)
  qed
qed

lemma grant_step_accepted:
  assumes "grant_step ts ts'" and "dict_get (ts_accepted ts) i = Some g"
  shows "dict_get (ts_accepted ts') i = Some g"
  using assms(1) by (cases rule: grant_step_cases) (use assms(2) in \<open>auto simp: dict_simps\<close>)

lemma grant_step_new:
  assumes "grant_step ts ts'" and "dict_get (ts_accepted ts) i = None" and "dict_get (ts_accepted ts') i = Some g"
    and "dict_get (ts_fences ts) (ag_cluster g, ag_project g) = Some ef"
  shows "fence_le ef (ag_epoch g, ag_fence g)"
  using assms(1)
proof (cases rule: grant_step_cases)
  case (2 j c row)
  with assms(2,3) have "g = row" by (auto simp: dict_simps split: if_splits)
  with 2(5) fenced_reason_None(1) [OF 2(2)] assms(4) show ?thesis by (auto simp: same_fields_def)
qed (use assms in simp)

definition target_ok :: "target_store \<Rightarrow> bool" where
  "target_ok ts \<longleftrightarrow> dict_ok (ts_accepted ts) \<and> (\<forall>i g. dict_get (ts_accepted ts) i = Some g \<longrightarrow> ag_state g \<in> {ACCEPTED, TERMINAL})"

lemma grant_step_ok: "target_ok ts \<Longrightarrow> grant_step ts ts' \<Longrightarrow> target_ok ts'"
  by (erule grant_step_cases) (auto simp: target_ok_def dict_simps dict_ok_set split: if_splits)

interpretation gs: invariant_machine grant_step target_ok
  by unfold_locales (rule grant_step_ok)

text \<open>Once the fence of a project has reached \<open>ef\<close>, no new grant below it is ever accepted.\<close>

lemma fence_shuts_out:
  assumes "grant_step\<^sup>*\<^sup>* ts ts'" and "dict_get (ts_fences ts) (cl, pr) = Some ef"
    and "dict_get (ts_accepted ts') i = Some g" and "ag_cluster g = cl" "ag_project g = pr" and "\<not> fence_le ef (ag_epoch g, ag_fence g)"
  shows "dict_get (ts_accepted ts) i = Some g"
proof -
  have "(\<exists>ef'. dict_get (ts_fences ts') (cl, pr) = Some ef' \<and> fence_le ef ef')
      \<and> (\<forall>i g. dict_get (ts_accepted ts') i = Some g \<and> ag_cluster g = cl \<and> ag_project g = pr \<and> \<not> fence_le ef (ag_epoch g, ag_fence g)
           \<longrightarrow> dict_get (ts_accepted ts) i = Some g)"
    using assms(1)
  proof (induction rule: rtranclp_induct)
    case base
    with assms(2) fence_le_refl show ?case by auto
  next
    case (step a b)
    from step.IH obtain ef1 where e1: "dict_get (ts_fences a) (cl, pr) = Some ef1" "fence_le ef ef1" by blast
    from grant_step_fences [OF step.hyps(2) e1(1)] e1(2) fence_le_trans
    have "\<exists>ef'. dict_get (ts_fences b) (cl, pr) = Some ef' \<and> fence_le ef ef'" by blast
    moreover have "dict_get (ts_accepted a) j = Some h" if h: "dict_get (ts_accepted b) j = Some h" "ag_cluster h = cl" "ag_project h = pr"
        "\<not> fence_le ef (ag_epoch h, ag_fence h)" for j h
    proof (cases "dict_get (ts_accepted a) j")
      case None
      with grant_step_new [OF step.hyps(2) None h(1)] e1 h fence_le_trans show ?thesis by blast
    next
      case (Some h')
      with grant_step_accepted [OF step.hyps(2) Some] h(1) show ?thesis by simp
    qed
    ultimately show ?case using step.IH by blast
  qed
  with assms show ?thesis by blast
qed

section \<open>Barrier receipts\<close>

lemma settle_grants_effect:
  assumes "settle_grants now observed gs au = Inr au'" and "distinct (map fst gs)"
  shows "(\<forall>i g. (i, g) \<in> set gs \<longrightarrow> (\<exists>g'. barrier_row now observed i g = Inr g' \<and> grant_at au' i = Some g'))
    \<and> (\<forall>j. j \<notin> fst ` set gs \<longrightarrow> grant_at au' j = grant_at au j)"
  using assms
proof (induction now observed gs au rule: settle_grants.induct)
  case (2 now observed i g gs au)
  from "2.prems"(1) obtain g' where g': "barrier_row now observed i g = Inr g'"
    and rest: "settle_grants now observed gs (set_grant i g' au) = Inr au'" by (auto split: sum.splits)
  from "2.prems"(2) have i: "i \<notin> fst ` set gs" and d: "distinct (map fst gs)" by auto
  from "2.IH" [OF g' rest d] i have "grant_at au' i = Some g'" by (simp add: dict_simps)
  with "2.IH" [OF g' rest d] g' show ?case by (auto simp: dict_simps)
qed simp

lemma observations_keys:
  assumes "observations au k e f t items seen = Inr observed"
  shows "set (dict_keys observed) = set (dict_keys seen) \<union> {get_str item ''grant_id'' | item. JObj item \<in> set items}"
  using assms
proof (induction au k e f t items seen rule: observations.induct)
  case (2 au k e f t v vs seen)
  then obtain item where item: "v = JObj item"
    by (cases v) (auto simp: json_obj_def)
  from "2.prems" item obtain n where n: "get_int item ''fence'' (- 1) = Some n" "observation_error au k e f t item n = None"
      "\<not> (get_str item ''grant_id'' = [] \<or> get_str item ''grant_id'' \<in> set (dict_keys seen))"
      and rest: "observations au k e f t vs (dict_set (get_str item ''grant_id'') item seen) = Inr observed"
    by (auto simp: json_obj_def split: if_splits option.splits)
  have "set (dict_keys observed) = set (dict_keys (dict_set (get_str item ''grant_id'') item seen))
      \<union> {get_str item ''grant_id'' | item. JObj item \<in> set vs}"
    by (rule "2.IH" [of item]) (use n rest item in \<open>auto simp: json_obj_def\<close>)
  then show ?case using item by (auto simp: dom_update)
qed simp

text \<open>A grant becomes \<open>FENCED\<close> only when it is below the barrier and the target did not report it.\<close>

lemma fenced_by_barrier:
  assumes ok: "dict_ok (au_grants au)" and run: "reconcile_barrier now k e f t (Some (JObj [(''lower_fence_operations'', JList items)])) au = Inr au'"
    and g: "grant_at au j = Some g" "gr_state g \<noteq> FENCED" and h: "grant_at au' j = Some h" "gr_state h = FENCED"
  shows "gr_project g = k" "gr_epoch g = e" "gr_fence g < f"
    "j \<notin> {get_str item ''grant_id'' | item. JObj item \<in> set items}"
proof -
  let ?gs = "below_barrier au k e t f"
  from run obtain observed where o: "observations au k e f t items [] = Inr observed"
    and s: "settle_grants now observed ?gs au = Inr au'"
    unfolding reconcile_barrier_def by (auto simp: json_obj_def split: sum.splits)
  have d: "distinct (map fst ?gs)" using ok unfolding below_barrier_def by (rule dict_ok_filter)
  note eff = settle_grants_effect [OF s d]
  have "j \<in> fst ` set ?gs"
  proof (rule ccontr)
    assume "j \<notin> fst ` set ?gs"
    with eff g h show False by auto
  qed
  then obtain g0 where g0: "(j, g0) \<in> set ?gs" by auto
  then have "(j, g0) \<in> set (au_grants au)" by (auto simp: below_barrier_def)
  with ok g(1) have "g0 = g" by simp
  with g0 have gb: "(j, g) \<in> set ?gs" by simp
  with eff obtain h' where "barrier_row now observed j g = Inr h'" "grant_at au' j = Some h'" by blast
  with h(1) have row: "barrier_row now observed j g = Inr h" by simp
  from gb show "gr_project g = k" "gr_epoch g = e" "gr_fence g < f" by (auto simp: below_barrier_def)
  from row h(2) have "dict_get observed j = None" by (auto simp: barrier_row_def split: option.splits if_splits)
  then have "j \<notin> set (dict_keys observed)" unfolding dict_get_None_iff .
  with observations_keys [OF o] show "j \<notin> {get_str item ''grant_id'' | item. JObj item \<in> set items}" by simp
qed

text \<open>What an accepted barrier records.\<close>

lemma accepted_barrier:
  assumes "accept_fields b c ts = Inr (resp, ts1)" and "dict_get (ts_accepted ts) b = None"
    and "cf_operation c = FENCE_BARRIER" and "dict_get (ts_accepted ts1) b = Some row"
  shows "ag_result row = Some (JObj [(''lower_fence_operations'', JList (map accepted_observation (lower_grants ts c)))])"
    "ag_fence row = cf_fence c" "ts_accepted ts1 = dict_set b row (ts_accepted ts)"
    "\<exists>f. dict_get (ts_fences ts1) (cf_cluster c, cf_project c) = Some (cf_epoch c, f) \<and> cf_fence c \<le> f"
  using assms
  by (auto simp: accept_fields_def accept_new_def Let_def dict_simps split: option.splits if_splits)

lemma observation_id: "accepted_observation (i, g) = JObj item \<Longrightarrow> get_str item ''grant_id'' = i"
  by (auto simp: accepted_observation_def get_str_def)

text \<open>
  C4: Fenced grants can never run.  When a target accepts a fence barrier and the authority
  imports the result the target recorded for it, every grant the authority thereby marks
  \<open>FENCED\<close> is one that the target has not accepted and will never accept, whatever
  capabilities it is offered afterwards.
\<close>

theorem fenced_grants_never_run:
  assumes target: "target_ok ts" and accept: "accept_fields b c ts = Inr (resp, ts1)"
    and new: "dict_get (ts_accepted ts) b = None" and barrier: "cf_operation c = FENCE_BARRIER"
    and row: "dict_get (ts_accepted ts1) b = Some row"
    and inv: "authority_inv au"
    and import': "reconcile_barrier now (cf_project c) (cf_epoch c) (cf_fence c) t (ag_result row) au = Inr au'"
    and g: "grant_at au j = Some g" "unresolved (gr_state g)" and h: "grant_at au' j = Some h" "gr_state h = FENCED"
    and later: "grant_step\<^sup>*\<^sup>* ts1 ts2"
  shows "\<not> (\<exists>a. dict_get (ts_accepted ts2) j = Some a \<and> ag_cluster a = cf_cluster c \<and> ag_project a = gr_project g
              \<and> ag_epoch a = gr_epoch g \<and> ag_fence a = gr_fence g)"
proof
  note B = accepted_barrier [OF accept new barrier row]
  assume "\<exists>a. dict_get (ts_accepted ts2) j = Some a \<and> ag_cluster a = cf_cluster c \<and> ag_project a = gr_project g
              \<and> ag_epoch a = gr_epoch g \<and> ag_fence a = gr_fence g"
  then obtain a where a: "dict_get (ts_accepted ts2) j = Some a" "ag_cluster a = cf_cluster c" "ag_project a = gr_project g"
    "ag_epoch a = gr_epoch g" "ag_fence a = gr_fence g" by blast
  have G: "dict_ok (au_grants au)" using inv by (simp add: authority_inv_def grant_inv_def)
  have nf: "gr_state g \<noteq> FENCED" using g(2) by (auto simp: unresolved_def)
  note F = fenced_by_barrier [OF G import' [unfolded B(1)] g(1) nf h]
  from B(4) obtain f where f: "dict_get (ts_fences ts1) (cf_cluster c, cf_project c) = Some (cf_epoch c, f)" "cf_fence c \<le> f" by blast
  have "dict_get (ts_accepted ts1) j = Some a"
    by (rule fence_shuts_out [OF later f(1) a(1)]) (use a F f(2) in \<open>auto simp: fence_le_def\<close>)
  moreover have "j \<noteq> b" using calculation row B(2) a(5) F(3) by auto
  ultimately have old: "dict_get (ts_accepted ts) j = Some a" unfolding B(3) by (simp add: dict_simps)
  with target have "ag_state a \<in> {ACCEPTED, TERMINAL}" unfolding target_ok_def by blast
  then have "ag_state a \<noteq> FENCED" by auto
  with old a F have "(j, a) \<in> set (lower_grants ts c)" by (auto simp: lower_grants_def dest: map_of_SomeD)
  then have mem: "accepted_observation (j, a) \<in> set (map accepted_observation (lower_grants ts c))" by force
  obtain item where item: "accepted_observation (j, a) = JObj item" by (simp add: accepted_observation_def)
  with mem observation_id [OF item] F(4) show False by auto
qed

definition sample_target :: target_store where
  "sample_target = \<lparr>ts_device = ''t1'', ts_enrolled = [((''c'', 1), \<lparr>er_key_id = ''k1'', er_key_sha256 = replicate 32 (CHR ''s''), er_enrolled = True\<rparr>)],
     ts_keys = [((''c'', 1, ''k1''), replicate 32 (CHR ''s''))], ts_fences = [], ts_accepted = []\<rparr>"

definition sample_barrier :: cap_fields where
  "sample_barrier = \<lparr>cf_cluster = ''c'', cf_project = key_project, cf_epoch = 1, cf_fence = 2, cf_operation = ''fence_barrier'',
     cf_operation_id = ''op2'', cf_request_sha256 = key_project\<rparr>"

theorem fenced_grants_never_run_witness:
  "\<exists>resp ts1 row au' h. accept_fields ''B'' sample_barrier sample_target = Inr (resp, ts1) \<and> dict_get (ts_accepted ts1) ''B'' = Some row
     \<and> reconcile_barrier 5 key_project 1 2 ''t1'' (ag_result row) (as_tables sample_granted) = Inr au'
     \<and> grant_at au' ''G1'' = Some h \<and> gr_state h = FENCED
     \<and> (\<forall>ts2. grant_step\<^sup>*\<^sup>* ts1 ts2 \<longrightarrow> \<not> (\<exists>a. dict_get (ts_accepted ts2) ''G1'' = Some a \<and> ag_cluster a = ''c''
          \<and> ag_project a = key_project \<and> ag_epoch a = 1 \<and> ag_fence a = 1))"
proof -
  have "case accept_fields ''B'' sample_barrier sample_target of Inl _ \<Rightarrow> False | Inr z \<Rightarrow>
      (case dict_get (ts_accepted (snd z)) ''B'' of None \<Rightarrow> False | Some row \<Rightarrow>
         (case reconcile_barrier 5 key_project 1 2 ''t1'' (ag_result row) (as_tables sample_granted) of Inl _ \<Rightarrow> False
          | Inr au' \<Rightarrow> (case grant_at au' ''G1'' of None \<Rightarrow> False | Some h \<Rightarrow> gr_state h = FENCED)))" by code_simp
  then obtain z row au' h where r0: "accept_fields ''B'' sample_barrier sample_target = Inr z"
    "dict_get (ts_accepted (snd z)) ''B'' = Some row"
    "reconcile_barrier 5 key_project 1 2 ''t1'' (ag_result row) (as_tables sample_granted) = Inr au'"
    "grant_at au' ''G1'' = Some h" "gr_state h = FENCED" unfolding outcome_iff by blast
  obtain resp ts1 where z: "z = (resp, ts1)" by (cases z)
  from r0 z have r: "accept_fields ''B'' sample_barrier sample_target = Inr (resp, ts1)"
    "dict_get (ts_accepted ts1) ''B'' = Some row"
    "reconcile_barrier 5 key_project 1 2 ''t1'' (ag_result row) (as_tables sample_granted) = Inr au'"
    "grant_at au' ''G1'' = Some h" "gr_state h = FENCED" by simp_all
  have "case grant_at (as_tables sample_granted) ''G1'' of None \<Rightarrow> False
     | Some g \<Rightarrow> gr_state g = ISSUED \<and> gr_project g = key_project \<and> gr_epoch g = 1 \<and> gr_fence g = 1" by code_simp
  then obtain g where g: "grant_at (as_tables sample_granted) ''G1'' = Some g" "gr_state g = ISSUED" "gr_project g = key_project"
    "gr_epoch g = 1" "gr_fence g = 1" by (auto split: option.splits)
  have "\<not> (\<exists>a. dict_get (ts_accepted ts2) ''G1'' = Some a \<and> ag_cluster a = cf_cluster sample_barrier \<and> ag_project a = gr_project g
              \<and> ag_epoch a = gr_epoch g \<and> ag_fence a = gr_fence g)" if "grant_step\<^sup>*\<^sup>* ts1 ts2" for ts2
    by (rule fenced_grants_never_run [OF _ r(1) _ _ r(2) reachable_authority_inv [OF sample_granted_reachable] _ g(1) _ r(4,5) that])
      (use r(3) g in \<open>auto simp: target_ok_def sample_target_def sample_barrier_def FENCE_BARRIER_def unresolved_def\<close>)
  with r g show ?thesis by (auto simp: sample_barrier_def)
qed

section \<open>Capabilities verify\<close>

text \<open>
  C40: What the authority signs, the enrolled target accepts as genuine.  When the authority
  signs a grant for a target, and the target has enrolled the same key for the cluster and the
  epoch, then verifying the capability of the recorded grant succeeds on the target and yields
  exactly the signed fields, provided base64url decoding inverts encoding.
\<close>

theorem signed_capability_verifies:
  assumes sign: "sign_grant env meta r au = Inr (resp, au')" and key: "dict_get (au_targets au) (ir_target r, am_epoch meta) = Some tr"
    and secret: "dict_get (au_keys au) (ir_target r, am_epoch meta, tr_key_id tr) = Some secret"
    and b64: "\<And>x. ae_b64decode env (ae_b64url env x) = Some x"
    and dev: "ts_device ts = ir_target r"
    and enr: "dict_get (ts_enrolled ts) (am_cluster meta, am_epoch meta) = Some er" "er_enrolled er" "er_key_id er = tr_key_id tr"
    and own: "dict_get (ts_keys ts) (am_cluster meta, am_epoch meta, tr_key_id tr) = Some secret" "ae_sha256 env secret = er_key_sha256 er"
  shows "\<exists>g. grant_at au' (ae_uuid env) = Some g
      \<and> verify_capability env (Some (gr_capability g)) ts = Inr (capability_body env meta r, tr_key_id tr, secret)
      \<and> cap_fields_of (capability_body env meta r) = Some \<lparr>cf_cluster = am_cluster meta, cf_project = gr_project g, cf_epoch = gr_epoch g,
           cf_fence = gr_fence g, cf_operation = gr_operation g, cf_operation_id = gr_operation_id g, cf_request_sha256 = gr_request_sha256 g\<rparr>"
proof -
  let ?body = "capability_body env meta r"
  let ?cap = "JObj (signed_envelope env secret (tr_key_id tr) ?body)"
  from sign have g: "grant_at au' (ae_uuid env) = Some (new_grant env meta r ?cap)"
    and path: "secret_path_ok (am_cluster meta) (ir_target r) (am_epoch meta) (tr_key_id tr)"
    by (auto simp: sign_grant_def Let_def key secret dict_simps split: if_splits)
  have get: "get_int ?body ''v'' 0 = Some 1" "get_int ?body ''authority_epoch'' 0 = Some (am_epoch meta)"
    "get_int ?body ''fence'' (- 1) = Some (ir_fence r)" "get_str ?body ''target_device_id'' = ir_target r"
    "get_str ?body ''cluster_id'' = am_cluster meta" "get_str ?body ''project_key'' = ir_project r"
    "get_str ?body ''operation'' = ir_operation r" "get_str ?body ''operation_id'' = ir_operation_id r"
    "get_str ?body ''request_sha256'' = ir_request_sha256 r"
    by (simp_all add: capability_body_def get_int_def get_str_def py_int_def)
  have env: "eq_str (dict_get (signed_envelope env secret (tr_key_id tr) ?body) ''sig_alg'') ''hmac-sha256''"
    "json_obj (dict_get (signed_envelope env secret (tr_key_id tr) ?body) ''body'') = Some ?body"
    "get_str (signed_envelope env secret (tr_key_id tr) ?body) ''key_id'' = tr_key_id tr"
    "signature_error env secret ?body (signed_envelope env secret (tr_key_id tr) ?body) msg = None" for msg
    by (simp_all add: signed_envelope_def eq_str_def json_obj_def get_str_def signature_error_def b64)
  have "verify_capability env (Some ?cap) ts = Inr (?body, tr_key_id tr, secret)"
    using path unfolding verify_capability_def
    by (simp add: json_obj_def [of "Some ?cap"] env get dev enr own)
  with g get show ?thesis by (simp add: new_grant_def cap_fields_of_def)
qed

definition sample_grant_request :: issue_request where
  "sample_grant_request = \<lparr>ir_project = key_project, ir_lease = ''L1'', ir_fence = 1, ir_token = token_a, ir_request_id = ''g1'',
     ir_target = ''t1'', ir_operation = ''execute'', ir_operation_id = ''op1'', ir_request_sha256 = key_project\<rparr>"

theorem signed_capability_verifies_witness:
  "\<exists>g :: grant_row. verify_capability (sample_aenv 2 ''G1'') (Some (gr_capability g)) sample_target
     = Inr (capability_body (sample_aenv 2 ''G1'') (sample_meta 1) sample_grant_request, ''k1'', replicate 32 (CHR ''s''))"
proof -
  let ?au = "as_tables sample_enrolled"
  have "case sign_grant (sample_aenv 2 ''G1'') (sample_meta 1) sample_grant_request ?au of Inl _ \<Rightarrow> False | Inr z \<Rightarrow> True"
    by code_simp
  then obtain resp au' where s: "sign_grant (sample_aenv 2 ''G1'') (sample_meta 1) sample_grant_request ?au = Inr (resp, au')"
    by (auto simp: outcome_iff)
  have "case dict_get (au_targets ?au) (''t1'', 1) of None \<Rightarrow> False | Some tr \<Rightarrow> tr_key_id tr = ''k1''" by code_simp
  then obtain tr where tr: "dict_get (au_targets ?au) (''t1'', 1) = Some tr" "tr_key_id tr = ''k1''" unfolding outcome_iff by blast
  have k: "dict_get (au_keys ?au) (''t1'', 1, ''k1'') = Some (replicate 32 (CHR ''s''))" by code_simp
  have "\<exists>g. grant_at au' (ae_uuid (sample_aenv 2 ''G1'')) = Some g
      \<and> verify_capability (sample_aenv 2 ''G1'') (Some (gr_capability g)) sample_target
          = Inr (capability_body (sample_aenv 2 ''G1'') (sample_meta 1) sample_grant_request, tr_key_id tr, replicate 32 (CHR ''s''))
      \<and> cap_fields_of (capability_body (sample_aenv 2 ''G1'') (sample_meta 1) sample_grant_request)
          = Some \<lparr>cf_cluster = am_cluster (sample_meta 1), cf_project = gr_project g, cf_epoch = gr_epoch g,
           cf_fence = gr_fence g, cf_operation = gr_operation g, cf_operation_id = gr_operation_id g, cf_request_sha256 = gr_request_sha256 g\<rparr>"
    by (rule signed_capability_verifies [OF s, where er = "\<lparr>er_key_id = ''k1'', er_key_sha256 = replicate 32 (CHR ''s''), er_enrolled = True\<rparr>"])
      (use tr k in \<open>simp_all add: sample_grant_request_def sample_meta_def sample_target_def sample_aenv_def\<close>)
  with tr(2) show ?thesis by auto
qed

end
