(* ===== verification/Sql.thy ===== *)
theory Sql
  imports Prelude
begin

text \<open>
  The fragment of SQL that the controller's queue uses.  A table is a dictionary from its
  primary key to its rows.  A condition over columns that may be NULL has three truth values:
  \<^term>\<open>None\<close> is \<open>NULL\<close>, and only \<^term>\<open>Some True\<close> selects a row.
\<close>

section \<open>Conditions\<close>

type_synonym sql_bool = "bool option"

definition sql_and :: "sql_bool \<Rightarrow> sql_bool \<Rightarrow> sql_bool" where
  "sql_and a b = (if a = Some False \<or> b = Some False then Some False
                  else if a = None \<or> b = None then None else Some True)"

definition sql_or :: "sql_bool \<Rightarrow> sql_bool \<Rightarrow> sql_bool" where
  "sql_or a b = (if a = Some True \<or> b = Some True then Some True
                 else if a = None \<or> b = None then None else Some False)"

definition sql_not :: "sql_bool \<Rightarrow> sql_bool" where
  "sql_not = map_option Not"

definition sql_eq :: "'a option \<Rightarrow> 'a option \<Rightarrow> sql_bool" where
  "sql_eq a b = (case (a, b) of (Some x, Some y) \<Rightarrow> Some (x = y) | _ \<Rightarrow> None)"

definition not_null :: "'a option \<Rightarrow> sql_bool" where
  "not_null a = Some (a \<noteq> None)"

definition is_true :: "sql_bool \<Rightarrow> bool" where
  "is_true a \<longleftrightarrow> a = Some True"

definition coalesce :: "'a option \<Rightarrow> 'a option \<Rightarrow> 'a option" where
  "coalesce a b = (case a of Some x \<Rightarrow> Some x | None \<Rightarrow> b)"

lemma is_true_simps [simp]:
  "is_true (sql_and a b) \<longleftrightarrow> is_true a \<and> is_true b"
  "is_true (sql_or a b) \<longleftrightarrow> is_true a \<or> is_true b"
  "is_true (not_null v) \<longleftrightarrow> v \<noteq> None"
  "is_true (Some c) \<longleftrightarrow> c"
  "\<not> is_true None"
  by (auto simp: is_true_def sql_and_def sql_or_def not_null_def)

text \<open>NOT of an unknown condition is unknown: a row can be selected by neither of the two.\<close>

lemma is_true_not: "is_true (sql_not a) \<longleftrightarrow> a = Some False"
  by (auto simp: is_true_def sql_not_def)

lemma is_true_not_disj: "is_true (sql_not a) \<Longrightarrow> \<not> is_true a"
  by (auto simp: is_true_def sql_not_def)

lemma coalesce_simps [simp]:
  "coalesce None b = b" "coalesce (Some x) b = Some x" "coalesce a None = a"
  "coalesce a b = None \<longleftrightarrow> a = None \<and> b = None"
  by (auto simp: coalesce_def split: option.splits)

section \<open>Statements\<close>

definition update_where :: "('k \<Rightarrow> 'r \<Rightarrow> bool) \<Rightarrow> ('k \<Rightarrow> 'r \<Rightarrow> 'r) \<Rightarrow> ('k, 'r) dict \<Rightarrow> ('k, 'r) dict" where
  "update_where P f t = map (\<lambda>(k, r). (k, if P k r then f k r else r)) t"

definition delete_where :: "('k \<Rightarrow> 'r \<Rightarrow> bool) \<Rightarrow> ('k, 'r) dict \<Rightarrow> ('k, 'r) dict" where
  "delete_where P t = filter (\<lambda>(k, r). \<not> P k r) t"

definition select_where :: "('k \<Rightarrow> 'r \<Rightarrow> bool) \<Rightarrow> ('k, 'r) dict \<Rightarrow> ('k, 'r) dict" where
  "select_where P t = filter (\<lambda>(k, r). P k r) t"

lemma dict_get_update_where [dict_simps]:
  "dict_get (update_where P f t) k = map_option (\<lambda>r. if P k r then f k r else r) (dict_get t k)"
  unfolding update_where_def by (rule dict_get_map)

lemma keys_update_where [simp]: "dict_keys (update_where P f t) = dict_keys t"
  by (simp add: update_where_def case_prod_beta comp_def)

lemma dict_get_delete_where [dict_simps]:
  assumes "dict_ok t"
  shows "dict_get (delete_where P t) k =
    (case dict_get t k of None \<Rightarrow> None | Some r \<Rightarrow> if P k r then None else Some r)"
  unfolding delete_where_def dict_get_filter [OF assms] by (simp split: option.splits)

lemma dict_ok_delete_where [simp]: "dict_ok t \<Longrightarrow> dict_ok (delete_where P t)"
  unfolding delete_where_def by (rule dict_ok_filter)

lemma select_where_iff:
  "dict_ok t \<Longrightarrow> (k, r) \<in> set (select_where P t) \<longleftrightarrow> dict_get t k = Some r \<and> P k r"
  by (auto simp: select_where_def)

end
