(* ===== verification/FleetQueue.thy ===== *)
theory FleetQueue
  imports Sql Json
begin

text \<open>
  The fleet queue (\<open>src/remrun/fleet/queue.py\<close>): jobs, the batches that execute them, the
  leases on device pools and the cooldowns.  Each operation is one transaction, and
  \<open>immediate\<close> rolls back when the operation raises.  Times are the ISO texts the program compares
  as texts; \<open>now\<close> is an argument.  The column \<open>estimated_finish_s\<close>, a float that only the
  backlog report reads, is left out.  What the queue takes from other modules is in \<open>queue_env\<close>:
  the parsed documents of \<open>prepared.py\<close> and \<open>task_contract.py\<close> and their validators, as
  functions of the stored bytes.  Lock contention past the busy timeout leaves every table as
  it was and is left out.
\<close>

section \<open>Tables\<close>

datatype work_state =
    Queued | Leased | Staging | Running | Fetching | Cancelling | Done | Failed
  | FailedFinal | NeedsReview | Cancelled | CompletionUnknown

record job_row =
  jb_task_name :: string
  jb_prepared_json :: "string option"
  jb_prepared_id :: "string option"
  jb_spec_id :: "string option"
  jb_force_device :: "string option"
  jb_priority :: int
  jb_idempotency_key :: "string option"
  jb_state :: work_state
  jb_attempts :: int
  jb_leased_until :: "string option"
  jb_assigned_device :: "string option"
  jb_batch :: "string option"
  jb_created :: string
  jb_updated :: string
  jb_last_error :: "string option"
  jb_output_manifest :: "string option"
  jb_exclude_devices :: "string option"
  jb_last_result :: "string option"

record batch_row =
  ba_owner_token :: "string option"
  ba_state :: work_state
  ba_device :: string
  ba_task_name :: string
  ba_engine :: string
  ba_bucket :: string
  ba_created :: string
  ba_updated :: string
  ba_lease_until :: string
  ba_heartbeat :: "string option"
  ba_placement_json :: "string option"
  ba_version :: "int option"
  ba_operation_id :: "string option"
  ba_request_sha256 :: "string option"
  ba_resume_token :: "string option"
  ba_reserved_at :: "string option"
  ba_accepted_at :: "string option"
  ba_cleanup_state :: "string option"
  ba_cleanup_at :: "string option"
  ba_stage_cleaned_at :: "string option"
  ba_durable_cleaned_at :: "string option"
  ba_finalized_at :: "string option"
  ba_disposition :: "string option"
  ba_release_authorized_at :: "string option"
  ba_release_acknowledged_at :: "string option"
  ba_error :: "string option"

record cooldown_row =
  co_until :: string
  co_kind :: string
  co_reason :: string
  co_created :: string

text \<open>
  A value of an observation document.  A finite float is its mantissa and exponent.
\<close>

datatype py_value = PyNone | PyBool bool | PyInt int | PyFloat int int | PyNonFinite | PyStr string | PyOther

type_synonym observation = "(string, py_value) dict"

record submission_row =
  su_request_id :: "string option"
  su_plan_id :: "string option"
  su_fingerprint :: string
  su_created :: string

record refusal_row =
  rf_plan_id :: string
  rf_request_id :: "string option"
  rf_fingerprint :: string
  rf_reason :: string
  rf_created :: string

text \<open>
  A prepared record with the fields the queue reads and its canonical bytes, and a saved plan:
  the specification and its bytes, the records, and the submission that consumed it.
\<close>

record prepared_work =
  pw_kind :: string
  pw_spec_id :: string
  pw_prepared_id :: string
  pw_work_id :: string
  pw_stems :: "string list"
  pw_force_device :: "string option"
  pw_allow_fallback :: bool
  pw_root_override :: "string option"
  pw_task_name :: string
  pw_bytes :: string

record plan_row =
  pl_spec :: "string \<times> string"
  pl_records :: "prepared_work list"
  pl_priority :: int
  pl_created :: string
  pl_consumed :: "string option"

record queue_db =
  qd_jobs :: "(string, job_row) dict"
  qd_batches :: "(string, batch_row) dict"
  qd_leases :: "(string \<times> string, string \<times> string) dict"
  qd_cooldowns :: "(string \<times> string, cooldown_row) dict"
  qd_specs :: "(string, string) dict"
  qd_observations :: "(string, observation \<times> string) dict"
  qd_reservations :: "(string, string) dict"
  qd_submissions :: "(string, submission_row) dict"
  qd_submission_jobs :: "(string \<times> nat, string \<times> string) dict"
  qd_plans :: "(string, plan_row) dict"
  qd_refusals :: "(string, refusal_row) dict"

text \<open>
  A lease row holds its batch and its deadline, a reservation the work that owns the stem, a
  submission job its job and prepared identity.
\<close>

abbreviation lease_batch :: "string \<times> string \<Rightarrow> string" where "lease_batch \<equiv> fst"
abbreviation lease_deadline :: "string \<times> string \<Rightarrow> string" where "lease_deadline \<equiv> snd"

definition FINAL :: "work_state list" where
  "FINAL = [Done, FailedFinal, NeedsReview, Cancelled]"

definition PRUNABLE :: "work_state list" where
  "PRUNABLE = [Done, FailedFinal]"

definition BATCH_EXECUTING :: "work_state list" where
  "BATCH_EXECUTING = [Leased, Staging, Running, Fetching]"

definition BATCH_ACTIVE :: "work_state list" where
  "BATCH_ACTIVE = BATCH_EXECUTING @ [Cancelling]"

definition MAX_ATTEMPTS :: int where "MAX_ATTEMPTS = 3"

definition FINALIZATION_PENDING :: string where "FINALIZATION_PENDING = ''known_outcome_cleanup_pending''"
definition FINALIZATION_REPLAYABLE :: string where "FINALIZATION_REPLAYABLE = ''proven_no_start_replayable''"
definition FINALIZATION_FENCED :: string where "FINALIZATION_FENCED = ''completion_unknown_or_started''"
definition FINALIZATION_FINALIZED :: string where "FINALIZATION_FINALIZED = ''fully_finalized''"
definition FINALIZATION_MALFORMED :: string where "FINALIZATION_MALFORMED = ''malformed_target_identity''"
definition FINALIZATION_RECONCILE :: string where "FINALIZATION_RECONCILE = ''target_reconciliation_pending''"

lemmas dispositions = FINALIZATION_PENDING_def FINALIZATION_REPLAYABLE_def FINALIZATION_FENCED_def
  FINALIZATION_FINALIZED_def FINALIZATION_MALFORMED_def FINALIZATION_RECONCILE_def

definition FINALIZATION_DISPOSITIONS :: "string list" where
  "FINALIZATION_DISPOSITIONS =
     [FINALIZATION_PENDING, FINALIZATION_REPLAYABLE, FINALIZATION_FENCED, FINALIZATION_FINALIZED,
      FINALIZATION_MALFORMED, FINALIZATION_RECONCILE]"

definition TERMINAL_CLEANUP :: "string list" where
  "TERMINAL_CLEANUP = [''RELEASED'', ''CANCELLED'', ''EXPIRED'', ''REBOOTED'']"

section \<open>Transactions and statements\<close>

datatype queue_error = QueueValueError string | QueueMigrationError string | QueueOverflowError | QueueIntegrityError

type_synonym 'a queue_body = "queue_db \<Rightarrow> queue_error + 'a \<times> queue_db"

definition immediate :: "'a queue_body \<Rightarrow> queue_db \<Rightarrow> (queue_error + 'a) \<times> queue_db" where
  "immediate body db = (case body db of Inl e \<Rightarrow> (Inl e, db) | Inr (v, db') \<Rightarrow> (Inr v, db'))"

text \<open>\<open>UPDATE jobs\<close>, \<open>UPDATE batches\<close> on one primary key, \<open>DELETE FROM resource_leases WHERE batch_id=?\<close>.\<close>

definition update_jobs :: "(string \<Rightarrow> job_row \<Rightarrow> bool) \<Rightarrow> (string \<Rightarrow> job_row \<Rightarrow> job_row) \<Rightarrow> queue_db \<Rightarrow> queue_db" where
  "update_jobs P f db = db\<lparr>qd_jobs := update_where P f (qd_jobs db)\<rparr>"

definition put_batch :: "string \<Rightarrow> batch_row \<Rightarrow> queue_db \<Rightarrow> queue_db" where
  "put_batch b row db = db\<lparr>qd_batches := dict_set b row (qd_batches db)\<rparr>"

definition drop_leases :: "string \<Rightarrow> queue_db \<Rightarrow> queue_db" where
  "drop_leases b db = db\<lparr>qd_leases := delete_where (\<lambda>_ l. lease_batch l = b) (qd_leases db)\<rparr>"

text \<open>\<open>SELECT ... FROM batches WHERE batch_id=? AND ...\<close>.\<close>

definition find_batch :: "queue_db \<Rightarrow> string \<Rightarrow> (batch_row \<Rightarrow> bool) \<Rightarrow> batch_row option" where
  "find_batch db b P = (case dict_get (qd_batches db) b of None \<Rightarrow> None | Some r \<Rightarrow> if P r then Some r else None)"

text \<open>The owner's fence: \<open>state=? AND owner_token=? AND lease_until>?\<close>.\<close>

definition owned :: "work_state \<Rightarrow> string \<Rightarrow> string \<Rightarrow> batch_row \<Rightarrow> bool" where
  "owned expected token now r \<longleftrightarrow>
     ba_state r = expected \<and> ba_owner_token r = Some token \<and> now < ba_lease_until r"

definition in_batch :: "string \<Rightarrow> job_row \<Rightarrow> bool" where
  "in_batch b j \<longleftrightarrow> jb_batch j = Some b"

text \<open>The jobs of a batch in one of some states, as \<open>SELECT job_id FROM jobs WHERE ...\<close>.\<close>

definition batch_job_ids :: "string \<Rightarrow> work_state list \<Rightarrow> queue_db \<Rightarrow> string list" where
  "batch_job_ids b sts db = dict_keys (select_where (\<lambda>_ j. in_batch b j \<and> jb_state j \<in> set sts) (qd_jobs db))"

definition nonempty :: "string option \<Rightarrow> bool" where
  "nonempty v \<longleftrightarrow> v \<noteq> None \<and> v \<noteq> Some []"

section \<open>Queued jobs\<close>

definition settle_queued :: "string \<Rightarrow> work_state \<Rightarrow> string \<Rightarrow> string \<Rightarrow> queue_db \<Rightarrow> queue_db" where
  "settle_queued jid st error now =
     update_jobs (\<lambda>i j. i = jid \<and> jb_state j = Queued)
       (\<lambda>_ j. j\<lparr>jb_state := st, jb_last_error := Some error, jb_updated := now\<rparr>)"

definition is_queued :: "queue_db \<Rightarrow> string \<Rightarrow> bool" where
  "is_queued db jid \<longleftrightarrow> (case dict_get (qd_jobs db) jid of None \<Rightarrow> False | Some j \<Rightarrow> jb_state j = Queued)"

definition finalize_queued :: "string \<Rightarrow> string \<Rightarrow> string \<Rightarrow> queue_db \<Rightarrow> bool \<times> queue_db" where
  "finalize_queued jid error now db = (is_queued db jid, settle_queued jid FailedFinal error now db)"

definition review_queued :: "string \<Rightarrow> string \<Rightarrow> string \<Rightarrow> queue_db \<Rightarrow> bool \<times> queue_db" where
  "review_queued jid error now db = (is_queued db jid, settle_queued jid NeedsReview error now db)"

definition cancel_queued :: "string \<Rightarrow> string \<Rightarrow> queue_db \<Rightarrow> bool \<times> queue_db" where
  "cancel_queued jid now db = (is_queued db jid, settle_queued jid Cancelled ''cancelled by operator'' now db)"

section \<open>Claiming\<close>

record prepared_doc =
  pd_prepared_id :: string
  pd_kind :: string

record spec_doc =
  sp_spec_id :: "string option"
  sp_kind :: "string option"
  sp_replay :: "string option"

record queue_env =
  qe_prepared :: "string \<Rightarrow> prepared_doc option"
  qe_validate_prepared :: "string \<Rightarrow> string option"
  qe_spec :: "string \<Rightarrow> spec_doc option"
  qe_raw_spec_id :: string
  qe_is_raw_spec :: "string \<Rightarrow> bool"
  qe_validate_spec :: "string \<Rightarrow> string option"
  qe_validate_against :: "string \<Rightarrow> string \<Rightarrow> string option"

text \<open>The stored bytes of a prepared job or specification that pass their checks.\<close>

definition prepared_record ::
  "queue_env \<Rightarrow> queue_db \<Rightarrow> string \<Rightarrow> queue_error + (string \<times> prepared_doc) option" where
  "prepared_record env db jid =
     (case dict_get (qd_jobs db) jid of
        None \<Rightarrow> Inr None
      | Some j \<Rightarrow>
          (case jb_prepared_id j of
             None \<Rightarrow> Inr None
           | Some pid \<Rightarrow>
               (case jb_prepared_json j of
                  None \<Rightarrow> Inl (QueueMigrationError ''malformed bytes'')
                | Some bytes \<Rightarrow>
                    (case qe_prepared env bytes of
                       None \<Rightarrow> Inl (QueueMigrationError ''malformed bytes'')
                     | Some doc \<Rightarrow>
                         (case qe_validate_prepared env bytes of
                            Some e \<Rightarrow> Inl (QueueValueError e)
                          | None \<Rightarrow>
                              if pd_prepared_id doc \<noteq> pid
                              then Inl (QueueMigrationError ''identity columns disagree'')
                              else Inr (Some (bytes, doc)))))))"

definition prepared_spec :: "queue_env \<Rightarrow> queue_db \<Rightarrow> string option \<Rightarrow> queue_error + string option" where
  "prepared_spec env db spec_id =
     (case spec_id of
        None \<Rightarrow> Inr None
      | Some sid \<Rightarrow>
          (case dict_get (qd_specs db) sid of
             None \<Rightarrow> Inr None
           | Some bytes \<Rightarrow>
               (case qe_spec env bytes of
                  None \<Rightarrow> Inl (QueueMigrationError ''malformed bytes'')
                | Some doc \<Rightarrow>
                    if sid = qe_raw_spec_id env \<and> \<not> qe_is_raw_spec env bytes
                    then Inl (QueueMigrationError ''raw command spec fails its content identity'')
                    else if sid \<noteq> qe_raw_spec_id env \<and> qe_validate_spec env bytes \<noteq> None
                    then Inl (QueueMigrationError ''fails its content identity or shape'')
                    else if sp_spec_id doc \<noteq> Some sid
                    then Inl (QueueMigrationError ''identity column disagrees'')
                    else Inr (Some bytes))))"

fun error_text :: "queue_error \<Rightarrow> string" where
  "error_text (QueueValueError s) = s"
| "error_text (QueueMigrationError s) = s"
| "error_text QueueOverflowError = ''overflow''"
| "error_text QueueIntegrityError = ''integrity''"

text \<open>The integrity check of one row inside a claim; a row without a prepared identity is skipped.\<close>

definition integrity_error :: "queue_env \<Rightarrow> queue_db \<Rightarrow> string \<times> job_row \<Rightarrow> string option" where
  "integrity_error env db row =
     (let (jid, j) = row in
      if \<not> nonempty (jb_prepared_id j) then None
      else (case prepared_record env db jid of
              Inl e \<Rightarrow> Some (error_text e)
            | Inr rec \<Rightarrow>
                (case prepared_spec env db (jb_spec_id j) of
                   Inl e \<Rightarrow> Some (error_text e)
                 | Inr spec \<Rightarrow>
                     (case (rec, spec) of
                        (Some (bytes, doc), Some sbytes) \<Rightarrow>
                          if pd_kind doc = ''task'' then qe_validate_against env bytes sbytes else None
                      | _ \<Rightarrow> Some ''missing frozen prepared bytes''))))"

definition configured :: "queue_env \<Rightarrow> queue_db \<Rightarrow> string \<times> job_row \<Rightarrow> bool" where
  "configured env db row \<longleftrightarrow>
     nonempty (jb_prepared_id (snd row))
     \<and> (case prepared_record env db (fst row) of Inr (Some (_, doc)) \<Rightarrow> pd_kind doc = ''task'' | _ \<Rightarrow> False)"

text \<open>The live definitions a claim checks against: absent, not readable, or the specification of each job.\<close>

datatype spec_authority = NotLive | Unreadable | LiveSpecs "(string, string option) dict"

fun live_spec :: "spec_authority \<Rightarrow> string \<Rightarrow> string option" where
  "live_spec (LiveSpecs d) jid = (case dict_get d jid of None \<Rightarrow> None | Some v \<Rightarrow> v)"
| "live_spec NotLive jid = None"
| "live_spec Unreadable jid = None"

definition drift_reason :: "spec_authority \<Rightarrow> string \<Rightarrow> string" where
  "drift_reason auth jid =
     (if auth = Unreadable then ''definition_authority_unreadable''
      else if live_spec auth jid = None then ''definition_missing'' else ''definition_changed'')"

record claim_args =
  cl_job_ids :: "string list"
  cl_device :: string
  cl_batch_id :: string
  cl_lease_until :: string
  cl_pool :: "string option"
  cl_task_name :: string
  cl_engine :: string
  cl_bucket :: string
  cl_placement :: "queue_error + string option"
  cl_version :: "int option"
  cl_authority :: spec_authority
  cl_token :: string

definition new_batch :: "claim_args \<Rightarrow> string option \<Rightarrow> string \<Rightarrow> batch_row" where
  "new_batch a placement now =
     \<lparr>ba_owner_token = Some (cl_token a), ba_state = Leased, ba_device = cl_device a,
      ba_task_name = cl_task_name a, ba_engine = cl_engine a, ba_bucket = cl_bucket a,
      ba_created = now, ba_updated = now, ba_lease_until = cl_lease_until a, ba_heartbeat = Some now,
      ba_placement_json = placement, ba_version = cl_version a,
      ba_operation_id = None, ba_request_sha256 = None, ba_resume_token = None,
      ba_reserved_at = None, ba_accepted_at = None, ba_cleanup_state = None, ba_cleanup_at = None,
      ba_stage_cleaned_at = None, ba_durable_cleaned_at = None, ba_finalized_at = None,
      ba_disposition = None, ba_release_authorized_at = None, ba_release_acknowledged_at = None,
      ba_error = None\<rparr>"

definition claim_job :: "claim_args \<Rightarrow> string \<Rightarrow> job_row \<Rightarrow> job_row" where
  "claim_job a now j =
     j\<lparr>jb_state := Leased, jb_assigned_device := Some (cl_device a), jb_batch := Some (cl_batch_id a),
       jb_leased_until := Some (cl_lease_until a), jb_attempts := jb_attempts j + 1, jb_updated := now\<rparr>"

text \<open>The last part of a claim: the batch, its lease and its jobs are written together.\<close>

definition grant_claim :: "claim_args \<Rightarrow> string option \<Rightarrow> string \<Rightarrow> queue_db \<Rightarrow> queue_db" where
  "grant_claim a placement now db =
     (let db1 = put_batch (cl_batch_id a) (new_batch a placement now) db;
          db2 = (if nonempty (cl_pool a)
                 then db1\<lparr>qd_leases := dict_set (cl_device a, the (cl_pool a)) (cl_batch_id a, cl_lease_until a) (qd_leases db1)\<rparr>
                 else db1)
      in update_jobs (\<lambda>i _. i \<in> set (cl_job_ids a)) (\<lambda>_. claim_job a now) db2)"

definition free_expired :: "claim_args \<Rightarrow> string \<Rightarrow> queue_db \<Rightarrow> queue_db" where
  "free_expired a now db =
     (case cl_pool a of
        Some p \<Rightarrow> if p = [] then db
                  else db\<lparr>qd_leases := delete_where (\<lambda>k l. k = (cl_device a, p) \<and> lease_deadline l < now) (qd_leases db)\<rparr>
      | None \<Rightarrow> db)"

definition pool_held :: "claim_args \<Rightarrow> queue_db \<Rightarrow> bool" where
  "pool_held a db \<longleftrightarrow> nonempty (cl_pool a) \<and> dict_get (qd_leases db) (cl_device a, the (cl_pool a)) \<noteq> None"

text \<open>
  \<open>claim_many\<close>.  The rows come in the order of the primary key.  A refused claim either rolls
  back or, when it marks rows for review, commits these marks.
\<close>

definition claim_rows :: "claim_args \<Rightarrow> queue_db \<Rightarrow> (string \<times> job_row) list" where
  "claim_rows a db = sort_key fst (select_where (\<lambda>i _. i \<in> set (cl_job_ids a)) (qd_jobs db))"

definition claim_checked ::
  "queue_env \<Rightarrow> claim_args \<Rightarrow> string option \<Rightarrow> string \<Rightarrow> queue_db \<Rightarrow> (string option \<times> queue_db) option" where
  "claim_checked env a placement now db =
     (let rows = claim_rows a db in
      case find (\<lambda>row. integrity_error env db row \<noteq> None) rows of
        Some row \<Rightarrow>
          Some (None, settle_queued (fst row) NeedsReview (''prepared_integrity: '' @ the (integrity_error env db row)) now db)
      | None \<Rightarrow>
          (let crows = filter (configured env db) rows;
               drifted = filter (\<lambda>row. live_spec (cl_authority a) (fst row) \<noteq> jb_spec_id (snd row)) crows
           in
           if crows \<noteq> [] \<and> cl_authority a = NotLive
           then Some (None, foldl (\<lambda>d row. settle_queued (fst row) NeedsReview ''definition_authority_not_live'' now d) db crows)
           else if drifted \<noteq> []
           then Some (None, foldl (\<lambda>d row. settle_queued (fst row) NeedsReview (drift_reason (cl_authority a) (fst row)) now d) db drifted)
           else if dict_get (qd_batches db) (cl_batch_id a) \<noteq> None then None
           else Some (Some (cl_token a), grant_claim a placement now db)))"

definition claim_many :: "queue_env \<Rightarrow> claim_args \<Rightarrow> string \<Rightarrow> queue_db \<Rightarrow> (queue_error + string option) \<times> queue_db" where
  "claim_many env a now db =
     (case cl_placement a of
        Inl e \<Rightarrow> (Inl e, db)
      | Inr placement \<Rightarrow>
          if cl_job_ids a = [] \<or> cl_lease_until a \<le> now then (Inr None, db)
          else
            (let db1 = free_expired a now db in
             if pool_held a db1 then (Inr None, db)
             else if length (claim_rows a db1) \<noteq> length (cl_job_ids a)
                     \<or> (\<exists>row \<in> set (claim_rows a db1). jb_state (snd row) \<noteq> Queued) then (Inr None, db)
             else (case claim_checked env a placement now db1 of
                     None \<Rightarrow> (Inr None, db)
                   | Some (v, db2) \<Rightarrow> (Inr v, db2))))"

section \<open>The owner's transitions\<close>

definition terminal_disposition :: "queue_db \<Rightarrow> string \<Rightarrow> string option \<Rightarrow> string \<Rightarrow> queue_error + string option" where
  "terminal_disposition db b supplied fallback =
     (case dict_get (qd_batches db) b of
        None \<Rightarrow> Inr None
      | Some r \<Rightarrow>
          if ba_version r \<noteq> Some 1 then Inr None
          else (let d = (if nonempty supplied then the supplied
                         else if nonempty (ba_disposition r) then the (ba_disposition r) else fallback)
                in if d \<notin> set FINALIZATION_DISPOSITIONS
                   then Inl (QueueValueError ''unsupported target finalization disposition'')
                   else if ba_disposition r = Some FINALIZATION_FINALIZED then Inr (Some FINALIZATION_FINALIZED)
                   else if supplied = None \<and> ba_operation_id r = None then Inr (Some FINALIZATION_FINALIZED)
                   else Inr (Some d)))"

definition set_batch_state ::
  "string \<Rightarrow> work_state \<Rightarrow> work_state \<Rightarrow> string \<Rightarrow> string \<Rightarrow> queue_db \<Rightarrow> bool \<times> queue_db" where
  "set_batch_state b st expected token now db =
     (case find_batch db b (owned expected token now) of
        None \<Rightarrow> (False, db)
      | Some r \<Rightarrow>
          (True, update_jobs (\<lambda>_ j. in_batch b j \<and> jb_state j = expected) (\<lambda>_ j. j\<lparr>jb_state := st, jb_updated := now\<rparr>)
                   (put_batch b (r\<lparr>ba_state := st, ba_updated := now\<rparr>) db)))"

definition heartbeat ::
  "string \<Rightarrow> string \<Rightarrow> work_state \<Rightarrow> string \<Rightarrow> string \<Rightarrow> queue_db \<Rightarrow> bool \<times> queue_db" where
  "heartbeat b until expected token now db =
     (if until \<le> now then (False, db)
      else
        (case find_batch db b (owned expected token now) of
           None \<Rightarrow> (False, db)
         | Some r \<Rightarrow>
             (True,
              update_jobs (\<lambda>_ j. in_batch b j \<and> jb_state j = expected) (\<lambda>_ j. j\<lparr>jb_leased_until := Some until\<rparr>)
                ((put_batch b (r\<lparr>ba_lease_until := until, ba_heartbeat := Some now, ba_updated := now\<rparr>) db)
                   \<lparr>qd_leases := update_where (\<lambda>_ l. lease_batch l = b) (\<lambda>_ l. (lease_batch l, until)) (qd_leases db)\<rparr>))))"

section \<open>Profile observations\<close>

definition OBSERVATION_FIELDS :: "string list" where
  "OBSERVATION_FIELDS =
     [''profile_key'', ''family_id'', ''device'', ''adapter_id'', ''prepared_units'', ''observed_units'',
      ''controller_elapsed_s'', ''worker_elapsed_s'', ''peak_rss_mb'', ''peak_vram_mb'',
      ''accepted_duration'', ''reject_reason'', ''result_digest'']"

text \<open>\<open>float(n)\<close> raises for an integer that rounds to \<open>2 ^ 1024\<close> or more.\<close>

definition finite_optional :: "py_value \<Rightarrow> queue_error + py_value" where
  "finite_optional v =
     (case v of
        PyNone \<Rightarrow> Inr PyNone
      | PyInt n \<Rightarrow>
          if \<bar>n\<bar> \<ge> 2 ^ 1024 - 2 ^ 970 then Inl QueueOverflowError
          else if n < 0 then Inl (QueueValueError ''must be finite and nonnegative'') else Inr v
      | PyFloat m e \<Rightarrow> if m < 0 then Inl (QueueValueError ''must be finite and nonnegative'') else Inr v
      | PyNonFinite \<Rightarrow> Inl (QueueValueError ''must be finite and nonnegative'')
      | _ \<Rightarrow> Inl (QueueValueError ''must be numeric or null''))"

definition positive_number :: "py_value \<Rightarrow> bool" where
  "positive_number v \<longleftrightarrow> (case v of PyInt n \<Rightarrow> 0 < n | PyFloat m e \<Rightarrow> 0 < m | _ \<Rightarrow> False)"

definition is_digest :: "py_value \<Rightarrow> bool" where
  "is_digest v \<longleftrightarrow>
     (case v of PyStr s \<Rightarrow> length s = 71 \<and> take 7 s = ''sha256:'' \<and> list_all hex_lower (drop 7 s) | _ \<Rightarrow> False)"

definition obs_field :: "observation \<Rightarrow> string \<Rightarrow> py_value" where
  "obs_field ob k = (case dict_get ob k of None \<Rightarrow> PyNone | Some v \<Rightarrow> v)"

definition nonempty_str :: "py_value \<Rightarrow> bool" where
  "nonempty_str v \<longleftrightarrow> (case v of PyStr s \<Rightarrow> s \<noteq> [] | _ \<Rightarrow> False)"

fun first_number_error :: "observation \<Rightarrow> string list \<Rightarrow> queue_error option" where
  "first_number_error ob [] = None"
| "first_number_error ob (k # ks) =
     (case finite_optional (obs_field ob k) of Inl e \<Rightarrow> Some e | Inr _ \<Rightarrow> first_number_error ob ks)"

definition observation_error_of :: "observation \<Rightarrow> queue_error option" where
  "observation_error_of ob =
     (if set (dict_keys ob) \<noteq> set OBSERVATION_FIELDS \<and> set (dict_keys ob) \<noteq> insert ''memory_metric'' (set OBSERVATION_FIELDS)
      then Some (QueueValueError ''unknown or missing fields'')
      else if \<not> nonempty_str (obs_field ob ''device'') then Some (QueueValueError ''device must be non-empty'')
      else (case obs_field ob ''accepted_duration'' of
        PyBool accepted \<Rightarrow>
          (case first_number_error ob [''prepared_units'', ''observed_units'', ''controller_elapsed_s'',
                                       ''worker_elapsed_s'', ''peak_rss_mb'', ''peak_vram_mb''] of
             Some e \<Rightarrow> Some e
           | None \<Rightarrow>
               if obs_field ob ''memory_metric'' \<noteq> PyNone \<and> \<not> nonempty_str (obs_field ob ''memory_metric'')
               then Some (QueueValueError ''memory_metric must be a non-empty string or null'')
               else if obs_field ob ''result_digest'' \<noteq> PyNone \<and> \<not> is_digest (obs_field ob ''result_digest'')
               then Some (QueueValueError ''result_digest must be a sha256 identity or null'')
               else if accepted
                    \<and> (obs_field ob ''prepared_units'' = PyNone \<or> obs_field ob ''observed_units'' = PyNone
                       \<or> \<not> positive_number (obs_field ob ''controller_elapsed_s'')
                       \<or> \<not> is_digest (obs_field ob ''profile_key'') \<or> \<not> is_digest (obs_field ob ''family_id'')
                       \<or> \<not> is_digest (obs_field ob ''adapter_id'') \<or> obs_field ob ''reject_reason'' \<noteq> PyNone)
               then Some (QueueValueError ''accepted duration requires verified work'')
               else if \<not> accepted \<and> \<not> nonempty_str (obs_field ob ''reject_reason'')
               then Some (QueueValueError ''rejected duration requires a reason'')
               else None)
      | _ \<Rightarrow> Some (QueueValueError ''accepted_duration must be boolean'')))"

text \<open>\<open>_insert_profile_observation\<close>: the batch is the primary key of its observation.\<close>

definition insert_profile_observation ::
  "string \<Rightarrow> observation option \<Rightarrow> string \<Rightarrow> queue_db \<Rightarrow> queue_error + queue_db" where
  "insert_profile_observation b ob now db =
     (case ob of
        None \<Rightarrow> Inr db
      | Some doc \<Rightarrow>
          (case observation_error_of doc of
             Some e \<Rightarrow> Inl e
           | None \<Rightarrow>
               if dict_get (qd_observations db) b \<noteq> None then Inl QueueIntegrityError
               else Inr (db\<lparr>qd_observations := dict_set b (doc, now) (qd_observations db)\<rparr>)))"

section \<open>Finishing a batch\<close>

definition complete_batch ::
  "string \<Rightarrow> work_state \<Rightarrow> string \<Rightarrow> string \<Rightarrow> string option \<Rightarrow> observation option \<Rightarrow> string option
   \<Rightarrow> queue_db \<Rightarrow> (queue_error + bool) \<times> queue_db" where
  "complete_batch b expected token now result ob supplied =
     immediate (\<lambda>db.
       case terminal_disposition db b supplied FINALIZATION_PENDING of
         Inl e \<Rightarrow> Inl e
       | Inr d \<Rightarrow>
           (case find_batch db b (owned expected token now) of
              None \<Rightarrow> Inr (False, db)
            | Some r \<Rightarrow>
                (case insert_profile_observation b ob now
                        (update_jobs (\<lambda>_ j. in_batch b j \<and> jb_state j = expected)
                           (\<lambda>_ j. j\<lparr>jb_state := Done, jb_leased_until := None, jb_last_error := None,
                                    jb_last_result := result, jb_updated := now\<rparr>)
                           (put_batch b (r\<lparr>ba_state := Done, ba_disposition := d, ba_updated := now\<rparr>) db)) of
                   Inl e \<Rightarrow> Inl e
                 | Inr db' \<Rightarrow> Inr (True, drop_leases b db'))))"

text \<open>\<open>_finish_failed_item\<close>: the next state of one failed job.\<close>

definition excluded_devices :: "job_row \<Rightarrow> string list" where
  "excluded_devices j =
     (case jb_exclude_devices j of None \<Rightarrow> [] | Some s \<Rightarrow> filter (\<lambda>d. d \<noteq> []) (split_on CHR '','' s))"

definition failed_item_state :: "job_row \<Rightarrow> string \<Rightarrow> int \<Rightarrow> bool \<Rightarrow> work_state" where
  "failed_item_state j disposition max_attempts clear_force =
     (let elsewhere = (disposition = ''elsewhere'' \<or> disposition = ''once_elsewhere'');
          cap = (if disposition = ''once_elsewhere'' then min max_attempts 2 else max_attempts)
      in if disposition = ''review'' then NeedsReview
         else if disposition = ''final'' \<or> jb_attempts j \<ge> cap then FailedFinal
         else if elsewhere \<and> nonempty (jb_force_device j) \<and> jb_force_device j = jb_assigned_device j \<and> \<not> clear_force
         then FailedFinal
         else Queued)"

definition finish_failed_item ::
  "string \<Rightarrow> string \<Rightarrow> string option \<Rightarrow> string \<Rightarrow> int \<Rightarrow> bool \<Rightarrow> job_row \<Rightarrow> job_row" where
  "finish_failed_item error disposition record now max_attempts clear_force j =
     (let st = failed_item_state j disposition max_attempts clear_force;
          exclude = (if (disposition = ''elsewhere'' \<or> disposition = ''once_elsewhere'') \<and> nonempty (jb_assigned_device j)
                        \<and> the (jb_assigned_device j) \<notin> set (excluded_devices j)
                     then excluded_devices j @ [the (jb_assigned_device j)] else excluded_devices j);
          joined = join_with '','' exclude
      in j\<lparr>jb_state := st,
           jb_assigned_device := (if st = Queued then None else jb_assigned_device j),
           jb_batch := (if st = Queued then None else jb_batch j),
           jb_force_device := (if st = Queued \<and> clear_force then None else jb_force_device j),
           jb_exclude_devices := (if joined = [] then None else Some joined),
           jb_leased_until := None, jb_last_error := Some error, jb_last_result := record, jb_updated := now\<rparr>)"

record item_results =
  it_succeeded :: "(string, string option) dict"
  it_failed :: "(string, string) dict"
  it_dispositions :: "(string, string) dict"
  it_results :: "(string, string) dict"
  it_result_record :: "string option"
  it_max_attempts :: int
  it_clear_force :: bool
  it_observation :: "observation option"
  it_supplied :: "string option"

definition item_error :: "item_results \<Rightarrow> string \<Rightarrow> string" where
  "item_error it i =
     (case dict_get (it_failed it) i of
        None \<Rightarrow> ''missing item result'' | Some e \<Rightarrow> if e = [] then ''missing item result'' else e)"

text \<open>A job counts as done only when it is reported as succeeded and not as failed.\<close>

definition item_done :: "item_results \<Rightarrow> string \<Rightarrow> bool" where
  "item_done it i \<longleftrightarrow> dict_get (it_succeeded it) i \<noteq> None \<and> dict_get (it_failed it) i = None"

definition finish_item :: "item_results \<Rightarrow> string \<Rightarrow> string \<Rightarrow> job_row \<Rightarrow> job_row" where
  "finish_item it now i j =
     (if item_done it i
      then j\<lparr>jb_state := Done, jb_leased_until := None, jb_output_manifest := the (dict_get (it_succeeded it) i),
             jb_last_error := None, jb_last_result := it_result_record it, jb_updated := now\<rparr>
      else finish_failed_item (item_error it i)
             (case dict_get (it_dispositions it) i of None \<Rightarrow> ''retry'' | Some d \<Rightarrow> d)
             (dict_get (it_results it) i) now (it_max_attempts it) (it_clear_force it) j)"

text \<open>
  \<open>complete_batch_items\<close>.  The program updates the jobs one primary key at a time, in the order
  of two sets; the rows are disjoint, so one pass over the table gives the same table.
\<close>

definition complete_batch_items ::
  "string \<Rightarrow> work_state \<Rightarrow> string \<Rightarrow> string \<Rightarrow> item_results \<Rightarrow> queue_db \<Rightarrow> (queue_error + bool) \<times> queue_db" where
  "complete_batch_items b expected token now it =
     immediate (\<lambda>db.
       case terminal_disposition db b (it_supplied it) FINALIZATION_PENDING of
         Inl e \<Rightarrow> Inl e
       | Inr d \<Rightarrow>
           (case find_batch db b (owned expected token now) of
              None \<Rightarrow> Inr (False, db)
            | Some r \<Rightarrow>
                (let ids = batch_job_ids b [expected] db;
                     failed_ids = filter (\<lambda>i. \<not> item_done it i) ids;
                     text = join_with ''; '' (map (\<lambda>i. i @ '': '' @ item_error it i) (take 5 (sort failed_ids)))
                 in if ids = [] then Inr (False, db)
                    else
                      (case insert_profile_observation b (it_observation it) now
                              (update_jobs (\<lambda>_ j. in_batch b j \<and> jb_state j = expected) (finish_item it now)
                                 (put_batch b (r\<lparr>ba_state := (if failed_ids = [] then Done else Failed),
                                                 ba_error := (if text = [] then None else Some text),
                                                 ba_disposition := d, ba_updated := now\<rparr>) db)) of
                         Inl e \<Rightarrow> Inl e
                       | Inr db' \<Rightarrow> Inr (True, drop_leases b db')))))"

text \<open>\<open>_finish_batch_failure\<close>: requeue the jobs with attempts left, finalize the others.\<close>

definition failed_job :: "string \<Rightarrow> string \<Rightarrow> int \<Rightarrow> bool \<Rightarrow> string option \<Rightarrow> job_row \<Rightarrow> job_row" where
  "failed_job error now max_attempts clear_force result j =
     (let retry = jb_attempts j < max_attempts in
      j\<lparr>jb_state := (if retry then Queued else FailedFinal),
        jb_assigned_device := (if retry then None else jb_assigned_device j),
        jb_batch := (if retry then None else jb_batch j),
        jb_force_device := (if retry \<and> clear_force then None else jb_force_device j),
        jb_leased_until := None, jb_last_error := Some error, jb_last_result := result, jb_updated := now\<rparr>)"

definition finish_batch_failure ::
  "string \<Rightarrow> string \<Rightarrow> string \<Rightarrow> int \<Rightarrow> bool \<Rightarrow> string option \<Rightarrow> queue_db \<Rightarrow> queue_db" where
  "finish_batch_failure b error now max_attempts clear_force result db =
     drop_leases b
       (update_jobs (\<lambda>_ j. in_batch b j \<and> jb_state j \<notin> set FINAL)
          (\<lambda>_. failed_job error now max_attempts clear_force result) db)"

definition fail_batch ::
  "string \<Rightarrow> string \<Rightarrow> work_state \<Rightarrow> string \<Rightarrow> string \<Rightarrow> int \<Rightarrow> bool \<Rightarrow> string option \<Rightarrow> observation option \<Rightarrow> string option
   \<Rightarrow> queue_db \<Rightarrow> (queue_error + bool) \<times> queue_db" where
  "fail_batch b error expected token now max_attempts clear_force result ob supplied =
     immediate (\<lambda>db.
       case terminal_disposition db b supplied FINALIZATION_PENDING of
         Inl e \<Rightarrow> Inl e
       | Inr d \<Rightarrow>
           (case find_batch db b (owned expected token now) of
              None \<Rightarrow> Inr (False, db)
            | Some r \<Rightarrow>
                (case insert_profile_observation b ob now
                        (finish_batch_failure b error now max_attempts clear_force result
                           (put_batch b (r\<lparr>ba_state := Failed, ba_error := Some error, ba_disposition := d,
                                           ba_updated := now\<rparr>) db)) of
                   Inl e \<Rightarrow> Inl e
                 | Inr db' \<Rightarrow> Inr (True, db'))))"

definition mark_completion_unknown ::
  "string \<Rightarrow> string \<Rightarrow> work_state \<Rightarrow> string \<Rightarrow> string \<Rightarrow> string option \<Rightarrow> observation option \<Rightarrow> string
   \<Rightarrow> queue_db \<Rightarrow> (queue_error + bool) \<times> queue_db" where
  "mark_completion_unknown b error expected token now result ob disposition db =
     (if expected \<notin> {Running, Fetching} \<or> disposition \<notin> set FINALIZATION_DISPOSITIONS then (Inr False, db)
      else
        immediate (\<lambda>db.
          case find_batch db b (owned expected token now) of
            None \<Rightarrow> Inr (False, db)
          | Some r \<Rightarrow>
              (case insert_profile_observation b ob now
                      (update_jobs (\<lambda>_ j. in_batch b j \<and> jb_state j = expected)
                         (\<lambda>_ j. j\<lparr>jb_state := CompletionUnknown, jb_leased_until := None, jb_last_error := Some error,
                                  jb_last_result := result, jb_updated := now\<rparr>)
                         (put_batch b (r\<lparr>ba_state := Failed, ba_error := Some error,
                                         ba_disposition := Some disposition, ba_updated := now\<rparr>) db)) of
                 Inl e \<Rightarrow> Inl e
               | Inr db' \<Rightarrow> Inr (True, drop_leases b db'))) db)"

definition revoke_prelaunch_batch ::
  "string \<Rightarrow> string \<Rightarrow> string \<Rightarrow> string \<Rightarrow> string option \<Rightarrow> queue_db \<Rightarrow> (queue_error + bool) \<times> queue_db" where
  "revoke_prelaunch_batch b token reason now supplied =
     immediate (\<lambda>db.
       case terminal_disposition db b supplied FINALIZATION_PENDING of
         Inl e \<Rightarrow> Inl e
       | Inr d \<Rightarrow>
           (case find_batch db b (\<lambda>r. ba_state r \<in> {Leased, Staging, Running} \<and> ba_owner_token r = Some token
                                      \<and> now < ba_lease_until r) of
              None \<Rightarrow> Inr (False, db)
            | Some r \<Rightarrow>
                Inr (True,
                  drop_leases b
                    (update_jobs (\<lambda>_ j. in_batch b j \<and> jb_state j \<in> {Leased, Staging, Running})
                       (\<lambda>_ j. j\<lparr>jb_state := NeedsReview, jb_last_error := Some reason, jb_leased_until := None,
                                jb_assigned_device := None, jb_updated := now\<rparr>)
                       (put_batch b (r\<lparr>ba_state := Failed, ba_error := Some reason, ba_disposition := d,
                                       ba_updated := now\<rparr>) db)))))"

definition record_revoked_prelaunch_result ::
  "string \<Rightarrow> string \<Rightarrow> string \<Rightarrow> string \<Rightarrow> queue_db \<Rightarrow> bool \<times> queue_db" where
  "record_revoked_prelaunch_result b token result now db =
     (case find_batch db b (\<lambda>r. ba_state r = Failed \<and> ba_owner_token r = Some token) of
        None \<Rightarrow> (False, db)
      | Some r \<Rightarrow>
          (batch_job_ids b [NeedsReview] db \<noteq> [],
           update_jobs (\<lambda>_ j. in_batch b j \<and> jb_state j = NeedsReview)
             (\<lambda>_ j. j\<lparr>jb_last_result := Some result, jb_updated := now\<rparr>) db))"

section \<open>Cancellation\<close>

text \<open>The caller names a set of jobs; the operations compare it with the active jobs as sets, so that
  the later count of the updated rows always agrees.\<close>

definition begin_active_cancellation ::
  "string \<Rightarrow> string list \<Rightarrow> string \<Rightarrow> queue_db \<Rightarrow> bool \<times> queue_db" where
  "begin_active_cancellation b ids now db =
     (if ids = [] then (False, db)
      else
        (case dict_get (qd_batches db) b of
           None \<Rightarrow> (False, db)
         | Some r \<Rightarrow>
             if ba_version r \<noteq> Some 1 \<or> ba_cleanup_state r \<noteq> None \<or> ba_cleanup_at r \<noteq> None
                \<or> ba_stage_cleaned_at r \<noteq> None \<or> ba_durable_cleaned_at r \<noteq> None \<or> ba_finalized_at r \<noteq> None
                \<or> ba_disposition r = Some FINALIZATION_FINALIZED then (False, db)
             else if batch_job_ids b BATCH_EXECUTING db = []
                     \<or> set (batch_job_ids b BATCH_EXECUTING db) \<noteq> set ids then (False, db)
             else if ba_state r = Cancelling then (ba_disposition r = Some FINALIZATION_FENCED, db)
             else if ba_state r \<notin> set BATCH_EXECUTING then (False, db)
             else (True, put_batch b (r\<lparr>ba_state := Cancelling, ba_error := Some ''cancellation requested by operator'',
                                        ba_disposition := Some FINALIZATION_FENCED, ba_updated := now\<rparr>) db)))"

definition mark_active_cancellation_unknown ::
  "string \<Rightarrow> string list \<Rightarrow> string \<Rightarrow> string \<Rightarrow> queue_db \<Rightarrow> bool \<times> queue_db" where
  "mark_active_cancellation_unknown b ids reason now db =
     (if ids = [] \<or> reason = [] then (False, db)
      else
        (case dict_get (qd_batches db) b of
           None \<Rightarrow> (False, db)
         | Some r \<Rightarrow>
             if ba_state r \<noteq> Cancelling \<or> ba_version r \<noteq> Some 1 \<or> ba_disposition r \<noteq> Some FINALIZATION_FENCED
             then (False, db)
             else if set (batch_job_ids b BATCH_EXECUTING db) \<noteq> set ids then (False, db)
             else
               (True,
                drop_leases b
                  (update_jobs (\<lambda>i j. in_batch b j \<and> i \<in> set ids \<and> jb_state j \<in> set BATCH_EXECUTING)
                     (\<lambda>_ j. j\<lparr>jb_state := CompletionUnknown, jb_leased_until := None, jb_last_error := Some reason,
                              jb_updated := now\<rparr>)
                     (put_batch b (r\<lparr>ba_state := Failed, ba_error := Some reason, ba_updated := now\<rparr>) db)))))"

definition cancel_active_batch ::
  "string \<Rightarrow> string list \<Rightarrow> string \<Rightarrow> string \<Rightarrow> queue_db \<Rightarrow> bool \<times> queue_db" where
  "cancel_active_batch b ids cleanup now db =
     (if ids = [] \<or> cleanup = [] then (False, db)
      else
        (case dict_get (qd_batches db) b of
           None \<Rightarrow> (False, db)
         | Some r \<Rightarrow>
             if ba_state r \<noteq> Cancelling \<or> ba_version r \<noteq> Some 1 \<or> ba_finalized_at r \<noteq> None
                \<or> ba_disposition r \<noteq> Some FINALIZATION_FENCED then (False, db)
             else if batch_job_ids b BATCH_EXECUTING db = []
                     \<or> set (batch_job_ids b BATCH_EXECUTING db) \<noteq> set ids then (False, db)
             else
               (True,
                drop_leases b
                  (update_jobs (\<lambda>i j. in_batch b j \<and> i \<in> set ids \<and> jb_state j \<in> set BATCH_EXECUTING)
                     (\<lambda>_ j. j\<lparr>jb_state := Cancelled, jb_leased_until := None,
                              jb_last_error := Some ''cancelled by operator'', jb_updated := now\<rparr>)
                     (put_batch b (r\<lparr>ba_state := Failed, ba_error := Some ''cancelled by operator'',
                                     ba_cleanup_state := Some cleanup, ba_cleanup_at := Some now,
                                     ba_disposition := Some FINALIZATION_FENCED, ba_updated := now\<rparr>) db)))))"

definition record_fenced_cancellation :: "string \<Rightarrow> string \<Rightarrow> string \<Rightarrow> queue_db \<Rightarrow> bool \<times> queue_db" where
  "record_fenced_cancellation b cleanup now db =
     (if cleanup = [] then (False, db)
      else
        (case find_batch db b (\<lambda>r. ba_state r = Failed \<and> ba_version r = Some 1
                                   \<and> ba_disposition r = Some FINALIZATION_FENCED \<and> ba_finalized_at r = None) of
           None \<Rightarrow> (False, db)
         | Some r \<Rightarrow> (True, put_batch b (r\<lparr>ba_cleanup_state := Some cleanup, ba_cleanup_at := Some now,
                                              ba_updated := now\<rparr>) db)))"

end
