(* ===== verification/FleetRecovery.thy ===== *)
theory FleetRecovery
  imports FleetQueue
begin

text \<open>
  The rest of the fleet queue (\<open>src/remrun/fleet/queue.py\<close>): the ledger of the target's
  operation on a batch, the recovery of expired batches, cooldowns, and the two operations that
  delete rows, \<open>clear\<close> and \<open>prune_final\<close>.
\<close>

section \<open>The target's operation\<close>

definition record_target_reservation ::
  "string \<Rightarrow> string \<Rightarrow> string \<Rightarrow> string \<Rightarrow> work_state \<Rightarrow> string \<Rightarrow> string \<Rightarrow> queue_db \<Rightarrow> bool \<times> queue_db" where
  "record_target_reservation b op sha resume expected token now db =
     (if op = [] \<or> resume = [] \<or> \<not> is_sha256_hex sha then (False, db)
      else
        (case find_batch db b (owned expected token now) of
           None \<Rightarrow> (False, db)
         | Some r \<Rightarrow>
             if ba_operation_id r \<noteq> None
             then (ba_operation_id r = Some op \<and> ba_request_sha256 r = Some sha \<and> ba_resume_token r = Some resume
                   \<and> nonempty (ba_reserved_at r), db)
             else if ba_request_sha256 r \<noteq> None \<or> ba_resume_token r \<noteq> None \<or> ba_reserved_at r \<noteq> None
                     \<or> ba_accepted_at r \<noteq> None then (False, db)
             else (True, put_batch b (r\<lparr>ba_operation_id := Some op, ba_request_sha256 := Some sha,
                                        ba_resume_token := Some resume, ba_reserved_at := Some now,
                                        ba_updated := now\<rparr>) db)))"

definition record_target_acceptance ::
  "string \<Rightarrow> string \<Rightarrow> string \<Rightarrow> work_state \<Rightarrow> string \<Rightarrow> string \<Rightarrow> queue_db \<Rightarrow> bool \<times> queue_db" where
  "record_target_acceptance b op sha expected token now db =
     (case find_batch db b (owned expected token now) of
        None \<Rightarrow> (False, db)
      | Some r \<Rightarrow>
          if ba_operation_id r \<noteq> Some op \<or> ba_request_sha256 r \<noteq> Some sha \<or> \<not> nonempty (ba_reserved_at r)
          then (False, db)
          else if ba_accepted_at r \<noteq> None then (nonempty (ba_accepted_at r), db)
          else (True, put_batch b (r\<lparr>ba_accepted_at := Some now, ba_updated := now\<rparr>) db))"

definition authorize_target_cleanup ::
  "string \<Rightarrow> string \<Rightarrow> string \<Rightarrow> string \<Rightarrow> work_state \<Rightarrow> string \<Rightarrow> string \<Rightarrow> queue_db \<Rightarrow> bool \<times> queue_db" where
  "authorize_target_cleanup b op sha cleanup expected token now db =
     (if op = [] \<or> \<not> is_sha256_hex sha \<or> cleanup \<notin> set TERMINAL_CLEANUP then (False, db)
      else
        (case find_batch db b (owned expected token now) of
           None \<Rightarrow> (False, db)
         | Some r \<Rightarrow>
             if ba_version r \<noteq> Some 1 \<or> ba_operation_id r \<noteq> Some op \<or> ba_request_sha256 r \<noteq> Some sha
                \<or> \<not> nonempty (ba_reserved_at r) \<or> ba_finalized_at r \<noteq> None
                \<or> ba_disposition r \<in> {Some FINALIZATION_FENCED, Some FINALIZATION_MALFORMED, Some FINALIZATION_FINALIZED}
             then (False, db)
             else if ba_cleanup_state r \<noteq> None \<or> ba_cleanup_at r \<noteq> None
             then (ba_cleanup_state r = Some cleanup \<and> nonempty (ba_cleanup_at r) \<and> ba_stage_cleaned_at r = None
                   \<and> ba_durable_cleaned_at r = None \<and> ba_disposition r = Some FINALIZATION_PENDING, db)
             else if ba_stage_cleaned_at r \<noteq> None \<or> ba_durable_cleaned_at r \<noteq> None \<or> ba_disposition r \<noteq> None
             then (False, db)
             else (True, put_batch b (r\<lparr>ba_cleanup_state := Some cleanup, ba_cleanup_at := Some now,
                                        ba_disposition := Some FINALIZATION_PENDING, ba_updated := now\<rparr>) db)))"

definition record_target_finalization ::
  "string \<Rightarrow> string \<Rightarrow> string \<Rightarrow> string \<Rightarrow> bool \<Rightarrow> bool \<Rightarrow> work_state \<Rightarrow> string \<Rightarrow> string \<Rightarrow> queue_db \<Rightarrow> bool \<times> queue_db" where
  "record_target_finalization b op sha cleanup stage_cleaned durable_cleaned expected token now db =
     (if cleanup \<notin> set TERMINAL_CLEANUP \<or> \<not> stage_cleaned \<or> \<not> durable_cleaned then (False, db)
      else
        (case find_batch db b (owned expected token now) of
           None \<Rightarrow> (False, db)
         | Some r \<Rightarrow>
             if ba_operation_id r \<noteq> Some op \<or> ba_request_sha256 r \<noteq> Some sha then (False, db)
             else if ba_cleanup_state r \<noteq> None \<and> ba_cleanup_state r \<noteq> Some cleanup then (False, db)
             else if ba_finalized_at r \<noteq> None
             then (nonempty (ba_cleanup_at r) \<and> nonempty (ba_stage_cleaned_at r) \<and> nonempty (ba_durable_cleaned_at r)
                   \<and> nonempty (ba_finalized_at r), db)
             else (True, put_batch b (r\<lparr>ba_cleanup_state := Some cleanup,
                                        ba_cleanup_at := coalesce (ba_cleanup_at r) (Some now),
                                        ba_stage_cleaned_at := Some now, ba_durable_cleaned_at := Some now,
                                        ba_finalized_at := Some now, ba_disposition := Some FINALIZATION_FINALIZED,
                                        ba_updated := now\<rparr>) db)))"

record cleanup_args =
  cu_cleanup_state :: "string option"
  cu_stage_cleaned :: bool
  cu_durable_cleaned :: bool
  cu_replayable :: bool
  cu_owner_release :: bool

definition record_target_cleanup_progress ::
  "string \<Rightarrow> string \<Rightarrow> string \<Rightarrow> cleanup_args \<Rightarrow> string \<Rightarrow> queue_db \<Rightarrow> bool \<times> queue_db" where
  "record_target_cleanup_progress b op sha c now db =
     (if (case cu_cleanup_state c of None \<Rightarrow> False | Some s \<Rightarrow> s \<notin> set TERMINAL_CLEANUP) then (False, db)
      else if \<not> cu_stage_cleaned c \<and> \<not> cu_durable_cleaned c \<and> cu_cleanup_state c = None then (False, db)
      else
        (case dict_get (qd_batches db) b of
           None \<Rightarrow> (False, db)
         | Some r \<Rightarrow>
             if ba_version r \<noteq> Some 1 \<or> ba_operation_id r \<noteq> Some op \<or> ba_request_sha256 r \<noteq> Some sha then (False, db)
             else if ba_cleanup_state r \<noteq> None \<and> cu_cleanup_state c \<noteq> None \<and> ba_cleanup_state r \<noteq> cu_cleanup_state c
             then (False, db)
             else if ba_disposition r = Some FINALIZATION_MALFORMED then (False, db)
             else if ba_disposition r = Some FINALIZATION_FENCED
                     \<and> (\<not> cu_owner_release c \<or> ba_release_authorized_at r = None) then (False, db)
             else
               (True, put_batch b (r\<lparr>ba_cleanup_state := coalesce (cu_cleanup_state c) (ba_cleanup_state r),
                                     ba_cleanup_at := (if cu_cleanup_state c \<noteq> None
                                                       then coalesce (ba_cleanup_at r) (Some now) else ba_cleanup_at r),
                                     ba_stage_cleaned_at := (if cu_stage_cleaned c
                                                             then coalesce (ba_stage_cleaned_at r) (Some now)
                                                             else ba_stage_cleaned_at r),
                                     ba_durable_cleaned_at := (if cu_durable_cleaned c
                                                               then coalesce (ba_durable_cleaned_at r) (Some now)
                                                               else ba_durable_cleaned_at r),
                                     ba_disposition := (if cu_replayable c then Some FINALIZATION_REPLAYABLE
                                                        else coalesce (ba_disposition r) (Some FINALIZATION_PENDING)),
                                     ba_updated := now\<rparr>) db)))"

definition record_expired_target_finalization ::
  "string \<Rightarrow> string \<Rightarrow> string \<Rightarrow> string \<Rightarrow> bool \<Rightarrow> string \<Rightarrow> queue_db \<Rightarrow> bool \<times> queue_db" where
  "record_expired_target_finalization b op sha cleanup owner_release now db =
     (if cleanup \<notin> set TERMINAL_CLEANUP then (False, db)
      else
        (case find_batch db b (\<lambda>r. ba_version r = Some 1
                \<and> (if owner_release then ba_release_authorized_at r \<noteq> None \<and> ba_disposition r = Some FINALIZATION_FENCED
                   else ba_lease_until r < now)
                \<and> ba_operation_id r = Some op \<and> ba_request_sha256 r = Some sha
                \<and> (ba_cleanup_state r = None \<or> ba_cleanup_state r = Some cleanup)) of
           None \<Rightarrow> (False, db)
         | Some r \<Rightarrow>
             (True, put_batch b (r\<lparr>ba_cleanup_state := Some cleanup,
                                   ba_cleanup_at := coalesce (ba_cleanup_at r) (Some now),
                                   ba_stage_cleaned_at := coalesce (ba_stage_cleaned_at r) (Some now),
                                   ba_durable_cleaned_at := coalesce (ba_durable_cleaned_at r) (Some now),
                                   ba_finalized_at := coalesce (ba_finalized_at r) (Some now),
                                   ba_disposition := Some FINALIZATION_FINALIZED, ba_updated := now\<rparr>) db)))"

text \<open>
  \<open>_authorize_target_release\<close>, behind \<open>authorize_target_release_no_start\<close> and
  \<open>acknowledge_target_release_effects\<close>.
\<close>

definition authorize_target_release ::
  "string \<Rightarrow> string \<Rightarrow> bool \<Rightarrow> string \<Rightarrow> queue_db \<Rightarrow> bool \<times> queue_db" where
  "authorize_target_release op sha acknowledge now db =
     (if op = [] \<or> \<not> is_sha256_hex sha then (False, db)
      else
        (case select_where (\<lambda>_ r. ba_operation_id r = Some op \<and> ba_request_sha256 r = Some sha) (qd_batches db) of
           [(b, r)] \<Rightarrow>
             if ba_state r \<noteq> Failed \<or> ba_version r \<noteq> Some 1 \<or> ba_finalized_at r \<noteq> None
                \<or> ba_disposition r \<noteq> Some FINALIZATION_FENCED then (False, db)
             else (let sts = map (\<lambda>(_, j). jb_state j) (select_where (\<lambda>_ j. in_batch b j) (qd_jobs db))
                   in if sts = [] \<or> \<not> list_all (\<lambda>s. s \<in> {Cancelled, CompletionUnknown}) sts then (False, db)
                      else (True, put_batch b (r\<lparr>ba_release_authorized_at := coalesce (ba_release_authorized_at r) (Some now),
                                                 ba_release_acknowledged_at :=
                                                   (if acknowledge then coalesce (ba_release_acknowledged_at r) (Some now)
                                                    else ba_release_acknowledged_at r),
                                                 ba_updated := now\<rparr>) db))
         | _ \<Rightarrow> (False, db)))"

section \<open>Expired batches\<close>

definition batch_replay_policy :: "queue_env \<Rightarrow> string \<Rightarrow> queue_db \<Rightarrow> string" where
  "batch_replay_policy env b db =
     (case select_where (\<lambda>_ j. in_batch b j) (qd_jobs db) of
        [] \<Rightarrow> ''at-most-once-v1''
      | (_, j) # _ \<Rightarrow>
          (case Option.bind (jb_spec_id j) (dict_get (qd_specs db)) of
             None \<Rightarrow> ''at-most-once-v1''
           | Some bytes \<Rightarrow>
               (case qe_spec env bytes of
                  None \<Rightarrow> ''at-most-once-v1''
                | Some doc \<Rightarrow>
                    if sp_kind doc = Some ''command'' then ''at-most-once-v1''
                    else if sp_replay doc = Some ''idempotent-v1'' then ''idempotent-v1''
                    else ''at-most-once-v1'')))"

definition unknown_jobs :: "string \<Rightarrow> (work_state \<Rightarrow> bool) \<Rightarrow> string \<Rightarrow> queue_db \<Rightarrow> queue_db" where
  "unknown_jobs b P now db =
     drop_leases b
       (update_jobs (\<lambda>_ j. in_batch b j \<and> P (jb_state j))
          (\<lambda>_ j. j\<lparr>jb_state := CompletionUnknown, jb_leased_until := None,
                   jb_last_error := Some ''completion unknown after lease expiry'', jb_updated := now\<rparr>) db)"

definition expire_batch ::
  "queue_env \<Rightarrow> string \<Rightarrow> string \<Rightarrow> int \<Rightarrow> bool option \<Rightarrow> queue_db \<Rightarrow> bool \<times> queue_db" where
  "expire_batch env b now max_attempts replay_safe db =
     (case find_batch db b (\<lambda>r. ba_lease_until r < now) of
        None \<Rightarrow> (False, db)
      | Some r \<Rightarrow>
          if ba_state r \<notin> set BATCH_ACTIVE then (False, db)
          else if replay_safe = Some True \<and> ba_version r = Some 1 \<and> ba_operation_id r \<noteq> None
                  \<and> ba_finalized_at r = None then (False, db)
          else
            (let error = ''lease expired (stale recovery)'';
                 disposition = (if ba_version r = Some 1
                                then Some (case replay_safe of
                                             Some True \<Rightarrow> FINALIZATION_FINALIZED
                                           | Some False \<Rightarrow> FINALIZATION_FENCED
                                           | None \<Rightarrow> FINALIZATION_PENDING)
                                else None);
                 db1 = put_batch b (r\<lparr>ba_state := Failed, ba_error := Some error,
                                      ba_disposition := coalesce disposition (ba_disposition r), ba_updated := now\<rparr>) db
             in (True,
                 if replay_safe = Some True then finish_batch_failure b error now max_attempts False None db1
                 else if replay_safe = Some False then unknown_jobs b (\<lambda>s. s \<notin> set FINAL) now db1
                 else if ba_state r \<in> {Leased, Staging} then finish_batch_failure b error now max_attempts False None db1
                 else if batch_replay_policy env b db1 = ''idempotent-v1''
                 then finish_batch_failure b error now max_attempts False None db1
                 else unknown_jobs b (\<lambda>s. s \<in> {Running, Fetching}) now db1)))"

definition expire_stale_batch ::
  "queue_env \<Rightarrow> string \<Rightarrow> string \<Rightarrow> bool \<Rightarrow> int \<Rightarrow> queue_db \<Rightarrow> bool \<times> queue_db" where
  "expire_stale_batch env b now replay_safe max_attempts = expire_batch env b now max_attempts (Some replay_safe)"

text \<open>
  \<open>recover_stale\<close>: the expired batches without a target protocol, restricted to the batches of
  some jobs when these are given.
\<close>

definition stale_batches :: "string \<Rightarrow> string list option \<Rightarrow> queue_db \<Rightarrow> string list" where
  "stale_batches now job_ids db =
     dict_keys (select_where (\<lambda>b r. ba_state r \<notin> {Done, Failed} \<and> ba_lease_until r < now \<and> ba_version r = None
                 \<and> (case job_ids of
                      None \<Rightarrow> True
                    | Some ids \<Rightarrow> list_ex (\<lambda>(i, j). i \<in> set ids \<and> in_batch b j) (qd_jobs db)))
       (qd_batches db))"

fun expire_all :: "queue_env \<Rightarrow> string \<Rightarrow> string list \<Rightarrow> queue_db \<Rightarrow> int \<times> queue_db" where
  "expire_all env now [] db = (0, db)"
| "expire_all env now (b # bs) db =
     (let (done, db1) = expire_batch env b now MAX_ATTEMPTS None db;
          (n, db2) = expire_all env now bs db1
      in ((if done then 1 else 0) + n, db2))"

definition recover_stale :: "queue_env \<Rightarrow> string \<Rightarrow> string list option \<Rightarrow> queue_db \<Rightarrow> int \<times> queue_db" where
  "recover_stale env now job_ids db =
     (if job_ids = Some [] then (0, db)
      else (let (n, db1) = expire_all env now (stale_batches now job_ids db) db
            in (n, if job_ids = None
                   then db1\<lparr>qd_leases := delete_where (\<lambda>_ l. lease_deadline l < now) (qd_leases db1)\<rparr>
                   else db1)))"

section \<open>Cooldowns\<close>

definition set_cooldown ::
  "string \<Rightarrow> string \<Rightarrow> string \<Rightarrow> string \<Rightarrow> string \<Rightarrow> string \<Rightarrow> queue_db \<Rightarrow> queue_db" where
  "set_cooldown device until engine kind reason now db =
     (let until' = (case dict_get (qd_cooldowns db) (device, engine) of
                      None \<Rightarrow> until | Some c \<Rightarrow> max until (co_until c))
      in db\<lparr>qd_cooldowns := dict_set (device, engine)
              \<lparr>co_until = until', co_kind = kind, co_reason = reason, co_created = now\<rparr> (qd_cooldowns db)\<rparr>)"

definition is_cooled :: "string \<Rightarrow> string \<Rightarrow> string \<Rightarrow> queue_db \<Rightarrow> bool" where
  "is_cooled device engine now db \<longleftrightarrow>
     list_ex (\<lambda>(k, c). fst k = device \<and> snd k \<in> {[], engine} \<and> now < co_until c) (qd_cooldowns db)"

definition prune_cooldowns :: "string \<Rightarrow> queue_db \<Rightarrow> int \<times> queue_db" where
  "prune_cooldowns now db =
     (int (length (select_where (\<lambda>_ c. co_until c \<le> now) (qd_cooldowns db))),
      db\<lparr>qd_cooldowns := delete_where (\<lambda>_ c. co_until c \<le> now) (qd_cooldowns db)\<rparr>)"

section \<open>Deleting rows\<close>

text \<open>
  The condition on the target columns that both operations negate.  Without a target protocol
  the first comparison is \<open>NULL\<close>, and so is the whole condition.
\<close>

definition protected_target :: "batch_row \<Rightarrow> sql_bool" where
  "protected_target r =
     sql_or (sql_and (sql_eq (ba_version r) (Some 1))
                     (Some (coalesce (ba_disposition r) (Some []) \<noteq> Some FINALIZATION_FINALIZED)))
       (sql_or (not_null (ba_operation_id r))
          (sql_or (not_null (ba_request_sha256 r))
             (sql_or (not_null (ba_resume_token r))
                (sql_or (not_null (ba_reserved_at r)) (not_null (ba_accepted_at r))))))"

definition unfinalized :: "batch_row \<Rightarrow> bool" where
  "unfinalized r \<longleftrightarrow> is_true (sql_and (protected_target r) (Some (ba_finalized_at r = None)))"

definition releasable :: "batch_row \<Rightarrow> bool" where
  "releasable r \<longleftrightarrow> is_true (sql_or (sql_not (protected_target r)) (not_null (ba_finalized_at r)))"

definition removable :: "queue_db \<Rightarrow> job_row \<Rightarrow> bool" where
  "removable db j \<longleftrightarrow>
     (case jb_batch j of
        None \<Rightarrow> True
      | Some b \<Rightarrow> b \<notin> set (dict_keys (select_where (\<lambda>_ r. unfinalized r) (qd_batches db))))"

record clear_counts =
  cc_jobs :: nat
  cc_leases :: nat
  cc_cooldowns :: nat
  cc_protected :: nat

definition clear :: "bool \<Rightarrow> queue_db \<Rightarrow> clear_counts \<times> queue_db" where
  "clear include_final db =
     (let victim = (\<lambda>_ j. (include_final \<or> jb_state j \<notin> set FINAL) \<and> removable db j);
          jobs = delete_where victim (qd_jobs db);
          batches = delete_where (\<lambda>_ r. (include_final \<or> ba_state r \<notin> {Done, Failed}) \<and> releasable r) (qd_batches db);
          kept = dict_keys (select_where (\<lambda>_ r. unfinalized r) batches);
          leases = delete_where (\<lambda>_ l. lease_batch l \<notin> set kept) (qd_leases db)
      in (\<lparr>cc_jobs = length (qd_jobs db) - length jobs, cc_leases = length (qd_leases db) - length leases,
           cc_cooldowns = length (qd_cooldowns db),
           cc_protected = length (select_where (\<lambda>_ r. unfinalized r) (qd_batches db))\<rparr>,
          db\<lparr>qd_jobs := jobs, qd_batches := batches, qd_leases := leases, qd_cooldowns := []\<rparr>))"

text \<open>
  \<open>prune_final\<close>: a job joined with its batch; without a batch row every column of the batch is
  \<open>NULL\<close>.  \<open>ORDER BY updated_at DESC\<close>, and rows with one time in the order of the table.
\<close>

definition prunable :: "queue_db \<Rightarrow> job_row \<Rightarrow> bool" where
  "prunable db j \<longleftrightarrow>
     jb_state j \<in> set PRUNABLE
     \<and> (case jb_batch j of
          None \<Rightarrow> True
        | Some b \<Rightarrow> (case dict_get (qd_batches db) b of None \<Rightarrow> False | Some r \<Rightarrow> releasable r))"

definition prune_order :: "queue_db \<Rightarrow> string list" where
  "prune_order db =
     dict_keys (rev (sort_key (\<lambda>(_, j). jb_updated j) (rev (select_where (\<lambda>_ j. prunable db j) (qd_jobs db)))))"

definition prune_final :: "nat \<Rightarrow> queue_db \<Rightarrow> nat \<times> queue_db" where
  "prune_final keep db =
     (let victims = drop keep (prune_order db);
          jobs = delete_where (\<lambda>i _. i \<in> set victims) (qd_jobs db);
          used = List.map_filter (\<lambda>(_, j). jb_batch j) jobs;
          leased = map (\<lambda>(_, l). lease_batch l) (qd_leases db)
      in (length victims,
          db\<lparr>qd_jobs := jobs,
             qd_batches := delete_where (\<lambda>b r. ba_state r \<in> {Done, Failed} \<and> b \<notin> set used \<and> b \<notin> set leased
                                                \<and> releasable r) (qd_batches db)\<rparr>))"

end
