(* ===== verification/FleetSteps.thy ===== *)
theory FleetSteps
  imports FleetRecovery StateMachine
begin

text \<open>
  The abstract machine of the fleet queue: the transitions that a job, a batch and a pool lease
  may take, with their guards, and the invariant that ties the three tables together.
\<close>

section \<open>Lookups\<close>

abbreviation job_at :: "queue_db \<Rightarrow> string \<Rightarrow> job_row option" where
  "job_at db \<equiv> dict_get (qd_jobs db)"

abbreviation batch_at :: "queue_db \<Rightarrow> string \<Rightarrow> batch_row option" where
  "batch_at db \<equiv> dict_get (qd_batches db)"

abbreviation pool_at :: "queue_db \<Rightarrow> string \<times> string \<Rightarrow> (string \<times> string) option" where
  "pool_at db \<equiv> dict_get (qd_leases db)"

lemma table_simps [simp]:
  "qd_jobs (put_batch b r db) = qd_jobs db" "qd_leases (put_batch b r db) = qd_leases db"
  "qd_batches (update_jobs P f db) = qd_batches db" "qd_leases (update_jobs P f db) = qd_leases db"
  "qd_jobs (drop_leases b db) = qd_jobs db" "qd_batches (drop_leases b db) = qd_batches db"
  "qd_jobs (update_jobs P f db) = update_where P f (qd_jobs db)"
  "qd_batches (put_batch b r db) = dict_set b r (qd_batches db)"
  "qd_leases (drop_leases b db) = delete_where (\<lambda>_ l. lease_batch l = b) (qd_leases db)"
  by (simp_all add: put_batch_def update_jobs_def drop_leases_def)

lemma find_batch_Some: "find_batch db b P = Some r \<longleftrightarrow> batch_at db b = Some r \<and> P r"
  by (auto simp: find_batch_def split: option.splits)

lemma executing_iff: "s \<in> set BATCH_EXECUTING \<longleftrightarrow> s = Leased \<or> s = Staging \<or> s = Running \<or> s = Fetching"
  by (auto simp: BATCH_EXECUTING_def)

lemma active_iff: "s \<in> set BATCH_ACTIVE \<longleftrightarrow> s \<in> set BATCH_EXECUTING \<or> s = Cancelling"
  by (auto simp: BATCH_ACTIVE_def)

lemma final_iff: "s \<in> set FINAL \<longleftrightarrow> s = Done \<or> s = FailedFinal \<or> s = NeedsReview \<or> s = Cancelled"
  by (auto simp: FINAL_def)

lemmas state_sets = executing_iff active_iff final_iff

section \<open>The invariant\<close>

text \<open>
  The state of a job against the state of its batch: an executing job is in the state of its
  batch, unless the batch is being cancelled; a job that is no longer executing belongs to a
  batch that has ended, and a batch that is done has only jobs that are done.
\<close>

definition linked :: "work_state \<Rightarrow> work_state \<Rightarrow> bool" where
  "linked js bs \<longleftrightarrow>
     (if js \<in> set BATCH_EXECUTING then bs = js \<or> bs = Cancelling
      else (bs = Failed \<and> js \<in> {Done, FailedFinal, NeedsReview, Cancelled, CompletionUnknown})
           \<or> (bs = Done \<and> js = Done))"

text \<open>A job without a batch waits or was settled while it waited.\<close>

definition detached :: "work_state \<Rightarrow> bool" where
  "detached js \<longleftrightarrow> js \<in> {Queued, FailedFinal, NeedsReview, Cancelled}"

definition job_ok :: "queue_db \<Rightarrow> job_row \<Rightarrow> bool" where
  "job_ok db j \<longleftrightarrow>
     jb_attempts j \<le> MAX_ATTEMPTS \<and> (jb_state j = Queued \<longrightarrow> jb_attempts j < MAX_ATTEMPTS)
     \<and> (case jb_batch j of
          None \<Rightarrow> detached (jb_state j)
        | Some b \<Rightarrow> \<exists>r. batch_at db b = Some r \<and> linked (jb_state j) (ba_state r))"

definition batch_ok :: "batch_row \<Rightarrow> bool" where
  "batch_ok r \<longleftrightarrow> ba_state r \<in> set BATCH_ACTIVE \<union> {Done, Failed} \<and> (ba_state r = Cancelling \<longrightarrow> ba_version r = Some 1)"

definition pool_lease_ok :: "queue_db \<Rightarrow> string \<times> string \<Rightarrow> string \<times> string \<Rightarrow> bool" where
  "pool_lease_ok db k l \<longleftrightarrow>
     (\<exists>r. batch_at db (lease_batch l) = Some r \<and> ba_state r \<in> set BATCH_ACTIVE \<and> ba_device r = fst k
          \<and> ba_lease_until r = lease_deadline l)"

text \<open>The unique index on the idempotency keys of the jobs that are not final.\<close>

definition keyed :: "string \<Rightarrow> job_row \<Rightarrow> bool" where
  "keyed key j \<longleftrightarrow> jb_idempotency_key j = Some key \<and> key \<noteq> [] \<and> jb_state j \<notin> set FINAL"

definition keys_unique :: "queue_db \<Rightarrow> bool" where
  "keys_unique db \<longleftrightarrow>
     (\<forall>key i j i' j'. job_at db i = Some j \<and> job_at db i' = Some j' \<and> keyed key j \<and> keyed key j' \<longrightarrow> i = i')"

definition queue_inv :: "queue_db \<Rightarrow> bool" where
  "queue_inv db \<longleftrightarrow>
     dict_ok (qd_jobs db) \<and> dict_ok (qd_batches db) \<and> dict_ok (qd_leases db)
     \<and> (\<forall>i j. job_at db i = Some j \<longrightarrow> job_ok db j)
     \<and> (\<forall>b r. batch_at db b = Some r \<longrightarrow> batch_ok r)
     \<and> (\<forall>k l. pool_at db k = Some l \<longrightarrow> pool_lease_ok db k l)
     \<and> keys_unique db"

section \<open>The abstract machine\<close>

text \<open>What no transition changes: the frozen work of a job, and who a batch is.\<close>

definition same_work :: "job_row \<Rightarrow> job_row \<Rightarrow> bool" where
  "same_work j j' \<longleftrightarrow>
     jb_task_name j' = jb_task_name j \<and> jb_prepared_json j' = jb_prepared_json j \<and> jb_prepared_id j' = jb_prepared_id j
     \<and> jb_spec_id j' = jb_spec_id j \<and> jb_priority j' = jb_priority j
     \<and> jb_idempotency_key j' = jb_idempotency_key j \<and> jb_created j' = jb_created j"

definition same_batch :: "batch_row \<Rightarrow> batch_row \<Rightarrow> bool" where
  "same_batch r r' \<longleftrightarrow>
     ba_owner_token r' = ba_owner_token r \<and> ba_device r' = ba_device r \<and> ba_task_name r' = ba_task_name r
     \<and> ba_engine r' = ba_engine r \<and> ba_bucket r' = ba_bucket r \<and> ba_created r' = ba_created r
     \<and> ba_placement_json r' = ba_placement_json r \<and> ba_version r' = ba_version r"

text \<open>The target's identity is written once, and a proof of cleanup is never withdrawn.\<close>

definition once :: "'a option \<Rightarrow> 'a option \<Rightarrow> bool" where
  "once v v' \<longleftrightarrow> v = None \<or> v' = v"

definition kept :: "'a option \<Rightarrow> 'a option \<Rightarrow> bool" where
  "kept v v' \<longleftrightarrow> (v \<noteq> None \<longrightarrow> v' \<noteq> None)"

definition ledger_le :: "batch_row \<Rightarrow> batch_row \<Rightarrow> bool" where
  "ledger_le r r' \<longleftrightarrow>
     once (ba_operation_id r) (ba_operation_id r') \<and> once (ba_request_sha256 r) (ba_request_sha256 r')
     \<and> once (ba_resume_token r) (ba_resume_token r') \<and> once (ba_reserved_at r) (ba_reserved_at r')
     \<and> once (ba_accepted_at r) (ba_accepted_at r') \<and> once (ba_finalized_at r) (ba_finalized_at r')
     \<and> once (ba_release_authorized_at r) (ba_release_authorized_at r')
     \<and> kept (ba_cleanup_state r) (ba_cleanup_state r') \<and> kept (ba_cleanup_at r) (ba_cleanup_at r')
     \<and> kept (ba_stage_cleaned_at r) (ba_stage_cleaned_at r') \<and> kept (ba_durable_cleaned_at r) (ba_durable_cleaned_at r')"

definition successor :: "batch_row \<Rightarrow> batch_row \<Rightarrow> bool" where
  "successor r r' \<longleftrightarrow> same_batch r r' \<and> ledger_le r r'"

text \<open>A job that its batch lets go of: requeued with attempts left, or settled with the batch.\<close>

definition finished_job :: "work_state \<Rightarrow> job_row \<Rightarrow> job_row \<Rightarrow> bool" where
  "finished_job bs j j' \<longleftrightarrow>
     same_work j j' \<and> jb_attempts j' = jb_attempts j
     \<and> (jb_state j' = Queued \<and> jb_batch j' = None \<and> jb_attempts j < MAX_ATTEMPTS
        \<or> jb_batch j' = jb_batch j \<and> jb_state j' \<notin> set BATCH_EXECUTING \<and> linked (jb_state j') bs)"

text \<open>
  The transitions at the time \<open>now\<close>; \<open>D\<close> says which operations that delete rows are among
  them, the operator's \<open>clear\<close> and the dispatcher's \<open>prune_final\<close>.
\<close>

datatype deletion = Wipe | Prune

inductive queue_step :: "deletion set \<Rightarrow> string \<Rightarrow> queue_db \<Rightarrow> queue_db \<Rightarrow> bool" for D :: "deletion set" and now :: string where
  settle: "st \<in> {FailedFinal, NeedsReview, Cancelled} \<Longrightarrow> queue_step D now db (settle_queued i st e now db)"
| free: "(\<And>k l. P k l \<Longrightarrow> lease_deadline l < now)
     \<Longrightarrow> queue_step D now db (db\<lparr>qd_leases := delete_where P (qd_leases db)\<rparr>)"
| claim: "\<lbrakk>now < cl_lease_until a; batch_at db (cl_batch_id a) = None; \<not> pool_held a db;
      \<forall>i \<in> set (cl_job_ids a). \<exists>j. job_at db i = Some j \<and> jb_state j = Queued\<rbrakk>
     \<Longrightarrow> queue_step D now db (grant_claim a placement now db)"
| advance: "\<lbrakk>batch_at db b = Some r; ba_state r \<in> set BATCH_EXECUTING; now < ba_lease_until r; st \<in> set BATCH_EXECUTING\<rbrakk>
     \<Longrightarrow> queue_step D now db
           (update_jobs (\<lambda>_ j. in_batch b j \<and> jb_state j = ba_state r) (\<lambda>_ j. j\<lparr>jb_state := st, jb_updated := now\<rparr>)
              (put_batch b (r\<lparr>ba_state := st, ba_updated := now\<rparr>) db))"
| renew: "\<lbrakk>batch_at db b = Some r; now < ba_lease_until r; now < until\<rbrakk>
     \<Longrightarrow> queue_step D now db
           (update_jobs (\<lambda>_ j. in_batch b j \<and> jb_state j = ba_state r) (\<lambda>_ j. j\<lparr>jb_leased_until := Some until\<rparr>)
              ((put_batch b (r\<lparr>ba_lease_until := until, ba_heartbeat := Some now, ba_updated := now\<rparr>) db)
                 \<lparr>qd_leases := update_where (\<lambda>_ l. lease_batch l = b) (\<lambda>_ l. (lease_batch l, until)) (qd_leases db)\<rparr>))"
| ledger: "\<lbrakk>batch_at db b = Some r; successor r r'; ba_state r' = ba_state r; ba_lease_until r' = ba_lease_until r\<rbrakk>
     \<Longrightarrow> queue_step D now db (put_batch b r' db)"
| cancel: "\<lbrakk>batch_at db b = Some r; ba_state r \<in> set BATCH_EXECUTING; ba_version r = Some 1; ba_cleanup_state r = None;
      successor r r'; ba_state r' = Cancelling; ba_lease_until r' = ba_lease_until r\<rbrakk>
     \<Longrightarrow> queue_step D now db (put_batch b r' db)"
| finish: "\<lbrakk>batch_at db b = Some r; ba_state r \<in> set BATCH_ACTIVE; now \<noteq> ba_lease_until r \<or> ba_state r = Cancelling;
      successor r r'; ba_state r' \<in> {Done, Failed}; ba_lease_until r' = ba_lease_until r;
      \<And>i j. P i j \<Longrightarrow> in_batch b j;
      \<And>i j. job_at db i = Some j \<Longrightarrow> in_batch b j \<Longrightarrow> P i j \<and> finished_job (ba_state r') j (f i j)\<rbrakk>
     \<Longrightarrow> queue_step D now db (drop_leases b (update_jobs P f (put_batch b r' db)))"
| annotate: "(\<And>j. same_work j (f j) \<and> jb_state (f j) = jb_state j \<and> jb_batch (f j) = jb_batch j \<and> jb_attempts (f j) = jb_attempts j)
     \<Longrightarrow> queue_step D now db (update_jobs P (\<lambda>_. f) db)"
| other: "\<lbrakk>qd_jobs db' = qd_jobs db; qd_batches db' = qd_batches db; qd_leases db' = qd_leases db\<rbrakk> \<Longrightarrow> queue_step D now db db'"
| wipe: "Wipe \<in> D \<Longrightarrow> queue_step D now db (snd (clear include_final db))"
| prune: "Prune \<in> D \<Longrightarrow> queue_step D now db (snd (prune_final keep db))"
| enqueue: "\<lbrakk>job_at db i = None; jb_state j = Queued; jb_attempts j = 0; jb_batch j = None;
      \<And>key i' j'. keyed key j \<Longrightarrow> job_at db i' = Some j' \<Longrightarrow> \<not> keyed key j'\<rbrakk>
     \<Longrightarrow> queue_step D now db (db\<lparr>qd_jobs := qd_jobs db @ [(i, j)]\<rparr>)"

abbreviation queue_steps :: "deletion set \<Rightarrow> string \<Rightarrow> queue_db \<Rightarrow> queue_db \<Rightarrow> bool" where
  "queue_steps D now \<equiv> (queue_step D now)\<^sup>*\<^sup>*"

end
