(* ===== verification/FleetInv.thy ===== *)
theory FleetInv
  imports FleetSteps
begin

text \<open>
  Every transition of the fleet queue keeps the invariant.
\<close>

section \<open>Parts of the invariant\<close>

lemma queue_invD:
  assumes "queue_inv db"
  shows "dict_ok (qd_jobs db)" "dict_ok (qd_batches db)" "dict_ok (qd_leases db)"
    "job_at db i = Some j \<Longrightarrow> job_ok db j" "batch_at db b = Some r \<Longrightarrow> batch_ok r"
    "pool_at db k = Some l \<Longrightarrow> pool_lease_ok db k l" "keys_unique db"
  using assms unfolding queue_inv_def by blast+

lemma job_ok_batch_mono:
  assumes "job_ok db j"
    and "\<And>b r. jb_batch j = Some b \<Longrightarrow> batch_at db b = Some r \<Longrightarrow> linked (jb_state j) (ba_state r)
           \<Longrightarrow> \<exists>r'. batch_at db' b = Some r' \<and> linked (jb_state j) (ba_state r')"
  shows "job_ok db' j"
  using assms unfolding job_ok_def by (auto split: option.splits)

lemma job_ok_cong:
  assumes "qd_batches db' = qd_batches db" and "jb_state j' = jb_state j" "jb_batch j' = jb_batch j" "jb_attempts j' = jb_attempts j"
  shows "job_ok db' j' \<longleftrightarrow> job_ok db j"
  unfolding job_ok_def assms ..

text \<open>A change of the jobs that keeps every key and makes no final job active keeps the keys unique.\<close>

lemma keys_unique_update:
  assumes "keys_unique db"
    and "\<And>i j'. job_at db' i = Some j' \<Longrightarrow> \<exists>j. job_at db i = Some j \<and> jb_idempotency_key j' = jb_idempotency_key j
           \<and> (jb_state j \<in> set FINAL \<longrightarrow> jb_state j' \<in> set FINAL)"
  shows "keys_unique db'"
  unfolding keys_unique_def
proof (intro allI impI)
  fix key i j i' j'
  assume a: "job_at db' i = Some j \<and> job_at db' i' = Some j' \<and> keyed key j \<and> keyed key j'"
  have was: "\<exists>h. job_at db k = Some h \<and> keyed key h" if "job_at db' k = Some g" "keyed key g" for k g
    using assms(2) [OF that(1)] that(2) by (auto simp: keyed_def)
  from was a obtain h h' where "job_at db i = Some h" "keyed key h" "job_at db i' = Some h'" "keyed key h'"
    by blast
  with assms(1) show "i = i'" unfolding keys_unique_def by blast
qed

section \<open>Transitions of jobs alone\<close>

lemma jobs_inv:
  assumes inv: "queue_inv db" and same: "qd_batches db' = qd_batches db" "qd_leases db' = qd_leases db"
    and jobs: "dict_ok (qd_jobs db')" "\<And>i j. job_at db' i = Some j \<Longrightarrow> job_ok db' j" "keys_unique db'"
  shows "queue_inv db'"
proof -
  have "pool_lease_ok db' = pool_lease_ok db" unfolding pool_lease_ok_def same ..
  with inv jobs show ?thesis unfolding queue_inv_def same by metis
qed

lemma settle_inv:
  assumes inv: "queue_inv db" and st: "st \<in> {FailedFinal, NeedsReview, Cancelled}"
  shows "queue_inv (settle_queued i st e now db)"
proof -
  let ?db = "settle_queued i st e now db"
  have jobs: "job_ok ?db j'" if at: "job_at ?db k = Some j'" for k j'
  proof -
    from at obtain j where j: "job_at db k = Some j"
      and j': "j' = (if k = i \<and> jb_state j = Queued then j\<lparr>jb_state := st, jb_last_error := Some e, jb_updated := now\<rparr> else j)"
      by (auto simp: settle_queued_def dict_simps)
    from queue_invD(4) [OF inv j] st show ?thesis
      unfolding j' job_ok_def
      by (auto simp: settle_queued_def detached_def linked_def executing_iff split: option.splits)
  qed
  have keys: "keys_unique ?db"
    by (rule keys_unique_update [OF queue_invD(7) [OF inv]])
      (use st in \<open>auto simp: settle_queued_def dict_simps final_iff split: if_splits\<close>)
  show ?thesis
    by (rule jobs_inv [OF inv _ _ _ jobs keys]) (use queue_invD(1) [OF inv] in \<open>simp_all add: settle_queued_def\<close>)
qed

lemma annotate_inv:
  assumes inv: "queue_inv db"
    and same: "\<And>j. same_work j (f j) \<and> jb_state (f j) = jb_state j \<and> jb_batch (f j) = jb_batch j \<and> jb_attempts (f j) = jb_attempts j"
  shows "queue_inv (update_jobs P (\<lambda>_. f) db)"
proof -
  let ?db = "update_jobs P (\<lambda>_. f) db"
  have job: "\<exists>j. job_at db k = Some j \<and> jb_state j' = jb_state j \<and> jb_batch j' = jb_batch j \<and> jb_attempts j' = jb_attempts j
      \<and> jb_idempotency_key j' = jb_idempotency_key j" if "job_at ?db k = Some j'" for k j'
    using that same by (auto simp: dict_simps same_work_def)
  have jobs: "job_ok ?db j'" if at: "job_at ?db k = Some j'" for k j'
    using job [OF at] queue_invD(4) [OF inv] job_ok_cong [of ?db db] by (metis table_simps(3))
  have keys: "keys_unique ?db"
    by (rule keys_unique_update [OF queue_invD(7) [OF inv]]) (use job in fastforce)
  show ?thesis by (rule jobs_inv [OF inv _ _ _ jobs keys]) (use queue_invD(1) [OF inv] in simp_all)
qed

lemma enqueue_inv:
  assumes inv: "queue_inv db" and new: "job_at db i = None"
    and j: "jb_state j = Queued" "jb_attempts j = 0" "jb_batch j = None"
    and key: "\<And>key i' j'. keyed key j \<Longrightarrow> job_at db i' = Some j' \<Longrightarrow> \<not> keyed key j'"
  shows "queue_inv (db\<lparr>qd_jobs := qd_jobs db @ [(i, j)]\<rparr>)"
proof -
  let ?db = "db\<lparr>qd_jobs := qd_jobs db @ [(i, j)]\<rparr>"
  have at: "job_at ?db k = (if k = i then Some j else job_at db k)" for k
    using new by (auto simp: map_add_def split: option.splits)
  have "job_ok ?db j" using j by (simp add: job_ok_def detached_def MAX_ATTEMPTS_def)
  then have jobs: "job_ok ?db h" if "job_at ?db k = Some h" for k h
    using that queue_invD(4) [OF inv] job_ok_cong [of ?db db h h] unfolding at by (auto split: if_splits)
  have keys: "keys_unique ?db"
    using queue_invD(7) [OF inv] key unfolding keys_unique_def at by (auto split: if_splits; blast)
  have "dict_ok (qd_jobs ?db)"
    using queue_invD(1) [OF inv] new by (simp add: dict_get_None_iff)
  then show ?thesis by (intro jobs_inv [OF inv _ _ _ jobs keys]) simp_all
qed

section \<open>Transitions of leases alone\<close>

lemma free_inv:
  assumes inv: "queue_inv db"
  shows "queue_inv (db\<lparr>qd_leases := delete_where P (qd_leases db)\<rparr>)"
proof -
  let ?db = "db\<lparr>qd_leases := delete_where P (qd_leases db)\<rparr>"
  have "pool_lease_ok ?db k l" if "pool_at ?db k = Some l" for k l
    using that queue_invD(6) [OF inv, of k l] dict_get_delete_where [OF queue_invD(3) [OF inv], of P k]
    by (auto simp: pool_lease_ok_def split: option.splits if_splits)
  with inv job_ok_cong [of ?db db] show ?thesis unfolding queue_inv_def keys_unique_def by simp
qed

lemma other_inv:
  assumes inv: "queue_inv db" and same: "qd_jobs db' = qd_jobs db" "qd_batches db' = qd_batches db" "qd_leases db' = qd_leases db"
  shows "queue_inv db'"
  using inv job_ok_cong [of db' db] unfolding queue_inv_def keys_unique_def pool_lease_ok_def same by blast

section \<open>Transitions of one batch\<close>

lemma one_batch_inv:
  assumes inv: "queue_inv db" and r': "batch_ok r'"
    and batches: "qd_batches db' = dict_set b r' (qd_batches db)"
    and jobs: "qd_jobs db' = update_where P f (qd_jobs db)"
    and out: "\<And>i j. P i j \<Longrightarrow> in_batch b j"
    and job: "\<And>i j j'. job_at db i = Some j \<Longrightarrow> in_batch b j \<Longrightarrow> j' = (if P i j then f i j else j)
        \<Longrightarrow> job_ok db' j' \<and> jb_idempotency_key j' = jb_idempotency_key j \<and> (jb_state j \<in> set FINAL \<longrightarrow> jb_state j' \<in> set FINAL)"
    and leases: "dict_ok (qd_leases db')" "\<And>k l. pool_at db' k = Some l \<Longrightarrow> pool_lease_ok db' k l"
  shows "queue_inv db'"
proof -
  have old: "\<exists>j. job_at db i = Some j \<and> (if in_batch b j then j' = (if P i j then f i j else j) else j' = j)"
    if "job_at db' i = Some j'" for i j'
    using that out unfolding jobs by (auto simp: dict_get_update_where)
  have ok: "job_ok db' j'" if at: "job_at db' i = Some j'" for i j'
  proof -
    from old [OF at] obtain j where j: "job_at db i = Some j" and
      j': "if in_batch b j then j' = (if P i j then f i j else j) else j' = j" by blast
    show ?thesis
    proof (cases "in_batch b j")
      case True
      with job [OF j True] j' show ?thesis by simp
    next
      case False
      then have "jb_batch j \<noteq> Some b" by (simp add: in_batch_def)
      with False j' show ?thesis
        by (auto intro!: job_ok_batch_mono [OF queue_invD(4) [OF inv j]] simp: batches dict_get_set)
    qed
  qed
  have keys: "keys_unique db'"
    by (rule keys_unique_update [OF queue_invD(7) [OF inv]]) (use old job in \<open>fastforce split: if_splits\<close>)
  have "batch_ok q" if "batch_at db' a = Some q" for a q
    using that r' queue_invD(5) [OF inv] unfolding batches by (auto simp: dict_get_set split: if_splits)
  moreover have "dict_ok (qd_jobs db')" "dict_ok (qd_batches db')"
    using queue_invD(1,2) [OF inv] unfolding jobs batches by (simp_all add: dict_ok_set)
  ultimately show ?thesis unfolding queue_inv_def using ok keys leases by blast
qed

lemma update_where_none [simp]: "update_where (\<lambda>_ _. False) f t = t"
  by (simp add: update_where_def)

lemma linked_executing: "linked js bs \<Longrightarrow> bs \<in> set BATCH_EXECUTING \<Longrightarrow> js = bs"
  by (auto simp: linked_def executing_iff split: if_splits)

lemma linked_active: "linked js bs \<Longrightarrow> bs \<in> set BATCH_ACTIVE \<Longrightarrow> js \<in> set BATCH_EXECUTING"
  by (auto simp: linked_def state_sets split: if_splits)

lemma in_batch_linked:
  assumes "queue_inv db" and "job_at db i = Some j" and "in_batch b j" and "batch_at db b = Some r"
  shows "linked (jb_state j) (ba_state r)" "jb_attempts j \<le> MAX_ATTEMPTS" "jb_state j \<noteq> Queued"
  using queue_invD(4) [OF assms(1,2)] assms(3,4)
  by (auto simp: job_ok_def in_batch_def linked_def executing_iff split: if_splits)

lemma job_okI:
  assumes "jb_attempts j \<le> MAX_ATTEMPTS" "jb_state j \<noteq> Queued" "jb_batch j = Some b"
    "batch_at db b = Some r" "linked (jb_state j) (ba_state r)"
  shows "job_ok db j"
  using assms by (simp add: job_ok_def)

text \<open>Leases after a change of one batch.\<close>

lemma leases_keep:
  assumes inv: "queue_inv db" and r: "batch_at db b = Some r"
    and r': "ba_device r' = ba_device r" "ba_lease_until r' = ba_lease_until r" "ba_state r \<in> set BATCH_ACTIVE \<longrightarrow> ba_state r' \<in> set BATCH_ACTIVE"
    and db': "qd_batches db' = dict_set b r' (qd_batches db)" "qd_leases db' = qd_leases db"
  shows "dict_ok (qd_leases db')" "pool_at db' k = Some l \<Longrightarrow> pool_lease_ok db' k l"
  using queue_invD(3) [OF inv] queue_invD(6) [OF inv, of k l] r r' unfolding pool_lease_ok_def db'
  by (auto simp: dict_get_set)

lemma ledger_inv:
  assumes inv: "queue_inv db" and r: "batch_at db b = Some r" and s: "successor r r'"
    and st: "ba_state r' = ba_state r" and until: "ba_lease_until r' = ba_lease_until r"
  shows "queue_inv (put_batch b r' db)"
proof (rule one_batch_inv [OF inv, of r' _ b "\<lambda>_ _. False"])
  show "batch_ok r'" using queue_invD(5) [OF inv r] s st by (auto simp: batch_ok_def successor_def same_batch_def)
  fix i j j' assume j: "job_at db i = Some j" "in_batch b j" "j' = (if False then undefined i j else j)"
  from in_batch_linked [OF inv j(1,2) r] j(2,3) st show "job_ok (put_batch b r' db) j' \<and>
      jb_idempotency_key j' = jb_idempotency_key j \<and> (jb_state j \<in> set FINAL \<longrightarrow> jb_state j' \<in> set FINAL)"
    by (auto intro!: job_okI simp: in_batch_def dict_get_set)
next
  from s have "ba_device r' = ba_device r" by (simp add: successor_def same_batch_def)
  note keep = leases_keep [OF inv r this until, of "put_batch b r' db"]
  from keep st show "dict_ok (qd_leases (put_batch b r' db))" by simp
  fix k l assume "pool_at (put_batch b r' db) k = Some l"
  with keep st show "pool_lease_ok (put_batch b r' db) k l" by simp
qed simp_all

lemma cancel_inv:
  assumes inv: "queue_inv db" and r: "batch_at db b = Some r" and exec: "ba_state r \<in> set BATCH_EXECUTING"
    and v: "ba_version r = Some 1" and s: "successor r r'"
    and st: "ba_state r' = Cancelling" and until: "ba_lease_until r' = ba_lease_until r"
  shows "queue_inv (put_batch b r' db)"
proof (rule one_batch_inv [OF inv, of r' _ b "\<lambda>_ _. False"])
  show "batch_ok r'" using v s st by (auto simp: batch_ok_def successor_def same_batch_def active_iff)
  fix i j j' assume j: "job_at db i = Some j" "in_batch b j" "j' = (if False then undefined i j else j)"
  from linked_executing [OF in_batch_linked(1) [OF inv j(1,2) r] exec] exec st
  have "linked (jb_state j) (ba_state r')" by (simp add: linked_def)
  with in_batch_linked [OF inv j(1,2) r] j(2,3) show "job_ok (put_batch b r' db) j' \<and>
      jb_idempotency_key j' = jb_idempotency_key j \<and> (jb_state j \<in> set FINAL \<longrightarrow> jb_state j' \<in> set FINAL)"
    by (auto intro!: job_okI simp: in_batch_def dict_get_set)
next
  from s have "ba_device r' = ba_device r" by (simp add: successor_def same_batch_def)
  note keep = leases_keep [OF inv r this until, of "put_batch b r' db"]
  from keep st show "dict_ok (qd_leases (put_batch b r' db))" by (simp add: active_iff)
  fix k l assume "pool_at (put_batch b r' db) k = Some l"
  with keep st show "pool_lease_ok (put_batch b r' db) k l" by (simp add: active_iff)
qed simp_all

lemma advance_inv:
  assumes inv: "queue_inv db" and r: "batch_at db b = Some r" and exec: "ba_state r \<in> set BATCH_EXECUTING"
    and st: "st \<in> set BATCH_EXECUTING"
  shows "queue_inv (update_jobs (\<lambda>_ j. in_batch b j \<and> jb_state j = ba_state r) (\<lambda>_ j. j\<lparr>jb_state := st, jb_updated := now\<rparr>)
           (put_batch b (r\<lparr>ba_state := st, ba_updated := now\<rparr>) db))" (is "queue_inv ?db")
proof (rule one_batch_inv [OF inv, of "r\<lparr>ba_state := st, ba_updated := now\<rparr>" _ b
      "\<lambda>_ j. in_batch b j \<and> jb_state j = ba_state r" "\<lambda>_ j. j\<lparr>jb_state := st, jb_updated := now\<rparr>"])
  show "batch_ok (r\<lparr>ba_state := st, ba_updated := now\<rparr>)" using st by (auto simp: batch_ok_def state_sets)
  fix i j j' assume j: "job_at db i = Some j" "in_batch b j"
    "j' = (if in_batch b j \<and> jb_state j = ba_state r then j\<lparr>jb_state := st, jb_updated := now\<rparr> else j)"
  from linked_executing [OF in_batch_linked(1) [OF inv j(1,2) r] exec] j(2,3)
  have j': "j' = j\<lparr>jb_state := st, jb_updated := now\<rparr>" "jb_state j \<in> set BATCH_EXECUTING" using exec by simp_all
  have "job_ok ?db j'"
    by (rule job_okI [of _ b _ "r\<lparr>ba_state := st, ba_updated := now\<rparr>"])
      (use j(2) j' st in_batch_linked [OF inv j(1,2) r] in \<open>auto simp: in_batch_def dict_get_set linked_def executing_iff\<close>)
  with j' st show "job_ok ?db j' \<and> jb_idempotency_key j' = jb_idempotency_key j \<and>
      (jb_state j \<in> set FINAL \<longrightarrow> jb_state j' \<in> set FINAL)" by (auto simp: state_sets)
next
  note keep = leases_keep [OF inv r, of "r\<lparr>ba_state := st, ba_updated := now\<rparr>" ?db]
  from keep st show "dict_ok (qd_leases ?db)" by (simp add: active_iff)
  fix k l assume "pool_at ?db k = Some l"
  with keep st show "pool_lease_ok ?db k l" by (simp add: active_iff)
qed simp_all

lemma renew_inv:
  assumes inv: "queue_inv db" and r: "batch_at db b = Some r"
  shows "queue_inv (update_jobs (\<lambda>_ j. in_batch b j \<and> jb_state j = ba_state r) (\<lambda>_ j. j\<lparr>jb_leased_until := Some until\<rparr>)
           ((put_batch b (r\<lparr>ba_lease_until := until, ba_heartbeat := Some now, ba_updated := now\<rparr>) db)
              \<lparr>qd_leases := update_where (\<lambda>_ l. lease_batch l = b) (\<lambda>_ l. (lease_batch l, until)) (qd_leases db)\<rparr>))"
    (is "queue_inv (update_jobs ?P ?f (?db1\<lparr>qd_leases := ?L\<rparr>))")
proof (rule one_batch_inv [OF inv, of "r\<lparr>ba_lease_until := until, ba_heartbeat := Some now, ba_updated := now\<rparr>" _ b ?P ?f])
  let ?db = "update_jobs ?P ?f (?db1\<lparr>qd_leases := ?L\<rparr>)"
  let ?r = "r\<lparr>ba_lease_until := until, ba_heartbeat := Some now, ba_updated := now\<rparr>"
  show "batch_ok ?r" using queue_invD(5) [OF inv r] by (simp add: batch_ok_def)
  fix i j j' assume j: "job_at db i = Some j" "in_batch b j" "j' = (if ?P i j then ?f i j else j)"
  have same: "jb_state j' = jb_state j" "jb_batch j' = jb_batch j" "jb_attempts j' = jb_attempts j"
    "jb_idempotency_key j' = jb_idempotency_key j" unfolding j(3) by simp_all
  have "job_ok ?db j'"
    by (rule job_okI [of _ b _ ?r])
      (use j(2) same in_batch_linked [OF inv j(1,2) r] in \<open>auto simp: in_batch_def dict_get_set\<close>)
  with same show "job_ok ?db j' \<and> jb_idempotency_key j' = jb_idempotency_key j \<and>
      (jb_state j \<in> set FINAL \<longrightarrow> jb_state j' \<in> set FINAL)" by simp
next
  show "dict_ok (qd_leases (update_jobs ?P ?f (?db1\<lparr>qd_leases := ?L\<rparr>)))" using queue_invD(3) [OF inv] by simp
  fix k l assume at: "pool_at (update_jobs ?P ?f (?db1\<lparr>qd_leases := ?L\<rparr>)) k = Some l"
  then obtain l0 where l0: "pool_at db k = Some l0" and l: "l = (if lease_batch l0 = b then (lease_batch l0, until) else l0)"
    by (auto simp: dict_get_update_where)
  from queue_invD(6) [OF inv l0] l r show "pool_lease_ok (update_jobs ?P ?f (?db1\<lparr>qd_leases := ?L\<rparr>)) k l"
    by (auto simp: pool_lease_ok_def dict_get_set)
qed simp_all

lemma finish_inv:
  assumes inv: "queue_inv db" and r: "batch_at db b = Some r" and act: "ba_state r \<in> set BATCH_ACTIVE"
    and r': "ba_state r' \<in> {Done, Failed}"
    and out: "\<And>i j. P i j \<Longrightarrow> in_batch b j"
    and job: "\<And>i j. job_at db i = Some j \<Longrightarrow> in_batch b j \<Longrightarrow> P i j \<and> finished_job (ba_state r') j (f i j)"
  shows "queue_inv (drop_leases b (update_jobs P f (put_batch b r' db)))" (is "queue_inv ?db")
proof (rule one_batch_inv [OF inv, of r' _ b P f])
  show "batch_ok r'" using r' by (auto simp: batch_ok_def)
  fix i j j' assume j: "job_at db i = Some j" "in_batch b j" "j' = (if P i j then f i j else j)"
  from job [OF j(1,2)] j(3) have fin: "finished_job (ba_state r') j j'" by simp
  have att: "jb_attempts j \<le> MAX_ATTEMPTS" by (rule in_batch_linked(2) [OF inv j(1,2) r])
  have "jb_state j \<in> set BATCH_EXECUTING" by (rule linked_active [OF in_batch_linked(1) [OF inv j(1,2) r] act])
  moreover have "job_ok ?db j'"
    using fin att j(2) unfolding finished_job_def job_ok_def
    by (auto simp: in_batch_def dict_get_set detached_def linked_def executing_iff)
  ultimately show "job_ok ?db j' \<and> jb_idempotency_key j' = jb_idempotency_key j \<and>
      (jb_state j \<in> set FINAL \<longrightarrow> jb_state j' \<in> set FINAL)"
    using fin by (auto simp: finished_job_def same_work_def state_sets)
next
  show "dict_ok (qd_leases ?db)" using queue_invD(3) [OF inv] by simp
  fix k l assume "pool_at ?db k = Some l"
  then have "pool_at db k = Some l" and "lease_batch l \<noteq> b"
    using dict_get_delete_where [OF queue_invD(3) [OF inv], of "\<lambda>_ l. lease_batch l = b" k]
    by (auto split: option.splits if_splits)
  with queue_invD(6) [OF inv] show "pool_lease_ok ?db k l" by (fastforce simp: pool_lease_ok_def dict_get_set)
qed (use out in simp_all)

section \<open>Claims\<close>

lemma grant_claim_tables:
  "qd_batches (grant_claim a pl now db) = dict_set (cl_batch_id a) (new_batch a pl now) (qd_batches db)"
  "qd_jobs (grant_claim a pl now db) = update_where (\<lambda>i _. i \<in> set (cl_job_ids a)) (\<lambda>_. claim_job a now) (qd_jobs db)"
  "qd_leases (grant_claim a pl now db) =
     (if nonempty (cl_pool a) then dict_set (cl_device a, the (cl_pool a)) (cl_batch_id a, cl_lease_until a) (qd_leases db)
      else qd_leases db)"
  by (simp_all add: grant_claim_def Let_def put_batch_def update_jobs_def)

lemma claim_job_ok:
  assumes "jb_state j = Queued" "job_ok db j" "batch_at db' (cl_batch_id a) = Some (new_batch a pl now)"
  shows "job_ok db' (claim_job a now j)"
  using assms by (auto simp: job_ok_def claim_job_def new_batch_def linked_def executing_iff)

lemma claim_inv:
  assumes inv: "queue_inv db" and new: "batch_at db (cl_batch_id a) = None"
    and queued: "\<forall>i \<in> set (cl_job_ids a). \<exists>j. job_at db i = Some j \<and> jb_state j = Queued"
  shows "queue_inv (grant_claim a pl now db)" (is "queue_inv ?db")
proof -
  have b: "batch_at ?db x = (if x = cl_batch_id a then Some (new_batch a pl now) else batch_at db x)" for x
    by (simp add: grant_claim_tables dict_get_set)
  have old: "\<exists>j. job_at db i = Some j \<and> j' = (if i \<in> set (cl_job_ids a) then claim_job a now j else j)"
    if "job_at ?db i = Some j'" for i j'
    using that by (auto simp: grant_claim_tables dict_get_update_where)
  have queued': "jb_state j = Queued" if "i \<in> set (cl_job_ids a)" "job_at db i = Some j" for i j
    using queued that by auto
  have jobs: "job_ok ?db j'" if at: "job_at ?db i = Some j'" for i j'
  proof -
    from old [OF at] obtain j where j: "job_at db i = Some j"
      and j': "j' = (if i \<in> set (cl_job_ids a) then claim_job a now j else j)" by blast
    have "job_ok ?db j"
      by (rule job_ok_batch_mono [OF queue_invD(4) [OF inv j]]) (use new b in auto)
    moreover have "job_ok ?db (claim_job a now j)" if "i \<in> set (cl_job_ids a)"
      by (rule claim_job_ok [OF queued' [OF that j] queue_invD(4) [OF inv j]]) (simp add: b)
    ultimately show ?thesis unfolding j' by simp
  qed
  have keys: "keys_unique ?db"
    by (rule keys_unique_update [OF queue_invD(7) [OF inv]])
      (use old queued' in \<open>fastforce simp: claim_job_def final_iff split: if_splits\<close>)
  have leases: "pool_lease_ok ?db k l" if "pool_at ?db k = Some l" for k l
  proof (cases "k = (cl_device a, the (cl_pool a)) \<and> nonempty (cl_pool a)")
    case True
    with that have "l = (cl_batch_id a, cl_lease_until a)" by (simp add: grant_claim_tables dict_get_set)
    with True show ?thesis by (simp add: pool_lease_ok_def b new_batch_def state_sets)
  next
    case False
    with that have "pool_at db k = Some l" by (auto simp: grant_claim_tables dict_get_set split: if_splits)
    from queue_invD(6) [OF inv this] new show ?thesis by (auto simp: pool_lease_ok_def b)
  qed
  have "batch_ok q" if "batch_at ?db x = Some q" for x q
    using that queue_invD(5) [OF inv] by (auto simp: b batch_ok_def new_batch_def state_sets split: if_splits)
  moreover have "dict_ok (qd_jobs ?db)" "dict_ok (qd_batches ?db)" "dict_ok (qd_leases ?db)"
    using queue_invD(1-3) [OF inv] unfolding grant_claim_tables by (simp_all add: dict_ok_set)
  ultimately show ?thesis unfolding queue_inv_def using jobs keys leases by blast
qed

section \<open>Deletions\<close>

lemma unfinalized_not_releasable: "unfinalized r \<Longrightarrow> \<not> releasable r"
  by (auto simp: unfinalized_def releasable_def dest: is_true_not_disj)

text \<open>
  Deleting rows keeps the invariant when no remaining job or lease loses its batch.
\<close>

lemma delete_inv:
  assumes inv: "queue_inv db"
    and db': "qd_jobs db' = delete_where PJ (qd_jobs db)" "qd_batches db' = delete_where PB (qd_batches db)"
      "qd_leases db' = delete_where PL (qd_leases db)"
    and job: "\<And>i j b r. job_at db i = Some j \<Longrightarrow> \<not> PJ i j \<Longrightarrow> jb_batch j = Some b \<Longrightarrow> batch_at db b = Some r
        \<Longrightarrow> linked (jb_state j) (ba_state r) \<Longrightarrow> \<not> PB b r"
    and lease: "\<And>k l r. pool_at db k = Some l \<Longrightarrow> \<not> PL k l \<Longrightarrow> batch_at db (lease_batch l) = Some r
        \<Longrightarrow> ba_state r \<in> set BATCH_ACTIVE \<Longrightarrow> \<not> PB (lease_batch l) r"
  shows "queue_inv db'"
proof -
  have j: "job_at db' i = Some j \<longleftrightarrow> job_at db i = Some j \<and> \<not> PJ i j" for i j
    unfolding db' dict_get_delete_where [OF queue_invD(1) [OF inv]] by (auto split: option.splits)
  have b: "batch_at db' x = Some r \<longleftrightarrow> batch_at db x = Some r \<and> \<not> PB x r" for x r
    unfolding db' dict_get_delete_where [OF queue_invD(2) [OF inv]] by (auto split: option.splits)
  have l: "pool_at db' k = Some l \<longleftrightarrow> pool_at db k = Some l \<and> \<not> PL k l" for k l
    unfolding db' dict_get_delete_where [OF queue_invD(3) [OF inv]] by (auto split: option.splits)
  have "job_ok db' h" if "job_at db' i = Some h" for i h
    using that unfolding j by (intro job_ok_batch_mono [OF queue_invD(4) [OF inv]]) (auto simp: b dest: job)
  moreover have "pool_lease_ok db' k h" if "pool_at db' k = Some h" for k h
    using that queue_invD(6) [OF inv, of k h] unfolding l pool_lease_ok_def b by (auto dest: lease)
  moreover have "keys_unique db'"
    by (rule keys_unique_update [OF queue_invD(7) [OF inv]]) (auto simp: j)
  moreover have "dict_ok (qd_jobs db')" "dict_ok (qd_batches db')" "dict_ok (qd_leases db')"
    using queue_invD(1-3) [OF inv] unfolding db' by simp_all
  ultimately show ?thesis unfolding queue_inv_def using queue_invD(5) [OF inv] b by blast
qed

lemma linked_ended: "linked js bs \<Longrightarrow> js \<in> set FINAL \<Longrightarrow> bs \<in> {Done, Failed}"
  by (auto simp: linked_def state_sets split: if_splits)

lemma wipe_inv:
  assumes inv: "queue_inv db"
  shows "queue_inv (snd (clear include_final db))"
proof (rule delete_inv [OF inv])
  let ?B = "delete_where (\<lambda>_ r. (include_final \<or> ba_state r \<notin> {Done, Failed}) \<and> releasable r) (qd_batches db)"
  let ?PL = "\<lambda>k l. lease_batch l \<notin> set (dict_keys (select_where (\<lambda>_ r. unfinalized r) ?B))"
  show "qd_jobs (snd (clear include_final db)) =
      delete_where (\<lambda>_ j. (include_final \<or> jb_state j \<notin> set FINAL) \<and> removable db j) (qd_jobs db)"
    "qd_batches (snd (clear include_final db)) = ?B"
    "qd_leases (snd (clear include_final db)) = delete_where ?PL (qd_leases db)"
    by (simp_all add: clear_def Let_def)
  fix i j b r assume "job_at db i = Some j" and keep: "\<not> ((include_final \<or> jb_state j \<notin> set FINAL) \<and> removable db j)"
    and b: "jb_batch j = Some b" and r: "batch_at db b = Some r" and link: "linked (jb_state j) (ba_state r)"
  show "\<not> ((include_final \<or> ba_state r \<notin> {Done, Failed}) \<and> releasable r)"
  proof (cases "removable db j")
    case True
    with keep linked_ended [OF link] show ?thesis by auto
  next
    case False
    with b obtain r0 where "(b, r0) \<in> set (qd_batches db)" "unfinalized r0"
      by (auto simp: removable_def select_where_def)
    with queue_invD(2) [OF inv] r have "unfinalized r" by (metis map_of_is_SomeI option.inject)
    then show ?thesis using unfinalized_not_releasable by blast
  qed
next
  fix k l r
  let ?B = "delete_where (\<lambda>_ r. (include_final \<or> ba_state r \<notin> {Done, Failed}) \<and> releasable r) (qd_batches db)"
  assume "\<not> (lease_batch l \<notin> set (dict_keys (select_where (\<lambda>_ r. unfinalized r) ?B)))"
    and r: "batch_at db (lease_batch l) = Some r"
  then obtain r0 where "(lease_batch l, r0) \<in> set (qd_batches db)" "\<not> ((include_final \<or> ba_state r0 \<notin> {Done, Failed}) \<and> releasable r0)"
    by (auto simp: select_where_def delete_where_def)
  with queue_invD(2) [OF inv] r show "\<not> ((include_final \<or> ba_state r \<notin> {Done, Failed}) \<and> releasable r)"
    by (metis map_of_is_SomeI option.inject)
qed

lemma prune_inv:
  assumes inv: "queue_inv db"
  shows "queue_inv (snd (prune_final keep db))"
proof (rule delete_inv [OF inv])
  let ?V = "\<lambda>i _. i \<in> set (drop keep (prune_order db))"
  let ?U = "List.map_filter (\<lambda>(_, j). jb_batch j) (delete_where ?V (qd_jobs db))"
  show "qd_jobs (snd (prune_final keep db)) = delete_where ?V (qd_jobs db)"
    "qd_batches (snd (prune_final keep db)) = delete_where (\<lambda>b r. ba_state r \<in> {Done, Failed} \<and> b \<notin> set ?U
        \<and> b \<notin> set (map (\<lambda>(_, l). lease_batch l) (qd_leases db)) \<and> releasable r) (qd_batches db)"
    "qd_leases (snd (prune_final keep db)) = delete_where (\<lambda>_ _. False) (qd_leases db)"
    by (simp_all add: prune_final_def Let_def delete_where_def)
  fix i j b r assume j: "job_at db i = Some j" and keep: "\<not> ?V i j" and b: "jb_batch j = Some b"
  from j keep have "(i, j) \<in> set (delete_where ?V (qd_jobs db))" by (auto simp: delete_where_def dest: map_of_SomeD)
  with b have "b \<in> set ?U" by (force simp: set_map_filter_iff)
  then show "\<not> (ba_state r \<in> {Done, Failed} \<and> b \<notin> set ?U \<and> b \<notin> set (map (\<lambda>(_, l). lease_batch l) (qd_leases db)) \<and> releasable r)"
    by blast
qed (auto simp: state_sets)

section \<open>Every transition\<close>

lemma queue_step_inv: "queue_step D now db db' \<Longrightarrow> queue_inv db \<Longrightarrow> queue_inv db'"
proof (induction rule: queue_step.induct)
  case (finish db b r r' P f)
  show ?case by (rule finish_inv [OF finish.prems finish.hyps(1,2,5)]) (use finish.hyps in blast)+
qed (auto intro: settle_inv free_inv claim_inv advance_inv renew_inv ledger_inv cancel_inv annotate_inv other_inv
       wipe_inv prune_inv enqueue_inv simp del: map_of_eq_Some_iff)

interpretation qm: invariant_machine "queue_step D now" queue_inv for D now
  by unfold_locales (rule queue_step_inv)

end
