(* ===== verification/FleetRefine.thy ===== *)
theory FleetRefine
  imports FleetInv
begin

text \<open>
  The operations of the fleet queue refine the abstract machine: whatever an operation returns,
  the tables it leaves are reached by transitions of \<open>queue_step\<close> at the time of the call.
\<close>

section \<open>Single transitions\<close>

lemmas successor_defs = successor_def same_batch_def ledger_le_def once_def kept_def

lemma owned_iff: "owned expected token now r \<longleftrightarrow>
    ba_state r = expected \<and> ba_owner_token r = Some token \<and> now < ba_lease_until r"
  by (simp add: owned_def)

lemma finish_step:
  assumes inv: "queue_inv db" and r: "batch_at db b = Some r" and act: "ba_state r \<in> set BATCH_ACTIVE"
    and "now \<noteq> ba_lease_until r \<or> ba_state r = Cancelling"
    and "successor r r'" "ba_state r' \<in> {Done, Failed}" "ba_lease_until r' = ba_lease_until r"
    and "\<And>i j. P i j \<Longrightarrow> in_batch b j"
    and job: "\<And>i j. job_at db i = Some j \<Longrightarrow> in_batch b j \<Longrightarrow> jb_state j \<in> set BATCH_EXECUTING
        \<Longrightarrow> linked (jb_state j) (ba_state r) \<Longrightarrow> P i j \<and> finished_job (ba_state r') j (f i j)"
  shows "queue_step D now db (drop_leases b (update_jobs P f (put_batch b r' db)))"
proof (rule queue_step.finish [OF r act])
  fix i j assume j: "job_at db i = Some j" "in_batch b j"
  note link = in_batch_linked(1) [OF inv j r]
  from job [OF j linked_active [OF link act] link] show "P i j \<and> finished_job (ba_state r') j (f i j)" .
qed (use assms in auto)

lemma observation_tables:
  "insert_profile_observation b ob now db = Inr db' \<Longrightarrow>
     qd_jobs db' = qd_jobs db \<and> qd_batches db' = qd_batches db \<and> qd_leases db' = qd_leases db"
  by (auto simp: insert_profile_observation_def split: option.splits if_splits)

lemma observation_drop:
  "insert_profile_observation b ob now db = Inr db' \<Longrightarrow> queue_step D now (drop_leases b db) (drop_leases b db')"
  by (rule queue_step.other) (auto dest: observation_tables)

lemma observation_step: "insert_profile_observation b ob now db = Inr db' \<Longrightarrow> queue_step D now db db'"
  by (rule queue_step.other) (auto dest: observation_tables)

lemma two_steps: "queue_step D now a b \<Longrightarrow> queue_step D now b c \<Longrightarrow> queue_steps D now a c"
  by auto

section \<open>Queued jobs\<close>

lemma settle_steps:
  "queue_steps D now db (snd (finalize_queued jid e now db))"
  "queue_steps D now db (snd (review_queued jid e now db))"
  "queue_steps D now db (snd (cancel_queued jid now db))"
  by (auto simp: finalize_queued_def review_queued_def cancel_queued_def intro!: r_into_rtranclp queue_step.settle)

lemma settle_all_steps:
  "queue_steps D now db (foldl (\<lambda>d row. settle_queued (fst row) NeedsReview (g row) now d) db rows)"
proof (induction rows arbitrary: db)
  case (Cons row rows)
  have "queue_step D now db (settle_queued (fst row) NeedsReview (g row) now db)" by (rule queue_step.settle) simp
  with Cons.IH [of "settle_queued (fst row) NeedsReview (g row) now db"] show ?case
    by (simp add: converse_rtranclp_into_rtranclp)
qed simp

section \<open>Claims\<close>

lemma claim_rows_iff:
  "dict_ok (qd_jobs db) \<Longrightarrow> (i, j) \<in> set (claim_rows a db) \<longleftrightarrow> job_at db i = Some j \<and> i \<in> set (cl_job_ids a)"
  by (auto simp: claim_rows_def select_where_iff simp del: map_of_eq_Some_iff)

lemma claim_rows_complete:
  assumes ok: "dict_ok (qd_jobs db)" and len: "length (claim_rows a db) = length (cl_job_ids a)"
    and st: "\<forall>row \<in> set (claim_rows a db). jb_state (snd row) = Queued" and i: "i \<in> set (cl_job_ids a)"
  shows "\<exists>j. job_at db i = Some j \<and> jb_state j = Queued"
proof -
  let ?K = "dict_keys (claim_rows a db)"
  have sub: "set ?K \<subseteq> set (cl_job_ids a)" by (auto simp: claim_rows_iff [OF ok])
  have "dict_ok (select_where (\<lambda>i _. i \<in> set (cl_job_ids a)) (qd_jobs db))"
    unfolding select_where_def by (rule dict_ok_filter [OF ok])
  then have "distinct ?K" unfolding claim_rows_def by (simp add: distinct_map)
  then have "card (set ?K) = length (cl_job_ids a)" using len distinct_card by fastforce
  then have "card (set (cl_job_ids a)) \<le> card (set ?K)" by (simp add: card_length)
  with sub have "set ?K = set (cl_job_ids a)" by (intro card_seteq) simp_all
  with i have "i \<in> fst ` set (claim_rows a db)" by simp
  then obtain j where "(i, j) \<in> set (claim_rows a db)" by force
  with st claim_rows_iff [OF ok, of i j a] show ?thesis by force
qed

lemma free_expired_step: "queue_steps D now db (free_expired a now db)"
proof (cases "free_expired a now db = db")
  case False
  then obtain p where "free_expired a now db =
      db\<lparr>qd_leases := delete_where (\<lambda>k l. k = (cl_device a, p) \<and> lease_deadline l < now) (qd_leases db)\<rparr>"
    by (auto simp: free_expired_def split: option.splits if_splits)
  moreover have "queue_step D now db \<dots>" by (rule queue_step.free) simp
  ultimately show ?thesis by auto
qed simp

lemma free_expired_jobs [simp]:
  "qd_jobs (free_expired a now db) = qd_jobs db" "qd_batches (free_expired a now db) = qd_batches db"
  by (simp_all add: free_expired_def split: option.splits)

lemma claim_checked_steps:
  assumes "claim_checked env a pl now db = Some (v, db')" and "now < cl_lease_until a" and "\<not> pool_held a db"
    and "\<forall>i \<in> set (cl_job_ids a). \<exists>j. job_at db i = Some j \<and> jb_state j = Queued"
  shows "queue_steps D now db db'"
  using assms(1) queue_step.claim [OF assms(2) _ assms(3,4)]
  unfolding claim_checked_def Let_def
  by (auto intro: settle_all_steps queue_step.settle split: option.splits if_splits)

lemma claim_many_steps:
  assumes inv: "queue_inv db"
  shows "queue_steps D now db (snd (claim_many env a now db))"
proof -
  let ?db = "free_expired a now db"
  have "queue_steps D now db db'"
    if c: "claim_checked env a pl now ?db = Some (v, db')" and guards: "\<not> cl_lease_until a \<le> now" "\<not> pool_held a ?db"
      "length (claim_rows a ?db) = length (cl_job_ids a)" "\<forall>row \<in> set (claim_rows a ?db). jb_state (snd row) = Queued" for pl v db'
  proof -
    have "queue_steps D now ?db db'"
      by (rule claim_checked_steps [OF c]) (use guards claim_rows_complete [OF _ guards(3,4)] queue_invD(1) [OF inv] in auto)
    with free_expired_step show ?thesis by (rule rtranclp_trans)
  qed
  then show ?thesis
    unfolding claim_many_def Let_def by (auto split: sum.splits option.splits)
qed

section \<open>The owner's transitions\<close>

lemma set_batch_state_steps:
  assumes "expected \<in> set BATCH_EXECUTING" "st \<in> set BATCH_EXECUTING"
  shows "queue_steps D now db (snd (set_batch_state b st expected token now db))"
  using assms
  by (auto simp: set_batch_state_def find_batch_Some owned_iff intro!: r_into_rtranclp queue_step.advance
      split: option.splits)

lemma batch_heartbeat_steps: "queue_steps D now db (snd (heartbeat b until expected token now db))"
  by (auto simp: heartbeat_def find_batch_Some owned_iff intro!: r_into_rtranclp queue_step.renew split: option.splits)

text \<open>The rows of a batch that one of the terminal operations ends.\<close>

lemma same_work_updates:
  "same_work j (j\<lparr>jb_state := st, jb_leased_until := u, jb_last_error := e, jb_last_result := res, jb_updated := now\<rparr>)"
  "same_work j (failed_job error now n c res j)" "same_work j (finish_item it now i j)"
  by (simp_all add: same_work_def failed_job_def finish_item_def finish_failed_item_def Let_def)

lemma failed_job_finished:
  assumes "n \<le> MAX_ATTEMPTS"
  shows "finished_job Failed j (failed_job error now n c res j)"
  using assms same_work_updates(2) [of j error now n c res]
  by (auto simp: finished_job_def failed_job_def Let_def linked_def executing_iff)

lemma finish_item_finished:
  assumes "it_max_attempts it \<le> MAX_ATTEMPTS" and "bs = Failed \<or> bs = Done \<and> item_done it i"
  shows "finished_job bs j (finish_item it now i j)"
  using assms same_work_updates(3) [of j it now i]
  by (auto simp: finished_job_def finish_item_def finish_failed_item_def failed_item_state_def Let_def linked_def executing_iff)

lemma owned_active:
  assumes "find_batch db b (owned expected token now) = Some r" "expected \<in> set BATCH_EXECUTING"
  shows "batch_at db b = Some r" "ba_state r = expected" "ba_state r \<in> set BATCH_ACTIVE" "now < ba_lease_until r"
  using assms by (auto simp: find_batch_Some owned_iff active_iff)

text \<open>Every terminal operation of an owner finishes the batch and records an observation.\<close>

lemma owner_finish_steps:
  assumes inv: "queue_inv db" and f: "find_batch db b (owned expected token now) = Some r" "expected \<in> set BATCH_EXECUTING"
    and r': "successor r r'" "ba_state r' \<in> {Done, Failed}" "ba_lease_until r' = ba_lease_until r"
    and out: "\<And>i j. P i j \<Longrightarrow> in_batch b j"
    and job: "\<And>i j. job_at db i = Some j \<Longrightarrow> in_batch b j \<Longrightarrow> jb_state j = expected
        \<Longrightarrow> P i j \<and> finished_job (ba_state r') j (g i j)"
  shows "queue_step D now db (drop_leases b (update_jobs P g (put_batch b r' db)))"
proof (rule finish_step [OF inv owned_active(1,3) [OF f] _ r' out])
  fix i j assume j: "job_at db i = Some j" "in_batch b j" and link: "linked (jb_state j) (ba_state r)"
  from linked_executing [OF link] owned_active(2) [OF f] f(2) have "jb_state j = expected" by simp
  from job [OF j this] show "P i j \<and> finished_job (ba_state r') j (g i j)" .
qed (use owned_active(4) [OF f] in auto)

lemma complete_batch_steps:
  assumes inv: "queue_inv db" and ex: "expected \<in> set BATCH_EXECUTING"
  shows "queue_steps D now db (snd (complete_batch b expected token now result ob supplied db))"
proof -
  let ?P = "\<lambda>(_::string) j. in_batch b j \<and> jb_state j = expected"
  let ?f = "\<lambda>(_::string) j. j\<lparr>jb_state := Done, jb_leased_until := None, jb_last_error := None, jb_last_result := result, jb_updated := now\<rparr>"
  have "queue_steps D now db (drop_leases b db')"
    if f: "find_batch db b (owned expected token now) = Some r"
      and ins: "insert_profile_observation b ob now
        (update_jobs ?P ?f (put_batch b (r\<lparr>ba_state := Done, ba_disposition := d, ba_updated := now\<rparr>) db)) = Inr db'" for r d db'
    by (rule two_steps [OF owner_finish_steps [OF inv f ex] observation_drop [OF ins]])
      (simp_all add: successor_defs finished_job_def same_work_updates linked_def executing_iff)
  then show ?thesis unfolding complete_batch_def immediate_def by (auto split: sum.splits option.splits)
qed

lemma mark_completion_unknown_steps:
  assumes inv: "queue_inv db"
  shows "queue_steps D now db (snd (mark_completion_unknown b error expected token now result ob disposition db))"
proof (cases "expected \<in> {Running, Fetching}")
  case True
  then have ex: "expected \<in> set BATCH_EXECUTING" by (auto simp: executing_iff)
  let ?P = "\<lambda>(_::string) j. in_batch b j \<and> jb_state j = expected"
  let ?f = "\<lambda>(_::string) j. j\<lparr>jb_state := CompletionUnknown, jb_leased_until := None, jb_last_error := Some error, jb_last_result := result, jb_updated := now\<rparr>"
  have "queue_steps D now db (drop_leases b db')"
    if f: "find_batch db b (owned expected token now) = Some r"
      and ins: "insert_profile_observation b ob now
        (update_jobs ?P ?f (put_batch b (r\<lparr>ba_state := Failed, ba_error := Some error, ba_disposition := Some disposition,
           ba_updated := now\<rparr>) db)) = Inr db'" for r db'
    by (rule two_steps [OF owner_finish_steps [OF inv f ex] observation_drop [OF ins]])
      (simp_all add: successor_defs finished_job_def same_work_updates linked_def executing_iff)
  then show ?thesis unfolding mark_completion_unknown_def immediate_def by (auto split: sum.splits option.splits)
qed (simp add: mark_completion_unknown_def)

lemma complete_batch_items_steps:
  assumes inv: "queue_inv db" and ex: "expected \<in> set BATCH_EXECUTING" and n: "it_max_attempts it \<le> MAX_ATTEMPTS"
  shows "queue_steps D now db (snd (complete_batch_items b expected token now it db))"
proof -
  let ?P = "\<lambda>(_::string) j. in_batch b j \<and> jb_state j = expected"
  let ?ids = "batch_job_ids b [expected] db"
  let ?failed = "filter (\<lambda>i. \<not> item_done it i) ?ids"
  have mem: "i \<in> set ?ids" if "job_at db i = Some j" "in_batch b j" "jb_state j = expected" for i j
    using that by (auto simp: batch_job_ids_def select_where_def intro!: rev_image_eqI dest: map_of_SomeD)
  have "queue_steps D now db (drop_leases b db')"
    if f: "find_batch db b (owned expected token now) = Some r"
      and ins: "insert_profile_observation b (it_observation it) now
        (update_jobs ?P (finish_item it now)
           (put_batch b (r\<lparr>ba_state := (if ?failed = [] then Done else Failed), ba_error := e,
              ba_disposition := d, ba_updated := now\<rparr>) db)) = Inr db'" for r d e db'
  proof (rule two_steps [OF owner_finish_steps [OF inv f ex] observation_drop [OF ins]])
    fix i j assume j: "job_at db i = Some j" "in_batch b j" "jb_state j = expected"
    with mem [OF j] show "?P i j \<and> finished_job (ba_state (r\<lparr>ba_state := (if ?failed = [] then Done else Failed), ba_error := e,
              ba_disposition := d, ba_updated := now\<rparr>)) j (finish_item it now i j)"
      by (auto intro!: finish_item_finished n simp: filter_empty_conv)
  qed (simp_all add: successor_defs)
  then show ?thesis unfolding complete_batch_items_def immediate_def Let_def
    by (auto split: sum.splits option.splits if_splits)
qed

lemma failure_finish:
  assumes inv: "queue_inv db" and r: "batch_at db b = Some r" "ba_state r \<in> set BATCH_ACTIVE" "now \<noteq> ba_lease_until r"
    and r': "successor r r'" "ba_state r' = Failed" "ba_lease_until r' = ba_lease_until r" and n: "n \<le> MAX_ATTEMPTS"
  shows "queue_step D now db (finish_batch_failure b error now n c res (put_batch b r' db))"
  unfolding finish_batch_failure_def
  by (rule finish_step [OF inv r(1,2) _ r'(1) _ r'(3)])
    (use r(3) r'(2) n in \<open>auto simp: state_sets intro: failed_job_finished\<close>)

lemma fail_batch_steps:
  assumes inv: "queue_inv db" and ex: "expected \<in> set BATCH_EXECUTING" and n: "n \<le> MAX_ATTEMPTS"
  shows "queue_steps D now db (snd (fail_batch b error expected token now n c result ob supplied db))"
proof -
  have "queue_steps D now db db'"
    if f: "find_batch db b (owned expected token now) = Some r"
      and ins: "insert_profile_observation b ob now
        (finish_batch_failure b error now n c result
           (put_batch b (r\<lparr>ba_state := Failed, ba_error := Some error, ba_disposition := d, ba_updated := now\<rparr>) db)) = Inr db'" for r d db'
    by (rule two_steps [OF failure_finish [OF inv owned_active(1,3) [OF f ex]] observation_step [OF ins]])
      (use owned_active(4) [OF f ex] n in \<open>auto simp: successor_defs\<close>)
  then show ?thesis unfolding fail_batch_def immediate_def by (auto split: sum.splits option.splits)
qed

lemma revoke_prelaunch_batch_steps:
  assumes inv: "queue_inv db"
  shows "queue_steps D now db (snd (revoke_prelaunch_batch b token reason now supplied db))"
proof -
  let ?S = "{Leased, Staging, Running}"
  let ?f = "\<lambda>(_::string) j. j\<lparr>jb_state := NeedsReview, jb_last_error := Some reason, jb_leased_until := None,
      jb_assigned_device := None, jb_updated := now\<rparr>"
  have "queue_step D now db (drop_leases b (update_jobs (\<lambda>_ j. in_batch b j \<and> jb_state j \<in> ?S) ?f
      (put_batch b (r\<lparr>ba_state := Failed, ba_error := Some reason, ba_disposition := d, ba_updated := now\<rparr>) db)))"
    if f: "find_batch db b (\<lambda>r. ba_state r \<in> ?S \<and> ba_owner_token r = Some token \<and> now < ba_lease_until r) = Some r" for r d
  proof -
    from f have r: "batch_at db b = Some r" "ba_state r \<in> ?S" "now < ba_lease_until r" by (simp_all add: find_batch_Some)
    then have "ba_state r \<in> set BATCH_EXECUTING" by (auto simp: executing_iff)
    with r show ?thesis
      by (intro finish_step [OF inv r(1)])
        (auto simp: successor_defs finished_job_def same_work_def linked_def state_sets split: if_splits)
  qed
  then show ?thesis unfolding revoke_prelaunch_batch_def immediate_def by (auto split: sum.splits option.splits)
qed

lemma record_revoked_steps: "queue_steps D now db (snd (record_revoked_prelaunch_result b token result now db))"
  by (auto simp: record_revoked_prelaunch_result_def same_work_def intro!: r_into_rtranclp queue_step.annotate split: option.splits)

section \<open>Cancellation\<close>

lemma begin_active_cancellation_steps: "queue_steps D now db (snd (begin_active_cancellation b ids now db))"
proof -
  have "queue_step D now db (put_batch b (r\<lparr>ba_state := Cancelling, ba_error := e, ba_disposition := d, ba_updated := now\<rparr>) db)"
    if "batch_at db b = Some r" "ba_state r \<in> set BATCH_EXECUTING" "ba_version r = Some 1" "ba_cleanup_state r = None" for r d e
    by (rule queue_step.cancel [OF that]) (simp_all add: successor_defs)
  then show ?thesis unfolding begin_active_cancellation_def by (auto split: option.splits)
qed

lemma cancelled_jobs:
  assumes "set (batch_job_ids b BATCH_EXECUTING db) = set ids" "job_at db i = Some j" "in_batch b j" "jb_state j \<in> set BATCH_EXECUTING"
  shows "i \<in> set ids"
proof -
  have "(i, j) \<in> set (select_where (\<lambda>_ j. in_batch b j \<and> jb_state j \<in> set BATCH_EXECUTING) (qd_jobs db))"
    using assms(2-4) by (auto simp: select_where_def dest: map_of_SomeD)
  then show ?thesis using assms(1) by (force simp: batch_job_ids_def)
qed

lemma cancel_finish:
  assumes inv: "queue_inv db" and r: "batch_at db b = Some r" "ba_state r = Cancelling"
    and ids: "set (batch_job_ids b BATCH_EXECUTING db) = set ids"
    and r': "successor r r'" "ba_state r' = Failed" "ba_lease_until r' = ba_lease_until r" and st: "st \<in> {Cancelled, CompletionUnknown}"
  shows "queue_steps D now db (drop_leases b (update_jobs (\<lambda>i j. in_batch b j \<and> i \<in> set ids \<and> jb_state j \<in> set BATCH_EXECUTING)
      (\<lambda>_ j. j\<lparr>jb_state := st, jb_leased_until := None, jb_last_error := e, jb_updated := now\<rparr>) (put_batch b r' db)))"
proof (rule r_into_rtranclp, rule finish_step [OF inv r(1) _ _ r'(1) _ r'(3)])
  fix i j assume j: "job_at db i = Some j" "in_batch b j" "jb_state j \<in> set BATCH_EXECUTING"
  with cancelled_jobs [OF ids j] r'(2) st
  show "(in_batch b j \<and> i \<in> set ids \<and> jb_state j \<in> set BATCH_EXECUTING) \<and> finished_job (ba_state r') j
      (j\<lparr>jb_state := st, jb_leased_until := None, jb_last_error := e, jb_updated := now\<rparr>)"
    by (auto simp: finished_job_def same_work_def linked_def executing_iff)
qed (use r r' in \<open>auto simp: active_iff\<close>)

lemma mark_active_cancellation_unknown_steps:
  assumes "queue_inv db"
  shows "queue_steps D now db (snd (mark_active_cancellation_unknown b ids reason now db))"
  unfolding mark_active_cancellation_unknown_def
  by (auto split: option.splits intro!: cancel_finish [OF assms] simp: successor_defs)

lemma cancel_active_batch_steps:
  assumes "queue_inv db"
  shows "queue_steps D now db (snd (cancel_active_batch b ids cleanup now db))"
  unfolding cancel_active_batch_def
  by (auto split: option.splits intro!: cancel_finish [OF assms] simp: successor_defs)

section \<open>The target's operation\<close>

lemma ledger_steps:
  assumes "batch_at db b = Some r" "successor r r'" "ba_state r' = ba_state r" "ba_lease_until r' = ba_lease_until r"
  shows "queue_steps D now db (put_batch b r' db)"
  by (rule r_into_rtranclp, rule queue_step.ledger [OF assms])

lemma target_ledger_steps:
  "queue_steps D now db (snd (record_fenced_cancellation b cleanup now db))"
  "queue_steps D now db (snd (record_target_reservation b op sha resume expected token now db))"
  "queue_steps D now db (snd (record_target_acceptance b op sha expected token now db))"
  "queue_steps D now db (snd (authorize_target_cleanup b op sha cleanup expected token now db))"
  "queue_steps D now db (snd (record_target_finalization b op sha cleanup stage durable expected token now db))"
  unfolding record_fenced_cancellation_def record_target_reservation_def record_target_acceptance_def
    authorize_target_cleanup_def record_target_finalization_def
  by (auto split: option.splits simp: find_batch_Some successor_defs intro!: ledger_steps)

lemma ledger_coalesce [simp]:
  "once v v" "once None v" "once v (coalesce v w)" "kept v v" "kept v (Some x)" "kept v (coalesce v w)" "kept v (coalesce w v)"
  by (auto simp: once_def kept_def coalesce_def split: option.splits)

lemma target_cleanup_steps:
  "queue_steps D now db (snd (record_target_cleanup_progress b op sha c now db))"
  "queue_steps D now db (snd (record_expired_target_finalization b op sha cleanup owner_release now db))"
  unfolding record_target_cleanup_progress_def record_expired_target_finalization_def
  by (auto split: option.split simp: find_batch_Some successor_def same_batch_def ledger_le_def intro!: ledger_steps)

lemma authorize_target_release_steps:
  assumes inv: "queue_inv db"
  shows "queue_steps D now db (snd (authorize_target_release op sha ack now db))"
proof -
  have at: "batch_at db b = Some r" if "select_where P (qd_batches db) = [(b, r)]" for P b r
    using select_where_iff [OF queue_invD(2) [OF inv], of b r P] that by simp
  show ?thesis unfolding authorize_target_release_def Let_def
    by (auto split: list.split prod.split simp: successor_def same_batch_def ledger_le_def dest!: at intro!: ledger_steps)
qed

section \<open>Recovery\<close>

lemma unknown_finish:
  assumes inv: "queue_inv db" and r: "batch_at db b = Some r" "ba_state r \<in> set BATCH_ACTIVE" "ba_lease_until r < now"
    and r': "successor r r'" "ba_state r' = Failed" "ba_lease_until r' = ba_lease_until r"
    and P: "\<And>s. s \<in> set BATCH_EXECUTING \<Longrightarrow> linked s (ba_state r) \<Longrightarrow> P s"
  shows "queue_step D now db (unknown_jobs b P now (put_batch b r' db))"
  unfolding unknown_jobs_def
  by (rule finish_step [OF inv r(1,2) _ r'(1) _ r'(3)])
    (use r(3) r'(2) P in \<open>auto simp: finished_job_def same_work_def linked_def executing_iff\<close>)

lemma expire_batch_steps:
  assumes inv: "queue_inv db" and n: "n \<le> MAX_ATTEMPTS"
    and legacy: "replay_safe = None \<Longrightarrow> \<forall>r. batch_at db b = Some r \<longrightarrow> ba_version r = None"
  shows "queue_steps D now db (snd (expire_batch env b now n replay_safe db))"
proof (cases "find_batch db b (\<lambda>r. ba_lease_until r < now)")
  case None
  then show ?thesis by (simp add: expire_batch_def)
next
  case (Some r)
  then have r: "batch_at db b = Some r" "ba_lease_until r < now" by (simp_all add: find_batch_Some)
  have fail: "queue_steps D now db (finish_batch_failure b error now n False None (put_batch b r' db))"
    if "ba_state r \<in> set BATCH_ACTIVE" "successor r r'" "ba_state r' = Failed" "ba_lease_until r' = ba_lease_until r" for error r'
    by (rule r_into_rtranclp, rule failure_finish [OF inv r(1) that(1) _ that(2-4) n]) (use r(2) in auto)
  have unknown: "queue_steps D now db (unknown_jobs b P now (put_batch b r' db))"
    if "ba_state r \<in> set BATCH_ACTIVE" "\<And>s. s \<in> set BATCH_EXECUTING \<Longrightarrow> linked s (ba_state r) \<Longrightarrow> P s"
      "successor r r'" "ba_state r' = Failed" "ba_lease_until r' = ba_lease_until r" for P r'
    by (rule r_into_rtranclp, rule unknown_finish [OF inv r(1) that(1) r(2) that(3-5) that(2)]) simp_all
  have late: "s \<in> {Running, Fetching}"
    if "replay_safe = None" "ba_state r \<notin> {Leased, Staging}" "s \<in> set BATCH_EXECUTING" "linked s (ba_state r)" for s
    using that legacy r(1) queue_invD(5) [OF inv r(1)] by (auto simp: batch_ok_def linked_def executing_iff split: if_splits)
  show ?thesis
  proof (cases replay_safe)
    case None
    with late show ?thesis
      unfolding expire_batch_def Some Let_def by (auto intro!: fail unknown simp: successor_defs)
  next
    case (Some safe)
    with \<open>find_batch db b _ = Some r\<close> show ?thesis
      unfolding expire_batch_def Let_def
      by (cases safe) (auto intro!: fail unknown simp: successor_defs, auto simp: state_sets)
  qed
qed

lemma expire_batch_version:
  assumes "batch_at (snd (expire_batch env b now n rs db)) x = Some r'"
  shows "\<exists>r. batch_at db x = Some r \<and> ba_version r' = ba_version r"
  using assms unfolding expire_batch_def Let_def finish_batch_failure_def unknown_jobs_def
  by (auto simp: find_batch_Some dict_get_set split: option.splits if_splits)

lemma expire_all_steps:
  assumes "queue_inv db" and "\<forall>b \<in> set bs. \<forall>r. batch_at db b = Some r \<longrightarrow> ba_version r = None"
  shows "queue_steps D now db (snd (expire_all env now bs db))"
  using assms
proof (induction bs arbitrary: db)
  case (Cons b bs)
  let ?db = "snd (expire_batch env b now MAX_ATTEMPTS None db)"
  have step: "queue_steps D now db ?db" by (rule expire_batch_steps) (use Cons.prems in auto)
  have "queue_steps D now ?db (snd (expire_all env now bs ?db))"
  proof (rule Cons.IH)
    show "queue_inv ?db" by (rule qm.steps_inv [OF step Cons.prems(1)])
    show "\<forall>c \<in> set bs. \<forall>r. batch_at ?db c = Some r \<longrightarrow> ba_version r = None"
      using Cons.prems(2) expire_batch_version [of env b now MAX_ATTEMPTS None db] by fastforce
  qed
  with step show ?case by (auto simp: case_prod_beta Let_def)
qed simp

lemma recover_stale_steps:
  assumes inv: "queue_inv db"
  shows "queue_steps D now db (snd (recover_stale env now job_ids db))"
proof -
  let ?bs = "stale_batches now job_ids db"
  let ?db = "snd (expire_all env now ?bs db)"
  have stale: "ba_version r = None" if "b \<in> set ?bs" "batch_at db b = Some r" for b r
  proof -
    from that(1) obtain r0 where "(b, r0) \<in> set (qd_batches db)" "ba_version r0 = None"
      by (auto simp: stale_batches_def select_where_def)
    with that(2) queue_invD(2) [OF inv] show ?thesis by (metis map_of_is_SomeI option.inject)
  qed
  then have "queue_steps D now db ?db" by (intro expire_all_steps [OF inv]) blast
  moreover have "queue_step D now ?db (?db\<lparr>qd_leases := delete_where (\<lambda>_ l. lease_deadline l < now) (qd_leases ?db)\<rparr>)"
    by (rule queue_step.free) simp
  ultimately show ?thesis unfolding recover_stale_def
    by (auto simp: case_prod_beta Let_def)
qed

section \<open>Cooldowns and deletions\<close>

lemma maintenance_steps:
  "queue_steps D now db (set_cooldown device until engine kind reason now db)"
  "queue_steps D now db (snd (prune_cooldowns now db))"
  by (auto simp: set_cooldown_def prune_cooldowns_def Let_def intro!: queue_step.other r_into_rtranclp)

lemma deletion_steps:
  "queue_steps {Wipe} now db (snd (clear include_final db))" "queue_steps {Prune} now db (snd (prune_final keep db))"
  by (auto intro: queue_step.wipe queue_step.prune)

end
