(* ===== verification/FleetSubmit.thy ===== *)
theory FleetSubmit
  imports FleetRecovery
begin

text \<open>
  Submissions to the fleet queue (\<open>src/remrun/fleet/queue.py\<close>, \<open>enqueue_submission\<close> and the
  durable refusals).  The validators of \<open>prepared.py\<close> and \<open>task_contract.py\<close>, the content
  digests and the live definition are in the environment.
\<close>

section \<open>Arguments\<close>

text \<open>
  \<open>sa_spec\<close> is the resolved specification that the caller passes: its \<open>spec_id\<close> and its
  canonical bytes.  \<open>sa_live\<close> is what the live definition authority answers, when there is one.
\<close>

record submit_env =
  se_validate :: "prepared_work \<Rightarrow> string option"
  se_validate_against :: "prepared_work \<Rightarrow> string \<Rightarrow> string option"
  se_spec_digest_ok :: "string \<Rightarrow> bool"
  se_raw_spec_bytes :: string
  se_fingerprint :: "string list \<Rightarrow> string \<Rightarrow> int \<Rightarrow> string list \<Rightarrow> string"
  se_refusal_key :: "string \<Rightarrow> string option \<Rightarrow> string \<Rightarrow> string"

record submit_args =
  sa_records :: "prepared_work list"
  sa_spec :: "(string \<times> string) option"
  sa_priority :: int
  sa_keys :: "string option list"
  sa_job_ids :: "string list"
  sa_live :: "string option option"
  sa_request_id :: "string option"
  sa_plan_id :: "string option"
  sa_submission_id :: string

record submission_receipt =
  sr_submission_id :: string
  sr_request_id :: "string option"
  sr_plan_id :: "string option"
  sr_job_ids :: "string list"
  sr_prepared_ids :: "string list"
  sr_created :: string
  sr_replayed :: bool

record refusal =
  re_plan_id :: string
  re_request_id :: "string option"
  re_fingerprint :: string

datatype submit_outcome = Accepted submission_receipt | Refused refusal

definition TASK_SPEC_DRIFT :: string where "TASK_SPEC_DRIFT = ''task_spec_drift''"

text \<open>\<open>len(text)\<close> counts code points: the bytes that do not continue a UTF-8 sequence.\<close>

definition py_len :: "string \<Rightarrow> nat" where
  "py_len s = length (filter (\<lambda>c. (of_char c :: nat) < 128 \<or> 192 \<le> (of_char c :: nat)) s)"

definition request_ok :: "string \<Rightarrow> bool" where
  "request_ok q \<longleftrightarrow> q \<noteq> [] \<and> py_strip q = q \<and> CHR 0x00 \<notin> set q \<and> py_len q \<le> 200"

section \<open>Refusals\<close>

definition refusal_document :: "refusal_row \<Rightarrow> queue_error + refusal" where
  "refusal_document row =
     (if rf_reason row \<noteq> TASK_SPEC_DRIFT then Inl (QueueMigrationError ''unknown reason'')
      else Inr \<lparr>re_plan_id = rf_plan_id row, re_request_id = rf_request_id row, re_fingerprint = rf_fingerprint row\<rparr>)"

definition same_refusal :: "refusal_row \<Rightarrow> string option \<Rightarrow> string option \<Rightarrow> string \<Rightarrow> bool" where
  "same_refusal row plan request fp \<longleftrightarrow>
     Some (rf_plan_id row) = plan \<and> rf_request_id row = request \<and> rf_fingerprint row = fp"

definition some_refusal :: "refusal_row \<Rightarrow> queue_error + refusal option" where
  "some_refusal row = (case refusal_document row of Inl e \<Rightarrow> Inl e | Inr d \<Rightarrow> Inr (Some d))"

definition find_submission_refusal ::
  "submit_env \<Rightarrow> string \<Rightarrow> string option \<Rightarrow> string \<Rightarrow> queue_db \<Rightarrow> queue_error + refusal option" where
  "find_submission_refusal env plan request fp db =
     (case dict_get (qd_refusals db) (se_refusal_key env plan request fp) of
        None \<Rightarrow> Inr None
      | Some row \<Rightarrow>
          if \<not> same_refusal row (Some plan) request fp
          then Inl (QueueMigrationError ''durable submission refusal identity disagrees'')
          else some_refusal row)"

text \<open>The row of a request: \<open>request_id\<close> is unique in the table.\<close>

definition refusal_of_request :: "string \<Rightarrow> queue_db \<Rightarrow> (string \<times> refusal_row) option" where
  "refusal_of_request request db = find (\<lambda>(_, row). rf_request_id row = Some request) (qd_refusals db)"

definition find_submission_refusal_by_request ::
  "submit_env \<Rightarrow> string option \<Rightarrow> string \<Rightarrow> string \<Rightarrow> queue_db \<Rightarrow> queue_error + refusal option" where
  "find_submission_refusal_by_request env plan request fp db =
     (case refusal_of_request request db of
        None \<Rightarrow> Inr None
      | Some (key, row) \<Rightarrow>
          if \<not> same_refusal row plan (Some request) fp
          then Inl (QueueMigrationError ''request identity already names a different durable refusal'')
          else if key \<noteq> se_refusal_key env (rf_plan_id row) (Some request) fp
          then Inl (QueueMigrationError ''durable submission refusal identity disagrees'')
          else some_refusal row)"

text \<open>
  \<open>_record_submission_refusal\<close>.  The transaction holds the write lock, so the two look-ups
  before the insertion see every row that could make it fail.
\<close>

definition record_submission_refusal ::
  "submit_env \<Rightarrow> string \<Rightarrow> string option \<Rightarrow> string \<Rightarrow> string \<Rightarrow> queue_db \<Rightarrow> queue_error + refusal \<times> queue_db" where
  "record_submission_refusal env plan request fp now db =
     (let key = se_refusal_key env plan request fp;
          new = \<lparr>rf_plan_id = plan, rf_request_id = request, rf_fingerprint = fp, rf_reason = TASK_SPEC_DRIFT, rf_created = now\<rparr>;
          answer = (\<lambda>row db'. case refusal_document row of Inl e \<Rightarrow> Inl e | Inr d \<Rightarrow> Inr (d, db'))
      in case dict_get (qd_refusals db) key of
           Some row \<Rightarrow>
             if \<not> same_refusal row (Some plan) request fp
             then Inl (QueueMigrationError ''durable submission refusal identity disagrees'')
             else answer row db
         | None \<Rightarrow>
             (case (case request of None \<Rightarrow> None | Some q \<Rightarrow> refusal_of_request q db) of
                Some (_, row) \<Rightarrow>
                  if same_refusal row (Some plan) request fp then answer row db
                  else Inl (QueueMigrationError ''request identity already names a different durable refusal'')
              | None \<Rightarrow> answer new (db\<lparr>qd_refusals := dict_set key new (qd_refusals db)\<rparr>)))"

section \<open>Receipts\<close>

text \<open>The jobs of a submission in the order of their items.\<close>

definition membership :: "string \<Rightarrow> queue_db \<Rightarrow> ((string \<times> nat) \<times> string \<times> string) list" where
  "membership sid db = sort_key (\<lambda>(k, _). snd k) (filter (\<lambda>(k, _). fst k = sid) (qd_submission_jobs db))"

definition receipt_of_submission :: "string \<Rightarrow> submission_row \<Rightarrow> bool \<Rightarrow> queue_db \<Rightarrow> queue_error + submission_receipt" where
  "receipt_of_submission sid row replayed db =
     (let ms = membership sid db in
      if ms = [] \<or> map (\<lambda>(k, _). snd k) ms \<noteq> [0..<length ms]
      then Inl (QueueMigrationError ''incomplete durable membership'')
      else if list_ex (\<lambda>(_, jid, pid). case dict_get (qd_jobs db) jid of None \<Rightarrow> False | Some j \<Rightarrow> jb_prepared_id j \<noteq> Some pid) ms
      then Inl (QueueMigrationError ''membership identity disagrees with its job row'')
      else Inr \<lparr>sr_submission_id = sid, sr_request_id = su_request_id row, sr_plan_id = su_plan_id row,
                sr_job_ids = map (\<lambda>(_, jid, _). jid) ms, sr_prepared_ids = map (\<lambda>(_, _, pid). pid) ms,
                sr_created = su_created row, sr_replayed = replayed\<rparr>)"

section \<open>Inserting jobs\<close>

definition reserve_stem :: "string \<Rightarrow> string \<Rightarrow> queue_db \<Rightarrow> queue_error + queue_db" where
  "reserve_stem work stem db =
     (case dict_get (qd_reservations db) stem of
        None \<Rightarrow> Inr (db\<lparr>qd_reservations := dict_set stem work (qd_reservations db)\<rparr>)
      | Some owner \<Rightarrow> if owner \<noteq> work then Inl (QueueValueError ''output reservation collision'') else Inr db)"

fun reserve_stems :: "string \<Rightarrow> string list \<Rightarrow> queue_db \<Rightarrow> queue_error + queue_db" where
  "reserve_stems work [] db = Inr db"
| "reserve_stems work (s # ss) db =
     (case reserve_stem work s db of Inl e \<Rightarrow> Inl e | Inr db' \<Rightarrow> reserve_stems work ss db')"

text \<open>\<open>SELECT ... WHERE idempotency_key=? AND state NOT IN (final)\<close>; the unique index allows one row.\<close>

definition active_key :: "string \<Rightarrow> queue_db \<Rightarrow> (string \<times> job_row) option" where
  "active_key key db =
     find (\<lambda>(_, j). jb_idempotency_key j = Some key \<and> jb_state j \<notin> set FINAL) (qd_jobs db)"

definition new_job :: "prepared_work \<Rightarrow> string \<Rightarrow> int \<Rightarrow> string \<Rightarrow> string \<Rightarrow> job_row" where
  "new_job w kind priority key now =
     \<lparr>jb_task_name = (if kind = ''task'' then pw_task_name w else ''__command__''), jb_prepared_json = Some (pw_bytes w),
      jb_prepared_id = Some (pw_prepared_id w), jb_spec_id = Some (pw_spec_id w), jb_force_device = pw_force_device w,
      jb_priority = priority, jb_idempotency_key = Some key, jb_state = Queued, jb_attempts = 0, jb_leased_until = None,
      jb_assigned_device = None, jb_batch = None, jb_created = now, jb_updated = now, jb_last_error = None,
      jb_output_manifest = None, jb_exclude_devices = None, jb_last_result = None\<rparr>"

text \<open>
  One record.  The insertion fails on a taken job id; with a key the program then looks for an
  active job under the key again, which inside the transaction is still absent.
\<close>

definition enqueue_record ::
  "string \<Rightarrow> int \<Rightarrow> string \<Rightarrow> prepared_work \<Rightarrow> string \<Rightarrow> string \<Rightarrow> queue_db \<Rightarrow> queue_error + string \<times> queue_db" where
  "enqueue_record kind priority now w key jid db =
     (case reserve_stems (pw_work_id w) (pw_stems w) db of
        Inl e \<Rightarrow> Inl e
      | Inr db1 \<Rightarrow>
          (case (if key = [] then None else active_key key db1) of
             Some (i, j) \<Rightarrow>
               if jb_prepared_id j \<noteq> Some (pw_prepared_id w)
               then Inl (QueueValueError ''idempotency_key collision with different prepared work'')
               else Inr (i, db1)
           | None \<Rightarrow>
               if dict_get (qd_jobs db1) jid \<noteq> None then Inl QueueIntegrityError
               else Inr (jid, db1\<lparr>qd_jobs := qd_jobs db1 @ [(jid, new_job w kind priority key now)]\<rparr>)))"

fun enqueue_records ::
  "string \<Rightarrow> int \<Rightarrow> string \<Rightarrow> (prepared_work \<times> string \<times> string) list \<Rightarrow> queue_db \<Rightarrow> queue_error + string list \<times> queue_db" where
  "enqueue_records kind priority now [] db = Inr ([], db)"
| "enqueue_records kind priority now ((w, key, jid) # ws) db =
     (case enqueue_record kind priority now w key jid db of
        Inl e \<Rightarrow> Inl e
      | Inr (i, db1) \<Rightarrow>
          (case enqueue_records kind priority now ws db1 of
             Inl e \<Rightarrow> Inl e
           | Inr (is, db2) \<Rightarrow> Inr (i # is, db2)))"

definition store_spec :: "string \<Rightarrow> string \<Rightarrow> queue_db \<Rightarrow> queue_error + queue_db" where
  "store_spec sid bytes db =
     (case dict_get (qd_specs db) sid of
        Some old \<Rightarrow> if old \<noteq> bytes then Inl (QueueMigrationError ''exists with different canonical bytes'') else Inr db
      | None \<Rightarrow> Inr (db\<lparr>qd_specs := dict_set sid bytes (qd_specs db)\<rparr>))"

section \<open>Submitting\<close>

definition resolved_key :: "string \<Rightarrow> prepared_work \<Rightarrow> string option \<Rightarrow> string" where
  "resolved_key kind w requested =
     (case requested of Some k \<Rightarrow> k | None \<Rightarrow> if kind = ''task'' then pw_prepared_id w else [])"

text \<open>The checks before the transaction: the kind, the specification and its bytes.\<close>

definition submit_checks :: "submit_env \<Rightarrow> submit_args \<Rightarrow> queue_error + string \<times> string \<times> string" where
  "submit_checks env a =
     (if sa_records a = [] then Inl (QueueValueError ''requires at least one record'')
      else if (case sa_request_id a of None \<Rightarrow> False | Some q \<Rightarrow> \<not> request_ok q)
      then Inl (QueueValueError ''request_id'')
      else if (case sa_plan_id a of None \<Rightarrow> False | Some p \<Rightarrow> p = [] \<or> py_len p > 200) then Inl (QueueValueError ''plan_id'')
      else (case find (\<lambda>w. se_validate env w \<noteq> None) (sa_records a) of
        Some w \<Rightarrow> Inl (QueueValueError (the (se_validate env w)))
      | None \<Rightarrow>
          (let kind = pw_kind (hd (sa_records a)); sid = pw_spec_id (hd (sa_records a)) in
           if \<not> list_all (\<lambda>w. pw_kind w = kind \<and> pw_spec_id w = sid) (sa_records a)
           then Inl (QueueValueError ''must share one kind and spec_id'')
           else if kind = ''task'' then
             (if sa_live a = None then Inl (QueueValueError ''requires a live definition authority'')
              else (case sa_spec a of
                None \<Rightarrow> Inl (QueueValueError ''requires its exact resolved spec'')
              | Some (given, bytes) \<Rightarrow>
                  if given \<noteq> sid then Inl (QueueValueError ''requires its exact resolved spec'')
                  else (case find (\<lambda>w. se_validate_against env w bytes \<noteq> None) (sa_records a) of
                          Some w \<Rightarrow> Inl (QueueValueError (the (se_validate_against env w bytes)))
                        | None \<Rightarrow>
                            if \<not> se_spec_digest_ok env bytes then Inl (QueueValueError ''spec_id does not match'')
                            else Inr (kind, sid, bytes))))
           else if sa_spec a \<noteq> None then Inl (QueueValueError ''raw command does not accept a spec'')
           else Inr (kind, sid, se_raw_spec_bytes env))))"

definition find_submission :: "(submission_row \<Rightarrow> bool) \<Rightarrow> queue_db \<Rightarrow> (string \<times> submission_row) option" where
  "find_submission P db = find (\<lambda>(_, row). P row) (qd_submissions db)"

definition existing_submission :: "submit_args \<Rightarrow> queue_db \<Rightarrow> (string \<times> submission_row) option" where
  "existing_submission a db =
     (case (case sa_plan_id a of None \<Rightarrow> None | Some p \<Rightarrow> find_submission (\<lambda>r. su_plan_id r = Some p) db) of
        Some r \<Rightarrow> Some r
      | None \<Rightarrow> (case sa_request_id a of None \<Rightarrow> None | Some q \<Rightarrow> find_submission (\<lambda>r. su_request_id r = Some q) db))"

text \<open>The rows that an accepted submission writes.\<close>

definition store_submission ::
  "submit_args \<Rightarrow> string \<Rightarrow> string \<Rightarrow> string list \<Rightarrow> queue_db \<Rightarrow> queue_error + submit_outcome \<times> queue_db" where
  "store_submission a fp now ids db =
     (let sid = sa_submission_id a;
          row = \<lparr>su_request_id = sa_request_id a, su_plan_id = sa_plan_id a, su_fingerprint = fp, su_created = now\<rparr>;
          items = map (\<lambda>(n, i, w). ((sid, n), (i, pw_prepared_id w))) (zip [0..<length ids] (zip ids (sa_records a)));
          db1 = db\<lparr>qd_submissions := dict_set sid row (qd_submissions db), qd_submission_jobs := qd_submission_jobs db @ items\<rparr>
      in if dict_get (qd_submissions db) sid \<noteq> None \<or> list_ex (\<lambda>(k, _). fst k = sid) (qd_submission_jobs db)
         then Inl QueueIntegrityError
         else (case (case sa_plan_id a of
                       None \<Rightarrow> Inr db1
                     | Some p \<Rightarrow>
                         (case dict_get (qd_plans db1) p of
                            Some pl \<Rightarrow>
                              if pl_consumed pl = None
                              then Inr (db1\<lparr>qd_plans := dict_set p (pl\<lparr>pl_consumed := Some sid\<rparr>) (qd_plans db1)\<rparr>)
                              else Inl (QueueValueError ''saved plan is missing or already consumed inconsistently'')
                          | None \<Rightarrow> Inl (QueueValueError ''saved plan is missing or already consumed inconsistently''))) of
                 Inl e \<Rightarrow> Inl e
               | Inr db2 \<Rightarrow>
                   (case receipt_of_submission sid row False db2 of Inl e \<Rightarrow> Inl e | Inr r \<Rightarrow> Inr (Accepted r, db2))))"

definition accept_submission ::
  "submit_args \<Rightarrow> string \<Rightarrow> string \<Rightarrow> string \<Rightarrow> string \<Rightarrow> string list \<Rightarrow> string \<Rightarrow> queue_db
   \<Rightarrow> queue_error + submit_outcome \<times> queue_db" where
  "accept_submission a kind sid bytes fp keys now db =
     (case store_spec sid bytes db of
        Inl e \<Rightarrow> Inl e
      | Inr db1 \<Rightarrow>
          (case enqueue_records kind (sa_priority a) now (zip (sa_records a) (zip keys (sa_job_ids a))) db1 of
             Inl e \<Rightarrow> Inl e
           | Inr (ids, db2) \<Rightarrow> store_submission a fp now ids db2))"

text \<open>The identities that a request or a plan already has.\<close>

definition replay_submission ::
  "submit_args \<Rightarrow> string \<Rightarrow> string \<times> submission_row \<Rightarrow> refusal option \<Rightarrow> queue_db \<Rightarrow> queue_error + submit_outcome \<times> queue_db" where
  "replay_submission a fp ex refused db =
     (let (sid, row) = ex in
      if refused \<noteq> None then Inl (QueueMigrationError ''both accepted submission and durable refusal'')
      else if sa_plan_id a \<noteq> None \<and> su_plan_id row \<noteq> sa_plan_id a
      then Inl (QueueValueError ''request and plan identities do not name the same submission'')
      else if sa_request_id a \<noteq> None \<and> su_request_id row \<noteq> sa_request_id a
      then Inl (QueueValueError ''request and plan identities do not name the same submission'')
      else if su_fingerprint row \<noteq> fp then Inl (QueueValueError ''already names a different prepared submission'')
      else (case receipt_of_submission sid row True db of Inl e \<Rightarrow> Inl e | Inr r \<Rightarrow> Inr (Accepted r, db)))"

definition fresh_submission ::
  "submit_env \<Rightarrow> submit_args \<Rightarrow> string \<Rightarrow> string \<Rightarrow> string \<Rightarrow> string \<Rightarrow> string list \<Rightarrow> string \<Rightarrow> queue_db
   \<Rightarrow> queue_error + submit_outcome \<times> queue_db" where
  "fresh_submission env a kind sid bytes fp keys now db =
     (case (case sa_plan_id a of None \<Rightarrow> Inr None | Some p \<Rightarrow> find_submission_refusal env p (sa_request_id a) fp db) of
        Inl e \<Rightarrow> Inl e
      | Inr (Some d) \<Rightarrow> Inr (Refused d, db)
      | Inr None \<Rightarrow>
          if kind = ''task'' \<and> sa_live a \<noteq> Some (Some sid) then
            (case sa_plan_id a of
               None \<Rightarrow> Inl (QueueValueError ''task definition changed before atomic enqueue'')
             | Some p \<Rightarrow>
                 (case record_submission_refusal env p (sa_request_id a) fp now db of
                    Inl e \<Rightarrow> Inl e
                  | Inr (d, db') \<Rightarrow> Inr (Refused d, db')))
          else accept_submission a kind sid bytes fp keys now db)"

definition submit_transaction ::
  "submit_env \<Rightarrow> submit_args \<Rightarrow> string \<Rightarrow> string \<Rightarrow> string \<Rightarrow> string \<Rightarrow> string list \<Rightarrow> string \<Rightarrow> submit_outcome queue_body" where
  "submit_transaction env a kind sid bytes fp keys now db =
     (case (case sa_request_id a of
              None \<Rightarrow> Inr None
            | Some q \<Rightarrow> find_submission_refusal_by_request env (sa_plan_id a) q fp db) of
        Inl e \<Rightarrow> Inl e
      | Inr refused \<Rightarrow>
          (case existing_submission a db of
             Some ex \<Rightarrow> replay_submission a fp ex refused db
           | None \<Rightarrow>
               (case refused of
                  Some d \<Rightarrow> Inr (Refused d, db)
                | None \<Rightarrow> fresh_submission env a kind sid bytes fp keys now db)))"

text \<open>
  \<open>enqueue_submission\<close>: a \<open>Refused\<close> outcome is the exception \<open>TaskSpecDriftRefusal\<close>, raised after
  the transaction has been committed.
\<close>

definition enqueue_submission ::
  "submit_env \<Rightarrow> submit_args \<Rightarrow> string \<Rightarrow> queue_db \<Rightarrow> (queue_error + submit_outcome) \<times> queue_db" where
  "enqueue_submission env a now db =
     (case submit_checks env a of
        Inl e \<Rightarrow> (Inl e, db)
      | Inr (kind, sid, bytes) \<Rightarrow>
          if length (sa_keys a) \<noteq> length (sa_records a) \<or> length (sa_job_ids a) \<noteq> length (sa_records a)
          then (Inl (QueueValueError ''metadata length mismatch''), db)
          else
            (let keys = map (\<lambda>(w, k). resolved_key kind w k) (zip (sa_records a) (sa_keys a));
                 fp = se_fingerprint env (map pw_prepared_id (sa_records a)) sid (sa_priority a) keys
             in immediate (submit_transaction env a kind sid bytes fp keys now) db))"

section \<open>Saved plans\<close>

text \<open>
  A saved plan pins every record to a device.  The stored bytes are the canonical form of the
  plan, and reading them back gives the plan; a row with other bytes is not represented.
\<close>

definition pinned :: "prepared_work \<Rightarrow> bool" where
  "pinned w \<longleftrightarrow> pw_kind w = ''task'' \<and> nonempty (pw_force_device w) \<and> \<not> pw_allow_fallback w"

definition plan_error :: "submit_env \<Rightarrow> string \<times> string \<Rightarrow> prepared_work list \<Rightarrow> string option" where
  "plan_error env spec ws =
     (if ws = [] then Some ''requires at least one prepared record''
      else if list_ex (\<lambda>w. se_validate env w \<noteq> None \<or> \<not> pinned w \<or> se_validate_against env w (snd spec) \<noteq> None) ws
      then Some ''prepared record''
      else if length (remdups (map pw_force_device ws)) > 1 \<and> list_ex (\<lambda>w. pw_root_override w \<noteq> None) ws
      then Some ''multi-device saved plan cannot carry one output-root''
      else None)"

definition save_submission_plan ::
  "submit_env \<Rightarrow> string \<times> string \<Rightarrow> prepared_work list \<Rightarrow> string option option \<Rightarrow> int \<Rightarrow> string \<Rightarrow> string \<Rightarrow> queue_db
   \<Rightarrow> (queue_error + string) \<times> queue_db" where
  "save_submission_plan env spec ws live priority plan_id now db =
     (case plan_error env spec ws of
        Some e \<Rightarrow> (Inl (QueueValueError e), db)
      | None \<Rightarrow>
          immediate (\<lambda>db.
            if live \<noteq> Some (Some (fst spec)) then Inl (QueueValueError ''task definition changed before atomic plan save'')
            else if dict_get (qd_plans db) plan_id \<noteq> None then Inl QueueIntegrityError
            else Inr (plan_id, db\<lparr>qd_plans := dict_set plan_id
                   \<lparr>pl_spec = spec, pl_records = ws, pl_priority = priority, pl_created = now, pl_consumed = None\<rparr>
                   (qd_plans db)\<rparr>)) db)"

definition get_submission_plan :: "submit_env \<Rightarrow> string \<Rightarrow> queue_db \<Rightarrow> queue_error + plan_row option" where
  "get_submission_plan env plan_id db =
     (case dict_get (qd_plans db) plan_id of
        None \<Rightarrow> Inr None
      | Some pl \<Rightarrow>
          if pl_records pl = [] then Inl (QueueMigrationError ''unsupported shape'')
          else if list_ex (\<lambda>w. se_validate env w \<noteq> None \<or> \<not> pinned w \<or> se_validate_against env w (snd (pl_spec pl)) \<noteq> None)
                  (pl_records pl)
          then Inl (QueueMigrationError ''is invalid'')
          else Inr (Some pl))"

text \<open>\<open>get_submission\<close> with the one identity that the caller selects.\<close>

datatype submission_selector = BySubmission string | ByRequest string | ByPlan string

definition selected_submission :: "submission_selector \<Rightarrow> queue_db \<Rightarrow> (string \<times> submission_row) option" where
  "selected_submission sel db =
     (case sel of
        BySubmission i \<Rightarrow> map_option (\<lambda>row. (i, row)) (dict_get (qd_submissions db) i)
      | ByRequest q \<Rightarrow> find_submission (\<lambda>r. su_request_id r = Some q) db
      | ByPlan p \<Rightarrow> find_submission (\<lambda>r. su_plan_id r = Some p) db)"

definition get_submission :: "submission_selector \<Rightarrow> queue_db \<Rightarrow> queue_error + submission_receipt option" where
  "get_submission sel db =
     (case selected_submission sel db of
        None \<Rightarrow> Inr None
      | Some (sid, row) \<Rightarrow>
          if (case sel of ByRequest q \<Rightarrow> refusal_of_request q db \<noteq> None | _ \<Rightarrow> False)
          then Inl (QueueMigrationError ''both accepted submission and durable refusal'')
          else (case receipt_of_submission sid row True db of Inl e \<Rightarrow> Inl e | Inr r \<Rightarrow> Inr (Some r)))"

text \<open>\<open>enqueue_saved_plan\<close>; the fresh identifiers of the submission and of its jobs are arguments.\<close>

definition enqueue_saved_plan ::
  "submit_env \<Rightarrow> string \<Rightarrow> string option \<Rightarrow> string option option \<Rightarrow> string list \<Rightarrow> string \<Rightarrow> string \<Rightarrow> queue_db
   \<Rightarrow> (queue_error + submit_outcome) \<times> queue_db" where
  "enqueue_saved_plan env plan_id request live job_ids sid now db =
     (case get_submission (ByPlan plan_id) db of
        Inl e \<Rightarrow> (Inl e, db)
      | Inr existing \<Rightarrow>
          (case get_submission_plan env plan_id db of
             Inl e \<Rightarrow> (Inl e, db)
           | Inr None \<Rightarrow> (Inl (QueueValueError ''unknown saved plan''), db)
           | Inr (Some pl) \<Rightarrow>
               (case existing of
                  Some r \<Rightarrow>
                    if pl_consumed pl \<noteq> Some (sr_submission_id r)
                    then (Inl (QueueMigrationError ''disagrees with its accepted submission''), db)
                    else if request \<noteq> None \<and> request \<noteq> sr_request_id r
                    then (Inl (QueueValueError ''saved plan replay cannot change its caller request identity''), db)
                    else (Inr (Accepted r), db)
                | None \<Rightarrow>
                    enqueue_submission env
                      \<lparr>sa_records = pl_records pl, sa_spec = Some (pl_spec pl), sa_priority = pl_priority pl,
                       sa_keys = map (\<lambda>_. None) (pl_records pl), sa_job_ids = job_ids, sa_live = live,
                       sa_request_id = request, sa_plan_id = Some plan_id, sa_submission_id = sid\<rparr> now db)))"

end
