(* ===== verification/FleetHistory.thy ===== *)
theory FleetHistory
  imports FleetRefine FleetSubmit
begin

text \<open>
  Histories of the fleet queue: any interleaving of the operations, from several dispatchers,
  at times that do not go back.
\<close>

section \<open>Submissions\<close>

lemma reserve_stems_tables:
  "reserve_stems work ss db = Inr db' \<Longrightarrow>
     qd_jobs db' = qd_jobs db \<and> qd_batches db' = qd_batches db \<and> qd_leases db' = qd_leases db"
proof (induction ss arbitrary: db)
  case (Cons s ss)
  from Cons.prems obtain db1 where 1: "reserve_stem work s db = Inr db1" and 2: "reserve_stems work ss db1 = Inr db'"
    by (auto split: sum.splits)
  from 1 have "qd_jobs db1 = qd_jobs db \<and> qd_batches db1 = qd_batches db \<and> qd_leases db1 = qd_leases db"
    by (auto simp: reserve_stem_def split: option.splits if_splits)
  with Cons.IH [OF 2] show ?case by simp
qed simp

lemma active_key_None:
  assumes "active_key key db = None" and "job_at db i = Some j"
  shows "\<not> keyed key j"
  using assms by (auto simp: active_key_def keyed_def find_None_iff dest: map_of_SomeD)

lemma enqueue_record_steps:
  assumes "enqueue_record kind priority now' wk key jid db = Inr (i, db')"
  shows "queue_steps D now db db'"
proof -
  from assms obtain db1 where r: "reserve_stems (pw_work_id wk) (pw_stems wk) db = Inr db1"
    and rest: "db' = db1 \<or> (key = [] \<or> active_key key db1 = None) \<and> job_at db1 jid = None
      \<and> db' = db1\<lparr>qd_jobs := qd_jobs db1 @ [(jid, new_job wk kind priority key now')]\<rparr>"
    by (auto simp: enqueue_record_def split: sum.splits option.splits if_splits)
  have 1: "queue_step D now db db1" by (rule queue_step.other) (use reserve_stems_tables [OF r] in auto)
  have 2: "queue_step D now db1 (db1\<lparr>qd_jobs := qd_jobs db1 @ [(jid, new_job wk kind priority key now')]\<rparr>)"
    if "key = [] \<or> active_key key db1 = None" "job_at db1 jid = None"
    by (rule queue_step.enqueue [OF that(2)])
      (use that(1) active_key_None in \<open>auto simp: new_job_def keyed_def\<close>)
  from rest 1 2 show ?thesis by auto
qed

lemma enqueue_records_steps:
  "enqueue_records kind priority now' ws db = Inr (is, db') \<Longrightarrow> queue_steps D now db db'"
proof (induction ws arbitrary: db "is")
  case (Cons x ws)
  obtain wk key jid where x: "x = (wk, key, jid)" by (cases x)
  from Cons.prems x obtain i db1 is1 where 1: "enqueue_record kind priority now' wk key jid db = Inr (i, db1)"
    and 2: "enqueue_records kind priority now' ws db1 = Inr (is1, db')"
    by (auto split: sum.splits)
  from enqueue_record_steps [OF 1] Cons.IH [OF 2] show ?case by (rule rtranclp_trans)
qed simp

lemma store_submission_tables:
  "store_submission a fp now ids db = Inr (out, db') \<Longrightarrow>
     qd_jobs db' = qd_jobs db \<and> qd_batches db' = qd_batches db \<and> qd_leases db' = qd_leases db"
  by (auto simp: store_submission_def Let_def split: if_splits option.splits sum.splits)

lemma accept_submission_steps:
  assumes "accept_submission a kind sid bytes fp keys now' db = Inr (out, db')"
  shows "queue_steps D now db db'"
proof -
  from assms obtain db1 ids db2 where 1: "store_spec sid bytes db = Inr db1"
    and 2: "enqueue_records kind (sa_priority a) now' (zip (sa_records a) (zip keys (sa_job_ids a))) db1 = Inr (ids, db2)"
    and 3: "store_submission a fp now' ids db2 = Inr (out, db')"
    by (auto simp: accept_submission_def split: sum.splits)
  have "queue_step D now db db1"
    by (rule queue_step.other) (use 1 in \<open>auto simp: store_spec_def split: option.splits if_splits\<close>)
  moreover have "queue_step D now db2 db'" by (rule queue_step.other) (use store_submission_tables [OF 3] in auto)
  ultimately show ?thesis using enqueue_records_steps [OF 2, of D now] by simp
qed

lemma record_submission_refusal_tables:
  "record_submission_refusal env plan request fp now db = Inr (d, db') \<Longrightarrow>
     qd_jobs db' = qd_jobs db \<and> qd_batches db' = qd_batches db \<and> qd_leases db' = qd_leases db"
  by (auto simp: record_submission_refusal_def Let_def split: if_splits option.splits sum.splits)

lemma submit_transaction_steps:
  assumes "submit_transaction env a kind sid bytes fp keys now db = Inr (out, db')"
  shows "queue_steps D now db db'"
proof -
  have drift: "queue_steps D now db db'" if "record_submission_refusal env p q fp now db = Inr (d, db')" for p q d
    by (rule r_into_rtranclp, rule queue_step.other) (use record_submission_refusal_tables [OF that] in auto)
  from assms show ?thesis
    unfolding submit_transaction_def fresh_submission_def replay_submission_def Let_def
    by (auto split: option.splits sum.splits if_splits intro: accept_submission_steps drift)
qed

lemma enqueue_submission_steps: "queue_steps D now db (snd (enqueue_submission env a now db))"
  unfolding enqueue_submission_def immediate_def Let_def
  by (auto split: sum.splits intro: submit_transaction_steps)

lemma save_submission_plan_steps:
  "queue_steps D now db (snd (save_submission_plan env spec ws live priority plan_id now db))"
  unfolding save_submission_plan_def immediate_def
  by (auto split: option.split sum.split intro!: r_into_rtranclp queue_step.other)

lemma enqueue_saved_plan_steps:
  "queue_steps D now db (snd (enqueue_saved_plan env plan_id request live job_ids sid now db))"
  unfolding enqueue_saved_plan_def by (auto split: option.split sum.split intro: enqueue_submission_steps)

section \<open>Operations\<close>

datatype fleet_op =
    Submit submit_env submit_args
  | SavePlan submit_env "string \<times> string" "prepared_work list" "string option option" int string
  | SubmitPlan submit_env string "string option" "string option option" "string list" string
  | FinalizeQueued string string | ReviewQueued string string | CancelQueued string
  | ClaimMany queue_env claim_args
  | SetBatchState string work_state work_state string
  | Heartbeat string string work_state string
  | CompleteBatch string work_state string "string option" "observation option" "string option"
  | CompleteBatchItems string work_state string item_results
  | FailBatch string string work_state string int bool "string option" "observation option" "string option"
  | MarkUnknown string string work_state string "string option" "observation option" string
  | RevokePrelaunch string string string "string option" | RecordRevoked string string string
  | BeginCancellation string "string list" | CancellationUnknown string "string list" string
  | CancelActive string "string list" string | FencedCancellation string string
  | TargetReservation string string string string work_state string
  | TargetAcceptance string string string work_state string
  | AuthorizeCleanup string string string string work_state string
  | TargetFinalization string string string string bool bool work_state string
  | CleanupProgress string string string cleanup_args
  | ExpiredFinalization string string string string bool
  | AuthorizeRelease string string bool
  | ExpireStale queue_env string bool int
  | RecoverStale queue_env "string list option"
  | SetCooldown string string string string string | PruneCooldowns
  | Clear bool | PruneFinal nat

fun run_fleet_op :: "string \<Rightarrow> fleet_op \<Rightarrow> queue_db \<Rightarrow> queue_db" where
  "run_fleet_op now (Submit env a) db = snd (enqueue_submission env a now db)"
| "run_fleet_op now (SavePlan env spec ws live prio p) db = snd (save_submission_plan env spec ws live prio p now db)"
| "run_fleet_op now (SubmitPlan env p q live is sid) db = snd (enqueue_saved_plan env p q live is sid now db)"
| "run_fleet_op now (FinalizeQueued i e) db = snd (finalize_queued i e now db)"
| "run_fleet_op now (ReviewQueued i e) db = snd (review_queued i e now db)"
| "run_fleet_op now (CancelQueued i) db = snd (cancel_queued i now db)"
| "run_fleet_op now (ClaimMany env a) db = snd (claim_many env a now db)"
| "run_fleet_op now (SetBatchState b st ex tok) db = snd (set_batch_state b st ex tok now db)"
| "run_fleet_op now (Heartbeat b until ex tok) db = snd (heartbeat b until ex tok now db)"
| "run_fleet_op now (CompleteBatch b ex tok res ob d) db = snd (complete_batch b ex tok now res ob d db)"
| "run_fleet_op now (CompleteBatchItems b ex tok it) db = snd (complete_batch_items b ex tok now it db)"
| "run_fleet_op now (FailBatch b e ex tok n c res ob d) db = snd (fail_batch b e ex tok now n c res ob d db)"
| "run_fleet_op now (MarkUnknown b e ex tok res ob d) db = snd (mark_completion_unknown b e ex tok now res ob d db)"
| "run_fleet_op now (RevokePrelaunch b tok e d) db = snd (revoke_prelaunch_batch b tok e now d db)"
| "run_fleet_op now (RecordRevoked b tok res) db = snd (record_revoked_prelaunch_result b tok res now db)"
| "run_fleet_op now (BeginCancellation b is) db = snd (begin_active_cancellation b is now db)"
| "run_fleet_op now (CancellationUnknown b is e) db = snd (mark_active_cancellation_unknown b is e now db)"
| "run_fleet_op now (CancelActive b is c) db = snd (cancel_active_batch b is c now db)"
| "run_fleet_op now (FencedCancellation b c) db = snd (record_fenced_cancellation b c now db)"
| "run_fleet_op now (TargetReservation b op sha res ex tok) db = snd (record_target_reservation b op sha res ex tok now db)"
| "run_fleet_op now (TargetAcceptance b op sha ex tok) db = snd (record_target_acceptance b op sha ex tok now db)"
| "run_fleet_op now (AuthorizeCleanup b op sha c ex tok) db = snd (authorize_target_cleanup b op sha c ex tok now db)"
| "run_fleet_op now (TargetFinalization b op sha c st du ex tok) db = snd (record_target_finalization b op sha c st du ex tok now db)"
| "run_fleet_op now (CleanupProgress b op sha c) db = snd (record_target_cleanup_progress b op sha c now db)"
| "run_fleet_op now (ExpiredFinalization b op sha c rel) db = snd (record_expired_target_finalization b op sha c rel now db)"
| "run_fleet_op now (AuthorizeRelease op sha ack) db = snd (authorize_target_release op sha ack now db)"
| "run_fleet_op now (ExpireStale env b safe n) db = snd (expire_stale_batch env b now safe n db)"
| "run_fleet_op now (RecoverStale env is) db = snd (recover_stale env now is db)"
| "run_fleet_op now (SetCooldown dev until eng kind reason) db = set_cooldown dev until eng kind reason now db"
| "run_fleet_op now PruneCooldowns db = snd (prune_cooldowns now db)"
| "run_fleet_op now (Clear final) db = snd (clear final db)"
| "run_fleet_op now (PruneFinal keep) db = snd (prune_final keep db)"

text \<open>
  How the dispatcher and the executor call the queue: an owner names an execution state, and
  no caller raises the number of attempts above the default.
\<close>

fun call_ok :: "fleet_op \<Rightarrow> bool" where
  "call_ok (SetBatchState b st ex tok) \<longleftrightarrow> ex \<in> set BATCH_EXECUTING \<and> st \<in> set BATCH_EXECUTING"
| "call_ok (CompleteBatch b ex tok res ob d) \<longleftrightarrow> ex \<in> set BATCH_EXECUTING"
| "call_ok (CompleteBatchItems b ex tok it) \<longleftrightarrow> ex \<in> set BATCH_EXECUTING \<and> it_max_attempts it \<le> MAX_ATTEMPTS"
| "call_ok (FailBatch b e ex tok n c res ob d) \<longleftrightarrow> ex \<in> set BATCH_EXECUTING \<and> n \<le> MAX_ATTEMPTS"
| "call_ok (ExpireStale env b safe n) \<longleftrightarrow> n \<le> MAX_ATTEMPTS"
| "call_ok _ \<longleftrightarrow> True"

fun deletions :: "fleet_op \<Rightarrow> deletion set" where
  "deletions (Clear final) = {Wipe}"
| "deletions (PruneFinal keep) = {Prune}"
| "deletions _ = {}"

lemma expire_stale_batch_steps:
  assumes "queue_inv db" "n \<le> MAX_ATTEMPTS"
  shows "queue_steps D now db (snd (expire_stale_batch env b now safe n db))"
  unfolding expire_stale_batch_def by (rule expire_batch_steps [OF assms]) simp

lemmas all_steps = enqueue_submission_steps save_submission_plan_steps
  enqueue_saved_plan_steps settle_steps claim_many_steps set_batch_state_steps batch_heartbeat_steps
  complete_batch_steps complete_batch_items_steps fail_batch_steps mark_completion_unknown_steps
  revoke_prelaunch_batch_steps record_revoked_steps begin_active_cancellation_steps mark_active_cancellation_unknown_steps
  cancel_active_batch_steps target_ledger_steps target_cleanup_steps authorize_target_release_steps
  expire_stale_batch_steps recover_stale_steps maintenance_steps deletion_steps

lemma run_fleet_op_steps:
  assumes "queue_inv db" and "call_ok op"
  shows "queue_steps (deletions op) now db (run_fleet_op now op db)"
  using assms by (cases op) (simp_all add: all_steps)

section \<open>Reachable queues\<close>

definition empty_queue :: queue_db where
  "empty_queue = \<lparr>qd_jobs = [], qd_batches = [], qd_leases = [], qd_cooldowns = [], qd_specs = [], qd_observations = [],
     qd_reservations = [], qd_submissions = [], qd_submission_jobs = [], qd_plans = [], qd_refusals = []\<rparr>"

inductive fleet_step :: "string \<times> queue_db \<Rightarrow> string \<times> queue_db \<Rightarrow> bool" where
  "t \<le> t' \<Longrightarrow> call_ok op \<Longrightarrow> fleet_step (t, db) (t', run_fleet_op t' op db)"

definition fleet_reachable :: "string \<times> queue_db \<Rightarrow> bool" where
  "fleet_reachable s \<longleftrightarrow> (\<exists>t. fleet_step\<^sup>*\<^sup>* (t, empty_queue) s)"

inductive_cases fleet_stepE: "fleet_step s s'"

lemma fleet_step_steps:
  assumes "fleet_step s s'" and "queue_inv (snd s)"
  shows "queue_steps UNIV (fst s') (snd s) (snd s') \<and> fst s \<le> fst s'"
  using assms(1)
proof cases
  case (1 t t' op db)
  have "queue_steps (deletions op) t' db (run_fleet_op t' op db)"
    using run_fleet_op_steps assms(2) 1 by simp
  moreover have "queue_step (deletions op) t' \<le> queue_step UNIV t'"
    by (auto elim!: queue_step.cases intro: queue_step.intros)
  ultimately have "queue_steps UNIV t' db (run_fleet_op t' op db)"
    using rtranclp_mono by blast
  with 1 show ?thesis by simp
qed

interpretation fm: invariant_machine fleet_step "\<lambda>s. queue_inv (snd s)"
  by unfold_locales (auto dest: fleet_step_steps intro: qm.steps_inv)

lemma empty_queue_inv: "queue_inv empty_queue"
  by (simp add: queue_inv_def empty_queue_def keys_unique_def)

lemma fleet_reachable_inv: "fleet_reachable s \<Longrightarrow> queue_inv (snd s)"
  unfolding fleet_reachable_def using fm.steps_inv empty_queue_inv by fastforce

end
