(* ===== verification/FleetSafety.thy ===== *)
theory FleetSafety
  imports FleetHistory
begin

text \<open>
  Properties of the fleet queue over whole histories.
\<close>

section \<open>What no transition undoes\<close>

lemma prune_order_iff:
  "dict_ok (qd_jobs db) \<Longrightarrow> i \<in> set (prune_order db) \<longleftrightarrow> (\<exists>j. job_at db i = Some j \<and> prunable db j)"
  by (force simp: prune_order_def select_where_def)

lemma unknown_step:
  assumes "queue_step {Prune} now db db'" and "queue_inv db"
    and "job_at db i = Some j" "jb_state j = CompletionUnknown"
  shows "\<exists>j'. job_at db' i = Some j' \<and> jb_state j' = CompletionUnknown \<and> same_work j j'"
  using assms(1)
proof cases
  case (finish b r r' P f)
  have "\<not> in_batch b j"
    using linked_active [OF in_batch_linked(1) [OF assms(2,3) _ finish(2)] finish(3)] assms(4)
    by (auto simp: executing_iff)
  with finish(8) assms(3,4) show ?thesis unfolding finish(1) by (auto simp: dict_get_update_where same_work_def)
next
  case (advance b r st)
  with assms(3,4) show ?thesis by (auto simp: dict_get_update_where same_work_def executing_iff)
next
  case (claim a pl)
  with assms(3,4) show ?thesis by (auto simp: grant_claim_tables dict_get_update_where same_work_def)
next
  case (prune keep)
  have "i \<notin> set (prune_order db)"
    using assms(3,4) unfolding prune_order_iff [OF queue_invD(1) [OF assms(2)]] by (auto simp: prunable_def PRUNABLE_def)
  then have "job_at db' i = Some j" unfolding prune prune_final_def Let_def
    using assms(3) queue_invD(1) [OF assms(2)] by (auto simp: dict_get_delete_where simp del: map_of_eq_Some_iff dest: in_set_dropD)
  with assms(4) show ?thesis by (auto simp: same_work_def)
qed (use assms in \<open>auto simp: dict_get_update_where settle_queued_def same_work_def map_add_def\<close>)

lemma unknown_steps:
  assumes "queue_steps {Prune} now db db'" and "queue_inv db"
    and "job_at db i = Some j" "jb_state j = CompletionUnknown"
  shows "\<exists>j'. job_at db' i = Some j' \<and> jb_state j' = CompletionUnknown \<and> same_work j j'"
  using assms
proof (induction rule: rtranclp_induct)
  case base
  then show ?case by (auto simp: same_work_def)
next
  case (step a b)
  then obtain h where "job_at a i = Some h" "jb_state h = CompletionUnknown" "same_work j h" by blast
  with unknown_step [OF step.hyps(2) qm.steps_inv [OF step.hyps(1) step.prems(1)]] show ?case
    by (fastforce simp: same_work_def)
qed

text \<open>
  The life of a batch row: its identity and its ledger only grow, a batch that stopped
  executing never executes again, and a fence that has expired is never renewed.
\<close>

definition batch_le :: "string \<Rightarrow> batch_row \<Rightarrow> batch_row \<Rightarrow> bool" where
  "batch_le now r r' \<longleftrightarrow>
     successor r r' \<and> (ba_state r \<notin> set BATCH_EXECUTING \<longrightarrow> ba_state r' \<notin> set BATCH_EXECUTING)
     \<and> (ba_lease_until r \<le> now \<longrightarrow> ba_lease_until r' = ba_lease_until r)"

lemma once_trans: "once u v \<Longrightarrow> once v w \<Longrightarrow> once u w"
  by (auto simp: once_def)

lemma kept_trans: "kept u v \<Longrightarrow> kept v w \<Longrightarrow> kept u w"
  by (auto simp: kept_def)

lemma successor_refl: "successor r r"
  by (simp add: successor_defs)

lemma successor_trans: "successor r s \<Longrightarrow> successor s q \<Longrightarrow> successor r q"
  unfolding successor_def same_batch_def ledger_le_def by (auto intro: once_trans kept_trans)

lemma batch_le_refl: "batch_le now r r"
  by (simp add: batch_le_def successor_refl)

lemma batch_le_trans: "batch_le now r s \<Longrightarrow> batch_le now s q \<Longrightarrow> batch_le now r q"
  by (auto simp: batch_le_def intro: successor_trans)

lemma batch_step:
  assumes "queue_step {} now db db'" and r: "batch_at db b = Some r"
  shows "\<exists>r'. batch_at db' b = Some r' \<and> batch_le now r r'"
  using assms(1)
proof cases
  case (claim a pl)
  with r show ?thesis by (auto simp: grant_claim_tables dict_get_set batch_le_refl)
next
  case (advance c q st)
  with r show ?thesis by (auto simp: dict_get_set batch_le_refl batch_le_def successor_defs)
next
  case (renew c q until)
  with r show ?thesis by (auto simp: dict_get_set batch_le_refl batch_le_def successor_defs)
next
  case (ledger c q q')
  with r show ?thesis by (auto simp: dict_get_set batch_le_def successor_refl)
next
  case (cancel c q q')
  with r show ?thesis by (auto simp: dict_get_set batch_le_def successor_refl executing_iff)
next
  case (finish c q q' P f)
  with r show ?thesis by (auto simp: dict_get_set batch_le_def successor_refl executing_iff)
qed (use r in \<open>auto simp: settle_queued_def batch_le_refl\<close>)

lemma batch_steps:
  assumes "queue_steps {} now db db'" and "batch_at db b = Some r"
  shows "\<exists>r'. batch_at db' b = Some r' \<and> batch_le now r r'"
  using assms
proof (induction rule: rtranclp_induct)
  case base
  then show ?case by (auto intro: batch_le_refl)
next
  case (step a c)
  then obtain q where "batch_at a b = Some q" "batch_le now r q" by blast
  with batch_step [OF step.hyps(2)] batch_le_trans show ?case by blast
qed

lemma deleted_rows:
  assumes "queue_inv db"
  shows "batch_at (snd (clear final db)) b = Some r' \<Longrightarrow> batch_at db b = Some r'"
    "batch_at (snd (prune_final keep db)) b = Some r' \<Longrightarrow> batch_at db b = Some r'"
  unfolding clear_def prune_final_def Let_def
  by (auto simp: dict_get_delete_where [OF queue_invD(2) [OF assms]] split: option.splits if_splits)

lemma run_fleet_op_batch:
  assumes inv: "queue_inv db" and op: "call_ok op" and r: "batch_at db b = Some r"
    and r': "batch_at (run_fleet_op now op db) b = Some r'"
  shows "batch_le now r r'"
proof (cases "deletions op = {}")
  case True
  with batch_steps [OF run_fleet_op_steps [OF inv op, of now, unfolded True] r] r' show ?thesis by auto
next
  case False
  then have "batch_at db b = Some r'"
    using r' deleted_rows [OF inv] by (cases op) auto
  with r show ?thesis by (simp add: batch_le_refl)
qed

section \<open>Histories of one batch\<close>

text \<open>A history in which the row of a batch is never deleted.\<close>

definition keeps_batch :: "string \<Rightarrow> string \<times> queue_db \<Rightarrow> string \<times> queue_db \<Rightarrow> bool" where
  "keeps_batch b s s' \<longleftrightarrow> fleet_step s s' \<and> batch_at (snd s') b \<noteq> None"

lemma keeps_batch_le:
  assumes "(keeps_batch b)\<^sup>*\<^sup>* s s'" and "queue_inv (snd s)" and "batch_at (snd s) b = Some r"
  shows "queue_inv (snd s') \<and> fst s \<le> fst s' \<and> (\<exists>r'. batch_at (snd s') b = Some r' \<and> batch_le (fst s) r r')"
  using assms
proof (induction rule: rtranclp_induct)
  case base
  then show ?case by (auto intro: batch_le_refl)
next
  case (step y z)
  then obtain q where inv: "queue_inv (snd y)" and le: "fst s \<le> fst y" and q: "batch_at (snd y) b = Some q" "batch_le (fst s) r q"
    by blast
  from step.hyps(2) have fs: "fleet_step y z" and "batch_at (snd z) b \<noteq> None" by (simp_all add: keeps_batch_def)
  then obtain q' where q': "batch_at (snd z) b = Some q'" by blast
  from fs obtain t t' op db where z: "y = (t, db)" "z = (t', run_fleet_op t' op db)" "t \<le> t'" "call_ok op"
    by (auto elim: fleet_stepE)
  have "batch_le t' q q'" using run_fleet_op_batch [of db op b q t' q'] inv q(1) q' z by simp
  then have "batch_le (fst s) q q'" using le z by (auto simp: batch_le_def)
  with q(2) have "batch_le (fst s) r q'" by (rule batch_le_trans)
  moreover have "queue_inv (snd z)" by (rule fm.inv_step [OF inv fs])
  ultimately show ?case using le z q' by auto
qed

section \<open>A concrete history\<close>

fun run_ops :: "(string \<times> fleet_op) list \<Rightarrow> queue_db \<Rightarrow> queue_db" where
  "run_ops [] db = db"
| "run_ops ((t, op) # ops) db = run_ops ops (run_fleet_op t op db)"

fun calls_ok :: "string \<Rightarrow> (string \<times> fleet_op) list \<Rightarrow> bool" where
  "calls_ok t [] \<longleftrightarrow> True"
| "calls_ok t ((t', op) # ops) \<longleftrightarrow> t \<le> t' \<and> call_ok op \<and> calls_ok t' ops"

lemma run_ops_steps:
  "calls_ok t ops \<Longrightarrow> fleet_step\<^sup>*\<^sup>* (t, db) (last (t # map fst ops), run_ops ops db)"
proof (induction ops arbitrary: t db)
  case (Cons x ops)
  obtain t' op where x: "x = (t', op)" by (cases x)
  with Cons.prems have "fleet_step (t, db) (t', run_fleet_op t' op db)" by (auto intro: fleet_step.intros)
  moreover have "fleet_step\<^sup>*\<^sup>* (t', run_fleet_op t' op db) (last (t' # map fst ops), run_ops ops (run_fleet_op t' op db))"
    using Cons.prems x by (intro Cons.IH) simp
  ultimately show ?case using x by (simp add: converse_rtranclp_into_rtranclp)
qed simp

lemma run_ops_reachable:
  "calls_ok t ops \<Longrightarrow> fleet_reachable (last (t # map fst ops), run_ops ops empty_queue)"
  unfolding fleet_reachable_def using run_ops_steps by blast

definition demo_submit_env :: submit_env where
  "demo_submit_env =
     \<lparr>se_validate = (\<lambda>_. None), se_validate_against = (\<lambda>_ _. None), se_spec_digest_ok = (\<lambda>_. True),
      se_raw_spec_bytes = ''raw'', se_fingerprint = (\<lambda>ids sid n keys. join_with '','' (sid # ids @ keys)),
      se_refusal_key = (\<lambda>p q fp. p @ fp)\<rparr>"

definition demo_work :: "string \<Rightarrow> prepared_work" where
  "demo_work p =
     \<lparr>pw_kind = ''task'', pw_spec_id = ''spec'', pw_prepared_id = p, pw_work_id = p, pw_stems = [p],
      pw_force_device = None, pw_allow_fallback = False, pw_root_override = None, pw_task_name = ''render'', pw_bytes = p\<rparr>"

definition demo_args :: "string \<Rightarrow> string \<Rightarrow> string \<Rightarrow> submit_args" where
  "demo_args p jid sid =
     \<lparr>sa_records = [demo_work p], sa_spec = Some (''spec'', ''spec-bytes''), sa_priority = 0, sa_keys = [None],
      sa_job_ids = [jid], sa_live = Some (Some ''spec''), sa_request_id = Some sid, sa_plan_id = None,
      sa_submission_id = sid\<rparr>"

definition demo_env :: queue_env where
  "demo_env =
     \<lparr>qe_prepared = (\<lambda>b. Some \<lparr>pd_prepared_id = b, pd_kind = ''task''\<rparr>), qe_validate_prepared = (\<lambda>_. None),
      qe_spec = (\<lambda>_. Some \<lparr>sp_spec_id = Some ''spec'', sp_kind = Some ''task'', sp_replay = Some ''at-most-once-v1''\<rparr>),
      qe_raw_spec_id = ''raw'', qe_is_raw_spec = (\<lambda>_. True), qe_validate_spec = (\<lambda>_. None),
      qe_validate_against = (\<lambda>_ _. None)\<rparr>"

definition demo_claim :: "string \<Rightarrow> string \<Rightarrow> string \<Rightarrow> int option \<Rightarrow> claim_args" where
  "demo_claim jid b until v =
     \<lparr>cl_job_ids = [jid], cl_device = ''box'', cl_batch_id = b, cl_lease_until = until, cl_pool = Some ''gpu'',
      cl_task_name = ''render'', cl_engine = [], cl_bucket = [], cl_placement = Inr None, cl_version = v,
      cl_authority = LiveSpecs [(jid, Some ''spec'')], cl_token = ''token-'' @ b\<rparr>"

definition demo_running :: "int option \<Rightarrow> (string \<times> fleet_op) list" where
  "demo_running v =
     [(''1'', Submit demo_submit_env (demo_args ''p1'' ''j1'' ''s1'')),
      (''1'', Submit demo_submit_env (demo_args ''p2'' ''j2'' ''s2'')),
      (''2'', ClaimMany demo_env (demo_claim ''j1'' ''b1'' ''5'' v)),
      (''3'', SetBatchState ''b1'' Running Leased ''token-b1'')]"

lemma demo_running_ok: "calls_ok ''0'' (demo_running None)" "calls_ok ''0'' (demo_running (Some 1))"
  by code_simp+

end
