(* ===== verification/FleetTheorems.thy ===== *)
theory FleetTheorems
  imports FleetSafety
begin

text \<open>
  The properties of the fleet queue.
\<close>

section \<open>Invariant and refinement\<close>

text \<open>
  C8: In every history of the fleet queue, by any number of dispatchers, a job that executes
  belongs to a batch that is in the same state or is being cancelled, a job that was never
  claimed or was requeued belongs to none, and a batch that is done has only jobs that are
  done; no job is claimed more than \<open>MAX_ATTEMPTS\<close> times; a pool lease belongs to an active
  batch on its device and has the deadline of that batch; and no two jobs that are not final
  share an idempotency key.
\<close>

theorem fleet_queue_consistent:
  assumes "fleet_reachable (t, db)"
  shows "(\<forall>i j. job_at db i = Some j \<longrightarrow>
            jb_attempts j \<le> MAX_ATTEMPTS
            \<and> (jb_state j \<in> set BATCH_EXECUTING \<longrightarrow>
                 (\<exists>b r. jb_batch j = Some b \<and> batch_at db b = Some r \<and> ba_state r \<in> {jb_state j, Cancelling}))
            \<and> (jb_state j = Queued \<longrightarrow> jb_batch j = None)
            \<and> (\<forall>b r. jb_batch j = Some b \<and> batch_at db b = Some r \<and> ba_state r = Done \<longrightarrow> jb_state j = Done))
         \<and> (\<forall>d p b u. pool_at db (d, p) = Some (b, u) \<longrightarrow>
              (\<exists>r. batch_at db b = Some r \<and> ba_state r \<in> set BATCH_ACTIVE \<and> ba_device r = d \<and> ba_lease_until r = u))
         \<and> (\<forall>i i' j j' key. job_at db i = Some j \<and> job_at db i' = Some j' \<and> jb_state j \<notin> set FINAL \<and> jb_state j' \<notin> set FINAL
              \<and> jb_idempotency_key j = Some key \<and> jb_idempotency_key j' = Some key \<and> key \<noteq> [] \<longrightarrow> i = i')"
proof (intro conjI allI impI)
  from fleet_reachable_inv [OF assms] have inv: "queue_inv db" by simp
  {
    fix i j assume j: "job_at db i = Some j"
    from queue_invD(4) [OF inv j] show "jb_attempts j \<le> MAX_ATTEMPTS" by (simp add: job_ok_def)
    from queue_invD(4) [OF inv j] show "\<exists>b r. jb_batch j = Some b \<and> batch_at db b = Some r \<and> ba_state r \<in> {jb_state j, Cancelling}"
      if "jb_state j \<in> set BATCH_EXECUTING"
      using that by (auto simp: job_ok_def linked_def detached_def executing_iff split: option.splits)
    from queue_invD(4) [OF inv j] show "jb_batch j = None" if "jb_state j = Queued"
      using that by (auto simp: job_ok_def linked_def executing_iff split: option.splits)
    from queue_invD(4) [OF inv j] show "jb_state j = Done"
      if "jb_batch j = Some b \<and> batch_at db b = Some r \<and> ba_state r = Done" for b r
      using that by (auto simp: job_ok_def linked_def executing_iff split: if_splits)
  }
  fix d p b u assume "pool_at db (d, p) = Some (b, u)"
  from queue_invD(6) [OF inv this]
  show "\<exists>r. batch_at db b = Some r \<and> ba_state r \<in> set BATCH_ACTIVE \<and> ba_device r = d \<and> ba_lease_until r = u"
    by (simp add: pool_lease_ok_def)
next
  fix i i' j j' key
  assume "job_at db i = Some j \<and> job_at db i' = Some j' \<and> jb_state j \<notin> set FINAL \<and> jb_state j' \<notin> set FINAL
      \<and> jb_idempotency_key j = Some key \<and> jb_idempotency_key j' = Some key \<and> key \<noteq> []"
  with queue_invD(7) [OF fleet_reachable_inv [OF assms]] show "i = i'"
    unfolding keys_unique_def keyed_def snd_conv by blast
qed

theorem fleet_queue_consistent_witness:
  "\<exists>j r. job_at (run_ops (demo_running None) empty_queue) ''j1'' = Some j \<and> jb_state j = Running
     \<and> batch_at (run_ops (demo_running None) empty_queue) ''b1'' = Some r \<and> ba_state r = Running"
proof -
  let ?db = "run_ops (demo_running None) empty_queue"
  have reach: "fleet_reachable (''3'', ?db)"
    using run_ops_reachable [OF demo_running_ok(1)] by (simp add: demo_running_def)
  have "(case job_at ?db ''j1'' of None \<Rightarrow> False | Some j \<Rightarrow> jb_state j = Running \<and> jb_batch j = Some ''b1'')" by code_simp
  then obtain j where j: "job_at ?db ''j1'' = Some j" "jb_state j = Running" "jb_batch j = Some ''b1''"
    by (auto split: option.splits)
  from fleet_queue_consistent [OF reach, THEN conjunct1, THEN spec, THEN spec, THEN mp, OF j(1)] j(2,3)
  obtain r where "batch_at ?db ''b1'' = Some r" "ba_state r \<in> {Running, Cancelling}"
    by (auto simp: executing_iff)
  moreover have "(case batch_at ?db ''b1'' of None \<Rightarrow> False | Some r \<Rightarrow> ba_state r \<noteq> Cancelling)" by code_simp
  ultimately show ?thesis using j by auto
qed



section \<open>Ambiguous work\<close>

text \<open>
  The operations of dispatchers, executors and recovery: every operation but the operator's
  \<open>clear\<close>.
\<close>

definition dispatcher_step :: "string \<times> queue_db \<Rightarrow> string \<times> queue_db \<Rightarrow> bool" where
  "dispatcher_step s s' \<longleftrightarrow>
     (\<exists>op. fst s \<le> fst s' \<and> call_ok op \<and> Wipe \<notin> deletions op \<and> snd s' = run_fleet_op (fst s') op (snd s))"

lemma dispatcher_step_steps:
  assumes "dispatcher_step s s'" and "queue_inv (snd s)"
  shows "queue_steps {Prune} (fst s') (snd s) (snd s')"
proof -
  from assms(1) obtain op where op: "call_ok op" "Wipe \<notin> deletions op" "snd s' = run_fleet_op (fst s') op (snd s)"
    by (auto simp: dispatcher_step_def)
  have "deletions op = {} \<or> deletions op = {Prune}" using op(2) by (cases op) auto
  then have "queue_step (deletions op) (fst s') \<le> queue_step {Prune} (fst s')"
    by (auto elim!: queue_step.cases intro: queue_step.intros)
  with run_fleet_op_steps [OF assms(2) op(1), of "fst s'"] op(3) show ?thesis
    using rtranclp_mono by auto
qed

interpretation dm: invariant_machine dispatcher_step "\<lambda>s. queue_inv (snd s)"
  by unfold_locales (auto dest: dispatcher_step_steps intro: qm.steps_inv)

text \<open>
  C2: A job whose completion is unknown is never replayed: no operation of a dispatcher, an
  executor or a recovery, in any history, changes its state or the work it names.  Only the
  operator's \<open>clear\<close> may remove it.
\<close>

theorem unknown_completion_never_replayed:
  assumes "fleet_reachable (t, db)" and "job_at db i = Some j" and "jb_state j = CompletionUnknown"
    and "dispatcher_step\<^sup>*\<^sup>* (t, db) (t', db')"
  shows "\<exists>j'. job_at db' i = Some j' \<and> jb_state j' = CompletionUnknown \<and> same_work j j'"
proof -
  define stays where "stays s = (\<exists>j'. job_at (snd s) i = Some j' \<and> jb_state j' = CompletionUnknown \<and> same_work j j')"
    for s :: "string \<times> queue_db"
  have "stays (t', db')"
  proof (rule dm.steps_stable [OF assms(4)])
    show "queue_inv (snd (t, db))" by (rule fleet_reachable_inv [OF assms(1)])
    show "stays (t, db)" using assms(2,3) by (auto simp: stays_def same_work_def)
    fix a b assume inv: "queue_inv (snd a)" and step: "dispatcher_step a b" and "stays a"
    then obtain h where "job_at (snd a) i = Some h" "jb_state h = CompletionUnknown" "same_work j h"
      by (auto simp: stays_def)
    with unknown_steps [OF dispatcher_step_steps [OF step inv] inv] show "stays b"
      by (fastforce simp: stays_def same_work_def)
  qed
  then show ?thesis by (simp add: stays_def)
qed

definition demo_unknown :: "(string \<times> fleet_op) list" where
  "demo_unknown = demo_running None
     @ [(''4'', MarkUnknown ''b1'' ''lost'' Running ''token-b1'' None None FINALIZATION_FENCED)]"

theorem unknown_completion_never_replayed_witness:
  "\<exists>j'. job_at (run_fleet_op ''7'' (RecoverStale demo_env None) (run_ops demo_unknown empty_queue)) ''j1'' = Some j'
     \<and> jb_state j' = CompletionUnknown"
proof -
  let ?db = "run_ops demo_unknown empty_queue"
  have "calls_ok ''0'' demo_unknown" by code_simp
  from run_ops_reachable [OF this] have reach: "fleet_reachable (''4'', ?db)"
    by (simp add: demo_unknown_def demo_running_def)
  have "(case job_at ?db ''j1'' of None \<Rightarrow> False | Some j \<Rightarrow> jb_state j = CompletionUnknown)" by code_simp
  then obtain j where j: "job_at ?db ''j1'' = Some j" "jb_state j = CompletionUnknown" by (auto split: option.splits)
  have "(''4'' :: string) \<le> ''7''" by code_simp
  then have "dispatcher_step (''4'', ?db) (''7'', run_fleet_op ''7'' (RecoverStale demo_env None) ?db)"
    unfolding dispatcher_step_def by (intro exI [of _ "RecoverStale demo_env None"]) (simp del: run_fleet_op.simps)
  then have "dispatcher_step\<^sup>*\<^sup>* (''4'', ?db) (''7'', run_fleet_op ''7'' (RecoverStale demo_env None) ?db)"
    by (rule r_into_rtranclp)
  from unknown_completion_never_replayed [OF reach j this] show ?thesis by blast
qed

end
