(* ===== verification/FleetFences.thy ===== *)
theory FleetFences
  imports FleetTheorems
begin

text \<open>
  Fences of the fleet queue: pool slots, target cleanup against cancellation, and the rows
  that the maintenance operations never delete.
\<close>

section \<open>Fences\<close>

lemma claim_success:
  assumes "claim_many env a now db = (Inr (Some tok), db')"
  obtains pl where "\<not> pool_held a (free_expired a now db)" "batch_at db (cl_batch_id a) = None"
    "db' = grant_claim a pl now (free_expired a now db)" "tok = cl_token a"
  using assms unfolding claim_many_def claim_checked_def Let_def
  by (auto split: sum.splits option.splits if_splits)

text \<open>
  C11: A pool slot changes hands only after its holder's fence has expired, and the old holder
  can do nothing with it any more: once a claim has taken the slot of a batch, no owner of that
  batch passes its fence, in any later history that still has the row.
\<close>

theorem pool_holder_fenced:
  assumes "fleet_reachable (t, db)" and "t \<le> now" and "claim_many env a now db = (Inr (Some tok), db')"
    and "cl_pool a = Some p" and "p \<noteq> []" and "pool_at db (cl_device a, p) = Some (b, u)"
    and "(keeps_batch b)\<^sup>*\<^sup>* (now, db') (later, db'')" and "batch_at db'' b = Some r"
  shows "pool_at db' (cl_device a, p) = Some (cl_batch_id a, cl_lease_until a) \<and> u < now
         \<and> \<not> owned expected token later r"
proof -
  from fleet_reachable_inv [OF assms(1)] have inv: "queue_inv db" by simp
  from claim_success [OF assms(3)] obtain pl where c: "\<not> pool_held a (free_expired a now db)" "batch_at db (cl_batch_id a) = None"
    "db' = grant_claim a pl now (free_expired a now db)" by metis
  have pool: "pool_at db' (cl_device a, p) = Some (cl_batch_id a, cl_lease_until a)"
    using assms(4,5) unfolding c(3) by (simp add: grant_claim_tables nonempty_def dict_get_set)
  from c(1) assms(4-6) have u: "u < now"
    by (auto simp: pool_held_def nonempty_def free_expired_def dict_get_delete_where [OF queue_invD(3) [OF inv]] split: if_splits)
  from queue_invD(6) [OF inv assms(6)] obtain q where q: "batch_at db b = Some q" "ba_lease_until q = u"
    by (auto simp: pool_lease_ok_def)
  with c(2) have "batch_at db' b = Some q" unfolding c(3) by (auto simp: grant_claim_tables dict_get_set)
  moreover have "queue_inv db'"
    using qm.steps_inv [OF claim_many_steps [OF inv, where D = "{}" and env = env and a = a and now = now] inv] assms(3) by simp
  ultimately have "now \<le> later" "batch_le now q r"
    using keeps_batch_le [OF assms(7), of q] assms(8) by auto
  with q(2) u have "ba_lease_until r < later" by (simp add: batch_le_def)
  with pool u show ?thesis by (auto simp: owned_def)
qed

theorem pool_holder_fenced_witness:
  "\<exists>tok db' r. claim_many demo_env (demo_claim ''j2'' ''b2'' ''9'' None) ''6'' (run_ops (demo_running None) empty_queue) = (Inr (Some tok), db')
     \<and> batch_at db' ''b1'' = Some r \<and> \<not> owned Running ''token-b1'' ''6'' r"
proof -
  let ?db = "run_ops (demo_running None) empty_queue" and ?a = "demo_claim ''j2'' ''b2'' ''9'' None"
  have reach: "fleet_reachable (''3'', ?db)"
    using run_ops_reachable [OF demo_running_ok(1)] by (simp add: demo_running_def)
  have "(case claim_many demo_env ?a ''6'' ?db of
      (Inr (Some tok), db') \<Rightarrow> (case batch_at db' ''b1'' of None \<Rightarrow> False | Some r \<Rightarrow> True) | _ \<Rightarrow> False)" by code_simp
  then obtain tok db' r where c: "claim_many demo_env ?a ''6'' ?db = (Inr (Some tok), db')" and r: "batch_at db' ''b1'' = Some r"
    by (auto split: prod.splits sum.splits option.splits)
  have t: "(''3'' :: string) \<le> ''6''" by code_simp
  have p: "cl_pool ?a = Some ''gpu''" "cl_device ?a = ''box''" by (simp_all add: demo_claim_def)
  have "pool_at ?db (''box'', ''gpu'') = Some (''b1'', ''5'')" by code_simp
  then have l: "pool_at ?db (cl_device ?a, ''gpu'') = Some (''b1'', ''5'')" unfolding p(2) .
  have "\<not> owned Running ''token-b1'' ''6'' r"
    using pool_holder_fenced [OF reach t c p(1) _ l rtranclp.rtrancl_refl r] by simp
  with c r show ?thesis by blast
qed

lemma authorized_state:
  assumes "fst (authorize_target_cleanup b op sha cleanup expected token now db)"
  shows "\<exists>r. batch_at (snd (authorize_target_cleanup b op sha cleanup expected token now db)) b = Some r \<and> ba_cleanup_state r \<noteq> None"
proof (cases "find_batch db b (owned expected token now)")
  case None
  with assms show ?thesis by (auto simp: authorize_target_cleanup_def)
next
  case (Some r)
  have at: "batch_at db b = Some r" using Some by (simp add: find_batch_Some)
  show ?thesis
  proof (cases "ba_cleanup_state r \<noteq> None \<or> ba_cleanup_at r \<noteq> None")
    case True
    with assms at show ?thesis unfolding authorize_target_cleanup_def Some by (simp split: if_split_asm)
  next
    case False
    with assms show ?thesis unfolding authorize_target_cleanup_def Some
      by (simp add: dict_get_set split: if_split_asm)
  qed
qed

lemma batch_le_cleanup: "batch_le now r r' \<Longrightarrow> ba_cleanup_state r \<noteq> None \<Longrightarrow> ba_cleanup_state r' \<noteq> None"
  by (simp add: batch_le_def successor_def ledger_le_def kept_def)

lemma cancelling_state:
  assumes "fst (begin_active_cancellation b ids now db)"
  shows "\<exists>r. batch_at (snd (begin_active_cancellation b ids now db)) b = Some r \<and> ba_state r = Cancelling"
  using assms unfolding begin_active_cancellation_def
  by (cases "batch_at db b") (simp_all add: dict_get_set split: if_split_asm)

text \<open>
  C27: Cleanup of a target and cancellation by the operator exclude each other.  Once the owner
  of a batch is authorized to clean its target up, no cancellation of the batch begins; once a
  cancellation has begun, no owner is authorized to clean up.
\<close>

theorem cleanup_excludes_cancellation:
  assumes "fleet_reachable (t, db)" and "(keeps_batch b)\<^sup>*\<^sup>* (t, db) (later, db')"
    and "expected \<in> set BATCH_EXECUTING" and "expected' \<in> set BATCH_EXECUTING"
  shows "(fst (authorize_target_cleanup b op sha cleanup expected token now prior) \<and> db = snd (authorize_target_cleanup b op sha cleanup expected token now prior)
            \<longrightarrow> \<not> fst (begin_active_cancellation b ids later db'))
         \<and> (fst (begin_active_cancellation b ids now prior) \<and> db = snd (begin_active_cancellation b ids now prior)
            \<longrightarrow> \<not> fst (authorize_target_cleanup b op sha cleanup expected' token later db'))"
proof (intro conjI impI)
  from fleet_reachable_inv [OF assms(1)] have inv: "queue_inv (snd (t, db))" .
  assume a: "fst (authorize_target_cleanup b op sha cleanup expected token now prior)
      \<and> db = snd (authorize_target_cleanup b op sha cleanup expected token now prior)"
  with authorized_state obtain r where r: "batch_at db b = Some r" "ba_cleanup_state r \<noteq> None" by blast
  from keeps_batch_le [OF assms(2) inv, of r] r obtain r' where "batch_at db' b = Some r'" "ba_cleanup_state r' \<noteq> None"
    by (auto dest: batch_le_cleanup)
  then show "\<not> fst (begin_active_cancellation b ids later db')" by (auto simp: begin_active_cancellation_def)
next
  from fleet_reachable_inv [OF assms(1)] have inv: "queue_inv (snd (t, db))" .
  assume a: "fst (begin_active_cancellation b ids now prior) \<and> db = snd (begin_active_cancellation b ids now prior)"
  with cancelling_state obtain r where r: "batch_at db b = Some r" "ba_state r = Cancelling" by blast
  from keeps_batch_le [OF assms(2) inv, of r] r obtain r' where "batch_at db' b = Some r'" "ba_state r' \<notin> set BATCH_EXECUTING"
    by (auto simp: batch_le_def executing_iff)
  then have "find_batch db' b (owned expected' token later) = None"
    using assms(4) by (auto simp: find_batch_def owned_def)
  then show "\<not> fst (authorize_target_cleanup b op sha cleanup expected' token later db')"
    by (auto simp: authorize_target_cleanup_def)
qed

definition demo_reserved :: "(string \<times> fleet_op) list" where
  "demo_reserved = demo_running (Some 1)
     @ [(''4'', TargetReservation ''b1'' ''op'' (replicate 64 CHR ''a'') ''resume'' Running ''token-b1'')]"

theorem cleanup_excludes_cancellation_witness:
  "\<not> fst (begin_active_cancellation ''b1'' [''j1''] ''4''
      (snd (authorize_target_cleanup ''b1'' ''op'' (replicate 64 CHR ''a'') ''RELEASED'' Running ''token-b1'' ''4''
         (run_ops demo_reserved empty_queue))))"
proof -
  let ?db0 = "run_ops demo_reserved empty_queue" and ?sha = "replicate 64 CHR ''a''"
  let ?op = "AuthorizeCleanup ''b1'' ''op'' ?sha ''RELEASED'' Running ''token-b1''"
  have "calls_ok ''0'' (demo_reserved @ [(''4'', ?op)])" by code_simp
  from run_ops_reachable [OF this] have "fleet_reachable (''4'', run_ops (demo_reserved @ [(''4'', ?op)]) empty_queue)"
    by simp
  moreover have "run_ops (ops @ [(t, op)]) db = run_fleet_op t op (run_ops ops db)" for ops t op db
    by (induction ops db rule: run_ops.induct) simp_all
  ultimately have reach: "fleet_reachable (''4'', snd (authorize_target_cleanup ''b1'' ''op'' ?sha ''RELEASED'' Running ''token-b1'' ''4'' ?db0))"
    by simp
  have "fst (authorize_target_cleanup ''b1'' ''op'' ?sha ''RELEASED'' Running ''token-b1'' ''4'' ?db0)" by code_simp
  then show ?thesis
    using cleanup_excludes_cancellation [OF reach rtranclp.rtrancl_refl, where expected = Running and expected' = Running and op = "''op''"
      and sha = ?sha and cleanup = "''RELEASED''" and token = "''token-b1''" and now = "''4''" and ids = "[''j1'']"
      and prior = ?db0 and b = "''b1''"]
    by (simp add: executing_iff)
qed

section \<open>Rows that are never deleted\<close>

lemma unversioned_condition:
  assumes "ba_version r = None" "ba_disposition r \<noteq> Some FINALIZATION_FINALIZED"
  shows "protected_target r \<noteq> Some False"
proof -
  have "coalesce (ba_disposition r) (Some []) \<noteq> Some FINALIZATION_FINALIZED"
    using assms(2) by (cases "ba_disposition r") (simp_all add: FINALIZATION_FINALIZED_def)
  with assms(1) show ?thesis by (simp add: protected_target_def sql_or_def sql_and_def sql_eq_def)
qed

lemma unversioned_releasable:
  "\<lbrakk>ba_version r = None; ba_finalized_at r = None; ba_disposition r \<noteq> Some FINALIZATION_FINALIZED\<rbrakk> \<Longrightarrow> \<not> releasable r"
  using unversioned_condition [of r] by (auto simp: releasable_def is_true_not)

text \<open>
  The history of batches without a target protocol is never bounded.  The condition that
  protects unfinished target work is \<open>NULL\<close> for such a batch (it has no disposition), and so is its negation: no
  \<open>prune_final\<close> deletes the batch or a job of it, and \<open>clear\<close> of everything deletes its jobs but
  leaves the batch.
\<close>

theorem unversioned_history_unbounded:
  assumes "fleet_reachable (t, db)" and "batch_at db b = Some r" and "ba_version r = None" and "ba_finalized_at r = None"
    and "ba_disposition r \<noteq> Some FINALIZATION_FINALIZED"
  shows "batch_at (snd (prune_final keep db)) b = Some r \<and> batch_at (snd (clear True db)) b = Some r
         \<and> (\<forall>i j. job_at db i = Some j \<and> jb_batch j = Some b \<longrightarrow> job_at (snd (prune_final keep db)) i = Some j)"
proof (intro conjI allI impI)
  from fleet_reachable_inv [OF assms(1)] have inv: "queue_inv db" by simp
  note rel = unversioned_releasable [OF assms(3-5)]
  show "batch_at (snd (prune_final keep db)) b = Some r" "batch_at (snd (clear True db)) b = Some r"
    unfolding prune_final_def clear_def Let_def
    using assms(2) rel by (simp_all add: dict_get_delete_where [OF queue_invD(2) [OF inv]])
  fix i j assume j: "job_at db i = Some j \<and> jb_batch j = Some b"
  then have "i \<notin> set (prune_order db)"
    using assms(2) rel unfolding prune_order_iff [OF queue_invD(1) [OF inv]] by (auto simp: prunable_def)
  then show "job_at (snd (prune_final keep db)) i = Some j"
    unfolding prune_final_def Let_def using j
    by (auto simp: dict_get_delete_where [OF queue_invD(1) [OF inv]] dest: in_set_dropD)
qed

definition demo_done :: "(string \<times> fleet_op) list" where
  "demo_done = demo_running None @ [(''4'', CompleteBatch ''b1'' Running ''token-b1'' None None None)]"

theorem unversioned_history_unbounded_witness:
  "\<exists>j r. job_at (snd (prune_final 0 (run_ops demo_done empty_queue))) ''j1'' = Some j \<and> jb_state j = Done
     \<and> batch_at (snd (clear True (run_ops demo_done empty_queue))) ''b1'' = Some r
     \<and> job_at (snd (clear True (run_ops demo_done empty_queue))) ''j1'' = None"
proof -
  let ?db = "run_ops demo_done empty_queue"
  have "calls_ok ''0'' demo_done" by code_simp
  from run_ops_reachable [OF this] have reach: "fleet_reachable (''4'', ?db)"
    by (simp add: demo_done_def demo_running_def)
  have "(case job_at ?db ''j1'' of None \<Rightarrow> False | Some j \<Rightarrow> jb_state j = Done \<and> jb_batch j = Some ''b1'')" by code_simp
  then obtain j where j: "job_at ?db ''j1'' = Some j" "jb_state j = Done" "jb_batch j = Some ''b1''" by (auto split: option.splits)
  have "(case batch_at ?db ''b1'' of None \<Rightarrow> False | Some r \<Rightarrow>
      ba_version r = None \<and> ba_finalized_at r = None \<and> ba_disposition r \<noteq> Some FINALIZATION_FINALIZED)" by code_simp
  then obtain r where r: "batch_at ?db ''b1'' = Some r" "ba_version r = None" "ba_finalized_at r = None"
    "ba_disposition r \<noteq> Some FINALIZATION_FINALIZED" by (auto split: option.splits)
  have "job_at (snd (clear True ?db)) ''j1'' = None" by code_simp
  with unversioned_history_unbounded [OF reach r, of 0] j show ?thesis by blast
qed

end
