(* ===== verification/FleetRecoverySafety.thy ===== *)
theory FleetRecoverySafety
  imports FleetFences
begin

text \<open>
  Recovery of the fleet queue after a dispatcher died: what it may do and that it is complete.
\<close>

section \<open>Recovery\<close>

lemma select_update_where:
  assumes "\<And>k r. Q k r \<Longrightarrow> \<not> P k r \<and> \<not> P k (f k r)"
  shows "select_where P (update_where Q f t) = select_where P t"
proof (induction t)
  case (Cons x t)
  obtain k r where x: "x = (k, r)" by (cases x)
  from Cons.IH assms [of k r] show ?case unfolding x by (cases "Q k r") (simp_all add: select_where_def update_where_def)
qed (simp add: select_where_def update_where_def)

text \<open>An expiry touches the row and the jobs of one batch.\<close>

definition touches :: "string \<Rightarrow> batch_row \<Rightarrow> queue_db \<Rightarrow> queue_db \<Rightarrow> bool" where
  "touches c r' db db' \<longleftrightarrow>
     qd_batches db' = dict_set c r' (qd_batches db) \<and> qd_specs db' = qd_specs db
     \<and> (\<exists>Q f. qd_jobs db' = update_where Q f (qd_jobs db)
             \<and> (\<forall>k h. Q k h \<longrightarrow> in_batch c h \<and> jb_batch (f k h) \<in> {None, Some c}))"

lemma touchesI:
  assumes "\<And>k h. Q k h \<Longrightarrow> in_batch c h" and "\<And>k h. in_batch c h \<Longrightarrow> jb_batch (f k h) \<in> {None, Some c}"
  shows "touches c r' db (drop_leases c (update_jobs Q f (put_batch c r' db)))"
  unfolding touches_def
proof (intro conjI exI allI impI)
  fix k h assume "Q k h"
  with assms show "in_batch c h" "jb_batch (f k h) \<in> {None, Some c}" by blast+
qed (simp_all add: update_jobs_def put_batch_def drop_leases_def)

lemma finish_touches: "touches c r' db (finish_batch_failure c e now n cl res (put_batch c r' db))"
  unfolding finish_batch_failure_def by (rule touchesI) (auto simp: failed_job_def in_batch_def Let_def)

lemma unknown_touches: "touches c r' db (unknown_jobs c P now (put_batch c r' db))"
  unfolding unknown_jobs_def by (rule touchesI) (auto simp: in_batch_def)

lemma expire_form:
  obtains (no) "expire_batch env c now n rs db = (False, db)"
    "rs = None \<longrightarrow> (\<forall>r. batch_at db c = Some r \<and> ba_lease_until r < now \<longrightarrow> ba_state r \<notin> set BATCH_ACTIVE)"
  | (yes) r r' db' where "expire_batch env c now n rs db = (True, db')" "batch_at db c = Some r"
      "ba_state r' = Failed" "ba_version r' = ba_version r" "touches c r' db db'"
proof (cases "fst (expire_batch env c now n rs db)")
  case False
  show thesis
  proof (rule no)
    show "expire_batch env c now n rs db = (False, db)"
      using False unfolding expire_batch_def Let_def by (auto split: option.splits if_splits)
    show "rs = None \<longrightarrow> (\<forall>r. batch_at db c = Some r \<and> ba_lease_until r < now \<longrightarrow> ba_state r \<notin> set BATCH_ACTIVE)"
      using False unfolding expire_batch_def Let_def by (auto simp: find_batch_def split: option.splits if_splits)
  qed
next
  case True
  then obtain r where f: "find_batch db c (\<lambda>r. ba_lease_until r < now) = Some r"
    unfolding expire_batch_def by (auto split: option.splits)
  then have at: "batch_at db c = Some r" by (simp add: find_batch_Some)
  from True have g: "ba_state r \<in> set BATCH_ACTIVE"
    "\<not> (rs = Some True \<and> ba_version r = Some 1 \<and> ba_operation_id r \<noteq> None \<and> ba_finalized_at r = None)"
    unfolding expire_batch_def f option.case by (auto split: if_split_asm)
  define db' where "db' = snd (expire_batch env c now n rs db)"
  have "\<exists>r'. ba_state r' = Failed \<and> ba_version r' = ba_version r \<and> touches c r' db db'"
    using g unfolding db'_def expire_batch_def f Let_def option.case
    by (intro exI [of _ "r\<lparr>ba_state := Failed, ba_error := Some ''lease expired (stale recovery)'',
           ba_disposition := coalesce (if ba_version r = Some 1
                                then Some (case rs of Some True \<Rightarrow> FINALIZATION_FINALIZED | Some False \<Rightarrow> FINALIZATION_FENCED
                                           | None \<Rightarrow> FINALIZATION_PENDING) else None) (ba_disposition r), ba_updated := now\<rparr>"])
      (auto simp: finish_touches unknown_touches)
  moreover have "expire_batch env c now n rs db = (True, db')" using True by (simp add: db'_def prod_eq_iff)
  ultimately show thesis using yes at by blast
qed

lemma policy_cong:
  assumes "qd_specs db' = qd_specs db"
    and "select_where (\<lambda>_ h. in_batch b h) (qd_jobs db') = select_where (\<lambda>_ h. in_batch b h) (qd_jobs db)"
  shows "batch_replay_policy env b db' = batch_replay_policy env b db"
  unfolding batch_replay_policy_def assms ..

lemma touches_other:
  assumes "touches c r' db db'" and "c \<noteq> b"
  shows "batch_at db' b = batch_at db b" "in_batch b j \<Longrightarrow> job_at db i = Some j \<Longrightarrow> job_at db' i = Some j"
    "batch_replay_policy env b db' = batch_replay_policy env b db"
proof -
  from assms(1) obtain Q f where t: "qd_batches db' = dict_set c r' (qd_batches db)" "qd_specs db' = qd_specs db"
    "qd_jobs db' = update_where Q f (qd_jobs db)" "\<And>k h. Q k h \<Longrightarrow> in_batch c h \<and> jb_batch (f k h) \<in> {None, Some c}"
    by (auto simp: touches_def)
  show "batch_at db' b = batch_at db b" using assms(2) by (simp add: t(1) dict_get_set)
  show "job_at db' i = Some j" if "in_batch b j" "job_at db i = Some j"
    using that assms(2) t(4) [of i j] by (auto simp: t(3) dict_get_update_where in_batch_def)
  have "select_where (\<lambda>_ h. in_batch b h) (qd_jobs db') = select_where (\<lambda>_ h. in_batch b h) (qd_jobs db)"
    unfolding t(3) by (rule select_update_where) (use t(4) assms(2) in \<open>fastforce simp: in_batch_def\<close>)
  with t(2) show "batch_replay_policy env b db' = batch_replay_policy env b db" by (rule policy_cong)
qed

text \<open>A batch that may have started its command is held, not replayed.\<close>

lemma expire_started:
  assumes "batch_at db b = Some r" "ba_state r \<in> {Running, Fetching}" "batch_replay_policy env b db \<noteq> ''idempotent-v1''"
    and "job_at db i = Some j" "in_batch b j" "jb_state j \<in> {Running, Fetching}"
    and "expire_batch env b now n None db = (True, db')"
  shows "\<exists>j'. job_at db' i = Some j' \<and> jb_state j' = CompletionUnknown"
proof -
  have policy: "batch_replay_policy env b (put_batch b q db) = batch_replay_policy env b db" for q
    by (rule policy_cong) (simp_all add: put_batch_def)
  show ?thesis
    using assms unfolding expire_batch_def Let_def
    by (auto simp: find_batch_Some policy unknown_jobs_def dict_get_update_where split: option.splits if_splits)
qed

definition held_started :: "queue_env \<Rightarrow> string \<Rightarrow> string \<Rightarrow> job_row \<Rightarrow> queue_db \<Rightarrow> bool" where
  "held_started env i b j db \<longleftrightarrow>
     (\<exists>r. batch_at db b = Some r \<and> ba_state r \<in> {Running, Fetching} \<and> batch_replay_policy env b db \<noteq> ''idempotent-v1''
          \<and> job_at db i = Some j \<and> in_batch b j \<and> jb_state j \<in> {Running, Fetching})
     \<or> (\<exists>j'. job_at db i = Some j' \<and> jb_state j' = CompletionUnknown)"

lemma expire_held:
  assumes inv: "queue_inv db" and v: "\<forall>r. batch_at db c = Some r \<longrightarrow> ba_version r = None" and h: "held_started env i b j db"
  shows "held_started env i b j (snd (expire_batch env c now MAX_ATTEMPTS None db))"
proof (cases "\<exists>j'. job_at db i = Some j' \<and> jb_state j' = CompletionUnknown")
  case True
  have "queue_steps {Prune} now db (snd (expire_batch env c now MAX_ATTEMPTS None db))"
    by (rule expire_batch_steps [OF inv]) (use v in auto)
  from True unknown_steps [OF this inv] show ?thesis by (auto simp: held_started_def)
next
  case False
  with h obtain r where r: "batch_at db b = Some r" "ba_state r \<in> {Running, Fetching}" "batch_replay_policy env b db \<noteq> ''idempotent-v1''"
      "job_at db i = Some j" "in_batch b j" "jb_state j \<in> {Running, Fetching}"
    by (auto simp: held_started_def)
  show ?thesis
  proof (cases rule: expire_form [of env c now MAX_ATTEMPTS None db])
    case no
    with h show ?thesis by simp
  next
    case (yes q q' db')
    show ?thesis
    proof (cases "c = b")
      case True
      with expire_started [OF r yes(1) [unfolded True]] yes(1) show ?thesis by (simp add: held_started_def)
    next
      case False
      from touches_other [OF yes(5) False] r yes(1) show ?thesis by (simp add: held_started_def)
    qed
  qed
qed

lemma expire_all_held:
  assumes "queue_inv db" and "\<forall>b \<in> set bs. \<forall>r. batch_at db b = Some r \<longrightarrow> ba_version r = None" and "held_started env i b j db"
  shows "held_started env i b j (snd (expire_all env now bs db))"
  using assms
proof (induction bs arbitrary: db)
  case (Cons c bs)
  let ?db = "snd (expire_batch env c now MAX_ATTEMPTS None db)"
  have "queue_steps {} now db ?db" by (rule expire_batch_steps) (use Cons.prems in auto)
  then have "queue_inv ?db" using Cons.prems(1) by (rule qm.steps_inv)
  moreover have "held_started env i b j ?db" by (rule expire_held) (use Cons.prems in auto)
  moreover have "\<forall>c \<in> set bs. \<forall>r. batch_at ?db c = Some r \<longrightarrow> ba_version r = None"
    using Cons.prems(2) expire_batch_version [of env c now MAX_ATTEMPTS None db] by fastforce
  ultimately have "held_started env i b j (snd (expire_all env now bs ?db))" by (intro Cons.IH)
  then show ?case by (simp add: case_prod_beta Let_def)
qed simp

lemma stale_batches_iff:
  "dict_ok (qd_batches db) \<Longrightarrow> b \<in> set (stale_batches now None db) \<longleftrightarrow>
     (\<exists>r. batch_at db b = Some r \<and> ba_state r \<notin> {Done, Failed} \<and> ba_lease_until r < now \<and> ba_version r = None)"
  by (force simp: stale_batches_def select_where_def)

lemma stale_batches_version:
  assumes "dict_ok (qd_batches db)" "b \<in> set (stale_batches now ids db)" "batch_at db b = Some r"
  shows "ba_version r = None"
proof -
  from assms(2) obtain q where "(b, q) \<in> set (qd_batches db)" "ba_version q = None"
    by (auto simp: stale_batches_def select_where_def)
  with assms(1,3) show ?thesis by (metis map_of_is_SomeI option.inject)
qed



lemma expire_all_batches:
  assumes "distinct bs" and "\<And>b. b \<in> set bs \<Longrightarrow> \<exists>r. batch_at db b = Some r \<and> ba_lease_until r < now \<and> ba_state r \<in> set BATCH_ACTIVE"
  shows "fst (expire_all env now bs db) = int (length bs)
    \<and> (\<forall>b. b \<notin> set bs \<longrightarrow> batch_at (snd (expire_all env now bs db)) b = batch_at db b)
    \<and> (\<forall>b \<in> set bs. \<exists>r. batch_at (snd (expire_all env now bs db)) b = Some r \<and> ba_state r = Failed)"
  using assms
proof (induction bs arbitrary: db)
  case (Cons c bs)
  from Cons.prems(2) [of c] obtain r where r: "batch_at db c = Some r" "ba_lease_until r < now" "ba_state r \<in> set BATCH_ACTIVE" by auto
  obtain db1 r' where e: "expire_batch env c now MAX_ATTEMPTS None db = (True, db1)" "ba_state r' = Failed" "touches c r' db db1"
    using r by (cases rule: expire_form [of env c now MAX_ATTEMPTS None db]) auto
  have c: "batch_at db1 c = Some r'" using e(3) by (simp add: touches_def dict_get_set)
  have other: "batch_at db1 b = batch_at db b" if "b \<noteq> c" for b using touches_other(1) [OF e(3)] that by simp
  have "fst (expire_all env now bs db1) = int (length bs)
    \<and> (\<forall>b. b \<notin> set bs \<longrightarrow> batch_at (snd (expire_all env now bs db1)) b = batch_at db1 b)
    \<and> (\<forall>b \<in> set bs. \<exists>r. batch_at (snd (expire_all env now bs db1)) b = Some r \<and> ba_state r = Failed)"
  proof (rule Cons.IH)
    show "distinct bs" using Cons.prems(1) by simp
    fix b assume b: "b \<in> set bs"
    then have "b \<noteq> c" using Cons.prems(1) by auto
    with other Cons.prems(2) [of b] b show "\<exists>r. batch_at db1 b = Some r \<and> ba_lease_until r < now \<and> ba_state r \<in> set BATCH_ACTIVE" by simp
  qed
  with c other e(1,2) Cons.prems(1) show ?case by (auto simp: case_prod_beta Let_def)
qed simp



end
