(* ===== verification/FleetReplay.thy ===== *)
theory FleetReplay
  imports FleetSafety
begin

text \<open>
  Submissions are idempotent: the receipt of an accepted request is what every repetition of
  the request gets.
\<close>

section \<open>Receipts\<close>

lemma receipt_replayed:
  "receipt_of_submission sid row False db = Inr r \<Longrightarrow>
     receipt_of_submission sid row True db = Inr (r\<lparr>sr_replayed := True\<rparr>)"
  by (auto simp: receipt_of_submission_def Let_def split: if_splits)

lemma receipt_cong:
  assumes "qd_submission_jobs db' = qd_submission_jobs db" "qd_jobs db' = qd_jobs db"
  shows "receipt_of_submission sid row re db' = receipt_of_submission sid row re db"
  unfolding receipt_of_submission_def membership_def assms ..

text \<open>The rows of an accepted submission.\<close>

lemma store_submission_rows:
  assumes "store_submission a fp now ids db = Inr (Accepted r, db')"
  shows "dict_get (qd_submissions db) (sa_submission_id a) = None"
    "qd_submissions db' = qd_submissions db @ [(sa_submission_id a,
       \<lparr>su_request_id = sa_request_id a, su_plan_id = sa_plan_id a, su_fingerprint = fp, su_created = now\<rparr>)]"
    "receipt_of_submission (sa_submission_id a)
       \<lparr>su_request_id = sa_request_id a, su_plan_id = sa_plan_id a, su_fingerprint = fp, su_created = now\<rparr> False db' = Inr r"
    "qd_refusals db' = qd_refusals db"
proof -
  from assms show new: "dict_get (qd_submissions db) (sa_submission_id a) = None"
    by (auto simp: store_submission_def Let_def split: if_splits)
  let ?row = "\<lparr>su_request_id = sa_request_id a, su_plan_id = sa_plan_id a, su_fingerprint = fp, su_created = now\<rparr>"
  have "qd_submissions db' = dict_set (sa_submission_id a) ?row (qd_submissions db)"
    and "receipt_of_submission (sa_submission_id a) ?row False db' = Inr r" and "qd_refusals db' = qd_refusals db"
    using assms by (auto simp: store_submission_def Let_def split: if_splits option.splits sum.splits)
  with dict_set_new [of "sa_submission_id a" "qd_submissions db"] new
  show "qd_submissions db' = qd_submissions db @ [(sa_submission_id a, ?row)]"
    "receipt_of_submission (sa_submission_id a) ?row False db' = Inr r" "qd_refusals db' = qd_refusals db"
    by (simp_all add: dict_get_None_iff)
qed

lemma enqueue_records_rows:
  "enqueue_records kind priority now ws db = Inr (is, db') \<Longrightarrow>
     qd_submissions db' = qd_submissions db \<and> qd_refusals db' = qd_refusals db"
proof (induction ws arbitrary: db "is")
  case (Cons x ws)
  obtain w key jid where x: "x = (w, key, jid)" by (cases x)
  have stems: "reserve_stems work ss d = Inr d' \<Longrightarrow> qd_submissions d' = qd_submissions d \<and> qd_refusals d' = qd_refusals d"
    for work ss d d'
  proof (induction ss arbitrary: d)
    case (Cons s ss)
    then obtain d1 where "reserve_stem work s d = Inr d1" "reserve_stems work ss d1 = Inr d'" by (auto split: sum.splits)
    with Cons.IH show ?case by (fastforce simp: reserve_stem_def split: option.splits if_splits)
  qed simp
  from Cons.prems x obtain i db1 is1 where 1: "enqueue_record kind priority now w key jid db = Inr (i, db1)"
    and 2: "enqueue_records kind priority now ws db1 = Inr (is1, db')" by (auto split: sum.splits)
  from 1 have "qd_submissions db1 = qd_submissions db \<and> qd_refusals db1 = qd_refusals db"
    by (auto simp: enqueue_record_def dest: stems split: sum.splits option.splits if_splits)
  with Cons.IH [OF 2] show ?case by simp
qed simp

lemma accept_submission_rows:
  assumes "accept_submission a kind sid bytes fp keys now db = Inr (Accepted r, db')"
  shows "qd_submissions db' = qd_submissions db @ [(sa_submission_id a,
       \<lparr>su_request_id = sa_request_id a, su_plan_id = sa_plan_id a, su_fingerprint = fp, su_created = now\<rparr>)]"
    "receipt_of_submission (sa_submission_id a)
       \<lparr>su_request_id = sa_request_id a, su_plan_id = sa_plan_id a, su_fingerprint = fp, su_created = now\<rparr> False db' = Inr r"
    "qd_refusals db' = qd_refusals db"
proof -
  from assms obtain db1 ids db2 where 1: "store_spec sid bytes db = Inr db1"
    and 2: "enqueue_records kind (sa_priority a) now (zip (sa_records a) (zip keys (sa_job_ids a))) db1 = Inr (ids, db2)"
    and 3: "store_submission a fp now ids db2 = Inr (Accepted r, db')"
    by (auto simp: accept_submission_def split: sum.splits)
  from 1 have "qd_submissions db1 = qd_submissions db \<and> qd_refusals db1 = qd_refusals db"
    by (auto simp: store_spec_def split: option.splits if_splits)
  with enqueue_records_rows [OF 2] store_submission_rows [OF 3]
  show "qd_submissions db' = qd_submissions db @ [(sa_submission_id a,
       \<lparr>su_request_id = sa_request_id a, su_plan_id = sa_plan_id a, su_fingerprint = fp, su_created = now\<rparr>)]"
    "receipt_of_submission (sa_submission_id a)
       \<lparr>su_request_id = sa_request_id a, su_plan_id = sa_plan_id a, su_fingerprint = fp, su_created = now\<rparr> False db' = Inr r"
    "qd_refusals db' = qd_refusals db" by simp_all
qed

section \<open>Repeating a request\<close>

lemma accept_never_refuses:
  "accept_submission a kind sid bytes fp keys now db \<noteq> Inr (Refused d, db')"
  by (auto simp: accept_submission_def store_submission_def Let_def split: sum.splits option.splits if_splits)

lemma fresh_accepted:
  assumes "fresh_submission env a kind sid bytes fp keys now db = Inr (Accepted r, db')"
  shows "accept_submission a kind sid bytes fp keys now db = Inr (Accepted r, db')"
  using assms unfolding fresh_submission_def by (auto split: sum.splits option.splits if_splits)

text \<open>A transaction that is repeated with other fresh identifiers.\<close>

definition same_request :: "submit_args \<Rightarrow> submit_args \<Rightarrow> bool" where
  "same_request a a' \<longleftrightarrow> sa_request_id a' = sa_request_id a \<and> sa_plan_id a' = sa_plan_id a"

lemma find_append_new: "find P (xs @ [x]) = (case find P xs of Some y \<Rightarrow> Some y | None \<Rightarrow> if P x then Some x else None)"
  by (induction xs) auto

lemma transaction_replays:
  assumes t: "submit_transaction env a kind sid bytes fp keys now db = Inr (Accepted r, db')"
    and q: "sa_request_id a = Some q" and same: "same_request a a'"
  shows "submit_transaction env a' kind sid bytes fp keys' now' db' = Inr (Accepted (r\<lparr>sr_replayed := True\<rparr>), db')"
proof -
  from t q have refused: "find_submission_refusal_by_request env (sa_plan_id a) q fp db = Inr None"
    by (auto simp: submit_transaction_def replay_submission_def Let_def split: sum.splits option.splits if_splits)
  have args: "sa_request_id a' = Some q" "sa_plan_id a' = sa_plan_id a" using q same by (simp_all add: same_request_def)
  show ?thesis
  proof (cases "existing_submission a db")
    case (Some ex)
    obtain s row where ex: "ex = (s, row)" by (cases ex)
    from t q refused Some have rep: "replay_submission a fp ex None db = Inr (Accepted r, db')"
      by (simp add: submit_transaction_def)
    then have db': "db' = db" and "sr_replayed r"
      by (auto simp: replay_submission_def receipt_of_submission_def Let_def split: if_splits sum.splits prod.splits)
    then have "r\<lparr>sr_replayed := True\<rparr> = r" by simp
    moreover have "existing_submission a' db = Some ex" using Some unfolding existing_submission_def args q .
    moreover have "replay_submission a' fp ex None db = replay_submission a fp ex None db"
      unfolding replay_submission_def args q ..
    ultimately show ?thesis using refused rep args db' by (simp add: submit_transaction_def)
  next
    case None
    let ?row = "\<lparr>su_request_id = sa_request_id a, su_plan_id = sa_plan_id a, su_fingerprint = fp, su_created = now\<rparr>"
    from t q refused None have "fresh_submission env a kind sid bytes fp keys now db = Inr (Accepted r, db')"
      by (simp add: submit_transaction_def)
    note rows = accept_submission_rows [OF fresh_accepted [OF this]]
    have "existing_submission a' db' = Some (sa_submission_id a, ?row)"
      using None unfolding existing_submission_def find_submission_def rows(1) args q find_append_new
      by (auto split: option.splits)
    moreover have "find_submission_refusal_by_request env (sa_plan_id a) q fp db' = Inr None"
      using refused unfolding find_submission_refusal_by_request_def refusal_of_request_def rows(3) .
    ultimately show ?thesis
      using receipt_replayed [OF rows(2)] args q
      by (simp add: submit_transaction_def replay_submission_def)
  qed
qed

text \<open>
  C24: Submitting is idempotent under a caller's request identity.  When a submission has been
  accepted, repeating it (with other fresh identifiers, at another time, whatever the live
  definition has become) returns the same receipt, marked as a replay, and changes nothing.
\<close>

theorem resubmission_replays_receipt:
  assumes "enqueue_submission env a now db = (Inr (Accepted r), db')" and "sa_request_id a = Some q"
    and "length jobs = length (sa_records a)" and "live = None \<longleftrightarrow> sa_live a = None"
  shows "enqueue_submission env (a\<lparr>sa_job_ids := jobs, sa_submission_id := sid, sa_live := live\<rparr>) now' db'
         = (Inr (Accepted (r\<lparr>sr_replayed := True\<rparr>)), db')"
proof -
  let ?a = "a\<lparr>sa_job_ids := jobs, sa_submission_id := sid, sa_live := live\<rparr>"
  have checks: "submit_checks env ?a = submit_checks env a"
  proof -
    have "sa_records ?a = sa_records a" "sa_spec ?a = sa_spec a" "sa_request_id ?a = sa_request_id a" "sa_plan_id ?a = sa_plan_id a"
      "(sa_live ?a = None) = (sa_live a = None)" using assms(4) by simp_all
    then show ?thesis unfolding submit_checks_def by presburger
  qed
  from assms(1) obtain kind spec bytes where c: "submit_checks env a = Inr (kind, spec, bytes)"
    by (auto simp: enqueue_submission_def split: sum.splits)
  define keys where "keys = map (\<lambda>(w, k). resolved_key kind w k) (zip (sa_records a) (sa_keys a))"
  define fp where "fp = se_fingerprint env (map pw_prepared_id (sa_records a)) spec (sa_priority a) keys"
  have len: "length (sa_keys a) = length (sa_records a)"
    using assms(1) c by (auto simp: enqueue_submission_def split: if_splits)
  have t: "submit_transaction env a kind spec bytes fp keys now db = Inr (Accepted r, db')"
    using assms(1) c
    by (auto simp: enqueue_submission_def immediate_def Let_def keys_def fp_def split: if_splits sum.splits)
  have "submit_transaction env ?a kind spec bytes fp keys now' db' = Inr (Accepted (r\<lparr>sr_replayed := True\<rparr>), db')"
    by (rule transaction_replays [OF t assms(2)]) (simp add: same_request_def)
  then show ?thesis
    using len assms(3) unfolding enqueue_submission_def checks c
    by (simp add: immediate_def Let_def keys_def fp_def)
qed

theorem resubmission_replays_receipt_witness:
  "\<exists>r db'. enqueue_submission demo_submit_env (demo_args ''p1'' ''j1'' ''s1'') ''1'' empty_queue = (Inr (Accepted r), db')
     \<and> enqueue_submission demo_submit_env ((demo_args ''p1'' ''j1'' ''s1'')
           \<lparr>sa_job_ids := [''j9''], sa_submission_id := ''s9'', sa_live := Some None\<rparr>) ''2'' db'
        = (Inr (Accepted (r\<lparr>sr_replayed := True\<rparr>)), db')"
proof -
  let ?a = "demo_args ''p1'' ''j1'' ''s1''"
  have "(case enqueue_submission demo_submit_env ?a ''1'' empty_queue of (Inr (Accepted r), db') \<Rightarrow> True | _ \<Rightarrow> False)"
    by code_simp
  then obtain r db' where e: "enqueue_submission demo_submit_env ?a ''1'' empty_queue = (Inr (Accepted r), db')"
    by (auto split: prod.splits sum.splits submit_outcome.splits)
  from resubmission_replays_receipt [OF e, of "''s1''" "[''j9'']" "Some None" "''s9''" "''2''"] e show ?thesis
    by (simp add: demo_args_def)
qed

end
