(* ===== verification/DurableState.thy ===== *)
theory DurableState
  imports Manifest Json
begin

text \<open>
  The durable state of a controller (\<open>src/remrun/state.py\<close>): the JSON documents below the
  state root, stored manifests and baselines, the hazard that an unknown completion leaves
  behind, the cap on logs, and the retention pass \<open>prune_state\<close>.  A document is what
  \<open>json.loads\<close> reads from its file, or unreadable; a path is the list of its components below
  the state root.
\<close>

section \<open>Documents\<close>

datatype state_file = Unreadable | Doc json

datatype state_error = HazardError string | StateValueError string | StateUnreadable | StateTypeError

type_synonym documents = "(string list, state_file) dict"

text \<open>\<open>json.dumps(..., sort_keys=True)\<close> orders the keys of every object.\<close>

fun sort_keys :: "json \<Rightarrow> json" where
  "sort_keys (JObj kvs) = JObj (sort_key fst (map (\<lambda>(k, v). (k, sort_keys v)) kvs))"
| "sort_keys (JList vs) = JList (map sort_keys vs)"
| "sort_keys v = v"

text \<open>Python's \<open>not value\<close>.\<close>

definition falsy :: "json \<Rightarrow> bool" where
  "falsy v \<longleftrightarrow> v \<in> {JNull, JBool False, JInt 0, JStr [], JList [], JObj []}"

definition write_json :: "string list \<Rightarrow> json \<Rightarrow> documents \<Rightarrow> documents" where
  "write_json p payload = dict_set p (Doc (sort_keys payload))"

definition read_json :: "string list \<Rightarrow> documents \<Rightarrow> state_error + json option" where
  "read_json p docs =
     (case dict_get docs p of
        None \<Rightarrow> Inr None
      | Some Unreadable \<Rightarrow> Inl StateUnreadable
      | Some (Doc v) \<Rightarrow> Inr (Some v))"

definition safe_component :: "string \<Rightarrow> string" where
  "safe_component = map (\<lambda>c. if c = CHR ''/'' \<or> c = CHR 0x5C then CHR ''-'' else c)"

section \<open>Manifests and baselines\<close>

definition entry_to_json :: "file_entry \<Rightarrow> json" where
  "entry_to_json e =
     JObj [(''kind'', JStr (fe_kind e)), (''size'', JInt (fe_size e)), (''mtime_ns'', JInt (fe_mtime_ns e)),
           (''sha256'', (case fe_sha256 e of None \<Rightarrow> JNull | Some h \<Rightarrow> JStr h))]"

definition manifest_to_json :: "manifest \<Rightarrow> json" where
  "manifest_to_json m =
     JObj [(''version'', JInt 1), (''files'', JObj (map (\<lambda>(p, e). (p, entry_to_json e)) (sort_key fst m)))]"

text \<open>
  A kind that is not a string and a digest that is neither a string nor null, which no writer
  produces, are outside the model: they are an error here.
\<close>

definition entry_from_json :: "path \<Rightarrow> json \<Rightarrow> state_error + file_entry" where
  "entry_from_json p raw =
     (case raw of
        JObj d \<Rightarrow>
          (case (case dict_get d ''kind'' of None \<Rightarrow> Some ''file'' | Some v \<Rightarrow> json_str (Some v),
                 get_int d ''size'' 0, get_int d ''mtime_ns'' 0,
                 (case get_opt d ''sha256'' of None \<Rightarrow> Some None | Some v \<Rightarrow> map_option Some (json_str (Some v)))) of
             (Some k, Some n, Some t, Some h) \<Rightarrow>
               Inr \<lparr>fe_path = p, fe_kind = k, fe_size = n, fe_mtime_ns = t, fe_sha256 = h, fe_mode = None\<rparr>
           | _ \<Rightarrow> Inl StateTypeError)
      | _ \<Rightarrow> Inl StateTypeError)"

fun entries_from_json :: "(string \<times> json) list \<Rightarrow> manifest \<Rightarrow> state_error + manifest" where
  "entries_from_json [] out = Inr out"
| "entries_from_json ((p, raw) # r) out =
     (case entry_from_json p raw of
        Inl e \<Rightarrow> Inl e
      | Inr e \<Rightarrow> entries_from_json r (dict_set p e out))"

definition manifest_from_json :: "json option \<Rightarrow> state_error + manifest" where
  "manifest_from_json data =
     (case data of
        None \<Rightarrow> Inr []
      | Some v \<Rightarrow>
          if falsy v then Inr []
          else (case v of
                  JObj d \<Rightarrow>
                    (case dict_get d ''files'' of
                       None \<Rightarrow> Inr []
                     | Some (JObj files) \<Rightarrow> entries_from_json files []
                     | Some _ \<Rightarrow> Inl StateTypeError)
                | _ \<Rightarrow> Inl StateTypeError))"

definition baseline_dir :: "string \<Rightarrow> string \<Rightarrow> string list" where
  "baseline_dir target project = [''manifests'', safe_component target, safe_component project]"

definition read_baseline :: "string \<Rightarrow> string \<Rightarrow> documents \<Rightarrow> state_error + (manifest \<times> manifest) option" where
  "read_baseline target project docs =
     (case read_json (baseline_dir target project @ [''baseline.json'']) docs of
        Inl e \<Rightarrow> Inl e
      | Inr None \<Rightarrow> Inr None
      | Inr (Some data) \<Rightarrow>
          if falsy data then Inr None
          else (case data of
                  JObj d \<Rightarrow>
                    (case manifest_from_json (get_opt d ''local'') of
                       Inl e \<Rightarrow> Inl e
                     | Inr l \<Rightarrow>
                         (case manifest_from_json (get_opt d ''remote'') of
                            Inl e \<Rightarrow> Inl e
                          | Inr r \<Rightarrow> Inr (Some (l, r))))
                | _ \<Rightarrow> Inl StateTypeError))"

definition write_baseline :: "string \<Rightarrow> string \<Rightarrow> manifest \<Rightarrow> manifest \<Rightarrow> documents \<Rightarrow> documents" where
  "write_baseline target project l r =
     write_json (baseline_dir target project @ [''baseline.json''])
       (JObj [(''version'', JInt 1), (''local'', manifest_to_json l), (''remote'', manifest_to_json r)])"

section \<open>Unknown-completion hazards\<close>

text \<open>\<open>hash\<close> is SHA-256 in hexadecimal of the UTF-8 bytes.\<close>

definition unknown_completion_hazard_path :: "(string \<Rightarrow> string) \<Rightarrow> string \<Rightarrow> string list" where
  "unknown_completion_hazard_path hash project = [''hazards'', ''project'', hash project, ''unknown.json'']"

definition nonempty_string :: "json option \<Rightarrow> bool" where
  "nonempty_string v \<longleftrightarrow> (case v of Some (JStr s) \<Rightarrow> s \<noteq> [] | _ \<Rightarrow> False)"

definition validate_unknown_completion_hazard :: "json \<Rightarrow> string \<Rightarrow> state_error + (string, json) dict" where
  "validate_unknown_completion_hazard data project =
     (case data of
        JObj d \<Rightarrow>
          if dict_get d ''version'' \<noteq> Some (JInt 1) then Inl (HazardError ''version must be 1'')
          else (case find (\<lambda>f. \<not> nonempty_string (dict_get d f)) [''project_id'', ''target'', ''run_id'', ''created_at''] of
                  Some f \<Rightarrow> Inl (HazardError (f @ '' must be a non-empty string''))
                | None \<Rightarrow>
                    if dict_get d ''project_id'' \<noteq> Some (JStr project) then Inl (HazardError ''project mismatch'')
                    else if dict_get d ''completion_state'' \<noteq> Some (JStr ''unknown'')
                    then Inl (HazardError ''completion_state must be unknown'')
                    else Inr d)
      | _ \<Rightarrow> Inl (HazardError ''expected a JSON object''))"

definition read_unknown_completion_hazard ::
  "(string \<Rightarrow> string) \<Rightarrow> string \<Rightarrow> documents \<Rightarrow> state_error + (string, json) dict option" where
  "read_unknown_completion_hazard hash project docs =
     (case dict_get docs (unknown_completion_hazard_path hash project) of
        None \<Rightarrow> Inr None
      | Some Unreadable \<Rightarrow> Inl (HazardError ''unreadable'')
      | Some (Doc v) \<Rightarrow> map_sum id Some (validate_unknown_completion_hazard v project))"

definition hazard_record :: "string \<Rightarrow> string \<Rightarrow> string \<Rightarrow> string \<Rightarrow> (string, json) dict" where
  "hazard_record project target run_id created =
     [(''version'', JInt 1), (''project_id'', JStr project), (''target'', JStr target), (''run_id'', JStr run_id),
      (''created_at'', JStr created), (''completion_state'', JStr ''unknown'')]"

text \<open>\<open>now\<close> is the clock, read when no time of creation is given.\<close>

definition write_unknown_completion_hazard ::
  "(string \<Rightarrow> string) \<Rightarrow> string \<Rightarrow> string \<Rightarrow> string \<Rightarrow> string option \<Rightarrow> string \<Rightarrow> documents
   \<Rightarrow> (state_error + (string, json) dict) \<times> documents" where
  "write_unknown_completion_hazard hash project target run_id created_at now docs =
     (if project = [] then (Inl (StateValueError ''project_id must be a non-empty string''), docs)
      else if target = [] then (Inl (StateValueError ''target must be a non-empty string''), docs)
      else if run_id = [] then (Inl (StateValueError ''run_id must be a non-empty string''), docs)
      else if created_at = Some [] then (Inl (StateValueError ''created_at must be a non-empty string''), docs)
      else
        (case read_unknown_completion_hazard hash project docs of
           Inl e \<Rightarrow> (Inl e, docs)
         | Inr (Some current) \<Rightarrow>
             if dict_get current ''run_id'' = Some (JStr run_id) \<and> dict_get current ''target'' = Some (JStr target)
             then (Inr current, docs)
             else (Inl (HazardError ''project already has an unknown-completion hazard''), docs)
         | Inr None \<Rightarrow>
             (let record = hazard_record project target run_id (case created_at of None \<Rightarrow> now | Some t \<Rightarrow> t)
              in (Inr record, write_json (unknown_completion_hazard_path hash project) (JObj record) docs))))"

definition clear_unknown_completion_hazard ::
  "(string \<Rightarrow> string) \<Rightarrow> string \<Rightarrow> string \<Rightarrow> documents \<Rightarrow> (state_error + bool) \<times> documents" where
  "clear_unknown_completion_hazard hash project run_id docs =
     (if run_id = [] then (Inl (StateValueError ''run_id must be a non-empty string''), docs)
      else
        (case read_unknown_completion_hazard hash project docs of
           Inl e \<Rightarrow> (Inl e, docs)
         | Inr None \<Rightarrow> (Inr False, docs)
         | Inr (Some current) \<Rightarrow>
             if dict_get current ''run_id'' \<noteq> Some (JStr run_id) then (Inr False, docs)
             else (Inr True, dict_pop (unknown_completion_hazard_path hash project) docs)))"

text \<open>The hazards in the order of their paths; the first one that is malformed raises.\<close>

definition hazard_file :: "string list \<Rightarrow> bool" where
  "hazard_file p \<longleftrightarrow> (case p of [a, b, h, n] \<Rightarrow> a = ''hazards'' \<and> b = ''project'' \<and> n = ''unknown.json'' | _ \<Rightarrow> False)"

definition hazard_run_id :: "(string \<Rightarrow> string) \<Rightarrow> string list \<times> state_file \<Rightarrow> state_error + string" where
  "hazard_run_id hash pf =
     (case snd pf of
        Unreadable \<Rightarrow> Inl (HazardError ''unreadable'')
      | Doc v \<Rightarrow>
          (case (case v of JObj d \<Rightarrow> json_str (dict_get d ''project_id'') | _ \<Rightarrow> None) of
             None \<Rightarrow> Inl (HazardError ''missing project_id'')
           | Some project \<Rightarrow>
               (case validate_unknown_completion_hazard v project of
                  Inl e \<Rightarrow> Inl e
                | Inr d \<Rightarrow>
                    if unknown_completion_hazard_path hash project \<noteq> fst pf
                    then Inl (HazardError ''stored under the wrong project hash'')
                    else (case json_str (dict_get d ''run_id'') of None \<Rightarrow> Inl StateTypeError | Some r \<Rightarrow> Inr r))))"

fun hazard_run_ids :: "(string \<Rightarrow> string) \<Rightarrow> (string list \<times> state_file) list \<Rightarrow> state_error + string list" where
  "hazard_run_ids hash [] = Inr []"
| "hazard_run_ids hash (pf # r) =
     (case hazard_run_id hash pf of
        Inl e \<Rightarrow> Inl e
      | Inr i \<Rightarrow> (case hazard_run_ids hash r of Inl e \<Rightarrow> Inl e | Inr is \<Rightarrow> Inr (i # is)))"

definition active_unknown_completion_run_ids :: "(string \<Rightarrow> string) \<Rightarrow> documents \<Rightarrow> state_error + string list" where
  "active_unknown_completion_run_ids hash docs =
     hazard_run_ids hash (sort_key fst (filter (\<lambda>(p, _). hazard_file p) docs))"

end
