(* ===== verification/Retention.thy ===== *)
theory Retention
  imports DurableState
begin

text \<open>
  Bounded state (\<open>src/remrun/state.py\<close>): the cap on a log (\<open>cap_text\<close>) and the retention pass
  over the run journal and the area of conflicts and backups (\<open>prune_state\<close>).
\<close>

section \<open>UTF-8\<close>

definition in_range :: "nat \<Rightarrow> nat \<Rightarrow> char \<Rightarrow> bool" where
  "in_range a b c \<longleftrightarrow> a \<le> of_char c \<and> of_char c \<le> b"

text \<open>The bytes that may follow the lead byte of a well-formed sequence.\<close>

definition utf8_tail :: "char \<Rightarrow> (char \<Rightarrow> bool) list option" where
  "utf8_tail c =
     (let cont = in_range 0x80 0xBF in
      if in_range 0 0x7F c then Some []
      else if in_range 0xC2 0xDF c then Some [cont]
      else if in_range 0xE0 0xE0 c then Some [in_range 0xA0 0xBF, cont]
      else if in_range 0xED 0xED c then Some [in_range 0x80 0x9F, cont]
      else if in_range 0xE1 0xEF c then Some [cont, cont]
      else if in_range 0xF0 0xF0 c then Some [in_range 0x90 0xBF, cont, cont]
      else if in_range 0xF1 0xF3 c then Some [cont, cont, cont]
      else if in_range 0xF4 0xF4 c then Some [in_range 0x80 0x8F, cont, cont]
      else None)"

fun starts_with :: "(char \<Rightarrow> bool) list \<Rightarrow> string \<Rightarrow> bool" where
  "starts_with [] s \<longleftrightarrow> True"
| "starts_with (P # Ps) [] \<longleftrightarrow> False"
| "starts_with (P # Ps) (c # s) \<longleftrightarrow> P c \<and> starts_with Ps s"

text \<open>The length of the well-formed sequence at the start of a text, 0 when there is none.\<close>

fun utf8_len :: "string \<Rightarrow> nat" where
  "utf8_len [] = 0"
| "utf8_len (c # s) = (case utf8_tail c of None \<Rightarrow> 0 | Some Ps \<Rightarrow> if starts_with Ps s then Suc (length Ps) else 0)"

text \<open>
  \<open>bytes.decode("utf-8", "ignore")\<close>, encoded again: what is not part of a well-formed sequence
  is dropped.  A continuation byte never starts a sequence, so that dropping one byte at a time
  is dropping the maximal malformed part.
\<close>

function utf8_ignore :: "string \<Rightarrow> string" where
  "utf8_ignore [] = []"
| "utf8_ignore (c # s) =
     (let n = utf8_len (c # s)
      in if n = 0 then utf8_ignore s else take n (c # s) @ utf8_ignore (drop n (c # s)))"
  by pat_completeness auto
termination by (relation "measure length") auto

section \<open>Logs\<close>

definition truncation_marker :: "nat \<Rightarrow> string" where
  "truncation_marker omitted =
     CHR 0x0A # ''...[remrun truncated '' @ nat_digits omitted @ '' bytes of log output]...'' @ [CHR 0x0A]"

definition short_marker :: string where
  "short_marker = ''...[remrun truncated]...''"

text \<open>The loop that makes the marker agree with what it announces.\<close>

primrec settle_marker :: "nat \<Rightarrow> nat \<Rightarrow> nat \<Rightarrow> string \<Rightarrow> string" where
  "settle_marker 0 bytes max_bytes marker = marker"
| "settle_marker (Suc k) bytes max_bytes marker =
     (let available = max_bytes - length marker;
          head_bytes = available div 2;
          tail_bytes = available - head_bytes;
          updated = truncation_marker (bytes - head_bytes - tail_bytes)
      in if updated = marker then marker else settle_marker k bytes max_bytes updated)"

definition cap_text :: "string \<Rightarrow> int \<Rightarrow> string" where
  "cap_text text limit =
     (if limit \<le> 0 then text
      else
        (let max_bytes = nat limit in
         if length text \<le> max_bytes then text
         else
           (let marker = settle_marker 4 (length text) max_bytes [] in
            if length marker > max_bytes then take max_bytes short_marker
            else
              (let available = max_bytes - length marker;
                   head_bytes = available div 2;
                   tail_bytes = available - head_bytes
               in utf8_ignore (take head_bytes text) @ marker
                    @ (if tail_bytes = 0 then [] else utf8_ignore (drop (length text - tail_bytes) text))))))"

section \<open>The run journal\<close>

text \<open>
  The directory of a run: the document \<open>summary.json\<close>, the sizes of the files in it, and the
  size of what lies deeper.  A directory of conflicts and backups is its size.
\<close>

record run_dir =
  rd_summary :: "state_file option"
  rd_files :: "(string, int) dict"
  rd_nested :: int

record journal =
  jo_docs :: documents
  jo_runs :: "(string, run_dir) dict"
  jo_conflicts :: "(string, int) dict"

record retention_policy =
  rp_full_log_days :: int
  rp_failed_log_days :: int
  rp_summary_days :: int
  rp_backup_days :: int
  rp_max_backup_bytes :: int

record prune_report =
  pr_runs_deleted :: int
  pr_runs_trimmed :: int
  pr_bytes_freed :: int
  pr_details :: "string list"

text \<open>
  The clock in seconds, \<open>parse_run_timestamp\<close> as the time of a run identifier, SHA-256, and what
  \<open>shutil.rmtree(..., ignore_errors=True)\<close> leaves of a directory: nothing, unless it failed.
\<close>

record prune_env =
  pe_now :: int
  pe_stamp :: "string \<Rightarrow> int option"
  pe_hash :: "string \<Rightarrow> string"
  pe_rmtree_run :: "string \<Rightarrow> run_dir \<Rightarrow> run_dir option"
  pe_rmtree_backup :: "string \<Rightarrow> int \<Rightarrow> int option"

record prune_args =
  pg_policy :: retention_policy
  pg_dry_run :: bool
  pg_older_than_days :: "int option"
  pg_keep :: "int option"
  pg_exempt :: "string list"

definition is_heavy :: "string \<Rightarrow> bool" where
  "is_heavy name \<longleftrightarrow> name \<in> {''stdout.log'', ''stderr.log''} \<or> suffix ''manifest.json'' name"

definition dir_size :: "run_dir \<Rightarrow> int" where
  "dir_size d = sum_list (map snd (rd_files d)) + rd_nested d"

definition run_is_failed :: "json option \<Rightarrow> state_error + bool" where
  "run_is_failed summary =
     (case summary of
        None \<Rightarrow> Inr False
      | Some v \<Rightarrow>
          if falsy v then Inr False
          else (case v of
                  JObj d \<Rightarrow>
                    Inr ((case dict_get d ''error'' of None \<Rightarrow> False | Some e \<Rightarrow> \<not> falsy e)
                         \<or> (case get_opt d ''exit_code'' of None \<Rightarrow> False | Some ec \<Rightarrow> py_num ec \<noteq> Some 0))
                | _ \<Rightarrow> Inl StateTypeError))"

definition read_summary :: "run_dir \<Rightarrow> state_error + json option" where
  "read_summary d =
     (case rd_summary d of None \<Rightarrow> Inr None | Some Unreadable \<Rightarrow> Inl StateUnreadable | Some (Doc v) \<Rightarrow> Inr (Some v))"

definition age_days :: "prune_env \<Rightarrow> string \<Rightarrow> int option" where
  "age_days env name = map_option (\<lambda>t. (pe_now env - t) div 86400) (pe_stamp env name)"

definition older :: "int option \<Rightarrow> int \<Rightarrow> bool" where
  "older age days \<longleftrightarrow> (case age of None \<Rightarrow> False | Some a \<Rightarrow> days < a)"

datatype run_verdict = KeepRun | DeleteWhole | TrimHeavy

definition run_verdict_of :: "prune_env \<Rightarrow> prune_args \<Rightarrow> string list \<Rightarrow> string \<Rightarrow> bool \<Rightarrow> run_verdict" where
  "run_verdict_of env a protected name failed =
     (case pg_keep a of
        Some _ \<Rightarrow> if name \<in> set protected then KeepRun else DeleteWhole
      | None \<Rightarrow>
          (case pg_older_than_days a of
             Some days \<Rightarrow> if older (age_days env name) days then DeleteWhole else KeepRun
           | None \<Rightarrow>
               (let heavy_days = (if failed then rp_failed_log_days (pg_policy a) else rp_full_log_days (pg_policy a)) in
                if older (age_days env name) (rp_summary_days (pg_policy a)) then DeleteWhole
                else if older (age_days env name) heavy_days then TrimHeavy
                else KeepRun)))"

definition put_or_pop :: "'k \<Rightarrow> 'v option \<Rightarrow> ('k, 'v) dict \<Rightarrow> ('k, 'v) dict" where
  "put_or_pop k v d = (case v of None \<Rightarrow> dict_pop k d | Some x \<Rightarrow> dict_set k x d)"

definition delete_run :: "prune_env \<Rightarrow> prune_args \<Rightarrow> string \<Rightarrow> run_dir \<Rightarrow> prune_report \<times> journal \<Rightarrow> prune_report \<times> journal" where
  "delete_run env a name d s =
     (let (rep, jo) = s in
      (rep\<lparr>pr_bytes_freed := pr_bytes_freed rep + dir_size d, pr_runs_deleted := pr_runs_deleted rep + 1,
           pr_details := pr_details rep @ [''delete runs/'' @ name]\<rparr>,
       if pg_dry_run a then jo else jo\<lparr>jo_runs := put_or_pop name (pe_rmtree_run env name d) (jo_runs jo)\<rparr>))"

definition trim_run :: "prune_args \<Rightarrow> string \<Rightarrow> run_dir \<Rightarrow> prune_report \<times> journal \<Rightarrow> prune_report \<times> journal" where
  "trim_run a name d s =
     (let (rep, jo) = s;
          freed = sum_list (map snd (filter (\<lambda>(f, _). is_heavy f) (rd_files d)));
          jo' = (if pg_dry_run a then jo
                 else jo\<lparr>jo_runs := dict_set name (d\<lparr>rd_files := filter (\<lambda>(f, _). \<not> is_heavy f) (rd_files d)\<rparr>) (jo_runs jo)\<rparr>)
      in if freed = 0 then (rep, jo')
         else (rep\<lparr>pr_bytes_freed := pr_bytes_freed rep + freed, pr_runs_trimmed := pr_runs_trimmed rep + 1,
                   pr_details := pr_details rep @ [''trim runs/'' @ name]\<rparr>, jo'))"

text \<open>The loop over the runs; an unreadable summary raises and leaves what was done before.\<close>

fun prune_runs ::
  "prune_env \<Rightarrow> prune_args \<Rightarrow> string list \<Rightarrow> string list \<Rightarrow> (string \<times> run_dir) list \<Rightarrow> prune_report \<times> journal
   \<Rightarrow> (state_error + prune_report) \<times> journal" where
  "prune_runs env a exempt protected [] s = (Inr (fst s), snd s)"
| "prune_runs env a exempt protected ((name, d) # r) s =
     (if name \<in> set exempt then prune_runs env a exempt protected r s
      else
        (case read_summary d of
           Inl e \<Rightarrow> (Inl e, snd s)
         | Inr summary \<Rightarrow>
             (case run_is_failed summary of
                Inl e \<Rightarrow> (Inl e, snd s)
              | Inr failed \<Rightarrow>
                  prune_runs env a exempt protected r
                    (case run_verdict_of env a protected name failed of
                       KeepRun \<Rightarrow> s
                     | DeleteWhole \<Rightarrow> delete_run env a name d s
                     | TrimHeavy \<Rightarrow> trim_run a name d s))))"

definition delete_backup ::
  "prune_env \<Rightarrow> prune_args \<Rightarrow> string \<Rightarrow> int \<Rightarrow> string \<Rightarrow> prune_report \<times> journal \<Rightarrow> prune_report \<times> journal" where
  "delete_backup env a name n note s =
     (let (rep, jo) = s in
      (rep\<lparr>pr_bytes_freed := pr_bytes_freed rep + n, pr_runs_deleted := pr_runs_deleted rep + 1,
           pr_details := pr_details rep @ [''delete conflicts/'' @ name @ note]\<rparr>,
       if pg_dry_run a then jo
       else jo\<lparr>jo_conflicts := put_or_pop name (pe_rmtree_backup env name n) (jo_conflicts jo)\<rparr>))"

text \<open>The passes by age and by size.  A directory that \<open>rmtree\<close> left behind is not counted again.\<close>

definition expired_backup :: "prune_env \<Rightarrow> prune_args \<Rightarrow> string list \<Rightarrow> string \<Rightarrow> bool" where
  "expired_backup env a exempt name \<longleftrightarrow> name \<notin> set exempt
     \<and> older (age_days env name) (case pg_older_than_days a of Some n \<Rightarrow> n | None \<Rightarrow> rp_backup_days (pg_policy a))"

definition prune_expired :: "prune_env \<Rightarrow> prune_args \<Rightarrow> string list \<Rightarrow> prune_report \<times> journal \<Rightarrow> prune_report \<times> journal" where
  "prune_expired env a exempt s =
     foldl (\<lambda>s (name, n). delete_backup env a name n [] s) s
       (filter (\<lambda>(name, _). expired_backup env a exempt name) (sort_key fst (jo_conflicts (snd s))))"

fun prune_over_budget ::
  "prune_env \<Rightarrow> prune_args \<Rightarrow> int \<Rightarrow> int \<Rightarrow> (string \<times> int) list \<Rightarrow> prune_report \<times> journal \<Rightarrow> prune_report \<times> journal" where
  "prune_over_budget env a budget bytes [] s = s"
| "prune_over_budget env a budget bytes ((name, n) # r) s =
     (if bytes \<le> budget then s
      else prune_over_budget env a budget (bytes - n) r
             (delete_backup env a name n '' (over backup budget)'' s))"

definition prune_conflicts :: "prune_env \<Rightarrow> prune_args \<Rightarrow> string list \<Rightarrow> prune_report \<times> journal \<Rightarrow> prune_report \<times> journal" where
  "prune_conflicts env a exempt s =
     (let s1 = prune_expired env a exempt s;
          pruned = filter (expired_backup env a exempt) (dict_keys (jo_conflicts (snd s)));
          remaining = filter (\<lambda>(name, _). name \<notin> set pruned \<and> name \<notin> set exempt) (sort_key fst (jo_conflicts (snd s1)));
          budget = rp_max_backup_bytes (pg_policy a)
      in if budget \<noteq> 0 \<and> pg_older_than_days a = None
         then prune_over_budget env a budget (sum_list (map snd remaining)) remaining s1
         else s1)"

text \<open>A Python slice \<open>xs[:n]\<close>.\<close>

definition py_prefix :: "int \<Rightarrow> 'a list \<Rightarrow> 'a list" where
  "py_prefix n xs = (if n < 0 then take (length xs - nat (- n)) xs else take (nat n) xs)"

definition empty_report :: prune_report where
  "empty_report = \<lparr>pr_runs_deleted = 0, pr_runs_trimmed = 0, pr_bytes_freed = 0, pr_details = []\<rparr>"

text \<open>The pass over the runs, newest first; \<open>keep\<close> protects the newest.\<close>

definition prune_journal :: "prune_env \<Rightarrow> prune_args \<Rightarrow> string list \<Rightarrow> journal \<Rightarrow> (state_error + prune_report) \<times> journal" where
  "prune_journal env a exempt jo =
     (let run_dirs = rev (sort_key fst (jo_runs jo));
          protected = (case pg_keep a of None \<Rightarrow> [] | Some n \<Rightarrow> dict_keys (py_prefix n run_dirs))
      in prune_runs env a exempt protected run_dirs (empty_report, jo))"

definition prune_state :: "prune_env \<Rightarrow> prune_args \<Rightarrow> journal \<Rightarrow> (state_error + prune_report) \<times> journal" where
  "prune_state env a jo =
     (case active_unknown_completion_run_ids (pe_hash env) (jo_docs jo) of
        Inl e \<Rightarrow> (Inl e, jo)
      | Inr active \<Rightarrow>
          (let exempt = pg_exempt a @ active in
           case prune_journal env a exempt jo of
             (Inl e, jo1) \<Rightarrow> (Inl e, jo1)
           | (Inr rep, jo1) \<Rightarrow>
               if pg_keep a \<noteq> None then (Inr rep, jo1)
               else (let (rep', jo') = prune_conflicts env a exempt (rep, jo1) in (Inr rep', jo'))))"

end
