(* ===== verification/Baselines.thy ===== *)
theory Baselines
  imports DurableState TransferPlan
begin

text \<open>
  Stored baselines: what is written is read back, up to the file modes that the planner does not
  look at, and planning from the stored pair is planning from the pair itself.  The documents
  of two different projects may be one file.
\<close>

section \<open>Documents that are written and read\<close>

lemma sort_key_map_fst: "sort_key fst (map (\<lambda>(k, v). (k, f k v)) d) = map (\<lambda>(k, v). (k, f k v)) (sort_key fst d)"
proof -
  have "insort_key fst (case x of (k, v) \<Rightarrow> (k, f k v)) (map (\<lambda>(k, v). (k, f k v)) ys)
        = map (\<lambda>(k, v). (k, f k v)) (insort_key fst x ys)" for x ys
    by (induction ys) (auto split: prod.split)
  then show ?thesis by (induction d) (simp_all add: case_prod_unfold)
qed

lemma sort_key_idem: "sort_key f (sort_key f xs) = sort_key f xs"
  by (rule sort_key_id_if_sorted) simp

lemma dict_ok_sort: "dict_ok (sort_key f d) \<longleftrightarrow> dict_ok d"
  by (simp add: distinct_map)

lemma dict_get_sort:
  assumes "dict_ok d"
  shows "dict_get (sort_key f d) k = dict_get d k"
  using assms by (intro option_ext) (simp add: dict_ok_sort)

lemma read_write_json: "read_json p (write_json p v docs) = Inr (Some (sort_keys v))"
  by (simp add: read_json_def write_json_def update_conv')

lemma read_write_other: "p \<noteq> q \<Longrightarrow> read_json p (write_json q v docs) = read_json p docs"
  by (simp add: read_json_def write_json_def update_conv')

section \<open>Manifests\<close>

definition stored_entry :: "path \<Rightarrow> file_entry \<Rightarrow> file_entry" where
  "stored_entry p e = e\<lparr>fe_path := p, fe_mode := None\<rparr>"

definition stored_manifest :: "manifest \<Rightarrow> manifest" where
  "stored_manifest m = map (\<lambda>(p, e). (p, stored_entry p e)) (sort_key fst m)"

lemma sort_keys_entry:
  "sort_keys (entry_to_json e) =
     JObj [(''kind'', JStr (fe_kind e)), (''mtime_ns'', JInt (fe_mtime_ns e)),
           (''sha256'', (case fe_sha256 e of None \<Rightarrow> JNull | Some h \<Rightarrow> JStr h)), (''size'', JInt (fe_size e))]"
  by (cases "fe_sha256 e") (simp_all add: entry_to_json_def)

lemma entry_roundtrip: "entry_from_json p (sort_keys (entry_to_json e)) = Inr (stored_entry p e)"
  unfolding sort_keys_entry
  by (cases "fe_sha256 e") (simp_all add: entry_from_json_def stored_entry_def get_int_def get_opt_def json_str_def py_int_def)

lemma entries_roundtrip:
  assumes "dict_ok (out @ m)"
  shows "entries_from_json (map (\<lambda>(p, e). (p, sort_keys (entry_to_json e))) m) (map (\<lambda>(p, e). (p, stored_entry p e)) out)
         = Inr (map (\<lambda>(p, e). (p, stored_entry p e)) (out @ m))"
  using assms
proof (induction m arbitrary: out)
  case (Cons a m)
  obtain p e where a: "a = (p, e)" by (cases a)
  from Cons.prems a have "p \<notin> set (dict_keys (map (\<lambda>(p, e). (p, stored_entry p e)) out))" by (auto simp: rev_image_eqI)
  then have "dict_set p (stored_entry p e) (map (\<lambda>(p, e). (p, stored_entry p e)) out)
             = map (\<lambda>(p, e). (p, stored_entry p e)) (out @ [(p, e)])" by (simp add: dict_set_new)
  with Cons.IH [of "out @ [(p, e)]"] Cons.prems a show ?case by (simp add: entry_roundtrip)
qed simp

lemma sort_keys_manifest:
  "sort_keys (manifest_to_json m) =
     JObj [(''files'', JObj (map (\<lambda>(p, e). (p, sort_keys (entry_to_json e))) (sort_key fst m))), (''version'', JInt 1)]"
  using sort_key_map_fst [of "\<lambda>_ e. sort_keys (entry_to_json e)" "sort_key fst m"]
  by (simp add: manifest_to_json_def sort_key_idem comp_def case_prod_unfold)

lemma manifest_roundtrip:
  assumes "dict_ok m"
  shows "manifest_from_json (Some (sort_keys (manifest_to_json m))) = Inr (stored_manifest m)"
  using entries_roundtrip [of "[]" "sort_key fst m"] assms
  unfolding sort_keys_manifest manifest_from_json_def stored_manifest_def
  by (simp add: falsy_def dict_ok_sort)

lemma baseline_read_back:
  assumes "dict_ok l" and "dict_ok r"
  shows "read_baseline t p (write_baseline t p l r docs) = Inr (Some (stored_manifest l, stored_manifest r))"
proof -
  have "sort_keys (JObj [(''version'', JInt 1), (''local'', manifest_to_json l), (''remote'', manifest_to_json r)])
      = JObj [(''local'', sort_keys (manifest_to_json l)), (''remote'', sort_keys (manifest_to_json r)), (''version'', JInt 1)]"
    by (simp del: sort_keys.simps(1) add: sort_keys.simps(1) [of "[_, _, _]"])
  then show ?thesis
    unfolding read_baseline_def write_baseline_def read_write_json
    using manifest_roundtrip [OF assms(1)] manifest_roundtrip [OF assms(2)]
    by (simp add: falsy_def get_opt_def sort_keys_manifest)
qed

section \<open>Planning\<close>

definition demo_entry :: "int option \<Rightarrow> file_entry" where
  "demo_entry mode = \<lparr>fe_path = ''a'', fe_kind = ''file'', fe_size = 3, fe_mtime_ns = 7, fe_sha256 = Some ''00'', fe_mode = mode\<rparr>"

lemma map_sort_key_fst: "map fst (sort_key fst d) = sort (map fst d)"
proof -
  have "map fst (insort_key fst x ys) = insort (fst x) (map fst ys)" for x :: "'a::linorder \<times> 'b" and ys
    by (induction ys) auto
  then show ?thesis by (induction d) simp_all
qed

lemma dict_get_stored:
  assumes "dict_ok m"
  shows "dict_get (stored_manifest m) p = map_option (stored_entry p) (dict_get m p)"
  using assms unfolding stored_manifest_def by (simp add: dict_get_map dict_get_sort)

lemma changed_since_stored: "changed_since (map_option (stored_entry p) e) (Some x) \<longleftrightarrow> changed_since e (Some x)"
  by (cases e) (simp_all add: stored_entry_def entries_same.simps)

lemma classify_stored:
  "classify p h le re (map_option (stored_entry p) pl) (map_option (stored_entry p) pr) = classify p h le re pl pr"
  by (cases "(p, h, le, re, pl, pr)" rule: classify.cases)
    (simp_all add: classify_both_def classify_local_present_def classify_remote_present_def changed_since_stored)

lemma compare_stored:
  assumes "dict_ok pl" and "dict_ok pr"
  shows "compare_manifests l r (Some (stored_manifest pl)) (Some (stored_manifest pr)) = compare_manifests l r (Some pl) (Some pr)"
  by (simp add: compare_manifests_def prev_get_def dict_get_stored [OF assms(1)] dict_get_stored [OF assms(2)] classify_stored)

text \<open>
  C35: A baseline survives being stored: what \<open>read_baseline\<close> returns after \<open>write_baseline\<close> has the
  paths that were written, and every plan made from it is the plan made from the manifests that
  were written.
\<close>

theorem stored_baseline_plans_alike:
  assumes "dict_ok l" and "dict_ok r"
  shows "\<exists>l' r'. read_baseline t p (write_baseline t p l r docs) = Inr (Some (l', r'))
           \<and> dict_keys l' = sort (dict_keys l) \<and> dict_keys r' = sort (dict_keys r)
           \<and> (\<forall>cur_l cur_r. compare_manifests cur_l cur_r (Some l') (Some r') = compare_manifests cur_l cur_r (Some l) (Some r))"
proof (intro exI conjI allI)
  show "read_baseline t p (write_baseline t p l r docs) = Inr (Some (stored_manifest l, stored_manifest r))"
    by (rule baseline_read_back [OF assms])
  show "dict_keys (stored_manifest l) = sort (dict_keys l)" "dict_keys (stored_manifest r) = sort (dict_keys r)"
    by (simp_all add: stored_manifest_def case_prod_unfold comp_def map_sort_key_fst)
qed (rule compare_stored [OF assms])

theorem stored_baseline_plans_alike_witness:
  "\<exists>l' r'. read_baseline ''box'' ''app''
       (write_baseline ''box'' ''app'' [(''b'', demo_entry (Some 420)), (''a'', demo_entry None)] [] []) = Inr (Some (l', r'))
     \<and> dict_keys l' = [''a'', ''b'']"
proof -
  let ?l = "[(''b'', demo_entry (Some 420)), (''a'', demo_entry None)]"
  have "sort (dict_keys ?l) = [''a'', ''b'']" by simp
  with stored_baseline_plans_alike [of ?l "[]" "''box''" "''app''" "[]"] show ?thesis by auto
qed

text \<open>
  The baselines of a nested project and of a project whose name has a dash in place of the
  slash are one file.  After a run of \<open>client-foo\<close> on a target, the first run of \<open>client/foo\<close>
  there, which has no baseline of its own, plans to delete a local file that the remote does
  not have, when the other project recorded the same file.
\<close>

theorem nested_project_shares_baseline:
  "read_baseline t ''client/foo'' [] = Inr None
   \<and> (\<exists>pl pr. read_baseline t ''client/foo'' (write_baseline t ''client-foo'' [(f, e)] [(f, e)] []) = Inr (Some (pl, pr))
        \<and> compare_manifests [(f, e)] [] (Some pl) (Some pr) =
            \<lparr>paths = [ClassifiedPath f ''remote-deleted-known'' DELETE_LOCAL
                        ''remote deleted file; local unchanged (backup first)'']\<rparr>)"
proof
  show "read_baseline t ''client/foo'' [] = Inr None" by (simp add: read_baseline_def read_json_def)
  have "baseline_dir t ''client/foo'' = baseline_dir t ''client-foo''" by (simp add: baseline_dir_def safe_component_def)
  then have "read_baseline t ''client/foo'' docs = read_baseline t ''client-foo'' docs" for docs
    by (simp add: read_baseline_def)
  moreover have "read_baseline t ''client-foo'' (write_baseline t ''client-foo'' [(f, e)] [(f, e)] [])
      = Inr (Some (stored_manifest [(f, e)], stored_manifest [(f, e)]))" by (rule baseline_read_back) simp_all
  moreover have "compare_manifests [(f, e)] [] (Some (stored_manifest [(f, e)])) (Some (stored_manifest [(f, e)])) =
      \<lparr>paths = [ClassifiedPath f ''remote-deleted-known'' DELETE_LOCAL ''remote deleted file; local unchanged (backup first)'']\<rparr>"
    by (subst compare_stored)
      (simp_all add: compare_manifests_def prev_get_def sorted_paths_def sorted_set_def map_filter_simps
        classify_local_present_def entries_same.simps)
  ultimately show "\<exists>pl pr. read_baseline t ''client/foo'' (write_baseline t ''client-foo'' [(f, e)] [(f, e)] []) = Inr (Some (pl, pr))
        \<and> compare_manifests [(f, e)] [] (Some pl) (Some pr) =
            \<lparr>paths = [ClassifiedPath f ''remote-deleted-known'' DELETE_LOCAL
                        ''remote deleted file; local unchanged (backup first)'']\<rparr>" by simp
qed

end
