(* ===== verification/StateSafety.thy ===== *)
theory StateSafety
  imports Retention Baselines StateMachine
begin

text \<open>
  Properties of the durable state: a hazard stands until it is cleared for the run it names and
  pins the evidence of that run, retention keeps its budget, a capped log keeps its cap.
\<close>

section \<open>Hazards\<close>

text \<open>
  The operations on the journal that this module offers; \<open>hash\<close> is one function for all of
  them.
\<close>

datatype state_op =
    RecordHazard string string string "string option" string
  | ClearHazard string string
  | StoreBaseline string string manifest manifest
  | PruneState prune_env prune_args

fun run_state_op :: "(string \<Rightarrow> string) \<Rightarrow> state_op \<Rightarrow> journal \<Rightarrow> journal" where
  "run_state_op hash (RecordHazard p t r c now) jo =
     jo\<lparr>jo_docs := snd (write_unknown_completion_hazard hash p t r c now (jo_docs jo))\<rparr>"
| "run_state_op hash (ClearHazard p r) jo = jo\<lparr>jo_docs := snd (clear_unknown_completion_hazard hash p r (jo_docs jo))\<rparr>"
| "run_state_op hash (StoreBaseline t p l r) jo = jo\<lparr>jo_docs := write_baseline t p l r (jo_docs jo)\<rparr>"
| "run_state_op hash (PruneState env a) jo = snd (prune_state (env\<lparr>pe_hash := hash\<rparr>) a jo)"

definition state_step :: "(string \<Rightarrow> string) \<Rightarrow> string \<Rightarrow> string \<Rightarrow> journal \<Rightarrow> journal \<Rightarrow> bool" where
  "state_step hash p r jo jo' \<longleftrightarrow> (\<exists>op. op \<noteq> ClearHazard p r \<and> jo' = run_state_op hash op jo)"

text \<open>The hazard of a project, as it is read.\<close>

definition hazard_of :: "(string \<Rightarrow> string) \<Rightarrow> string \<Rightarrow> string \<Rightarrow> (string, json) dict \<Rightarrow> documents \<Rightarrow> bool" where
  "hazard_of hash p r d docs \<longleftrightarrow>
     read_unknown_completion_hazard hash p docs = Inr (Some d) \<and> dict_get d ''run_id'' = Some (JStr r)"

lemma validate_Inr:
  assumes "validate_unknown_completion_hazard v q = Inr d"
  shows "v = JObj d \<and> dict_get d ''project_id'' = Some (JStr q)"
  using assms by (auto simp: validate_unknown_completion_hazard_def split: json.splits if_splits option.splits)

lemma hazard_of_doc:
  assumes "hazard_of hash p r d docs"
  shows "dict_get docs (unknown_completion_hazard_path hash p) = Some (Doc (JObj d))"
    and "validate_unknown_completion_hazard (JObj d) p = Inr d"
    and "dict_get d ''project_id'' = Some (JStr p)"
proof -
  from assms obtain v where v: "dict_get docs (unknown_completion_hazard_path hash p) = Some (Doc v)"
      "validate_unknown_completion_hazard v p = Inr d"
    unfolding hazard_of_def read_unknown_completion_hazard_def
    by (auto split: option.splits state_file.splits sum.splits simp: map_sum_def)
  from validate_Inr [OF v(2)] v show "dict_get docs (unknown_completion_hazard_path hash p) = Some (Doc (JObj d))"
    "validate_unknown_completion_hazard (JObj d) p = Inr d" "dict_get d ''project_id'' = Some (JStr p)" by auto
qed

lemma hazard_of_cong:
  "dict_get docs' (unknown_completion_hazard_path hash p) = dict_get docs (unknown_completion_hazard_path hash p) \<Longrightarrow>
     hazard_of hash p r d docs' \<longleftrightarrow> hazard_of hash p r d docs"
  by (simp add: hazard_of_def read_unknown_completion_hazard_def)

text \<open>A project with another name that hashes to the same document does not read it.\<close>

lemma other_project_refused:
  assumes "hazard_of hash p r d docs" and "q \<noteq> p"
    and "unknown_completion_hazard_path hash q = unknown_completion_hazard_path hash p"
  shows "\<exists>e. read_unknown_completion_hazard hash q docs = Inl e"
proof -
  have "validate_unknown_completion_hazard (JObj d) q \<noteq> Inr d'" for d'
    using validate_Inr [of "JObj d" q d'] hazard_of_doc(3) [OF assms(1)] assms(2) by auto
  then obtain e where "validate_unknown_completion_hazard (JObj d) q = Inl e"
    by (metis old.sum.exhaust)
  with hazard_of_doc(1) [OF assms(1)] assms(3) show ?thesis
    by (simp add: read_unknown_completion_hazard_def)
qed

lemma write_keeps_hazard:
  assumes "hazard_of hash p r d docs"
  shows "hazard_of hash p r d (snd (write_unknown_completion_hazard hash q t r' c now docs))"
proof (cases "unknown_completion_hazard_path hash q = unknown_completion_hazard_path hash p")
  case True
  have "\<not> read_unknown_completion_hazard hash q docs = Inr None"
    using hazard_of_doc(1) [OF assms] True
    by (auto simp: read_unknown_completion_hazard_def map_sum_def split: sum.splits)
  then have "snd (write_unknown_completion_hazard hash q t r' c now docs) = docs"
    by (auto simp: write_unknown_completion_hazard_def split: sum.splits option.splits)
  with assms show ?thesis by simp
next
  case False
  then have "dict_get (snd (write_unknown_completion_hazard hash q t r' c now docs)) (unknown_completion_hazard_path hash p)
      = dict_get docs (unknown_completion_hazard_path hash p)"
    by (auto simp: write_unknown_completion_hazard_def write_json_def Let_def update_conv' split: sum.splits option.splits)
  from hazard_of_cong [OF this] assms show ?thesis by simp
qed

lemma clear_keeps_hazard:
  assumes "hazard_of hash p r d docs" and "(q, r') \<noteq> (p, r)"
  shows "hazard_of hash p r d (snd (clear_unknown_completion_hazard hash q r' docs))"
proof (cases "unknown_completion_hazard_path hash q = unknown_completion_hazard_path hash p")
  case True
  have "snd (clear_unknown_completion_hazard hash q r' docs) = docs"
  proof (cases "q = p")
    case True
    with assms show ?thesis
      by (auto simp: clear_unknown_completion_hazard_def hazard_of_def)
  next
    case False
    with other_project_refused [OF assms(1) False True] show ?thesis
      by (auto simp: clear_unknown_completion_hazard_def)
  qed
  with assms show ?thesis by simp
next
  case False
  then have "dict_get (snd (clear_unknown_completion_hazard hash q r' docs)) (unknown_completion_hazard_path hash p)
      = dict_get docs (unknown_completion_hazard_path hash p)"
    by (auto simp: clear_unknown_completion_hazard_def delete_conv' split: sum.splits option.splits)
  from hazard_of_cong [OF this] assms show ?thesis by simp
qed

lemma baseline_keeps_hazard:
  "hazard_of hash p r d docs \<Longrightarrow> hazard_of hash p r d (write_baseline t q l m docs)"
  by (subst hazard_of_cong [of _ _ _ docs])
    (simp_all add: write_baseline_def write_json_def baseline_dir_def unknown_completion_hazard_path_def update_conv')

section \<open>What retention leaves alone\<close>

lemma put_or_pop_other: "k' \<noteq> k \<Longrightarrow> dict_get (put_or_pop k v d) k' = dict_get d k'"
  by (auto simp: put_or_pop_def update_conv' delete_conv' split: option.splits)

text \<open>What a pass may change: runs, or backups, that are not exempt.\<close>

definition runs_kept :: "string list \<Rightarrow> journal \<Rightarrow> journal \<Rightarrow> bool" where
  "runs_kept exempt jo jo' \<longleftrightarrow> jo_docs jo' = jo_docs jo \<and> jo_conflicts jo' = jo_conflicts jo
     \<and> (\<forall>r \<in> set exempt. dict_get (jo_runs jo') r = dict_get (jo_runs jo) r)"

definition backups_kept :: "string list \<Rightarrow> journal \<Rightarrow> journal \<Rightarrow> bool" where
  "backups_kept exempt jo jo' \<longleftrightarrow> jo_docs jo' = jo_docs jo \<and> jo_runs jo' = jo_runs jo
     \<and> (\<forall>r \<in> set exempt. dict_get (jo_conflicts jo') r = dict_get (jo_conflicts jo) r)"

lemma runs_kept_trans: "runs_kept x a b \<Longrightarrow> runs_kept x b c \<Longrightarrow> runs_kept x a c"
  by (simp add: runs_kept_def)

lemma backups_kept_trans: "backups_kept x a b \<Longrightarrow> backups_kept x b c \<Longrightarrow> backups_kept x a c"
  by (simp add: backups_kept_def)

lemma kept_refl [simp]: "runs_kept x a a" "backups_kept x a a"
  by (simp_all add: runs_kept_def backups_kept_def)

lemma delete_run_kept: "name \<notin> set exempt \<Longrightarrow> runs_kept exempt (snd s) (snd (delete_run env a name d s))"
  by (cases s) (auto simp: delete_run_def runs_kept_def intro!: put_or_pop_other)

lemma trim_run_kept: "name \<notin> set exempt \<Longrightarrow> runs_kept exempt (snd s) (snd (trim_run a name d s))"
  by (cases s) (auto simp: trim_run_def runs_kept_def Let_def update_conv')

lemma prune_runs_kept: "runs_kept exempt (snd s) (snd (prune_runs env a exempt protected ds s))"
proof (induction ds arbitrary: s)
  case (Cons x ds)
  obtain name d where x: "x = (name, d)" by (cases x)
  show ?case
  proof (cases "name \<in> set exempt")
    case True
    with Cons x show ?thesis by simp
  next
    case False
    note step = runs_kept_trans [OF delete_run_kept [OF False] Cons.IH] runs_kept_trans [OF trim_run_kept [OF False] Cons.IH]
    from False x Cons.IH show ?thesis by (auto simp: step split: sum.split run_verdict.split)
  qed
qed simp

lemma delete_backup_kept: "name \<notin> set exempt \<Longrightarrow> backups_kept exempt (snd s) (snd (delete_backup env a name n note s))"
  by (cases s) (auto simp: delete_backup_def backups_kept_def intro!: put_or_pop_other)

lemma delete_backups_kept:
  "set (dict_keys ds) \<inter> set exempt = {} \<Longrightarrow>
     backups_kept exempt (snd s) (snd (foldl (\<lambda>s (name, n). delete_backup env a name n note s) s ds))"
proof (induction ds arbitrary: s)
  case (Cons x ds)
  then have "fst x \<notin> set exempt" by auto
  from backups_kept_trans [OF delete_backup_kept [OF this] Cons.IH] Cons.prems show ?case
    by (auto simp: case_prod_unfold)
qed simp

lemma prune_over_budget_kept:
  "set (dict_keys ds) \<inter> set exempt = {} \<Longrightarrow>
     backups_kept exempt (snd s) (snd (prune_over_budget env a budget b ds s))"
proof (induction ds arbitrary: b s)
  case (Cons x ds)
  then have "fst x \<notin> set exempt" by auto
  from backups_kept_trans [OF delete_backup_kept [OF this] Cons.IH] Cons.prems show ?case
    by (cases x) auto
qed simp

lemma prune_conflicts_kept: "backups_kept exempt (snd s) (snd (prune_conflicts env a exempt s))"
proof -
  have 1: "backups_kept exempt (snd s) (snd (prune_expired env a exempt s))"
    unfolding prune_expired_def by (rule delete_backups_kept) (auto simp: expired_backup_def)
  show ?thesis
    unfolding prune_conflicts_def Let_def
    by (auto intro!: 1 backups_kept_trans [OF 1 prune_over_budget_kept])
qed

text \<open>A hazard that is well stored pins its run.\<close>

lemma hazard_run_ids_mem:
  "hazard_run_ids hash pfs = Inr is \<Longrightarrow> pf \<in> set pfs \<Longrightarrow> \<exists>i \<in> set is. hazard_run_id hash pf = Inr i"
  by (induction pfs arbitrary: "is") (auto split: sum.splits)

lemma hazard_pins_run:
  assumes "hazard_of hash p r d docs" and "active_unknown_completion_run_ids hash docs = Inr active"
  shows "r \<in> set active"
proof -
  let ?path = "unknown_completion_hazard_path hash p"
  have "(?path, Doc (JObj d)) \<in> set docs" by (rule map_of_SomeD) (rule hazard_of_doc(1) [OF assms(1)])
  moreover have "hazard_file ?path" by (simp add: hazard_file_def unknown_completion_hazard_path_def)
  ultimately have mem: "(?path, Doc (JObj d)) \<in> set (sort_key fst (filter (\<lambda>(p, _). hazard_file p) docs))" by simp
  have "hazard_run_id hash (?path, Doc (JObj d)) = Inr r"
    using hazard_of_doc(2,3) [OF assms(1)] assms(1) by (simp add: hazard_run_id_def json_str_def hazard_of_def)
  with hazard_run_ids_mem [OF assms(2) [unfolded active_unknown_completion_run_ids_def] mem] show ?thesis by simp
qed

lemma prune_state_kept:
  assumes "active_unknown_completion_run_ids (pe_hash env) (jo_docs jo) = Inr active"
  shows "\<exists>mid. runs_kept (pg_exempt a @ active) jo mid \<and> backups_kept (pg_exempt a @ active) mid (snd (prune_state env a jo))"
proof -
  let ?exempt = "pg_exempt a @ active"
  obtain v jo1 where p: "prune_journal env a ?exempt jo = (v, jo1)" by fastforce
  have "runs_kept ?exempt jo jo1"
    using prune_runs_kept [of ?exempt "(empty_report, jo)" env a] p by (simp add: prune_journal_def Let_def) (metis snd_conv)
  moreover have "backups_kept ?exempt jo1 (snd (prune_state env a jo))"
    using p assms prune_conflicts_kept [of ?exempt "(_, jo1)" env a]
    by (cases v) (simp_all add: prune_state_def case_prod_unfold Let_def)
  ultimately show ?thesis by blast
qed

lemma prune_keeps_hazard:
  assumes "hazard_of hash p r d (jo_docs jo)" and jo': "jo' = snd (prune_state (env\<lparr>pe_hash := hash\<rparr>) a jo)"
  shows "hazard_of hash p r d (jo_docs jo') \<and> dict_get (jo_runs jo') r = dict_get (jo_runs jo) r
         \<and> dict_get (jo_conflicts jo') r = dict_get (jo_conflicts jo) r"
proof (cases "active_unknown_completion_run_ids hash (jo_docs jo)")
  case (Inl e)
  with assms show ?thesis by (simp add: prune_state_def)
next
  case (Inr active)
  from hazard_pins_run [OF assms(1) Inr] have r: "r \<in> set (pg_exempt a @ active)" by simp
  from Inr have "active_unknown_completion_run_ids (pe_hash (env\<lparr>pe_hash := hash\<rparr>)) (jo_docs jo) = Inr active" by simp
  from prune_state_kept [OF this, of a] r show ?thesis
    using assms(1) unfolding jo' runs_kept_def backups_kept_def by metis
qed

section \<open>Histories\<close>

text \<open>A hazard with its document, the run directory it pins and the backups of the run.\<close>

definition evidence ::
  "(string \<Rightarrow> string) \<Rightarrow> string \<Rightarrow> string \<Rightarrow> (string, json) dict \<Rightarrow> run_dir option \<Rightarrow> int option \<Rightarrow> journal \<Rightarrow> bool" where
  "evidence hash p r d dir backup jo \<longleftrightarrow>
     hazard_of hash p r d (jo_docs jo) \<and> dict_get (jo_runs jo) r = dir \<and> dict_get (jo_conflicts jo) r = backup"

lemma evidence_step:
  assumes "evidence hash p r d dir backup jo" and "state_step hash p r jo jo'"
  shows "evidence hash p r d dir backup jo'"
proof -
  from assms(1) have h: "hazard_of hash p r d (jo_docs jo)" by (simp add: evidence_def)
  from assms(2) obtain op where op: "op \<noteq> ClearHazard p r" "jo' = run_state_op hash op jo"
    by (auto simp: state_step_def)
  show ?thesis
  proof (cases op)
    case (PruneState env a)
    with op(2) prune_keeps_hazard [OF h, of jo' env a] assms(1) show ?thesis by (simp add: evidence_def)
  qed (use op assms(1) write_keeps_hazard [OF h] clear_keeps_hazard [OF h] baseline_keeps_hazard [OF h]
       in \<open>auto simp: evidence_def\<close>)
qed

interpretation hm: invariant_machine "state_step hash p r" "evidence hash p r d dir backup" for hash p r d dir backup
  by unfold_locales (rule evidence_step)

text \<open>
  C10: The hazard of an unknown completion stands until it is cleared for the run that it names:
  no other operation, in any order, changes the document, and none deletes or trims the
  directory of that run or its backups, which an operator needs to resolve it.
\<close>

theorem unknown_completion_pinned:
  assumes "read_unknown_completion_hazard hash p (jo_docs jo) = Inr (Some d)" and "dict_get d ''run_id'' = Some (JStr r)"
    and "(state_step hash p r)\<^sup>*\<^sup>* jo jo'"
  shows "read_unknown_completion_hazard hash p (jo_docs jo') = Inr (Some d)
         \<and> dict_get (jo_runs jo') r = dict_get (jo_runs jo) r \<and> dict_get (jo_conflicts jo') r = dict_get (jo_conflicts jo) r"
proof -
  from assms(1,2) have "evidence hash p r d (dict_get (jo_runs jo) r) (dict_get (jo_conflicts jo) r) jo"
    by (simp add: evidence_def hazard_of_def)
  from hm.steps_inv [OF assms(3) this] show ?thesis by (simp add: evidence_def hazard_of_def)
qed

definition demo_policy :: retention_policy where
  "demo_policy = \<lparr>rp_full_log_days = 3, rp_failed_log_days = 7, rp_summary_days = 7, rp_backup_days = 3, rp_max_backup_bytes = 10\<rparr>"

definition demo_prune_env :: prune_env where
  "demo_prune_env = \<lparr>pe_now = 8640000, pe_stamp = (\<lambda>n. if n = ''young'' then Some 8640000 else Some 0), pe_hash = (\<lambda>s. s),
     pe_rmtree_run = (\<lambda>_ _. None), pe_rmtree_backup = (\<lambda>_ _. None)\<rparr>"

definition demo_prune_args :: prune_args where
  "demo_prune_args = \<lparr>pg_policy = demo_policy, pg_dry_run = False, pg_older_than_days = None, pg_keep = None, pg_exempt = []\<rparr>"

definition demo_run :: run_dir where
  "demo_run = \<lparr>rd_summary = None, rd_files = [(''stdout.log'', 5)], rd_nested = 0\<rparr>"

definition demo_journal :: journal where
  "demo_journal = \<lparr>jo_docs = snd (write_unknown_completion_hazard (\<lambda>s. s) ''app'' ''box'' ''r1'' None ''t0'' []),
     jo_runs = [(''r1'', demo_run), (''r2'', demo_run)], jo_conflicts = [(''r1'', 7), (''r2'', 8), (''young'', 20)]\<rparr>"

theorem unknown_completion_pinned_witness:
  "dict_get (jo_runs (run_state_op (\<lambda>s. s) (PruneState demo_prune_env demo_prune_args) demo_journal)) ''r1'' = Some demo_run
   \<and> dict_get (jo_runs (run_state_op (\<lambda>s. s) (PruneState demo_prune_env demo_prune_args) demo_journal)) ''r2'' = None"
proof -
  let ?jo = "run_state_op (\<lambda>s. s) (PruneState demo_prune_env demo_prune_args) demo_journal"
  have "(case read_unknown_completion_hazard (\<lambda>s. s) ''app'' (jo_docs demo_journal) of
      Inr (Some d) \<Rightarrow> dict_get d ''run_id'' = Some (JStr ''r1'') | _ \<Rightarrow> False)" by code_simp
  then obtain d where d: "read_unknown_completion_hazard (\<lambda>s. s) ''app'' (jo_docs demo_journal) = Inr (Some d)"
      "dict_get d ''run_id'' = Some (JStr ''r1'')" by (auto split: sum.splits option.splits)
  have "state_step (\<lambda>s. s) ''app'' ''r1'' demo_journal ?jo" unfolding state_step_def by blast
  from unknown_completion_pinned [OF d r_into_rtranclp, OF this]
  have "dict_get (jo_runs ?jo) ''r1'' = dict_get (jo_runs demo_journal) ''r1''" by blast
  moreover have "dict_get (jo_runs demo_journal) ''r1'' = Some demo_run" by (simp add: demo_journal_def)
  moreover have "dict_get (jo_runs ?jo) ''r2'' = None" by code_simp
  ultimately show ?thesis by simp
qed

lemma sorted_hazard_record:
  "sort_keys (JObj (hazard_record p t r c)) =
     JObj [(''completion_state'', JStr ''unknown''), (''created_at'', JStr c), (''project_id'', JStr p), (''run_id'', JStr r),
           (''target'', JStr t), (''version'', JInt 1)]"
  by (simp add: hazard_record_def)

lemma validate_hazard_record:
  assumes "p \<noteq> []" "t \<noteq> []" "r \<noteq> []" "c \<noteq> []"
  shows "validate_unknown_completion_hazard (sort_keys (JObj (hazard_record p t r c))) p =
     Inr [(''completion_state'', JStr ''unknown''), (''created_at'', JStr c), (''project_id'', JStr p), (''run_id'', JStr r),
           (''target'', JStr t), (''version'', JInt 1)]"
  using assms unfolding sorted_hazard_record
  by (simp add: validate_unknown_completion_hazard_def nonempty_string_def)

text \<open>
  Recording an unknown completion is first-come and closed: once a hazard has been recorded
  for a run on a target, it is read back, recording it again for the same run and target
  succeeds, and recording another run or another target for the project is refused; neither
  changes a document.
\<close>

theorem hazard_recorded_once:
  assumes "write_unknown_completion_hazard hash p t r c now docs = (Inr d, docs')" and "r' \<noteq> []" and "t' \<noteq> []" and "c' \<noteq> Some []" and "now \<noteq> []"
  shows "\<exists>d'. read_unknown_completion_hazard hash p docs' = Inr (Some d')
           \<and> dict_get d' ''run_id'' = Some (JStr r) \<and> dict_get d' ''target'' = Some (JStr t)
           \<and> write_unknown_completion_hazard hash p t' r' c' now' docs' =
               (if r' = r \<and> t' = t then Inr d' else Inl (HazardError ''project already has an unknown-completion hazard''), docs')"
proof -
  from assms(1) have ne: "p \<noteq> []" "t \<noteq> []" "r \<noteq> []" "c \<noteq> Some []"
    by (auto simp: write_unknown_completion_hazard_def split: if_splits)
  have "\<exists>d'. read_unknown_completion_hazard hash p docs' = Inr (Some d')
           \<and> dict_get d' ''run_id'' = Some (JStr r) \<and> dict_get d' ''target'' = Some (JStr t)"
  proof (cases "read_unknown_completion_hazard hash p docs")
    case (Inr v)
    show ?thesis
    proof (cases v)
      case None
      with assms(1) ne Inr have docs': "docs' = write_json (unknown_completion_hazard_path hash p)
          (JObj (hazard_record p t r (case c of None \<Rightarrow> now | Some x \<Rightarrow> x))) docs"
        by (auto simp add: write_unknown_completion_hazard_def Let_def)
      have "(case c of None \<Rightarrow> now | Some x \<Rightarrow> x) \<noteq> []" using ne(4) assms(5) by (auto split: option.split)
      from validate_hazard_record [OF ne(1-3) this] show ?thesis
        unfolding docs' read_unknown_completion_hazard_def write_json_def by (simp add: update_conv' sorted_hazard_record)
    next
      case (Some cur)
      with assms(1) ne Inr show ?thesis
        by (auto simp: write_unknown_completion_hazard_def split: if_splits)
    qed
  qed (use assms(1) ne in \<open>auto simp: write_unknown_completion_hazard_def\<close>)
  then show ?thesis using ne(1) assms(2-4)
    by (auto simp: write_unknown_completion_hazard_def)
qed

theorem hazard_recorded_once_witness:
  "fst (write_unknown_completion_hazard (\<lambda>s. s) ''app'' ''box'' ''r2'' None ''t1'' (jo_docs demo_journal))
   = Inl (HazardError ''project already has an unknown-completion hazard'')"
proof -
  have "(case write_unknown_completion_hazard (\<lambda>s. s) ''app'' ''box'' ''r1'' None ''t0'' [] of (Inr d, _) \<Rightarrow> True | _ \<Rightarrow> False)"
    by code_simp
  then obtain d docs' where w: "write_unknown_completion_hazard (\<lambda>s. s) ''app'' ''box'' ''r1'' None ''t0'' [] = (Inr d, docs')"
    by (auto split: prod.splits sum.splits)
  have "jo_docs demo_journal = docs'" by (simp add: demo_journal_def w)
  with hazard_recorded_once [OF w, of "''r2''" "''box''" None "''t1''"] show ?thesis by auto
qed

section \<open>The budget of the backup area\<close>

definition unexempt :: "string list \<Rightarrow> (string, int) dict \<Rightarrow> (string, int) dict" where
  "unexempt exempt d = filter (\<lambda>(name, _). name \<notin> set exempt) d"

lemma delete_backup_conflicts:
  assumes "\<not> pg_dry_run a" and "pe_rmtree_backup env = (\<lambda>_ _. None)"
  shows "jo_conflicts (snd (delete_backup env a name n note s)) = dict_pop name (jo_conflicts (snd s))"
  using assms by (cases s) (simp add: delete_backup_def put_or_pop_def)

lemma dict_pop_filter: "dict_pop k d = filter (\<lambda>(x, _). x \<noteq> k) d"
  by (induction d) auto

lemma delete_backups_conflicts:
  assumes "\<not> pg_dry_run a" and "pe_rmtree_backup env = (\<lambda>_ _. None)"
  shows "jo_conflicts (snd (foldl (\<lambda>s (name, n). delete_backup env a name n note s) s ds))
         = filter (\<lambda>(x, _). x \<notin> set (dict_keys ds)) (jo_conflicts (snd s))"
proof (induction ds arbitrary: s)
  case (Cons x ds)
  have "jo_conflicts (snd (delete_backup env a (fst x) (snd x) note s)) = dict_pop (fst x) (jo_conflicts (snd s))"
    by (rule delete_backup_conflicts [OF assms])
  with Cons.IH show ?case by (simp add: case_prod_unfold dict_pop_filter conj_commute)
qed simp

lemma dict_restrict_sum:
  fixes d :: "('k, int) dict"
  assumes "dict_ok d" and "dict_ok r" and "set r \<subseteq> set d"
  shows "sum_list (map snd (filter (\<lambda>(x, _). x \<in> set (dict_keys r)) d)) = sum_list (map snd r)"
proof -
  have "(x, v) \<in> set r" if "(x, v) \<in> set d" "(x, w) \<in> set r" for x v w
    using that assms by (metis (no_types) eq_key_imp_eq_value subsetD)
  then have "set (filter (\<lambda>(x, _). x \<in> set (dict_keys r)) d) = set r" using assms(3) by force
  moreover have "distinct (filter (\<lambda>(x, _). x \<in> set (dict_keys r)) d)" "distinct r"
    using assms by (auto simp: distinct_map)
  ultimately show ?thesis by (metis sum_list_distinct_conv_sum_set)
qed

text \<open>The oldest directories go until the rest fits.\<close>

lemma prune_over_budget_fits:
  assumes "\<not> pg_dry_run a" and "pe_rmtree_backup env = (\<lambda>_ _. None)" and "0 < budget"
    and "b = sum_list (map snd ds)" and "dict_ok ds"
  shows "\<exists>rest. suffix rest ds \<and> sum_list (map snd rest) \<le> budget
           \<and> jo_conflicts (snd (prune_over_budget env a budget b ds s))
             = filter (\<lambda>(x, _). x \<notin> set (dict_keys ds) \<or> x \<in> set (dict_keys rest)) (jo_conflicts (snd s))"
  using assms(4,5)
proof (induction ds arbitrary: b s)
  case Nil
  with assms(3) show ?case by (auto simp: case_prod_unfold intro!: exI [of _ "[]"])
next
  case (Cons x ds)
  show ?case
  proof (cases "b \<le> budget")
    case True
    with Cons.prems show ?thesis
      by (intro exI [of _ "x # ds"]) (cases x, auto simp: case_prod_unfold intro!: filter_True [symmetric])
  next
    case False
    let ?s = "delete_backup env a (fst x) (snd x) '' (over backup budget)'' s"
    from Cons.IH [of "b - snd x" ?s] Cons.prems obtain rest where rest: "suffix rest ds" "sum_list (map snd rest) \<le> budget"
        "jo_conflicts (snd (prune_over_budget env a budget (b - snd x) ds ?s))
         = filter (\<lambda>(x, _). x \<notin> set (dict_keys ds) \<or> x \<in> set (dict_keys rest)) (jo_conflicts (snd ?s))" by auto
    have "fst x \<notin> set (dict_keys rest)" using Cons.prems(2) rest(1) by (auto dest!: set_mono_suffix)
    then have "jo_conflicts (snd (prune_over_budget env a budget b (x # ds) s))
         = filter (\<lambda>(y, _). y \<notin> set (dict_keys (x # ds)) \<or> y \<in> set (dict_keys rest)) (jo_conflicts (snd s))"
      using False rest(3) unfolding delete_backup_conflicts [OF assms(1,2)] dict_pop_filter
      by (cases x) (auto intro!: filter_cong)
    with rest(1,2) show ?thesis by (intro exI [of _ rest]) (simp add: suffix_Cons)
  qed
qed

lemma prune_conflicts_fits:
  assumes "\<not> pg_dry_run a" and "pg_older_than_days a = None" and "0 < rp_max_backup_bytes (pg_policy a)"
    and "pe_rmtree_backup env = (\<lambda>_ _. None)" and "dict_ok (jo_conflicts jo)"
    and jo': "jo' = snd (prune_conflicts env a exempt (rep, jo))"
  shows "sum_list (map snd (unexempt exempt (jo_conflicts jo'))) \<le> rp_max_backup_bytes (pg_policy a)"
proof -
  let ?budget = "rp_max_backup_bytes (pg_policy a)"
  define s1 where "s1 = prune_expired env a exempt (rep, jo)"
  define remaining where "remaining = filter (\<lambda>(name, _).
      name \<notin> set (filter (expired_backup env a exempt) (dict_keys (jo_conflicts jo))) \<and> name \<notin> set exempt) (sort_key fst (jo_conflicts (snd s1)))"
  have c1: "jo_conflicts (snd s1) = filter (\<lambda>(x, _). \<not> expired_backup env a exempt x) (jo_conflicts jo)"
    unfolding s1_def prune_expired_def delete_backups_conflicts [OF assms(1,4)]
    by (auto simp: case_prod_unfold image_iff intro!: filter_cong)
  have ok: "dict_ok (jo_conflicts (snd s1))" unfolding c1 by (rule dict_ok_filter) (rule assms(5))
  then have "dict_ok remaining" unfolding remaining_def by (intro dict_ok_filter) (simp add: distinct_map)
  from prune_over_budget_fits [OF assms(1,4,3) refl this, of s1]
  obtain rest where rest: "suffix rest remaining" "sum_list (map snd rest) \<le> ?budget"
      "jo_conflicts (snd (prune_over_budget env a ?budget (sum_list (map snd remaining)) remaining s1))
       = filter (\<lambda>(x, _). x \<notin> set (dict_keys remaining) \<or> x \<in> set (dict_keys rest)) (jo_conflicts (snd s1))" by blast
  have "jo' = snd (prune_over_budget env a ?budget (sum_list (map snd remaining)) remaining s1)"
    using assms(2,3) unfolding jo' prune_conflicts_def Let_def s1_def remaining_def by simp
  with rest(3) have final: "jo_conflicts jo'
      = filter (\<lambda>(x, _). x \<notin> set (dict_keys remaining) \<or> x \<in> set (dict_keys rest)) (jo_conflicts (snd s1))" by simp
  have "x \<in> set (dict_keys remaining) \<longleftrightarrow> x \<notin> set exempt" if "(x, n) \<in> set (jo_conflicts (snd s1))" for x n
    using that by (auto simp: remaining_def c1 image_iff)
  moreover have "x \<in> set (dict_keys remaining)" if "x \<in> set (dict_keys rest)" for x
    using that set_mono_suffix [OF map_mono_suffix [OF rest(1), of fst]] by blast
  ultimately have "unexempt exempt (jo_conflicts jo') = filter (\<lambda>(x, _). x \<in> set (dict_keys rest)) (jo_conflicts (snd s1))"
    unfolding unexempt_def final filter_filter by (intro filter_cong refl) blast
  moreover have "set rest \<subseteq> set (jo_conflicts (snd s1))" using set_mono_suffix [OF rest(1)] by (auto simp: remaining_def)
  moreover have "dict_ok rest" by (rule distinct_suffix [OF \<open>dict_ok remaining\<close> map_mono_suffix [OF rest(1)]])
  ultimately show ?thesis
    using rest(2) dict_restrict_sum [OF ok] by simp
qed

text \<open>
  C37: The backup area is bounded: when a retention pass by policy returns and directories can be
  removed, the directories of conflicts and backups that no run in flight and no hazard
  protects fit the byte budget together, and the protected ones are untouched.
\<close>

theorem prune_enforces_budget:
  assumes "prune_state env a jo = (Inr rep, jo')" and "\<not> pg_dry_run a" and "pg_keep a = None" and "pg_older_than_days a = None"
    and "0 < rp_max_backup_bytes (pg_policy a)" and "pe_rmtree_backup env = (\<lambda>_ _. None)" and "dict_ok (jo_conflicts jo)"
    and "active_unknown_completion_run_ids (pe_hash env) (jo_docs jo) = Inr active"
  shows "sum_list (map snd (unexempt (pg_exempt a @ active) (jo_conflicts jo'))) \<le> rp_max_backup_bytes (pg_policy a)
         \<and> (\<forall>r. r \<in> set (pg_exempt a @ active) \<longrightarrow> dict_get (jo_conflicts jo') r = dict_get (jo_conflicts jo) r)"
proof
  let ?exempt = "pg_exempt a @ active"
  obtain v jo1 where p: "prune_journal env a ?exempt jo = (v, jo1)" by fastforce
  with assms(1,3,8) obtain rep1 where v: "v = Inr rep1" and jo': "jo' = snd (prune_conflicts env a ?exempt (rep1, jo1))"
    by (cases v) (auto simp: prune_state_def case_prod_unfold Let_def)
  have same: "jo_conflicts jo1 = jo_conflicts jo"
    using prune_runs_kept [of ?exempt "(empty_report, jo)" env a] p
    by (simp add: prune_journal_def Let_def runs_kept_def) (metis snd_conv)
  show "sum_list (map snd (unexempt ?exempt (jo_conflicts jo'))) \<le> rp_max_backup_bytes (pg_policy a)"
    by (rule prune_conflicts_fits [OF assms(2,4,5,6) _ jo']) (simp add: same assms(7))
  show "\<forall>r. r \<in> set ?exempt \<longrightarrow> dict_get (jo_conflicts jo') r = dict_get (jo_conflicts jo) r"
    using prune_conflicts_kept [of ?exempt "(rep1, jo1)" env a] by (simp add: backups_kept_def jo' same)
qed

theorem prune_enforces_budget_witness:
  "\<exists>rep jo'. prune_state demo_prune_env demo_prune_args demo_journal = (Inr rep, jo')
     \<and> dict_get (jo_conflicts jo') ''r1'' = Some 7 \<and> sum_list (map snd (unexempt [''r1''] (jo_conflicts jo'))) \<le> 10"
proof -
  have "(case prune_state demo_prune_env demo_prune_args demo_journal of (Inr rep, jo') \<Rightarrow> True | _ \<Rightarrow> False)" by code_simp
  then obtain rep jo' where p: "prune_state demo_prune_env demo_prune_args demo_journal = (Inr rep, jo')"
    by (auto split: prod.splits sum.splits)
  have "active_unknown_completion_run_ids (pe_hash demo_prune_env) (jo_docs demo_journal) = Inr [''r1'']" by code_simp
  moreover have "dict_get (jo_conflicts demo_journal) ''r1'' = Some 7" by (simp add: demo_journal_def)
  ultimately show ?thesis
    using prune_enforces_budget [OF p, of "[''r1'']"] p
    by (auto simp: demo_prune_args_def demo_prune_env_def demo_policy_def demo_journal_def)
qed

text \<open>
  One summary that cannot be read stops the retention of everything: while a run that nothing
  exempts has an unreadable \<open>summary.json\<close>, every pass raises before it reaches the backup
  area, whatever its size.
\<close>

theorem unreadable_summary_stops_retention:
  assumes "dict_get (jo_runs jo) name = Some d" and "rd_summary d = Some Unreadable" and "name \<notin> set (pg_exempt a)"
    and "active_unknown_completion_run_ids (pe_hash env) (jo_docs jo) = Inr active" and "name \<notin> set active"
  shows "\<exists>e. fst (prune_state env a jo) = Inl e \<and> jo_conflicts (snd (prune_state env a jo)) = jo_conflicts jo"
proof -
  let ?exempt = "pg_exempt a @ active"
  have raises: "\<exists>e. fst (prune_runs env a ?exempt protected ds s) = Inl e" if "(name, d) \<in> set ds" for protected ds s
    using that
  proof (induction ds arbitrary: s)
    case (Cons x ds)
    show ?case
    proof (cases "x = (name, d)")
      case True
      with assms(2,3,5) show ?thesis by (simp add: read_summary_def)
    next
      case False
      with Cons.prems have "\<exists>e. fst (prune_runs env a ?exempt protected ds s') = Inl e" for s' by (intro Cons.IH) simp
      then show ?thesis by (cases x) (simp split: sum.split)
    qed
  qed simp
  have "(name, d) \<in> set (jo_runs jo)" by (rule map_of_SomeD [OF assms(1)])
  then obtain e where "fst (prune_journal env a ?exempt jo) = Inl e"
    using raises unfolding prune_journal_def Let_def by fastforce
  moreover have "jo_conflicts (snd (prune_journal env a ?exempt jo)) = jo_conflicts jo"
    using prune_runs_kept [of ?exempt "(empty_report, jo)" env a] by (simp add: prune_journal_def Let_def runs_kept_def)
  ultimately show ?thesis using assms(4) by (simp add: prune_state_def case_prod_unfold Let_def)
qed

theorem unreadable_summary_stops_retention_witness:
  "\<exists>e. fst (prune_state demo_prune_env demo_prune_args
          (demo_journal\<lparr>jo_runs := [(''r3'', demo_run\<lparr>rd_summary := Some Unreadable\<rparr>)], jo_conflicts := [(''r0'', 99)]\<rparr>)) = Inl e"
proof -
  let ?jo = "demo_journal\<lparr>jo_runs := [(''r3'', demo_run\<lparr>rd_summary := Some Unreadable\<rparr>)], jo_conflicts := [(''r0'', 99)]\<rparr>"
  have "active_unknown_completion_run_ids (pe_hash demo_prune_env) (jo_docs ?jo) = Inr [''r1'']" by code_simp
  from unreadable_summary_stops_retention [OF _ _ _ this, of "''r3''" "demo_run\<lparr>rd_summary := Some Unreadable\<rparr>" demo_prune_args]
  show ?thesis by (auto simp: demo_prune_args_def)
qed

section \<open>The cap on logs\<close>

lemma starts_with_append: "starts_with Ps s \<Longrightarrow> starts_with Ps (take (length Ps) s @ t)"
  by (induction Ps s rule: starts_with.induct) auto

lemma starts_with_length: "starts_with Ps s \<Longrightarrow> length Ps \<le> length s"
  by (induction Ps s rule: starts_with.induct) auto

lemma utf8_len_append: "0 < utf8_len s \<Longrightarrow> utf8_len (take (utf8_len s) s @ t) = utf8_len s"
  by (cases s) (auto split: option.splits if_splits simp: starts_with_append)

lemma utf8_len_le: "utf8_len s \<le> length s"
  by (cases s) (auto split: option.splits simp: starts_with_length)

lemma utf8_ignore_prefix:
  assumes "0 < utf8_len s"
  shows "utf8_ignore (take (utf8_len s) s @ t) = take (utf8_len s) s @ utf8_ignore t"
proof -
  let ?n = "utf8_len s" and ?u = "take (utf8_len s) s @ t"
  from assms utf8_len_le [of s] obtain c u where "?u = c # u" by (cases ?u) auto
  moreover have "utf8_len ?u = ?n" by (rule utf8_len_append [OF assms])
  ultimately have "utf8_ignore ?u = take ?n ?u @ utf8_ignore (drop ?n ?u)" using assms by (simp add: Let_def)
  then show ?thesis using utf8_len_le [of s] by simp
qed

lemma utf8_ignore_step:
  "utf8_ignore (c # s) = (if utf8_len (c # s) = 0 then utf8_ignore s
     else take (utf8_len (c # s)) (c # s) @ utf8_ignore (drop (utf8_len (c # s)) (c # s)))"
  by (simp add: Let_def del: utf8_len.simps)

lemma utf8_ignore_length: "length (utf8_ignore s) \<le> length s"
proof (induction s rule: utf8_ignore.induct)
  case (2 c s)
  from utf8_len_le [of "c # s"] 2 [OF refl] show ?case
    unfolding utf8_ignore_step by (auto simp del: utf8_len.simps)
qed simp

definition utf8_ok :: "string \<Rightarrow> bool" where
  "utf8_ok s \<longleftrightarrow> utf8_ignore s = s"

lemma utf8_ok_ignore: "utf8_ok (utf8_ignore s)"
proof (induction s rule: utf8_ignore.induct)
  case (2 c s)
  then show ?case
    unfolding utf8_ignore_step utf8_ok_def by (auto simp: utf8_ignore_prefix simp del: utf8_len.simps utf8_ignore.simps)
qed (simp add: utf8_ok_def)

lemma utf8_ok_append: "utf8_ok a \<Longrightarrow> utf8_ok b \<Longrightarrow> utf8_ok (a @ b)"
proof (induction a rule: utf8_ignore.induct)
  case (2 c s)
  let ?n = "utf8_len (c # s)"
  from 2(3) have eq: "utf8_ignore (c # s) = c # s" by (simp add: utf8_ok_def)
  have n: "0 < ?n"
  proof (rule ccontr)
    assume "\<not> 0 < ?n"
    with eq have "utf8_ignore s = c # s" by (simp add: utf8_ignore_step del: utf8_len.simps)
    with utf8_ignore_length [of s] show False by simp
  qed
  with eq have "take ?n (c # s) @ utf8_ignore (drop ?n (c # s)) = take ?n (c # s) @ drop ?n (c # s)"
    unfolding utf8_ignore_step append_take_drop_id by (simp del: utf8_len.simps)
  then have "utf8_ok (drop ?n (c # s))" unfolding utf8_ok_def by (rule same_append_eq [THEN iffD1])
  with 2(2) [OF refl] n 2(4) have "utf8_ok (drop ?n (c # s) @ b)" by simp
  then have "utf8_ok (take ?n (c # s) @ drop ?n (c # s) @ b)"
    using utf8_ignore_prefix [OF n, of "drop ?n (c # s) @ b"] by (simp add: utf8_ok_def del: utf8_len.simps)
  then show ?case unfolding append_assoc [symmetric] append_take_drop_id .
qed simp

lemma utf8_ok_ascii: "list_all (in_range 0 0x7F) s \<Longrightarrow> utf8_ok s"
proof (induction s)
  case (Cons c s)
  then have "utf8_len (c # s) = 1" by (simp add: utf8_tail_def Let_def)
  with Cons show ?case by (simp add: utf8_ok_def utf8_ignore_step del: utf8_len.simps)
qed (simp add: utf8_ok_def)

lemma nat_digits_ascii: "list_all (in_range 0 0x7F) (nat_digits n)"
proof (induction n rule: nat_digits.induct)
  case (1 n)
  have "in_range 0 0x7F (char_of (48 + k))" if "k < 10" for k :: nat using that by (simp add: in_range_def)
  with 1 show ?case unfolding nat_digits.simps [of n] by simp
qed

lemma truncation_marker_ok: "utf8_ok (truncation_marker n)"
  by (rule utf8_ok_ascii) (simp add: truncation_marker_def nat_digits_ascii, simp add: in_range_def)

lemma settle_marker_ok: "utf8_ok marker \<Longrightarrow> utf8_ok (settle_marker k b max_bytes marker)"
  by (induction k arbitrary: marker) (simp_all add: Let_def truncation_marker_ok)

text \<open>
  A capped log keeps its cap: with a positive limit the result has at most that many bytes,
  and it is well-formed UTF-8 when the log is; a log within the limit is kept as it is.
\<close>

theorem cap_text_bounded:
  assumes "0 < limit"
  shows "length (cap_text text limit) \<le> nat limit
         \<and> (utf8_ok text \<longrightarrow> utf8_ok (cap_text text limit))
         \<and> (length text \<le> nat limit \<longrightarrow> cap_text text limit = text)"
proof -
  define m where "m = settle_marker 4 (length text) (nat limit) []"
  define h where "h = (nat limit - length m) div 2"
  define t where "t = nat limit - length m - h"
  have marker: "utf8_ok m" unfolding m_def by (rule settle_marker_ok) (simp add: utf8_ok_def)
  have short: "utf8_ok (take n short_marker)" for n
    by (rule utf8_ok_ascii) (auto simp: list_all_iff short_marker_def in_range_def dest!: in_set_takeD)
  consider (whole) "length text \<le> nat limit" | (tiny) "length text > nat limit" "length m > nat limit"
    | (cut) "length text > nat limit" "length m \<le> nat limit" by linarith
  then show ?thesis
  proof cases
    case whole
    with assms show ?thesis by (simp add: cap_text_def)
  next
    case tiny
    with assms have "cap_text text limit = take (nat limit) short_marker" by (simp add: cap_text_def m_def [symmetric])
    with tiny short show ?thesis by simp
  next
    case cut
    let ?tail = "if t = 0 then [] else utf8_ignore (drop (length text - t) text)"
    from cut assms have eq: "cap_text text limit = utf8_ignore (take h text) @ m @ ?tail"
      unfolding cap_text_def Let_def m_def [symmetric] h_def [symmetric] t_def [symmetric] by simp
    have "length (utf8_ignore (take h text)) \<le> h" "length ?tail \<le> t"
      using utf8_ignore_length [of "take h text"] utf8_ignore_length [of "drop (length text - t) text"] by auto
    moreover have "h + length m + t = nat limit" using cut(2) by (simp add: h_def t_def)
    ultimately have "length (cap_text text limit) \<le> nat limit" unfolding eq by simp
    moreover have "utf8_ok (cap_text text limit)"
      unfolding eq by (intro utf8_ok_append marker utf8_ok_ignore) (simp_all add: utf8_ok_ignore, simp add: utf8_ok_def)
    ultimately show ?thesis using cut(1) by simp
  qed
qed

theorem cap_text_bounded_witness: "length (cap_text (replicate 100 CHR ''x'') 80) \<le> 80"
  using cap_text_bounded [of 80 "replicate 100 CHR ''x''"] by simp

end
