(* ===== verification/ProjectLock.thy ===== *)
theory ProjectLock
  imports Prelude
begin

text \<open>
  The lock of a project (\<open>ProjectLock\<close> of \<open>src/remrun/state.py\<close>): directories below one root per
  project, taken under a guard directory.  Processes run \<open>acquire\<close> and \<open>release\<close> one file
  system call at a time, in any interleaving; any call may fail and any process may die at any
  point.
\<close>

section \<open>The lock table\<close>

datatype lock_path = WholeLock | ScopeLock string

record lock_info =
  li_project :: string
  li_target :: string
  li_scope :: string
  li_run_id :: "string option"
  li_pid :: int

text \<open>What \<open>_lock_info\<close> reads from a lock directory.\<close>

datatype metadata = MissingInfo | InvalidInfo | ValidInfo lock_info

record lock_table =
  lt_guard :: bool
  lt_locks :: "(lock_path, metadata) dict"

text \<open>The arguments of a \<open>ProjectLock\<close>.\<close>

record project_lock =
  pl_project :: string
  pl_target :: string
  pl_scope :: "string option"
  pl_run_id :: "string option"
  pl_adopt_dead_run :: bool

definition scope_name :: "project_lock \<Rightarrow> string" where
  "scope_name l = (case pl_scope l of None \<Rightarrow> ''project'' | Some s \<Rightarrow> if s = [] then ''project'' else s)"

text \<open>\<open>key\<close> is the first 16 digits of a SHA-256.\<close>

definition lock_path_of :: "(string \<Rightarrow> string) \<Rightarrow> project_lock \<Rightarrow> lock_path" where
  "lock_path_of key l = (case pl_scope l of None \<Rightarrow> WholeLock | Some _ \<Rightarrow> ScopeLock (key (scope_name l)))"

fun scope_key :: "lock_path \<Rightarrow> string" where
  "scope_key WholeLock = []"
| "scope_key (ScopeLock k) = k"

definition conflicting_scope_locks :: "lock_table \<Rightarrow> lock_path list" where
  "conflicting_scope_locks t = sort_key scope_key (filter (\<lambda>p. p \<noteq> WholeLock) (dict_keys (lt_locks t)))"

text \<open>
  \<open>_pid_is_alive\<close>: \<open>seen\<close> is what \<open>os.kill(pid, 0)\<close> tells, and a number that is not a process
  identifier counts as alive.
\<close>

definition pid_is_alive :: "(int \<Rightarrow> bool) \<Rightarrow> int \<Rightarrow> bool" where
  "pid_is_alive seen pid \<longleftrightarrow> pid \<le> 0 \<or> seen pid"

text \<open>The test of \<open>_adopt_exact_dead_run\<close>.\<close>

definition adoptable :: "(string \<Rightarrow> string) \<Rightarrow> (int \<Rightarrow> bool) \<Rightarrow> project_lock \<Rightarrow> lock_path list \<Rightarrow> lock_table \<Rightarrow> bool" where
  "adoptable key seen l conflicts t \<longleftrightarrow>
     pl_adopt_dead_run l \<and> pl_run_id l \<noteq> None \<and> pl_run_id l \<noteq> Some [] \<and> conflicts = [lock_path_of key l]
     \<and> (case dict_get (lt_locks t) (lock_path_of key l) of
          Some (ValidInfo i) \<Rightarrow> li_run_id i = pl_run_id l \<and> li_project i = pl_project l \<and> li_target i = pl_target l
            \<and> li_scope i = scope_name l \<and> \<not> pid_is_alive seen (li_pid i)
        | _ \<Rightarrow> False)"

definition lock_info_of :: "project_lock \<Rightarrow> int \<Rightarrow> lock_info" where
  "lock_info_of l pid = \<lparr>li_project = pl_project l, li_target = pl_target l, li_scope = scope_name l,
     li_run_id = pl_run_id l, li_pid = pid\<rparr>"

section \<open>One call of a process\<close>

text \<open>
  Where a process is: outside, waiting for the guard, in the guarded section of \<open>acquire\<close>
  (reading the whole-project lock, listing the scope locks, judging the conflicts, adopting a
  dead lock by removing its metadata and its directory, creating its own, writing the metadata,
  leaving the guard), holding the lock, or in \<open>release\<close>.
\<close>

datatype lock_pc = Outside | WaitGuard | ReadWhole | ReadScopes "lock_path list" | Judge "lock_path list"
  | AdoptUnlink | AdoptRmdir | MakeDir | WriteInfo | LeaveGuard bool | Holding | DropDir

text \<open>The oracle of a call: \<open>os.kill\<close>, whether the call succeeds, whether the deadline has passed.\<close>

record lock_oracle =
  lo_seen :: "int \<Rightarrow> bool"
  lo_ok :: bool
  lo_late :: bool

definition set_lock :: "lock_path \<Rightarrow> metadata \<Rightarrow> lock_table \<Rightarrow> lock_table" where
  "set_lock p m t = t\<lparr>lt_locks := dict_set p m (lt_locks t)\<rparr>"

definition drop_lock :: "lock_path \<Rightarrow> lock_table \<Rightarrow> lock_table" where
  "drop_lock p t = t\<lparr>lt_locks := dict_pop p (lt_locks t)\<rparr>"

fun lock_call ::
  "(string \<Rightarrow> string) \<Rightarrow> lock_oracle \<Rightarrow> project_lock \<Rightarrow> int \<Rightarrow> lock_pc \<Rightarrow> lock_table \<Rightarrow> lock_pc \<times> lock_table" where
  "lock_call key orc l pid Outside t = (WaitGuard, t)"
| "lock_call key orc l pid WaitGuard t =
     (if lt_guard t then (if lo_late orc then Outside else WaitGuard, t)
      else if lo_ok orc then (ReadWhole, t\<lparr>lt_guard := True\<rparr>)
      else (Outside, t))"
| "lock_call key orc l pid ReadWhole t =
     (ReadScopes (if dict_get (lt_locks t) WholeLock \<noteq> None then [WholeLock] else []), t)"
| "lock_call key orc l pid (ReadScopes conflicts) t = (Judge (conflicts @ conflicting_scope_locks t), t)"
| "lock_call key orc l pid (Judge conflicts) t =
     (if conflicts = [] then MakeDir
      else if adoptable key (lo_seen orc) l conflicts t then AdoptUnlink
      else LeaveGuard False, t)"
| "lock_call key orc l pid AdoptUnlink t =
     (if lo_ok orc then (AdoptRmdir, set_lock (lock_path_of key l) MissingInfo t) else (LeaveGuard False, t))"
| "lock_call key orc l pid AdoptRmdir t =
     (if lo_ok orc then (MakeDir, drop_lock (lock_path_of key l) t) else (LeaveGuard False, t))"
| "lock_call key orc l pid MakeDir t =
     (if dict_get (lt_locks t) (lock_path_of key l) \<noteq> None then (LeaveGuard False, t)
      else if lo_ok orc then (WriteInfo, set_lock (lock_path_of key l) MissingInfo t)
      else (LeaveGuard False, t))"
| "lock_call key orc l pid WriteInfo t =
     (if lo_ok orc then (LeaveGuard True, set_lock (lock_path_of key l) (ValidInfo (lock_info_of l pid)) t)
      else (LeaveGuard False, t))"
| "lock_call key orc l pid (LeaveGuard acquired) t =
     (if acquired then Holding else Outside, if lo_ok orc then t\<lparr>lt_guard := False\<rparr> else t)"
| "lock_call key orc l pid Holding t =
     (if lo_ok orc then (DropDir, set_lock (lock_path_of key l) MissingInfo t) else (Outside, t))"
| "lock_call key orc l pid DropDir t =
     (Outside, if lo_ok orc then drop_lock (lock_path_of key l) t else t)"

section \<open>Interleaving\<close>

record lock_world =
  lw_table :: lock_table
  lw_procs :: "(int, project_lock \<times> lock_pc) dict"

definition run_call :: "(string \<Rightarrow> string) \<Rightarrow> lock_oracle \<Rightarrow> int \<Rightarrow> lock_world \<Rightarrow> lock_world" where
  "run_call key orc pid w =
     (case dict_get (lw_procs w) pid of
        None \<Rightarrow> w
      | Some (l, pc) \<Rightarrow>
          (let (pc', t') = lock_call key orc l pid pc (lw_table w)
           in w\<lparr>lw_table := t', lw_procs := dict_set pid (l, pc') (lw_procs w)\<rparr>))"

text \<open>
  A process starts with an identifier that no live process has, or one that is outside goes on
  with another lock; a process makes a call, or dies.
  \<open>os.kill\<close> finds every process that lives.
\<close>

inductive lock_step :: "(string \<Rightarrow> string) \<Rightarrow> lock_world \<Rightarrow> lock_world \<Rightarrow> bool" for key where
  start: "(\<forall>l' pc. dict_get (lw_procs w) pid = Some (l', pc) \<longrightarrow> pc = Outside) \<Longrightarrow> 0 < pid \<Longrightarrow>
    lock_step key w (w\<lparr>lw_procs := dict_set pid (l, Outside) (lw_procs w)\<rparr>)"
| call: "\<forall>p \<in> set (dict_keys (lw_procs w)). lo_seen orc p \<Longrightarrow> lock_step key w (run_call key orc pid w)"
| die: "lock_step key w (w\<lparr>lw_procs := dict_pop pid (lw_procs w)\<rparr>)"

definition empty_locks :: lock_world where
  "empty_locks = \<lparr>lw_table = \<lparr>lt_guard = False, lt_locks = []\<rparr>, lw_procs = []\<rparr>"

definition at_pc :: "lock_world \<Rightarrow> int \<Rightarrow> project_lock \<Rightarrow> lock_pc \<Rightarrow> bool" where
  "at_pc w p l pc \<longleftrightarrow> dict_get (lw_procs w) p = Some (l, pc)"

fun guarded :: "lock_pc \<Rightarrow> bool" where
  "guarded Outside = False"
| "guarded WaitGuard = False"
| "guarded Holding = False"
| "guarded DropDir = False"
| "guarded _ = True"

text \<open>The process has created the directory of its lock and not yet given it up.\<close>

fun owning :: "lock_pc \<Rightarrow> bool" where
  "owning WriteInfo = True"
| "owning (LeaveGuard acquired) = acquired"
| "owning Holding = True"
| "owning DropDir = True"
| "owning _ = False"

end
