(* ===== verification/LockSafety.thy ===== *)
theory LockSafety
  imports ProjectLock StateMachine
begin

text \<open>
  Mutual exclusion of the project lock, in every interleaving and with processes that die, and
  what a process that dies inside the guard leaves behind.
\<close>

section \<open>The invariant\<close>

definition no_owner :: "lock_world \<Rightarrow> bool" where
  "no_owner w \<longleftrightarrow> (\<forall>p l pc. at_pc w p l pc \<longrightarrow> \<not> owning pc)"

text \<open>What a process in the guarded section knows.\<close>

fun knows :: "lock_pc \<Rightarrow> lock_world \<Rightarrow> bool" where
  "knows (ReadScopes cs) w \<longleftrightarrow> (dict_get (lt_locks (lw_table w)) WholeLock \<noteq> None \<longrightarrow> WholeLock \<in> set cs)"
| "knows (Judge cs) w \<longleftrightarrow> (\<forall>k. dict_get (lt_locks (lw_table w)) k \<noteq> None \<longrightarrow> k \<in> set cs)"
| "knows AdoptUnlink w \<longleftrightarrow> no_owner w"
| "knows AdoptRmdir w \<longleftrightarrow> no_owner w"
| "knows MakeDir w \<longleftrightarrow> no_owner w"
| "knows _ w \<longleftrightarrow> True"

definition owned_lock :: "(string \<Rightarrow> string) \<Rightarrow> lock_world \<Rightarrow> int \<Rightarrow> project_lock \<Rightarrow> bool" where
  "owned_lock key w p l \<longleftrightarrow>
     (case dict_get (lt_locks (lw_table w)) (lock_path_of key l) of
        Some MissingInfo \<Rightarrow> True
      | Some (ValidInfo i) \<Rightarrow> li_pid i = p
      | _ \<Rightarrow> False)"

definition lock_inv :: "(string \<Rightarrow> string) \<Rightarrow> lock_world \<Rightarrow> bool" where
  "lock_inv key w \<longleftrightarrow>
     (\<forall>p l pc q m qc. at_pc w p l pc \<and> guarded pc \<and> at_pc w q m qc \<and> guarded qc \<longrightarrow> p = q)
     \<and> (\<forall>p l pc. at_pc w p l pc \<and> guarded pc \<longrightarrow> lt_guard (lw_table w) \<and> knows pc w)
     \<and> (\<forall>p l pc. at_pc w p l pc \<and> owning pc \<longrightarrow> owned_lock key w p l)
     \<and> (\<forall>p l pc q m qc. at_pc w p l pc \<and> owning pc \<and> at_pc w q m qc \<and> owning qc \<longrightarrow> p = q)
     \<and> (\<forall>p l pc. at_pc w p l pc \<longrightarrow> 0 < p)"

lemma lock_invD:
  assumes "lock_inv key w"
  shows "at_pc w p l pc \<Longrightarrow> guarded pc \<Longrightarrow> at_pc w q m qc \<Longrightarrow> guarded qc \<Longrightarrow> p = q"
    and "at_pc w p l pc \<Longrightarrow> guarded pc \<Longrightarrow> lt_guard (lw_table w)"
    and "at_pc w p l pc \<Longrightarrow> guarded pc \<Longrightarrow> knows pc w"
    and "at_pc w p l pc \<Longrightarrow> owning pc \<Longrightarrow> owned_lock key w p l"
    and "at_pc w p l pc \<Longrightarrow> owning pc \<Longrightarrow> at_pc w q m qc \<Longrightarrow> owning qc \<Longrightarrow> p = q"
    and "at_pc w p l pc \<Longrightarrow> 0 < p"
  using assms unfolding lock_inv_def by - (elim conjE, metis)+

section \<open>One call\<close>

text \<open>
  A call of a process changes its own place and the table.  Seen from the other processes it
  is one of: nothing; taking or leaving the guard; creating its directory, which only a process
  in the guarded section that knows that nobody owns a lock does; or changing or removing the
  directory that it owns or adopts.
\<close>

lemma at_pc_set:
  "at_pc (w\<lparr>lw_table := t, lw_procs := dict_set p (l, pc) (lw_procs w)\<rparr>) q m qc \<longleftrightarrow>
     (if q = p then m = l \<and> qc = pc else at_pc w q m qc)"
  by (auto simp: at_pc_def update_conv')

lemma scope_locks_complete: "dict_get (lt_locks t) k \<noteq> None \<Longrightarrow> k \<noteq> WholeLock \<Longrightarrow> k \<in> set (conflicting_scope_locks t)"
  unfolding conflicting_scope_locks_def using dict_key_iff [of k "lt_locks t"] by auto

text \<open>Nobody owns a lock when there is none, or when the only one belongs to a dead process.\<close>

lemma no_lock_no_owner:
  assumes "lock_inv key w" and "\<And>k. dict_get (lt_locks (lw_table w)) k = None"
  shows "no_owner w"
  using lock_invD(4) [OF assms(1)] assms(2) unfolding no_owner_def owned_lock_def by fastforce

lemma adoptable_no_owner:
  assumes inv: "lock_inv key w" and ad: "adoptable key seen l cs (lw_table w)"
    and only: "\<And>k. dict_get (lt_locks (lw_table w)) k \<noteq> None \<Longrightarrow> k \<in> set cs"
    and live: "\<forall>p \<in> set (dict_keys (lw_procs w)). seen p"
  shows "no_owner w"
  unfolding no_owner_def
proof (intro allI impI notI)
  fix q m qc assume at: "at_pc w q m qc" and "owning qc"
  from lock_invD(4) [OF inv this] have o: "owned_lock key w q m" .
  from ad obtain i where i: "dict_get (lt_locks (lw_table w)) (lock_path_of key l) = Some (ValidInfo i)"
      "cs = [lock_path_of key l]" "\<not> pid_is_alive seen (li_pid i)"
    by (auto simp: adoptable_def split: option.splits metadata.splits)
  from o only [of "lock_path_of key m"] i(2) have "lock_path_of key m = lock_path_of key l"
    by (auto simp: owned_lock_def split: option.splits)
  with o i(1) have "li_pid i = q" by (simp add: owned_lock_def)
  moreover have "seen q" using live at dict_key_iff [of q "lw_procs w"] by (auto simp: at_pc_def)
  ultimately show False using i(3) by (simp add: pid_is_alive_def)
qed

text \<open>The knowledge of the process that made the call.\<close>

lemma call_knows:
  assumes inv: "lock_inv key w" and at: "at_pc w p l pc" and live: "\<forall>p \<in> set (dict_keys (lw_procs w)). lo_seen orc p"
    and step: "lock_call key orc l p pc (lw_table w) = (pc', t')"
    and w': "w' = w\<lparr>lw_table := t', lw_procs := dict_set p (l, pc') (lw_procs w)\<rparr>"
  shows "guarded pc' \<Longrightarrow> lt_guard t' \<and> knows pc' w'"
proof -
  have keep: "no_owner w'" if "no_owner w" "\<not> owning pc'"
    using that unfolding no_owner_def w' at_pc_set by auto
  note k = lock_invD(3) [OF inv at] and g = lock_invD(2) [OF inv at]
  show "lt_guard t' \<and> knows pc' w'" if "guarded pc'"
  proof (cases pc)
    case (ReadScopes cs)
    have "WholeLock \<in> set cs" if "dict_get (lt_locks (lw_table w)) WholeLock \<noteq> None" using k that ReadScopes by simp
    then have "k \<in> set (cs @ conflicting_scope_locks (lw_table w))" if "dict_get (lt_locks (lw_table w)) k \<noteq> None" for k
      using that scope_locks_complete [of "lw_table w" k] by (cases "k = WholeLock") auto
    with step ReadScopes g show ?thesis by (auto simp: w')
  next
    case (Judge cs)
    have only: "j \<in> set cs" if "dict_get (lt_locks (lw_table w)) j \<noteq> None" for j using k that Judge by simp
    show ?thesis
    proof (cases "cs = []")
      case True
      with only have "no_owner w" by (intro no_lock_no_owner [OF inv]) fastforce
      with step that Judge g keep True show ?thesis by auto
    next
      case False
      with step Judge have pc': "pc' = (if adoptable key (lo_seen orc) l cs (lw_table w) then AdoptUnlink else LeaveGuard False)" "t' = lw_table w"
        by auto
      have "no_owner w" if "adoptable key (lo_seen orc) l cs (lw_table w)"
        by (rule adoptable_no_owner [OF inv that only live])
      with pc' Judge g keep show ?thesis by auto
    qed
  qed (use step that k g keep in \<open>auto simp: w' set_lock_def drop_lock_def split: if_splits\<close>)
qed

text \<open>
  What the call leaves to the others: unless the process was in the guarded section, directories
  only disappear; a process becomes an owner only when nobody is; and nobody else's lock is touched
  while somebody else owns one.
\<close>

lemma call_owning:
  assumes inv: "lock_inv key w" and at: "at_pc w p l pc" and step: "lock_call key orc l p pc (lw_table w) = (pc', t')"
    and "owning pc'"
  shows "owning pc \<or> no_owner w"
    and "owned_lock key (w\<lparr>lw_table := t', lw_procs := procs\<rparr>) p l"
proof -
  note k = lock_invD(3) [OF inv at] and o = lock_invD(4) [OF inv at]
  show "owning pc \<or> no_owner w" using step assms(4) k by (cases pc) (auto split: if_splits)
  show "owned_lock key (w\<lparr>lw_table := t', lw_procs := procs\<rparr>) p l"
    using step assms(4) o
    by (cases pc) (auto simp: owned_lock_def set_lock_def update_conv' lock_info_of_def split: if_splits)
qed

lemma call_locks_other:
  assumes inv: "lock_inv key w" and at: "at_pc w p l pc" and step: "lock_call key orc l p pc (lw_table w) = (pc', t')"
    and other: "at_pc w q m qc" "owning qc" "q \<noteq> p"
  shows "lt_locks t' = lt_locks (lw_table w)"
proof -
  have "\<not> no_owner w" using other by (auto simp: no_owner_def)
  moreover have "\<not> owning pc" using lock_invD(5) [OF inv at _ other(1,2)] other(3) by blast
  ultimately show ?thesis using step lock_invD(3) [OF inv at]
    by (cases pc) (auto split: if_splits)
qed

lemma call_knows_other:
  assumes inv: "lock_inv key w" and at: "at_pc w p l pc" and step: "lock_call key orc l p pc (lw_table w) = (pc', t')"
    and other: "at_pc w q m qc" "guarded qc" "q \<noteq> p"
    and w': "w' = w\<lparr>lw_table := t', lw_procs := dict_set p (l, pc') (lw_procs w)\<rparr>"
  shows "\<not> guarded pc' \<and> lt_guard t' \<and> knows qc w'"
proof -
  have ng: "\<not> guarded pc" using lock_invD(1) [OF inv at _ other(1,2)] other(3) by blast
  have g: "lt_guard (lw_table w)" by (rule lock_invD(2) [OF inv other(1,2)])
  from step ng g have quiet: "\<not> guarded pc'" "lt_guard t'" "owning pc' \<Longrightarrow> owning pc"
    by (cases pc; auto simp: set_lock_def drop_lock_def split: if_splits)+
  have shrink: "dict_get (lt_locks t') k \<noteq> None \<Longrightarrow> dict_get (lt_locks (lw_table w)) k \<noteq> None" for k
    using step ng lock_invD(4) [OF inv at]
    by (cases pc) (auto simp: set_lock_def drop_lock_def update_conv' delete_conv' owned_lock_def split: if_splits option.splits)
  have "no_owner w'" if "no_owner w"
    using that quiet(3) at unfolding no_owner_def w' at_pc_set by auto
  with lock_invD(3) [OF inv other(1,2)] shrink have "knows qc w'" by (cases qc) (auto simp: w')
  with quiet show ?thesis by blast
qed

lemma call_inv:
  assumes inv: "lock_inv key w" and live: "\<forall>p \<in> set (dict_keys (lw_procs w)). lo_seen orc p"
  shows "lock_inv key (run_call key orc p w)"
proof (cases "dict_get (lw_procs w) p")
  case None
  with inv show ?thesis by (simp add: run_call_def)
next
  case (Some a)
  obtain l pc where a: "a = (l, pc)" by (cases a)
  obtain pc' t' where step: "lock_call key orc l p pc (lw_table w) = (pc', t')" by fastforce
  let ?w = "w\<lparr>lw_table := t', lw_procs := dict_set p (l, pc') (lw_procs w)\<rparr>"
  from Some a have at: "at_pc w p l pc" by (simp add: at_pc_def)
  have run: "run_call key orc p w = ?w" using Some a step by (simp add: run_call_def)
  note other = call_knows_other [OF inv at step _ _ _ refl]
  have "lock_inv key ?w"
    unfolding lock_inv_def at_pc_set
  proof (intro conjI allI impI)
    fix q m qc
    assume *: "(if q = p then m = l \<and> qc = pc' else at_pc w q m qc) \<and> guarded qc"
    then show "lt_guard (lw_table ?w)" "knows qc ?w"
      using call_knows [OF inv at live step refl] other by (auto split: if_splits)
  next
    fix q m qc r n rc
    assume "(if q = p then m = l \<and> qc = pc' else at_pc w q m qc) \<and> guarded qc
        \<and> (if r = p then n = l \<and> rc = pc' else at_pc w r n rc) \<and> guarded rc"
    then show "q = r" using other lock_invD(1) [OF inv] by (auto split: if_splits)
  next
    fix q m qc
    assume "(if q = p then m = l \<and> qc = pc' else at_pc w q m qc) \<and> owning qc"
    then show "owned_lock key ?w q m"
      using call_owning(2) [OF inv at step] lock_invD(4) [OF inv, of q m qc] call_locks_other [OF inv at step, of q m qc]
      by (auto simp: owned_lock_def split: if_splits)
  next
    fix q m qc r n rc
    assume "(if q = p then m = l \<and> qc = pc' else at_pc w q m qc) \<and> owning qc
        \<and> (if r = p then n = l \<and> rc = pc' else at_pc w r n rc) \<and> owning rc"
    then show "q = r"
      using call_owning(1) [OF inv at step] lock_invD(5) [OF inv] at by (auto simp: no_owner_def split: if_splits)
  next
    fix q m qc
    assume "if q = p then m = l \<and> qc = pc' else at_pc w q m qc"
    then show "0 < q" using lock_invD(6) [OF inv] at by (auto split: if_splits)
  qed
  with run show ?thesis by simp
qed

lemma fewer_inv:
  assumes inv: "lock_inv key w" and t: "lw_table w' = lw_table w"
    and sub: "\<And>p l pc. at_pc w' p l pc \<Longrightarrow> at_pc w p l pc \<or> pc = Outside \<and> 0 < p"
  shows "lock_inv key w'"
proof -
  have sub': "at_pc w p l pc" if "at_pc w' p l pc" "guarded pc \<or> owning pc" for p l pc using sub [OF that(1)] that(2) by auto
  have "no_owner w'" if "no_owner w" using that sub' unfolding no_owner_def by blast
  then have knows: "knows pc w'" if "knows pc w" for pc using that by (cases pc) (auto simp: t)
  have owned: "owned_lock key w' p l \<longleftrightarrow> owned_lock key w p l" for p l by (simp add: owned_lock_def t)
  show ?thesis
    unfolding lock_inv_def t owned
  proof (intro conjI allI impI)
    fix p l pc q m qc
    show "p = q" if "at_pc w' p l pc \<and> guarded pc \<and> at_pc w' q m qc \<and> guarded qc" using lock_invD(1) [OF inv] sub' that by metis
    show "p = q" if "at_pc w' p l pc \<and> owning pc \<and> at_pc w' q m qc \<and> owning qc" using lock_invD(5) [OF inv] sub' that by metis
    show "lt_guard (lw_table w)" if "at_pc w' p l pc \<and> guarded pc" using lock_invD(2) [OF inv] sub' that by metis
    show "knows pc w'" if "at_pc w' p l pc \<and> guarded pc" using lock_invD(3) [OF inv] sub' knows that by metis
    show "owned_lock key w p l" if "at_pc w' p l pc \<and> owning pc" using lock_invD(4) [OF inv] sub' that by metis
    show "0 < p" if "at_pc w' p l pc" using lock_invD(6) [OF inv] sub that by metis
  qed
qed

lemma lock_step_inv:
  assumes "lock_inv key w" and "lock_step key w w'"
  shows "lock_inv key w'"
  using assms(2)
proof cases
  case (start pid l)
  show ?thesis
    by (rule fewer_inv [OF assms(1)]) (use start in \<open>auto simp: at_pc_def update_conv' split: if_splits\<close>)
next
  case (call orc pid)
  with call_inv [OF assms(1)] show ?thesis by simp
next
  case (die pid)
  show ?thesis
    by (rule fewer_inv [OF assms(1)]) (use die in \<open>auto simp: at_pc_def delete_conv' split: if_splits\<close>)
qed

interpretation lm: invariant_machine "lock_step key" "lock_inv key" for key
  by unfold_locales (rule lock_step_inv)

lemma empty_locks_inv: "lock_inv key empty_locks"
  by (simp add: lock_inv_def empty_locks_def at_pc_def)

definition lock_reachable :: "(string \<Rightarrow> string) \<Rightarrow> lock_world \<Rightarrow> bool" where
  "lock_reachable key w \<longleftrightarrow> (lock_step key)\<^sup>*\<^sup>* empty_locks w"

lemma lock_reachable_inv: "lock_reachable key w \<Longrightarrow> lock_inv key w"
  unfolding lock_reachable_def by (rule lm.steps_inv [OF _ empty_locks_inv])

section \<open>Mutual exclusion\<close>

text \<open>
  C9: The lock of a project is exclusive: in every interleaving, whatever calls fail, whatever
  processes die and whatever dead runs are adopted, at most one live process holds a lock of the
  project, for the whole project or for any scope, and the directory of its lock exists.
\<close>

theorem project_lock_exclusive:
  assumes "lock_reachable key w" and "at_pc w p l Holding"
  shows "dict_get (lt_locks (lw_table w)) (lock_path_of key l) \<noteq> None
         \<and> (\<forall>q m. at_pc w q m Holding \<longrightarrow> q = p)"
proof -
  note inv = lock_reachable_inv [OF assms(1)]
  from lock_invD(4) [OF inv assms(2)] have "dict_get (lt_locks (lw_table w)) (lock_path_of key l) \<noteq> None"
    by (auto simp: owned_lock_def split: option.splits)
  with lock_invD(5) [OF inv _ _ assms(2)] show ?thesis by simp
qed

text \<open>A run of two processes that want the whole project and a scope of it.\<close>

definition demo_lock :: "string option \<Rightarrow> project_lock" where
  "demo_lock scope = \<lparr>pl_project = ''app'', pl_target = ''box'', pl_scope = scope, pl_run_id = Some ''r1'', pl_adopt_dead_run = True\<rparr>"

definition demo_oracle :: lock_oracle where
  "demo_oracle = \<lparr>lo_seen = (\<lambda>p. p \<in> {1, 2}), lo_ok = True, lo_late = False\<rparr>"

definition spawned :: lock_world where
  "spawned = \<lparr>lw_table = \<lparr>lt_guard = False, lt_locks = []\<rparr>,
     lw_procs = [(1, demo_lock None, Outside), (2, demo_lock (Some ''data''), Outside)]\<rparr>"

lemma spawned_reachable: "lock_reachable (\<lambda>s. s) spawned"
proof -
  let ?w = "empty_locks\<lparr>lw_procs := dict_set 1 (demo_lock None, Outside) (lw_procs empty_locks)\<rparr>"
  have "lock_step (\<lambda>s. s) empty_locks ?w" by (rule lock_step.start) (simp_all add: empty_locks_def)
  moreover have "lock_step (\<lambda>s. s) ?w (?w\<lparr>lw_procs := dict_set 2 (demo_lock (Some ''data''), Outside) (lw_procs ?w)\<rparr>)"
    by (rule lock_step.start) (simp_all add: empty_locks_def)
  moreover have "?w\<lparr>lw_procs := dict_set 2 (demo_lock (Some ''data''), Outside) (lw_procs ?w)\<rparr> = spawned"
    by (simp add: empty_locks_def spawned_def)
  ultimately show ?thesis unfolding lock_reachable_def by (metis rtranclp.simps)
qed

fun run_calls :: "int list \<Rightarrow> lock_world \<Rightarrow> lock_world" where
  "run_calls [] w = w"
| "run_calls (p # ps) w = run_calls ps (run_call (\<lambda>s. s) demo_oracle p w)"

lemma run_call_keys: "set (dict_keys (lw_procs (run_call key orc p w))) = set (dict_keys (lw_procs w))"
proof (cases "dict_get (lw_procs w) p")
  case (Some a)
  then have "p \<in> set (dict_keys (lw_procs w))" using dict_key_iff by fast
  with Some show ?thesis by (auto simp: run_call_def dom_update case_prod_unfold Let_def)
qed (simp add: run_call_def)

lemma run_calls_reachable:
  "lock_reachable (\<lambda>s. s) w \<Longrightarrow> set (dict_keys (lw_procs w)) \<subseteq> {1, 2} \<Longrightarrow> lock_reachable (\<lambda>s. s) (run_calls ps w)"
proof (induction ps arbitrary: w)
  case (Cons p ps)
  have "lock_step (\<lambda>s. s) w (run_call (\<lambda>s. s) demo_oracle p w)"
    using Cons.prems(2) by (intro lock_step.call) (auto simp: demo_oracle_def)
  with Cons.prems(1) have "lock_reachable (\<lambda>s. s) (run_call (\<lambda>s. s) demo_oracle p w)"
    unfolding lock_reachable_def by (rule rtranclp.rtrancl_into_rtrancl)
  from Cons.IH [OF this] Cons.prems(2) show ?case unfolding run_call_keys by simp
qed simp

theorem project_lock_exclusive_witness:
  "at_pc (run_calls (replicate 8 1 @ replicate 5 2) spawned) 1 (demo_lock None) Holding
   \<and> \<not> at_pc (run_calls (replicate 8 1 @ replicate 5 2) spawned) 2 (demo_lock (Some ''data'')) Holding"
proof -
  let ?w = "run_calls (replicate 8 1 @ replicate 5 2) spawned"
  have reach: "lock_reachable (\<lambda>s. s) ?w" by (rule run_calls_reachable [OF spawned_reachable]) (simp add: spawned_def)
  have hold: "at_pc ?w 1 (demo_lock None) Holding" by code_simp
  from project_lock_exclusive [OF reach hold] hold show ?thesis by auto
qed

section \<open>A guard that nobody holds\<close>

definition orphan_guard :: "lock_world \<Rightarrow> bool" where
  "orphan_guard w \<longleftrightarrow> lt_guard (lw_table w) \<and> (\<forall>p l pc. at_pc w p l pc \<longrightarrow> \<not> guarded pc)"

lemma orphan_call:
  assumes "lock_call key orc l p pc t = (pc', t')" and "lt_guard t" and "\<not> guarded pc"
  shows "lt_guard t' \<and> \<not> guarded pc' \<and> (pc' = Holding \<longrightarrow> pc = Holding)"
  using assms by (cases pc) (auto simp: set_lock_def drop_lock_def split: if_splits)

lemma orphan_step:
  assumes "lock_step key w w'" and "orphan_guard w"
  shows "orphan_guard w' \<and> (at_pc w' p l Holding \<longrightarrow> at_pc w p l Holding)"
  using assms(1)
proof cases
  case (call orc pid)
  show ?thesis
  proof (cases "dict_get (lw_procs w) pid")
    case (Some a)
    obtain m pc where a: "a = (m, pc)" by (cases a)
    obtain pc' t' where step: "lock_call key orc m pid pc (lw_table w) = (pc', t')" by fastforce
    have at: "at_pc w pid m pc" using Some a by (simp add: at_pc_def)
    have w': "w' = w\<lparr>lw_table := t', lw_procs := dict_set pid (m, pc') (lw_procs w)\<rparr>"
      using call Some a step by (simp add: run_call_def)
    from orphan_call [OF step] assms(2) at show ?thesis
      unfolding orphan_guard_def w' at_pc_set by (auto split: if_splits)
  qed (use call assms(2) in \<open>simp add: run_call_def\<close>)
qed (use assms(2) in \<open>auto simp: orphan_guard_def at_pc_def update_conv' delete_conv' split: if_splits\<close>)

text \<open>
  A process that dies inside the guarded section closes the lock table for ever: when the guard
  exists and no live process is in the section, then in no later state is there a process
  holding the lock that did not hold it before; every attempt ends at its deadline.
\<close>

theorem orphan_guard_blocks:
  assumes "orphan_guard w" and "(lock_step key)\<^sup>*\<^sup>* w w'"
  shows "orphan_guard w' \<and> (\<forall>p l. at_pc w' p l Holding \<longrightarrow> at_pc w p l Holding)
         \<and> (lo_late orc \<longrightarrow> lock_call key orc l p WaitGuard (lw_table w') = (Outside, lw_table w'))"
proof -
  from assms(2) have "orphan_guard w' \<and> (\<forall>p l. at_pc w' p l Holding \<longrightarrow> at_pc w p l Holding)"
    by (induction rule: rtranclp_induct) (use assms(1) orphan_step in blast)+
  then show ?thesis by (simp add: orphan_guard_def)
qed

definition dead_in_guard :: lock_world where
  "dead_in_guard = (run_calls [1, 1] spawned)\<lparr>lw_procs := dict_pop 1 (lw_procs (run_calls [1, 1] spawned))\<rparr>"

theorem orphan_guard_blocks_witness:
  "lock_reachable (\<lambda>s. s) dead_in_guard \<and> orphan_guard (run_call (\<lambda>s. s) demo_oracle 2 dead_in_guard)"
proof
  have "lock_reachable (\<lambda>s. s) (run_calls [1, 1] spawned)"
    by (rule run_calls_reachable [OF spawned_reachable]) (simp add: spawned_def)
  then show "lock_reachable (\<lambda>s. s) dead_in_guard"
    unfolding lock_reachable_def dead_in_guard_def by (rule rtranclp.rtrancl_into_rtrancl) (rule lock_step.die)
  have procs: "lw_procs dead_in_guard = [(2, demo_lock (Some ''data''), Outside)]" and g: "lt_guard (lw_table dead_in_guard)"
    by code_simp+
  then have "orphan_guard dead_in_guard" by (auto simp: orphan_guard_def at_pc_def split: if_splits)
  moreover have "lock_step (\<lambda>s. s) dead_in_guard (run_call (\<lambda>s. s) demo_oracle 2 dead_in_guard)"
    by (rule lock_step.call) (simp add: procs demo_oracle_def)
  ultimately show "orphan_guard (run_call (\<lambda>s. s) demo_oracle 2 dead_in_guard)"
    using orphan_guard_blocks by blast
qed

end
