(* ===== verification/JobRegistry.thy ===== *)
theory JobRegistry
  imports Sql Json
begin

text \<open>
  The registry of active jobs on a target (\<open>src/remrun/_job_observer.py\<close>): its two tables with
  registration, update and removal, the reclamation of rows whose processes have ended, and the
  attribution of processes to jobs.  The process table is a snapshot taken from the operating
  system, or nothing when it could not be taken.
\<close>

section \<open>Processes\<close>

text \<open>The fields that the operations read; the measurements of a process are left out.\<close>

record process_row =
  ps_pid :: int
  ps_ppid :: int
  ps_identity :: "string option"
  ps_start_order :: "int option"
  ps_pgid :: "int option"

type_synonym snapshot = "(int, process_row) dict"

datatype identity_state = IsMatch | IsMismatch | IsMissing | IsUnknown

text \<open>
  What the operating system tells: whether this is a POSIX system, the process table, whether
  \<open>os.kill(pid, 0)\<close> reports that there is no such process, and the processes of a Windows job
  by name (\<open>None\<close> when the query fails, \<open>Some None\<close> when the name does not exist).
\<close>

record observer_env =
  ob_posix :: bool
  ob_processes :: "snapshot option"
  ob_no_process :: "int \<Rightarrow> bool"
  ob_windows_pids :: "string \<Rightarrow> int list option option"

definition identity_state_of :: "observer_env \<Rightarrow> int \<Rightarrow> string \<Rightarrow> snapshot \<Rightarrow> identity_state" where
  "identity_state_of env pid expected snap =
     (case dict_get snap pid of
        Some row \<Rightarrow>
          (case ps_identity row of
             None \<Rightarrow> IsUnknown
           | Some i \<Rightarrow> if i = expected then IsMatch else IsMismatch)
      | None \<Rightarrow> if ob_posix env then (if ob_no_process env pid then IsMissing else IsUnknown) else IsMissing)"

section \<open>The tables\<close>

definition MAX_ACTIVE_JOBS :: nat where "MAX_ACTIVE_JOBS = 256"

record job_metadata =
  jm_job_id :: string
  jm_project :: string
  jm_source_controller :: string
  jm_target :: string
  jm_phase :: string
  jm_command_label :: string
  jm_command_sha256 :: string
  jm_member_count :: int

record registry_row =
  rg_metadata :: job_metadata
  rg_root_pid :: int
  rg_root_identity :: string
  rg_owner_kind :: string
  rg_owner_key :: "string option"
  rg_owner_pid :: int
  rg_owner_identity :: string
  rg_witness_pid :: "int option"
  rg_witness_identity :: "string option"

record registry =
  re_legacy :: "(string, registry_row) dict"
  re_owned :: "(string, registry_row) dict"

datatype registry_error = RegistryError string | RegistryFull | RegistryValueError string | RegistryIntegrityError

section \<open>Reclamation\<close>

text \<open>\<open>int(witness_pid or pid)\<close> and \<open>str(witness_identity or identity)\<close>.\<close>

definition witness_state :: "observer_env \<Rightarrow> snapshot \<Rightarrow> registry_row \<Rightarrow> identity_state" where
  "witness_state env snap r =
     identity_state_of env
       (case rg_witness_pid r of None \<Rightarrow> rg_root_pid r | Some p \<Rightarrow> if p = 0 then rg_root_pid r else p)
       (case rg_witness_identity r of None \<Rightarrow> rg_root_identity r | Some i \<Rightarrow> if i = [] then rg_root_identity r else i) snap"

definition row_pgid :: "registry_row \<Rightarrow> int" where
  "row_pgid r = (case rg_owner_key r of
     None \<Rightarrow> -1
   | Some k \<Rightarrow> (case int_of_string k of None \<Rightarrow> -1 | Some n \<Rightarrow> n))"

definition row_stale :: "observer_env \<Rightarrow> snapshot \<Rightarrow> registry_row \<Rightarrow> bool" where
  "row_stale env snap r \<longleftrightarrow>
     (let kind = (if rg_owner_kind r = [] then ''legacy_child'' else rg_owner_kind r) in
      if kind = ''legacy_child'' then identity_state_of env (rg_root_pid r) (rg_root_identity r) snap \<in> {IsMissing, IsMismatch}
      else if kind = ''posix_pgid'' then
        (if witness_state env snap r = IsMatch then False
         else if 0 < row_pgid r \<and> list_ex (\<lambda>(_, row). ps_pgid row = Some (row_pgid r)) snap then False
         else witness_state env snap r \<in> {IsMissing, IsMismatch})
      else if kind = ''controller_operation'' then witness_state env snap r \<in> {IsMissing, IsMismatch}
      else if kind \<in> {''windows_job'', ''windows_job_v2''} then
        (if ob_posix env then False
         else (case ob_windows_pids env (case rg_owner_key r of None \<Rightarrow> ''None'' | Some k \<Rightarrow> k) of
                 None \<Rightarrow> False
               | Some None \<Rightarrow> False
               | Some (Some pids) \<Rightarrow> pids = []))
      else False)"

definition cleanup_stale_table_locked ::
  "observer_env \<Rightarrow> snapshot \<Rightarrow> (string, registry_row) dict \<Rightarrow> registry_error + (string, registry_row) dict" where
  "cleanup_stale_table_locked env snap t =
     (if MAX_ACTIVE_JOBS < length t then Inl (RegistryError ''table exceeds its hard row bound'')
      else Inr (delete_where (\<lambda>_ r. row_stale env snap r) t))"

definition cleanup_stale_locked :: "observer_env \<Rightarrow> registry \<Rightarrow> registry_error + registry" where
  "cleanup_stale_locked env re =
     (case ob_processes env of
        None \<Rightarrow> Inr re
      | Some snap \<Rightarrow>
          (case cleanup_stale_table_locked env snap (re_legacy re) of
             Inl e \<Rightarrow> Inl e
           | Inr legacy \<Rightarrow>
               (case cleanup_stale_table_locked env snap (re_owned re) of
                  Inl e \<Rightarrow> Inl e
                | Inr owned \<Rightarrow> Inr \<lparr>re_legacy = legacy, re_owned = owned\<rparr>)))"

section \<open>Registration\<close>

definition safe_char :: "char \<Rightarrow> bool" where
  "safe_char c \<longleftrightarrow> (CHR ''A'' \<le> c \<and> c \<le> CHR ''Z'') \<or> (CHR ''a'' \<le> c \<and> c \<le> CHR ''z'') \<or> dec_digit c \<or> c \<in> set ''._:@+-''"

definition bounded_text_error :: "string \<Rightarrow> nat \<Rightarrow> bool" where
  "bounded_text_error v limit \<longleftrightarrow> v = [] \<or> limit < length v \<or> \<not> list_all safe_char v"

definition OWNER_KIND_NAMES :: "string list" where
  "OWNER_KIND_NAMES = [''legacy_child'', ''posix_pgid'', ''windows_job'', ''windows_job_v2'', ''controller_operation'']"

text \<open>The arguments of \<open>_register\<close>; \<open>ra_token\<close> is the given token or a fresh one.\<close>

record register_args =
  ra_metadata :: job_metadata
  ra_process :: process_row
  ra_token :: string
  ra_owner_kind :: string
  ra_owner_key :: "string option"
  ra_owner_process :: "process_row option"
  ra_witness :: "process_row option"

definition owned_row :: "register_args \<Rightarrow> registry_row option" where
  "owned_row a =
     (let owner = (case ra_owner_process a of None \<Rightarrow> ra_process a | Some p \<Rightarrow> p);
          witness = (case ra_witness a of None \<Rightarrow> ra_process a | Some p \<Rightarrow> p)
      in case (ps_identity (ra_process a), ps_identity owner, ps_identity witness) of
           (Some i, Some o_id, Some w_id) \<Rightarrow>
             Some \<lparr>rg_metadata = ra_metadata a, rg_root_pid = ps_pid (ra_process a), rg_root_identity = i,
                   rg_owner_kind = ra_owner_kind a, rg_owner_key = ra_owner_key a, rg_owner_pid = ps_pid owner,
                   rg_owner_identity = o_id, rg_witness_pid = Some (ps_pid witness), rg_witness_identity = Some w_id\<rparr>
         | _ \<Rightarrow> None)"

definition register :: "observer_env \<Rightarrow> register_args \<Rightarrow> registry \<Rightarrow> (registry_error + string) \<times> registry" where
  "register env a re =
     (if ps_identity (ra_process a) = None then (Inl (RegistryError ''child process identity is unavailable''), re)
      else if ra_owner_kind a \<notin> set OWNER_KIND_NAMES then (Inl (RegistryError ''unsupported process owner kind''), re)
      else if ra_owner_kind a \<noteq> ''legacy_child'' \<and> (ra_owner_key a = None \<or> ra_owner_key a = Some [])
      then (Inl (RegistryError ''owned jobs require an owner key''), re)
      else
        (case owned_row a of
           None \<Rightarrow> (Inl (RegistryError ''owner and witness identities must be exact''), re)
         | Some row \<Rightarrow>
             if bounded_text_error (ra_token a) 64 then (Inl (RegistryValueError ''token''), re)
             else
               (case cleanup_stale_locked env re of
                  Inl e \<Rightarrow> (Inl e, re)
                | Inr re1 \<Rightarrow>
                    if MAX_ACTIVE_JOBS \<le> length (re_legacy re1) + length (re_owned re1) then (Inl RegistryFull, re)
                    else if dict_get (re_owned re1) (ra_token a) \<noteq> None then (Inl RegistryIntegrityError, re)
                    else (Inr (ra_token a), re1\<lparr>re_owned := dict_set (ra_token a) row (re_owned re1)\<rparr>))))"

definition update_record_processes ::
  "string \<Rightarrow> process_row option \<Rightarrow> process_row option \<Rightarrow> registry \<Rightarrow> (registry_error + unit) \<times> registry" where
  "update_record_processes token root witness re =
     (case (root, witness) of
        (Some p, _) \<Rightarrow>
          if ps_identity p = None then (Inl (RegistryError ''root process identity is unavailable''), re)
          else if (case witness of None \<Rightarrow> False | Some w \<Rightarrow> ps_identity w = None)
          then (Inl (RegistryError ''witness process identity is unavailable''), re)
          else (Inr (), re\<lparr>re_owned := update_where (\<lambda>t _. t = token)
                  (\<lambda>_ r. let r1 = r\<lparr>rg_root_pid := ps_pid p, rg_root_identity := the (ps_identity p)\<rparr>
                          in case witness of None \<Rightarrow> r1
                             | Some w \<Rightarrow> r1\<lparr>rg_witness_pid := Some (ps_pid w), rg_witness_identity := ps_identity w\<rparr>)
                  (re_owned re)\<rparr>)
      | (None, Some w) \<Rightarrow>
          if ps_identity w = None then (Inl (RegistryError ''witness process identity is unavailable''), re)
          else (Inr (), re\<lparr>re_owned := update_where (\<lambda>t _. t = token)
                  (\<lambda>_ r. r\<lparr>rg_witness_pid := Some (ps_pid w), rg_witness_identity := ps_identity w\<rparr>) (re_owned re)\<rparr>)
      | (None, None) \<Rightarrow> (Inr (), re))"

text \<open>\<open>_unregister\<close>; \<open>ok\<close> is whether the database could be opened and written.\<close>

definition unregister :: "bool \<Rightarrow> string \<Rightarrow> registry \<Rightarrow> bool \<times> registry" where
  "unregister ok token re =
     (if ok then (True, re\<lparr>re_owned := delete_where (\<lambda>t _. t = token) (re_owned re)\<rparr>) else (False, re))"

section \<open>Attribution\<close>

text \<open>A parent created after its alleged child is a reused process identifier.\<close>

definition reused_parent :: "process_row \<Rightarrow> process_row \<Rightarrow> bool" where
  "reused_parent parent child \<longleftrightarrow>
     (case (ps_start_order parent, ps_start_order child) of (Some a, Some b) \<Rightarrow> b < a | _ \<Rightarrow> False)"

text \<open>
  The loop of \<open>_nearest_root\<close>.  It may not end by its form: the value is \<open>None\<close> then, and
  \<open>Some None\<close> or \<open>Some (Some token)\<close> when it returns.
\<close>

partial_function (option) nearest_root_loop ::
  "snapshot \<Rightarrow> (int, string \<times> string) dict \<Rightarrow> process_row \<Rightarrow> int list \<Rightarrow> string option option" where
  "nearest_root_loop rows roots current seen =
     (if 0 < ps_pid current \<and> ps_pid current \<notin> set seen then
        (case dict_get roots (ps_pid current) of
           Some (identity, token) \<Rightarrow>
             if ps_identity current = Some identity then Some (Some token)
             else (case dict_get rows (ps_ppid current) of
                     None \<Rightarrow> Some None
                   | Some parent \<Rightarrow>
                       if reused_parent parent current then Some None
                       else nearest_root_loop rows roots parent (ps_pid current # seen))
         | None \<Rightarrow>
             (case dict_get rows (ps_ppid current) of
                None \<Rightarrow> Some None
              | Some parent \<Rightarrow>
                  if reused_parent parent current then Some None
                  else nearest_root_loop rows roots parent (ps_pid current # seen)))
      else Some None)"

declare nearest_root_loop.simps [code]

definition nearest_root :: "process_row \<Rightarrow> snapshot \<Rightarrow> (int, string \<times> string) dict \<Rightarrow> string option option" where
  "nearest_root row rows roots = nearest_root_loop rows roots row []"

end
