(* ===== verification/RegistrySafety.thy ===== *)
theory RegistrySafety
  imports JobRegistry StateMachine
begin

text \<open>
  Properties of the job registry: the attribution of a process always returns and is exact, the
  registry is bounded, and doubt about a process never removes the row of a job.
\<close>

section \<open>Attribution\<close>

definition unvisited :: "snapshot \<Rightarrow> process_row \<Rightarrow> int list \<Rightarrow> int set" where
  "unvisited rows current seen = (insert (ps_pid current) (ps_pid ` snd ` set rows)) - set seen"

lemma unvisited_parent:
  assumes "dict_get rows (ps_ppid current) = Some parent" and "ps_pid current \<notin> set seen"
  shows "card (unvisited rows parent (ps_pid current # seen)) < card (unvisited rows current seen)"
proof (rule psubset_card_mono)
  show "finite (unvisited rows current seen)" by (simp add: unvisited_def)
  have "ps_pid parent \<in> ps_pid ` snd ` set rows" using map_of_SomeD [OF assms(1)] by force
  then show "unvisited rows parent (ps_pid current # seen) \<subset> unvisited rows current seen"
    using assms(2) by (auto simp: unvisited_def)
qed

lemma nearest_root_loop_returns: "\<exists>v. nearest_root_loop rows roots current seen = Some v"
proof (induction "card (unvisited rows current seen)" arbitrary: current seen rule: less_induct)
  case less
  have "\<exists>v. nearest_root_loop rows roots parent (ps_pid current # seen) = Some v"
    if "dict_get rows (ps_ppid current) = Some parent" "ps_pid current \<notin> set seen" for parent
    by (rule less [OF unvisited_parent [OF that]])
  then show ?case by (subst nearest_root_loop.simps) (auto split: option.split)
qed

text \<open>The parent of a process in the snapshot, and a process that is the root of a job.\<close>

definition parent_of :: "snapshot \<Rightarrow> process_row \<Rightarrow> process_row \<Rightarrow> bool" where
  "parent_of rows child parent \<longleftrightarrow> dict_get rows (ps_ppid child) = Some parent \<and> \<not> reused_parent parent child"

definition root_of :: "(int, string \<times> string) dict \<Rightarrow> process_row \<Rightarrow> string \<Rightarrow> bool" where
  "root_of roots row token \<longleftrightarrow> (\<exists>i. dict_get roots (ps_pid row) = Some (i, token) \<and> ps_identity row = Some i)"

text \<open>A line of ancestors, the youngest first, in which no process identifier occurs twice.\<close>

fun lineage :: "snapshot \<Rightarrow> process_row list \<Rightarrow> bool" where
  "lineage rows [] \<longleftrightarrow> False"
| "lineage rows [a] \<longleftrightarrow> 0 < ps_pid a"
| "lineage rows (a # b # r) \<longleftrightarrow> 0 < ps_pid a \<and> parent_of rows a b \<and> lineage rows (b # r)"

lemma loop_root: "0 < ps_pid current \<Longrightarrow> ps_pid current \<notin> set seen \<Longrightarrow> root_of roots current token \<Longrightarrow>
    nearest_root_loop rows roots current seen = Some (Some token)"
  by (subst nearest_root_loop.simps) (auto simp: root_of_def)

lemma loop_parent:
  "0 < ps_pid current \<Longrightarrow> ps_pid current \<notin> set seen \<Longrightarrow> (\<And>token. \<not> root_of roots current token) \<Longrightarrow> parent_of rows current parent \<Longrightarrow>
    nearest_root_loop rows roots current seen = nearest_root_loop rows roots parent (ps_pid current # seen)"
  by (subst nearest_root_loop.simps) (auto simp: root_of_def parent_of_def split: option.split)

lemma loop_end:
  "(\<And>token. \<not> root_of roots current token) \<Longrightarrow> (\<And>parent. \<not> parent_of rows current parent) \<Longrightarrow>
    nearest_root_loop rows roots current seen = Some None"
  by (subst nearest_root_loop.simps) (auto simp: root_of_def parent_of_def split: option.split)

lemma loop_stop: "\<not> (0 < ps_pid current \<and> ps_pid current \<notin> set seen) \<Longrightarrow> nearest_root_loop rows roots current seen = Some None"
  by (subst nearest_root_loop.simps) auto

lemma loop_sound:
  "nearest_root_loop rows roots current seen = Some (Some token) \<Longrightarrow>
     \<exists>as. lineage rows (current # as) \<and> root_of roots (last (current # as)) token"
proof (induction "card (unvisited rows current seen)" arbitrary: current seen rule: less_induct)
  case less
  have go: "0 < ps_pid current" "ps_pid current \<notin> set seen"
    using loop_stop [of current seen rows roots] less.prems by auto
  consider (root) t where "root_of roots current t"
    | (up) parent where "\<And>t. \<not> root_of roots current t" "parent_of rows current parent"
    | (top) "\<And>t. \<not> root_of roots current t" "\<And>parent. \<not> parent_of rows current parent" by blast
  then show ?case
  proof cases
    case root
    with loop_root [OF go root] less.prems go show ?thesis by (intro exI [of _ "[]"]) simp
  next
    case up
    from up(2) have "card (unvisited rows parent (ps_pid current # seen)) < card (unvisited rows current seen)"
      by (intro unvisited_parent) (simp_all add: parent_of_def go)
    from less.hyps [OF this] loop_parent [OF go up] less.prems obtain as
      where "lineage rows (parent # as)" "root_of roots (last (parent # as)) token" by auto
    with up(2) go show ?thesis by (intro exI [of _ "parent # as"]) simp
  next
    case top
    from loop_end [OF top] less.prems show ?thesis by simp
  qed
qed

lemma loop_complete:
  "lineage rows (current # as) \<Longrightarrow> distinct (map ps_pid (current # as)) \<Longrightarrow> set (map ps_pid (current # as)) \<inter> set seen = {} \<Longrightarrow>
     root_of roots (last (current # as)) token \<Longrightarrow>
     \<exists>t. nearest_root_loop rows roots current seen = Some (Some t)"
proof (induction as arbitrary: current seen)
  case Nil
  then show ?case by (auto intro!: loop_root)
next
  case (Cons a as)
  then have go: "0 < ps_pid current" "ps_pid current \<notin> set seen" and up: "parent_of rows current a" by auto
  show ?case
  proof (cases "\<exists>t. root_of roots current t")
    case True
    with loop_root [OF go] show ?thesis by blast
  next
    case False
    with loop_parent [OF go _ up] Cons.IH [of a "ps_pid current # seen"] Cons.prems show ?thesis by auto
  qed
qed


text \<open>A cycle of parents, below which a process is not attributed.\<close>

definition demo_process :: "int \<Rightarrow> int \<Rightarrow> process_row" where
  "demo_process pid ppid = \<lparr>ps_pid = pid, ps_ppid = ppid, ps_identity = Some ''i'', ps_start_order = None, ps_pgid = None\<rparr>"


section \<open>The bound of the registry\<close>

datatype registry_op =
    Register observer_env register_args
  | UpdateProcesses string "process_row option" "process_row option"
  | Unregister bool string

fun run_registry_op :: "registry_op \<Rightarrow> registry \<Rightarrow> registry" where
  "run_registry_op (Register env a) re = snd (register env a re)"
| "run_registry_op (UpdateProcesses t root wit) re = snd (update_record_processes t root wit re)"
| "run_registry_op (Unregister ok t) re = snd (unregister ok t re)"

definition registry_step :: "registry \<Rightarrow> registry \<Rightarrow> bool" where
  "registry_step re re' \<longleftrightarrow> (\<exists>op. re' = run_registry_op op re)"

definition empty_registry :: registry where
  "empty_registry = \<lparr>re_legacy = [], re_owned = []\<rparr>"

definition registry_inv :: "registry \<Rightarrow> bool" where
  "registry_inv re \<longleftrightarrow> length (re_legacy re) + length (re_owned re) \<le> MAX_ACTIVE_JOBS
     \<and> dict_ok (re_legacy re) \<and> dict_ok (re_owned re)"

lemma length_delete_where: "length (delete_where P t) \<le> length t"
  by (simp add: delete_where_def)

lemma length_update_where [simp]: "length (update_where P f t) = length t"
  by (simp add: update_where_def)

lemma cleanup_inv:
  assumes "cleanup_stale_locked env re = Inr re'" and "registry_inv re"
  shows "registry_inv re'"
  using assms add_mono [OF length_delete_where length_delete_where, THEN le_trans]
  by (auto simp: cleanup_stale_locked_def cleanup_stale_table_locked_def registry_inv_def
      split: option.splits if_splits)

lemma register_inv:
  assumes "registry_inv re"
  shows "registry_inv (snd (register env a re))"
proof (cases "cleanup_stale_locked env re")
  case (Inr re1)
  from cleanup_inv [OF this assms] assms Inr show ?thesis
    by (auto simp: register_def registry_inv_def dict_set_new dict_get_None_iff split: option.split)
qed (use assms in \<open>simp add: register_def split: option.split\<close>)

interpretation rm: invariant_machine registry_step registry_inv
proof
  fix re re' assume inv: "registry_inv re" and "registry_step re re'"
  then obtain op where op: "re' = run_registry_op op re" by (auto simp: registry_step_def)
  show "registry_inv re'"
  proof (cases op)
    case (Unregister ok t)
    with op inv length_delete_where [of _ "re_owned re"] show ?thesis
      by (auto simp: unregister_def registry_inv_def intro: le_trans [OF add_left_mono])
  qed (use op inv register_inv in \<open>auto simp: update_record_processes_def registry_inv_def split: option.splits\<close>)
qed

definition registry_reachable :: "registry \<Rightarrow> bool" where
  "registry_reachable re \<longleftrightarrow> registry_step\<^sup>*\<^sup>* empty_registry re"

lemma registry_reachable_inv: "registry_reachable re \<Longrightarrow> registry_inv re"
  unfolding registry_reachable_def by (erule rm.steps_inv) (simp add: registry_inv_def empty_registry_def)

text \<open>
  No observation of the operating system says that the processes of a job have ended: its root
  and its witness are not known to be gone, or a process of its group is still there.
\<close>

definition group_alive :: "snapshot \<Rightarrow> registry_row \<Rightarrow> bool" where
  "group_alive snap r \<longleftrightarrow>
     rg_owner_kind r = ''posix_pgid'' \<and> 0 < row_pgid r \<and> (\<exists>(_, p) \<in> set snap. ps_pgid p = Some (row_pgid r))"

definition maybe_running :: "observer_env \<Rightarrow> registry_row \<Rightarrow> bool" where
  "maybe_running env r \<longleftrightarrow>
     (case ob_processes env of
        None \<Rightarrow> True
      | Some snap \<Rightarrow>
          group_alive snap r
          \<or> (identity_state_of env (rg_root_pid r) (rg_root_identity r) snap \<in> {IsMatch, IsUnknown}
             \<and> witness_state env snap r \<in> {IsMatch, IsUnknown}
             \<and> (\<forall>key. rg_owner_key r = Some key \<longrightarrow> ob_windows_pids env key \<noteq> Some (Some []))))"

lemma group_alive_not_stale: "group_alive snap r \<Longrightarrow> \<not> row_stale env snap r"
  by (auto simp: group_alive_def row_stale_def Let_def list_ex_iff)

lemma maybe_running_not_stale:
  assumes "maybe_running env r" and "ob_processes env = Some snap" and "rg_owner_key r = Some key"
  shows "\<not> row_stale env snap r"
proof (cases "group_alive snap r")
  case False
  with assms have "identity_state_of env (rg_root_pid r) (rg_root_identity r) snap \<notin> {IsMissing, IsMismatch}"
      "witness_state env snap r \<notin> {IsMissing, IsMismatch}" and pids: "ob_windows_pids env key \<noteq> Some (Some [])"
    by (auto simp: maybe_running_def)
  moreover have "\<not> (case ob_windows_pids env key of None \<Rightarrow> False | Some None \<Rightarrow> False | Some (Some pids) \<Rightarrow> pids = [])"
    using pids by (auto split: option.splits)
  ultimately show ?thesis unfolding row_stale_def Let_def assms(3) option.case by simp
qed (rule group_alive_not_stale)


definition demo_observer :: observer_env where
  "demo_observer = \<lparr>ob_posix = True, ob_processes = Some [(7, demo_process 7 1)], ob_no_process = (\<lambda>_. True), ob_windows_pids = (\<lambda>_. None)\<rparr>"

definition demo_metadata :: job_metadata where
  "demo_metadata = \<lparr>jm_job_id = ''j'', jm_project = ''app'', jm_source_controller = ''c'', jm_target = ''box'', jm_phase = ''running'',
     jm_command_label = ''run'', jm_command_sha256 = replicate 64 CHR ''0'', jm_member_count = 1\<rparr>"

definition demo_register :: "int \<Rightarrow> string \<Rightarrow> register_args" where
  "demo_register pid token = \<lparr>ra_metadata = demo_metadata, ra_process = demo_process pid 1, ra_token = token,
     ra_owner_kind = ''controller_operation'', ra_owner_key = Some ''7:i'', ra_owner_process = None, ra_witness = None\<rparr>"

definition demo_registry :: registry where
  "demo_registry = snd (register demo_observer (demo_register 7 ''t7'') (snd (register demo_observer (demo_register 8 ''t8'') empty_registry)))"


end
