(* ===== verification/BoundedWriter.thy ===== *)
theory BoundedWriter
  imports Prelude
begin

text \<open>
  The bounded log of a durable run (\<open>_BoundedWriter\<close> of \<open>src/remrun/_durable_runner.py\<close>): the
  output of a command is written as it comes, and once it exceeds the limit the file keeps its
  head while the tail is kept in memory until the log is closed.
\<close>

section \<open>The writer\<close>

definition TRUNCATION_MARKER :: string where
  "TRUNCATION_MARKER = CHR 0x0A # ''...[remrun durable log truncated]...'' @ [CHR 0x0A]"

text \<open>The file is its content; its position is its end until the log is truncated.\<close>

record bounded_writer =
  bw_max_bytes :: nat
  bw_file :: string
  bw_written :: nat
  bw_truncated :: bool
  bw_tail_limit :: nat
  bw_marker :: string
  bw_head_limit :: nat
  bw_tail :: string

definition new_writer :: "nat \<Rightarrow> bounded_writer" where
  "new_writer max_bytes =
     (let tail_limit = min (256 * 1024) (max_bytes div 2);
          marker = take (max_bytes - tail_limit) TRUNCATION_MARKER
      in \<lparr>bw_max_bytes = max_bytes, bw_file = [], bw_written = 0, bw_truncated = False, bw_tail_limit = tail_limit,
          bw_marker = marker, bw_head_limit = max_bytes - tail_limit - length marker, bw_tail = []\<rparr>)"

definition retain_tail :: "string \<Rightarrow> bounded_writer \<Rightarrow> bounded_writer" where
  "retain_tail data w =
     (if data = [] \<or> bw_tail_limit w = 0 then w
      else let t = bw_tail w @ data in w\<lparr>bw_tail := drop (length t - bw_tail_limit w) t\<rparr>)"

definition start_truncation :: "string \<Rightarrow> bounded_writer \<Rightarrow> bounded_writer" where
  "start_truncation overflow w =
     (let tail_start = bw_written w - bw_tail_limit w;
          w1 = (if bw_tail_limit w = 0 then w
                else w\<lparr>bw_tail := bw_tail w @ take (bw_written w - tail_start) (drop tail_start (bw_file w))\<rparr>)
      in retain_tail overflow
           (w1\<lparr>bw_file := take (bw_head_limit w) (bw_file w), bw_written := bw_head_limit w, bw_truncated := True\<rparr>))"

definition bw_write :: "string \<Rightarrow> bounded_writer \<Rightarrow> bounded_writer" where
  "bw_write data w =
     (if data = [] then w
      else if bw_truncated w then retain_tail data w
      else
        (let remaining = bw_max_bytes w - bw_written w in
         if length data \<le> remaining then w\<lparr>bw_file := bw_file w @ data, bw_written := bw_written w + length data\<rparr>
         else
           (let w1 = (if 0 < remaining
                      then w\<lparr>bw_file := bw_file w @ take remaining data, bw_written := bw_written w + remaining\<rparr>
                      else w)
            in start_truncation (drop remaining data) w1)))"

text \<open>What \<open>close\<close> leaves in the file.\<close>

definition bw_close :: "bounded_writer \<Rightarrow> string" where
  "bw_close w = (if bw_truncated w then take (bw_head_limit w) (bw_file w) @ bw_marker w @ bw_tail w else bw_file w)"

text \<open>\<open>_pump\<close>: the chunks of a stream are written in order.\<close>

fun pump :: "string list \<Rightarrow> bounded_writer \<Rightarrow> bounded_writer" where
  "pump [] w = w"
| "pump (data # r) w = pump r (bw_write data w)"

section \<open>The log as a function of the whole output\<close>

definition bounded_log :: "nat \<Rightarrow> string \<Rightarrow> string" where
  "bounded_log max_bytes s =
     (let w = new_writer max_bytes in
      if length s \<le> max_bytes then s
      else take (bw_head_limit w) s @ bw_marker w @ drop (length s - bw_tail_limit w) s)"

text \<open>The state of a writer that has seen an output.\<close>

definition wrote :: "nat \<Rightarrow> string \<Rightarrow> bounded_writer" where
  "wrote n s =
     (let w = new_writer n in
      if length s \<le> n then w\<lparr>bw_file := s, bw_written := length s\<rparr>
      else w\<lparr>bw_file := take (bw_head_limit w) s, bw_written := bw_head_limit w, bw_truncated := True,
             bw_tail := drop (length s - bw_tail_limit w) s\<rparr>)"

lemma writer_limits:
  "bw_max_bytes (new_writer n) = n" "bw_tail_limit (new_writer n) \<le> n"
  "bw_head_limit (new_writer n) + length (bw_marker (new_writer n)) + bw_tail_limit (new_writer n) = n"
  "bw_tail (new_writer n) = []" "\<not> bw_truncated (new_writer n)"
  by (auto simp: new_writer_def Let_def)

lemma wrote_empty: "wrote n [] = new_writer n"
  by (simp add: wrote_def new_writer_def Let_def)

lemma drop_append_limit: "drop (length (drop (length s - k) s @ d) - k) (drop (length s - k) s @ d) = drop (length (s @ d) - k) (s @ d)"
  by (cases "k \<le> length s") (auto simp: add.commute)

lemma start_truncation_exact:
  assumes "n < length S" and "bw_tail_limit w \<le> n" and "bw_head_limit w \<le> n" and "bw_tail w = []"
  shows "start_truncation (drop n S) (w\<lparr>bw_file := take n S, bw_written := n\<rparr>) =
    w\<lparr>bw_file := take (bw_head_limit w) S, bw_written := bw_head_limit w, bw_truncated := True,
      bw_tail := drop (length S - bw_tail_limit w) S\<rparr>"
proof -
  define k where "k = bw_tail_limit w"
  define t where "t = take (n - (n - k)) (drop (n - k) (take n S))"
  have len: "length (take n S) = n" using assms(1) by simp
  have "t = drop (length (take n S) - k) (take n S)" unfolding t_def len by (rule take_all) (simp add: len)
  with drop_append_limit [of "take n S" k "drop n S"]
  have tail: "drop (length (t @ drop n S) - k) (t @ drop n S) = drop (length S - k) S" unfolding append_take_drop_id by metis
  have head: "take (bw_head_limit w) (take n S) = take (bw_head_limit w) S" using assms(3) by (simp add: min_absorb1)
  show ?thesis
  proof (cases "k = 0")
    case True
    with assms(1,4) head show ?thesis
      unfolding start_truncation_def retain_tail_def Let_def by (simp add: k_def)
  next
    case False
    moreover have "drop n S \<noteq> []" using assms(1) by simp
    ultimately show ?thesis
      unfolding start_truncation_def retain_tail_def Let_def using tail head assms(4) by (simp add: k_def t_def)
  qed
qed

lemma bw_write_wrote: "bw_write data (wrote n s) = wrote n (s @ data)"
proof -
  define w where "w = new_writer n"
  note lim = writer_limits [of n, folded w_def]
  from lim(3) have head: "bw_head_limit w \<le> n" by linarith
  consider (none) "data = []" | (late) "data \<noteq> []" "n < length s" | (fits) "data \<noteq> []" "length s + length data \<le> n"
    | (over) "data \<noteq> []" "length s \<le> n" "n < length s + length data" by linarith
  then show ?thesis
  proof cases
    case none
    then show ?thesis by (simp add: bw_write_def)
  next
    case late
    then show ?thesis using head drop_append_limit [of s "bw_tail_limit w" data]
      by (auto simp: bw_write_def wrote_def w_def [symmetric] retain_tail_def Let_def lim)
  next
    case fits
    then show ?thesis by (simp add: bw_write_def wrote_def w_def [symmetric] Let_def lim)
  next
    case over
    define S where "S = s @ data"
    define w1 where "w1 = w\<lparr>bw_file := take n S, bw_written := n\<rparr>"
    have "bw_write data (wrote n s) = start_truncation (drop n S) w1"
      using over unfolding bw_write_def wrote_def w_def [symmetric] w1_def S_def Let_def
      by (auto simp: lim)
    also have "\<dots> = w\<lparr>bw_file := take (bw_head_limit w) S, bw_written := bw_head_limit w, bw_truncated := True,
        bw_tail := drop (length S - bw_tail_limit w) S\<rparr>"
      unfolding w1_def using over head lim(2,4) by (intro start_truncation_exact) (simp_all add: S_def)
    also have "\<dots> = wrote n S" using over by (simp add: wrote_def w_def [symmetric] S_def Let_def)
    finally show ?thesis by (simp add: S_def)
  qed
qed

lemma pump_wrote: "pump chunks (wrote n s) = wrote n (s @ concat chunks)"
  by (induction chunks arbitrary: s) (simp_all add: bw_write_wrote)

text \<open>
  C36: The streaming log is the log of the whole output: however the output of a command is cut
  into chunks, the file that is left is the whole output when it fits, and otherwise its head,
  the marker and its tail; it never exceeds the limit.
\<close>

theorem bounded_writer_exact:
  "bw_close (pump chunks (new_writer n)) = bounded_log n (concat chunks) \<and> length (bounded_log n (concat chunks)) \<le> n"
proof
  have "pump chunks (new_writer n) = wrote n (concat chunks)" using pump_wrote [of chunks n "[]"] by (simp add: wrote_empty)
  then show "bw_close (pump chunks (new_writer n)) = bounded_log n (concat chunks)"
    by (simp add: bw_close_def wrote_def bounded_log_def Let_def writer_limits(5))
  show "length (bounded_log n (concat chunks)) \<le> n"
    using writer_limits(2,3) [of n] by (auto simp: bounded_log_def Let_def)
qed

end
