(* ===== verification/Scheduling.thy ===== *)
theory Scheduling
  imports Json
begin

text \<open>
  Static scheduling (\<open>src/remrun/scheduler.py\<close>): the order in which the devices of a fleet are
  candidates of a run; and write scopes (\<open>src/remrun/scopes.py\<close>): the project-relative paths
  that a run may write.  What other libraries decide is in an environment: case folding, which
  texts are addresses of the machine itself (\<open>ipaddress\<close>), the host name, and \<open>re.search\<close>
  (\<open>None\<close> for a pattern that does not compile).
\<close>

section \<open>Devices\<close>

record device =
  dv_name :: string
  dv_enabled :: bool
  dv_allow_explicit_run :: bool
  dv_automatic_placement :: bool
  dv_tailscale_ip :: string
  dv_address_candidates :: "string list"

record schedule_env =
  sc_casefold :: "string \<Rightarrow> string"
  sc_local_ip :: "string \<Rightarrow> bool"
  sc_hostname :: string
  sc_search :: "string \<Rightarrow> string \<Rightarrow> bool option"

text \<open>The elements of a list in the order of their first occurrence.\<close>

fun dedup :: "'a list \<Rightarrow> 'a list \<Rightarrow> 'a list" where
  "dedup seen [] = []"
| "dedup seen (x # xs) = (if x \<in> set seen then dedup seen xs else x # dedup (x # seen) xs)"

definition all_addresses :: "device \<Rightarrow> string list" where
  "all_addresses d =
     (if dv_tailscale_ip d = [] then dedup [] (dv_address_candidates d)
      else dv_tailscale_ip d # dedup [dv_tailscale_ip d] (dv_address_candidates d))"

definition rstrip_dots :: "string \<Rightarrow> string" where
  "rstrip_dots s = rev (dropWhile (\<lambda>c. c = CHR ''.'') (rev s))"

definition is_loopback_alias :: "schedule_env \<Rightarrow> string \<Rightarrow> bool" where
  "is_loopback_alias env v =
     (let c0 = rstrip_dots (sc_casefold env (py_strip v));
          c = (if c0 \<noteq> [] \<and> hd c0 = CHR ''['' \<and> last c0 = CHR '']'' then butlast (tl c0) else c0)
      in c \<in> {''localhost'', ''localhost.localdomain''} \<or> sc_local_ip env (hd (split_on (CHR ''%'') c)))"

definition is_self :: "schedule_env \<Rightarrow> device \<Rightarrow> bool" where
  "is_self env d =
     (if is_loopback_alias env (dv_name d) \<or> list_ex (is_loopback_alias env) (all_addresses d) then True
      else
        (let host = sc_casefold env (hd (split_on (CHR ''.'') (sc_hostname env))) in
         if host = [] then False
         else if sc_casefold env (dv_name d) = host then True
         else list_ex (\<lambda>a. sc_casefold env (hd (split_on (CHR ''.'') a)) = host) (all_addresses d)))"

section \<open>The order of candidates\<close>

record placement_rule =
  ru_match_command :: string
  ru_prefer :: string

text \<open>The hints of a project and of the scheduler; an absent text is empty.\<close>

record placement =
  pm_rules :: "placement_rule list"
  pm_primary :: string
  pm_fallback :: "string list"

definition rule_preference :: "schedule_env \<Rightarrow> string \<Rightarrow> placement_rule \<Rightarrow> string option" where
  "rule_preference env joined r =
     (if ru_match_command r = [] \<or> ru_prefer r = [] then None
      else if sc_search env (ru_match_command r) joined = Some True then Some (ru_prefer r)
      else None)"

definition primary_and_fallback :: "string \<Rightarrow> string list \<Rightarrow> string list" where
  "primary_and_fallback primary fallback = (if primary = [] then [] else [primary]) @ fallback"

definition placement_order :: "schedule_env \<Rightarrow> placement \<Rightarrow> string list \<Rightarrow> string list" where
  "placement_order env p command =
     dedup [] (List.map_filter (rule_preference env (join_with '' '' command)) (pm_rules p)
               @ primary_and_fallback (pm_primary p) (pm_fallback p))"

datatype scheduling_error = UnknownTarget string | NoEnabledDevices | NoSafeCandidates

definition enabled_devices :: "(string, device) dict \<Rightarrow> (string, device) dict" where
  "enabled_devices devices = filter (\<lambda>(_, d). dv_enabled d \<and> dv_automatic_placement d) devices"

text \<open>The names in the order of preference, before the devices are looked up.\<close>

definition preference :: "schedule_env \<Rightarrow> (string, device) dict \<Rightarrow> placement \<Rightarrow> string list \<Rightarrow> string \<Rightarrow> string list \<Rightarrow> string list" where
  "preference env devices p command primary fallback =
     (let order = placement_order env p command @ primary_and_fallback primary fallback in
      if list_ex (\<lambda>n. dict_get (enabled_devices devices) n \<noteq> None) order then order
      else order @ dict_keys (enabled_devices devices))"

definition order_devices ::
  "schedule_env \<Rightarrow> (string, device) dict \<Rightarrow> string option \<Rightarrow> placement \<Rightarrow> string list \<Rightarrow> string \<Rightarrow> string list
   \<Rightarrow> scheduling_error + device list" where
  "order_devices env devices target p command primary fallback =
     (if target \<noteq> None \<and> target \<noteq> Some [] \<and> target \<noteq> Some ''auto'' then
        (case dict_get devices (the target) of
           None \<Rightarrow> Inl (UnknownTarget (the target))
         | Some d \<Rightarrow> if dv_enabled d \<or> dv_allow_explicit_run d then Inr [d] else Inl (UnknownTarget (the target)))
      else
        (let enabled = enabled_devices devices;
             result = List.map_filter (dict_get enabled) (dedup [] (preference env devices p command primary fallback));
             result' = (if result = [] then map snd enabled else result);
             safe = filter (\<lambda>d. \<not> is_self env d) result'
         in if result' = [] then Inl NoEnabledDevices
            else if safe = [] then Inl NoSafeCandidates
            else Inr safe))"

definition choose_device ::
  "schedule_env \<Rightarrow> (string, device) dict \<Rightarrow> string option \<Rightarrow> placement \<Rightarrow> string list \<Rightarrow> string \<Rightarrow> string list
   \<Rightarrow> scheduling_error + device" where
  "choose_device env devices target p command primary fallback =
     (case order_devices env devices target p command primary fallback of Inl e \<Rightarrow> Inl e | Inr ds \<Rightarrow> Inr (hd ds))"

section \<open>Write scopes\<close>

record write_scope =
  ws_name :: "string option"
  ws_paths :: "string list"

datatype scope_error = ScopeError string

definition slash_path :: "string \<Rightarrow> string" where
  "slash_path = map (\<lambda>c. if c = CHR 0x5C then CHR ''/'' else c)"

definition normalize_scope_path :: "json \<Rightarrow> scope_error + string" where
  "normalize_scope_path v =
     (let text = slash_path (py_strip (py_str v)) in
      if text = [] then Inl (ScopeError ''write-scope paths must not be empty'')
      else if hd text = CHR ''/'' \<or> CHR '':'' \<in> set text then Inl (ScopeError ''write-scope path must be project-relative'')
      else
        (let parts = filter (\<lambda>p. p \<noteq> []) (split_on (CHR ''/'') (strip_slash text)) in
         if ''..'' \<in> set parts then Inl (ScopeError ''write-scope path must not contain ..'')
         else Inr (join_with ''/'' parts)))"

fun normalize_scope_paths :: "json list \<Rightarrow> scope_error + string list" where
  "normalize_scope_paths [] = Inr []"
| "normalize_scope_paths (v # vs) =
     (case normalize_scope_path v of
        Inl e \<Rightarrow> Inl e
      | Inr p \<Rightarrow> (case normalize_scope_paths vs of Inl e \<Rightarrow> Inl e | Inr ps \<Rightarrow> Inr (p # ps)))"

definition scope_table :: "(string, json) dict \<Rightarrow> (string, json) dict" where
  "scope_table config =
     (case dict_get config ''parallel'' of
        Some (JObj table) \<Rightarrow> (case dict_get table ''scopes'' of Some (JObj scopes) \<Rightarrow> scopes | _ \<Rightarrow> [])
      | _ \<Rightarrow> [])"

definition resolve_write_scope :: "(string, json) dict \<Rightarrow> string option \<Rightarrow> scope_error + write_scope" where
  "resolve_write_scope config requested =
     (if requested = None \<or> requested = Some [] then Inr \<lparr>ws_name = None, ws_paths = []\<rparr>
      else
        (let name = py_strip (the requested) in
         if name = [] then Inl (ScopeError ''--scope must not be empty'')
         else (case dict_get (scope_table config) name of
                 None \<Rightarrow> Inl (ScopeError ''unknown write scope'')
               | Some (JObj data) \<Rightarrow>
                   (case dict_get data ''paths'' of
                      Some (JList (v # vs)) \<Rightarrow>
                        (case normalize_scope_paths (v # vs) of
                           Inl e \<Rightarrow> Inl e
                         | Inr paths \<Rightarrow> Inr \<lparr>ws_name = Some name, ws_paths = paths\<rparr>)
                    | _ \<Rightarrow> Inl (ScopeError ''write scope must declare a non-empty paths list''))
               | Some _ \<Rightarrow> Inl (ScopeError ''write scope must be a table''))))"

section \<open>Candidates\<close>

lemma set_dedup: "set (dedup seen xs) = set xs - set seen"
  by (induction seen xs rule: dedup.induct) auto

lemma distinct_dedup: "distinct (dedup seen xs)"
  by (induction seen xs rule: dedup.induct) (auto simp: set_dedup)

lemma enabled_devices_get:
  "dict_ok devices \<Longrightarrow> dict_get (enabled_devices devices) n = Some d \<longleftrightarrow>
     dict_get devices n = Some d \<and> dv_enabled d \<and> dv_automatic_placement d"
  unfolding enabled_devices_def by (auto simp: dict_get_filter split: option.splits simp del: map_of_eq_Some_iff)

lemma enabled_device_mem: "d \<in> snd ` set (enabled_devices devices) \<Longrightarrow> d \<in> snd ` set devices \<and> dv_enabled d \<and> dv_automatic_placement d"
  by (auto simp: enabled_devices_def)

text \<open>
  Automatic placement is narrower than naming a target: every candidate is a configured
  device that is enabled, open to automatic placement and not the controller itself, and
  every such device that a hint names is a candidate; the run fails only when no candidate is
  left.  A named target is the only candidate, and it is refused unless it is enabled or open
  to explicit runs.
\<close>

theorem auto_candidates_safe:
  assumes "dict_ok devices"
  shows "(case order_devices env devices None p command primary fallback of
            Inr ds \<Rightarrow> ds \<noteq> [] \<and> (\<forall>d \<in> set ds. d \<in> snd ` set devices \<and> dv_enabled d \<and> dv_automatic_placement d \<and> \<not> is_self env d)
              \<and> (\<forall>n d. n \<in> set (placement_order env p command @ primary_and_fallback primary fallback)
                   \<and> dict_get devices n = Some d \<and> dv_enabled d \<and> dv_automatic_placement d \<and> \<not> is_self env d \<longrightarrow> d \<in> set ds)
          | Inl e \<Rightarrow> e = (if enabled_devices devices = [] then NoEnabledDevices else NoSafeCandidates))
         \<and> (n \<noteq> [] \<and> n \<noteq> ''auto'' \<longrightarrow>
              order_devices env devices (Some n) p command primary fallback =
                (case dict_get devices n of
                   Some d \<Rightarrow> if dv_enabled d \<or> dv_allow_explicit_run d then Inr [d] else Inl (UnknownTarget n)
                 | None \<Rightarrow> Inl (UnknownTarget n)))"
proof
  define names where "names = dedup [] (preference env devices p command primary fallback)"
  define result where "result = List.map_filter (dict_get (enabled_devices devices)) names"
  define all where "all = (if result = [] then map snd (enabled_devices devices) else result)"
  have mem: "d \<in> snd ` set devices \<and> dv_enabled d \<and> dv_automatic_placement d" if "d \<in> set all" for d
  proof (rule enabled_device_mem)
    from that consider "d \<in> snd ` set (enabled_devices devices)" | n where "dict_get (enabled_devices devices) n = Some d"
      by (auto simp: all_def result_def set_map_filter_iff simp del: map_of_eq_Some_iff split: if_splits)
    then show "d \<in> snd ` set (enabled_devices devices)" by cases (auto dest!: map_of_SomeD simp: rev_image_eqI)
  qed
  have hint: "d \<in> set all" if "n \<in> set (placement_order env p command @ primary_and_fallback primary fallback)"
      "dict_get devices n = Some d" "dv_enabled d" "dv_automatic_placement d" for n d
  proof -
    from that(2-4) have "dict_get (enabled_devices devices) n = Some d" using enabled_devices_get [OF assms] by blast
    moreover have "n \<in> set names" using that(1) by (auto simp: names_def set_dedup preference_def Let_def)
    ultimately have "d \<in> set result" unfolding result_def set_map_filter_iff by blast
    then show ?thesis by (auto simp: all_def)
  qed
  have empty: "all = [] \<longleftrightarrow> enabled_devices devices = []"
    by (auto simp: all_def result_def map_filter_def)
  have "order_devices env devices None p command primary fallback =
      (if all = [] then Inl NoEnabledDevices else if filter (\<lambda>d. \<not> is_self env d) all = [] then Inl NoSafeCandidates
       else Inr (filter (\<lambda>d. \<not> is_self env d) all))"
    by (simp add: order_devices_def all_def result_def names_def Let_def)
  with mem hint empty show "case order_devices env devices None p command primary fallback of
      Inr ds \<Rightarrow> ds \<noteq> [] \<and> (\<forall>d \<in> set ds. d \<in> snd ` set devices \<and> dv_enabled d \<and> dv_automatic_placement d \<and> \<not> is_self env d)
        \<and> (\<forall>n d. n \<in> set (placement_order env p command @ primary_and_fallback primary fallback)
             \<and> dict_get devices n = Some d \<and> dv_enabled d \<and> dv_automatic_placement d \<and> \<not> is_self env d \<longrightarrow> d \<in> set ds)
    | Inl e \<Rightarrow> e = (if enabled_devices devices = [] then NoEnabledDevices else NoSafeCandidates)" by auto
  show "n \<noteq> [] \<and> n \<noteq> ''auto'' \<longrightarrow> order_devices env devices (Some n) p command primary fallback =
      (case dict_get devices n of
         Some d \<Rightarrow> if dv_enabled d \<or> dv_allow_explicit_run d then Inr [d] else Inl (UnknownTarget n)
       | None \<Rightarrow> Inl (UnknownTarget n))"
    by (simp add: order_devices_def split: option.split)
qed

definition demo_device :: "string \<Rightarrow> device" where
  "demo_device n = \<lparr>dv_name = n, dv_enabled = True, dv_allow_explicit_run = False, dv_automatic_placement = True,
     dv_tailscale_ip = [], dv_address_candidates = []\<rparr>"

definition demo_schedule :: schedule_env where
  "demo_schedule = \<lparr>sc_casefold = (\<lambda>s. s), sc_local_ip = (\<lambda>_. False), sc_hostname = ''desk'', sc_search = (\<lambda>_ _. None)\<rparr>"

definition no_hints :: placement where
  "no_hints = \<lparr>pm_rules = [], pm_primary = [], pm_fallback = []\<rparr>"

theorem auto_candidates_safe_witness:
  "order_devices demo_schedule [(''desk'', demo_device ''desk''), (''box'', demo_device ''box'')] None no_hints [] [] []
   = Inr [demo_device ''box'']"
proof -
  let ?devices = "[(''desk'', demo_device ''desk''), (''box'', demo_device ''box'')]"
  have "(case order_devices demo_schedule ?devices None no_hints [] [] [] of Inr ds \<Rightarrow> length ds = 1 | _ \<Rightarrow> False)" by code_simp
  then obtain d where "order_devices demo_schedule ?devices None no_hints [] [] [] = Inr [d]"
    by (auto simp: length_Suc_conv split: sum.splits)
  moreover have "is_self demo_schedule (demo_device ''desk'')" by code_simp
  ultimately show ?thesis
    using auto_candidates_safe [of ?devices demo_schedule no_hints "[]" "[]" "[]", THEN conjunct1] by auto
qed

text \<open>
  A hint hides the devices that it does not name: when the configured primary is the
  controller itself and nothing else is named, automatic placement fails, whatever other
  devices are enabled.
\<close>

theorem hint_hides_other_devices:
  assumes "dict_ok devices" and "dict_get devices primary = Some d" and "dv_enabled d" and "dv_automatic_placement d"
    and "is_self env d" and "primary \<noteq> []"
  shows "order_devices env devices None no_hints command primary [] = Inl NoSafeCandidates"
proof -
  have "dict_get (enabled_devices devices) primary = Some d" using assms enabled_devices_get by blast
  then have "preference env devices no_hints command primary [] = [primary]"
    using assms(6) by (simp add: preference_def placement_order_def no_hints_def primary_and_fallback_def map_filter_simps)
  with \<open>dict_get (enabled_devices devices) primary = Some d\<close> assms(5) show ?thesis
    by (simp add: order_devices_def map_filter_simps)
qed

theorem hint_hides_other_devices_witness:
  "order_devices demo_schedule [(''desk'', demo_device ''desk''), (''box'', demo_device ''box'')] None no_hints [] ''desk'' []
   = Inl NoSafeCandidates"
proof (rule hint_hides_other_devices)
  show "is_self demo_schedule (demo_device ''desk'')" by code_simp
qed (simp_all add: demo_device_def)

section \<open>Scope paths\<close>

lemma join_with_chars: "set (join_with sep ps) \<subseteq> \<Union> (set ` set ps) \<union> set sep"
  by (induction sep ps rule: join_with.induct) auto

lemma all_empty_parts:
  assumes "\<forall>p \<in> set (split_on c s). p = []"
  shows "set s \<subseteq> {c}"
proof -
  have "set (join_with [c] (split_on c s)) \<subseteq> {c}" using join_with_chars [of "[c]" "split_on c s"] assms by fastforce
  then show ?thesis by simp
qed

lemma strip_with_keeps: "x \<in> set s \<Longrightarrow> \<not> P x \<Longrightarrow> strip_with P s \<noteq> []"
  by (auto simp: strip_with_def dropWhile_eq_Nil_conv) (metis Un_iff set_append set_takeWhileD takeWhile_dropWhile_id)

lemma normalize_scope_path_safe:
  assumes "normalize_scope_path v = Inr p"
  shows "p \<noteq> [] \<and> CHR '':'' \<notin> set p \<and> CHR 0x5C \<notin> set p
    \<and> (\<forall>part \<in> set (split_on (CHR ''/'') p). part \<noteq> [] \<and> part \<noteq> ''..'')"
proof -
  define path where "path = slash_path (py_strip (py_str v))"
  define parts where "parts = filter (\<lambda>p. p \<noteq> []) (split_on (CHR ''/'') (strip_slash path))"
  from assms have path: "path \<noteq> []" "hd path \<noteq> CHR ''/''" "CHR '':'' \<notin> set path" "''..'' \<notin> set parts"
    and p: "p = join_with ''/'' parts"
    by (auto simp: normalize_scope_path_def Let_def path_def parts_def split: if_splits)
  have no_back: "CHR 0x5C \<notin> set path" by (auto simp: path_def slash_path_def)
  have chars: "set part \<subseteq> set path" if "part \<in> set parts" for part
    using that split_on_chars [of part "CHR ''/''" "strip_slash path"] strip_with_set [of _ path]
    by (auto simp: parts_def strip_slash_def)
  have "strip_slash path \<noteq> []"
    unfolding strip_slash_def by (rule strip_with_keeps [of "hd path"]) (use path in auto)
  with strip_with_hd [of "\<lambda>c. c = CHR ''/''" path] have "\<not> set (strip_slash path) \<subseteq> {CHR ''/''}"
    unfolding strip_slash_def by (metis hd_in_set singletonD subsetD)
  with all_empty_parts [of "CHR ''/''" "strip_slash path"] have ne: "parts \<noteq> []" by (auto simp: parts_def filter_empty_conv)
  have "split_on (CHR ''/'') p = parts"
    unfolding p by (rule split_join [OF ne]) (auto simp: parts_def dest: split_on_parts)
  moreover have "set p \<subseteq> set path \<union> {CHR ''/''}" using join_with_chars [of "''/''" parts] chars p by auto
  moreover have "\<forall>part \<in> set parts. part \<noteq> [] \<and> part \<noteq> ''..''" using path(4) by (auto simp: parts_def)
  moreover have "p \<noteq> []" using ne \<open>split_on (CHR ''/'') p = parts\<close> \<open>\<forall>part \<in> set parts. part \<noteq> [] \<and> part \<noteq> ''..''\<close> by auto
  ultimately show ?thesis using path(3) no_back by auto
qed

lemma normalize_scope_paths_safe:
  "normalize_scope_paths vs = Inr ps \<Longrightarrow> p \<in> set ps \<Longrightarrow> \<exists>v \<in> set vs. normalize_scope_path v = Inr p"
  by (induction vs arbitrary: ps) (auto split: sum.splits)

text \<open>
  A write scope stays inside the project: a scope that is asked for has a name and at least
  one path, and every path of it is relative, has no drive letter and no backslash, and none of
  its components is empty or leads upwards.
\<close>

theorem write_scope_contained:
  assumes "resolve_write_scope config (Some requested) = Inr ws" and "requested \<noteq> []"
  shows "ws_name ws = Some (py_strip requested) \<and> ws_paths ws \<noteq> []
         \<and> (\<forall>p \<in> set (ws_paths ws). p \<noteq> [] \<and> CHR '':'' \<notin> set p \<and> CHR 0x5C \<notin> set p
              \<and> (\<forall>part \<in> set (split_on (CHR ''/'') p). part \<noteq> [] \<and> part \<noteq> ''..''))"
proof -
  from assms obtain v vs where n: "normalize_scope_paths (v # vs) = Inr (ws_paths ws)" and "ws_name ws = Some (py_strip requested)"
    by (auto simp: resolve_write_scope_def Let_def simp del: normalize_scope_paths.simps split: if_splits option.splits json.splits list.splits sum.splits)
  moreover have "ws_paths ws \<noteq> []" using n by (auto split: sum.splits)
  ultimately show ?thesis using normalize_scope_paths_safe [OF n] normalize_scope_path_safe by blast
qed

definition demo_scopes :: "(string, json) dict" where
  "demo_scopes = [(''parallel'', JObj [(''scopes'', JObj [(''a'', JObj [(''paths'', JList [JStr ''out//a/''])])])])]"

theorem write_scope_contained_witness:
  "resolve_write_scope demo_scopes (Some '' a '') = Inr \<lparr>ws_name = Some ''a'', ws_paths = [''out/a'']\<rparr>
   \<and> CHR '':'' \<notin> set ''out/a''"
proof -
  have r: "resolve_write_scope demo_scopes (Some '' a '') = Inr \<lparr>ws_name = Some ''a'', ws_paths = [''out/a'']\<rparr>" by code_simp
  have "''out/a'' \<in> set (ws_paths \<lparr>ws_name = Some ''a'', ws_paths = [''out/a'']\<rparr>)" by simp
  with write_scope_contained [OF r] have "CHR '':'' \<notin> set ''out/a''" by blast
  with r show ?thesis by blast
qed

end
