(* ===== verification/Presence.thy ===== *)
theory Presence
  imports Json
begin

text \<open>
  Owner presence windows (\<open>src/remrun/presence.py\<close>): the parser of the section of the routing
  file, and the queries that keep work off a device while its owner may sit at it.  A moment is
  the number of microseconds of local time since a Monday at midnight; a clock time is the
  number of microseconds since midnight.  White space, letters and digits are the ASCII ones;
  case folding is a parameter.
\<close>

section \<open>Windows\<close>

definition DAY :: int where "DAY = 86400000000"

definition MINUTE :: int where "MINUTE = 60000000"

definition DAYS :: "string list" where
  "DAYS = [''mon'', ''tue'', ''wed'', ''thu'', ''fri'', ''sat'', ''sun'']"

text \<open>An end of \<open>None\<close> is midnight at the end of the day.\<close>

record window =
  wi_day :: int
  wi_start :: int
  wi_end :: "int option"

definition contains :: "window \<Rightarrow> int \<Rightarrow> bool" where
  "contains w now \<longleftrightarrow> now div DAY mod 7 = wi_day w \<and> wi_start w \<le> now mod DAY
     \<and> (case wi_end w of None \<Rightarrow> True | Some e \<Rightarrow> now mod DAY < e)"

definition end_on :: "window \<Rightarrow> int \<Rightarrow> int" where
  "end_on w now = (case wi_end w of None \<Rightarrow> (now div DAY + 1) * DAY | Some e \<Rightarrow> now div DAY * DAY + e)"

datatype presence_status = Valid | Absent | Unavailable | Malformed

datatype presence_error = BadWindow string | UnknownDay string | InvalidTime string | EndsBeforeStart string
  | BadItem | UnknownDevice string

record presence_policy =
  pp_status :: presence_status
  pp_detail :: "(nat \<times> presence_error) option"
  pp_windows :: "(string, window list) dict"

definition device_windows :: "presence_policy \<Rightarrow> string \<Rightarrow> window list" where
  "device_windows pol dev = (case dict_get (pp_windows pol) dev of None \<Rightarrow> [] | Some ws \<Rightarrow> ws)"

definition window_end :: "presence_policy \<Rightarrow> string \<Rightarrow> int \<Rightarrow> int option" where
  "window_end pol dev now =
     (if pp_status pol \<noteq> Valid then None
      else (case map (\<lambda>w. end_on w now) (filter (\<lambda>w. contains w now) (device_windows pol dev)) of
              [] \<Rightarrow> None
            | e # es \<Rightarrow> Some (fold max es e)))"

definition window_starts :: "presence_policy \<Rightarrow> string \<Rightarrow> int \<Rightarrow> int list" where
  "window_starts pol dev now =
     concat (map (\<lambda>offset.
       let day = now div DAY + int offset in
       map (\<lambda>w. day * DAY + wi_start w)
         (filter (\<lambda>w. wi_day w = day mod 7 \<and> now < day * DAY + wi_start w) (device_windows pol dev))) [0..<8])"

definition next_window_start :: "presence_policy \<Rightarrow> string \<Rightarrow> int \<Rightarrow> int option" where
  "next_window_start pol dev now =
     (if pp_status pol \<noteq> Valid then None
      else (case window_starts pol dev now of [] \<Rightarrow> None | s # ss \<Rightarrow> Some (fold min ss s)))"

section \<open>The parser\<close>

definition letter :: "char \<Rightarrow> bool" where
  "letter c \<longleftrightarrow> (CHR ''A'' \<le> c \<and> c \<le> CHR ''Z'') \<or> (CHR ''a'' \<le> c \<and> c \<le> CHR ''z'')"

definition digit_value :: "char \<Rightarrow> int" where
  "digit_value c = int (of_char c) - 48"

text \<open>\<open>\d{2}:\d{2}\<close>, as hours and minutes.\<close>

fun clock_fields :: "string \<Rightarrow> (int \<times> int) option" where
  "clock_fields [a, b, c, d, e] =
     (if dec_digit a \<and> dec_digit b \<and> c = CHR '':'' \<and> dec_digit d \<and> dec_digit e
      then Some (digit_value a * 10 + digit_value b, digit_value d * 10 + digit_value e) else None)"
| "clock_fields _ = None"

text \<open>\<open>_clock\<close>: the inner option is the midnight at the end of the day.\<close>

definition clock :: "bool \<Rightarrow> int \<times> int \<Rightarrow> int option option" where
  "clock is_end hm =
     (case hm of (h, m) \<Rightarrow>
        if is_end \<and> h = 24 \<and> m = 0 then Some None
        else if h > 23 \<or> m > 59 then None
        else Some (Some ((h * 60 + m) * MINUTE)))"

text \<open>The groups of \<open>_WINDOW\<close>.\<close>

definition window_fields :: "string \<Rightarrow> (string \<times> (int \<times> int) \<times> (int \<times> int)) option" where
  "window_fields s =
     (let r = drop 3 s; t = dropWhile py_space r in
      if length (take 3 s) = 3 \<and> list_all letter (take 3 s) \<and> takeWhile py_space r \<noteq> [] \<and> length t = 11 \<and> t ! 5 = CHR ''-''
      then (case (clock_fields (take 5 t), clock_fields (drop 6 t)) of
              (Some a, Some b) \<Rightarrow> Some (take 3 s, a, b)
            | _ \<Rightarrow> None)
      else None)"

fun index_of :: "'a \<Rightarrow> 'a list \<Rightarrow> nat option" where
  "index_of x [] = None"
| "index_of x (y # ys) = (if x = y then Some 0 else map_option Suc (index_of x ys))"

definition parse_window :: "(string \<Rightarrow> string) \<Rightarrow> string \<Rightarrow> presence_error + window" where
  "parse_window casefold item =
     (case window_fields (py_strip item) of
        None \<Rightarrow> Inl (BadWindow (py_strip item))
      | Some (day, a, b) \<Rightarrow>
          (case index_of (casefold day) DAYS of
             None \<Rightarrow> Inl (UnknownDay day)
           | Some n \<Rightarrow>
               (case clock False a of
                  Some (Some start) \<Rightarrow>
                    (case clock True b of
                       None \<Rightarrow> Inl (InvalidTime (py_strip item))
                     | Some None \<Rightarrow> Inr \<lparr>wi_day = int n, wi_start = start, wi_end = None\<rparr>
                     | Some (Some e) \<Rightarrow>
                         if e \<le> start then Inl (EndsBeforeStart (py_strip item))
                         else Inr \<lparr>wi_day = int n, wi_start = start, wi_end = Some e\<rparr>)
                | _ \<Rightarrow> Inl (InvalidTime (py_strip item)))))"

fun parse_items :: "(string \<Rightarrow> string) \<Rightarrow> string list \<Rightarrow> presence_error + window list" where
  "parse_items casefold [] = Inr []"
| "parse_items casefold (i # is) =
     (case parse_window casefold i of
        Inl e \<Rightarrow> Inl e
      | Inr w \<Rightarrow> (case parse_items casefold is of Inl e \<Rightarrow> Inl e | Inr ws \<Rightarrow> Inr (w # ws)))"

definition parse_windows :: "(string \<Rightarrow> string) \<Rightarrow> string \<Rightarrow> presence_error + window list" where
  "parse_windows casefold s = parse_items casefold (split_on (CHR '';'') s)"

text \<open>\<open>str.splitlines()\<close>.\<close>

definition line_break :: "char \<Rightarrow> bool" where
  "line_break c \<longleftrightarrow> c \<in> {CHR 0x0A, CHR 0x0B, CHR 0x0C, CHR 0x0D, CHR 0x1C, CHR 0x1D, CHR 0x1E}"

fun split_lines :: "string \<Rightarrow> string \<Rightarrow> string list" where
  "split_lines cur [] = (if cur = [] then [] else [rev cur])"
| "split_lines cur (c # cs) =
     (if c = CHR 0x0D \<and> cs \<noteq> [] \<and> hd cs = CHR 0x0A then rev cur # split_lines [] (tl cs)
      else if line_break c then rev cur # split_lines [] cs
      else split_lines (c # cur) cs)"

text \<open>\<open>_LIST_ITEM\<close>: a bullet or a number, and white space after it.\<close>

definition bullet :: "char \<Rightarrow> bool" where
  "bullet c \<longleftrightarrow> c \<in> set ''-*+''"

definition list_item :: "string \<Rightarrow> bool" where
  "list_item line \<longleftrightarrow>
     (case line of
        c # d # _ \<Rightarrow> bullet c \<and> py_space d
      | _ \<Rightarrow> False)
     \<or> (takeWhile dec_digit line \<noteq> []
        \<and> (case dropWhile dec_digit line of c # d # _ \<Rightarrow> c \<in> set ''.)'' \<and> py_space d | _ \<Rightarrow> False))"

definition device_name_char :: "char \<Rightarrow> bool" where
  "device_name_char c \<longleftrightarrow> letter c \<or> dec_digit c \<or> c \<in> set ''_.-''"

text \<open>
  The groups of \<open>_BULLET\<close>: the device names before the first colon and the rest.  When nothing
  stands before the colon, a second white space is the name.
\<close>

definition bullet_fields :: "string \<Rightarrow> (string \<times> string) option" where
  "bullet_fields line =
     (case line of
        [] \<Rightarrow> None
      | c # r \<Rightarrow>
          (let ws = takeWhile py_space r; t = dropWhile py_space r; names = takeWhile (\<lambda>c. c \<noteq> CHR '':'') t in
           if \<not> bullet c \<or> ws = [] \<or> length names = length t then None
           else if names = [] then (if length ws < 2 then None else Some ([last ws], drop 1 t))
           else Some (names, drop (length names + 1) t)))"

definition known_devices :: "(string \<Rightarrow> string) \<Rightarrow> string list \<Rightarrow> (string, string) dict" where
  "known_devices casefold devices = foldl (\<lambda>d n. dict_set (casefold n) n d) [] devices"

definition parse_item ::
  "(string \<Rightarrow> string) \<Rightarrow> (string, string) dict \<Rightarrow> string \<Rightarrow> presence_error + string list \<times> window list" where
  "parse_item casefold known line =
     (case bullet_fields line of
        None \<Rightarrow> Inl BadItem
      | Some (names0, rest) \<Rightarrow>
          (let names = map py_strip (split_on (CHR '','') names0) in
           case find (\<lambda>n. n = [] \<or> \<not> list_all device_name_char n \<or> dict_get known (casefold n) = None) names of
             Some n \<Rightarrow> Inl (UnknownDevice n)
           | None \<Rightarrow>
               (case parse_windows casefold (py_strip (takeWhile (\<lambda>c. c \<noteq> CHR ''('') rest)) of
                  Inl e \<Rightarrow> Inl e
                | Inr ws \<Rightarrow> Inr (map (\<lambda>n. the (dict_get known (casefold n))) names, ws))))"

definition add_windows :: "string list \<Rightarrow> window list \<Rightarrow> (string, window list) dict \<Rightarrow> (string, window list) dict" where
  "add_windows names ws d =
     foldl (\<lambda>d n. dict_set n ((case dict_get d n of None \<Rightarrow> [] | Some old \<Rightarrow> old) @ ws) d) d names"

definition section_heading :: "(string \<Rightarrow> string) \<Rightarrow> string \<Rightarrow> bool" where
  "section_heading casefold line \<longleftrightarrow> casefold (py_strip (dropWhile (\<lambda>c. c = CHR ''#'') line)) = ''owner presence''"

fun parse_lines ::
  "(string \<Rightarrow> string) \<Rightarrow> (string, string) dict \<Rightarrow> nat \<Rightarrow> string list \<Rightarrow> bool \<Rightarrow> bool \<Rightarrow> (string, window list) dict \<Rightarrow> presence_policy" where
  "parse_lines casefold known n [] inside found ws =
     (if found then \<lparr>pp_status = Valid, pp_detail = None, pp_windows = ws\<rparr>
      else \<lparr>pp_status = Absent, pp_detail = None, pp_windows = []\<rparr>)"
| "parse_lines casefold known n (raw # r) inside found ws =
     (let line = py_strip raw in
      if line \<noteq> [] \<and> hd line = CHR ''#''
      then parse_lines casefold known (Suc n) r (section_heading casefold line) (found \<or> section_heading casefold line) ws
      else if \<not> inside \<or> \<not> list_item line then parse_lines casefold known (Suc n) r inside found ws
      else (case parse_item casefold known line of
              Inl e \<Rightarrow> \<lparr>pp_status = Malformed, pp_detail = Some (n, e), pp_windows = []\<rparr>
            | Inr (names, parsed) \<Rightarrow> parse_lines casefold known (Suc n) r inside found (add_windows names parsed ws)))"

definition parse_presence :: "(string \<Rightarrow> string) \<Rightarrow> string \<Rightarrow> string list \<Rightarrow> presence_policy" where
  "parse_presence casefold s devices = parse_lines casefold (known_devices casefold devices) 1 (split_lines [] s) False False []"

end
