(* ===== verification/PresenceSafety.thy ===== *)
theory PresenceSafety
  imports Presence
begin

text \<open>
  Properties of presence windows: what the parser accepts is well formed and names configured
  devices, anything else applies no rule, and the queries are exact.
\<close>

section \<open>Well-formed windows\<close>

definition wf_window :: "window \<Rightarrow> bool" where
  "wf_window w \<longleftrightarrow> 0 \<le> wi_day w \<and> wi_day w < 7 \<and> 0 \<le> wi_start w \<and> wi_start w < DAY
     \<and> (case wi_end w of None \<Rightarrow> True | Some e \<Rightarrow> wi_start w < e \<and> e < DAY)"

lemma DAY_pos: "0 < DAY"
  by (simp add: DAY_def)

lemma digit_range: "dec_digit c \<Longrightarrow> 0 \<le> digit_value c \<and> digit_value c \<le> 9"
  by (auto simp: dec_digit_def digit_value_def less_eq_char_def)

lemma clock_fields_range: "clock_fields s = Some (h, m) \<Longrightarrow> 0 \<le> h \<and> 0 \<le> m"
  by (cases s rule: clock_fields.cases) (auto split: if_splits dest!: digit_range)

lemma clock_range:
  assumes "clock b (h, m) = Some (Some t)" and "0 \<le> h" and "0 \<le> m"
  shows "0 \<le> t \<and> t < DAY"
proof -
  from assms have "t = (h * 60 + m) * MINUTE" "h \<le> 23" "m \<le> 59" by (auto simp: clock_def split: if_splits)
  then show ?thesis using assms(2,3) by (simp add: MINUTE_def DAY_def)
qed

lemma index_of_bound: "index_of x xs = Some n \<Longrightarrow> n < length xs"
  by (induction xs arbitrary: n) (auto split: if_splits)

lemma window_fields_range:
  "window_fields s = Some (d, (h, m), (h', m')) \<Longrightarrow> 0 \<le> h \<and> 0 \<le> m \<and> 0 \<le> h' \<and> 0 \<le> m'"
  by (auto simp: window_fields_def Let_def split: if_splits option.splits dest!: clock_fields_range)

lemma parse_window_wf:
  assumes "parse_window cf item = Inr w"
  shows "wf_window w"
proof -
  obtain d h m h' m' where f: "window_fields (py_strip item) = Some (d, (h, m), (h', m'))"
    using assms by (auto simp: parse_window_def split: option.splits)
  from f assms obtain n start where n: "index_of (cf d) DAYS = Some n" and start: "clock False (h, m) = Some (Some start)"
    by (auto simp: parse_window_def split: option.splits)
  from index_of_bound [OF n] have "int n < 7" by (simp add: DAYS_def)
  moreover from clock_range [OF start] window_fields_range [OF f] have "0 \<le> start \<and> start < DAY" by simp
  moreover have "0 \<le> e \<and> e < DAY" if "clock True (h', m') = Some (Some e)" for e
    using clock_range [OF that] window_fields_range [OF f] by simp
  ultimately show ?thesis
    using assms f n start by (auto simp: parse_window_def wf_window_def split: option.splits if_splits)
qed

lemma parse_items_wf: "parse_items cf is = Inr ws \<Longrightarrow> w \<in> set ws \<Longrightarrow> wf_window w"
  by (induction "is" arbitrary: ws) (auto split: sum.splits dest: parse_window_wf)

section \<open>Devices\<close>

lemma known_devices_mem: "dict_get (known_devices cf devices) k = Some n \<Longrightarrow> n \<in> set devices"
proof -
  have "dict_get (foldl (\<lambda>d n. dict_set (cf n) n d) d0 devices) k = Some n \<Longrightarrow> n \<in> set devices \<or> dict_get d0 k = Some n" for d0
    by (induction devices arbitrary: d0) (fastforce simp: update_conv' split: if_splits)+
  from this [of "[]"] show "dict_get (known_devices cf devices) k = Some n \<Longrightarrow> n \<in> set devices" by (simp add: known_devices_def)
qed

definition windows_ok :: "string list \<Rightarrow> (string, window list) dict \<Rightarrow> bool" where
  "windows_ok devices d \<longleftrightarrow> (\<forall>dev ws. dict_get d dev = Some ws \<longrightarrow> dev \<in> set devices \<and> (\<forall>w \<in> set ws. wf_window w))"

lemma add_windows_ok:
  "windows_ok devices d \<Longrightarrow> set names \<subseteq> set devices \<Longrightarrow> \<forall>w \<in> set ws. wf_window w \<Longrightarrow> windows_ok devices (add_windows names ws d)"
proof (induction names arbitrary: d)
  case (Cons n names)
  have "windows_ok devices (dict_set n ((case dict_get d n of None \<Rightarrow> [] | Some old \<Rightarrow> old) @ ws) d)"
    using Cons.prems by (cases "dict_get d n") (auto simp: windows_ok_def update_conv' split: if_splits)
  from Cons.IH [OF this] Cons.prems show ?case by (simp add: add_windows_def)
qed (simp add: add_windows_def)

lemma parse_item_ok:
  assumes "parse_item cf (known_devices cf devices) line = Inr (names, ws)"
  shows "set names \<subseteq> set devices \<and> (\<forall>w \<in> set ws. wf_window w)"
proof -
  obtain names0 rest where f: "bullet_fields line = Some (names0, rest)"
    using assms by (auto simp: parse_item_def split: option.splits)
  define ns where "ns = map py_strip (split_on (CHR '','') names0)"
  from assms f have none: "find (\<lambda>n. n = [] \<or> \<not> list_all device_name_char n \<or> dict_get (known_devices cf devices) (cf n) = None) ns = None"
    and names: "names = map (\<lambda>n. the (dict_get (known_devices cf devices) (cf n))) ns"
    and ws: "parse_windows cf (py_strip (takeWhile (\<lambda>c. c \<noteq> CHR ''('') rest)) = Inr ws"
    by (auto simp: parse_item_def ns_def Let_def split: option.splits sum.splits)
  from none have "\<forall>n \<in> set ns. dict_get (known_devices cf devices) (cf n) \<noteq> None" by (auto simp: find_None_iff)
  then have "set names \<subseteq> set devices" using known_devices_mem by (fastforce simp: names)
  with ws parse_items_wf show ?thesis by (auto simp: parse_windows_def)
qed

definition policy_ok :: "string list \<Rightarrow> presence_policy \<Rightarrow> bool" where
  "policy_ok devices pol \<longleftrightarrow> windows_ok devices (pp_windows pol) \<and> (pp_status pol = Valid \<or> pp_windows pol = [])"

lemma parse_lines_ok:
  "windows_ok devices ws \<Longrightarrow> policy_ok devices (parse_lines cf (known_devices cf devices) n ls inside found ws)"
proof (induction ls arbitrary: n inside found ws)
  case Nil
  then show ?case by (simp add: policy_ok_def windows_ok_def)
next
  case (Cons raw ls)
  have item: "policy_ok devices (case parse_item cf (known_devices cf devices) (py_strip raw) of
      Inl e \<Rightarrow> \<lparr>pp_status = Malformed, pp_detail = Some (n, e), pp_windows = []\<rparr>
    | Inr (names, parsed) \<Rightarrow> parse_lines cf (known_devices cf devices) (Suc n) ls inside found (add_windows names parsed ws))"
    (is "policy_ok devices ?item")
  proof (cases "parse_item cf (known_devices cf devices) (py_strip raw)")
    case (Inr r)
    obtain names parsed where r: "r = (names, parsed)" by (cases r)
    from parse_item_ok [of cf devices "py_strip raw"] Inr r have "windows_ok devices (add_windows names parsed ws)"
      by (intro add_windows_ok Cons.prems) auto
    with Cons.IH Inr r show ?thesis by simp
  qed (simp add: policy_ok_def windows_ok_def)
  have either: "policy_ok devices (if c then a else b)" if "policy_ok devices a" "policy_ok devices b" for c a b
    using that by simp
  show ?case unfolding parse_lines.simps Let_def by (intro either item Cons.IH Cons.prems)
qed

lemma parse_presence_windows:
  "w \<in> set (device_windows (parse_presence cf s devices) dev) \<Longrightarrow> wf_window w \<and> dev \<in> set devices"
  "pp_status (parse_presence cf s devices) = Valid \<or> pp_windows (parse_presence cf s devices) = []"
proof -
  have "windows_ok devices []" by (simp add: windows_ok_def)
  then have "policy_ok devices (parse_presence cf s devices)" unfolding parse_presence_def by (rule parse_lines_ok)
  then show "w \<in> set (device_windows (parse_presence cf s devices) dev) \<Longrightarrow> wf_window w \<and> dev \<in> set devices"
    "pp_status (parse_presence cf s devices) = Valid \<or> pp_windows (parse_presence cf s devices) = []"
    by (auto simp: policy_ok_def windows_ok_def device_windows_def split: option.splits dest: sym)
qed

text \<open>
  C38: A policy is sound by construction: whatever the routing file holds, the parser returns
  windows only for configured devices, each on a day of the week with a start before its end
  within the day, and a file that is malformed or has no section gives no window at all.
\<close>

theorem presence_policy_well_formed:
  "let pol = parse_presence cf text_of_file devices in
     (\<forall>dev. \<forall>w \<in> set (device_windows pol dev). wf_window w \<and> dev \<in> set devices)
     \<and> (pp_status pol = Valid \<or> pp_windows pol = [])"
  using parse_presence_windows by (auto simp: Let_def)

definition demo_casefold :: "string \<Rightarrow> string" where
  "demo_casefold = map (\<lambda>c. if CHR ''A'' \<le> c \<and> c \<le> CHR ''Z'' then char_of (of_char c + 32 :: nat) else c)"

theorem presence_policy_well_formed_witness:
  "device_windows (parse_presence demo_casefold (''# Owner presence'' @ [CHR 0x0A] @ ''- ghost: Mon 01:00-02:00'') [''box'']) ''ghost'' = []"
proof -
  let ?pol = "parse_presence demo_casefold (''# Owner presence'' @ [CHR 0x0A] @ ''- ghost: Mon 01:00-02:00'') [''box'']"
  have "\<not> w \<in> set (device_windows ?pol ''ghost'')" for w
    using presence_policy_well_formed [of demo_casefold "''# Owner presence'' @ [CHR 0x0A] @ ''- ghost: Mon 01:00-02:00''" "[''box'']"]
    unfolding Let_def by auto
  then show ?thesis by (cases "device_windows ?pol ''ghost''") (auto simp del: append.simps)
qed

section \<open>Queries\<close>

definition starts_at :: "window \<Rightarrow> int \<Rightarrow> bool" where
  "starts_at w t \<longleftrightarrow> t mod DAY = wi_start w \<and> t div DAY mod 7 = wi_day w"

lemma fold_min_le: "fold min xs (x :: int) \<in> set (x # xs) \<and> (\<forall>y \<in> set (x # xs). fold min xs x \<le> y)"
proof (induction xs arbitrary: x)
  case (Cons a xs)
  from Cons [of "min a x"] show ?case by (auto simp: min_def split: if_splits)
qed simp

lemma fold_max_ge: "fold max xs (x :: int) \<in> set (x # xs) \<and> (\<forall>y \<in> set (x # xs). y \<le> fold max xs x)"
proof (induction xs arbitrary: x)
  case (Cons a xs)
  from Cons [of "max a x"] show ?case by (auto simp: max_def split: if_splits)
qed simp

lemma window_starts_iff:
  "s \<in> set (window_starts pol dev now) \<longleftrightarrow>
     (\<exists>w \<in> set (device_windows pol dev). \<exists>k. 0 \<le> k \<and> k < 8 \<and> wi_day w = (now div DAY + k) mod 7
        \<and> s = (now div DAY + k) * DAY + wi_start w \<and> now < s)"
  (is "?L \<longleftrightarrow> ?R")
proof
  assume ?L
  then obtain offset w where "offset < 8" "w \<in> set (device_windows pol dev)" "wi_day w = (now div DAY + int offset) mod 7"
      "s = (now div DAY + int offset) * DAY + wi_start w" "now < s"
    by (auto simp: window_starts_def Let_def)
  then show ?R by (intro bexI [of _ w] exI [of _ "int offset"]) auto
next
  assume ?R
  then obtain w k where w: "w \<in> set (device_windows pol dev)" and k: "0 \<le> k" "k < 8" "wi_day w = (now div DAY + k) mod 7"
      "s = (now div DAY + k) * DAY + wi_start w" "now < s" by blast
  from k have "nat k \<in> set [0..<8]" "int (nat k) = k" by auto
  with w k show ?L unfolding window_starts_def Let_def by (auto intro!: bexI [of _ "nat k"] image_eqI [of _ _ w])
qed

text \<open>The next start of one window is among the eight days that are looked at.\<close>

lemma start_within_week:
  assumes "wf_window w" and "now < t" and "starts_at w t"
  shows "\<exists>k. 0 \<le> k \<and> k < 8 \<and> wi_day w = (now div DAY + k) mod 7
           \<and> now < (now div DAY + k) * DAY + wi_start w \<and> (now div DAY + k) * DAY + wi_start w \<le> t"
proof -
  define d where "d = now div DAY" define e where "e = t div DAY"
  have t: "t = e * DAY + wi_start w" "wi_day w = e mod 7"
    using assms(3) div_mult_mod_eq [of t DAY] by (simp_all add: starts_at_def e_def)
  have now: "d * DAY \<le> now" "now < d * DAY + DAY"
    using div_mult_mod_eq [of now DAY] pos_mod_bound [OF DAY_pos, of now] pos_mod_sign [OF DAY_pos, of now] unfolding d_def by linarith+
  have ge: "d \<le> e" unfolding d_def e_def using assms(2) DAY_pos by (simp add: zdiv_mono1)
  from assms(1) have st: "0 \<le> wi_start w" "wi_start w < DAY" by (simp_all add: wf_window_def)
  define k where "k = (e - d) mod 7"
  have k: "0 \<le> k" "k < 7" "(d + k) mod 7 = e mod 7" by (simp_all add: k_def mod_simps)
  have le: "k \<le> e - d" unfolding k_def using ge by (simp add: zmod_le_nonneg_dividend)
  have mono: "i * DAY \<le> j * DAY" if "i \<le> j" for i j using that DAY_pos by (simp add: mult_right_mono)
  show ?thesis
  proof (cases "now < (d + k) * DAY + wi_start w")
    case True
    with k le mono [of "d + k" e] t show ?thesis by (intro exI [of _ k]) (simp add: d_def [symmetric])
  next
    case False
    have "k = 0"
    proof (rule ccontr)
      assume "k \<noteq> 0"
      with k mono [of "d + 1" "d + k"] have "d * DAY + DAY \<le> (d + k) * DAY" by (simp add: distrib_right)
      with False now st show False by linarith
    qed
    with False t assms(2) have "e \<noteq> d" by auto
    with \<open>k = 0\<close> ge have "d + 7 \<le> e" unfolding k_def by presburger
    with mono [of "d + 7" e] t have "(d + 7) * DAY + wi_start w \<le> t" by linarith
    moreover have "now < (d + 7) * DAY + wi_start w" using now st by (simp add: distrib_right)
    ultimately show ?thesis using k(3) \<open>k = 0\<close> t(2) by (intro exI [of _ 7]) (simp add: d_def [symmetric])
  qed
qed

lemma at_day: "0 \<le> r \<Longrightarrow> r < DAY \<Longrightarrow> (q * DAY + r) div DAY = q \<and> (q * DAY + r) mod DAY = r"
  using DAY_pos by (simp add: div_add1_eq)

lemma starts_at_day: "wf_window w \<Longrightarrow> starts_at w (q * DAY + wi_start w) \<longleftrightarrow> q mod 7 = wi_day w"
  by (simp add: starts_at_def at_day wf_window_def)

lemma starts_at_week: "wf_window w \<Longrightarrow> starts_at w t \<Longrightarrow> starts_at w (t - 7 * DAY)"
proof -
  assume wf: "wf_window w" and st: "starts_at w t"
  have "t = t div DAY * DAY + wi_start w" using st div_mult_mod_eq [of t DAY] by (simp add: starts_at_def)
  then have "t - 7 * DAY = (t div DAY - 7) * DAY + wi_start w" by (simp add: left_diff_distrib)
  moreover have "(t div DAY - 7) mod 7 = wi_day w" using st by (simp add: starts_at_def)
  ultimately show ?thesis using starts_at_day [OF wf] by simp
qed

lemma day_bounds: "now div DAY * DAY \<le> now" "now < now div DAY * DAY + DAY"
  using div_mult_mod_eq [of now DAY] pos_mod_bound [OF DAY_pos, of now] pos_mod_sign [OF DAY_pos, of now] by linarith+

lemma later_start:
  assumes "wf_window w"
  shows "\<exists>t. now < t \<and> starts_at w t"
proof -
  define q where "q = now div DAY + 1 + (wi_day w - (now div DAY + 1)) mod 7"
  have "q mod 7 = wi_day w" using assms by (simp add: q_def mod_simps wf_window_def)
  moreover have "(now div DAY + 1) * DAY \<le> q * DAY" using DAY_pos by (intro mult_right_mono) (simp_all add: q_def)
  moreover have "0 \<le> wi_start w" using assms by (simp add: wf_window_def)
  ultimately show ?thesis
    using starts_at_day [OF assms, of q] day_bounds(2) [of now] by (intro exI [of _ "q * DAY + wi_start w"]) (simp add: distrib_right)
qed

lemma next_window_start_exact:
  assumes "pp_status pol = Valid" and wf: "\<forall>w \<in> set (device_windows pol dev). wf_window w"
  shows "case next_window_start pol dev now of
            None \<Rightarrow> device_windows pol dev = []
          | Some s \<Rightarrow> now < s \<and> s \<le> now + 7 * DAY \<and> (\<exists>w \<in> set (device_windows pol dev). starts_at w s)
              \<and> (\<forall>w \<in> set (device_windows pol dev). \<forall>t. now < t \<and> starts_at w t \<longrightarrow> s \<le> t)"
proof -
  have found: "\<exists>s \<in> set (window_starts pol dev now). s \<le> t" if w: "w \<in> set (device_windows pol dev)" and "now < t" "starts_at w t" for w t
    using start_within_week [OF _ that(2,3)] wf w unfolding Bex_def window_starts_iff by blast
  show ?thesis
  proof (cases "window_starts pol dev now")
    case Nil
    with found later_start wf have "device_windows pol dev = []" by (cases "device_windows pol dev") fastforce+
    with Nil assms(1) show ?thesis by (simp add: next_window_start_def)
  next
    case (Cons a as)
    define s where "s = fold min as a"
    from fold_min_le [of as a] Cons have s: "s \<in> set (window_starts pol dev now)" "\<forall>y \<in> set (window_starts pol dev now). s \<le> y"
      by (simp_all add: s_def)
    from s(1) obtain w q where w: "w \<in> set (device_windows pol dev)" "now < s" "s = q * DAY + wi_start w" "q mod 7 = wi_day w"
      unfolding window_starts_iff by fastforce
    then have at: "starts_at w s" using wf starts_at_day by blast
    have least: "s \<le> t" if "w' \<in> set (device_windows pol dev)" "now < t" "starts_at w' t" for w' t
      using found [OF that] s(2) by force
    have "s \<le> now + 7 * DAY"
      using least [OF w(1), of "s - 7 * DAY"] starts_at_week [OF _ at] wf w(1) DAY_pos by force
    with w at least Cons assms(1) show ?thesis by (auto simp: next_window_start_def s_def [symmetric])
  qed
qed

lemma contains_until:
  assumes "wf_window w" and "contains w now"
  shows "now < end_on w now" and "now \<le> t \<Longrightarrow> t < end_on w now \<Longrightarrow> contains w t"
proof -
  define d where "d = now div DAY"
  note b = day_bounds [of now, folded d_def]
  have r: "now mod DAY = now - d * DAY" unfolding d_def using div_mult_mod_eq [of now DAY] by linarith
  have e: "end_on w now \<le> d * DAY + DAY"
    using assms(1) by (auto simp: end_on_def wf_window_def d_def [symmetric] distrib_right split: option.splits)
  show "now < end_on w now"
    using assms(2) b r by (auto simp: end_on_def contains_def d_def [symmetric] distrib_right split: option.splits)
  assume t: "now \<le> t" "t < end_on w now"
  then have "t = d * DAY + (t - d * DAY)" "0 \<le> t - d * DAY" "t - d * DAY < DAY" using b e by linarith+
  then have "t div DAY = d" "t mod DAY = t - d * DAY" using at_day [of "t - d * DAY" d] by simp_all
  with t assms(2) r show "contains w t"
    by (auto simp: contains_def end_on_def d_def [symmetric] split: option.splits)
qed

lemma window_end_exact:
  assumes "pp_status pol = Valid" and wf: "\<forall>w \<in> set (device_windows pol dev). wf_window w"
  shows "case window_end pol dev now of
              None \<Rightarrow> \<not> (\<exists>w \<in> set (device_windows pol dev). contains w now)
            | Some e \<Rightarrow> now < e \<and> (\<forall>t. now \<le> t \<and> t < e \<longrightarrow> (\<exists>w \<in> set (device_windows pol dev). contains w t))"
proof (cases "map (\<lambda>w. end_on w now) (filter (\<lambda>w. contains w now) (device_windows pol dev))")
  case Nil
  then show ?thesis using assms(1) by (simp add: window_end_def filter_empty_conv)
next
  case (Cons a as)
  with fold_max_ge [of as a] have "fold max as a \<in> set (map (\<lambda>w. end_on w now) (filter (\<lambda>w. contains w now) (device_windows pol dev)))"
    by simp
  then obtain w where w: "w \<in> set (device_windows pol dev)" "contains w now" "fold max as a = end_on w now" by auto
  with contains_until [of w now] wf Cons assms(1) show ?thesis by (auto simp: window_end_def)
qed

text \<open>
  The queries are exact, for every valid policy of well-formed windows.  The next start is
  later than now, at most a week away, the start of a window of the device, and no window of
  the device starts in between; there is none only when the device has no window.  The end is
  given exactly inside a window, it is later than now, and the device is inside one of its
  windows at every moment until then.
\<close>

theorem presence_queries_exact:
  assumes "pp_status pol = Valid" and "\<forall>w \<in> set (device_windows pol dev). wf_window w"
  shows "(case next_window_start pol dev now of
            None \<Rightarrow> device_windows pol dev = []
          | Some s \<Rightarrow> now < s \<and> s \<le> now + 7 * DAY \<and> (\<exists>w \<in> set (device_windows pol dev). starts_at w s)
              \<and> (\<forall>w \<in> set (device_windows pol dev). \<forall>t. now < t \<and> starts_at w t \<longrightarrow> s \<le> t))
         \<and> (case window_end pol dev now of
              None \<Rightarrow> \<not> (\<exists>w \<in> set (device_windows pol dev). contains w now)
            | Some e \<Rightarrow> now < e \<and> (\<forall>t. now \<le> t \<and> t < e \<longrightarrow> (\<exists>w \<in> set (device_windows pol dev). contains w t)))"
  using next_window_start_exact [OF assms] window_end_exact [OF assms] by blast

definition demo_policy_text :: string where
  "demo_policy_text = ''# Owner presence'' @ [CHR 0x0A] @ ''- box: Wed 04:30-09:30; Sat 00:00-24:00 (note)''"

theorem presence_queries_exact_witness:
  "\<exists>s. next_window_start (parse_presence demo_casefold demo_policy_text [''box'']) ''box'' 0 = Some s
     \<and> s = 2 * DAY + 270 * MINUTE \<and> 0 < s \<and> s \<le> 7 * DAY"
proof -
  let ?pol = "parse_presence demo_casefold demo_policy_text [''box'']"
  have v: "pp_status ?pol = Valid" by code_simp
  have wf: "\<forall>w \<in> set (device_windows ?pol ''box''). wf_window w"
    using parse_presence_windows(1) by blast
  have n: "next_window_start ?pol ''box'' 0 = Some (2 * DAY + 270 * MINUTE)" by code_simp
  from presence_queries_exact [OF v wf, of 0] show ?thesis unfolding n by simp
qed

end
