(* ===== verification/TargetRecovery.thy ===== *)
theory TargetRecovery
  imports FleetHistory TargetResources
begin

text \<open>
  How the dispatcher recovers batches whose lease expired against the truth of their target
  (\<open>src/remrun/fleet/dispatcher.py\<close>), through the client of \<open>src/remrun/target_resources.py\<close> and the
  queries of \<open>src/remrun/fleet/queue.py\<close> that only recovery makes.  The queue and the resources of
  every target are the models of \<open>FleetQueue\<close>, \<open>FleetRecovery\<close> and \<open>TargetResources\<close>.  Between any
  two remote calls other processes may change both; a call may be lost before or after it took
  effect.
\<close>

section \<open>The world of a dispatcher\<close>

text \<open>
  What another controller or an owner does on a target; whether a call and its answer arrive;
  and all that happens at one remote call: the operations of other processes on the queue and on
  the target before it, the target's environment, the text of the exception when the call fails,
  the controller's clock after it and the document that \<open>durable_status\<close> would return.
\<close>

datatype target_event = ByController target_env string string rpc_op request | ByOwner target_env owner_op request

datatype link = Delivered | Undelivered | Unanswered

record call_event =
  ce_ops :: "(string \<times> fleet_op) list"
  ce_target :: "target_event list"
  ce_env :: target_env
  ce_link :: link
  ce_error :: string
  ce_now :: string
  ce_durable :: json

text \<open>
  The staging directories and the durable records are those of the operations of a device.
\<close>

record fleet_world =
  fw_queue :: queue_db
  fw_targets :: "string \<Rightarrow> participant"
  fw_stages :: "(string \<times> string) list"
  fw_durables :: "(string \<times> string) list"
  fw_clock :: string
  fw_script :: "call_event list"

type_synonym 'a remote = "fleet_world \<Rightarrow> (string + 'a) \<times> fleet_world"

definition rm_return :: "'a \<Rightarrow> 'a remote" where
  "rm_return x w = (Inr x, w)"

definition rm_bind :: "'a remote \<Rightarrow> ('a \<Rightarrow> 'b remote) \<Rightarrow> 'b remote" where
  "rm_bind m f w = (case m w of (Inl e, w') \<Rightarrow> (Inl e, w') | (Inr x, w') \<Rightarrow> f x w')"

text \<open>\<open>except (OSError, TargetResourceError, TransportError, ValueError)\<close>.\<close>

definition rm_catch :: "'a remote \<Rightarrow> 'a \<Rightarrow> 'a remote" where
  "rm_catch m x w = (case m w of (Inl e, w') \<Rightarrow> (Inr x, w') | (Inr y, w') \<Rightarrow> (Inr y, w'))"

definition on_queue :: "(queue_db \<Rightarrow> 'a \<times> queue_db) \<Rightarrow> 'a remote" where
  "on_queue f w = (let (x, db) = f (fw_queue w) in (Inr x, w\<lparr>fw_queue := db\<rparr>))"

fun run_target_event :: "target_event \<Rightarrow> participant \<Rightarrow> participant" where
  "run_target_event (ByController env i sha op body) p = snd (participant_rpc env i sha op body p)"
| "run_target_event (ByOwner env op body) p = p\<lparr>pt_db := snd (resource_owner_mutation env op body (pt_db p))\<rparr>"

definition others_act :: "string \<Rightarrow> call_event \<Rightarrow> fleet_world \<Rightarrow> fleet_world" where
  "others_act device e w =
     w\<lparr>fw_queue := fold (\<lambda>(t, op). run_fleet_op t op) (ce_ops e) (fw_queue w),
       fw_targets := (fw_targets w)(device := fold run_target_event (ce_target e) (fw_targets w device)),
       fw_clock := ce_now e\<rparr>"

text \<open>One remote call to a device.\<close>

definition remote_call :: "string \<Rightarrow> (call_event \<Rightarrow> 'a remote) \<Rightarrow> 'a remote" where
  "remote_call device f w =
     (case fw_script w of
        [] \<Rightarrow> (Inl ''TransportError: unreachable'', w)
      | e # es \<Rightarrow>
          (let w1 = others_act device e (w\<lparr>fw_script := es\<rparr>)
           in (case ce_link e of
                 Delivered \<Rightarrow> f e w1
               | Undelivered \<Rightarrow> (Inl (ce_error e), w1)
               | Unanswered \<Rightarrow> (Inl (ce_error e), snd (f e w1)))))"

section \<open>The target client\<close>

text \<open>
  \<open>re_devices\<close> gives the kind of every configured device; \<open>re_request_sha\<close> is the SHA-256 of the
  canonical JSON of a request; \<open>re_backoff\<close> is \<open>_backoff_until\<close>, \<open>re_lease_until\<close> is \<open>_lease_until\<close>.
\<close>

record recovery_env =
  re_devices :: "(string, string) dict"
  re_queue :: queue_env
  re_batch_digest :: "string \<Rightarrow> string"
  re_request_sha :: "rpc_op \<Rightarrow> request \<Rightarrow> string"
  re_backoff :: "string \<Rightarrow> int \<Rightarrow> int \<Rightarrow> string \<Rightarrow> string"
  re_lease_until :: "string \<Rightarrow> int \<Rightarrow> string"

definition target_acceptance_supported :: "recovery_env \<Rightarrow> string \<Rightarrow> bool" where
  "target_acceptance_supported env device \<longleftrightarrow> dict_get (re_devices env) device \<in> {Some ''ssh-posix'', Some ''ssh-powershell''}"

definition operation_char :: "char \<Rightarrow> bool" where
  "operation_char c \<longleftrightarrow> alnum c \<or> c \<in> set ''._-''"

definition target_operation_identity :: "recovery_env \<Rightarrow> string \<Rightarrow> string" where
  "target_operation_identity env b =
     (let safe = take 120 (map (\<lambda>c. if operation_char c then c else CHR ''-'') b)
      in ''fleet-'' @ (if safe = [] then take 24 (re_batch_digest env b) else safe))"

text \<open>\<open>_rpc\<close>: a refusal of the target is raised as \<open>TargetResourceError\<close>.\<close>

definition rpc_answer :: "recovery_env \<Rightarrow> string \<Rightarrow> string \<Rightarrow> rpc_op \<Rightarrow> request \<Rightarrow> call_event \<Rightarrow> (string \<times> receipt) remote" where
  "rpc_answer env device rpc_id op body e w =
     (let (r, p) = participant_rpc (ce_env e) rpc_id (re_request_sha env op body) op body (fw_targets w device);
          w' = w\<lparr>fw_targets := (fw_targets w)(device := p)\<rparr>
      in (case r of
            Inr (WithReceipt status _ receipt) \<Rightarrow> (Inr (status, receipt), w')
          | Inr _ \<Rightarrow> (Inl ''TargetResourceError: target resource receipt is not an object'', w')
          | Inl _ \<Rightarrow> (Inl ''TargetResourceError'', w')))"

definition client_rpc :: "recovery_env \<Rightarrow> string \<Rightarrow> string \<Rightarrow> rpc_op \<Rightarrow> request \<Rightarrow> (string \<times> receipt) remote" where
  "client_rpc env device rpc_id op body = remote_call device (rpc_answer env device rpc_id op body)"

definition status_identity :: "recovery_env \<Rightarrow> string \<Rightarrow> string \<Rightarrow> string \<Rightarrow> string \<Rightarrow> (string \<times> receipt) remote" where
  "status_identity env device allocation_id token rpc_id =
     client_rpc env device rpc_id Status [(''allocation_id'', JStr allocation_id), (''token'', JStr token)]"

definition client_cancel :: "recovery_env \<Rightarrow> string \<Rightarrow> receipt \<Rightarrow> string \<Rightarrow> string \<Rightarrow> (string \<times> receipt) remote" where
  "client_cancel env device receipt token rpc_id =
     client_rpc env device rpc_id Cancel
       [(''allocation_id'', JStr (rp_allocation_id receipt)), (''fence'', JInt (rp_fence receipt)), (''token'', JStr token)]"

text \<open>Calls whose only outcome is that they succeed: probing the device, connecting to its runner.\<close>

definition reach :: "string \<Rightarrow> unit remote" where
  "reach device = remote_call device (\<lambda>_. rm_return ())"

definition remove_stage :: "string \<Rightarrow> string \<Rightarrow> unit remote" where
  "remove_stage device op =
     remote_call device (\<lambda>_ w. (Inr (), w\<lparr>fw_stages := filter (\<lambda>s. s \<noteq> (device, op)) (fw_stages w)\<rparr>))"

definition durable_cleanup :: "string \<Rightarrow> string \<Rightarrow> unit remote" where
  "durable_cleanup device op =
     remote_call device (\<lambda>_ w. (Inr (), w\<lparr>fw_durables := filter (\<lambda>s. s \<noteq> (device, op)) (fw_durables w)\<rparr>))"

definition durable_status :: "string \<Rightarrow> json remote" where
  "durable_status device = remote_call device (\<lambda>e. rm_return (ce_durable e))"

section \<open>Cooldowns after failures\<close>

record failure_class =
  fc_kind :: string
  fc_scope :: string
  fc_cooldown_s :: int

fun has_text :: "string \<Rightarrow> string \<Rightarrow> bool" where
  "has_text needle [] \<longleftrightarrow> needle = []"
| "has_text needle (c # cs) \<longleftrightarrow> take (length needle) (c # cs) = needle \<or> has_text needle cs"

definition OOM_TEXTS :: "string list" where
  "OOM_TEXTS = [''out of memory'', ''cuda error: out of memory'', ''cublas_status_alloc'', ''memoryerror'', ''oom-kill'',
     ''torch.cuda.outofmemory'']"

text \<open>\<open>memory_patterns\<close> is what the frozen completion policy of the task says.\<close>

definition classify_failure :: "string \<Rightarrow> string \<Rightarrow> int option \<Rightarrow> bool \<Rightarrow> failure_class" where
  "classify_failure error stderr exit_code memory_patterns =
     (let err = ascii_lower error in
      if exit_code = Some 255 \<or> list_ex (\<lambda>t. has_text t err) [''exec failed'', ''stage failed'', ''unreachable'', ''ssh:'']
      then \<lparr>fc_kind = ''transport'', fc_scope = ''device'', fc_cooldown_s = 30\<rparr>
      else if has_text ''not installed'' err \<or> has_text ''no adapter'' err
      then \<lparr>fc_kind = ''capability'', fc_scope = ''none'', fc_cooldown_s = 0\<rparr>
      else if memory_patterns \<and> list_ex (\<lambda>t. has_text t (err @ [CHR 0x0A] @ ascii_lower stderr)) OOM_TEXTS
      then \<lparr>fc_kind = ''oom'', fc_scope = ''device_engine'', fc_cooldown_s = 180\<rparr>
      else \<lparr>fc_kind = ''other'', fc_scope = ''none'', fc_cooldown_s = 0\<rparr>)"

definition apply_cooldown :: "recovery_env \<Rightarrow> string \<Rightarrow> string \<Rightarrow> failure_class \<Rightarrow> int \<Rightarrow> string \<Rightarrow> queue_db \<Rightarrow> queue_db" where
  "apply_cooldown env device engine cls attempts now db =
     (if fc_scope cls = ''none'' \<or> fc_cooldown_s cls \<le> 0 then db
      else
        (let eng = (if fc_scope cls = ''device_engine'' then engine else []);
             until = (if fc_kind cls = ''transport''
                      then re_backoff env now (fc_cooldown_s cls) attempts (device @ ''|'' @ engine)
                      else re_lease_until env now (fc_cooldown_s cls))
         in set_cooldown device until eng (fc_kind cls) (fc_kind cls) now db))"

definition batch_attempts :: "string \<Rightarrow> queue_db \<Rightarrow> int" where
  "batch_attempts b db =
     (case map (\<lambda>(_, j). jb_attempts j) (select_where (\<lambda>_ j. in_batch b j) (qd_jobs db)) of
        [] \<Rightarrow> 1
      | n # ns \<Rightarrow> fold max ns n)"

definition transport_cooled :: "string \<Rightarrow> string \<Rightarrow> queue_db \<Rightarrow> bool" where
  "transport_cooled device now db \<longleftrightarrow>
     list_ex (\<lambda>(k, c). now < co_until c \<and> fst k = device \<and> snd k = [] \<and> co_kind c = ''transport'') (qd_cooldowns db)"

section \<open>Recovery of one batch\<close>

definition target_identity_complete :: "batch_row \<Rightarrow> bool" where
  "target_identity_complete r \<longleftrightarrow>
     nonempty (ba_operation_id r) \<and> nonempty (ba_resume_token r) \<and> nonempty (ba_reserved_at r)
     \<and> (case ba_request_sha256 r of None \<Rightarrow> False | Some d \<Rightarrow> is_sha256_hex d)
     \<and> (ba_accepted_at r = None \<or> nonempty (ba_accepted_at r))"

fun state_name :: "alloc_state \<Rightarrow> string" where
  "state_name RESERVED = ''RESERVED''"
| "state_name CLAIMED = ''CLAIMED''"
| "state_name QUARANTINED = ''QUARANTINED''"
| "state_name RELEASED = ''RELEASED''"
| "state_name EXPIRED = ''EXPIRED''"
| "state_name CANCELLED = ''CANCELLED''"
| "state_name REBOOTED = ''REBOOTED''"

definition expire :: "recovery_env \<Rightarrow> string \<Rightarrow> string \<Rightarrow> bool \<Rightarrow> bool remote" where
  "expire env b now replay_safe = on_queue (expire_stale_batch (re_queue env) b now replay_safe MAX_ATTEMPTS)"

definition progress :: "string \<Rightarrow> string \<Rightarrow> string \<Rightarrow> string option \<Rightarrow> bool \<Rightarrow> bool \<Rightarrow> bool \<Rightarrow> bool \<Rightarrow> string \<Rightarrow> bool remote" where
  "progress b op sha cleanup stage durable replayable owner_release now =
     on_queue (record_target_cleanup_progress b op sha
       \<lparr>cu_cleanup_state = cleanup, cu_stage_cleaned = stage, cu_durable_cleaned = durable, cu_replayable = replayable,
        cu_owner_release = owner_release\<rparr> now)"

text \<open>The program continues after a step only when the step succeeded.\<close>

definition rm_and :: "bool remote \<Rightarrow> bool remote \<Rightarrow> bool remote" where
  "rm_and m n = rm_bind m (\<lambda>ok. if ok then n else rm_return False)"

definition target_state_root :: "recovery_env \<Rightarrow> string \<Rightarrow> string \<Rightarrow> bool \<Rightarrow> unit remote" where
  "target_state_root env b device terminal_outcome w =
     (case reach device w of
        (Inr _, w') \<Rightarrow> (Inr (), w')
      | (Inl e, w') \<Rightarrow>
          (Inl e,
           if terminal_outcome
           then w'\<lparr>fw_queue := apply_cooldown env device [] (classify_failure e [] None False) (batch_attempts b (fw_queue w'))
                                 (fw_clock w') (fw_queue w')\<rparr>
           else w'))"

definition target_durable_identity_matches :: "json \<Rightarrow> string \<Rightarrow> string \<Rightarrow> bool" where
  "target_durable_identity_matches durable op sha \<longleftrightarrow>
     (case durable of
        JObj d \<Rightarrow>
          (let acceptance = (case dict_get d ''target_acceptance'' of Some (JObj a) \<Rightarrow> a | _ \<Rightarrow> d)
           in dict_get acceptance ''operation_id'' = Some (JStr op) \<and> dict_get acceptance ''request_sha256'' = Some (JStr sha))
      | _ \<Rightarrow> False)"

record recovery_args =
  ra_batch :: string
  ra_row :: batch_row
  ra_now :: string
  ra_terminal :: bool
  ra_owner_release :: bool

text \<open>The first record of the cleanup, by what the receipt says.\<close>

definition first_progress :: "string \<Rightarrow> string \<Rightarrow> recovery_args \<Rightarrow> receipt \<Rightarrow> bool remote" where
  "first_progress op sha a receipt =
     (let record = progress (ra_batch a) op sha (Some (state_name (rp_state receipt))) False False (\<not> ra_terminal a)
                     (ra_owner_release a) (ra_now a)
      in if ra_terminal a \<and> rp_start receipt = StartYes \<and> \<not> nonempty (ba_stage_cleaned_at (ra_row a))
         then rm_bind (durable_status (ba_device (ra_row a)))
                (\<lambda>d. if target_durable_identity_matches d op sha then record else rm_return False)
         else record)"

text \<open>Removing the stage and the durable record, each followed by its record in the queue.\<close>

definition clean_target :: "string \<Rightarrow> string \<Rightarrow> recovery_args \<Rightarrow> bool remote" where
  "clean_target op sha a =
     (let device = ba_device (ra_row a);
          record = (\<lambda>stage durable. progress (ra_batch a) op sha None stage durable False (ra_owner_release a) (ra_now a))
      in rm_and
           (if nonempty (ba_stage_cleaned_at (ra_row a)) then rm_return True
            else rm_bind (remove_stage device op) (\<lambda>_. record True False))
           (if nonempty (ba_durable_cleaned_at (ra_row a)) then rm_return True
            else rm_bind (durable_cleanup device op) (\<lambda>_. record False True)))"

definition finish_cleanup :: "recovery_env \<Rightarrow> string \<Rightarrow> string \<Rightarrow> recovery_args \<Rightarrow> receipt \<Rightarrow> bool remote" where
  "finish_cleanup env op sha a receipt =
     (if \<not> ra_terminal a \<and> nonempty (ba_finalized_at (ra_row a)) then expire env (ra_batch a) (ra_now a) True
      else
        rm_and (first_progress op sha a receipt)
          (rm_and (clean_target op sha a)
             (rm_and (on_queue (record_expired_target_finalization (ra_batch a) op sha (state_name (rp_state receipt))
                        (ra_owner_release a) (ra_now a)))
                (if ra_terminal a then rm_return True else expire env (ra_batch a) (ra_now a) True))))"

definition act_on_receipt :: "recovery_env \<Rightarrow> string \<Rightarrow> string \<Rightarrow> string \<Rightarrow> recovery_args \<Rightarrow> receipt \<Rightarrow> bool remote" where
  "act_on_receipt env op sha token a receipt =
     (if rp_operation_id receipt \<noteq> op \<or> rp_request_sha256 receipt \<noteq> sha
      then (if ra_terminal a then rm_return False else expire env (ra_batch a) (ra_now a) False)
      else if ra_owner_release a \<and> rp_start receipt \<noteq> StartNo
              \<and> \<not> nonempty (ba_release_acknowledged_at (ra_row a)) then rm_return False
      else if \<not> ra_terminal a \<and> rp_start receipt \<noteq> StartNo then expire env (ra_batch a) (ra_now a) False
      else
        rm_bind
          (if rp_state receipt = RESERVED
           then rm_bind (client_cancel env (ba_device (ra_row a)) receipt token (''fleet-recover-cancel-'' @ op)) (\<lambda>(_, r). rm_return r)
           else rm_return receipt)
          (\<lambda>receipt.
             if rp_state receipt \<notin> {RELEASED, CANCELLED, EXPIRED, REBOOTED} then rm_return False
             else finish_cleanup env op sha a receipt))"

definition recover_identified :: "recovery_env \<Rightarrow> string \<Rightarrow> string \<Rightarrow> string \<Rightarrow> recovery_args \<Rightarrow> bool remote" where
  "recover_identified env op sha token a =
     (let device = ba_device (ra_row a)
      in rm_bind (target_state_root env (ra_batch a) device (ra_terminal a)) (\<lambda>_.
         rm_bind (reach device) (\<lambda>_.
         rm_bind (status_identity env device op token (''fleet-recover-status-'' @ op)) (\<lambda>(_, receipt).
           act_on_receipt env op sha token a receipt))))"

definition recover_target_row :: "recovery_env \<Rightarrow> recovery_args \<Rightarrow> bool remote" where
  "recover_target_row env a =
     (let r = ra_row a; b = ra_batch a; device = ba_device r; op = target_operation_identity env b;
          give_up = (if ra_terminal a then rm_return False else expire env b (ra_now a) False)
      in if \<not> target_acceptance_supported env device then rm_return False
         else if ba_disposition r = Some FINALIZATION_MALFORMED then give_up
         else if ba_disposition r = Some FINALIZATION_FENCED
                 \<and> (\<not> ra_owner_release a \<or> \<not> nonempty (ba_release_authorized_at r)) then give_up
         else if \<not> ra_terminal a \<and> nonempty (ba_finalized_at r) then expire env b (ra_now a) True
         else
           (case ba_operation_id r of
              None \<Rightarrow>
                rm_catch
                  (rm_bind (target_state_root env b device (ra_terminal a)) (\<lambda>_.
                   rm_bind (remove_stage device op) (\<lambda>_.
                     if ra_terminal a then rm_return False else expire env b (ra_now a) True)))
                  False
            | Some stored \<Rightarrow>
                (case (ba_request_sha256 r, ba_resume_token r) of
                   (Some sha, Some token) \<Rightarrow>
                     if stored \<noteq> op \<or> \<not> is_sha256_hex sha \<or> token = [] \<or> \<not> target_identity_complete r then give_up
                     else rm_catch (recover_identified env op sha token a) False
                 | _ \<Rightarrow> give_up)))"

section \<open>Recovery of a cancellation\<close>

definition active_jobs :: "string \<Rightarrow> queue_db \<Rightarrow> string list" where
  "active_jobs b db =
     dict_keys (filter (\<lambda>(_, j). jb_state j \<in> {Leased, Staging, Running, Fetching})
       (sort_key (\<lambda>(_, j). jb_created j) (sort_key fst (select_where (\<lambda>_ j. in_batch b j) (qd_jobs db)))))"

text \<open>What the state of the stopped operation says about the jobs.\<close>

definition settle_cancellation :: "string \<Rightarrow> alloc_state \<Rightarrow> string \<Rightarrow> bool remote" where
  "settle_cancellation b st now w =
     (let ids = active_jobs b (fw_queue w) in
      if st = RELEASED
      then on_queue (mark_active_cancellation_unknown b ids
             ''target completed before cancellation; completion retained for review'' now) w
      else if st \<notin> {CANCELLED, EXPIRED, REBOOTED} \<or> ids = [] then rm_return False w
      else on_queue (cancel_active_batch b ids (state_name st) now) w)"

definition stop_operation :: "recovery_env \<Rightarrow> string \<Rightarrow> string \<Rightarrow> string \<Rightarrow> string \<Rightarrow> batch_row \<Rightarrow> string \<Rightarrow> receipt \<Rightarrow> bool remote" where
  "stop_operation env op sha token b r now receipt =
     rm_bind (client_cancel env (ba_device r) receipt token (''fleet-cancel-recover-stop-'' @ op)) (\<lambda>(status, stopped).
       if rp_operation_id stopped \<noteq> op \<or> rp_request_sha256 stopped \<noteq> sha then expire env b now False
       else if status = ''could_not_stop'' then rm_return False
       else settle_cancellation b (rp_state stopped) now)"

definition recover_target_cancellation :: "recovery_env \<Rightarrow> string \<Rightarrow> batch_row \<Rightarrow> string \<Rightarrow> bool remote" where
  "recover_target_cancellation env b r now =
     (let device = ba_device r; op = target_operation_identity env b
      in if \<not> target_acceptance_supported env device then rm_return False
         else
           (case (ba_request_sha256 r, ba_resume_token r) of
              (Some sha, Some token) \<Rightarrow>
                if ba_disposition r \<noteq> Some FINALIZATION_FENCED \<or> ba_operation_id r \<noteq> Some op \<or> \<not> is_sha256_hex sha
                   \<or> token = [] \<or> \<not> target_identity_complete r then expire env b now False
                else
                  rm_catch
                    (rm_bind (reach device) (\<lambda>_.
                     rm_bind (status_identity env device op token (''fleet-cancel-recover-status-'' @ op)) (\<lambda>(_, receipt).
                       if rp_operation_id receipt \<noteq> op \<or> rp_request_sha256 receipt \<noteq> sha then expire env b now False
                       else if rp_state receipt \<in> {RESERVED, CLAIMED, QUARANTINED}
                       then stop_operation env op sha token b r now receipt
                       else settle_cancellation b (rp_state receipt) now)))
                    False
            | _ \<Rightarrow> expire env b now False))"

section \<open>The passes of a drain\<close>

definition in_scope :: "string list option \<Rightarrow> queue_db \<Rightarrow> string \<Rightarrow> bool" where
  "in_scope job_ids db b \<longleftrightarrow>
     (case job_ids of None \<Rightarrow> True | Some ids \<Rightarrow> list_ex (\<lambda>(i, j). i \<in> set ids \<and> in_batch b j) (qd_jobs db))"

definition stale_target_batches :: "string \<Rightarrow> string list option \<Rightarrow> queue_db \<Rightarrow> (string \<times> batch_row) list" where
  "stale_target_batches now job_ids db =
     select_where (\<lambda>b r. ba_state r \<notin> {Done, Failed} \<and> ba_lease_until r < now \<and> ba_version r = Some 1 \<and> in_scope job_ids db b)
       (qd_batches db)"

definition terminal_target_batches :: "string \<Rightarrow> string list option \<Rightarrow> queue_db \<Rightarrow> (string \<times> batch_row) list" where
  "terminal_target_batches now job_ids db =
     select_where (\<lambda>b r. ba_state r \<in> {Done, Failed} \<and> ba_version r = Some 1 \<and> ba_finalized_at r = None
                     \<and> ba_disposition r \<in> {Some FINALIZATION_PENDING, Some FINALIZATION_REPLAYABLE}
                     \<and> ba_lease_until r < now \<and> in_scope job_ids db b)
       (qd_batches db)"

fun each_row :: "(string \<times> batch_row \<Rightarrow> bool remote) \<Rightarrow> (string \<times> batch_row) list \<Rightarrow> nat remote" where
  "each_row f [] = rm_return 0"
| "each_row f (x # xs) =
     rm_bind (f x) (\<lambda>ok. rm_bind (each_row f xs) (\<lambda>n. rm_return ((if ok then 1 else 0) + n)))"

definition recover_target_stale :: "recovery_env \<Rightarrow> string \<Rightarrow> string list option \<Rightarrow> nat remote" where
  "recover_target_stale env now job_ids w =
     each_row
       (\<lambda>(b, r). if ba_state r = Cancelling then recover_target_cancellation env b r now
                 else recover_target_row env
                        \<lparr>ra_batch = b, ra_row = r, ra_now = now, ra_terminal = False, ra_owner_release = False\<rparr>)
       (stale_target_batches now job_ids (fw_queue w)) w"

definition recover_terminal_target_finalization :: "recovery_env \<Rightarrow> string \<Rightarrow> string list option \<Rightarrow> nat remote" where
  "recover_terminal_target_finalization env now job_ids w =
     each_row
       (\<lambda>(b, r) w'. if transport_cooled (ba_device r) now (fw_queue w') then rm_return False w'
                    else recover_target_row env
                           \<lparr>ra_batch = b, ra_row = r, ra_now = now, ra_terminal = True, ra_owner_release = False\<rparr> w')
       (terminal_target_batches now job_ids (fw_queue w)) w"

section \<open>The owner's release\<close>

definition target_release_operation :: "string \<Rightarrow> string \<Rightarrow> queue_db \<Rightarrow> queue_error + (string \<times> batch_row) option" where
  "target_release_operation op sha db =
     (if op = [] \<or> \<not> is_sha256_hex sha then Inr None
      else
        (case select_where (\<lambda>_ r. ba_operation_id r = Some op \<and> ba_request_sha256 r = Some sha) (qd_batches db) of
           [] \<Rightarrow> Inr None
         | [x] \<Rightarrow> Inr (Some x)
         | _ \<Rightarrow> Inl (QueueMigrationError ''target operation is not unique in the batch ledger'')))"

datatype release_result = IdentityMismatch | AlreadyReleased | NotReleasable | AcknowledgementRequired | CouldNotRelease | Released

definition release_row :: "recovery_env \<Rightarrow> string \<times> batch_row \<Rightarrow> release_result remote" where
  "release_row env x w =
     rm_bind (recover_target_row env \<lparr>ra_batch = fst x, ra_row = snd x, ra_now = fw_clock w, ra_terminal = True, ra_owner_release = True\<rparr>)
       (\<lambda>done. rm_return (if done then Released else CouldNotRelease)) w"

definition authorize_and_release :: "recovery_env \<Rightarrow> string \<Rightarrow> string \<Rightarrow> release_result remote" where
  "authorize_and_release env op sha w =
     rm_bind (on_queue (authorize_target_release op sha False (fw_clock w))) (\<lambda>ok w1.
       if \<not> ok then rm_return CouldNotRelease w1
       else (case target_release_operation op sha (fw_queue w1) of
               Inl _ \<Rightarrow> (Inl ''QueueMigrationError'', w1)
             | Inr None \<Rightarrow> rm_return CouldNotRelease w1
             | Inr (Some x) \<Rightarrow> release_row env x w1)) w"

definition release_target_operation :: "recovery_env \<Rightarrow> string \<Rightarrow> string \<Rightarrow> release_result remote" where
  "release_target_operation env op sha w =
     (case target_release_operation op sha (fw_queue w) of
        Inl _ \<Rightarrow> (Inl ''QueueMigrationError'', w)
      | Inr None \<Rightarrow> rm_return IdentityMismatch w
      | Inr (Some (b, r)) \<Rightarrow>
          (let acknowledged = nonempty (ba_release_acknowledged_at r); device = ba_device r;
               unknown = (if acknowledged then CouldNotRelease else AcknowledgementRequired)
           in if nonempty (ba_finalized_at r) then rm_return AlreadyReleased w
              else if ba_state r \<noteq> Failed \<or> ba_version r \<noteq> Some 1 \<or> ba_disposition r \<noteq> Some FINALIZATION_FENCED
              then rm_return NotReleasable w
              else if \<not> target_acceptance_supported env device then rm_return unknown w
              else
                (case ba_resume_token r of
                   None \<Rightarrow> rm_return unknown w
                 | Some token \<Rightarrow>
                     if token = [] \<or> \<not> target_identity_complete r then rm_return unknown w
                     else
                       (case rm_bind (reach device) (\<lambda>_.
                               status_identity env device op token (''fleet-release-status-'' @ op)) w of
                          (Inl _, w1) \<Rightarrow> rm_return unknown w1
                        | (Inr (_, receipt), w1) \<Rightarrow>
                            if rp_operation_id receipt \<noteq> op \<or> rp_request_sha256 receipt \<noteq> sha then rm_return unknown w1
                            else if rp_start receipt \<noteq> StartNo \<and> \<not> acknowledged then rm_return AcknowledgementRequired w1
                            else if nonempty (ba_release_authorized_at r) then release_row env (b, r) w1
                            else if rp_start receipt \<noteq> StartNo then rm_return AcknowledgementRequired w1
                            else authorize_and_release env op sha w1))))"

end
