(* ===== verification/QueueChange.thy ===== *)
theory QueueChange
  imports FleetSafety
begin

text \<open>
  What one operation on the queue may do to the states of jobs, for the properties of the
  programs that call the queue: whether jobs are queued again, whether jobs are newly done, and
  the operations that do neither.
\<close>

definition no_requeue :: "queue_db \<Rightarrow> queue_db \<Rightarrow> bool" where
  "no_requeue db db' \<longleftrightarrow> (\<forall>i j'. job_at db' i = Some j' \<and> jb_state j' = Queued \<longrightarrow> (\<exists>j. job_at db i = Some j \<and> jb_state j = Queued))"

definition newly_done :: "string \<Rightarrow> queue_db \<Rightarrow> queue_db \<Rightarrow> bool" where
  "newly_done i db db' \<longleftrightarrow>
     (\<exists>j'. job_at db' i = Some j' \<and> jb_state j' = Done) \<and> \<not> (\<exists>j. job_at db i = Some j \<and> jb_state j = Done)"

text \<open>Every job is one of before, in its old state or in one that is neither queued nor done.\<close>

definition quiet_change :: "queue_db \<Rightarrow> queue_db \<Rightarrow> bool" where
  "quiet_change db db' \<longleftrightarrow>
     (\<forall>i j'. job_at db' i = Some j' \<longrightarrow> (\<exists>j. job_at db i = Some j \<and> (jb_state j' = jb_state j \<or> jb_state j' \<notin> {Queued, Done})))"

lemma quiet_change_no_requeue: "quiet_change db db' \<Longrightarrow> no_requeue db db'"
  by (fastforce simp: quiet_change_def no_requeue_def)

lemma quiet_change_not_done: "quiet_change db db' \<Longrightarrow> \<not> newly_done i db db'"
  by (fastforce simp: quiet_change_def newly_done_def)

lemma quiet_change_jobs: "qd_jobs db' = qd_jobs db \<Longrightarrow> quiet_change db db'"
  by (simp add: quiet_change_def)

lemma quiet_change_update:
  "qd_jobs db' = update_where Q f (qd_jobs db)
   \<Longrightarrow> (\<And>k j. Q k j \<Longrightarrow> jb_state (f k j) = jb_state j \<or> jb_state (f k j) \<notin> {Queued, Done}) \<Longrightarrow> quiet_change db db'"
  by (auto simp: quiet_change_def dict_get_update_where split: if_splits)

lemma update_no_requeue:
  "(\<And>k j. jb_state (f k j) \<noteq> Queued) \<Longrightarrow> qd_jobs db' = update_where Q f (qd_jobs db) \<Longrightarrow> no_requeue db db'"
  by (auto simp: no_requeue_def dict_get_update_where split: if_splits)

lemma no_requeue_trans: "no_requeue a b \<Longrightarrow> no_requeue b c \<Longrightarrow> no_requeue a c"
  by (fastforce simp: no_requeue_def)

lemma newly_done_trans: "newly_done i a c \<Longrightarrow> newly_done i a b \<or> newly_done i b c"
  by (auto simp: newly_done_def)

text \<open>The batch has ended, and stays so as long as its row is there.\<close>

definition batch_over :: "string \<Rightarrow> queue_db \<Rightarrow> bool" where
  "batch_over b db \<longleftrightarrow> (\<exists>r. batch_at db b = Some r \<and> ba_state r \<in> {Done, Failed})"

lemma batch_over_step:
  assumes "queue_step {} now db db'" and "batch_over b db"
  shows "batch_over b db'"
  using assms(1)
proof cases
  case (claim a pl)
  with assms(2) show ?thesis by (auto simp: batch_over_def grant_claim_tables dict_get_set)
qed (use assms(2) in \<open>auto simp: batch_over_def settle_queued_def dict_get_set active_iff executing_iff split: if_splits\<close>)

lemma batch_over_op:
  assumes "queue_inv db" and "call_ok op" and "deletions op = {}" and "batch_over b db"
  shows "batch_over b (run_fleet_op now op db)"
proof -
  from run_fleet_op_steps [OF assms(1,2), of now] have "queue_steps {} now db (run_fleet_op now op db)" by (simp add: assms(3))
  then show ?thesis using assms(4) by (induction rule: rtranclp_induct) (simp_all add: batch_over_step)
qed

section \<open>The operations of an owner that only change states quietly\<close>

named_theorems quiet_ops \<open>operations that change the states of jobs quietly\<close>

lemma owner_moves_quiet [quiet_ops]:
  "st \<notin> {Queued, Done} \<Longrightarrow> quiet_change db (snd (set_batch_state b st ex tok now db))"
  "quiet_change db (snd (heartbeat b until ex tok now db))"
  unfolding set_batch_state_def heartbeat_def
  by (auto simp: quiet_change_jobs split: option.split intro!: quiet_change_update)

lemma ledger_quiet [quiet_ops]:
  "quiet_change db (snd (record_target_reservation b op sha res ex tok now db))"
  "quiet_change db (snd (record_target_acceptance b op sha ex tok now db))"
  "quiet_change db (snd (authorize_target_cleanup b op sha cs ex tok now db))"
  "quiet_change db (snd (record_target_finalization b op sha cs st du ex tok now db))"
  unfolding record_target_reservation_def record_target_acceptance_def authorize_target_cleanup_def record_target_finalization_def
  by (auto intro!: quiet_change_jobs split: option.split)

lemma observation_jobs: "insert_profile_observation b ob now db = Inr db' \<Longrightarrow> qd_jobs db' = qd_jobs db \<and> qd_batches db' = qd_batches db"
  by (auto simp: insert_profile_observation_def split: option.splits if_splits)

text \<open>A transaction commits what its body returns.\<close>

lemma immediate_ends:
  "fst (immediate f db) = Inr True \<Longrightarrow> (\<And>db'. f db = Inr (True, db') \<Longrightarrow> batch_over b db') \<Longrightarrow> batch_over b (snd (immediate f db))"
  by (auto simp: immediate_def split: sum.splits)

lemma immediate_relates:
  "(\<And>x db'. f db = Inr (x, db') \<Longrightarrow> P db db') \<Longrightarrow> P db db \<Longrightarrow> P db (snd (immediate f db))"
  by (auto simp: immediate_def split: sum.splits)

lemma quiet_change_refl [simp]: "quiet_change db db"
  by (simp add: quiet_change_def)

lemma quiet_change_drop [simp]: "quiet_change db (drop_leases b db') = quiet_change db db'"
  by (simp add: quiet_change_def)

lemma review_quiet [quiet_ops]:
  "quiet_change db (snd (mark_completion_unknown b e ex tok now res ob d db))"
  "quiet_change db (snd (revoke_prelaunch_batch b tok e now fin db))"
  "quiet_change db (snd (record_revoked_prelaunch_result b tok rec now db))"
proof -
  have "quiet_change db db'"
    if "insert_profile_observation b ob now (update_jobs P (\<lambda>_ j. j\<lparr>jb_state := CompletionUnknown, jb_leased_until := None, jb_last_error := Some e,
          jb_last_result := res, jb_updated := now\<rparr>) (put_batch b r db)) = Inr db'" for db' P r
    by (rule quiet_change_update [OF observation_jobs [OF that, THEN conjunct1, simplified]]) simp
  then show "quiet_change db (snd (mark_completion_unknown b e ex tok now res ob d db))"
    unfolding mark_completion_unknown_def
    by (auto intro!: immediate_relates [where P = quiet_change] split: option.splits sum.splits)
  show "quiet_change db (snd (revoke_prelaunch_batch b tok e now fin db))"
    unfolding revoke_prelaunch_batch_def
    by (rule immediate_relates [where P = quiet_change]) (auto split: option.splits sum.splits intro!: quiet_change_update)
  show "quiet_change db (snd (record_revoked_prelaunch_result b tok rec now db))"
    unfolding record_revoked_prelaunch_result_def by (auto split: option.split intro!: quiet_change_update)
qed

text \<open>A call that succeeds ends the batch.\<close>

lemma observed_over:
  assumes "insert_profile_observation b ob now db = Inr db'" and "batch_at db b = Some r" and "ba_state r \<in> {Done, Failed}"
  shows "batch_over b (drop_leases b db')" "batch_over b db'"
  using assms observation_jobs [OF assms(1)] by (auto simp: batch_over_def)

lemma ending_calls:
  "fst (mark_completion_unknown b e ex tok now res ob d db) = Inr True \<Longrightarrow> batch_over b (snd (mark_completion_unknown b e ex tok now res ob d db))"
  "fst (revoke_prelaunch_batch b tok e now fin db) = Inr True \<Longrightarrow> batch_over b (snd (revoke_prelaunch_batch b tok e now fin db))"
  "fst (fail_batch b e ex tok now n cf res ob fin db) = Inr True \<Longrightarrow> batch_over b (snd (fail_batch b e ex tok now n cf res ob fin db))"
  "fst (complete_batch b ex tok now res ob fin db) = Inr True \<Longrightarrow> batch_over b (snd (complete_batch b ex tok now res ob fin db))"
  "fst (complete_batch_items b ex tok now it db) = Inr True \<Longrightarrow> batch_over b (snd (complete_batch_items b ex tok now it db))"
proof -
  show "batch_over b (snd (mark_completion_unknown b e ex tok now res ob d db))"
    if a: "fst (mark_completion_unknown b e ex tok now res ob d db) = Inr True"
  proof -
    from a have ok: "\<not> (ex \<notin> {Running, Fetching} \<or> d \<notin> set FINALIZATION_DISPOSITIONS)"
      unfolding mark_completion_unknown_def by (rule contrapos_pn) simp
    from a show ?thesis unfolding mark_completion_unknown_def if_not_P [OF ok]
      by (rule immediate_ends) (auto simp: dict_get_set split: option.splits sum.splits intro!: observed_over(1))
  qed
  show "fst (revoke_prelaunch_batch b tok e now fin db) = Inr True \<Longrightarrow> batch_over b (snd (revoke_prelaunch_batch b tok e now fin db))"
    unfolding revoke_prelaunch_batch_def
    by (erule immediate_ends) (auto simp: batch_over_def dict_get_set executing_iff split: option.splits sum.splits)
  show "fst (fail_batch b e ex tok now n cf res ob fin db) = Inr True \<Longrightarrow> batch_over b (snd (fail_batch b e ex tok now n cf res ob fin db))"
    unfolding fail_batch_def
    by (erule immediate_ends) (auto simp: finish_batch_failure_def dict_get_set split: option.splits sum.splits intro!: observed_over(2))
  show "fst (complete_batch b ex tok now res ob fin db) = Inr True \<Longrightarrow> batch_over b (snd (complete_batch b ex tok now res ob fin db))"
    unfolding complete_batch_def
    by (erule immediate_ends) (auto simp: dict_get_set split: option.splits sum.splits intro!: observed_over(1))
  show "fst (complete_batch_items b ex tok now it db) = Inr True \<Longrightarrow> batch_over b (snd (complete_batch_items b ex tok now it db))"
    unfolding complete_batch_items_def
    by (erule immediate_ends) (auto simp: Let_def dict_get_set split: option.splits sum.splits if_splits intro!: observed_over(1))
qed

end
