(* ===== verification/TargetRecoverySafety.thy ===== *)
theory TargetRecoverySafety
  imports TargetRecovery QueueChange FleetRecoverySafety ResourceSafety
begin

text \<open>
  What the recovery of expired batches does to the jobs of the queue and to the operations on the
  targets, taken together.
\<close>

section \<open>Calls in a quiet world\<close>

text \<open>No other process acts during the calls of the script; calls may still be lost.\<close>

definition quiet :: "fleet_world \<Rightarrow> bool" where
  "quiet w \<longleftrightarrow> (\<forall>e \<in> set (fw_script w). ce_ops e = [] \<and> ce_target e = [])"

definition same_tables :: "queue_db \<Rightarrow> queue_db \<Rightarrow> bool" where
  "same_tables db db' \<longleftrightarrow> qd_jobs db' = qd_jobs db \<and> qd_batches db' = qd_batches db"

abbreviation target_on :: "string \<Rightarrow> fleet_world \<Rightarrow> participant" where
  "target_on d w \<equiv> fw_targets w d"

text \<open>
  A program that only makes calls in a quiet world: the targets take steps of their machine, and
  the queues before and after are related.
\<close>

definition quietly :: "(queue_db \<Rightarrow> queue_db \<Rightarrow> bool) \<Rightarrow> 'a remote \<Rightarrow> bool" where
  "quietly P m \<longleftrightarrow>
     (\<forall>w. quiet w \<longrightarrow> quiet (snd (m w)) \<and> P (fw_queue w) (fw_queue (snd (m w)))
        \<and> (\<forall>d. target_step\<^sup>*\<^sup>* (target_on d w) (target_on d (snd (m w)))))"

named_theorems quiet_intros \<open>programs that make calls in a quiet world\<close>

lemma quietlyD:
  assumes "quietly P m" "quiet w"
  shows "quiet (snd (m w))" "P (fw_queue w) (fw_queue (snd (m w)))" "target_step\<^sup>*\<^sup>* (target_on d w) (target_on d (snd (m w)))"
  using assms by (auto simp: quietly_def)

text \<open>The relations in question are preorders that ignore the cooldowns.\<close>

definition preorder :: "(queue_db \<Rightarrow> queue_db \<Rightarrow> bool) \<Rightarrow> bool" where
  "preorder P \<longleftrightarrow> (\<forall>a b. same_tables a b \<longrightarrow> P a b) \<and> (\<forall>a b c. P a b \<longrightarrow> P b c \<longrightarrow> P a c)"

lemma preorder_refl: "preorder P \<Longrightarrow> P a a"
  by (simp add: preorder_def same_tables_def)

lemma preorder_trans: "preorder P \<Longrightarrow> P a b \<Longrightarrow> P b c \<Longrightarrow> P a c"
  unfolding preorder_def by blast

lemma preorders [simp]: "preorder no_requeue" "preorder (\<lambda>_ _. True)" "preorder same_tables"
  unfolding preorder_def no_requeue_def same_tables_def by fastforce+

lemma quietly_return [quiet_intros]: "preorder P \<Longrightarrow> quietly P (rm_return x)"
  by (simp add: quietly_def rm_return_def preorder_refl)

lemma quietly_bind [quiet_intros]:
  assumes P: "preorder P" and m: "quietly P m" and f: "\<And>x. quietly P (f x)"
  shows "quietly P (rm_bind m f)"
  unfolding quietly_def
proof (intro allI impI)
  fix w assume w: "quiet w"
  obtain r w1 where run: "m w = (r, w1)" by (cases "m w")
  note s = quietlyD [OF m w, unfolded run snd_conv]
  show "quiet (snd (rm_bind m f w)) \<and> P (fw_queue w) (fw_queue (snd (rm_bind m f w)))
      \<and> (\<forall>d. target_step\<^sup>*\<^sup>* (target_on d w) (target_on d (snd (rm_bind m f w))))"
  proof (cases r)
    case (Inr x)
    from quietlyD [OF f [of x] s(1)] s P show ?thesis
      by (simp add: rm_bind_def run Inr) (blast intro: rtranclp_trans preorder_trans)
  qed (use s in \<open>simp add: rm_bind_def run\<close>)
qed

lemma catch_world: "snd (rm_catch m x w) = snd (m w)"
  by (simp add: rm_catch_def split: prod.split sum.split)

lemma quietly_catch [quiet_intros]: "quietly P m \<Longrightarrow> quietly P (rm_catch m x)"
  by (simp add: quietly_def catch_world)

lemma quietly_if [quiet_intros]: "quietly P m \<Longrightarrow> quietly P n \<Longrightarrow> quietly P (if c then m else n)"
  by simp

lemma quietly_prod [quiet_intros]: "(\<And>a b. quietly P (f a b)) \<Longrightarrow> quietly P (case x of (a, b) \<Rightarrow> f a b)"
  by (simp split: prod.split)

lemma quietly_and [quiet_intros]: "preorder P \<Longrightarrow> quietly P m \<Longrightarrow> quietly P n \<Longrightarrow> quietly P (rm_and m n)"
  unfolding rm_and_def by (intro quietly_bind) (simp_all add: quietly_return)

lemma quietly_on_queue:
  assumes "\<And>db. P db (snd (f db))"
  shows "quietly P (on_queue f)"
  using assms by (simp add: quietly_def on_queue_def quiet_def case_prod_beta Let_def)

lemma others_quiet: "ce_ops e = [] \<Longrightarrow> ce_target e = [] \<Longrightarrow> others_act d e w = w\<lparr>fw_clock := ce_now e\<rparr>"
  by (simp add: others_act_def)

lemma quietly_call [quiet_intros]:
  assumes P: "preorder P" and f: "\<And>e. quietly P (f e)"
  shows "quietly P (remote_call d f)"
  unfolding quietly_def
proof (intro allI impI)
  fix w assume w: "quiet w"
  show "quiet (snd (remote_call d f w)) \<and> P (fw_queue w) (fw_queue (snd (remote_call d f w)))
      \<and> (\<forall>c. target_step\<^sup>*\<^sup>* (target_on c w) (target_on c (snd (remote_call d f w))))"
  proof (cases "fw_script w")
    case (Cons e es)
    let ?w = "w\<lparr>fw_script := es, fw_clock := ce_now e\<rparr>"
    from w Cons have q: "quiet ?w" and o: "others_act d e (w\<lparr>fw_script := es\<rparr>) = ?w"
      by (auto simp: quiet_def others_quiet)
    from f [of e] q have "quiet (snd (f e ?w)) \<and> P (fw_queue w) (fw_queue (snd (f e ?w)))
        \<and> (\<forall>c. target_step\<^sup>*\<^sup>* (target_on c w) (target_on c (snd (f e ?w))))"
      unfolding quietly_def by (drule_tac spec [of _ ?w]) simp
    with q P show ?thesis
      by (cases "ce_link e") (simp_all add: remote_call_def Cons o preorder_refl Let_def)
  qed (use w P in \<open>simp add: remote_call_def preorder_refl\<close>)
qed

text \<open>A call that returns.\<close>

lemma call_answered:
  assumes "remote_call d f w = (Inr x, w')" and "quiet w"
  shows "\<exists>e w1. f e w1 = (Inr x, w') \<and> fw_targets w1 = fw_targets w \<and> fw_queue w1 = fw_queue w \<and> quiet w1"
proof (cases "fw_script w")
  case (Cons e es)
  let ?w = "w\<lparr>fw_script := es, fw_clock := ce_now e\<rparr>"
  from assms(2) Cons have q: "quiet ?w" and o: "others_act d e (w\<lparr>fw_script := es\<rparr>) = ?w"
    by (auto simp: quiet_def others_quiet)
  from assms(1) have "f e ?w = (Inr x, w')"
    by (cases "ce_link e") (simp_all add: remote_call_def Cons o Let_def)
  with q show ?thesis by (intro exI [of _ e] exI [of _ ?w]) simp
qed (use assms in \<open>simp add: remote_call_def\<close>)

text \<open>Where the call does not touch the targets, they are as before.\<close>

lemma call_targets:
  assumes "quiet w" and "\<And>e w. fw_targets (snd (f e w)) = fw_targets w"
  shows "fw_targets (snd (remote_call d f w)) = fw_targets w"
  using assms by (auto simp: remote_call_def others_quiet quiet_def Let_def split: list.split link.split)

section \<open>The calls of the recovery\<close>

lemma rpc_answer_world:
  "snd (rpc_answer env d i op body e w)
   = w\<lparr>fw_targets := (fw_targets w)(d := snd (participant_rpc (ce_env e) i (re_request_sha env op body) op body (target_on d w)))\<rparr>"
  by (simp add: rpc_answer_def case_prod_beta Let_def split: sum.split response.split)

lemma client_rpc_quietly [quiet_intros]: "preorder P \<Longrightarrow> quietly P (client_rpc env d i op body)"
  unfolding client_rpc_def
  by (intro quietly_call) (auto simp: quietly_def rpc_answer_world quiet_def preorder_refl intro!: r_into_rtranclp target_step.rpc)

lemma progress_jobs: "qd_jobs (snd (record_target_cleanup_progress b op sha c now db)) = qd_jobs db"
  by (simp add: record_target_cleanup_progress_def put_batch_def split: option.split)

lemma finalization_jobs: "qd_jobs (snd (record_expired_target_finalization b op sha c rel now db)) = qd_jobs db"
  by (simp add: record_expired_target_finalization_def put_batch_def split: option.split)

lemma cooldown_tables: "qd_jobs (apply_cooldown env d eng cls n now db) = qd_jobs db"
    "qd_batches (apply_cooldown env d eng cls n now db) = qd_batches db"
  by (simp_all add: apply_cooldown_def set_cooldown_def Let_def)

definition jobs_matter :: "(queue_db \<Rightarrow> queue_db \<Rightarrow> bool) \<Rightarrow> bool" where
  "jobs_matter P \<longleftrightarrow> preorder P \<and> (\<forall>a b. qd_jobs b = qd_jobs a \<longrightarrow> P a b)"

lemma jobs_matterI [simp]: "jobs_matter no_requeue" "jobs_matter (\<lambda>_ _. True)"
  by (simp_all add: jobs_matter_def no_requeue_def)

lemma jobs_matterD: "jobs_matter P \<Longrightarrow> preorder P"
  by (simp add: jobs_matter_def)

lemma quietly_queue_records [quiet_intros]:
  assumes "jobs_matter P"
  shows "quietly P (progress b op sha c st du rep rel now)"
    "quietly P (on_queue (record_expired_target_finalization b op sha c' rel now))"
  using assms unfolding progress_def
  by (intro quietly_on_queue; simp add: progress_jobs finalization_jobs jobs_matter_def)+

lemma quietly_calls [quiet_intros]:
  assumes "preorder P"
  shows "quietly P (reach d)" "quietly P (remove_stage d op)" "quietly P (durable_cleanup d op)" "quietly P (durable_status d)"
    "quietly P (status_identity env d i tok rid)" "quietly P (client_cancel env d rc tok rid)"
proof -
  have upd: "quietly P (\<lambda>w. (Inr (), g w))"
    if "\<And>w. fw_queue (g w) = fw_queue w \<and> fw_targets (g w) = fw_targets w \<and> fw_script (g w) = fw_script w" for g
    using that assms by (simp add: quietly_def quiet_def preorder_refl)
  show "quietly P (reach d)" "quietly P (durable_status d)"
    unfolding reach_def durable_status_def by (intro quiet_intros assms)+
  show "quietly P (remove_stage d op)" "quietly P (durable_cleanup d op)"
    unfolding remove_stage_def durable_cleanup_def by (intro quietly_call assms upd; simp)+
  show "quietly P (status_identity env d i tok rid)" "quietly P (client_cancel env d rc tok rid)"
    unfolding status_identity_def client_cancel_def by (intro quiet_intros assms)+
qed

lemma root_world:
  "quiet (snd (target_state_root env b d t w)) = quiet (snd (reach d w))
   \<and> same_tables (fw_queue (snd (reach d w))) (fw_queue (snd (target_state_root env b d t w)))
   \<and> fw_targets (snd (target_state_root env b d t w)) = fw_targets (snd (reach d w))"
proof -
  obtain r w1 where run: "reach d w = (r, w1)" by (cases "reach d w")
  show ?thesis unfolding target_state_root_def run by (cases r; cases t) (simp_all add: quiet_def cooldown_tables same_tables_def)
qed

lemma quietly_root [quiet_intros]:
  assumes "preorder P"
  shows "quietly P (target_state_root env b d t)"
proof -
  have "quiet (snd (target_state_root env b d t w)) \<and> P (fw_queue w) (fw_queue (snd (target_state_root env b d t w)))
      \<and> (\<forall>c. target_step\<^sup>*\<^sup>* (target_on c w) (target_on c (snd (target_state_root env b d t w))))" if "quiet w" for w
  proof -
    note r = root_world [of env b d t w] and c = quietlyD [OF quietly_calls(1) [OF assms, of d] that]
    from assms r have "P (fw_queue (snd (reach d w))) (fw_queue (snd (target_state_root env b d t w)))"
      unfolding preorder_def by blast
    with preorder_trans [OF assms c(2)] r c(1,3) show ?thesis by simp
  qed
  then show ?thesis by (simp add: quietly_def)
qed

lemma quietly_cleanup [quiet_intros]:
  assumes "jobs_matter P"
  shows "quietly P (first_progress op sha a rc)" "quietly P (clean_target op sha a)"
  unfolding first_progress_def clean_target_def Let_def
  by (intro quiet_intros assms jobs_matterD [OF assms])+

text \<open>An expiry that is not safe to replay, and every other expiry.\<close>

lemma unknown_no_requeue: "no_requeue db (unknown_jobs b P now (put_batch b r db))"
  by (rule update_no_requeue) (auto simp: unknown_jobs_def update_jobs_def drop_leases_def put_batch_def)

lemma expire_unsafe_jobs: "no_requeue db (snd (expire_stale_batch env b now False n db))"
  unfolding expire_stale_batch_def expire_batch_def Let_def
  using preorder_refl [OF preorders(1)] by (auto simp: unknown_no_requeue split: option.split)

lemma quietly_expire [quiet_intros]:
  "quietly no_requeue (expire env b now False)" "quietly (\<lambda>_ _. True) (expire env b now safe)"
  unfolding expire_def by (intro quietly_on_queue; simp add: expire_unsafe_jobs)+

lemma quietly_finish: "quietly (\<lambda>_ _. True) (finish_cleanup env op sha a rc)"
  unfolding finish_cleanup_def by (intro quiet_intros preorders jobs_matterI)

section \<open>What the target's answers say\<close>

lemma reconcile_row_start:
  assumes "alloc_row db i = Some row"
  shows "\<exists>row'. alloc_row (reconcile_row env r db) i = Some row' \<and> al_start row' = al_start row"
  using assms
  by (cases "al_state row = CLAIMED")
    (auto simp: reconcile_row_def terminalize_resource_def quarantine_row_def alloc_row_update split: cleanup.split)

lemma reconcile_start:
  assumes "alloc_row db i = Some row"
  shows "\<exists>row'. alloc_row (reconcile_resources env db) i = Some row' \<and> al_start row' = al_start row"
proof -
  have "\<exists>row'. alloc_row (fold (reconcile_row env) rows db) i = Some row' \<and> al_start row' = al_start row" for rows
    using assms
  proof (induction rows arbitrary: db row)
    case (Cons r rows)
    from reconcile_row_start [OF Cons.prems, of env r] Cons.IH show ?case by fastforce
  qed simp
  then show ?thesis by (simp add: reconcile_resources_def)
qed

lemma auth_id: "resource_auth env body rf db = Inr row \<Longrightarrow> res_inv db \<Longrightarrow> dict_get body ''allocation_id'' = Some (JStr i) \<Longrightarrow>
    alloc_row db i = Some row \<and> al_id row = i"
  using res_invD(5) [of db i row]
  by (auto simp: resource_auth_def bounded_resource_text_def json_str_def row_ok_def split: option.splits sum.splits if_splits)

text \<open>A status or a cancellation answers with the row as it is afterwards, and never changes what was started.\<close>

lemma status_answer:
  assumes "resource_status env body db = Inr (resp, db')" and "res_inv db" and "dict_get body ''allocation_id'' = Some (JStr i)"
  shows "\<exists>row. resp = WithReceipt ''found'' None (resource_receipt row (en_boot env)) \<and> alloc_row db' i = Some row"
  using assms auth_id [of env body False db _ i]
  by (auto simp: resource_status_def answer_def elim!: with_rowE split: sum.splits)

lemma cancel_answer:
  assumes run: "resource_cancel env body db = Inr (resp, db')" and inv: "res_inv db"
    and i: "dict_get body ''allocation_id'' = Some (JStr i)" and row: "alloc_row db i = Some row"
  shows "\<exists>st row'. resp = WithReceipt st None (resource_receipt row' (en_boot env)) \<and> alloc_row db' i = Some row'
           \<and> al_start row' = al_start row"
proof -
  let ?db = "reconcile_resources env db"
  from reconcile_start [OF row] obtain r1 where r1: "alloc_row ?db i = Some r1" "al_start r1 = al_start row" by blast
  have id1: "al_id r1 = i" using res_invD(5) [OF reconcile_inv [OF inv] r1(1)] by (simp add: row_ok_def)
  from run obtain r0 where auth: "resource_auth env body True db = Inr r0" by (auto simp: resource_cancel_def split: sum.splits)
  with auth_id [OF _ inv i] have "al_id r0 = i" by blast
  with run r1 id1 have "(\<exists>st. answer env st i ?db = Inr (resp, db'))
      \<or> (\<exists>st. answer env st i (quarantine_row env i ''cancel_cleanup_unverified'' ?db) = Inr (resp, db'))
      \<or> (\<exists>st. answer env st i (terminalize_resource env i CANCELLED ''controller_cancelled'' ?db) = Inr (resp, db'))"
    by (auto simp: resource_cancel_def auth with_row_def split: if_splits)
  then show ?thesis
    using r1 by (auto simp: answer_def quarantine_row_def terminalize_resource_def alloc_row_update elim!: with_rowE)
qed

definition fresh_request :: "string \<Rightarrow> participant \<Rightarrow> bool" where
  "fresh_request i p \<longleftrightarrow> dict_get (pt_rpc p) i = None"

lemma client_rpc_fresh:
  assumes run: "client_rpc env d i op body w = (Inr (st, rc), w')" and q: "quiet w" and fresh: "fresh_request i (target_on d w)"
  shows "\<exists>tenv tok db'. run_rpc tenv op body (pt_db (target_on d w)) = Inr (WithReceipt st tok rc, db')
           \<and> pt_db (target_on d w') = db' \<and> (\<forall>k. k \<noteq> i \<longrightarrow> fresh_request k (target_on d w) \<longrightarrow> fresh_request k (target_on d w'))"
proof -
  from call_answered [OF run [unfolded client_rpc_def] q] obtain e w1 where t: "fw_targets w1 = fw_targets w"
    and a: "rpc_answer env d i op body e w1 = (Inr (st, rc), w')" by blast
  from fresh have n: "dict_get (pt_rpc (target_on d w)) i = None" by (simp add: fresh_request_def)
  show ?thesis
  proof (cases "run_rpc (ce_env e) op body (pt_db (target_on d w))")
    case (Inr z)
    then obtain resp db' where z: "run_rpc (ce_env e) op body (pt_db (target_on d w)) = Inr (resp, db')" by (cases z) auto
    with a t n obtain tok where "resp = WithReceipt st tok rc"
      and w': "w' = w1\<lparr>fw_targets := (fw_targets w1)(d := (target_on d w)
                 \<lparr>pt_db := db', pt_rpc := dict_set i (op, re_request_sha env op body, resp) (pt_rpc (target_on d w))\<rparr>)\<rparr>"
      by (cases resp) (auto simp: rpc_answer_def participant_rpc_def)
    with z show ?thesis by (auto simp: fresh_request_def dict_simps)
  qed (use a t n in \<open>simp add: rpc_answer_def participant_rpc_def\<close>)
qed

text \<open>The operation is over and its command was never started; the target never changes that.\<close>

definition never_started :: "string \<Rightarrow> participant \<Rightarrow> bool" where
  "never_started op p \<longleftrightarrow> (\<exists>row. alloc_row (pt_db p) op = Some row \<and> \<not> active (al_state row) \<and> al_start row = StartNo)"

lemma never_started_steps:
  assumes "never_started op p" and "target_step\<^sup>*\<^sup>* p p'" and "res_inv (pt_db p)"
  shows "never_started op p'"
proof -
  from assms(1) obtain row where row: "alloc_row (pt_db p) op = Some row" "\<not> active (al_state row)" "al_start row = StartNo"
    by (auto simp: never_started_def)
  from steps_row [OF target_steps_db [OF assms(2,3)] row(1)] row show ?thesis by (auto simp: never_started_def)
qed

section \<open>When a recovery queues jobs again\<close>

definition requeues_only_if :: "(fleet_world \<Rightarrow> bool) \<Rightarrow> 'a remote \<Rightarrow> fleet_world \<Rightarrow> bool" where
  "requeues_only_if Q m w \<longleftrightarrow> no_requeue (fw_queue w) (fw_queue (snd (m w))) \<or> Q (snd (m w))"

lemma requeues_quietly: "quietly no_requeue m \<Longrightarrow> quiet w \<Longrightarrow> requeues_only_if Q m w"
  by (simp add: requeues_only_if_def quietly_def)

lemma requeues_bind:
  assumes m: "quietly no_requeue m" and q: "quiet w"
    and f: "\<And>x w1. m w = (Inr x, w1) \<Longrightarrow> requeues_only_if Q (f x) w1"
  shows "requeues_only_if Q (rm_bind m f) w"
proof -
  obtain r w1 where run: "m w = (r, w1)" by (cases "m w")
  note s = quietlyD [OF m q, unfolded run snd_conv]
  show ?thesis
  proof (cases r)
    case (Inr x)
    with f [of x w1] run s(2) show ?thesis by (auto simp: requeues_only_if_def rm_bind_def intro: preorder_trans [OF preorders(1)])
  qed (use run s in \<open>simp add: requeues_only_if_def rm_bind_def\<close>)
qed

lemma requeues_settled:
  assumes "never_started op (target_on d w)" "quietly (\<lambda>_ _. True) m" "quiet w" "res_inv (pt_db (target_on d w))"
  shows "requeues_only_if (\<lambda>w'. never_started op (target_on d w')) m w"
  using never_started_steps [OF assms(1) quietlyD(3) [OF assms(2,3)] assms(4)] by (simp add: requeues_only_if_def)

text \<open>The receipt on which a recovery acts, and the state of the target when it does.\<close>

lemma terminal_receipt:
  "rp_state (resource_receipt row boot) \<in> {RELEASED, CANCELLED, EXPIRED, REBOOTED} \<Longrightarrow> \<not> active (al_state row)"
  by (auto simp: resource_receipt_def active_def)

lemma reach_targets: "quiet w \<Longrightarrow> fw_targets (snd (reach d w)) = fw_targets w"
  unfolding reach_def by (rule call_targets) (simp_all add: rm_return_def)

lemma root_targets: "quiet w \<Longrightarrow> fw_targets (snd (target_state_root env b d t w)) = fw_targets w"
  using root_world [of env b d t w] by (simp add: reach_targets)

lemma root_quiet:
  assumes "target_state_root env b d t w = (r, w1)" "quiet w"
  shows "quiet w1 \<and> fw_targets w1 = fw_targets w"
  using quietlyD(1) [OF quietly_root [OF preorders(1)] assms(2)] root_targets [OF assms(2)] assms(1) by (metis snd_conv)

lemma reach_quiet:
  assumes "reach d w = (r, w1)" "quiet w"
  shows "quiet w1 \<and> fw_targets w1 = fw_targets w"
  using quietlyD(1) [OF quietly_calls(1) [OF preorders(1)] assms(2)] reach_targets [OF assms(2)] assms(1) by (metis snd_conv)

lemma status_fresh:
  assumes run: "status_identity env d op tok i w = (Inr (st, rc), w')" and q: "quiet w"
    and fresh: "fresh_request i (target_on d w)" and inv: "res_inv (pt_db (target_on d w))"
  shows "(\<exists>row boot. rc = resource_receipt row boot \<and> alloc_row (pt_db (target_on d w')) op = Some row)
    \<and> (\<forall>k. k \<noteq> i \<longrightarrow> fresh_request k (target_on d w) \<longrightarrow> fresh_request k (target_on d w'))"
proof -
  from client_rpc_fresh [OF run [unfolded status_identity_def] q fresh] obtain tenv tk db' where
    a: "resource_status tenv [(''allocation_id'', JStr op), (''token'', JStr tok)] (pt_db (target_on d w)) = Inr (WithReceipt st tk rc, db')"
      "pt_db (target_on d w') = db'"
      "\<forall>k. k \<noteq> i \<longrightarrow> fresh_request k (target_on d w) \<longrightarrow> fresh_request k (target_on d w')"
    by auto
  with status_answer [OF a(1) inv, of op] show ?thesis by auto
qed

lemma cancel_fresh:
  assumes run: "client_cancel env d rc0 tok i w = (Inr (st, rc), w')" and q: "quiet w"
    and fresh: "fresh_request i (target_on d w)" and inv: "res_inv (pt_db (target_on d w))"
    and row: "alloc_row (pt_db (target_on d w)) (rp_allocation_id rc0) = Some row"
  shows "\<exists>row' boot. rc = resource_receipt row' boot \<and> alloc_row (pt_db (target_on d w')) (rp_allocation_id rc0) = Some row'
    \<and> al_start row' = al_start row"
proof -
  from client_rpc_fresh [OF run [unfolded client_cancel_def] q fresh] obtain tenv tk db' where
    a: "resource_cancel tenv [(''allocation_id'', JStr (rp_allocation_id rc0)), (''fence'', JInt (rp_fence rc0)), (''token'', JStr tok)]
          (pt_db (target_on d w)) = Inr (WithReceipt st tk rc, db')" "pt_db (target_on d w') = db'"
    by auto
  from cancel_answer [OF a(1) inv _ row] a(2) show ?thesis by auto
qed

text \<open>The part of the recovery after the target has answered.\<close>

lemma settle_after_status:
  assumes q: "quiet w" and inv: "res_inv (pt_db (target_on d w))" and d: "d = ba_device (ra_row a)"
    and fresh: "fresh_request (''fleet-recover-cancel-'' @ op) (target_on d w)"
    and row: "alloc_row (pt_db (target_on d w)) op = Some row" and rc: "rc = resource_receipt row boot" and no: "al_start row = StartNo"
  shows "requeues_only_if (\<lambda>w'. never_started op (target_on d w'))
    (rm_bind
       (if rp_state rc = RESERVED
        then rm_bind (client_cancel env d rc token (''fleet-recover-cancel-'' @ op)) (\<lambda>(_, r). rm_return r)
        else rm_return rc)
       (\<lambda>rc. if rp_state rc \<notin> {RELEASED, CANCELLED, EXPIRED, REBOOTED} then rm_return False else finish_cleanup env op sha a rc)) w"
proof (rule requeues_bind [OF _ q])
  show "quietly no_requeue (if rp_state rc = RESERVED
      then rm_bind (client_cancel env d rc token (''fleet-recover-cancel-'' @ op)) (\<lambda>(_, r). rm_return r) else rm_return rc)"
    by (intro quiet_intros preorders)
  fix rc' w1
  assume run: "(if rp_state rc = RESERVED
      then rm_bind (client_cancel env d rc token (''fleet-recover-cancel-'' @ op)) (\<lambda>(_, r). rm_return r) else rm_return rc) w = (Inr rc', w1)"
  have id: "rp_allocation_id rc = op" using res_invD(5) [OF inv row] by (simp add: rc resource_receipt_def row_ok_def)
  have "\<exists>row' boot'. rc' = resource_receipt row' boot' \<and> alloc_row (pt_db (target_on d w1)) op = Some row' \<and> al_start row' = StartNo"
  proof (cases "rp_state rc = RESERVED")
    case True
    with run obtain st where "client_cancel env d rc token (''fleet-recover-cancel-'' @ op) w = (Inr (st, rc'), w1)"
      by (auto simp: rm_bind_def rm_return_def split: prod.splits sum.splits)
    from cancel_fresh [OF this q fresh inv] row no id show ?thesis by auto
  qed (use run rc row no in \<open>auto simp: rm_return_def\<close>)
  then obtain row' boot' where row': "rc' = resource_receipt row' boot'" "alloc_row (pt_db (target_on d w1)) op = Some row'" "al_start row' = StartNo"
    by blast
  have q1: "quiet w1" and steps: "target_step\<^sup>*\<^sup>* (target_on d w) (target_on d w1)"
    using quietlyD(1,3) [OF _ q, of no_requeue "if rp_state rc = RESERVED
      then rm_bind (client_cancel env d rc token (''fleet-recover-cancel-'' @ op)) (\<lambda>(_, r). rm_return r) else rm_return rc"]
    unfolding run by (metis (no_types) quietly_if quietly_bind quietly_calls(6) quietly_return quietly_prod preorders(1) snd_conv)+
  show "requeues_only_if (\<lambda>w'. never_started op (target_on d w'))
      (if rp_state rc' \<notin> {RELEASED, CANCELLED, EXPIRED, REBOOTED} then rm_return False else finish_cleanup env op sha a rc') w1"
  proof (cases "rp_state rc' \<in> {RELEASED, CANCELLED, EXPIRED, REBOOTED}")
    case True
    with terminal_receipt row' have "never_started op (target_on d w1)" by (auto simp: never_started_def)
    from requeues_settled [OF this quietly_finish q1 tm.steps_inv [OF steps inv]] True show ?thesis by simp
  qed (simp add: requeues_quietly quietly_return q1)
qed

lemma act_settles:
  assumes q: "quiet w" and inv: "res_inv (pt_db (target_on d w))" and d: "d = ba_device (ra_row a)" and t: "\<not> ra_terminal a"
    and fresh: "fresh_request (''fleet-recover-cancel-'' @ op) (target_on d w)"
    and row: "alloc_row (pt_db (target_on d w)) op = Some row" and rc: "rc = resource_receipt row boot"
  shows "requeues_only_if (\<lambda>w'. never_started op (target_on d w')) (act_on_receipt env op sha token a rc) w"
proof (cases "rp_start rc = StartNo")
  case True
  then have no: "al_start row = StartNo" by (simp add: rc resource_receipt_def)
  show ?thesis
    unfolding act_on_receipt_def d [symmetric] using settle_after_status [OF q inv d fresh row rc no, of env token sha] True
    by (simp add: requeues_quietly quiet_intros q t)
next
  case False
  show ?thesis by (rule requeues_quietly [OF _ q]) (simp add: act_on_receipt_def False t quiet_intros)
qed

lemma recover_identified_settles:
  assumes q: "quiet w" and d: "d = ba_device (ra_row a)" and inv: "res_inv (pt_db (target_on d w))" and t: "\<not> ra_terminal a"
    and fresh: "fresh_request (''fleet-recover-status-'' @ op) (target_on d w)" "fresh_request (''fleet-recover-cancel-'' @ op) (target_on d w)"
  shows "requeues_only_if (\<lambda>w'. never_started op (target_on d w')) (recover_identified env op sha token a) w"
  unfolding recover_identified_def Let_def d [symmetric]
proof (rule requeues_bind [OF _ q])
  fix u w1 assume "target_state_root env (ra_batch a) d (ra_terminal a) w = (Inr u, w1)"
  from root_quiet [OF this q] have w1: "quiet w1" "fw_targets w1 = fw_targets w" by simp_all
  show "requeues_only_if (\<lambda>w'. never_started op (target_on d w'))
      (rm_bind (reach d) (\<lambda>_. rm_bind (status_identity env d op token (''fleet-recover-status-'' @ op))
         (\<lambda>(_, rc). act_on_receipt env op sha token a rc))) w1"
  proof (rule requeues_bind [OF _ w1(1)])
    fix u w2 assume "reach d w1 = (Inr u, w2)"
    from reach_quiet [OF this w1(1)] w1(2) have w2: "quiet w2" "fw_targets w2 = fw_targets w" by simp_all
    show "requeues_only_if (\<lambda>w'. never_started op (target_on d w'))
        (rm_bind (status_identity env d op token (''fleet-recover-status-'' @ op)) (\<lambda>(_, rc). act_on_receipt env op sha token a rc)) w2"
    proof (rule requeues_bind [OF _ w2(1)])
      fix z w3 assume run: "status_identity env d op token (''fleet-recover-status-'' @ op) w2 = (Inr z, w3)"
      obtain st rc where z: "z = (st, rc)" by (cases z)
      note run = run [unfolded z]
      have w3: "quiet w3" "res_inv (pt_db (target_on d w3))"
        using quietlyD(1) [OF quietly_calls(5) [OF preorders(1)] w2(1)] tm.steps_inv [OF quietlyD(3) [OF quietly_calls(5) [OF preorders(1)] w2(1)]]
          inv w2(2) run by (metis snd_conv)+
      from status_fresh [OF run w2(1)] fresh inv w2(2) obtain row boot where
        "rc = resource_receipt row boot" "alloc_row (pt_db (target_on d w3)) op = Some row"
        "fresh_request (''fleet-recover-cancel-'' @ op) (target_on d w3)" by auto
      with act_settles [OF w3 d t] show "requeues_only_if (\<lambda>w'. never_started op (target_on d w'))
          (case z of (_, rc) \<Rightarrow> act_on_receipt env op sha token a rc) w3" by (simp add: z)
    qed (simp add: quiet_intros)
  qed (simp add: quiet_intros)
qed (simp add: quiet_intros)

section \<open>Sample worlds\<close>

definition demo_recovery :: recovery_env where
  "demo_recovery = \<lparr>re_devices = [(''box'', ''ssh-posix'')], re_queue = demo_env, re_batch_digest = (\<lambda>b. b),
     re_request_sha = (\<lambda>op body. []), re_backoff = (\<lambda>now base n salt. now), re_lease_until = (\<lambda>now s. now)\<rparr>"

definition demo_call :: "target_event list \<Rightarrow> link \<Rightarrow> call_event" where
  "demo_call evs l = \<lparr>ce_ops = [], ce_target = evs, ce_env = sample_env\<lparr>en_terminate := \<lambda>_. True\<rparr>, ce_link = l,
     ce_error = ''TransportError: lost'', ce_now = ''6'', ce_durable = JNull\<rparr>"

definition demo_operation :: string where "demo_operation = ''fleet-b1''"

definition demo_sha :: string where "demo_sha = replicate 64 CHR ''a''"

definition demo_reserve_body :: request where
  "demo_reserve_body = [(''allocation_id'', JStr demo_operation), (''operation_id'', JStr demo_operation), (''request_sha256'', JStr demo_sha),
     (''resource_keys'', JList []), (''expected_policy_generation'', JInt 0), (''expected_policy_digest'', JStr EMPTY_RESOURCE_POLICY_DIGEST)]"

definition demo_target :: participant where
  "demo_target = snd (participant_rpc sample_env ''r'' [] Reserve demo_reserve_body initial_participant)"

definition demo_owner_body :: request where
  "demo_owner_body = [(''allocation_id'', JStr demo_operation), (''token'', JStr ''secret''), (''fence'', JInt 1),
     (''policy_generation'', JInt 0), (''policy_digest'', JStr EMPTY_RESOURCE_POLICY_DIGEST)]"

text \<open>The owner claims the reservation, authorizes the start and confirms it.\<close>

definition demo_start :: "target_event list" where
  "demo_start = [ByOwner sample_env (Claim sample_owner) demo_owner_body, ByOwner sample_env (Start StartMaybe False) demo_owner_body,
     ByOwner sample_env (ExecConfirm (Some (JInt 43)) (Some (JStr ''u''))) demo_owner_body]"

text \<open>The queue of a batch that reserved its target operation and runs until time 5.\<close>

definition demo_reserved_batch :: "(string \<times> fleet_op) list" where
  "demo_reserved_batch = demo_running (Some 1) @ [(''4'', TargetReservation ''b1'' demo_operation demo_sha ''secret'' Running ''token-b1'')]"

definition demo_fleet :: "(string \<times> fleet_op) list \<Rightarrow> participant \<Rightarrow> call_event list \<Rightarrow> fleet_world" where
  "demo_fleet ops p script = \<lparr>fw_queue = run_ops ops empty_queue, fw_targets = (\<lambda>_. p), fw_stages = [(''box'', demo_operation)],
     fw_durables = [], fw_clock = ''6'', fw_script = script\<rparr>"

definition job_state_in :: "string \<Rightarrow> fleet_world \<Rightarrow> work_state option" where
  "job_state_in i w = map_option jb_state (dict_get (qd_jobs (fw_queue w)) i)"

definition operation_on :: "string \<Rightarrow> string \<Rightarrow> fleet_world \<Rightarrow> (alloc_state \<times> start_state) option" where
  "operation_on d op w = map_option (\<lambda>r. (al_state r, al_start r)) (alloc_row (pt_db (fw_targets w d)) op)"

lemma demo_target_reachable: "target_reachable demo_target"
  unfolding target_reachable_def demo_target_def by (rule r_into_rtranclp) (rule target_step.rpc)

section \<open>Properties\<close>


definition demo_row :: "fleet_world \<Rightarrow> batch_row option" where
  "demo_row w = dict_get (qd_batches (fw_queue w)) ''b1''"


text \<open>
  An answer of the target that is older than the start of the command makes the recovery
  replay started work.  The first recovery asks for the status, which the target records under
  the identifier of the request, and its cancellation is lost; the owner then starts the command;
  the next recovery is given the recorded status, cancels the running operation and queues the
  job again.  The same happens when the command starts between the status and the cancellation.
\<close>

theorem stale_status_replays_started_work:
  "let status = [demo_call [] Delivered, demo_call [] Delivered, demo_call [] Delivered];
       w1 = snd (recover_target_stale demo_recovery ''6'' None
              (demo_fleet demo_reserved_batch demo_target
                 (status @ demo_call [] Undelivered # demo_call demo_start Delivered # replicate 5 (demo_call [] Delivered))));
       w2 = snd (recover_target_stale demo_recovery ''7'' None w1);
       w3 = snd (recover_target_stale demo_recovery ''6'' None
              (demo_fleet demo_reserved_batch demo_target (status @ demo_call demo_start Delivered # replicate 2 (demo_call [] Delivered))))
   in job_state_in ''j1'' w1 = Some Running \<and> operation_on ''box'' demo_operation w1 = Some (RESERVED, StartNo)
      \<and> job_state_in ''j1'' w2 = Some Queued \<and> operation_on ''box'' demo_operation w2 = Some (CANCELLED, StartYes)
      \<and> job_state_in ''j1'' w3 = Some Queued \<and> operation_on ''box'' demo_operation w3 = Some (CANCELLED, StartYes)"
  by code_simp

definition demo_finished_batch :: "(string \<times> fleet_op) list" where
  "demo_finished_batch = demo_reserved_batch @
     [(''4'', TargetAcceptance ''b1'' demo_operation demo_sha Running ''token-b1''),
      (''4'', SetBatchState ''b1'' Fetching Running ''token-b1''),
      (''4'', AuthorizeCleanup ''b1'' demo_operation demo_sha ''RELEASED'' Fetching ''token-b1''),
      (''4'', TargetFinalization ''b1'' demo_operation demo_sha ''RELEASED'' True True Fetching ''token-b1'')]"

definition demo_finished_target :: participant where
  "demo_finished_target =
     fold run_target_event (demo_start @ [ByOwner sample_env (Release ''process_tree_exited'') demo_owner_body]) demo_target"

text \<open>
  Finished work is replayed when the controller dies between the finalization of the target
  and the completion of the batch.  The command ran, its operation was released, the outputs were
  returned and the executor recorded the finalization; the recovery of the expired batch takes
  the recorded finalization as a proof that nothing was started and queues the job again, in
  a history that the queue allows and without asking the target.
\<close>

theorem finished_work_replayed:
  "let w = demo_fleet demo_finished_batch demo_finished_target [];
       w' = snd (recover_target_stale demo_recovery ''6'' None w)
   in calls_ok ''0'' demo_finished_batch
      \<and> job_state_in ''j1'' w = Some Fetching \<and> operation_on ''box'' demo_operation w = Some (RELEASED, StartYes)
      \<and> job_state_in ''j1'' w' = Some Queued"
  by code_simp

section \<open>Answers recorded for good\<close>

text \<open>The program cannot succeed and leaves jobs and batches alone.\<close>

definition stuck :: "bool remote \<Rightarrow> fleet_world \<Rightarrow> bool" where
  "stuck m w \<longleftrightarrow> fst (m w) \<noteq> Inr True \<and> same_tables (fw_queue w) (fw_queue (snd (m w)))"

lemma stuck_bind:
  assumes m: "quietly same_tables m" and q: "quiet w" and f: "\<And>x w1. m w = (Inr x, w1) \<Longrightarrow> stuck (f x) w1"
  shows "stuck (rm_bind m f) w"
proof -
  obtain r w1 where run: "m w = (r, w1)" by (cases "m w")
  note s = quietlyD(2) [OF m q, unfolded run snd_conv]
  show ?thesis
  proof (cases r)
    case (Inr x)
    with f [of x w1] run s show ?thesis by (simp add: stuck_def rm_bind_def same_tables_def)
  qed (use run s in \<open>simp add: stuck_def rm_bind_def\<close>)
qed

lemma replayed_answer:
  assumes run: "client_rpc env d i op body w = (Inr (st, rc), w')" and q: "quiet w"
    and old: "dict_get (pt_rpc (target_on d w)) i = Some (op, re_request_sha env op body, WithReceipt st' tok rc')"
  shows "rc = rc'"
proof -
  from call_answered [OF run [unfolded client_rpc_def] q] obtain e w1 where "fw_targets w1 = fw_targets w"
    "rpc_answer env d i op body e w1 = (Inr (st, rc), w')" by blast
  with old show ?thesis by (simp add: rpc_answer_def participant_rpc_def)
qed

lemma stuck_identified:
  assumes q: "quiet w" and d: "d = ba_device (ra_row a)" and old: "dict_get (pt_rpc (target_on d w)) (''fleet-recover-status-'' @ op)
      = Some (Status, re_request_sha env Status [(''allocation_id'', JStr op), (''token'', JStr token)], WithReceipt st tok rc)"
    and rc: "rp_operation_id rc = op" "rp_request_sha256 rc = sha" "rp_state rc \<in> {CLAIMED, QUARANTINED}" "ra_terminal a \<or> rp_start rc = StartNo"
    and owner: "\<not> ra_owner_release a"
  shows "stuck (recover_identified env op sha token a) w"
  unfolding recover_identified_def Let_def d [symmetric]
proof (rule stuck_bind [OF _ q])
  fix u w1 assume "target_state_root env (ra_batch a) d (ra_terminal a) w = (Inr u, w1)"
  from root_quiet [OF this q] have w1: "quiet w1" "fw_targets w1 = fw_targets w" by simp_all
  show "stuck (rm_bind (reach d) (\<lambda>_. rm_bind (status_identity env d op token (''fleet-recover-status-'' @ op))
      (\<lambda>(_, rc). act_on_receipt env op sha token a rc))) w1"
  proof (rule stuck_bind [OF _ w1(1)])
    fix u w2 assume "reach d w1 = (Inr u, w2)"
    from reach_quiet [OF this w1(1)] w1(2) have w2: "quiet w2" "fw_targets w2 = fw_targets w" by simp_all
    show "stuck (rm_bind (status_identity env d op token (''fleet-recover-status-'' @ op)) (\<lambda>(_, rc). act_on_receipt env op sha token a rc)) w2"
    proof (rule stuck_bind [OF _ w2(1)])
      fix z w3 assume run: "status_identity env d op token (''fleet-recover-status-'' @ op) w2 = (Inr z, w3)"
      obtain st' rc' where z: "z = (st', rc')" by (cases z)
      from replayed_answer [OF run [unfolded z status_identity_def] w2(1)] old w2(2) have "rc' = rc" by simp
      with rc owner show "stuck (case z of (_, rc) \<Rightarrow> act_on_receipt env op sha token a rc) w3"
        by (auto simp: z act_on_receipt_def stuck_def rm_return_def rm_bind_def same_tables_def)
    qed (simp add: quiet_intros)
  qed (simp add: quiet_intros)
qed (simp add: quiet_intros)

text \<open>
  A status answered while the operation was still held blocks its recovery for ever.  Once the
  target has recorded such an answer under the identifier that every recovery of the batch uses,
  no later recovery, of the live batch or of its finished row, ends with success or changes a job
  or a batch, whatever has happened on the target since.
\<close>

theorem stale_status_blocks_recovery:
  assumes "dict_get (pt_rpc p) (''fleet-recover-status-'' @ op)
      = Some (Status, re_request_sha env Status [(''allocation_id'', JStr op), (''token'', JStr token)], WithReceipt st tok rc)"
    and "rp_operation_id rc = op" "rp_request_sha256 rc = sha" "rp_state rc \<in> {CLAIMED, QUARANTINED}" "terminal \<or> rp_start rc = StartNo"
    and "target_step\<^sup>*\<^sup>* p (fw_targets w (ba_device r))" and "quiet w"
    and "op = target_operation_identity env b" "target_acceptance_supported env (ba_device r)" "target_identity_complete r"
    and "ba_operation_id r = Some op" "ba_request_sha256 r = Some sha" "ba_resume_token r = Some token" "ba_finalized_at r = None"
    and "ba_disposition r \<notin> {Some FINALIZATION_MALFORMED, Some FINALIZATION_FENCED}"
  shows "\<exists>w'. recover_target_row env \<lparr>ra_batch = b, ra_row = r, ra_now = now, ra_terminal = terminal, ra_owner_release = False\<rparr> w = (Inr False, w')
           \<and> qd_jobs (fw_queue w') = qd_jobs (fw_queue w) \<and> qd_batches (fw_queue w') = qd_batches (fw_queue w)"
proof -
  let ?a = "\<lparr>ra_batch = b, ra_row = r, ra_now = now, ra_terminal = terminal, ra_owner_release = False\<rparr>"
  note old = target_steps_replay [OF assms(6,1)]
  have s: "stuck (recover_identified env op sha token ?a) w"
    by (rule stuck_identified [where st = st and tok = tok and rc = rc]) (use assms(2-5,7) old in simp_all)
  have "recover_target_row env ?a = rm_catch (recover_identified env op sha token ?a) False"
    using assms(8-15) unfolding recover_target_row_def Let_def
    by (auto simp: nonempty_def target_identity_complete_def)
  with s show ?thesis
    by (cases "recover_identified env op sha token ?a w") (auto simp: stuck_def rm_catch_def same_tables_def split: sum.splits)
qed

definition demo_asked :: participant where
  "demo_asked = fw_targets (snd (recover_target_stale demo_recovery ''6'' None
     (demo_fleet demo_reserved_batch demo_target
        [demo_call [] Delivered, demo_call [] Delivered, (demo_call (take 1 demo_start) Delivered)\<lparr>ce_env := sample_env\<lparr>en_cleanup := \<lambda>_. Live\<rparr>\<rparr>]))) ''box''"

definition demo_ended :: participant where
  "demo_ended = demo_asked\<lparr>pt_db := snd (resource_owner_mutation sample_env (Release ''process_tree_exited'') demo_owner_body (pt_db demo_asked))\<rparr>"

theorem stale_status_blocks_recovery_witness:
  "\<exists>r w'. recover_target_row demo_recovery \<lparr>ra_batch = ''b1'', ra_row = r, ra_now = ''9'', ra_terminal = False, ra_owner_release = False\<rparr>
       (demo_fleet demo_reserved_batch demo_ended (replicate 6 (demo_call [] Delivered))) = (Inr False, w')
     \<and> job_state_in ''j1'' w' = Some Running \<and> operation_on ''box'' demo_operation w' = Some (RELEASED, StartNo)"
proof -
  let ?w = "demo_fleet demo_reserved_batch demo_ended (replicate 6 (demo_call [] Delivered))" and ?id = "''fleet-recover-status-'' @ demo_operation"
  let ?a = "\<lambda>r. \<lparr>ra_batch = ''b1'', ra_row = r, ra_now = ''9'', ra_terminal = False, ra_owner_release = False\<rparr>"
  have row: "case demo_row ?w of None \<Rightarrow> False
      | Some r \<Rightarrow> ba_device r = ''box'' \<and> ba_operation_id r = Some demo_operation \<and> ba_request_sha256 r = Some demo_sha
          \<and> ba_resume_token r = Some ''secret'' \<and> ba_finalized_at r = None \<and> target_identity_complete r
          \<and> ba_disposition r \<notin> {Some FINALIZATION_MALFORMED, Some FINALIZATION_FENCED}
          \<and> operation_on ''box'' demo_operation (snd (recover_target_row demo_recovery (?a r) ?w)) = Some (RELEASED, StartNo)"
    by code_simp
  then obtain r where r: "ba_device r = ''box''" "ba_operation_id r = Some demo_operation" "ba_request_sha256 r = Some demo_sha"
      "ba_resume_token r = Some ''secret''" "ba_finalized_at r = None" "target_identity_complete r"
      "ba_disposition r \<notin> {Some FINALIZATION_MALFORMED, Some FINALIZATION_FENCED}"
      "operation_on ''box'' demo_operation (snd (recover_target_row demo_recovery (?a r) ?w)) = Some (RELEASED, StartNo)"
    by (auto split: option.splits)
  have "case dict_get (pt_rpc demo_asked) ?id of
      Some (Status, sha, WithReceipt st tok rc) \<Rightarrow> sha = [] \<and> rp_operation_id rc = demo_operation \<and> rp_request_sha256 rc = demo_sha
        \<and> rp_state rc = CLAIMED \<and> rp_start rc = StartNo
    | _ \<Rightarrow> False" by code_simp
  then obtain st tok rc where rc: "dict_get (pt_rpc demo_asked) ?id = Some (Status, [], WithReceipt st tok rc)"
      "rp_operation_id rc = demo_operation" "rp_request_sha256 rc = demo_sha" "rp_state rc = CLAIMED" "rp_start rc = StartNo"
    by (auto split: option.splits prod.splits rpc_op.splits response.splits)
  have "target_step demo_asked demo_ended" unfolding demo_ended_def by (rule target_step.owner)
  then have steps: "target_step\<^sup>*\<^sup>* demo_asked (fw_targets ?w ''box'')" by (simp add: demo_fleet_def)
  have q: "quiet ?w" by (simp add: quiet_def demo_fleet_def demo_call_def)
  have op: "demo_operation = target_operation_identity demo_recovery ''b1''" "target_acceptance_supported demo_recovery ''box''" by code_simp+
  have sha: "re_request_sha demo_recovery Status body = []" for body by (simp add: demo_recovery_def)
  have job: "job_state_in ''j1'' ?w = Some Running" by code_simp
  from stale_status_blocks_recovery [of demo_asked demo_operation demo_recovery "''secret''" st tok rc demo_sha False ?w r "''b1''" "''9''"]
    rc steps q op r(1-7) sha obtain w' where "recover_target_row demo_recovery (?a r) ?w = (Inr False, w')"
      "qd_jobs (fw_queue w') = qd_jobs (fw_queue ?w)" by auto
  with job r(8) show ?thesis by (intro exI [of _ r] exI [of _ w']) (auto simp: job_state_in_def)
qed

section \<open>A finished cleanup\<close>

lemma and_True: "rm_and m n w = (Inr True, w') \<longleftrightarrow> (\<exists>w1. m w = (Inr True, w1) \<and> n w1 = (Inr True, w'))"
  by (auto simp: rm_and_def rm_bind_def rm_return_def split: prod.splits sum.splits if_splits)

lemma bind_Inr: "rm_bind m f w = (Inr x, w') \<longleftrightarrow> (\<exists>y w1. m w = (Inr y, w1) \<and> f y w1 = (Inr x, w'))"
  by (auto simp: rm_bind_def split: prod.splits sum.splits)

lemma catch_Inr: "rm_catch m False w = (Inr True, w') \<longleftrightarrow> m w = (Inr True, w')"
  by (auto simp: rm_catch_def split: prod.splits sum.splits)

lemma removals:
  assumes "remote_call d (\<lambda>_ w. (Inr (), g w)) w = (Inr u, w')" and "\<And>w. fw_stages (g w) = filter P (fw_stages w) \<and> fw_durables (g w) = filter Q (fw_durables w)"
  shows "fw_stages w' = filter P (fw_stages w)" "fw_durables w' = filter Q (fw_durables w)"
  using assms by (auto simp: remote_call_def others_act_def Let_def split: list.splits link.splits)

lemma stage_removed: "remove_stage d op w = (Inr u, w') \<Longrightarrow> (d, op) \<notin> set (fw_stages w')"
  unfolding remove_stage_def by (drule removals(1) [where P = "\<lambda>s. s \<noteq> (d, op)" and Q = "\<lambda>_. True"]) auto

lemma durable_removed:
  "durable_cleanup d op w = (Inr u, w') \<Longrightarrow> (d, op) \<notin> set (fw_durables w') \<and> fw_stages w' = fw_stages w"
  unfolding durable_cleanup_def
  by (frule removals(1) [where P = "\<lambda>_. True" and Q = "\<lambda>s. s \<noteq> (d, op)"], simp,
      drule removals(2) [where P = "\<lambda>_. True" and Q = "\<lambda>s. s \<noteq> (d, op)"]) auto

lemma record_trees: "on_queue f w = (Inr x, w') \<Longrightarrow> fw_stages w' = fw_stages w \<and> fw_durables w' = fw_durables w"
  by (auto simp: on_queue_def case_prod_beta Let_def)

lemma clean_target_done:
  assumes "clean_target op sha a w = (Inr True, w')"
    and "\<not> nonempty (ba_stage_cleaned_at (ra_row a))" "\<not> nonempty (ba_durable_cleaned_at (ra_row a))"
  shows "(ba_device (ra_row a), op) \<notin> set (fw_stages w') \<and> (ba_device (ra_row a), op) \<notin> set (fw_durables w')"
  using assms unfolding clean_target_def Let_def and_True progress_def
  by (auto simp: bind_Inr dest!: stage_removed durable_removed record_trees)

lemma finalized_row:
  assumes "on_queue (record_expired_target_finalization b op sha c rel now) w = (Inr True, w')"
  shows "\<exists>r. batch_at (fw_queue w') b = Some r \<and> ba_disposition r = Some FINALIZATION_FINALIZED \<and> ba_finalized_at r \<noteq> None
           \<and> ba_cleanup_state r = Some c"
  using assms
  by (auto simp: on_queue_def record_expired_target_finalization_def Let_def case_prod_beta put_batch_def dict_simps coalesce_def
      split: if_splits option.splits)

lemma finish_cleanup_done:
  assumes "finish_cleanup env op sha a rc w = (Inr True, w')" and "ra_terminal a"
    and "\<not> nonempty (ba_stage_cleaned_at (ra_row a))" "\<not> nonempty (ba_durable_cleaned_at (ra_row a))"
  shows "(\<exists>r. batch_at (fw_queue w') (ra_batch a) = Some r \<and> ba_disposition r = Some FINALIZATION_FINALIZED \<and> ba_finalized_at r \<noteq> None
            \<and> ba_cleanup_state r = Some (state_name (rp_state rc)))
    \<and> (ba_device (ra_row a), op) \<notin> set (fw_stages w') \<and> (ba_device (ra_row a), op) \<notin> set (fw_durables w')"
proof -
  from assms(1,2) obtain w1 w2 where c: "clean_target op sha a w1 = (Inr True, w2)"
    and f: "on_queue (record_expired_target_finalization (ra_batch a) op sha (state_name (rp_state rc)) (ra_owner_release a) (ra_now a)) w2 = (Inr True, w')"
    by (auto simp: finish_cleanup_def and_True rm_return_def)
  from clean_target_done [OF c assms(3,4)] finalized_row [OF f] record_trees [OF f] show ?thesis by simp
qed



section \<open>Cancellations\<close>

lemma cancellation_no_requeue:
  "no_requeue db (snd (mark_active_cancellation_unknown b ids reason now db))"
  "no_requeue db (snd (cancel_active_batch b ids c now db))"
proof -
  have "no_requeue db (drop_leases b (update_jobs Q f (put_batch b r db)))" if "\<And>k j. jb_state (f k j) \<noteq> Queued" for Q f r
    by (rule update_no_requeue [where Q = Q and f = f]) (use that in \<open>simp_all add: update_jobs_def drop_leases_def put_batch_def\<close>)
  then show "no_requeue db (snd (mark_active_cancellation_unknown b ids reason now db))" "no_requeue db (snd (cancel_active_batch b ids c now db))"
    unfolding mark_active_cancellation_unknown_def cancel_active_batch_def
    using preorder_refl [OF preorders(1)] by (auto split: option.split)
qed

lemma quietly_settle [quiet_intros]: "quietly no_requeue (settle_cancellation b st now)"
proof -
  have "quietly no_requeue (on_queue (mark_active_cancellation_unknown b ids reason now))"
    "quietly no_requeue (on_queue (cancel_active_batch b ids c now))" "quietly no_requeue (rm_return False)" for ids reason c
    by (intro quietly_on_queue cancellation_no_requeue quietly_return preorders)+
  then show ?thesis by (simp add: quietly_def settle_cancellation_def Let_def)
qed

text \<open>
  The recovery of a cancellation never replays: no job that is not in the queue is put into it.
\<close>

theorem cancellation_recovery_never_replays:
  assumes "quiet w" and "recover_target_cancellation env b r now w = (res, w')"
    and "job_at (fw_queue w') i = Some j'" and "jb_state j' = Queued"
  shows "\<exists>j. job_at (fw_queue w) i = Some j \<and> jb_state j = Queued"
proof -
  have "quietly no_requeue (recover_target_cancellation env b r now)"
    unfolding recover_target_cancellation_def Let_def stop_operation_def
    by (auto intro!: quiet_intros preorders split: option.split)
  from quietlyD(2) [OF this assms(1)] assms(2-4) show ?thesis by (auto simp: no_requeue_def)
qed

end
