(* ===== verification/BatchRun.thy ===== *)
theory BatchRun
  imports TargetRecovery
begin

text \<open>
  How a dispatcher runs one claimed batch to its end (\<open>_run_claimed_batch\<close> of
  \<open>src/remrun/fleet/dispatcher.py\<close>), under the heartbeat of \<open>src/remrun/fleet/queue.py\<close> and with the
  readers of results of \<open>src/remrun/fleet/executor.py\<close>.  The run of the batch on its device is
  an arbitrary sequence of the callbacks it was given, with an arbitrary result or exception.
  Between any two calls other processes may change the queue, the heartbeat thread may beat or
  fail, and every call may raise.
\<close>

section \<open>Results\<close>

text \<open>
  What the dispatcher reads of the result of a run; a row is the JSON object of an item.
  \<open>xr_command_started\<close> tells an absent key from a null, \<open>xr_target_operation\<close> is whether
  the receipt is there.
\<close>

type_synonym row = "(string, json) dict"

record run_result =
  xr_ok :: bool
  xr_definition_drift :: bool
  xr_completion_state :: "string option"
  xr_command_started :: "bool option option"
  xr_error :: "string option"
  xr_no_retry :: bool
  xr_item_results :: "row list"
  xr_stderr_tail :: string
  xr_exit_code :: "int option"
  xr_target_operation :: bool
  xr_acceptance_unknown :: bool
  xr_cleanup_deferred :: bool

text \<open>The empty dictionary.\<close>

definition no_result :: run_result where
  "no_result = \<lparr>xr_ok = False, xr_definition_drift = False, xr_completion_state = None, xr_command_started = None, xr_error = None,
     xr_no_retry = False, xr_item_results = [], xr_stderr_tail = [], xr_exit_code = None, xr_target_operation = False,
     xr_acceptance_unknown = False, xr_cleanup_deferred = False\<rparr>"

definition completion_unknown :: "run_result \<Rightarrow> bool" where
  "completion_unknown res \<longleftrightarrow> xr_completion_state res = Some ''unknown'' \<or> xr_command_started res = Some None"

definition target_finalization_disposition :: "run_result \<Rightarrow> string option" where
  "target_finalization_disposition res =
     (if \<not> xr_target_operation res \<and> \<not> xr_cleanup_deferred res then None
      else if xr_acceptance_unknown res \<or> completion_unknown res then Some FINALIZATION_FENCED
      else if xr_cleanup_deferred res
      then (if xr_completion_state res = Some ''not_started'' \<and> xr_command_started res = Some (Some False)
            then Some FINALIZATION_REPLAYABLE else Some FINALIZATION_PENDING)
      else Some FINALIZATION_FINALIZED)"

definition json_true :: "json option \<Rightarrow> bool" where
  "json_true v \<longleftrightarrow>
     (case v of None \<Rightarrow> False | Some JNull \<Rightarrow> False | Some (JBool b) \<Rightarrow> b | Some (JInt n) \<Rightarrow> n \<noteq> 0 | Some (JStr s) \<Rightarrow> s \<noteq> []
      | Some (JList xs) \<Rightarrow> xs \<noteq> [] | Some (JObj kvs) \<Rightarrow> kvs \<noteq> [])"

definition item_succeeded :: "row \<Rightarrow> bool" where
  "item_succeeded r \<longleftrightarrow> eq_str (dict_get r ''outcome'') ''succeeded'' \<or> json_true (dict_get r ''ok'')"

definition item_job :: "row \<Rightarrow> string option" where
  "item_job r = (case json_str (dict_get r ''job_id'') of Some s \<Rightarrow> if s = [] then None else Some s | None \<Rightarrow> None)"

definition item_disposition :: "row \<Rightarrow> string" where
  "item_disposition r =
     (if eq_str (dict_get r ''outcome'') ''review'' then ''review''
      else map (\<lambda>c. if c = CHR ''-'' then CHR ''_'' else c)
             (if json_true (dict_get r ''disposition'') then py_str (the (dict_get r ''disposition'')) else ''final''))"

definition item_message :: "row \<Rightarrow> string" where
  "item_message r =
     (if json_true (dict_get r ''message'') then py_str (the (dict_get r ''message''))
      else if json_true (dict_get r ''error'') then py_str (the (dict_get r ''error''))
      else ''worker reported item failure'')"

text \<open>A dictionary built from the rows with a job and a verdict; a later row replaces an earlier one.\<close>

definition rows_dict :: "(row \<Rightarrow> bool) \<Rightarrow> (row \<Rightarrow> 'a) \<Rightarrow> row list \<Rightarrow> (string, 'a) dict" where
  "rows_dict P f rows =
     fold (\<lambda>r d. case item_job r of Some i \<Rightarrow> if P r then dict_set i (f r) d else d | None \<Rightarrow> d) rows []"

definition item_result_maps :: "(row \<Rightarrow> string) \<Rightarrow> row list \<Rightarrow> (string, string option) dict \<times> (string, string) dict" where
  "item_result_maps dumps rows =
     (rows_dict item_succeeded (\<lambda>r. Some (dumps r)) rows, rows_dict (\<lambda>r. \<not> item_succeeded r) item_message rows)"

definition item_records :: "(row \<Rightarrow> string) \<Rightarrow> row list \<Rightarrow> (string, string) dict" where
  "item_records dumps rows = rows_dict (\<lambda>r. \<not> item_succeeded r) dumps rows"

definition item_dispositions :: "row list \<Rightarrow> (string, string) dict" where
  "item_dispositions rows = rows_dict (\<lambda>r. \<not> item_succeeded r) item_disposition rows"

text \<open>The verdict of the output check on the rows that the worker called successful.\<close>

definition apply_item_output_verdict :: "row list \<Rightarrow> row \<Rightarrow> row list" where
  "apply_item_output_verdict rows verify =
     (if \<not> eq_str (dict_get verify ''status'') ''final'' then rows
      else
        (let detail = (if json_true (dict_get verify ''detail'') then py_str (the (dict_get verify ''detail''))
                       else ''mapped output verification failed'');
             message = JStr (''output verify: '' @ detail)
         in map (\<lambda>r. if \<not> item_succeeded r then r
                     else fold (\<lambda>(k, v). dict_set k v)
                            [(''ok'', JBool False), (''outcome'', JStr ''failed''), (''disposition'', JStr ''final''),
                             (''publication'', JStr ''none''), (''outputs'', JList []), (''companion'', JNull),
                             (''message'', message), (''error'', message), (''failure_code'', JStr ''output_verification_failed''),
                             (''resource'', JStr ''none''),
                             (''details'', JObj [(''output_verify'', JObj verify), (''worker_result'', JObj r)])] r)
              rows))"

section \<open>The world of a worker\<close>

text \<open>
  All that happens at one call: the operations of other processes on the queue, whether the
  heartbeat thread beats or fails, the clock, the exception if the call raises, the identifier
  that the configuration now gives the task (none when it is missing or unreadable), the modification
  times of the files below the output root, and whether the health audit finds and kills workers.
\<close>

record moment =
  mo_ops :: "(string \<times> fleet_op) list"
  mo_beat :: bool
  mo_thread_fails :: bool
  mo_now :: string
  mo_fault :: "string option"
  mo_live :: "string option"
  mo_mtimes :: "(string, int) dict"
  mo_leak :: bool

text \<open>
  The local variables of the worker are part of the state: the state of the batch, which is also what
  the heartbeat expects, the record of the attempt, the latest result and the reason of a drift.
\<close>

record run_world =
  rw_queue :: queue_db
  rw_now :: string
  rw_moments :: "moment list"
  rw_beating :: bool
  rw_lost :: bool
  rw_state :: work_state
  rw_record :: "string option"
  rw_latest :: run_result
  rw_drift :: "string option"

record output_contract =
  oc_verification :: string
  oc_missing_mapping :: string
  oc_no_change :: string

text \<open>
  The claim, and what the worker reads elsewhere: the configuration of the device and of the
  task, \<open>durable_attempt_record\<close>, \<open>profile_observation\<close>, which may raise, and \<open>json.dumps\<close>.
\<close>

record batch_claim =
  bc_batch :: string
  bc_device :: string
  bc_engine :: string
  bc_token :: string
  bc_job_ids :: "string list"
  bc_command :: bool
  bc_spec_id :: string
  bc_force_device :: "string option"
  bc_allow_fallback :: bool
  bc_memory_patterns :: bool
  bc_contract :: output_contract

record batch_env =
  bv_recovery :: recovery_env
  bv_lease_seconds :: int
  bv_raw_spec :: string
  bv_health :: bool
  bv_health_cooldown :: int
  bv_device_known :: bool
  bv_output_arg :: "string option"
  bv_record :: "run_result \<Rightarrow> string option \<Rightarrow> string option"
  bv_observation :: "run_result \<Rightarrow> string option \<Rightarrow> string + observation"
  bv_dumps :: "row \<Rightarrow> string"

type_synonym 'a run = "run_world \<Rightarrow> (string + 'a) \<times> run_world"

definition br_return :: "'a \<Rightarrow> 'a run" where
  "br_return x w = (Inr x, w)"

definition br_bind :: "'a run \<Rightarrow> ('a \<Rightarrow> 'b run) \<Rightarrow> 'b run" where
  "br_bind m f w = (case m w of (Inl e, w') \<Rightarrow> (Inl e, w') | (Inr x, w') \<Rightarrow> f x w')"

definition br_catch :: "'a run \<Rightarrow> (string \<Rightarrow> 'a run) \<Rightarrow> 'a run" where
  "br_catch m h w = (case m w of (Inl e, w') \<Rightarrow> h e w' | (Inr x, w') \<Rightarrow> (Inr x, w'))"

definition br_update :: "(run_world \<Rightarrow> run_world) \<Rightarrow> unit run" where
  "br_update f w = (Inr (), f w)"

section \<open>The heartbeat\<close>

definition renew :: "batch_env \<Rightarrow> batch_claim \<Rightarrow> run_world \<Rightarrow> run_world" where
  "renew env c w =
     (let (ok, db) = heartbeat (bc_batch c) (re_lease_until (bv_recovery env) (rw_now w) (max 2 (bv_lease_seconds env)))
                       (rw_state w) (bc_token c) (rw_now w) (rw_queue w)
      in w\<lparr>rw_queue := db, rw_lost := rw_lost w \<or> \<not> ok\<rparr>)"

text \<open>The thread ends once ownership is lost.\<close>

definition heartbeat_loop :: "batch_env \<Rightarrow> batch_claim \<Rightarrow> moment \<Rightarrow> run_world \<Rightarrow> run_world" where
  "heartbeat_loop env c m w =
     (if \<not> rw_beating w \<or> rw_lost w then w
      else if mo_thread_fails m then w\<lparr>rw_lost := True\<rparr>
      else if mo_beat m then renew env c w
      else w)"

definition pass :: "batch_env \<Rightarrow> batch_claim \<Rightarrow> run_world \<Rightarrow> moment \<times> run_world" where
  "pass env c w =
     (case rw_moments w of
        [] \<Rightarrow> (\<lparr>mo_ops = [], mo_beat = False, mo_thread_fails = False, mo_now = rw_now w, mo_fault = None, mo_live = None,
               mo_mtimes = [], mo_leak = False\<rparr>, w)
      | m # ms \<Rightarrow>
          (m, heartbeat_loop env c m
                (w\<lparr>rw_moments := ms, rw_now := mo_now m,
                   rw_queue := fold (\<lambda>(t, op). run_fleet_op t op) (mo_ops m) (rw_queue w)\<rparr>)))"

definition external :: "batch_env \<Rightarrow> batch_claim \<Rightarrow> (moment \<Rightarrow> 'a run) \<Rightarrow> 'a run" where
  "external env c f w =
     (let (m, w') = pass env c w in case mo_fault m of Some e \<Rightarrow> (Inl e, w') | None \<Rightarrow> f m w')"

definition queue_call :: "batch_env \<Rightarrow> batch_claim \<Rightarrow> (string \<Rightarrow> queue_db \<Rightarrow> (queue_error + 'a) \<times> queue_db) \<Rightarrow> 'a run" where
  "queue_call env c f =
     external env c (\<lambda>_ w.
       let (r, db) = f (rw_now w) (rw_queue w); w' = w\<lparr>rw_queue := db\<rparr>
       in case r of Inl e \<Rightarrow> (Inl (error_text e), w') | Inr x \<Rightarrow> (Inr x, w'))"

definition plain_call :: "batch_env \<Rightarrow> batch_claim \<Rightarrow> (string \<Rightarrow> queue_db \<Rightarrow> 'a \<times> queue_db) \<Rightarrow> 'a run" where
  "plain_call env c f = queue_call env c (\<lambda>now db. let (x, db') = f now db in (Inr x, db'))"

text \<open>Entering the heartbeat renews the lease; a failure of the first renewal is a loss.\<close>

definition heartbeat_enter :: "batch_env \<Rightarrow> batch_claim \<Rightarrow> run_world \<Rightarrow> run_world" where
  "heartbeat_enter env c w =
     (let (m, w1) = pass env c (w\<lparr>rw_beating := False, rw_lost := False\<rparr>);
          w2 = (if mo_fault m \<noteq> None then w1\<lparr>rw_lost := True\<rparr> else renew env c w1)
      in w2\<lparr>rw_beating := \<not> rw_lost w2\<rparr>)"

definition with_heartbeat :: "batch_env \<Rightarrow> batch_claim \<Rightarrow> 'a run \<Rightarrow> 'a run" where
  "with_heartbeat env c m w = (let (r, w') = m (heartbeat_enter env c w) in (r, w'\<lparr>rw_beating := False\<rparr>))"

definition transition :: "batch_env \<Rightarrow> batch_claim \<Rightarrow> work_state \<Rightarrow> bool run" where
  "transition env c st w =
     (if rw_lost w then (Inr False, w)
      else br_bind (plain_call env c (set_batch_state (bc_batch c) st (rw_state w) (bc_token c)))
             (\<lambda>ok. br_bind (br_update (\<lambda>w. if ok then w\<lparr>rw_state := st\<rparr> else w\<lparr>rw_lost := True\<rparr>)) (\<lambda>_. br_return ok)) w)"

section \<open>The callbacks of the run\<close>

definition current_spec :: "batch_env \<Rightarrow> batch_claim \<Rightarrow> string \<Rightarrow> string option run" where
  "current_spec env c raw w =
     (if bc_command c then (Inr (Some raw), w)
      else let (m, w') = pass env c w in (Inr (if mo_fault m = None then mo_live m else None), w'))"

definition drift_of :: "string option \<Rightarrow> string" where
  "drift_of live = (if live = None then ''definition_missing'' else ''definition_changed'')"

definition frozen_launch_gate :: "batch_env \<Rightarrow> batch_claim \<Rightarrow> bool run" where
  "frozen_launch_gate env c =
     br_bind (current_spec env c (bc_spec_id c)) (\<lambda>live.
       if live \<noteq> Some (bc_spec_id c)
       then br_bind (br_update (\<lambda>w. w\<lparr>rw_drift := Some (drift_of live)\<rparr>)) (\<lambda>_. br_return False)
       else transition env c Running)"

definition output_return_gate :: "batch_env \<Rightarrow> batch_claim \<Rightarrow> bool run" where
  "output_return_gate env c w =
     (if rw_lost w then (Inr False, w)
      else if rw_state w \<noteq> Fetching then transition env c Fetching w
      else (Inr True, w))"

definition ledger_call :: "batch_env \<Rightarrow> batch_claim \<Rightarrow> (work_state \<Rightarrow> string \<Rightarrow> string \<Rightarrow> queue_db \<Rightarrow> bool \<times> queue_db) \<Rightarrow> bool run" where
  "ledger_call env c f w =
     (if rw_lost w then (Inr False, w)
      else br_bind (plain_call env c (f (rw_state w) (bc_token c)))
             (\<lambda>ok. br_bind (br_update (\<lambda>w. if ok then w else w\<lparr>rw_lost := True\<rparr>)) (\<lambda>_. br_return ok)) w)"

datatype callback =
    LaunchGate | ReturnGate | Reserved string string string | Accepted string string | CleanupAsked string string string
  | Finalized string string string bool bool

fun run_callback :: "batch_env \<Rightarrow> batch_claim \<Rightarrow> callback \<Rightarrow> bool run" where
  "run_callback env c LaunchGate = frozen_launch_gate env c"
| "run_callback env c ReturnGate = output_return_gate env c"
| "run_callback env c (Reserved op sha token) = ledger_call env c (record_target_reservation (bc_batch c) op sha token)"
| "run_callback env c (Accepted op sha) = ledger_call env c (record_target_acceptance (bc_batch c) op sha)"
| "run_callback env c (CleanupAsked op sha st) = ledger_call env c (authorize_target_cleanup (bc_batch c) op sha st)"
| "run_callback env c (Finalized op sha st stage durable) =
     ledger_call env c (record_target_finalization (bc_batch c) op sha st stage durable)"

text \<open>The run goes on as it likes after a callback, whether it answered or raised.\<close>

record executor_run =
  ex_calls :: "callback list"
  ex_end :: "string + run_result"

definition run_batch :: "batch_env \<Rightarrow> batch_claim \<Rightarrow> executor_run \<Rightarrow> run_result run" where
  "run_batch env c x w =
     (let w' = snd (pass env c (fold (\<lambda>cb w. snd (run_callback env c cb w)) (ex_calls x) w))
      in (ex_end x, w'))"

section \<open>Checks and settlement\<close>

definition output_verdict :: "string \<Rightarrow> string \<Rightarrow> row" where
  "output_verdict status detail = [(''status'', JStr status), (''detail'', JStr detail)]"

definition remote_output_mtimes :: "batch_env \<Rightarrow> moment \<Rightarrow> (string, int) dict" where
  "remote_output_mtimes env m = (if \<not> bv_device_known env \<or> bv_output_arg env = None then [] else mo_mtimes m)"

definition verify_batch_output :: "batch_env \<Rightarrow> batch_claim \<Rightarrow> (string, int) dict \<Rightarrow> moment \<Rightarrow> row" where
  "verify_batch_output env c pre m =
     (if bc_command c then output_verdict ''skip'' ''raw commands have no output contract''
      else if oc_verification (bc_contract c) = ''none'' then output_verdict ''skip'' ''frozen output contract requires no tree check''
      else if \<not> bv_device_known env then output_verdict ''final'' (''unknown device '' @ [CHR 0x27] @ bc_device c @ [CHR 0x27])
      else
        (case bv_output_arg env of
           None \<Rightarrow> output_verdict (if oc_missing_mapping (bc_contract c) = ''final'' then ''final'' else ''skip'')
                     ''no [sync_roots] tree maps the frozen output root''
         | Some arg \<Rightarrow>
             (let produced = filter (\<lambda>(p, t). (case dict_get pre p of Some t' \<Rightarrow> t' | None \<Rightarrow> -1) < t) (remote_output_mtimes env m)
              in if produced = [] \<and> oc_no_change (bc_contract c) = ''final''
                 then output_verdict ''final'' (''no new/updated output under '' @ arg)
                 else [(''status'', JStr ''ok''), (''new_files'', JInt (int (length produced))),
                       (''detail'', JStr (''verified '' @ nat_digits (length produced) @ '' new/updated file(s) under '' @ arg))])))"

record outcome =
  bo_ran :: bool
  bo_ok :: bool
  bo_failed :: bool
  bo_review :: bool
  bo_lost :: bool

definition ownership_lost :: "bool \<Rightarrow> outcome" where
  "ownership_lost counted = \<lparr>bo_ran = counted, bo_ok = False, bo_failed = False, bo_review = False, bo_lost = True\<rparr>"

definition failed_out :: "bool \<Rightarrow> outcome" where
  "failed_out counted = \<lparr>bo_ran = counted, bo_ok = False, bo_failed = True, bo_review = False, bo_lost = False\<rparr>"

definition review_out :: outcome where
  "review_out = \<lparr>bo_ran = True, bo_ok = False, bo_failed = False, bo_review = True, bo_lost = False\<rparr>"

definition ok_out :: outcome where
  "ok_out = \<lparr>bo_ran = True, bo_ok = True, bo_failed = False, bo_review = False, bo_lost = False\<rparr>"

text \<open>The program returns early, or continues.\<close>

datatype 'a flow = Leave outcome | Stay 'a

definition then_flow :: "'a flow run \<Rightarrow> ('a \<Rightarrow> 'b flow run) \<Rightarrow> 'b flow run" where
  "then_flow m f = br_bind m (\<lambda>r. case r of Leave out \<Rightarrow> br_return (Leave out) | Stay x \<Rightarrow> f x)"

text \<open>A call that the owner makes; it leaves with the given outcome when it is done.\<close>

definition leave_if :: "bool run \<Rightarrow> outcome \<Rightarrow> bool \<Rightarrow> 'a flow run" where
  "leave_if m out counted = br_bind m (\<lambda>ok. br_return (Leave (if ok then out else ownership_lost counted)))"

definition observed :: "batch_env \<Rightarrow> (observation option \<Rightarrow> 'a run) \<Rightarrow> 'a run" where
  "observed env f w = (case bv_observation env (rw_latest w) (rw_record w) of Inl e \<Rightarrow> (Inl e, w) | Inr ob \<Rightarrow> f (Some ob) w)"

definition fail_owned :: "batch_env \<Rightarrow> batch_claim \<Rightarrow> string \<Rightarrow> int \<Rightarrow> bool \<Rightarrow> bool run" where
  "fail_owned env c error max_attempts clear_force =
     observed env (\<lambda>ob w.
       queue_call env c (\<lambda>now. fail_batch (bc_batch c) error (rw_state w) (bc_token c) now max_attempts clear_force
         (rw_record w) ob (target_finalization_disposition (rw_latest w))) w)"

definition complete_items_owned :: "batch_env \<Rightarrow> batch_claim \<Rightarrow> row list \<Rightarrow> bool \<Rightarrow> bool run" where
  "complete_items_owned env c rows clear_force =
     observed env (\<lambda>ob w.
       let (succeeded, failed) = item_result_maps (bv_dumps env) rows;
           records = map (\<lambda>(i, r). (i, bv_record env (rw_latest w) (Some r))) (item_records (bv_dumps env) rows)
       in queue_call env c (\<lambda>now. complete_batch_items (bc_batch c) (rw_state w) (bc_token c) now
            \<lparr>it_succeeded = succeeded, it_failed = failed, it_dispositions = item_dispositions rows,
             it_results = map (\<lambda>(i, r). (i, the r)) (filter (\<lambda>(_, r). r \<noteq> None) records), it_result_record = rw_record w,
             it_max_attempts = MAX_ATTEMPTS, it_clear_force = clear_force, it_observation = ob,
             it_supplied = target_finalization_disposition (rw_latest w)\<rparr>) w)"

definition unknown_owned :: "batch_env \<Rightarrow> batch_claim \<Rightarrow> string \<Rightarrow> bool run" where
  "unknown_owned env c error =
     observed env (\<lambda>ob w.
       queue_call env c (\<lambda>now. mark_completion_unknown (bc_batch c) error (rw_state w) (bc_token c) now (rw_record w) ob
         FINALIZATION_FENCED) w)"

definition complete_owned :: "batch_env \<Rightarrow> batch_claim \<Rightarrow> bool run" where
  "complete_owned env c =
     observed env (\<lambda>ob w.
       queue_call env c (\<lambda>now. complete_batch (bc_batch c) (rw_state w) (bc_token c) now (rw_record w) ob
         (target_finalization_disposition (rw_latest w))) w)"

definition cool :: "batch_env \<Rightarrow> batch_claim \<Rightarrow> failure_class \<Rightarrow> unit run" where
  "cool env c cls =
     plain_call env c (\<lambda>now db. ((), apply_cooldown (bv_recovery env) (bc_device c) (bc_engine c) cls (batch_attempts (bc_batch c) db) now db))"

definition health_audit :: "batch_env \<Rightarrow> batch_claim \<Rightarrow> unit run" where
  "health_audit env c w =
     (if \<not> bv_health env then (Inr (), w)
      else
        (let (m, w') = pass env c w
         in (Inr (), if mo_fault m = None \<and> mo_leak m
                     then w'\<lparr>rw_queue := set_cooldown (bc_device c) (re_lease_until (bv_recovery env) (rw_now w') (bv_health_cooldown env))
                                           (bc_engine c) ''health'' ''worker_leak'' (rw_now w') (rw_queue w')\<rparr>
                     else w')))"

definition allows_fallback :: "batch_claim \<Rightarrow> bool" where
  "allows_fallback c \<longleftrightarrow> nonempty (bc_force_device c) \<and> bc_allow_fallback c"

definition or_text :: "string option \<Rightarrow> string \<Rightarrow> string" where
  "or_text e t = (if nonempty e then the e else t)"

section \<open>The phases of a worker\<close>

definition check_definition :: "batch_env \<Rightarrow> batch_claim \<Rightarrow> unit flow run" where
  "check_definition env c =
     br_bind (current_spec env c (bv_raw_spec env)) (\<lambda>live.
       if live = Some (bc_spec_id c) then br_return (Stay ())
       else leave_if (queue_call env c (\<lambda>now. revoke_prelaunch_batch (bc_batch c) (bc_token c) (drift_of live) now None))
              (failed_out False) False)"

definition advance_to :: "batch_env \<Rightarrow> batch_claim \<Rightarrow> work_state \<Rightarrow> bool \<Rightarrow> unit flow run" where
  "advance_to env c st counted w =
     br_bind (plain_call env c (set_batch_state (bc_batch c) st (rw_state w) (bc_token c)))
       (\<lambda>ok. if ok then br_bind (br_update (\<lambda>w. w\<lparr>rw_state := st\<rparr>)) (\<lambda>_. br_return (Stay ()))
             else br_return (Leave (ownership_lost counted))) w"

definition launch :: "batch_env \<Rightarrow> batch_claim \<Rightarrow> executor_run \<Rightarrow> run_result flow run" where
  "launch env c x =
     with_heartbeat env c (\<lambda>w.
       if rw_lost w then (Inr (Leave (ownership_lost False)), w)
       else br_bind (run_batch env c x) (\<lambda>res. br_return (Stay res)) w)"

text \<open>The check of the output once the batch is fetching; \<open>counted\<close> is what has been counted before it.\<close>

definition fetch_and_verify :: "batch_env \<Rightarrow> batch_claim \<Rightarrow> (string, int) dict \<Rightarrow> bool \<Rightarrow> row flow run" where
  "fetch_and_verify env c pre counted =
     then_flow (\<lambda>w. if rw_state w = Fetching then (Inr (Stay ()), w) else advance_to env c Fetching True w) (\<lambda>_.
     then_flow
       (with_heartbeat env c (\<lambda>w.
          if rw_lost w then (Inr (Leave (ownership_lost counted)), w)
          else external env c (\<lambda>m. br_return (Stay (verify_batch_output env c pre m))) w))
       (\<lambda>verify w. if rw_lost w then (Inr (Leave (ownership_lost True)), w) else (Inr (Stay verify), w)))"

definition after_run :: "batch_env \<Rightarrow> batch_claim \<Rightarrow> (string, int) dict \<Rightarrow> run_result \<Rightarrow> (run_result \<times> row) flow run" where
  "after_run env c pre res =
     br_bind (br_update (\<lambda>w. w\<lparr>rw_latest := res, rw_record := bv_record env res None\<rparr>)) (\<lambda>_ w.
       if rw_lost w then (Inr (Leave (ownership_lost False)), w)
       else if xr_definition_drift res
       then br_bind (queue_call env c (\<lambda>now. revoke_prelaunch_batch (bc_batch c) (bc_token c) (or_text (rw_drift w) ''definition_changed'') now
                       (target_finalization_disposition res)))
              (\<lambda>ok w'. if \<not> ok then (Inr (Leave (ownership_lost False)), w')
                       else (case rw_record w' of
                               None \<Rightarrow> (Inr (Leave (failed_out False)), w')
                             | Some rec \<Rightarrow>
                                 br_bind (plain_call env c (record_revoked_prelaunch_result (bc_batch c) (bc_token c) rec))
                                   (\<lambda>_. br_return (Leave (failed_out False))) w')) w
       else if xr_ok res
       then then_flow (fetch_and_verify env c pre False) (\<lambda>verify. br_return (Stay (res, verify))) w
       else (Inr (Stay (res, output_verdict ''skip'' ''run_batch did not succeed'')), w))"

definition run_raised :: "batch_env \<Rightarrow> batch_claim \<Rightarrow> string \<Rightarrow> 'a flow run" where
  "run_raised env c exc =
     (let err = ''run_batch raised: '' @ exc; fallback = allows_fallback c
      in br_bind (br_update (\<lambda>w. w\<lparr>rw_record := bv_record env no_result None\<rparr>)) (\<lambda>_.
         br_bind (cool env c (classify_failure err [] None (bc_memory_patterns c))) (\<lambda>_.
         br_bind (health_audit env c) (\<lambda>_ w.
           if rw_state w \<in> {Running, Fetching} then leave_if (unknown_owned env c err) review_out True w
           else leave_if (fail_owned env c err MAX_ATTEMPTS fallback) (failed_out True) True w))))"

definition no_retry_failure :: "batch_env \<Rightarrow> batch_claim \<Rightarrow> run_result \<Rightarrow> 'a flow run" where
  "no_retry_failure env c res =
     (let error = or_text (xr_error res) ''worker completion evidence is incomplete''
      in br_bind (health_audit env c) (\<lambda>_.
         br_bind (plain_call env c (\<lambda>_ db. (batch_replay_policy (re_queue (bv_recovery env)) (bc_batch c) db, db))) (\<lambda>policy.
           if policy = ''at-most-once-v1'' then leave_if (unknown_owned env c error) review_out True
           else leave_if (fail_owned env c error MAX_ATTEMPTS False) (failed_out True) True)))"

definition items_out :: "batch_claim \<Rightarrow> row list \<Rightarrow> outcome" where
  "items_out c rows =
     (let ok_items = length (rows_dict item_succeeded (\<lambda>_. ()) rows);
          failed_items = length (bc_job_ids c) - ok_items;
          review_items = length (filter (\<lambda>(_, d). d = ''review'') (item_dispositions rows))
      in \<lparr>bo_ran = True, bo_ok = 0 < ok_items, bo_failed = review_items < failed_items, bo_review = 0 < review_items, bo_lost = False\<rparr>)"

definition cool_if_asked :: "batch_env \<Rightarrow> batch_claim \<Rightarrow> row list \<Rightarrow> unit run" where
  "cool_if_asked env c rows =
     (if list_ex (\<lambda>r. \<not> json_true (dict_get r ''ok'') \<and> item_disposition r = ''retry_later'') rows
      then cool env c \<lparr>fc_kind = ''retry_later'', fc_scope = ''device_engine'', fc_cooldown_s = 600\<rparr> else br_return ())"

definition settle_items :: "batch_env \<Rightarrow> batch_claim \<Rightarrow> (string, int) dict \<Rightarrow> run_result \<Rightarrow> row \<Rightarrow> 'a flow run" where
  "settle_items env c pre res verify =
     then_flow (if rows_dict item_succeeded (\<lambda>_. ()) (xr_item_results res) \<noteq> [] \<and> \<not> xr_ok res then fetch_and_verify env c pre True
                else br_return (Stay verify))
       (\<lambda>verify.
          let rows = apply_item_output_verdict (xr_item_results res) verify; failed = rows_dict (\<lambda>r. \<not> item_succeeded r) item_message rows
          in br_bind (health_audit env c) (\<lambda>_.
             br_bind (if list_ex (\<lambda>r. \<not> json_true (dict_get r ''ok'') \<and> eq_str (dict_get r ''resource'') ''memory'') rows
                      then cool env c \<lparr>fc_kind = ''oom'', fc_scope = ''device_engine'', fc_cooldown_s = 180\<rparr> else br_return ()) (\<lambda>_.
             br_bind (cool_if_asked env c rows) (\<lambda>_.
               leave_if (complete_items_owned env c rows (allows_fallback c \<and> failed \<noteq> [])) (items_out c rows) True))))"

definition settle_failure :: "batch_env \<Rightarrow> batch_claim \<Rightarrow> run_result \<Rightarrow> 'a flow run" where
  "settle_failure env c res =
     (let cls = classify_failure (or_text (xr_error res) []) (xr_stderr_tail res) (xr_exit_code res) (bc_memory_patterns c);
          fallback = allows_fallback c;
          final = (fc_kind cls = ''capability'' \<and> nonempty (bc_force_device c) \<and> \<not> fallback);
          code = (case xr_exit_code res of None \<Rightarrow> ''None'' | Some n \<Rightarrow> py_str (JInt n))
      in br_bind (cool env c cls) (\<lambda>_.
         br_bind (health_audit env c) (\<lambda>_.
           leave_if (fail_owned env c (or_text (xr_error res) (''exit '' @ code)) (if final then 1 else MAX_ATTEMPTS) fallback)
             (failed_out True) True)))"

definition settle_result :: "batch_env \<Rightarrow> batch_claim \<Rightarrow> (string, int) dict \<Rightarrow> run_result \<Rightarrow> row \<Rightarrow> 'a flow run" where
  "settle_result env c pre res verify =
     (if completion_unknown res
      then br_bind (health_audit env c)
             (\<lambda>_. leave_if (unknown_owned env c (or_text (xr_error res) ''completion unknown after launch authorization'')) review_out True)
      else if \<not> xr_ok res \<and> xr_no_retry res then no_retry_failure env c res
      else if xr_item_results res \<noteq> [] \<and> bc_job_ids c \<noteq> [] then settle_items env c pre res verify
      else if \<not> xr_ok res then settle_failure env c res
      else br_bind (health_audit env c)
             (\<lambda>_. if eq_str (dict_get verify ''status'') ''ok'' \<or> eq_str (dict_get verify ''status'') ''skip''
                  then leave_if (complete_owned env c) ok_out True
                  else leave_if (fail_owned env c (''output verify: '' @ get_str verify ''detail'') 1 False) (failed_out True) True))"

definition worker_body :: "batch_env \<Rightarrow> batch_claim \<Rightarrow> executor_run \<Rightarrow> unit flow run" where
  "worker_body env c x =
     then_flow (check_definition env c) (\<lambda>_.
     then_flow (advance_to env c Staging False) (\<lambda>_.
     br_bind (external env c (\<lambda>m. br_return (remote_output_mtimes env m))) (\<lambda>pre.
     then_flow (br_catch (then_flow (launch env c x) (after_run env c pre)) (run_raised env c))
       (\<lambda>(res, verify). settle_result env c pre res verify))))"

text \<open>The last resort, in which nothing raises any more.\<close>

definition worker_crashed :: "batch_env \<Rightarrow> batch_claim \<Rightarrow> string \<Rightarrow> unit flow run" where
  "worker_crashed env c exc =
     (let error = ''worker crashed: '' @ exc
      in br_bind (br_update (\<lambda>w. if rw_record w = None then w\<lparr>rw_record := bv_record env no_result None\<rparr> else w)) (\<lambda>_ w.
           if rw_state w \<in> {Running, Fetching}
           then leave_if (br_catch (unknown_owned env c error) (\<lambda>_. br_return False)) review_out True w
           else leave_if (br_catch (fail_owned env c error MAX_ATTEMPTS False) (\<lambda>_. br_return False)) (failed_out True) True w))"

definition run_claimed_batch :: "batch_env \<Rightarrow> batch_claim \<Rightarrow> executor_run \<Rightarrow> unit flow run" where
  "run_claimed_batch env c x w =
     br_catch (worker_body env c x) (worker_crashed env c)
       (w\<lparr>rw_beating := False, rw_lost := False, rw_state := Leased, rw_record := None, rw_latest := no_result, rw_drift := None\<rparr>)"

end
