(* ===== verification/BatchRunSafety.thy ===== *)
theory BatchRunSafety
  imports BatchRun QueueChange FleetRecoverySafety
begin

text \<open>
  What a worker does to the batch it claimed.  The locale \<open>worker_logic\<close> proves once, for every
  invariant and every relation that quiet changes of the queue satisfy, how the phases of a worker
  behave up to the calls that settle a batch; \<open>settling_worker\<close> adds these calls.
\<close>

section \<open>Programs of a worker\<close>

text \<open>
  From every state with the invariant, the program keeps it, relates the states before and after,
  and what it returns has the given property.
\<close>

definition run_ok :: "(run_world \<Rightarrow> bool) \<Rightarrow> (run_world \<Rightarrow> run_world \<Rightarrow> bool) \<Rightarrow> ('a \<Rightarrow> run_world \<Rightarrow> bool) \<Rightarrow> 'a run \<Rightarrow> bool" where
  "run_ok I R P m \<longleftrightarrow>
     (\<forall>w. I w \<longrightarrow> I (snd (m w)) \<and> R w (snd (m w)) \<and> (\<forall>x. fst (m w) = Inr x \<longrightarrow> P x (snd (m w))))"

lemma run_okD:
  assumes "run_ok I R P m" and "I w"
  shows "I (snd (m w))" "R w (snd (m w))" "fst (m w) = Inr x \<Longrightarrow> P x (snd (m w))"
  using assms by (auto simp: run_ok_def)

lemma run_okI:
  assumes "\<And>w. I w \<Longrightarrow> I (snd (m w)) \<and> R w (snd (m w))" and "\<And>w x. I w \<Longrightarrow> fst (m w) = Inr x \<Longrightarrow> P x (snd (m w))"
  shows "run_ok I R P m"
  using assms by (simp add: run_ok_def)

lemma run_ok_weaken: "run_ok I R P m \<Longrightarrow> (\<And>x w. P x w \<Longrightarrow> Q x w) \<Longrightarrow> run_ok I R Q m"
  by (auto simp: run_ok_def)

lemma run_ok_dep: "(\<And>v. I v \<Longrightarrow> run_ok I R P (g v)) \<Longrightarrow> run_ok I R P (\<lambda>w. g w w)"
  by (auto simp: run_ok_def)

lemma run_ok_if: "run_ok I R P m \<Longrightarrow> run_ok I R P n \<Longrightarrow> run_ok I R P (\<lambda>w. if C w then m w else n w)"
  by (auto simp: run_ok_def)

text \<open>A change of the queue that an operation makes without queueing or finishing a job.\<close>

definition calm_db :: "queue_db \<Rightarrow> queue_db \<Rightarrow> bool" where
  "calm_db db db' \<longleftrightarrow> (queue_inv db \<longrightarrow> queue_inv db') \<and> quiet_change db db'"

definition calm_world :: "run_world \<Rightarrow> run_world \<Rightarrow> bool" where
  "calm_world w w' \<longleftrightarrow>
     rw_moments w' = rw_moments w \<and> calm_db (rw_queue w) (rw_queue w')
     \<and> (rw_state w' = rw_state w \<or> rw_state w' \<in> {Staging, Running, Fetching})"

lemma calm_op:
  assumes "call_ok op" and "quiet_change db (run_fleet_op now op db)"
  shows "calm_db db (run_fleet_op now op db)"
  using assms run_fleet_op_steps [OF _ assms(1), of db now] by (auto simp: calm_db_def intro: qm.steps_inv)

lemma calm_calls:
  assumes "ex \<in> set BATCH_EXECUTING"
  shows "st \<in> {Staging, Running, Fetching} \<Longrightarrow> calm_db db (snd (set_batch_state b st ex tok now db))"
    "calm_db db (snd (heartbeat b until ex tok now db))"
    "calm_db db (snd (record_target_reservation b op sha res ex tok now db))"
    "calm_db db (snd (record_target_acceptance b op sha ex tok now db))"
    "calm_db db (snd (authorize_target_cleanup b op sha cs ex tok now db))"
    "calm_db db (snd (record_target_finalization b op sha cs stg du ex tok now db))"
    "calm_db db (snd (mark_completion_unknown b e ex tok now rec ob d db))"
    "calm_db db (snd (revoke_prelaunch_batch b tok e now fin db))"
    "calm_db db (snd (record_revoked_prelaunch_result b tok text now db))"
    "calm_db db (apply_cooldown renv dev eng cls n now db)" "calm_db db (set_cooldown dev until eng kind reason now db)"
proof -
  show "calm_db db (snd (set_batch_state b st ex tok now db))" if "st \<in> {Staging, Running, Fetching}"
    using calm_op [of "SetBatchState b st ex tok" db now] that assms by (auto simp: quiet_ops executing_iff)
  show cool: "calm_db db (set_cooldown dev until eng kind reason now db)" for until eng kind reason
    using calm_op [of "SetCooldown dev until eng kind reason" db now] by (simp add: quiet_change_jobs set_cooldown_def Let_def)
  show "calm_db db (apply_cooldown renv dev eng cls n now db)"
    unfolding apply_cooldown_def Let_def using cool by (simp add: calm_db_def)
qed (use assms in \<open>simp_all add: quiet_ops
    calm_op [of "Heartbeat b until ex tok" db now, simplified] calm_op [of "TargetReservation b op sha res ex tok" db now, simplified]
    calm_op [of "TargetAcceptance b op sha ex tok" db now, simplified] calm_op [of "AuthorizeCleanup b op sha cs ex tok" db now, simplified]
    calm_op [of "TargetFinalization b op sha cs stg du ex tok" db now, simplified] calm_op [of "MarkUnknown b e ex tok rec ob d" db now, simplified]
    calm_op [of "RevokePrelaunch b tok e fin" db now, simplified] calm_op [of "RecordRevoked b tok text" db now, simplified]\<close>)

section \<open>The phases before a settlement\<close>

text \<open>A program that leaves has lost ownership or reached \<open>D\<close>; one that stays returns a value in \<open>S\<close>.\<close>

definition flow_post :: "(run_world \<Rightarrow> bool) \<Rightarrow> ('a \<Rightarrow> bool) \<Rightarrow> 'a flow \<Rightarrow> run_world \<Rightarrow> bool" where
  "flow_post D S f w \<longleftrightarrow> (case f of Leave out \<Rightarrow> bo_lost out \<or> D w | Stay x \<Rightarrow> S x)"

lemma flow_post_simps [simp]:
  "flow_post D S (Leave out) w \<longleftrightarrow> bo_lost out \<or> D w" "flow_post D S (Stay x) w \<longleftrightarrow> S x" "bo_lost (ownership_lost k)"
  by (simp_all add: flow_post_def ownership_lost_def)

locale worker_logic =
  fixes env :: batch_env and c :: batch_claim and I :: "run_world \<Rightarrow> bool" and R :: "run_world \<Rightarrow> run_world \<Rightarrow> bool"
    and D :: "run_world \<Rightarrow> bool"
  assumes calm_step: "I w \<Longrightarrow> calm_world w w' \<Longrightarrow> I w' \<and> R w w'"
    and pass_step: "I w \<Longrightarrow> I (snd (pass env c w)) \<and> R w (snd (pass env c w))"
    and R_trans: "R w w' \<Longrightarrow> R w' w'' \<Longrightarrow> R w w''"
    and executing: "I w \<Longrightarrow> rw_state w \<in> set BATCH_EXECUTING"
    and over_D: "batch_over (bc_batch c) (rw_queue w) \<Longrightarrow> D w"
    and D_pass: "I w \<Longrightarrow> D w \<Longrightarrow> D (snd (pass env c w))"
    and D_batches: "D w \<Longrightarrow> qd_batches (rw_queue w') = qd_batches (rw_queue w) \<Longrightarrow> D w'"
begin

lemma calm_refl: "calm_world w w"
  by (simp add: calm_world_def calm_db_def)

lemma R_refl: "I w \<Longrightarrow> R w w"
  using calm_step calm_refl by blast

lemma ok_return: "(\<And>w. P x w) \<Longrightarrow> run_ok I R P (br_return x)"
  by (simp add: run_ok_def br_return_def R_refl)

lemma ok_value: "(\<And>w. I w \<Longrightarrow> P x w) \<Longrightarrow> run_ok I R P (\<lambda>w. (Inr x, w))"
  by (simp add: run_ok_def R_refl)

lemma ok_raise: "run_ok I R P (\<lambda>w. (Inl e, w))"
  by (simp add: run_ok_def R_refl)

lemma ok_bind_at:
  assumes m: "run_ok I R P m"
    and f: "\<And>x v. I v \<Longrightarrow> P x v \<Longrightarrow> I (snd (f x v)) \<and> R v (snd (f x v)) \<and> (\<forall>y. fst (f x v) = Inr y \<longrightarrow> Q y (snd (f x v)))"
  shows "run_ok I R Q (br_bind m f)"
proof (unfold run_ok_def, intro allI impI)
  fix w assume I: "I w"
  obtain r w1 where run: "m w = (r, w1)" by (cases "m w")
  note s = run_okD [OF m I, unfolded run fst_conv snd_conv]
  show "I (snd (br_bind m f w)) \<and> R w (snd (br_bind m f w)) \<and> (\<forall>x. fst (br_bind m f w) = Inr x \<longrightarrow> Q x (snd (br_bind m f w)))"
  proof (cases r)
    case (Inr x)
    note t = f [OF s(1) s(3) [OF Inr]]
    from t R_trans [OF s(2)] show ?thesis by (simp add: br_bind_def run Inr)
  qed (use s in \<open>simp add: br_bind_def run\<close>)
qed

lemma ok_bind: "run_ok I R P m \<Longrightarrow> (\<And>x v. P x v \<Longrightarrow> run_ok I R Q (f x)) \<Longrightarrow> run_ok I R Q (br_bind m f)"
  by (erule ok_bind_at) (simp add: run_ok_def)

lemma ok_catch:
  assumes m: "run_ok I R P m" and h: "\<And>e. run_ok I R P (h e)"
  shows "run_ok I R P (br_catch m h)"
proof (unfold run_ok_def, intro allI impI)
  fix w assume I: "I w"
  obtain r w1 where run: "m w = (r, w1)" by (cases "m w")
  note s = run_okD [OF m I, unfolded run fst_conv snd_conv]
  show "I (snd (br_catch m h w)) \<and> R w (snd (br_catch m h w)) \<and> (\<forall>x. fst (br_catch m h w) = Inr x \<longrightarrow> P x (snd (br_catch m h w)))"
  proof (cases r)
    case (Inl e)
    note t = run_okD [OF h [of e] s(1)]
    from t R_trans [OF s(2) t(2)] show ?thesis by (simp add: br_catch_def run Inl)
  qed (use s in \<open>simp add: br_catch_def run\<close>)
qed

lemma ok_update: "(\<And>w. I w \<Longrightarrow> calm_world w (f w)) \<Longrightarrow> (\<And>w. P () w) \<Longrightarrow> run_ok I R P (br_update f)"
  using calm_step by (simp add: run_ok_def br_update_def)

lemma ok_external:
  assumes f: "\<And>m. run_ok I R P (f m)"
  shows "run_ok I R P (external env c f)"
proof (unfold run_ok_def, intro allI impI)
  fix w assume I: "I w"
  obtain m w1 where run: "pass env c w = (m, w1)" by (cases "pass env c w")
  note s = pass_step [OF I, unfolded run snd_conv]
  show "I (snd (external env c f w)) \<and> R w (snd (external env c f w)) \<and> (\<forall>x. fst (external env c f w) = Inr x \<longrightarrow> P x (snd (external env c f w)))"
  proof (cases "mo_fault m")
    case None
    note t = run_okD [OF f [of m] s [THEN conjunct1]]
    from t R_trans [OF s [THEN conjunct2] t(2)] show ?thesis by (simp add: external_def run None)
  qed (use s in \<open>simp add: external_def run\<close>)
qed

lemma ok_queue_call_at:
  assumes "\<And>w. I w \<Longrightarrow> I (w\<lparr>rw_queue := snd (f (rw_now w) (rw_queue w))\<rparr>) \<and> R w (w\<lparr>rw_queue := snd (f (rw_now w) (rw_queue w))\<rparr>)"
    and "\<And>now db w x. fst (f now db) = Inr x \<Longrightarrow> rw_queue w = snd (f now db) \<Longrightarrow> P x w"
  shows "run_ok I R P (queue_call env c f)"
  unfolding queue_call_def
proof (rule ok_external, rule run_okI, goal_cases)
  case (1 m w)
  from assms(1) [OF 1] show ?case by (simp add: case_prod_beta Let_def split: sum.split)
next
  case (2 m w x)
  then show ?case using assms(2) [of "rw_now w" "rw_queue w" x] by (simp add: case_prod_beta Let_def split: sum.splits)
qed

lemma ok_queue_call:
  assumes "\<And>now db. calm_db db (snd (f now db))"
    and "\<And>now db w x. fst (f now db) = Inr x \<Longrightarrow> rw_queue w = snd (f now db) \<Longrightarrow> P x w"
  shows "run_ok I R P (queue_call env c f)"
proof (rule ok_queue_call_at [OF _ assms(2)])
  fix w assume "I w"
  moreover have "calm_world w (w\<lparr>rw_queue := snd (f (rw_now w) (rw_queue w))\<rparr>)" using assms(1) by (simp add: calm_world_def)
  ultimately show "I (w\<lparr>rw_queue := snd (f (rw_now w) (rw_queue w))\<rparr>) \<and> R w (w\<lparr>rw_queue := snd (f (rw_now w) (rw_queue w))\<rparr>)"
    by (rule calm_step)
qed

lemma ok_plain_call:
  assumes "\<And>now db. calm_db db (snd (f now db))" and "\<And>now db w. rw_queue w = snd (f now db) \<Longrightarrow> P (fst (f now db)) w"
  shows "run_ok I R P (plain_call env c f)"
  unfolding plain_call_def by (rule ok_queue_call) (use assms in \<open>auto simp: case_prod_beta Let_def\<close>)

lemma ok_observed: "(\<And>ob. run_ok I R P (f ob)) \<Longrightarrow> run_ok I R P (observed env f)"
  by (auto simp: run_ok_def observed_def R_refl split: sum.split)

lemma ok_then:
  assumes "run_ok I R (flow_post D S) m" and "\<And>x. S x \<Longrightarrow> run_ok I R (flow_post D T) (f x)"
  shows "run_ok I R (flow_post D T) (then_flow m f)"
proof (unfold run_ok_def, intro allI impI)
  fix w assume I: "I w"
  obtain r w1 where run: "m w = (r, w1)" by (cases "m w")
  note s = run_okD [OF assms(1) I, unfolded run fst_conv snd_conv]
  let ?m = "then_flow m f w"
  show "I (snd ?m) \<and> R w (snd ?m) \<and> (\<forall>x. fst ?m = Inr x \<longrightarrow> flow_post D T x (snd ?m))"
  proof (cases r)
    case (Inr y)
    show ?thesis
    proof (cases y)
      case (Stay x)
      from s(3) [OF Inr] have "S x" by (simp add: Stay)
      note t = run_okD [OF assms(2) [OF this] s(1)]
      from t R_trans [OF s(2) t(2)] show ?thesis by (simp add: then_flow_def br_bind_def run Inr Stay)
    qed (use s Inr in \<open>simp add: then_flow_def br_bind_def br_return_def run\<close>)
  qed (use s in \<open>simp add: then_flow_def br_bind_def run\<close>)
qed

lemma ok_leave_if:
  assumes "run_ok I R (\<lambda>ok w. ok \<longrightarrow> D w) m"
  shows "run_ok I R (flow_post D S) (leave_if m out k)"
proof (unfold run_ok_def, intro allI impI)
  fix w assume I: "I w"
  obtain r w1 where run: "m w = (r, w1)" by (cases "m w")
  note s = run_okD [OF assms I, unfolded run fst_conv snd_conv]
  let ?m = "leave_if m out k w"
  show "I (snd ?m) \<and> R w (snd ?m) \<and> (\<forall>x. fst ?m = Inr x \<longrightarrow> flow_post D S x (snd ?m))"
    using s by (cases r) (auto simp: leave_if_def br_bind_def br_return_def run)
qed

lemma renew_calm: "I w \<Longrightarrow> calm_world w (renew env c w)"
  using calm_calls(2) [OF executing] by (simp add: renew_def calm_world_def case_prod_beta)

lemma enter_step: "I w \<Longrightarrow> I (heartbeat_enter env c w) \<and> R w (heartbeat_enter env c w)"
proof -
  assume I: "I w"
  let ?w0 = "w\<lparr>rw_beating := False, rw_lost := False\<rparr>"
  obtain m w1 where run: "pass env c ?w0 = (m, w1)" by (cases "pass env c ?w0")
  have 0: "I ?w0 \<and> R w ?w0" by (rule calm_step [OF I]) (simp add: calm_world_def calm_db_def)
  note 1 = pass_step [OF 0 [THEN conjunct1], unfolded run snd_conv]
  let ?w2 = "if mo_fault m \<noteq> None then w1\<lparr>rw_lost := True\<rparr> else renew env c w1"
  have "calm_world w1 (?w2\<lparr>rw_beating := \<not> rw_lost ?w2\<rparr>)"
    using renew_calm [OF 1 [THEN conjunct1]] by (auto simp: calm_world_def calm_db_def)
  from calm_step [OF 1 [THEN conjunct1] this] 0 1 show ?thesis
    unfolding heartbeat_enter_def run Let_def prod.case by (blast intro: R_trans)
qed

lemma ok_with_heartbeat:
  assumes "run_ok I R P m" and "\<And>x w. P x w \<Longrightarrow> P x (w\<lparr>rw_beating := False\<rparr>)"
  shows "run_ok I R P (with_heartbeat env c m)"
proof (unfold run_ok_def, intro allI impI)
  fix w assume I: "I w"
  note 0 = enter_step [OF I]
  obtain r w1 where run: "m (heartbeat_enter env c w) = (r, w1)" by fastforce
  note s = run_okD [OF assms(1) 0 [THEN conjunct1], unfolded run fst_conv snd_conv]
  have "calm_world w1 (w1\<lparr>rw_beating := False\<rparr>)" by (simp add: calm_world_def calm_db_def)
  from calm_step [OF s(1) this] have "I (w1\<lparr>rw_beating := False\<rparr>) \<and> R w (w1\<lparr>rw_beating := False\<rparr>)"
    using 0 s(2) R_trans by blast
  then show "I (snd (with_heartbeat env c m w)) \<and> R w (snd (with_heartbeat env c m w))
      \<and> (\<forall>x. fst (with_heartbeat env c m w) = Inr x \<longrightarrow> P x (snd (with_heartbeat env c m w)))"
    using s(3) assms(2) by (simp add: with_heartbeat_def run)
qed

text \<open>Anything may be returned.\<close>

abbreviation runs :: "'a run \<Rightarrow> bool" where
  "runs \<equiv> run_ok I R (\<lambda>_ _. True)"

lemma ok_current_spec: "runs (current_spec env c raw)"
  using pass_step by (simp add: run_ok_def current_spec_def case_prod_beta R_refl)

lemma ok_move:
  assumes "st \<in> {Staging, Running, Fetching}" and "ex \<in> set BATCH_EXECUTING"
  shows "runs (plain_call env c (set_batch_state b st ex tok))"
  by (rule ok_plain_call) (use calm_calls(1) [OF assms(2,1)] in simp_all)

lemma ok_set_state: "st \<in> {Staging, Running, Fetching} \<Longrightarrow> (\<And>w. P () w) \<Longrightarrow> run_ok I R P (br_update (rw_state_update (\<lambda>_. st)))"
  by (rule ok_update) (auto simp: calm_world_def calm_db_def)

lemma ok_transition:
  assumes "st \<in> {Running, Fetching}"
  shows "runs (transition env c st)"
proof -
  let ?g = "\<lambda>v. br_bind (plain_call env c (set_batch_state (bc_batch c) st (rw_state v) (bc_token c)))
    (\<lambda>ok. br_bind (br_update (\<lambda>w. if ok then w\<lparr>rw_state := st\<rparr> else w\<lparr>rw_lost := True\<rparr>)) (\<lambda>_. br_return ok))"
  have "runs (?g v)" if "I v" for v
    by (rule ok_bind [OF ok_move [OF _ executing [OF that]]], use assms in blast, rule ok_bind [OF ok_update ok_return])
      (use assms in \<open>auto simp: calm_world_def calm_db_def\<close>)
  from run_ok_dep [where g = ?g, OF this] show ?thesis
    unfolding transition_def by (intro run_ok_if ok_value) simp_all
qed

lemma ok_launch_gate: "runs (frozen_launch_gate env c)"
  unfolding frozen_launch_gate_def
  by (rule ok_bind [OF ok_current_spec]) (auto intro!: ok_bind [OF ok_update ok_return] ok_transition simp: calm_world_def calm_db_def)

lemma ok_return_gate: "runs (output_return_gate env c)"
  unfolding output_return_gate_def by (intro run_ok_if ok_value ok_transition) simp_all

lemma ok_ledger_call:
  assumes "\<And>ex tok now db. ex \<in> set BATCH_EXECUTING \<Longrightarrow> calm_db db (snd (f ex tok now db))"
  shows "runs (ledger_call env c f)"
proof -
  let ?g = "\<lambda>v. br_bind (plain_call env c (f (rw_state v) (bc_token c)))
    (\<lambda>ok. br_bind (br_update (\<lambda>w. if ok then w else w\<lparr>rw_lost := True\<rparr>)) (\<lambda>_. br_return ok))"
  have "runs (?g v)" if "I v" for v
    by (rule ok_bind [OF ok_plain_call], use assms executing [OF that] in simp, simp, rule ok_bind [OF ok_update ok_return])
      (auto simp: calm_world_def calm_db_def)
  from run_ok_dep [where g = ?g, OF this] show ?thesis
    unfolding ledger_call_def by (intro run_ok_if ok_value) simp_all
qed

lemma ok_callback: "runs (run_callback env c cb)"
  by (cases cb) (simp_all add: ok_launch_gate ok_return_gate ok_ledger_call calm_calls)

lemma ok_callbacks: "I w \<Longrightarrow> I (fold (\<lambda>cb w. snd (run_callback env c cb w)) cbs w) \<and> R w (fold (\<lambda>cb w. snd (run_callback env c cb w)) cbs w)"
proof (induction cbs arbitrary: w)
  case (Cons cb cbs)
  note s = run_okD [OF ok_callback [of cb] Cons.prems]
  from Cons.IH [OF s(1)] R_trans [OF s(2)] show ?case by auto
qed (simp add: R_refl)

lemma ok_run_batch: "run_ok I R (\<lambda>res _. ex_end x = Inr res) (run_batch env c x)"
proof (rule run_okI, goal_cases)
  case (1 w)
  note s = ok_callbacks [OF 1, of "ex_calls x"]
  from pass_step [OF s [THEN conjunct1]] s R_trans show ?case by (auto simp: run_batch_def Let_def)
qed (simp add: run_batch_def)

lemma ok_cool: "runs (cool env c cls)"
  unfolding cool_def by (rule ok_plain_call) (simp_all add: calm_calls(10) [where ex = Running, simplified executing_iff, simplified])

lemma ok_health: "runs (health_audit env c)"
proof (rule run_okI, goal_cases)
  case (1 w)
  obtain m w1 where run: "pass env c w = (m, w1)" by (cases "pass env c w")
  note s = pass_step [OF 1, unfolded run snd_conv]
  have "calm_world w1 (w1\<lparr>rw_queue := set_cooldown dev until eng kind reason now (rw_queue w1)\<rparr>)" for dev until eng kind reason now
    by (simp add: calm_world_def calm_calls(11) [where ex = Running, simplified executing_iff, simplified])
  from calm_step [OF s [THEN conjunct1] this] s 1 show ?case
    by (auto simp: health_audit_def run R_refl intro: R_trans)
qed simp

lemma ok_unknown_owned: "run_ok I R (\<lambda>ok w. ok \<longrightarrow> D w) (unknown_owned env c e)"
  unfolding unknown_owned_def
proof (rule ok_observed)
  fix ob
  let ?f = "\<lambda>v now. mark_completion_unknown (bc_batch c) e (rw_state v) (bc_token c) now (rw_record v) ob FINALIZATION_FENCED"
  have "run_ok I R (\<lambda>ok w. ok \<longrightarrow> D w) (queue_call env c (?f v))" if "I v" for v
    by (rule ok_queue_call) (use calm_calls(7) [OF executing [OF that]] ending_calls(1) over_D in auto)
  from run_ok_dep [where g = "\<lambda>v. queue_call env c (?f v)", OF this]
  show "run_ok I R (\<lambda>ok w. ok \<longrightarrow> D w) (\<lambda>w. queue_call env c (?f w) w)" .
qed

lemma ok_revoke:
  "run_ok I R (\<lambda>ok w. ok \<longrightarrow> D w) (queue_call env c (\<lambda>now. revoke_prelaunch_batch (bc_batch c) tok e now fin))"
  by (rule ok_queue_call)
    (use calm_calls(8) [where ex = Running, simplified executing_iff, simplified] ending_calls(2) over_D in auto)

lemma ok_check_definition: "run_ok I R (flow_post D S) (check_definition env c)" if "S ()"
  unfolding check_definition_def
  by (rule ok_bind [OF ok_current_spec]) (simp add: that ok_return ok_leave_if [OF ok_revoke])

lemma ok_advance:
  assumes "st \<in> {Staging, Fetching}"
  shows "run_ok I R (flow_post D (\<lambda>_. True)) (advance_to env c st k)"
proof -
  let ?g = "\<lambda>v. br_bind (plain_call env c (set_batch_state (bc_batch c) st (rw_state v) (bc_token c)))
       (\<lambda>ok. if ok then br_bind (br_update (\<lambda>w. w\<lparr>rw_state := st\<rparr>)) (\<lambda>_. br_return (Stay ())) else br_return (Leave (ownership_lost k)))"
  have "run_ok I R (flow_post D (\<lambda>_. True)) (?g v)" if "I v" for v
    by (rule ok_bind [OF ok_move [OF _ executing [OF that]]], use assms in blast)
      (use assms in \<open>auto intro!: ok_return ok_bind [OF ok_set_state]\<close>)
  from run_ok_dep [where g = ?g, OF this] show ?thesis unfolding advance_to_def .
qed

lemma ok_launch: "run_ok I R (flow_post D (\<lambda>res. ex_end x = Inr res)) (launch env c x)"
  unfolding launch_def
proof (rule ok_with_heartbeat)
  show "run_ok I R (flow_post D (\<lambda>res. ex_end x = Inr res))
    (\<lambda>w. if rw_lost w then (Inr (Leave (ownership_lost False)), w) else br_bind (run_batch env c x) (\<lambda>res. br_return (Stay res)) w)"
    by (intro run_ok_if ok_value ok_bind [OF ok_run_batch] ok_return) simp_all
  show "flow_post D (\<lambda>res. ex_end x = Inr res) f w \<Longrightarrow> flow_post D (\<lambda>res. ex_end x = Inr res) f (w\<lparr>rw_beating := False\<rparr>)" for f w
    by (cases f) (use D_batches [of w] in auto)
qed

text \<open>The output was checked, at some moment.\<close>

lemma ok_fetch_and_verify:
  "run_ok I R (flow_post D (\<lambda>v. \<exists>m. v = verify_batch_output env c pre m)) (fetch_and_verify env c pre k)"
  unfolding fetch_and_verify_def
proof (rule ok_then [where S = "\<lambda>_. True"])
  show "run_ok I R (flow_post D (\<lambda>_. True)) (\<lambda>w. if rw_state w = Fetching then (Inr (Stay ()), w) else advance_to env c Fetching True w)"
    by (intro run_ok_if ok_value ok_advance) simp_all
  let ?S = "\<lambda>v. \<exists>m. v = verify_batch_output env c pre m"
  have "run_ok I R (flow_post D ?S) (with_heartbeat env c (\<lambda>w. if rw_lost w then (Inr (Leave (ownership_lost k)), w)
      else external env c (\<lambda>m. br_return (Stay (verify_batch_output env c pre m))) w))"
  proof (rule ok_with_heartbeat)
    show "run_ok I R (flow_post D ?S) (\<lambda>w. if rw_lost w then (Inr (Leave (ownership_lost k)), w)
      else external env c (\<lambda>m. br_return (Stay (verify_batch_output env c pre m))) w)"
      by (intro run_ok_if ok_value ok_external ok_return) auto
    show "flow_post D ?S f w \<Longrightarrow> flow_post D ?S f (w\<lparr>rw_beating := False\<rparr>)" for f w
      by (cases f) (use D_batches [of w] in auto)
  qed
  then show "run_ok I R (flow_post D ?S) (then_flow (with_heartbeat env c (\<lambda>w. if rw_lost w then (Inr (Leave (ownership_lost k)), w)
      else external env c (\<lambda>m. br_return (Stay (verify_batch_output env c pre m))) w))
        (\<lambda>verify w. if rw_lost w then (Inr (Leave (ownership_lost True)), w) else (Inr (Stay verify), w)))"
    by (rule ok_then) (auto intro!: run_ok_if ok_value)
qed

lemma ok_record_revoked:
  assumes "I w" and "D w"
  shows "let m = br_bind (plain_call env c (record_revoked_prelaunch_result (bc_batch c) tok t)) (\<lambda>_. br_return (Leave out)) w
         in I (snd m) \<and> R w (snd m) \<and> (\<forall>x. fst m = Inr x \<longrightarrow> flow_post D S x (snd m))"
proof -
  have r: "runs (plain_call env c (record_revoked_prelaunch_result (bc_batch c) tok t))"
    by (rule ok_plain_call) (simp_all add: calm_calls(9) [where ex = Running, simplified executing_iff, simplified])
  obtain m w1 where run: "pass env c w = (m, w1)" by (cases "pass env c w")
  have b: "qd_batches (snd (record_revoked_prelaunch_result b tok t now db)) = qd_batches db" for b now db
    by (simp add: record_revoked_prelaunch_result_def split: option.split)
  from D_pass [OF assms] have "D w1" by (simp add: run)
  with D_batches [of w1] have "D (snd (plain_call env c (record_revoked_prelaunch_result (bc_batch c) tok t) w))"
    by (cases "mo_fault m") (simp_all add: plain_call_def queue_call_def external_def run case_prod_beta Let_def b)
  with run_okD [OF r assms(1)] show ?thesis
    by (cases "plain_call env c (record_revoked_prelaunch_result (bc_batch c) tok t) w"; cases "fst (plain_call env c (record_revoked_prelaunch_result (bc_batch c) tok t) w)")
      (auto simp: br_bind_def br_return_def Let_def)
qed

lemma ok_after_run:
  "run_ok I R (flow_post D (\<lambda>(res', v). res' = res \<and> (xr_ok res \<longrightarrow> (\<exists>m. v = verify_batch_output env c pre m)))) (after_run env c pre res)"
  (is "run_ok I R (flow_post D ?S) _")
proof -
  have drift: "run_ok I R (flow_post D ?S)
      (br_bind (queue_call env c (\<lambda>now. revoke_prelaunch_batch (bc_batch c) (bc_token c) e now (target_finalization_disposition res)))
              (\<lambda>ok w'. if \<not> ok then (Inr (Leave (ownership_lost False)), w')
                       else (case rw_record w' of
                               None \<Rightarrow> (Inr (Leave (failed_out False)), w')
                             | Some rec \<Rightarrow>
                                 br_bind (plain_call env c (record_revoked_prelaunch_result (bc_batch c) (bc_token c) rec))
                                   (\<lambda>_. br_return (Leave (failed_out False))) w')))" for e
  proof (rule ok_bind_at [OF ok_revoke], goal_cases)
    case (1 ok v)
    show ?case
      using 1 ok_record_revoked [OF 1(1), where S = ?S and out = "failed_out False"]
      by (cases ok; cases "rw_record v") (simp_all add: R_refl Let_def)
  qed
  have fetch: "run_ok I R (flow_post D ?S) (then_flow (fetch_and_verify env c pre False) (\<lambda>verify. br_return (Stay (res, verify))))"
    by (rule ok_then [OF ok_fetch_and_verify]) (auto intro!: ok_return)
  have skip: "run_ok I R (flow_post D ?S) (\<lambda>w. (Inr (Stay (res, output_verdict ''skip'' ''run_batch did not succeed'')), w))" if "\<not> xr_ok res"
    by (rule ok_value) (simp add: that)
  have "run_ok I R (flow_post D ?S) (br_bind (br_update (\<lambda>w. w\<lparr>rw_latest := res, rw_record := bv_record env res None\<rparr>)) f)"
    if "run_ok I R (flow_post D ?S) (f ())" for f
    by (rule ok_bind [OF ok_update [where P = "\<lambda>_ _. True"]]) (use that in \<open>simp_all add: calm_world_def calm_db_def\<close>)
  then show ?thesis
    unfolding after_run_def
    using run_ok_dep [where g = "\<lambda>v. br_bind (queue_call env c (\<lambda>now. revoke_prelaunch_batch (bc_batch c) (bc_token c)
        (or_text (rw_drift v) ''definition_changed'') now (target_finalization_disposition res))) _", OF drift] fetch skip
    by (cases "xr_definition_drift res"; cases "xr_ok res") (simp_all add: run_ok_if ok_value)
qed

end

section \<open>Settlement\<close>

definition refused :: "row \<Rightarrow> bool" where
  "refused v \<longleftrightarrow> eq_str (dict_get v ''status'') ''final''"

lemma verify_status:
  "refused (verify_batch_output env c pre m)
   \<or> eq_str (dict_get (verify_batch_output env c pre m) ''status'') ''ok'' \<or> eq_str (dict_get (verify_batch_output env c pre m) ''status'') ''skip''"
  by (auto simp: verify_batch_output_def output_verdict_def refused_def eq_str_def Let_def split: option.split)

text \<open>
  The calls that settle a batch, in the situations in which a worker makes them: a completion after a
  successful run without rows whose output was not refused, and a completion by the rows of a
  run after the verdict on its output, unless no row reports success.
\<close>

locale settling_worker = worker_logic env c I R D
  for env :: batch_env and c :: batch_claim and I :: "run_world \<Rightarrow> bool" and R :: "run_world \<Rightarrow> run_world \<Rightarrow> bool"
    and D :: "run_world \<Rightarrow> bool" +
  fixes x :: executor_run
  assumes fail: "n \<le> MAX_ATTEMPTS \<Longrightarrow> run_ok I R (\<lambda>ok w. ok \<longrightarrow> D w) (fail_owned env c e n f)"
    and complete: "ex_end x = Inr res \<Longrightarrow> \<not> completion_unknown res \<Longrightarrow> xr_ok res \<Longrightarrow> xr_item_results res = [] \<or> bc_job_ids c = []
      \<Longrightarrow> \<not> refused (verify_batch_output env c pre m) \<Longrightarrow> run_ok I R (\<lambda>ok w. ok \<longrightarrow> D w) (complete_owned env c)"
    and items: "ex_end x = Inr res \<Longrightarrow> \<not> completion_unknown res
      \<Longrightarrow> (\<exists>m. v = verify_batch_output env c pre m) \<or> rows_dict item_succeeded (\<lambda>_. ()) (xr_item_results res) = []
      \<Longrightarrow> run_ok I R (\<lambda>ok w. ok \<longrightarrow> D w) (complete_items_owned env c (apply_item_output_verdict (xr_item_results res) v) f)"
begin

lemma ok_fail: "n \<le> MAX_ATTEMPTS \<Longrightarrow> run_ok I R (flow_post D S) (leave_if (fail_owned env c e n f) out k)"
  by (rule ok_leave_if [OF fail])

lemma ok_unknown: "run_ok I R (flow_post D S) (leave_if (unknown_owned env c e) out k)"
  by (rule ok_leave_if [OF ok_unknown_owned])

lemma ok_run_raised: "run_ok I R (flow_post D S) (run_raised env c exc)"
  unfolding run_raised_def Let_def
  by (rule ok_bind [OF ok_update [where P = "\<lambda>_ _. True"]], simp add: calm_world_def calm_db_def, simp)
    (intro ok_bind [OF ok_cool] ok_bind [OF ok_health] run_ok_if ok_unknown ok_fail order.refl)

lemma ok_no_retry: "run_ok I R (flow_post D S) (no_retry_failure env c res)"
proof -
  have p: "runs (plain_call env c (\<lambda>_ db. (batch_replay_policy (re_queue (bv_recovery env)) (bc_batch c) db, db)))"
    by (rule ok_plain_call) (simp_all add: calm_db_def)
  show ?thesis
    unfolding no_retry_failure_def Let_def
    by (rule ok_bind [OF ok_health], rule ok_bind [OF p]) (simp add: ok_unknown ok_fail)
qed

lemma ok_settle_failure: "run_ok I R (flow_post D S) (settle_failure env c res)"
  unfolding settle_failure_def Let_def
  by (intro ok_bind [OF ok_cool] ok_bind [OF ok_health] ok_fail) (simp add: MAX_ATTEMPTS_def)

lemma ok_settle_items:
  assumes "ex_end x = Inr res" "\<not> completion_unknown res" "xr_ok res \<longrightarrow> (\<exists>m. v = verify_batch_output env c pre m)"
  shows "run_ok I R (flow_post D S) (settle_items env c pre res v)"
  unfolding settle_items_def
proof (rule ok_then [where S = "\<lambda>v. (\<exists>m. v = verify_batch_output env c pre m) \<or> rows_dict item_succeeded (\<lambda>_. ()) (xr_item_results res) = []"], goal_cases)
  case 1
  show "run_ok I R (flow_post D (\<lambda>v. (\<exists>m. v = verify_batch_output env c pre m) \<or> rows_dict item_succeeded (\<lambda>_. ()) (xr_item_results res) = []))
     (if rows_dict item_succeeded (\<lambda>_. ()) (xr_item_results res) \<noteq> [] \<and> \<not> xr_ok res then fetch_and_verify env c pre True else br_return (Stay v))"
    using assms(3) by (auto intro!: ok_return run_ok_weaken [OF ok_fetch_and_verify] simp: flow_post_def split: flow.splits)
next
  case (2 v)
  have cool: "runs (if b then cool env c cls else br_return ())" for b cls
    by (simp add: ok_cool ok_return)
  show ?case
    unfolding Let_def cool_if_asked_def by (intro ok_bind [OF ok_health] ok_bind [OF cool] ok_leave_if items [OF assms(1,2) 2])
qed

lemma ok_settle_result:
  assumes "ex_end x = Inr res" "xr_ok res \<longrightarrow> (\<exists>m. v = verify_batch_output env c pre m)"
  shows "run_ok I R (flow_post D S) (settle_result env c pre res v)"
proof -
  have unknown: "run_ok I R (flow_post D S) (br_bind (health_audit env c) (\<lambda>_. leave_if (unknown_owned env c e) out k))" for e out k
    by (intro ok_bind [OF ok_health] ok_unknown)
  have completed: "run_ok I R (flow_post D S) (br_bind (health_audit env c)
      (\<lambda>_. if eq_str (dict_get v ''status'') ''ok'' \<or> eq_str (dict_get v ''status'') ''skip''
           then leave_if (complete_owned env c) ok_out True
           else leave_if (fail_owned env c e 1 False) (failed_out True) True))"
    if "\<not> completion_unknown res" "xr_ok res" "xr_item_results res = [] \<or> bc_job_ids c = []" for e
  proof (rule ok_bind [OF ok_health])
    from assms(2) that(2) obtain m where v: "v = verify_batch_output env c pre m" by blast
    have "\<not> refused v" if "eq_str (dict_get v ''status'') ''ok'' \<or> eq_str (dict_get v ''status'') ''skip''"
      using that by (auto simp: refused_def eq_str_def)
    then show "run_ok I R (flow_post D S) (if eq_str (dict_get v ''status'') ''ok'' \<or> eq_str (dict_get v ''status'') ''skip''
           then leave_if (complete_owned env c) ok_out True else leave_if (fail_owned env c e 1 False) (failed_out True) True)"
      using ok_leave_if [OF complete [OF assms(1) that, of pre m]] ok_fail [of 1] v by (auto simp: MAX_ATTEMPTS_def)
  qed
  show ?thesis
    unfolding settle_result_def
    by (simp add: unknown ok_no_retry ok_settle_failure ok_settle_items [OF assms(1) _ assms(2)] completed)
qed

lemma ok_worker_body: "run_ok I R (flow_post D (\<lambda>_. False)) (worker_body env c x)"
proof -
  let ?S = "\<lambda>pre (res, v). ex_end x = Inr res \<and> (xr_ok res \<longrightarrow> (\<exists>m. v = verify_batch_output env c pre m))"
  have after: "run_ok I R (flow_post D (?S pre)) (after_run env c pre res)" if "ex_end x = Inr res" for pre res
    by (rule run_ok_weaken [OF ok_after_run]) (use that in \<open>auto simp: flow_post_def split: flow.splits\<close>)
  have run: "run_ok I R (flow_post D (?S pre)) (br_catch (then_flow (launch env c x) (after_run env c pre)) (run_raised env c))" for pre
    by (rule ok_catch [OF ok_then [OF ok_launch after] ok_run_raised])
  have pre: "runs (external env c (\<lambda>m. br_return (remote_output_mtimes env m)))"
    by (intro ok_external ok_return) simp
  show ?thesis
    unfolding worker_body_def
    by (intro ok_then [OF ok_check_definition [where S = "\<lambda>_. True"]] ok_then [OF ok_advance] ok_bind [OF pre] ok_then [OF run])
      (auto intro: ok_settle_result)
qed

lemma ok_worker_crashed: "run_ok I R (flow_post D S) (worker_crashed env c e)"
proof -
  have no: "run_ok I R (\<lambda>ok w. ok \<longrightarrow> D w) (br_return False)" by (rule ok_return) simp
  show ?thesis
    unfolding worker_crashed_def Let_def
    by (rule ok_bind [OF ok_update [where P = "\<lambda>_ _. True"]], simp add: calm_world_def calm_db_def, simp)
      (intro run_ok_if ok_leave_if ok_catch ok_unknown_owned fail order.refl no)
qed

lemma ok_worker: "run_ok I R (flow_post D (\<lambda>_. False)) (br_catch (worker_body env c x) (worker_crashed env c))"
  by (rule ok_catch [OF ok_worker_body ok_worker_crashed])

end

section \<open>Every worker settles its batch\<close>

text \<open>
  A consistent queue, a batch in an executing state, and other processes that call the queue as
  they should and delete no rows meanwhile.
\<close>

definition polite :: "run_world \<Rightarrow> bool" where
  "polite w \<longleftrightarrow> (\<forall>m \<in> set (rw_moments w). \<forall>(t, op) \<in> set (mo_ops m). call_ok op \<and> deletions op = {})"

definition worker_inv :: "run_world \<Rightarrow> bool" where
  "worker_inv w \<longleftrightarrow> queue_inv (rw_queue w) \<and> rw_state w \<in> set BATCH_EXECUTING \<and> polite w"

abbreviation over :: "batch_claim \<Rightarrow> run_world \<Rightarrow> bool" where
  "over c w \<equiv> batch_over (bc_batch c) (rw_queue w)"

lemma op_inv: "queue_inv db \<Longrightarrow> call_ok op \<Longrightarrow> queue_inv (run_fleet_op now op db)"
  using qm.steps_inv run_fleet_op_steps by blast

lemma others_step:
  assumes "queue_inv db" and "\<forall>(t, op) \<in> set ops. call_ok op \<and> deletions op = {}"
  shows "queue_inv (fold (\<lambda>(t, op). run_fleet_op t op) ops db)
    \<and> (batch_over b db \<longrightarrow> batch_over b (fold (\<lambda>(t, op). run_fleet_op t op) ops db))"
  using assms
proof (induction ops arbitrary: db)
  case (Cons x ops)
  obtain t op where x: "x = (t, op)" by (cases x)
  with Cons.prems have op: "call_ok op" "deletions op = {}" by auto
  show ?case using Cons.IH [OF op_inv [OF Cons.prems(1) op(1)], of t] Cons.prems batch_over_op [OF Cons.prems(1) op] by (auto simp: x)
qed simp

lemma renewal_inv:
  assumes "worker_inv w"
  shows "worker_inv (renew env c w) \<and> (over c w \<longrightarrow> over c (renew env c w))"
proof -
  let ?op = "Heartbeat (bc_batch c) (re_lease_until (bv_recovery env) (rw_now w) (max 2 (bv_lease_seconds env))) (rw_state w) (bc_token c)"
  from assms have "queue_inv (rw_queue w)" by (simp add: worker_inv_def)
  from op_inv [OF this, of ?op "rw_now w"] batch_over_op [OF this, of ?op "bc_batch c" "rw_now w"] assms show ?thesis
    by (simp add: renew_def worker_inv_def polite_def case_prod_beta)
qed

lemma pass_inv:
  assumes "worker_inv w"
  shows "worker_inv (snd (pass env c w)) \<and> (over c w \<longrightarrow> over c (snd (pass env c w)))"
proof (cases "rw_moments w")
  case (Cons m ms)
  let ?w = "w\<lparr>rw_moments := ms, rw_now := mo_now m, rw_queue := fold (\<lambda>(t, op). run_fleet_op t op) (mo_ops m) (rw_queue w)\<rparr>"
  have s: "worker_inv ?w \<and> (over c w \<longrightarrow> over c ?w)"
    using assms others_step [of "rw_queue w" "mo_ops m" "bc_batch c"] by (auto simp: worker_inv_def polite_def Cons)
  moreover have "worker_inv (w'\<lparr>rw_lost := True\<rparr>) = worker_inv w'" for w' by (simp add: worker_inv_def polite_def)
  ultimately show ?thesis
    using renewal_inv [of ?w env c] by (auto simp: pass_def Cons heartbeat_loop_def)
qed (use assms in \<open>simp add: pass_def\<close>)

interpretation wl: worker_logic env c worker_inv "\<lambda>_ _. True" "over c" for env c
proof
  show "worker_inv w \<Longrightarrow> calm_world w w' \<Longrightarrow> worker_inv w' \<and> True" for w w'
    by (auto simp: worker_inv_def polite_def calm_world_def calm_db_def executing_iff)
qed (use pass_inv in \<open>auto simp: worker_inv_def batch_over_def\<close>)

lemma settling_call:
  assumes "\<And>now db. queue_inv db \<Longrightarrow> queue_inv (snd (f now db))"
    and "\<And>now db. fst (f now db) = Inr True \<Longrightarrow> batch_over (bc_batch c) (snd (f now db))"
  shows "run_ok worker_inv (\<lambda>_ _. True) (\<lambda>ok w. ok \<longrightarrow> over c w) (queue_call env c f)"
  by (rule wl.ok_queue_call_at) (use assms in \<open>auto simp: worker_inv_def polite_def\<close>)

text \<open>The operation that an owner makes in the state of the world.\<close>

lemma owner_call:
  assumes "\<And>v now db. rw_state v \<in> set BATCH_EXECUTING \<Longrightarrow> queue_inv db \<Longrightarrow> queue_inv (snd (f v now db))"
    and "\<And>v now db. fst (f v now db) = Inr True \<Longrightarrow> batch_over (bc_batch c) (snd (f v now db))"
  shows "run_ok worker_inv (\<lambda>_ _. True) (\<lambda>ok w. ok \<longrightarrow> over c w) (\<lambda>w. queue_call env c (f w) w)"
  using run_ok_dep [where g = "\<lambda>v. queue_call env c (f v)", OF settling_call [of "f _" c env]] assms by (auto simp: worker_inv_def)

lemma settling_calls:
  "n \<le> MAX_ATTEMPTS \<Longrightarrow> run_ok worker_inv (\<lambda>_ _. True) (\<lambda>ok w. ok \<longrightarrow> over c w) (fail_owned env c e n cf)"
  "run_ok worker_inv (\<lambda>_ _. True) (\<lambda>ok w. ok \<longrightarrow> over c w) (complete_owned env c)"
  "run_ok worker_inv (\<lambda>_ _. True) (\<lambda>ok w. ok \<longrightarrow> over c w) (complete_items_owned env c rows cf)"
proof -
  show "run_ok worker_inv (\<lambda>_ _. True) (\<lambda>ok w. ok \<longrightarrow> over c w) (fail_owned env c e n cf)" if "n \<le> MAX_ATTEMPTS"
    unfolding fail_owned_def
    by (rule wl.ok_observed, rule owner_call)
      (use that op_inv [of _ "FailBatch b e ex tok n cf res ob d" for b ex tok res ob d] ending_calls(3) in \<open>simp_all\<close>)
  show "run_ok worker_inv (\<lambda>_ _. True) (\<lambda>ok w. ok \<longrightarrow> over c w) (complete_owned env c)"
    unfolding complete_owned_def
    by (rule wl.ok_observed, rule owner_call)
      (use op_inv [of _ "CompleteBatch b ex tok res ob d" for b ex tok res ob d] ending_calls(4) in \<open>simp_all\<close>)
  show "run_ok worker_inv (\<lambda>_ _. True) (\<lambda>ok w. ok \<longrightarrow> over c w) (complete_items_owned env c rows cf)"
    unfolding complete_items_owned_def Let_def item_result_maps_def prod.case
    by (rule wl.ok_observed, rule owner_call)
      (use op_inv [of _ "CompleteBatchItems b ex tok it" for b ex tok it] ending_calls(5) in \<open>simp_all\<close>)
qed

interpretation sw: settling_worker env c worker_inv "\<lambda>_ _. True" "over c" x for env c x
  by unfold_locales (simp_all add: settling_calls)

lemma crashed_returns: "\<exists>f. fst (worker_crashed env c e w) = Inr f"
proof -
  have "\<exists>f. fst (leave_if (br_catch m (\<lambda>_. br_return False)) out k w) = Inr f" for m out k w
    by (cases "m w"; cases "fst (m w)") (auto simp: leave_if_def br_bind_def br_catch_def br_return_def)
  then show ?thesis unfolding worker_crashed_def Let_def br_bind_def br_update_def prod.case sum.case by (auto simp del: append.simps)
qed

lemma worker_leaves:
  assumes "worker_inv (w\<lparr>rw_beating := False, rw_lost := False, rw_state := Leased, rw_record := None, rw_latest := no_result, rw_drift := None\<rparr>)"
    (is "worker_inv ?w")
  shows "\<exists>out. fst (run_claimed_batch env c x w) = Inr (Leave out) \<and> (bo_lost out \<or> over c (snd (run_claimed_batch env c x w)))"
    and "worker_inv (snd (run_claimed_batch env c x w))"
proof -
  let ?m = "br_catch (worker_body env c x) (worker_crashed env c) ?w"
  have "\<exists>f. fst ?m = Inr f"
    using crashed_returns [of env c _ "snd (worker_body env c x ?w)"]
    by (cases "worker_body env c x ?w"; cases "fst (worker_body env c x ?w)") (auto simp: br_catch_def)
  then obtain f where f: "fst ?m = Inr f" ..
  note s = run_okD [OF sw.ok_worker assms]
  from s(3) [OF f] f show "\<exists>out. fst (run_claimed_batch env c x w) = Inr (Leave out)
      \<and> (bo_lost out \<or> over c (snd (run_claimed_batch env c x w)))"
    by (cases f) (simp_all add: run_claimed_batch_def)
  from s(1) show "worker_inv (snd (run_claimed_batch env c x w))" by (simp add: run_claimed_batch_def)
qed

section \<open>Sample workers\<close>

definition demo_observation :: observation where
  "demo_observation = dict_set ''device'' (PyStr ''box'') (dict_set ''accepted_duration'' (PyBool False)
     (dict_set ''reject_reason'' (PyStr ''unestimated'') (map (\<lambda>k. (k, PyNone)) OBSERVATION_FIELDS)))"

definition demo_batch_env :: batch_env where
  "demo_batch_env =
     \<lparr>bv_recovery = \<lparr>re_devices = [(''box'', ''ssh-posix'')], re_queue = demo_env, re_batch_digest = (\<lambda>b. b), re_request_sha = (\<lambda>op body. []),
        re_backoff = (\<lambda>now base n salt. ''9''), re_lease_until = (\<lambda>now s. ''9'')\<rparr>,
      bv_lease_seconds = 60, bv_raw_spec = ''raw'', bv_health = True, bv_health_cooldown = 300, bv_device_known = True,
      bv_output_arg = Some ''out'', bv_record = (\<lambda>res r. r), bv_observation = (\<lambda>res r. Inr demo_observation), bv_dumps = (\<lambda>r. ''{}'')\<rparr>"

definition demo_batch_claim :: batch_claim where
  "demo_batch_claim =
     \<lparr>bc_batch = ''b1'', bc_device = ''box'', bc_engine = [], bc_token = ''token-b1'', bc_job_ids = [''j1''], bc_command = False, bc_spec_id = ''spec'',
      bc_force_device = None, bc_allow_fallback = False, bc_memory_patterns = False,
      bc_contract = \<lparr>oc_verification = ''mtime'', oc_missing_mapping = ''final'', oc_no_change = ''final''\<rparr>\<rparr>"

text \<open>The heartbeat beats at every call; the file of the output grows older by the call.\<close>

definition demo_moment :: "(string \<times> fleet_op) list \<Rightarrow> int \<Rightarrow> moment" where
  "demo_moment ops t =
     \<lparr>mo_ops = ops, mo_beat = True, mo_thread_fails = False, mo_now = ''3'', mo_fault = None, mo_live = Some ''spec'',
      mo_mtimes = [(''result'', t)], mo_leak = False\<rparr>"

definition demo_worker :: "moment list \<Rightarrow> run_world" where
  "demo_worker ms =
     \<lparr>rw_queue = run_ops (take 3 (demo_running None)) empty_queue, rw_now = ''3'', rw_moments = ms, rw_beating = False, rw_lost = False,
      rw_state = Leased, rw_record = None, rw_latest = no_result, rw_drift = None\<rparr>"

definition demo_success :: executor_run where
  "demo_success =
     \<lparr>ex_calls = [LaunchGate, ReturnGate],
      ex_end = Inr (no_result\<lparr>xr_ok := True,
        xr_item_results := [[(''job_id'', JStr ''j1''), (''ok'', JBool True), (''outcome'', JStr ''succeeded'')]]\<rparr>)\<rparr>"

definition demo_failure :: executor_run where
  "demo_failure = \<lparr>ex_calls = [LaunchGate], ex_end = Inr (no_result\<lparr>xr_error := Some ''exit 1'', xr_exit_code := Some 1\<rparr>)\<rparr>"

definition worker_job :: "string \<Rightarrow> run_world \<Rightarrow> work_state option" where
  "worker_job i w = map_option jb_state (dict_get (qd_jobs (rw_queue w)) i)"



section \<open>Workers undisturbed by other processes\<close>

definition alone :: "run_world \<Rightarrow> bool" where
  "alone w \<longleftrightarrow> (\<forall>m \<in> set (rw_moments w). mo_ops m = [])"

definition alone_inv :: "run_world \<Rightarrow> bool" where
  "alone_inv w \<longleftrightarrow> rw_state w \<in> set BATCH_EXECUTING \<and> alone w"

definition on_queues :: "(queue_db \<Rightarrow> queue_db \<Rightarrow> bool) \<Rightarrow> run_world \<Rightarrow> run_world \<Rightarrow> bool" where
  "on_queues P w w' \<longleftrightarrow> P (rw_queue w) (rw_queue w')"

lemma pass_alone:
  assumes "alone_inv w" and "\<And>db db'. quiet_change db db' \<Longrightarrow> P db db'"
  shows "alone_inv (snd (pass env c w)) \<and> on_queues P w (snd (pass env c w))"
proof (cases "rw_moments w")
  case (Cons m ms)
  let ?w = "w\<lparr>rw_moments := ms, rw_now := mo_now m\<rparr>"
  have "alone_inv (renew env c ?w) \<and> quiet_change (rw_queue w) (rw_queue (renew env c ?w))"
    using assms(1) by (simp add: alone_inv_def alone_def Cons renew_def case_prod_beta quiet_ops)
  then show ?thesis using assms by (auto simp: pass_def Cons heartbeat_loop_def alone_inv_def alone_def on_queues_def)
qed (use assms in \<open>simp add: pass_def on_queues_def\<close>)

lemma alone_logic:
  assumes "\<And>db db'. quiet_change db db' \<Longrightarrow> P db db'" and "\<And>a b c. P a b \<Longrightarrow> P b c \<Longrightarrow> P a c"
  shows "worker_logic env c alone_inv (on_queues P) (\<lambda>_. True)"
proof
  show "alone_inv w' \<and> on_queues P w w'" if "alone_inv w" "calm_world w w'" for w w'
    using that assms(1) by (auto simp: alone_inv_def alone_def calm_world_def calm_db_def on_queues_def executing_iff)
qed (use pass_alone [where P = P, OF _ assms(1)] assms(2) in \<open>auto simp: on_queues_def alone_inv_def\<close>)

section \<open>Jobs that are done\<close>

text \<open>
  The run ended with a result that is not unknown, the check of the output did not refuse it, and
  the result is a success without rows or has a row that reports the success of the job.
\<close>

definition earned :: "batch_env \<Rightarrow> batch_claim \<Rightarrow> executor_run \<Rightarrow> string \<Rightarrow> bool" where
  "earned env c x i \<longleftrightarrow>
     (\<exists>res pre m. ex_end x = Inr res \<and> \<not> completion_unknown res \<and> \<not> refused (verify_batch_output env c pre m)
        \<and> (xr_ok res \<and> (xr_item_results res = [] \<or> bc_job_ids c = [])
           \<or> (\<exists>r \<in> set (xr_item_results res). item_job r = Some i \<and> item_succeeded r)))"

definition done_earned :: "batch_env \<Rightarrow> batch_claim \<Rightarrow> executor_run \<Rightarrow> queue_db \<Rightarrow> queue_db \<Rightarrow> bool" where
  "done_earned env c x db db' \<longleftrightarrow> (\<forall>i. newly_done i db db' \<longrightarrow> earned env c x i)"

interpretation el: worker_logic env c alone_inv "on_queues (done_earned env c x)" "\<lambda>_. True" for env c x
  by (rule alone_logic) (auto simp: done_earned_def quiet_change_not_done dest: newly_done_trans)

lemma rows_dict_iff: "dict_get (rows_dict P f rows) i \<noteq> None \<longleftrightarrow> (\<exists>r \<in> set rows. item_job r = Some i \<and> P r)"
proof -
  have "dict_get (fold (\<lambda>r d. case item_job r of Some i \<Rightarrow> if P r then dict_set i (f r) d else d | None \<Rightarrow> d) rows d) i \<noteq> None
      \<longleftrightarrow> dict_get d i \<noteq> None \<or> (\<exists>r \<in> set rows. item_job r = Some i \<and> P r)" for d
  proof (induction rows arbitrary: d)
    case (Cons a rows)
    show ?case unfolding fold_simps(2) Cons.IH by (cases "item_job a"; cases "P a") (auto simp: dict_get_set)
  qed simp
  from this [of "[]"] show ?thesis by (simp add: rows_dict_def)
qed

lemma verdict_rows:
  assumes "r \<in> set (apply_item_output_verdict rows v)" and "item_succeeded r"
  shows "r \<in> set rows" "\<not> refused v"
  using assms by (auto simp: apply_item_output_verdict_def refused_def item_succeeded_def eq_str_def json_true_def Let_def dict_get_set
      split: if_splits)

text \<open>The calls of a settlement, as far as jobs become done.\<close>

lemma fail_not_done: "\<not> newly_done i db (snd (fail_batch b e ex tok now n cf res ob fin db))"
proof -
  have "\<not> newly_done i db db'"
    if "insert_profile_observation b ob now (finish_batch_failure b e now n cf res (put_batch b r db)) = Inr db'" for db' r
    using observation_jobs [OF that]
    by (auto simp: newly_done_def finish_batch_failure_def failed_job_def dict_get_update_where Let_def split: if_splits)
  then show ?thesis
    unfolding fail_batch_def
    by (intro immediate_relates [where P = "\<lambda>db db'. \<not> newly_done i db db'"])
      (auto simp: newly_done_def split: option.splits sum.splits)
qed

lemma items_done:
  assumes "newly_done i db (snd (complete_batch_items b ex tok now it db))"
  shows "dict_get (it_succeeded it) i \<noteq> None"
proof -
  let ?P = "\<lambda>db db'. newly_done i db db' \<longrightarrow> dict_get (it_succeeded it) i \<noteq> None"
  have "?P db db'"
    if "insert_profile_observation b ob now (update_jobs Q (finish_item it now) (put_batch b r db)) = Inr db'" for db' r Q ob
  proof
    assume "newly_done i db db'"
    with observation_jobs [OF that] have "item_done it i"
      by (auto simp: newly_done_def dict_get_update_where finish_item_def finish_failed_item_def failed_item_state_def Let_def split: if_splits)
    then show "dict_get (it_succeeded it) i \<noteq> None" by (simp add: item_done_def)
  qed
  then have "?P db (snd (complete_batch_items b ex tok now it db))"
    unfolding complete_batch_items_def Let_def
    by (intro immediate_relates [where P = ?P]) (auto simp: newly_done_def split: option.splits sum.splits if_splits)
  with assms show ?thesis by blast
qed

lemma alone_call:
  assumes "\<And>v now db. done_earned env c x db (snd (f v now db))"
  shows "run_ok alone_inv (on_queues (done_earned env c x)) (\<lambda>ok w. ok \<longrightarrow> True) (\<lambda>w. queue_call env c (f w) w)"
proof -
  have "run_ok alone_inv (on_queues (done_earned env c x)) (\<lambda>ok w. ok \<longrightarrow> True) (queue_call env c (f v))" for v
    by (rule el.ok_queue_call_at) (use assms in \<open>simp_all add: alone_inv_def alone_def on_queues_def\<close>)
  then show ?thesis by (rule run_ok_dep [where g = "\<lambda>v. queue_call env c (f v)"])
qed

lemma row_earned:
  assumes "ex_end x = Inr res" "\<not> completion_unknown res"
    and "(\<exists>m. v = verify_batch_output env c pre m) \<or> rows_dict item_succeeded (\<lambda>_. ()) (xr_item_results res) = []"
    and "dict_get (rows_dict item_succeeded f (apply_item_output_verdict (xr_item_results res) v)) i \<noteq> None"
  shows "earned env c x i"
proof -
  from assms(4) obtain r where r: "r \<in> set (apply_item_output_verdict (xr_item_results res) v)" "item_job r = Some i" "item_succeeded r"
    unfolding rows_dict_iff by blast
  note s = verdict_rows [OF r(1,3)]
  then have "dict_get (rows_dict item_succeeded (\<lambda>_. ()) (xr_item_results res)) i \<noteq> None" unfolding rows_dict_iff using r(2,3) by blast
  with assms(3) s(2) obtain m where "\<not> refused (verify_batch_output env c pre m)" by auto
  with assms(1,2) s(1) r(2,3) show ?thesis unfolding earned_def by blast
qed

interpretation es: settling_worker env c alone_inv "on_queues (done_earned env c x)" "\<lambda>_. True" x for env c x
proof
  show "run_ok alone_inv (on_queues (done_earned env c x)) (\<lambda>ok w. ok \<longrightarrow> True) (fail_owned env c e n f)" for n e f
    unfolding fail_owned_def by (rule el.ok_observed, rule alone_call) (simp add: done_earned_def fail_not_done)
  show "run_ok alone_inv (on_queues (done_earned env c x)) (\<lambda>ok w. ok \<longrightarrow> True) (complete_owned env c)"
    if "ex_end x = Inr res" "\<not> completion_unknown res" "xr_ok res" "xr_item_results res = [] \<or> bc_job_ids c = []"
      "\<not> refused (verify_batch_output env c pre m)" for res pre m
    unfolding complete_owned_def by (rule el.ok_observed, rule alone_call) (use that in \<open>auto simp: done_earned_def earned_def\<close>)
  show "run_ok alone_inv (on_queues (done_earned env c x)) (\<lambda>ok w. ok \<longrightarrow> True)
      (complete_items_owned env c (apply_item_output_verdict (xr_item_results res) v) f)"
    if "ex_end x = Inr res" "\<not> completion_unknown res"
      "(\<exists>m. v = verify_batch_output env c pre m) \<or> rows_dict item_succeeded (\<lambda>_. ()) (xr_item_results res) = []" for res v pre f
    unfolding complete_items_owned_def Let_def item_result_maps_def prod.case
  proof (rule el.ok_observed, rule alone_call, unfold done_earned_def, intro allI impI)
    fix ob v' now db i
    assume "newly_done i db (snd (complete_batch_items (bc_batch c) (rw_state v') (bc_token c) now
      \<lparr>it_succeeded = rows_dict item_succeeded (\<lambda>r. Some (bv_dumps env r)) (apply_item_output_verdict (xr_item_results res) v),
       it_failed = rows_dict (\<lambda>r. \<not> item_succeeded r) item_message (apply_item_output_verdict (xr_item_results res) v),
       it_dispositions = item_dispositions (apply_item_output_verdict (xr_item_results res) v),
       it_results = map (\<lambda>(i, r). (i, the r)) (filter (\<lambda>(_, r). r \<noteq> None) (map (\<lambda>(i, r). (i, bv_record env (rw_latest v') (Some r)))
          (item_records (bv_dumps env) (apply_item_output_verdict (xr_item_results res) v)))),
       it_result_record = rw_record v', it_max_attempts = MAX_ATTEMPTS, it_clear_force = f, it_observation = ob,
       it_supplied = target_finalization_disposition (rw_latest v')\<rparr> db))"
    from items_done [OF this] show "earned env c x i" by (intro row_earned [OF that]) simp
  qed
qed



section \<open>Jobs that are queued again\<close>

interpretation nl: worker_logic env c alone_inv "on_queues no_requeue" "\<lambda>_. True" for env c
  by (rule alone_logic) (auto intro: quiet_change_no_requeue no_requeue_trans)

text \<open>
  The program queues jobs again only as its last act, on a batch that was not launched; a value
  with which it stays has the given property.
\<close>

definition careful_end :: "('a \<Rightarrow> bool) \<Rightarrow> run_world \<Rightarrow> string + 'a flow \<Rightarrow> run_world \<Rightarrow> bool" where
  "careful_end P w r w' \<longleftrightarrow>
     alone_inv w'
     \<and> (no_requeue (rw_queue w) (rw_queue w') \<or> (\<exists>out. r = Inr (Leave out)) \<and> rw_state w' \<notin> {Running, Fetching})
     \<and> (\<forall>y. r = Inr (Stay y) \<longrightarrow> P y)"

definition careful :: "('a \<Rightarrow> bool) \<Rightarrow> 'a flow run \<Rightarrow> bool" where
  "careful P m \<longleftrightarrow> (\<forall>w. alone_inv w \<longrightarrow> careful_end P w (fst (m w)) (snd (m w)))"

lemma careful_endD:
  assumes "careful P m" and "alone_inv w" and "m w = (r, w')"
  shows "careful_end P w r w'"
  using assms by (metis careful_def fst_conv snd_conv)

lemma careful_end_trans: "no_requeue (rw_queue w) (rw_queue w1) \<Longrightarrow> careful_end P w1 r w' \<Longrightarrow> careful_end P w r w'"
  by (auto simp: careful_end_def intro: no_requeue_trans)

lemma careful_ok: "run_ok alone_inv (on_queues no_requeue) (flow_post (\<lambda>_. True) P) m \<Longrightarrow> careful P m"
  by (fastforce simp: careful_def careful_end_def run_ok_def on_queues_def)

lemma careful_if: "careful P m \<Longrightarrow> careful P n \<Longrightarrow> careful P (\<lambda>w. if C w then m w else n w)"
  by (simp add: careful_def)

lemma careful_bind:
  assumes m: "run_ok alone_inv (on_queues no_requeue) Q m" and f: "\<And>y v. Q y v \<Longrightarrow> careful P (f y)"
  shows "careful P (br_bind m f)"
proof (unfold careful_def, intro allI impI)
  fix w assume I: "alone_inv w"
  obtain r w1 where run: "m w = (r, w1)" by (cases "m w")
  note s = run_okD [OF m I, unfolded run fst_conv snd_conv on_queues_def]
  show "careful_end P w (fst (br_bind m f w)) (snd (br_bind m f w))"
  proof (cases r)
    case (Inr y)
    from f [OF s(3) [OF Inr]] s(1) show ?thesis
      by (simp add: br_bind_def run Inr careful_def careful_end_trans [OF s(2)])
  qed (use s in \<open>simp add: br_bind_def run careful_end_def\<close>)
qed

lemma careful_then:
  assumes m: "careful Q m" and f: "\<And>y. Q y \<Longrightarrow> careful P (f y)"
  shows "careful P (then_flow m f)"
proof (unfold careful_def, intro allI impI)
  fix w assume I: "alone_inv w"
  obtain r w1 where run: "m w = (r, w1)" by (cases "m w")
  note s = careful_endD [OF m I run, unfolded careful_end_def]
  show "careful_end P w (fst (then_flow m f w)) (snd (then_flow m f w))"
  proof (cases "\<exists>y. r = Inr (Stay y)")
    case True
    then obtain y where y: "r = Inr (Stay y)" by blast
    with s f have "no_requeue (rw_queue w) (rw_queue w1)" "careful_end P w1 (fst (f y w1)) (snd (f y w1))"
      by (simp_all add: careful_def)
    then show ?thesis by (simp add: then_flow_def br_bind_def run y careful_end_trans)
  next
    case False
    then show ?thesis using s by (cases r; cases "projr r") (auto simp: then_flow_def br_bind_def br_return_def run careful_end_def)
  qed
qed

lemma careful_catch:
  assumes m: "careful P m" and h: "\<And>e. careful P (h e)"
  shows "careful P (br_catch m h)"
proof (unfold careful_def, intro allI impI)
  fix w assume I: "alone_inv w"
  obtain r w1 where run: "m w = (r, w1)" by (cases "m w")
  note s = careful_endD [OF m I run, unfolded careful_end_def]
  show "careful_end P w (fst (br_catch m h w)) (snd (br_catch m h w))"
  proof (cases r)
    case (Inl e)
    with s h [of e] have "no_requeue (rw_queue w) (rw_queue w1)" "careful_end P w1 (fst (h e w1)) (snd (h e w1))"
      by (simp_all add: careful_def)
    then show ?thesis by (simp add: br_catch_def run Inl careful_end_trans)
  qed (use s in \<open>simp add: br_catch_def run careful_end_def\<close>)
qed

text \<open>A failure that raises has changed nothing, and one that succeeds leaves the variable of the state alone.\<close>

lemma pass_state: "rw_state (snd (pass env c w)) = rw_state w"
  by (simp add: pass_def heartbeat_loop_def renew_def case_prod_beta split: list.split)

lemma fail_owned_effect:
  "rw_state (snd (fail_owned env c e n f w)) = rw_state w"
  "alone_inv w \<Longrightarrow> alone_inv (snd (fail_owned env c e n f w))"
  "alone_inv w \<Longrightarrow> fst (fail_owned env c e n f w) = Inl err \<Longrightarrow> no_requeue (rw_queue w) (rw_queue (snd (fail_owned env c e n f w)))"
proof -
  obtain m w1 where run: "pass env c w = (m, w1)" by (cases "pass env c w")
  have refl: "no_requeue a a" for a by (simp add: no_requeue_def)
  have roll: "snd (fail_batch b e ex tok now n f res ob d db) = db" if "fst (fail_batch b e ex tok now n f res ob d db) = Inl err" for b ex tok now res ob d db err
    using that by (auto simp: fail_batch_def immediate_def split: sum.splits)
  show "rw_state (snd (fail_owned env c e n f w)) = rw_state w"
    using pass_state [of env c w]
    by (simp add: fail_owned_def observed_def queue_call_def external_def run case_prod_beta Let_def split: sum.split option.split)
  show "alone_inv (snd (fail_owned env c e n f w))" if "alone_inv w"
    using pass_alone [where P = "\<lambda>_ _. True", OF that, of env c]
    by (auto simp: fail_owned_def observed_def queue_call_def external_def run case_prod_beta Let_def alone_inv_def alone_def that[unfolded alone_inv_def alone_def]
        split: sum.split option.split)
  assume "alone_inv w" and err: "fst (fail_owned env c e n f w) = Inl err"
  with pass_alone [where P = no_requeue, OF _ quiet_change_no_requeue, of w env c]
  have "no_requeue (rw_queue w) (rw_queue w1)" by (simp add: run on_queues_def)
  then show "no_requeue (rw_queue w) (rw_queue (snd (fail_owned env c e n f w)))"
    using err roll
    by (auto simp: fail_owned_def observed_def queue_call_def external_def run case_prod_beta Let_def refl split: sum.splits option.splits)
qed

lemma careful_unless_launched:
  assumes "careful P m"
  shows "careful P (\<lambda>w. if rw_state w \<in> {Running, Fetching} then m w else leave_if (fail_owned env c e n f) out k w)"
    "careful P (\<lambda>w. if rw_state w \<in> {Running, Fetching} then m w
       else leave_if (br_catch (fail_owned env c e n f) (\<lambda>_. br_return False)) out k w)"
proof -
  have "careful_end P w (fst (leave_if (fail_owned env c e n f) out k w)) (snd (leave_if (fail_owned env c e n f) out k w))
      \<and> careful_end P w (fst (leave_if (br_catch (fail_owned env c e n f) (\<lambda>_. br_return False)) out k w))
          (snd (leave_if (br_catch (fail_owned env c e n f) (\<lambda>_. br_return False)) out k w))"
    if w: "alone_inv w" "rw_state w \<notin> {Running, Fetching}" for w
  proof -
    obtain r w1 where run: "fail_owned env c e n f w = (r, w1)" by fastforce
    note s = fail_owned_effect(1) [of env c e n f w] fail_owned_effect(2,3) [OF w(1), of env c e n f]
    show ?thesis
      using s w(2) by (cases r) (simp_all add: run leave_if_def br_bind_def br_catch_def br_return_def careful_end_def)
  qed
  with assms show "careful P (\<lambda>w. if rw_state w \<in> {Running, Fetching} then m w else leave_if (fail_owned env c e n f) out k w)"
    "careful P (\<lambda>w. if rw_state w \<in> {Running, Fetching} then m w
       else leave_if (br_catch (fail_owned env c e n f) (\<lambda>_. br_return False)) out k w)"
    unfolding careful_def by (auto simp del: insert_iff)
qed

lemma local_change:
  assumes "\<And>w. rw_queue (f w) = rw_queue w \<and> rw_moments (f w) = rw_moments w \<and> rw_state (f w) = rw_state w"
  shows "run_ok alone_inv (on_queues no_requeue) (\<lambda>_ _. True) (br_update f)"
  by (rule nl.ok_update) (use assms in \<open>simp_all add: calm_world_def calm_db_def\<close>)

lemma careful_raised: "careful P (run_raised env c exc)"
  unfolding run_raised_def Let_def
  by (intro careful_bind [OF local_change] careful_bind [OF nl.ok_cool] careful_bind [OF nl.ok_health] careful_unless_launched(1)
      careful_ok nl.ok_leave_if nl.ok_unknown_owned) simp

lemma careful_crashed: "careful P (worker_crashed env c exc)"
proof -
  have no: "run_ok alone_inv (on_queues no_requeue) (\<lambda>ok w. ok \<longrightarrow> True) (br_return False)" by (rule nl.ok_return) simp
  show ?thesis
    unfolding worker_crashed_def Let_def
    by (intro careful_bind [OF local_change] careful_unless_launched(2) careful_ok nl.ok_leave_if nl.ok_catch nl.ok_unknown_owned no) simp
qed

lemma careful_worker:
  assumes "\<And>res. ex_end x = Inr res \<Longrightarrow> completion_unknown res"
  shows "careful (\<lambda>_. False) (br_catch (worker_body env c x) (worker_crashed env c))"
proof -
  have pre: "run_ok alone_inv (on_queues no_requeue) (\<lambda>_ _. True) (external env c (\<lambda>m. br_return (remote_output_mtimes env m)))"
    by (intro nl.ok_external nl.ok_return) simp
  have after: "careful (\<lambda>(r, v). ex_end x = Inr r) (after_run env c pre res)" if "ex_end x = Inr res" for pre res
    by (rule careful_ok, rule run_ok_weaken [OF nl.ok_after_run]) (use that in \<open>auto simp: flow_post_def split: flow.splits\<close>)
  have settle: "careful (\<lambda>_. False) (settle_result env c pre res v)" if "ex_end x = Inr res" for pre res v
    unfolding settle_result_def if_P [OF assms [OF that]]
    by (intro careful_bind [OF nl.ok_health] careful_ok nl.ok_leave_if nl.ok_unknown_owned)
  have run: "careful (\<lambda>(r, v). ex_end x = Inr r) (br_catch (then_flow (launch env c x) (after_run env c pre)) (run_raised env c))" for pre
    by (intro careful_catch careful_then [OF careful_ok [OF nl.ok_launch]] after careful_raised)
  show ?thesis
    unfolding worker_body_def
    by (intro careful_catch careful_crashed careful_then [OF careful_ok [OF nl.ok_check_definition [where S = "\<lambda>_. True"]]]
        careful_then [OF careful_ok [OF nl.ok_advance]] careful_bind [OF pre] careful_then [OF run]) (auto intro: settle)
qed

text \<open>
  C6: Work whose completion is in doubt is never queued again by the worker that ran it.  When a worker,
  undisturbed by other processes, puts a job back into the queue, then the batch was
  never launched, or the run ended with a result and the result does not leave the completion unknown: not
  after an exception of the run or of any later call, and not when the result is ambiguous.
\<close>

theorem worker_replays_nothing_in_doubt:
  assumes "alone w" and "run_claimed_batch env c x w = (res, w')"
    and "job_at (rw_queue w) i = Some j" "jb_state j \<noteq> Queued" and "job_at (rw_queue w') i = Some j'" "jb_state j' = Queued"
  shows "rw_state w' \<notin> {Running, Fetching} \<or> (\<exists>r. ex_end x = Inr r \<and> \<not> completion_unknown r)"
proof (rule ccontr)
  assume "\<not> ?thesis"
  then have launched: "rw_state w' \<in> {Running, Fetching}" and unknown: "\<And>r. ex_end x = Inr r \<Longrightarrow> completion_unknown r" by blast+
  let ?w = "w\<lparr>rw_beating := False, rw_lost := False, rw_state := Leased, rw_record := None, rw_latest := no_result, rw_drift := None\<rparr>"
  have "alone_inv ?w" using assms(1) by (simp add: alone_inv_def alone_def executing_iff)
  from careful_endD [OF careful_worker [of x env c, OF unknown] this, of res w'] assms(2) launched
  have "no_requeue (rw_queue w) (rw_queue w')" by (auto simp: run_claimed_batch_def careful_end_def)
  with assms(3-6) show False by (auto simp: no_requeue_def)
qed

theorem worker_replays_nothing_in_doubt_witness:
  "\<exists>res w' r. run_claimed_batch demo_batch_env demo_batch_claim demo_failure (demo_worker (map (demo_moment []) [0..12])) = (res, w')
     \<and> worker_job ''j1'' w' = Some Queued \<and> rw_state w' = Running \<and> ex_end demo_failure = Inr r \<and> \<not> completion_unknown r"
proof -
  let ?w = "demo_worker (map (demo_moment []) [0..12])"
  have "worker_job ''j1'' (snd (run_claimed_batch demo_batch_env demo_batch_claim demo_failure ?w)) = Some Queued \<and> worker_job ''j1'' ?w = Some Leased
      \<and> rw_state (snd (run_claimed_batch demo_batch_env demo_batch_claim demo_failure ?w)) = Running" by code_simp
  moreover obtain res w' where run: "run_claimed_batch demo_batch_env demo_batch_claim demo_failure ?w = (res, w')" by fastforce
  ultimately obtain j j' where j: "job_at (rw_queue ?w) ''j1'' = Some j" "jb_state j = Leased" "job_at (rw_queue w') ''j1'' = Some j'"
    "jb_state j' = Queued" and st: "rw_state w' = Running" by (auto simp: worker_job_def)
  have "alone ?w" by (simp add: alone_def demo_worker_def demo_moment_def)
  from worker_replays_nothing_in_doubt [OF this run j(1) _ j(3,4)] j(2) st
  obtain r where "ex_end demo_failure = Inr r" "\<not> completion_unknown r" by auto
  with run j st show ?thesis by (auto simp: worker_job_def)
qed

end
