(* ===== verification/Spec2Isabelle.thy ===== *)
theory Spec2Isabelle
  imports SyncConverge SyncPaths CatchUp ResourceSafety GrantSafety FleetRecoverySafety FleetReplay
    StateSafety LockSafety RegistrySafety BoundedWriter Scheduling PresenceSafety TargetRecoverySafety BatchRunSafety
begin

text \<open>
  \<^bold>\<open>A verification library of remrun\<close>, the remote command runner under \<open>src/remrun\<close>.

  \<^bold>\<open>The program.\<close>  A controller runs a command of a project on a target machine.  Before the
  run it brings the two project trees together, afterwards it pulls back what the command
  changed (\<open>reconcile.py\<close>, planned by \<open>transfer_plan.py\<close> over the manifests of
  \<open>manifest.py\<close>).  \<open>sync.py\<close> keeps folders outside a project in step with the same planner.
  \<open>coordination.py\<close> plans how a replica catches up with a canonical snapshot.  On a target,
  \<open>remote/runner.py\<close> keeps three transactional stores: the local resources that runs reserve
  and hold, the project authority that leases a project to one controller and signs grants for
  targets, and the target's record of the grants it accepted.  The fleet runs many jobs on many
  machines: \<open>fleet/queue.py\<close> is the durable queue through which submitters, dispatchers,
  executors, cancellation and recovery hand work to each other, and \<open>fleet/dispatcher.py\<close>
  settles batches whose lease expired by asking their target through \<open>target_resources.py\<close>.
  \<open>state.py\<close> keeps what a controller remembers between runs: baselines, the journal of runs,
  hazards of unknown completions, retained backups and the project lock.  \<open>scheduler.py\<close>,
  \<open>scopes.py\<close> and \<open>presence.py\<close> say where and when work may run.  On a target,
  \<open>_job_observer.py\<close> registers active jobs and \<open>_durable_runner.py\<close> bounds their logs.

  \<^bold>\<open>Shared theories.\<close>
  \<^item> \<open>Prelude\<close>: dictionaries in insertion order, \<open>sorted\<close>, errors as the left summand.
  \<^item> \<open>StateMachine\<close>: the locales \<open>invariant_machine\<close> and \<open>ranked_machine\<close>, the interface from
    a step relation to properties of whole histories.  They are interpreted on the abstract
    machines of the resources (\<open>rs\<close>), the authority (\<open>am\<close>) and the queue (\<open>qm\<close>) and on the
    histories of requests (\<open>tm\<close>, \<open>ss\<close>, \<open>gs\<close>, \<open>fm\<close>, \<open>dm\<close>), of the state
    journal (\<open>hm\<close>), of the calls of processes on a project lock (\<open>lm\<close>) and of the job
    registry (\<open>rm\<close>).
  \<^item> \<open>Sql\<close>: the three-valued conditions of SQL and \<open>UPDATE\<close>, \<open>DELETE\<close> and \<open>SELECT\<close> with a
    condition on a table, an association list in insertion order.
  \<^item> \<open>Json\<close>: JSON values and the coercions \<open>str\<close>, \<open>int\<close> and \<open>dict.get\<close> made on them.
  \<^item> \<open>World\<close>: the two file trees, the backup and conflict stores, and a script of external
    events and transfer faults that strike between any two calls.  \<open>LocalSimTransport\<close> of
    \<open>transport.py\<close> is modelled call by call.
  \<^item> \<open>Effects\<close>: which effects an operation may have on every path, failing ones included, and
    the locale \<open>file_transport\<close>, the contract under which the engines are verified,
    interpreted on \<open>LocalSimTransport\<close>.

  \<^bold>\<open>Components.\<close>
  \<^item> \<open>Manifest\<close> (\<open>manifest.py\<close>): entries, exclusion patterns, the walk with its failures.
  \<^item> \<open>TransferPlan\<close> (\<open>transfer_plan.py\<close>): \<open>compare_manifests\<close> and \<open>diff_remote_changes\<close>; no
    planned action discards a change of the side it overwrites, every path is decided once,
    the planner treats the sides alike.
  \<^item> \<open>Reconcile\<close> (\<open>reconcile.py\<close>): \<open>preflight_reconcile\<close> and \<open>postrun_pullback\<close>.
    \<open>ReconcileSafety\<close> and \<open>PullbackSafety\<close> show that no local file is lost without a backup,
    conflicts abort before any mutation and a pullback never writes the remote tree, against
    arbitrary external writers.  \<open>ReconcileResults\<close> shows what the returned manifests and
    baselines mean.
  \<^item> \<open>Sync\<close> (\<open>sync.py\<close>), \<open>SyncSafety\<close>, \<open>SyncConverge\<close>, \<open>SyncPaths\<close>: no loss, one-way syncs
    write one way, a sync without external writers leaves nothing to do, path arguments stay
    inside their tree; and that an external edit during a push can be absorbed into the
    baseline.
  \<^item> \<open>Coordination\<close> (\<open>coordination.py\<close>) and \<open>CatchUp\<close>: snapshots round trip, a catch-up plan
    overwrites replica work only with the authority of an unseen tombstone.
  \<^item> \<open>TargetResources\<close> (\<open>remote/runner.py\<close>, \<open>_resource_*\<close> and \<open>participant_rpc\<close>).
    \<open>ResourceSteps\<close> is the abstract machine with its invariant, \<open>ResourceRefine\<close> the
    refinement, \<open>ResourceSafety\<close> the properties of histories: mutual exclusion, fences, no
    release on doubt.
  \<^item> \<open>Authority\<close> (\<open>remote/runner.py\<close>, leases, keys, grants, receipts, recovery).
    \<open>AuthorityInv\<close>, \<open>AuthoritySteps\<close>, \<open>AuthorityRefine\<close> and \<open>AuthoritySafety\<close> have the same
    structure: a single holder, no theft of a live lease, final grants stay final.
  \<^item> \<open>TargetGrants\<close> (\<open>remote/runner.py\<close>, enrollment and capabilities) and \<open>GrantSafety\<close>, which
    composes authority and target: a grant that the authority marks fenced can never run.
  \<^item> \<open>FleetQueue\<close> (\<open>fleet/queue.py\<close>): the tables, claims and pool leases, the transitions of
    the owner of a batch, failures with their attempts, cancellation.  \<open>FleetRecovery\<close>: the
    ledger of target work, expiry and recovery, cooldowns, \<open>clear\<close> and \<open>prune_final\<close>.
    \<open>FleetSubmit\<close>: submissions, receipts, refusals and saved plans.  \<open>FleetSteps\<close> is the
    abstract machine \<open>queue_step\<close> with the invariant \<open>queue_inv\<close>, shown invariant in
    \<open>FleetInv\<close>; \<open>FleetRefine\<close> and \<open>FleetHistory\<close> show that every operation refines it and
    define the histories of operations.  \<open>FleetSafety\<close> has the lemmas on whole histories,
    \<open>FleetTheorems\<close>, \<open>FleetFences\<close>, \<open>FleetRecoverySafety\<close> and \<open>FleetReplay\<close> the properties:
    consistency of the tables, no replay of ambiguous work, exclusive pool slots, cleanup
    against cancellation, complete recovery, idempotent submission, and that the history of
    batches without a target protocol is never bounded.
  \<^item> \<open>TargetRecovery\<close> (\<open>fleet/dispatcher.py\<close>, with the client of \<open>target_resources.py\<close> and the
    queries of \<open>fleet/queue.py\<close> only it makes): recovery of expired batches, of cancellations
    and of finished batches, and the owner's release, over the models of queue and target
    together.  \<open>TargetRecoverySafety\<close>: undisturbed, the first recovery replays only commands
    that never ran and never will, whatever calls are lost; a successful cleanup is complete
    whatever others do; recovering a cancellation never replays; and three ways in which a
    recorded answer or a recorded finalization misleads a later recovery.
  \<^item> \<open>BatchRun\<close> (\<open>_run_claimed_batch\<close> of \<open>fleet/dispatcher.py\<close>, \<open>BatchHeartbeat\<close> of
    \<open>fleet/queue.py\<close>, the readers of results in \<open>fleet/executor.py\<close>): how a worker runs a claimed batch
    and settles it.  \<open>QueueChange\<close> says what the operations of an owner do to the states of jobs.
    \<open>BatchRunSafety\<close>: the locale \<open>worker_logic\<close>, with its extension \<open>settling_worker\<close>, proves the
    phases of a worker once for any invariant and relation; interpreted as \<open>wl\<close> and \<open>sw\<close>
    (a worker always returns and settles its batch), \<open>el\<close> and \<open>es\<close> (jobs are done only when
    earned) and \<open>nl\<close> (nothing in doubt is queued again).
  \<^item> \<open>DurableState\<close> (\<open>state.py\<close>): JSON documents, stored manifests and baselines, hazards of
    unknown completions.  \<open>Retention\<close>: \<open>cap_text\<close> and \<open>prune_state\<close>.  \<open>Baselines\<close>: a stored
    baseline plans like the original; two projects that share a file.  \<open>StateSafety\<close>: a
    hazard pins the evidence of its run until that run is cleared, retention keeps its budget.
  \<^item> \<open>ProjectLock\<close> (\<open>ProjectLock\<close> of \<open>state.py\<close>) at the granularity of file system calls, and
    \<open>LockSafety\<close>: exclusion in every interleaving, with processes that die anywhere; what a
    death inside the guard leaves behind.
  \<^item> \<open>JobRegistry\<close> (\<open>_job_observer.py\<close>) and \<open>RegistrySafety\<close>: registration with its cleanup,
    attribution of processes; the walk to the root of a job returns on every process table and
    is exact, doubt keeps a job registered.
  \<^item> \<open>BoundedWriter\<close> (\<open>_durable_runner.py\<close>): the log equals a reference truncation of the
    whole output however it arrives.
  \<^item> \<open>Scheduling\<close> (\<open>scheduler.py\<close>, \<open>scopes.py\<close>, the types of \<open>models.py\<close> they read) and
    \<open>Presence\<close> (\<open>presence.py\<close>) with \<open>PresenceSafety\<close>: the order of candidates, write scopes,
    presence windows that are well formed and whose queries are exact.

  \<^bold>\<open>Modelling choices.\<close>  Strings are their UTF-8 bytes; white space and alphanumerics are the
  ASCII ones.  The content of a file is its size and SHA-256, which the program itself takes
  for the content.  Case folding, \<open>os.path.normcase\<close>, SHA-256, HMAC and base64 are parameters,
  with what a theorem needs of them as its hypotheses.  JSON numbers are integers: no modelled
  operation accepts a fractional number.  SQLite transactions are all or nothing and
  serialised by \<open>BEGIN IMMEDIATE\<close>; its 64-bit limit on bound integers is not modelled.  The
  authority's metadata row is an argument of its own because the program reads it in an
  earlier transaction.  Clock, boot identifier, fresh identifiers and the observation of
  processes are fields of an environment that is arbitrary at every step of a history.  In the
  queue, times are the ISO texts that the program compares as texts; the validators of prepared
  work and of specifications, which other modules define, are fields of \<open>queue_env\<close> and
  \<open>submit_env\<close>; an unordered query returns rows in insertion order or, where the primary key
  selects them, in its order; the estimate of a claim, which no operation reads, is left out.
  A call of a history obeys \<open>call_ok\<close>: what the callers in \<open>fleet/dispatcher.py\<close> and
  \<open>fleet/executor.py\<close> pass (at most \<open>MAX_ATTEMPTS\<close>, an executing state).  A remote call of
  a recovery takes its next entry of a script: what other processes do to the queue and to the
  target before it, and whether the call or its answer is lost; the digest of a request and the
  times of backoffs and leases are parameters.  The run of a batch on its device is any
  sequence of the callbacks given to it with any result or exception, so that what is shown of a worker
  holds for every behaviour of \<open>run_batch\<close>; any of its calls may raise before it takes effect.  A stored document is what \<open>json.loads\<close> reads
  from its file, or unreadable; whether a directory can be removed, the parser of run
  timestamps, \<open>ipaddress\<close>, \<open>re.search\<close> and the host name are environment.  Moments of local
  time are microseconds.  The steps of a project lock are single file system calls, between
  any two of which processes interleave, fail or die.  All
  recursions are structural or come with a measure, so no fuel is needed.  Progress
  callbacks, reporter output and retention passes are left out.

  \<^bold>\<open>Not modelled.\<close>  The SSH transports (they implement the interface of \<open>World\<close> over
  processes), telemetry, sampling and owning operating system processes, hardware probes,
  bootstrap, \<open>gitsync.py\<close>, the command line and rendering: their substance is operating
  system calls.  Fleet placement, load balancing and the planning of presence compute with
  floating-point measurements.  Of the dispatcher and the executor the staging and launching
  of a batch and the drain loop, which run over the transports, and the validators of task
  documents and results.  Of the queue the creation and migration of its schema and read-only listings.
\<close>

end
